(* ===== verification/Py_Base.thy ===== *)
theory Py_Base
  imports Complex_Main "HOL-Library.Word" "HOL-Library.Sublist" "HOL-Library.Code_Target_Nat"
begin

text \<open>
  Shared vocabulary of the development: the Python values, text, bytes and numerals the
  modelled packages compute with.

  Text is a \<^typ>\<open>string\<close>; a \<^typ>\<open>char\<close> stands for the code point of the same number, so the
  model covers text whose code points lie below 256 (ASCII and Latin-1). \<open>str.startswith\<close>,
  \<open>str.endswith\<close> and \<open>in\<close> on text are \<^const>\<open>prefix\<close>, \<^const>\<open>suffix\<close> and \<^const>\<open>sublist\<close>.
  The decimal and hexadecimal conversions cover numerals below CPython's limit of 4300 digits.
  A \<open>float\<close> is a real number or one of the three special values; the modelled code only
  compares floats, so no rounding is involved.
\<close>

unbundle bit_operations_syntax

named_theorems py_text "facts on Python text operations"

section \<open>Values\<close>

type_synonym byte = "8 word"
type_synonym bytes = "byte list"

datatype pyfloat = Fin real | PosInf | NegInf | NaN

datatype pyval =
    PNone
  | PBool bool
  | PInt int
  | PFloat pyfloat
  | PStr string
  | PList "pyval list"
  | PDict "(string \<times> pyval) list"

text \<open>Result of a computation that may raise: \<^const>\<open>Inl\<close> carries the exception.\<close>

definition bind_res :: "'e + 'a \<Rightarrow> ('a \<Rightarrow> 'e + 'b) \<Rightarrow> 'e + 'b" where
  "bind_res r f = (case r of Inl e \<Rightarrow> Inl e | Inr a \<Rightarrow> f a)"

text \<open>A list comprehension whose element computation may raise.\<close>

fun map_res :: "('a \<Rightarrow> 'e + 'b) \<Rightarrow> 'a list \<Rightarrow> 'e + 'b list" where
  "map_res f [] = Inr []"
| "map_res f (x # xs) =
     bind_res (f x) (\<lambda>y. bind_res (map_res f xs) (\<lambda>ys. Inr (y # ys)))"

definition dict_get :: "(string \<times> pyval) list \<Rightarrow> string \<Rightarrow> pyval" where
  "dict_get d k = (case map_of d k of None \<Rightarrow> PNone | Some v \<Rightarrow> v)"

section \<open>Text\<close>

abbreviation py_ord :: "char \<Rightarrow> nat" where
  "py_ord c \<equiv> of_char c"

definition is_ascii :: "string \<Rightarrow> bool" where
  "is_ascii s = list_all (\<lambda>c. py_ord c \<le> 127) s"

definition lower_char :: "char \<Rightarrow> char" where
  "lower_char c =
     (let n = py_ord c in
      if 65 \<le> n \<and> n \<le> 90 \<or> 192 \<le> n \<and> n \<le> 214 \<or> 216 \<le> n \<and> n \<le> 222
      then char_of (n + 32) else c)"

definition py_lower :: "string \<Rightarrow> string" where
  "py_lower s = map lower_char s"

text \<open>The ASCII-only folding the package spells out as a comprehension in several modules.\<close>

definition ascii_fold :: "string \<Rightarrow> string" where
  "ascii_fold s = map (\<lambda>c. if 65 \<le> py_ord c \<and> py_ord c \<le> 90 then lower_char c else c) s"

definition is_digit_char :: "char \<Rightarrow> bool" where
  "is_digit_char c =
     (let n = py_ord c in 48 \<le> n \<and> n \<le> 57 \<or> n = 178 \<or> n = 179 \<or> n = 185)"

definition py_isdigit :: "string \<Rightarrow> bool" where
  "py_isdigit s = (s \<noteq> [] \<and> list_all is_digit_char s)"

definition py_strip :: "string \<Rightarrow> string \<Rightarrow> string" where
  "py_strip cs s =
     rev (dropWhile (\<lambda>c. c \<in> set cs) (rev (dropWhile (\<lambda>c. c \<in> set cs) s)))"

definition py_rstrip :: "string \<Rightarrow> string \<Rightarrow> string" where
  "py_rstrip cs s = rev (dropWhile (\<lambda>c. c \<in> set cs) (rev s))"

text \<open>\<open>str.split\<close> with a one-character separator: never the empty list.\<close>

fun py_split :: "char \<Rightarrow> string \<Rightarrow> string list" where
  "py_split c [] = [[]]"
| "py_split c (x # xs) =
     (if x = c then [] # py_split c xs
      else (case py_split c xs of [] \<Rightarrow> [[x]] | p # ps \<Rightarrow> (x # p) # ps))"

fun py_join :: "string \<Rightarrow> string list \<Rightarrow> string" where
  "py_join sep [] = []"
| "py_join sep [p] = p"
| "py_join sep (p # q # ps) = p @ sep @ py_join sep (q # ps)"

section \<open>Numerals\<close>

definition digit_char :: "nat \<Rightarrow> char" where
  "digit_char n = (if n < 10 then char_of (48 + n) else char_of (87 + n))"

definition digit_val :: "char \<Rightarrow> nat" where
  "digit_val c = (let n = py_ord c in if n \<le> 57 then n - 48 else n - 87)"

text \<open>\<open>str(n)\<close> is \<open>num_str 10 n\<close>, \<open>format(n, 'x')\<close> is \<open>num_str 16 n\<close>.\<close>

fun num_str :: "nat \<Rightarrow> nat \<Rightarrow> string" where
  "num_str b n =
     (if n < b \<or> b < 2 then [digit_char n] else num_str b (n div b) @ [digit_char (n mod b)])"

declare num_str.simps [simp del]

text \<open>\<open>int(s)\<close> is \<open>num_val 10 s\<close>, \<open>int(s, 16)\<close> is \<open>num_val 16 s\<close> on digit text.\<close>

definition num_val :: "nat \<Rightarrow> string \<Rightarrow> nat" where
  "num_val b s = foldl (\<lambda>a c. a * b + digit_val c) 0 s"

definition is_base_digit :: "nat \<Rightarrow> char \<Rightarrow> bool" where
  "is_base_digit b c = (c \<in> set (map digit_char [0..<b]))"

section \<open>Byte access\<close>

text \<open>
  \<open>packet[i]\<close> for an index the code has checked against the length, and the big-endian reads of
  \<open>struct.unpack_from\<close>.
\<close>

definition byte_at :: "bytes \<Rightarrow> nat \<Rightarrow> nat" where
  "byte_at bs i = unat (bs ! i)"

definition be16 :: "bytes \<Rightarrow> nat \<Rightarrow> nat" where
  "be16 bs i = byte_at bs i * 256 + byte_at bs (i + 1)"

definition py_slice :: "'a list \<Rightarrow> nat \<Rightarrow> nat \<Rightarrow> 'a list" where
  "py_slice xs i j = take (j - i) (drop i xs)"

section \<open>Lemmas on results\<close>

lemma bind_res_simps [simp]:
  "bind_res (Inl e) f = Inl e"
  "bind_res (Inr a) f = f a"
  by (simp_all add: bind_res_def)

lemma dict_get_simps [simp]:
  "dict_get [] k = PNone"
  "dict_get ((k', v) # d) k = (if k' = k then v else dict_get d k)"
  by (simp_all add: dict_get_def)

lemma bind_res_assoc: "bind_res (bind_res r f) g = bind_res r (\<lambda>a. bind_res (f a) g)"
  by (cases r) auto

lemma bind_res_Inl_iff: "bind_res x f = Inl e \<longleftrightarrow> x = Inl e \<or> (\<exists>a. x = Inr a \<and> f a = Inl e)"
  by (cases x) auto

lemma bind_res_Inr_iff:
  "bind_res r f = Inr b \<longleftrightarrow> (\<exists>a. r = Inr a \<and> f a = Inr b)"
  by (cases r) auto

lemma map_res_Inr_length: "map_res f xs = Inr ys \<Longrightarrow> length ys = length xs"
  by (induction xs arbitrary: ys) (auto simp: bind_res_Inr_iff)

lemma map_res_Inr_ball:
  assumes "map_res f xs = Inr ys" and "\<And>x y. x \<in> set xs \<Longrightarrow> f x = Inr y \<Longrightarrow> P y"
  shows "\<forall>y \<in> set ys. P y"
  using assms
proof (induction xs arbitrary: ys)
  case (Cons x xs)
  then obtain y zs where "f x = Inr y" "map_res f xs = Inr zs" "ys = y # zs"
    by (auto simp: bind_res_Inr_iff)
  with Cons show ?case by (metis list.set_intros set_ConsD)
qed simp

section \<open>Lemmas on lists\<close>

lemma length_4_conv: "length xs = 4 \<longleftrightarrow> (\<exists>a b c d. xs = [a, b, c, d])"
  by (auto simp: numeral_eq_Suc length_Suc_conv)

lemma length_8_conv:
  "length xs = 8 \<longleftrightarrow> (\<exists>a b c d e f g h. xs = [a, b, c, d, e, f, g, h])"
  by (auto simp: numeral_eq_Suc length_Suc_conv)

section \<open>Lemmas on text\<close>

lemma py_split_nonempty [simp]: "py_split c s \<noteq> []"
  by (induction s) (auto split: list.splits)

lemma py_split_sep_free: "p \<in> set (py_split c s) \<Longrightarrow> c \<notin> set p"
proof (induction s arbitrary: p)
  case (Cons x xs)
  then show ?case
    by (cases "py_split c xs") (auto split: if_splits)
qed simp

lemma py_join_Cons: "ps \<noteq> [] \<Longrightarrow> py_join sep (p # ps) = p @ sep @ py_join sep ps"
  by (cases ps) auto

lemma py_join_split [py_text]: "py_join [c] (py_split c s) = s"
proof (induction s)
  case (Cons x xs)
  show ?case
  proof (cases "py_split c xs")
    case Nil
    then show ?thesis by simp
  next
    case (Cons p ps)
    then show ?thesis
      using Cons.IH by (cases ps) (auto simp: py_join_Cons)
  qed
qed simp

lemma py_split_sep_free_self: "c \<notin> set p \<Longrightarrow> py_split c p = [p]"
  by (induction p) auto

lemma py_split_append_sep: "c \<notin> set p \<Longrightarrow> py_split c (p @ c # s) = p # py_split c s"
  by (induction p) auto

lemma py_split_join [py_text]:
  "ps \<noteq> [] \<Longrightarrow> \<forall>p \<in> set ps. c \<notin> set p \<Longrightarrow> py_split c (py_join [c] ps) = ps"
proof (induction ps)
  case (Cons p ps)
  then show ?case
    by (cases ps) (auto simp: py_split_sep_free_self py_split_append_sep)
qed simp

lemma py_split_inj: "py_split c s = py_split c t \<longleftrightarrow> s = t"
  by (metis py_join_split)

lemma set_py_join: "set (py_join sep ps) \<subseteq> set sep \<union> (\<Union>p \<in> set ps. set p)"
  by (induction sep ps rule: py_join.induct) auto

lemma py_join_eq_Nil: "ps \<noteq> [] \<Longrightarrow> \<forall>p \<in> set ps. p \<noteq> [] \<Longrightarrow> py_join sep ps \<noteq> []"
  by (induction sep ps rule: py_join.induct) auto

lemma hd_py_join: "q \<noteq> [] \<Longrightarrow> hd (py_join sep (q # qs)) = hd q"
  by (cases qs) auto

lemma last_py_join:
  "ps \<noteq> [] \<Longrightarrow> \<forall>p \<in> set ps. p \<noteq> [] \<Longrightarrow> last (py_join sep ps) \<in> set (last ps)"
  by (induction sep ps rule: py_join.induct) (auto simp: py_join_eq_Nil)

lemma py_rstrip_no_strip: "s = [] \<or> last s \<notin> set cs \<Longrightarrow> py_rstrip cs s = s"
  by (cases s rule: rev_cases) (auto simp: py_rstrip_def)

lemma set_subset_py_join: "p \<in> set ps \<Longrightarrow> set p \<subseteq> set (py_join sep ps)"
  by (induction sep ps rule: py_join.induct) auto

lemma is_ascii_iff: "is_ascii s \<longleftrightarrow> (\<forall>c \<in> set s. py_ord c \<le> 127)"
  by (simp add: is_ascii_def list_all_iff)

lemma lower_char_ascii: "py_ord c \<le> 127 \<Longrightarrow> py_ord (lower_char c) \<le> 127"
  by (auto simp: lower_char_def Let_def of_char_of take_bit_eq_mod)

lemma length_ascii_fold [simp]: "length (ascii_fold s) = length s"
  by (simp add: ascii_fold_def)

lemma ascii_fold_eq_Nil [simp]: "ascii_fold s = [] \<longleftrightarrow> s = []"
  by (simp add: ascii_fold_def)

lemma py_strip_no_strip:
  assumes "s \<noteq> []" "hd s \<notin> set cs" "last s \<notin> set cs"
  shows "py_strip cs s = s"
proof -
  have "dropWhile (\<lambda>c. c \<in> set cs) s = s"
    using assms(1,2) by (cases s) auto
  moreover have "dropWhile (\<lambda>c. c \<in> set cs) (rev s) = rev s"
    using assms(1,3) by (cases s rule: rev_cases) auto
  ultimately show ?thesis by (simp add: py_strip_def)
qed

section \<open>Lemmas on numerals\<close>

lemma num_str_nonempty [simp]: "num_str b n \<noteq> []"
  by (subst num_str.simps) simp

lemma digit_val_char [simp]: "n < 16 \<Longrightarrow> digit_val (digit_char n) = n"
  by (auto simp: digit_val_def digit_char_def of_char_of take_bit_eq_mod)

lemma py_ord_digit_char:
  "n < 16 \<Longrightarrow> py_ord (digit_char n) = (if n < 10 then 48 + n else 87 + n)"
  by (auto simp: digit_char_def of_char_of take_bit_eq_mod)

lemma is_base_digit_iff: "is_base_digit b c \<longleftrightarrow> (\<exists>n < b. c = digit_char n)"
  by (auto simp: is_base_digit_def)

lemma num_str_digits: "2 \<le> b \<Longrightarrow> c \<in> set (num_str b n) \<Longrightarrow> is_base_digit b c"
proof (induction b n rule: num_str.induct)
  case (1 b n)
  show ?case
  proof (cases "n < b")
    case True
    with "1.prems" show ?thesis
      by (auto simp: num_str.simps [of b n] is_base_digit_iff)
  next
    case False
    with "1.prems" have "c \<in> set (num_str b (n div b)) \<or> c = digit_char (n mod b)"
      by (auto simp: num_str.simps [of b n])
    moreover have "n mod b < b" using "1.prems" by simp
    moreover have "is_base_digit b c" if "c \<in> set (num_str b (n div b))"
      using "1.IH" "1.prems" False that by simp
    ultimately show ?thesis
      by (auto simp: is_base_digit_iff)
  qed
qed

lemma num_val_append: "num_val b (s @ [c]) = num_val b s * b + digit_val c"
  by (simp add: num_val_def)

lemma num_val_num_str [simp]: "2 \<le> b \<Longrightarrow> b \<le> 16 \<Longrightarrow> num_val b (num_str b n) = n"
proof (induction b n rule: num_str.induct)
  case (1 b n)
  show ?case
  proof (cases "n < b")
    case True
    with "1.prems" show ?thesis
      by (simp add: num_str.simps [of b n] num_val_def)
  next
    case False
    with 1 have "num_val b (num_str b (n div b)) = n div b" by simp
    moreover have "digit_val (digit_char (n mod b)) = n mod b"
      using "1.prems" by (intro digit_val_char) (meson less_le_trans mod_less_divisor pos2 order_less_le_trans)
    ultimately show ?thesis
      using False "1.prems" by (simp add: num_str.simps [of b n] num_val_append)
  qed
qed

text \<open>The length of a numeral bounds its value and is bounded by it.\<close>

lemma num_str_length: "2 \<le> b \<Longrightarrow> n < b ^ k \<Longrightarrow> 0 < k \<Longrightarrow> length (num_str b n) \<le> k"
proof (induction k arbitrary: n)
  case (Suc k)
  show ?case
  proof (cases "n < b")
    case True
    then show ?thesis by (simp add: num_str.simps [of b n])
  next
    case False
    then have "0 < k" using Suc.prems by (cases k) auto
    moreover have "n div b < b ^ k"
      using Suc.prems by (simp add: less_mult_imp_div_less mult.commute)
    ultimately show ?thesis
      using False Suc by (simp add: num_str.simps [of b n])
  qed
qed simp

text \<open>A numeral has no leading zero unless it is the numeral of zero.\<close>

lemma num_str_no_leading_zero:
  "2 \<le> b \<Longrightarrow> b \<le> 16 \<Longrightarrow> hd (num_str b n) = digit_char 0 \<Longrightarrow> n = 0"
proof (induction b n rule: num_str.induct)
  case (1 b n)
  show ?case
  proof (cases "n < b")
    case True
    with "1.prems" have "digit_val (digit_char n) = digit_val (digit_char 0)"
      by (simp add: num_str.simps [of b n])
    then show ?thesis using True "1.prems" by simp
  next
    case False
    with "1.prems" have "hd (num_str b (n div b)) = digit_char 0"
      by (simp add: num_str.simps [of b n])
    with 1 False have "n div b = 0" by simp
    then show ?thesis using False "1.prems" by (simp add: div_eq_0_iff)
  qed
qed

text \<open>Printing the value of a canonical digit text gives the text back.\<close>

lemma num_str_num_val:
  assumes "2 \<le> b" "b \<le> 16" "s \<noteq> []" "\<forall>c \<in> set s. is_base_digit b c"
    and "length s > 1 \<Longrightarrow> hd s \<noteq> digit_char 0"
  shows "num_str b (num_val b s) = s"
  using assms(3-5)
proof (induction s rule: rev_induct)
  case (snoc c s)
  from snoc.prems obtain d where d: "d < b" "c = digit_char d"
    by (auto simp: is_base_digit_iff)
  have dv: "digit_val c = d" using d assms(2) by simp
  show ?case
  proof (cases "s = []")
    case True
    with d dv show ?thesis by (simp add: num_val_def num_str.simps)
  next
    case False
    have nz: "hd s \<noteq> digit_char 0" using snoc.prems False by (cases s) auto
    have IH: "num_str b (num_val b s) = s"
      using snoc False nz by simp
    have pos: "0 < num_val b s"
    proof (rule ccontr)
      assume "\<not> 0 < num_val b s"
      then have "num_str b (num_val b s) = [digit_char 0]"
        using assms(1) by (simp add: num_str.simps)
      with IH nz show False by (metis list.sel(1))
    qed
    have "num_val b (s @ [c]) = num_val b s * b + d"
      by (simp add: num_val_append dv)
    moreover have "\<not> num_val b s * b + d < b" using pos
      by (cases "num_val b s") auto
    moreover have "(num_val b s * b + d) div b = num_val b s" "(num_val b s * b + d) mod b = d"
      using d by auto
    ultimately show ?thesis
      using assms(1) IH d by (simp add: num_str.simps [of b "num_val b s * b + d"])
  qed
qed simp

lemma num_str_inj: "2 \<le> b \<Longrightarrow> b \<le> 16 \<Longrightarrow> num_str b n = num_str b m \<longleftrightarrow> n = m"
  by (metis num_val_num_str)

lemma num_str_ten_inj [simp]: "num_str 10 n = num_str 10 m \<longleftrightarrow> n = m"
  by (rule num_str_inj) simp_all

lemma digit_char_zero: "digit_char 0 = CHR ''0''"
  by code_simp

lemma num_val_bound:
  "2 \<le> b \<Longrightarrow> b \<le> 16 \<Longrightarrow> \<forall>c \<in> set s. is_base_digit b c \<Longrightarrow> num_val b s < b ^ length s"
proof (induction s rule: rev_induct)
  case (snoc c s)
  then obtain d where "d < b" "c = digit_char d" by (auto simp: is_base_digit_iff)
  with snoc have "num_val b s + 1 \<le> b ^ length s" "digit_val c < b" by auto
  moreover from this have "(num_val b s + 1) * b \<le> b ^ length s * b"
    by (intro mult_le_mono1)
  ultimately show ?case by (simp add: num_val_append algebra_simps)
qed (simp add: num_val_def)

lemma dec_digit_iff: "py_ord c \<le> 127 \<Longrightarrow> is_digit_char c \<longleftrightarrow> is_base_digit 10 c"
proof -
  assume c: "py_ord c \<le> 127"
  have "\<exists>n < 10. c = digit_char n" if "48 \<le> py_ord c" "py_ord c \<le> 57"
    using that by (intro exI [of _ "py_ord c - 48"]) (auto simp: digit_char_def)
  then show ?thesis
    using c by (auto simp: is_base_digit_iff is_digit_char_def Let_def py_ord_digit_char)
qed

lemma hex_digit_iff: "c \<in> set ''0123456789abcdef'' \<longleftrightarrow> is_base_digit 16 c"
proof -
  have "map digit_char [0..<16] = ''0123456789abcdef''" by code_simp
  then show ?thesis by (simp add: is_base_digit_def)
qed

lemma num_str_py_ord:
  "2 \<le> b \<Longrightarrow> b \<le> 16 \<Longrightarrow> c \<in> set (num_str b n) \<Longrightarrow>
     48 \<le> py_ord c \<and> py_ord c \<le> 57 \<or> 97 \<le> py_ord c \<and> py_ord c \<le> 102"
  by (drule (1) num_str_digits) (auto simp: is_base_digit_iff py_ord_digit_char split: if_splits)

lemma num_str_ten_py_ord: "c \<in> set (num_str 10 n) \<Longrightarrow> 48 \<le> py_ord c \<and> py_ord c \<le> 57"
  using num_str_digits [of 10 c n] by (auto simp: is_base_digit_iff py_ord_digit_char)

section \<open>Lemmas on bytes\<close>

lemma push_or_add: "b < 2 ^ n \<Longrightarrow> push_bit n a OR b = a * 2 ^ n + b" for a b :: nat
proof -
  assume b: "b < 2 ^ n"
  have "push_bit n a + b = push_bit n a OR b"
  proof (rule disjunctive_add_eq_or, rule bit_eqI)
    fix k
    have "\<not> (n \<le> k \<and> bit b k)"
      using b by (metis bit_take_bit_iff linorder_not_less take_bit_nat_eq_self)
    then show "bit (push_bit n a AND b) k \<longleftrightarrow> bit 0 k"
      by (auto simp: bit_simps)
  qed
  then show ?thesis by (simp add: push_bit_eq_mult)
qed

lemma and_mask_nat: "a AND (2 ^ n - 1) = a mod 2 ^ n" for a :: nat
  by (simp add: take_bit_eq_mod [symmetric] take_bit_eq_mask mask_eq_exp_minus_1)

lemma unat_byte_less: "unat (b :: byte) < 256"
  using unsigned_less [of b] by simp

lemma byte_at_less [simp]: "byte_at bs i < 256"
  using unsigned_less [of "bs ! i", where 'a = nat] by (simp add: byte_at_def)

lemma be16_less: "be16 bs i < 65536"
  using byte_at_less [of bs i] byte_at_less [of bs "i + 1"]
  unfolding be16_def by linarith

lemma py_slice_append: "py_slice (xs @ ys @ zs) (length xs) (length xs + length ys) = ys"
  by (simp add: py_slice_def)

lemma length_py_slice: "j \<le> length xs \<Longrightarrow> i \<le> j \<Longrightarrow> length (py_slice xs i j) = j - i"
  by (simp add: py_slice_def)

end
