(* ===== verification/T5_Decision.thy ===== *)
theory T5_Decision
  imports Py_Base
begin

text \<open>
  The decision values of \<open>t5_egress/decision.py\<close>: the record every case returns, its four
  constructors and the enrollment and mode gate that runs before each case policy.
\<close>

named_theorems decision_defs "definitions of the decision constructors"

record Decision =
  action :: string
  reason :: string
  enforce_outcome :: string
  transmit :: bool
  evaluation_failure :: bool
  label :: string

definition mk_decision :: "string \<Rightarrow> string \<Rightarrow> string \<Rightarrow> bool \<Rightarrow> bool \<Rightarrow> Decision" where
  "mk_decision act rsn outcome tx failed =
     \<lparr>action = act, reason = rsn, enforce_outcome = outcome, transmit = tx,
      evaluation_failure = failed, label = ''Lab-only''\<rparr>"

definition as_dict :: "Decision \<Rightarrow> (string \<times> pyval) list" where
  "as_dict d =
     [(''action'', PStr (action d)),
      (''reason'', PStr (reason d)),
      (''enforce_outcome'', PStr (enforce_outcome d)),
      (''transmit'', PBool (transmit d)),
      (''evaluation_failure'', PBool (evaluation_failure d)),
      (''label'', PStr (label d))]"

definition allow_decision :: Decision where
  "allow_decision = mk_decision ''ALLOW'' ''policy_permits'' ''allow'' True False"

definition deny_classified :: "string \<Rightarrow> string \<Rightarrow> Decision" where
  "deny_classified rsn mode =
     (if mode = ''observe'' then mk_decision ''OBSERVE_WOULD_DENY'' rsn ''fail_closed'' True False
      else mk_decision ''DENY'' rsn ''fail_closed'' False False)"

definition deny_eval :: "string \<Rightarrow> Decision" where
  "deny_eval rsn = mk_decision ''DENY'' rsn ''fail_closed'' False True"

definition not_in_scope :: "string \<Rightarrow> Decision" where
  "not_in_scope rsn = mk_decision ''NOT_IN_SCOPE'' rsn ''not_applicable'' False False"

text \<open>Enrollment and mode checks; \<^const>\<open>None\<close> means the case policy applies.\<close>

definition gate_call :: "pyval \<Rightarrow> pyval \<Rightarrow> Decision option" where
  "gate_call enrolled mode =
     (if mode \<notin> {PStr ''observe'', PStr ''enforce''} then Some (deny_eval ''policy_malformed'')
      else (case enrolled of
              PBool True \<Rightarrow> None
            | PBool False \<Rightarrow> Some (not_in_scope ''control_not_attached'')
            | _ \<Rightarrow> Some (deny_eval ''enrollment_unknown'')))"

text \<open>
  The shape every decision of the package has: the action determines the outcome token, whether
  the packet is transmitted and, for a deny, whether the evaluation itself failed.
\<close>

definition decision_wf :: "string \<Rightarrow> Decision \<Rightarrow> bool" where
  "decision_wf mode d =
     (label d = ''Lab-only'' \<and>
      (action d = ''ALLOW'' \<and> enforce_outcome d = ''allow'' \<and> transmit d
         \<and> \<not> evaluation_failure d \<and> reason d = ''policy_permits''
       \<or> action d = ''OBSERVE_WOULD_DENY'' \<and> enforce_outcome d = ''fail_closed'' \<and> transmit d
         \<and> \<not> evaluation_failure d \<and> mode = ''observe''
       \<or> action d = ''DENY'' \<and> enforce_outcome d = ''fail_closed'' \<and> \<not> transmit d
       \<or> action d = ''NOT_IN_SCOPE'' \<and> enforce_outcome d = ''not_applicable'' \<and> \<not> transmit d
         \<and> \<not> evaluation_failure d))"

lemmas decision_constructors [decision_defs] =
  allow_decision_def deny_classified_def deny_eval_def not_in_scope_def mk_decision_def

lemma gate_call_None_iff:
  "gate_call enrolled mode = None \<longleftrightarrow>
     enrolled = PBool True \<and> (mode = PStr ''observe'' \<or> mode = PStr ''enforce'')"
  by (auto simp: gate_call_def split: pyval.splits bool.splits)

lemma gate_call_Some_not_transmit:
  "gate_call enrolled mode = Some d \<Longrightarrow> \<not> transmit d \<and> action d \<noteq> ''ALLOW''"
  by (auto simp: gate_call_def decision_defs split: if_splits pyval.splits bool.splits)

lemma decision_wf_constructors [simp, intro]:
  "decision_wf m allow_decision"
  "decision_wf m (deny_classified r m)"
  "decision_wf m (deny_eval r)"
  "decision_wf m (not_in_scope r)"
  by (auto simp: decision_wf_def decision_defs)

lemma gate_call_wf: "gate_call enrolled mode = Some d \<Longrightarrow> decision_wf m d"
  by (auto simp: gate_call_def split: if_splits pyval.splits bool.splits)

lemma decision_wf_enforce_transmit:
  "decision_wf ''enforce'' d \<Longrightarrow> transmit d \<longleftrightarrow> action d = ''ALLOW''"
  by (auto simp: decision_wf_def)

lemma action_simps [simp]:
  "action allow_decision = ''ALLOW''"
  "action (deny_classified r m) = (if m = ''observe'' then ''OBSERVE_WOULD_DENY'' else ''DENY'')"
  "action (deny_eval r) = ''DENY''"
  "action (not_in_scope r) = ''NOT_IN_SCOPE''"
  by (simp_all add: decision_defs)

lemma allow_neq [simp]:
  "deny_classified r m \<noteq> allow_decision" "deny_eval r \<noteq> allow_decision"
  "not_in_scope r \<noteq> allow_decision"
  by (auto simp: decision_defs)

end
