(* ===== verification/Gate_Spec.thy ===== *)
theory Gate_Spec
  imports Py_Base
begin

text \<open>
  The contract of a rate gate, which the two DNS paths rely on: the sliding window of the userspace
  decision and the fixed window of the kernel model. A gate answers \<open>ok\<close>, \<open>over\<close> or \<open>failure\<close>,
  never stores more than its cap, and no call changes the cap. The clients' lemmas on whole runs
  are proved once here and instantiated by the interpretations of the two providers.
\<close>

text \<open>Running a gate over a sequence of attempts: the answers and the final state.\<close>

fun gate_runs :: "('i \<Rightarrow> 's \<Rightarrow> string \<times> 's) \<Rightarrow> 'i list \<Rightarrow> 's \<Rightarrow> string list \<times> 's" where
  "gate_runs hit [] s = ([], s)"
| "gate_runs hit (i # is) s =
     (let (answer, s1) = hit i s; (answers, s2) = gate_runs hit is s1 in (answer # answers, s2))"

locale bounded_gate =
  fixes hit :: "'i \<Rightarrow> 's \<Rightarrow> string \<times> 's"
    and used :: "'s \<Rightarrow> int"
    and cap :: "'s \<Rightarrow> int"
    and inv :: "'s \<Rightarrow> bool"
  assumes inv_hit: "inv s \<Longrightarrow> inv (snd (hit i s))"
    and cap_hit: "cap (snd (hit i s)) = cap s"
    and inv_bound: "inv s \<Longrightarrow> used s \<le> max 0 (cap s)"
    and hit_answer: "fst (hit i s) \<in> {''ok'', ''over'', ''failure''}"
begin

lemma runs_Cons:
  "gate_runs hit (i # is) s =
     (fst (hit i s) # fst (gate_runs hit is (snd (hit i s))), snd (gate_runs hit is (snd (hit i s))))"
  by (simp add: case_prod_beta)

lemma runs_inv: "inv s \<Longrightarrow> inv (snd (gate_runs hit is s))"
  by (induction "is" arbitrary: s) (auto simp: runs_Cons inv_hit simp del: gate_runs.simps(2))

lemma runs_cap: "cap (snd (gate_runs hit is s)) = cap s"
  by (induction "is" arbitrary: s) (auto simp: runs_Cons cap_hit simp del: gate_runs.simps(2))

lemma runs_bounded: "inv s \<Longrightarrow> used (snd (gate_runs hit is s)) \<le> max 0 (cap s)"
  using runs_inv runs_cap inv_bound by metis

lemma runs_answers: "set (fst (gate_runs hit is s)) \<subseteq> {''ok'', ''over'', ''failure''}"
  using hit_answer
  by (induction "is" arbitrary: s) (auto simp: runs_Cons simp del: gate_runs.simps(2))

lemma runs_length: "length (fst (gate_runs hit is s)) = length is"
  by (induction "is" arbitrary: s) (auto simp: runs_Cons simp del: gate_runs.simps(2))

end

end
