(* ===== verification/T5_Volume.thy ===== *)
theory T5_Volume
  imports Gate_Spec
begin

text \<open>
  \<open>t5_egress/volume.py\<close>: the query gate of one workload, a sliding window over the time stamps of
  the recent attempts. \<open>hit\<close> holds the lock for its whole body, so a run of the gate is a sequence
  of \<open>hit\<close> calls and the state is passed from call to call. The clock the gate reads when no stamp
  is given is an argument: \<^const>\<open>None\<close> when reading it raised.

  The gate keeps at most \<open>max_queries\<close> stamps. The lemmas relate it to an unbounded log of all
  attempts: while the clock does not run backwards, the gate answers \<open>over\<close> exactly when the log
  holds \<open>max_queries\<close> or more attempts inside the window.
\<close>

section \<open>Definitions\<close>

record VolumeGate =
  max_queries :: int
  window_ns :: int
  gate_workload_id :: string
  times :: "int list"
  broken :: bool

definition volume_gate_init :: "int \<Rightarrow> int \<Rightarrow> pyval \<Rightarrow> string + VolumeGate" where
  "volume_gate_init max_q window_seconds workload =
     (case workload of
        PStr w \<Rightarrow>
          if w = [] \<or> length w > 64 then Inl ''workload id''
          else if \<not> is_ascii w then Inl ''workload id''
          else Inr \<lparr>max_queries = max_q, window_ns = window_seconds * 1000000000,
                    gate_workload_id = w, times = [], broken = False\<rparr>
      | _ \<Rightarrow> Inl ''workload id'')"

definition mark_broken :: "VolumeGate \<Rightarrow> VolumeGate" where
  "mark_broken g = g\<lparr>broken := True, times := []\<rparr>"

text \<open>The body under the lock, for an integer stamp. \<open>pop(0)\<close> on an empty list raises
  \<open>IndexError\<close>, which breaks the gate; it happens when \<open>max_queries\<close> is not positive.\<close>

definition gate_hit_stamp :: "VolumeGate \<Rightarrow> pyval \<Rightarrow> int \<Rightarrow> string \<times> VolumeGate" where
  "gate_hit_stamp g workload stamp =
     (if broken g then (''failure'', g)
      else if workload \<noteq> PStr (gate_workload_id g) then (''failure'', g)
      else
        (let cutoff = stamp - window_ns g;
             kept = filter (\<lambda>item. item > cutoff) (times g)
         in if int (length kept) \<ge> max_queries g then
              (case kept of
                 [] \<Rightarrow> (''failure'', g\<lparr>broken := True, times := []\<rparr>)
               | _ # rest \<Rightarrow> (''over'', g\<lparr>times := rest @ [stamp]\<rparr>))
            else (''ok'', g\<lparr>times := kept @ [stamp]\<rparr>)))"

definition gate_hit :: "int option \<Rightarrow> VolumeGate \<Rightarrow> pyval \<Rightarrow> pyval \<Rightarrow> string \<times> VolumeGate" where
  "gate_hit clock g workload now_ns =
     (case now_ns of
        PNone \<Rightarrow>
          (case clock of
             None \<Rightarrow> (''failure'', mark_broken g)
           | Some stamp \<Rightarrow> gate_hit_stamp g workload stamp)
      | PInt stamp \<Rightarrow> gate_hit_stamp g workload stamp
      | _ \<Rightarrow> (''failure'', mark_broken g))"

definition gate_stored :: "VolumeGate \<Rightarrow> nat" where
  "gate_stored g = length (times g)"

text \<open>The specification: an unbounded list of all attempts, the newest last.\<close>

definition history_hit :: "int \<Rightarrow> int \<Rightarrow> int \<Rightarrow> int list \<Rightarrow> string \<times> int list" where
  "history_hit max_q window t attempts =
     (if int (length (filter (\<lambda>s. s > t - window) attempts)) \<ge> max_q then ''over'' else ''ok'',
      attempts @ [t])"

section \<open>The gate invariant\<close>

definition gate_inv :: "VolumeGate \<Rightarrow> bool" where
  "gate_inv g = (int (length (times g)) \<le> max 0 (max_queries g))"

lemma gate_hit_stamp_params [simp]:
  "max_queries (snd (gate_hit_stamp g w t)) = max_queries g"
  "window_ns (snd (gate_hit_stamp g w t)) = window_ns g"
  "gate_workload_id (snd (gate_hit_stamp g w t)) = gate_workload_id g"
  by (auto simp: gate_hit_stamp_def Let_def split: list.splits)

lemma gate_hit_stamp_inv: "gate_inv g \<Longrightarrow> gate_inv (snd (gate_hit_stamp g w t))"
proof (cases "filter (\<lambda>item. item > t - window_ns g) (times g)")
  case Nil
  assume "gate_inv g"
  then show ?thesis
    using Nil by (auto simp: gate_inv_def gate_hit_stamp_def Let_def)
next
  case (Cons x xs)
  assume inv: "gate_inv g"
  have "length (x # xs) \<le> length (times g)"
    using length_filter_le [of _ "times g"] Cons by metis
  then show ?thesis
    using Cons inv by (auto simp: gate_inv_def gate_hit_stamp_def Let_def)
qed

lemma mark_broken_inv [simp]: "gate_inv (mark_broken g)"
  by (simp add: gate_inv_def mark_broken_def)

lemma gate_hit_inv: "gate_inv g \<Longrightarrow> gate_inv (snd (gate_hit clock g w n))"
  by (auto simp: gate_hit_def gate_hit_stamp_inv split: pyval.splits option.splits)

lemma gate_hit_params [simp]: "max_queries (snd (gate_hit clock g w n)) = max_queries g"
  by (auto simp: gate_hit_def mark_broken_def split: pyval.splits option.splits)

lemma gate_hit_stamp_answer:
  "fst (gate_hit_stamp g w t) \<in> {''ok'', ''over'', ''failure''}"
  by (auto simp: gate_hit_stamp_def Let_def split: list.splits)

lemma gate_hit_answer: "fst (gate_hit clock g w n) \<in> {''ok'', ''over'', ''failure''}"
  using gate_hit_stamp_answer by (auto simp: gate_hit_def split: pyval.splits option.splits)

text \<open>A broken gate stays broken and answers \<open>failure\<close> from then on.\<close>

lemma broken_gate_hit: "broken g \<Longrightarrow> fst (gate_hit clock g w n) = ''failure'' \<and> broken (snd (gate_hit clock g w n))"
  by (auto simp: gate_hit_def gate_hit_stamp_def mark_broken_def split: pyval.splits option.splits)

interpretation volume: bounded_gate
  "\<lambda>(clock, w, n) g. gate_hit clock g w n" "\<lambda>g. int (gate_stored g)" max_queries gate_inv
proof (unfold_locales, goal_cases)
  case (1 s i)
  then show ?case by (cases i) (simp add: gate_hit_inv)
next
  case (2 i s)
  then show ?case by (cases i) simp
next
  case (3 s)
  then show ?case by (simp add: gate_inv_def gate_stored_def)
next
  case (4 i s)
  then show ?case using gate_hit_answer by (cases i) simp
qed

section \<open>Refinement of the unbounded history\<close>

lemma sorted_filter_gt: "sorted xs \<Longrightarrow> filter (\<lambda>s. s > c) xs = dropWhile (\<lambda>s. s \<le> c) xs"
  for c :: int
proof (induction xs)
  case (Cons x xs)
  show ?case
  proof (cases "x \<le> c")
    case True
    with Cons show ?thesis by simp
  next
    case False
    with Cons have "\<forall>y \<in> set xs. c < y" by force
    with False show ?thesis by (simp add: filter_id_conv)
  qed
qed simp

text \<open>The kept stamps are a tail of the history, and an attempt is missing from it only when the
  gate is full or the attempt has left the window.\<close>

definition keeps_tail :: "VolumeGate \<Rightarrow> int list \<Rightarrow> bool" where
  "keeps_tail g attempts =
     (\<not> broken g \<and> sorted attempts \<and>
      (\<exists>old. attempts = old @ times g
         \<and> (int (length (times g)) = max_queries g
            \<or> (\<forall>x \<in> set old. x \<le> last attempts - window_ns g))))"

lemma full_or_expired:
  fixes c :: int
  assumes "sorted (old @ xs)" "c \<ge> bnd" "full \<or> (\<forall>x \<in> set old. x \<le> bnd)"
  shows "full \<and> filter (\<lambda>s. s > c) xs = xs \<or> (\<forall>x \<in> set old. x \<le> c)"
proof (cases "filter (\<lambda>s. s > c) xs = xs")
  case True
  then show ?thesis using assms(2,3) by force
next
  case False
  then obtain y where y: "y \<in> set xs" "y \<le> c" by (auto simp: filter_id_conv)
  have "x \<le> y" if "x \<in> set old" for x
    using assms(1) y(1) that by (auto simp: sorted_append)
  with y(2) show ?thesis by force
qed

lemma keeps_tail_step:
  assumes "keeps_tail g attempts" "gate_inv g" "0 < max_queries g" "sorted (attempts @ [t])"
  shows "fst (gate_hit_stamp g (PStr (gate_workload_id g)) t) =
      fst (history_hit (max_queries g) (window_ns g) t attempts)
    \<and> keeps_tail (snd (gate_hit_stamp g (PStr (gate_workload_id g)) t)) (attempts @ [t])"
proof -
  let ?c = "t - window_ns g"
  let ?kept = "filter (\<lambda>s. s > ?c) (times g)" and ?exp = "takeWhile (\<lambda>s. s \<le> ?c) (times g)"
  obtain old where old: "attempts = old @ times g" and nb: "\<not> broken g" and srt: "sorted attempts"
    and drop: "int (length (times g)) = max_queries g \<or> (\<forall>x \<in> set old. x \<le> last attempts - window_ns g)"
    using assms(1) by (auto simp: keeps_tail_def)
  have "old = [] \<or> last attempts \<le> t"
    using assms(4) old last_in_set [of attempts] by (auto simp: sorted_append)
  then have cases: "int (length (times g)) = max_queries g \<and> ?kept = times g \<or> (\<forall>x \<in> set old. x \<le> ?c)"
    using full_or_expired [of old "times g" "last attempts - window_ns g" ?c
        "int (length (times g)) = max_queries g"] srt old drop by auto
  have split: "times g = ?exp @ ?kept"
    using sorted_filter_gt [of "times g" ?c] srt old by (simp add: sorted_append)
  have len: "int (length ?kept) \<le> max_queries g"
    using assms(2,3) length_filter_le [of "\<lambda>s. s > ?c" "times g"] unfolding gate_inv_def by linarith
  have count: "filter (\<lambda>s. s > ?c) attempts = filter (\<lambda>s. s > ?c) old @ ?kept"
    by (simp add: old)
  show ?thesis
  proof (cases "int (length ?kept) = max_queries g")
    case True
    then obtain y ys where ys: "?kept = y # ys" using assms(3) by (cases ?kept) auto
    then have hit: "gate_hit_stamp g (PStr (gate_workload_id g)) t = (''over'', g\<lparr>times := ys @ [t]\<rparr>)"
      using nb True by (simp add: gate_hit_stamp_def)
    have "attempts @ [t] = (old @ ?exp @ [y]) @ ys @ [t]"
      using old split ys by (metis append_Cons append_Nil append_assoc)
    moreover have "int (length (ys @ [t])) = max_queries g" using True ys by simp
    ultimately show ?thesis
      using True nb assms(4) unfolding hit history_hit_def count keeps_tail_def
      by (auto intro!: exI [of _ "old @ ?exp @ [y]"])
  next
    case False
    with cases len have out: "\<forall>x \<in> set old. x \<le> ?c" by auto
    have hit: "gate_hit_stamp g (PStr (gate_workload_id g)) t = (''ok'', g\<lparr>times := ?kept @ [t]\<rparr>)"
      using nb False len by (simp add: gate_hit_stamp_def)
    have "filter (\<lambda>s. s > ?c) old = []" using out by (auto simp: filter_empty_conv)
    moreover have "attempts @ [t] = (old @ ?exp) @ ?kept @ [t]"
      using old split by (metis append_assoc)
    moreover have "\<forall>x \<in> set (old @ ?exp). x \<le> last (attempts @ [t]) - window_ns g"
      using out by (auto dest: set_takeWhileD)
    ultimately show ?thesis
      using nb False len assms(4) unfolding hit history_hit_def count keeps_tail_def
      by (auto intro!: exI [of _ "old @ ?exp"])
  qed
qed

lemma gate_runs_history:
  assumes "keeps_tail g attempts" "gate_inv g" "0 < max_queries g" "sorted (attempts @ ts)"
    and "max_q = max_queries g" "window = window_ns g" "w = gate_workload_id g"
  shows "fst (gate_runs (\<lambda>t g. gate_hit_stamp g (PStr w) t) ts g) =
         fst (gate_runs (history_hit max_q window) ts attempts)"
  using assms
proof (induction ts arbitrary: g attempts)
  case (Cons t ts)
  let ?g = "snd (gate_hit_stamp g (PStr w) t)"
  from Cons.prems have srt: "sorted (attempts @ [t])" "sorted ((attempts @ [t]) @ ts)"
    by (auto simp: sorted_append)
  note step = keeps_tail_step [OF Cons.prems(1-3) srt(1), folded Cons.prems(5-7)]
  have "fst (gate_runs (\<lambda>t g. gate_hit_stamp g (PStr w) t) ts ?g) =
        fst (gate_runs (history_hit max_q window) ts (attempts @ [t]))"
    using step gate_hit_stamp_inv [OF Cons.prems(2)] Cons.prems srt(2) by (intro Cons.IH) simp_all
  moreover have "snd (history_hit max_q window t attempts) = attempts @ [t]"
    by (simp add: history_hit_def)
  ultimately show ?case
    using step by (simp add: case_prod_beta)
qed simp

section \<open>Properties\<close>

text \<open>C8: the bounded gate is a correct sliding window. On a fresh gate, for attempts whose stamps
  do not decrease, the answers are those of the unbounded history of all attempts: \<open>over\<close> exactly
  when \<open>max_queries\<close> or more earlier attempts lie inside the window.\<close>

theorem volume_gate_sliding_window:
  assumes "volume_gate_init max_q seconds (PStr w) = Inr g" "0 < max_q" "sorted ts"
  shows "fst (gate_runs (\<lambda>t g. gate_hit_stamp g (PStr w) t) ts g) =
         fst (gate_runs (history_hit max_q (seconds * 1000000000)) ts [])"
proof -
  from assms(1) have g: "g = \<lparr>max_queries = max_q, window_ns = seconds * 1000000000,
      gate_workload_id = w, times = [], broken = False\<rparr>"
    by (auto simp: volume_gate_init_def split: if_splits)
  show ?thesis
    by (rule gate_runs_history) (use assms(2,3) in \<open>auto simp: g keeps_tail_def gate_inv_def\<close>)
qed

theorem volume_gate_sliding_window_witness:
  "fst (gate_runs (history_hit 2 10000000000) [1, 2, 3, 10000000002] []) = [''ok'', ''ok'', ''over'', ''ok'']
   \<and> fst (gate_runs (\<lambda>t g. gate_hit_stamp g (PStr ''w'') t) [1, 2, 3, 10000000002]
       \<lparr>max_queries = 2, window_ns = 10000000000, gate_workload_id = ''w'', times = [], broken = False\<rparr>)
     = [''ok'', ''ok'', ''over'', ''ok'']"
proof -
  let ?g = "\<lparr>max_queries = 2, window_ns = 10000000000, gate_workload_id = ''w'', times = [], broken = False\<rparr>"
  have "volume_gate_init 2 10 (PStr ''w'') = Inr ?g" by code_simp
  note volume_gate_sliding_window [OF this, of "[1, 2, 3, 10000000002]"]
  moreover have "fst (gate_runs (history_hit 2 10000000000) [1, 2, 3, 10000000002] []) =
      [''ok'', ''ok'', ''over'', ''ok'']" by code_simp
  ultimately show ?thesis by simp
qed

text \<open>Whatever sequence of calls a gate receives (other workloads, missing or ill-typed stamps, a
  failing clock, stamps in any order), it never stores more than \<open>max_queries\<close> stamps, and its
  only answers are \<open>ok\<close>, \<open>over\<close> and \<open>failure\<close>.\<close>

theorem volume_gate_bounded_memory:
  assumes "volume_gate_init max_q seconds workload = Inr g"
  shows "int (gate_stored (snd (gate_runs (\<lambda>(clock, w, n) g. gate_hit clock g w n) calls g))) \<le> max 0 max_q
    \<and> set (fst (gate_runs (\<lambda>(clock, w, n) g. gate_hit clock g w n) calls g)) \<subseteq> {''ok'', ''over'', ''failure''}"
proof -
  have "gate_inv g" "max_queries g = max_q"
    using assms by (auto simp: volume_gate_init_def gate_inv_def split: pyval.splits if_splits)
  with volume.runs_bounded [of g calls] volume.runs_answers [of calls g] show ?thesis by simp
qed

theorem volume_gate_bounded_memory_witness:
  "volume_gate_init 1 10 (PStr ''w'') =
     Inr \<lparr>max_queries = 1, window_ns = 10000000000, gate_workload_id = ''w'', times = [], broken = False\<rparr>
   \<and> int (gate_stored (snd (gate_runs (\<lambda>(clock, w, n) g. gate_hit clock g w n)
        [(Some 5, PStr ''w'', PNone), (None, PStr ''w'', PInt 6), (None, PStr ''other'', PInt 7)]
        \<lparr>max_queries = 1, window_ns = 10000000000, gate_workload_id = ''w'', times = [], broken = False\<rparr>))) \<le> 1"
proof -
  let ?g = "\<lparr>max_queries = 1, window_ns = 10000000000, gate_workload_id = ''w'', times = [], broken = False\<rparr>"
  have init: "volume_gate_init 1 10 (PStr ''w'') = Inr ?g" by code_simp
  from volume_gate_bounded_memory [OF init] init show ?thesis by (metis max_def zero_le_one)
qed

end
