(* ===== verification/T5_Address.thy ===== *)
theory T5_Address
  imports Py_Base
begin

text \<open>
  \<open>t5_egress/address.py\<close>: the strict address parser, the loopback / link-local class tests and
  allow-list equality. Addresses are unbounded Python integers, so the octets and 16-bit groups
  are natural numbers and the code's shifts and masks are written with the bit operations.

  The lemmas show that \<open>parse_ipv4\<close> accepts exactly the canonical dotted decimal texts, that
  every parsed address is well formed (eight 16-bit groups, never an IPv4-mapped one), and that
  the address texts the packet decoders print are read back to the octets they came from.
\<close>

section \<open>Definitions\<close>

record Addr =
  addr_kind :: string
  addr_v4 :: "nat option"
  addr_words :: "nat list option"
  addr_compatible :: bool

fun parse_ipv4_parts :: "string list \<Rightarrow> nat \<Rightarrow> nat option" where
  "parse_ipv4_parts [] value = Some value"
| "parse_ipv4_parts (part # parts) value =
     (if \<not> py_isdigit part \<or> (length part > 1 \<and> prefix ''0'' part) then None
      else (let octet = num_val 10 part in
            if octet > 255 then None
            else parse_ipv4_parts parts (push_bit 8 value OR octet)))"

definition parse_ipv4 :: "string \<Rightarrow> nat option" where
  "parse_ipv4 txt =
     (let parts = py_split (CHR ''.'') txt in
      if length parts \<noteq> 4 then None else parse_ipv4_parts parts 0)"

definition hex_group :: "string \<Rightarrow> nat option" where
  "hex_group txt =
     (if txt = [] \<or> length txt > 4 \<or> \<not> list_all (\<lambda>c. c \<in> set ''0123456789abcdef'') txt
      then None else Some (num_val 16 txt))"

text \<open>\<open>raw.count("::")\<close>, \<open>raw.partition("::")\<close> and \<open>raw.rpartition(":")\<close>.\<close>

fun count_dcolon :: "string \<Rightarrow> nat" where
  "count_dcolon (a # b # s) =
     (if a = CHR '':'' \<and> b = CHR '':'' then Suc (count_dcolon s) else count_dcolon (b # s))"
| "count_dcolon _ = 0"

fun partition_dcolon :: "string \<Rightarrow> string \<times> bool \<times> string" where
  "partition_dcolon (a # b # s) =
     (if a = CHR '':'' \<and> b = CHR '':'' then ([], True, s)
      else (let (l, sep, r) = partition_dcolon (b # s) in (a # l, sep, r)))"
| "partition_dcolon s = (s, False, [])"

definition rpartition_colon :: "string \<Rightarrow> string \<times> bool \<times> string" where
  "rpartition_colon s =
     (if CHR '':'' \<in> set s
      then (let tl_rev = takeWhile (\<lambda>c. c \<noteq> CHR '':'') (rev s)
            in (take (length s - length tl_rev - 1) s, True, rev tl_rev))
      else ([], False, s))"

text \<open>The loop of the nested function \<open>side\<close>; the \<open>v4\<close> marker must be the last group.\<close>

fun side_groups :: "nat option \<Rightarrow> string list \<Rightarrow> nat list option" where
  "side_groups v4_tail [] = Some []"
| "side_groups v4_tail (grp # grps) =
     (if grp = ''v4'' then
        (case v4_tail of
           None \<Rightarrow> None
         | Some v \<Rightarrow>
             if grps \<noteq> [] then None
             else Some [drop_bit 16 v AND 0xFFFF, v AND 0xFFFF])
      else (case hex_group grp of
              None \<Rightarrow> None
            | Some w \<Rightarrow> map_option (\<lambda>ws. w # ws) (side_groups v4_tail grps)))"

definition ipv6_side :: "nat option \<Rightarrow> string \<Rightarrow> nat list option" where
  "ipv6_side v4_tail piece =
     (if piece = [] then Some [] else side_groups v4_tail (py_split (CHR '':'') piece))"

definition parse_ipv6_groups :: "nat option \<Rightarrow> string \<Rightarrow> nat list option" where
  "parse_ipv6_groups v4_tail raw =
     (let (left, sep, right) = partition_dcolon raw in
      if sep \<and> count_dcolon right \<noteq> 0 then None
      else if \<not> sep then
        (case ipv6_side v4_tail left of
           None \<Rightarrow> None
         | Some groups \<Rightarrow> if length groups \<noteq> 8 then None else Some groups)
      else
        (case (ipv6_side v4_tail left, ipv6_side v4_tail right) of
           (Some lgroups, Some rgroups) \<Rightarrow>
             if length lgroups + length rgroups > 7 then None
             else Some (lgroups @ replicate (8 - length lgroups - length rgroups) 0 @ rgroups)
         | _ \<Rightarrow> None))"

definition parse_ipv6 :: "string \<Rightarrow> nat list option" where
  "parse_ipv6 txt =
     (let raw = py_lower txt in
      if CHR ''%'' \<in> set raw \<or> raw = [] then None
      else if count_dcolon raw > 1 then None
      else if CHR ''.'' \<in> set raw then
        (let (head, _, tail) = rpartition_colon raw in
         if head = raw then None
         else (case parse_ipv4 tail of
                 None \<Rightarrow> None
               | Some v \<Rightarrow> parse_ipv6_groups (Some v) (head @ '':v4'')))
      else parse_ipv6_groups None raw)"

text \<open>The white space \<open>" \t\r\n\f\v"\<close>.\<close>

definition ascii_space :: string where
  "ascii_space = [CHR '' '', CHR 0x09, CHR 0x0D, CHR 0x0A, CHR 0x0C, CHR 0x0B]"

definition v4_addr :: "nat \<Rightarrow> Addr" where
  "v4_addr v = \<lparr>addr_kind = ''v4'', addr_v4 = Some v, addr_words = None, addr_compatible = False\<rparr>"

definition embedded_v4 :: "nat list \<Rightarrow> nat" where
  "embedded_v4 ws = (push_bit 16 (ws ! 6) OR (ws ! 7)) AND 0xFFFFFFFF"

definition addr_of_words :: "nat list \<Rightarrow> Addr" where
  "addr_of_words ws =
     (if ws ! 0 = 0 \<and> ws ! 1 = 0 \<and> ws ! 2 = 0 \<and> ws ! 3 = 0 \<and> ws ! 4 = 0 \<and> ws ! 5 = 0xFFFF
      then v4_addr (embedded_v4 ws)
      else \<lparr>addr_kind = ''v6'', addr_v4 = None, addr_words = Some ws,
            addr_compatible =
              (ws ! 0 = 0 \<and> ws ! 1 = 0 \<and> ws ! 2 = 0 \<and> ws ! 3 = 0 \<and> ws ! 4 = 0 \<and> ws ! 5 = 0
               \<and> \<not> (ws ! 6 = 0 \<and> ws ! 7 = 0))\<rparr>)"

definition parse_address :: "pyval \<Rightarrow> Addr option" where
  "parse_address value =
     (case value of
        PStr s \<Rightarrow>
          (let txt = py_strip ascii_space s in
           if txt \<noteq> s \<or> \<not> is_ascii txt then None
           else
             (let txt = (if prefix ''['' txt \<and> suffix '']'' txt then butlast (tl txt) else txt) in
              case parse_ipv4 txt of
                Some v4 \<Rightarrow> Some (v4_addr v4)
              | None \<Rightarrow> map_option addr_of_words (parse_ipv6 txt)))
      | _ \<Rightarrow> None)"

definition v4_class :: "nat \<Rightarrow> string" where
  "v4_class v4 =
     (let fst_octet = drop_bit 24 v4 AND 0xFF in
      if fst_octet = 0 \<or> fst_octet = 127 then ''loopback''
      else if drop_bit 16 v4 = 0xA9FE then ''link_local''
      else ''external'')"

definition address_class :: "Addr \<Rightarrow> string" where
  "address_class a =
     (case (addr_kind a = ''v4'', addr_v4 a) of
        (True, Some v) \<Rightarrow> v4_class v
      | _ \<Rightarrow>
          (let ws = (case addr_words a of None \<Rightarrow> [] | Some ws \<Rightarrow> ws) in
           if length ws \<noteq> 8 then ''external''
           else if list_all (\<lambda>w. w = 0) ws then ''loopback''
           else if addr_compatible a then v4_class (embedded_v4 ws)
           else if ws = [0, 0, 0, 0, 0, 0, 0, 1] then ''loopback''
           else if (ws ! 0) AND 0xFFC0 = 0xFE80 then ''link_local''
           else ''external''))"

definition same_allow_address :: "Addr \<Rightarrow> Addr \<Rightarrow> bool" where
  "same_allow_address left right =
     (if addr_kind left \<noteq> addr_kind right then False
      else if addr_kind left = ''v4'' then addr_v4 left = addr_v4 right
      else addr_words left = addr_words right)"

definition listed_address :: "Addr \<Rightarrow> Addr list \<Rightarrow> bool" where
  "listed_address candidate entries = list_ex (same_allow_address candidate) entries"

text \<open>
  The address texts the packet decoders build: \<open>".".join(str(byte) for byte in ...)\<close> and
  \<open>":".join(f"{word:x}" for word in ...)\<close>.
\<close>

definition dotted_text :: "nat list \<Rightarrow> string" where
  "dotted_text octets = py_join ''.'' (map (num_str 10) octets)"

definition colon_hex_text :: "nat list \<Rightarrow> string" where
  "colon_hex_text ws = py_join '':'' (map (num_str 16) ws)"

text \<open>The invariant of parsed addresses.\<close>

definition addr_wf :: "Addr \<Rightarrow> bool" where
  "addr_wf a =
     ((addr_kind a = ''v4'' \<and> (\<exists>v < 2 ^ 32. a = v4_addr v))
      \<or> (\<exists>ws. addr_kind a = ''v6'' \<and> addr_v4 a = None \<and> addr_words a = Some ws \<and> length ws = 8
           \<and> (\<forall>w \<in> set ws. w < 65536)
           \<and> take 6 ws \<noteq> [0, 0, 0, 0, 0, 0xFFFF]
           \<and> (addr_compatible a \<longleftrightarrow> take 6 ws = [0, 0, 0, 0, 0, 0] \<and> drop 6 ws \<noteq> [0, 0])))"

section \<open>Octets and groups\<close>

lemma octet_canonical:
  assumes "is_ascii part"
  shows "py_isdigit part \<and> \<not> (length part > 1 \<and> prefix ''0'' part) \<and> num_val 10 part \<le> 255
    \<longleftrightarrow> (\<exists>n < 256. part = num_str 10 n)"
proof
  assume *: "py_isdigit part \<and> \<not> (length part > 1 \<and> prefix ''0'' part) \<and> num_val 10 part \<le> 255"
  then have ne: "part \<noteq> []" and dig: "\<forall>c \<in> set part. is_base_digit 10 c"
    using assms by (auto simp: py_isdigit_def list_all_iff is_ascii_iff dec_digit_iff)
  have "hd part \<noteq> digit_char 0" if "length part > 1"
    using * that ne by (cases part) (auto simp: digit_char_zero)
  then have "num_str 10 (num_val 10 part) = part"
    by (intro num_str_num_val) (use ne dig in auto)
  then show "\<exists>n < 256. part = num_str 10 n"
    using * by (intro exI [of _ "num_val 10 part"]) auto
next
  assume "\<exists>n < 256. part = num_str 10 n"
  then obtain n where n: "n < 256" "part = num_str 10 n" by blast
  have "\<not> prefix ''0'' part" if "length part > 1"
  proof
    assume "prefix ''0'' part"
    then have "hd (num_str 10 n) = digit_char 0"
      using n by (auto simp: digit_char_zero prefix_def)
    then have "n = 0" by (rule num_str_no_leading_zero [rotated 2]) auto
    then show False using that n by (simp add: num_str.simps)
  qed
  then show "py_isdigit part \<and> \<not> (length part > 1 \<and> prefix ''0'' part) \<and> num_val 10 part \<le> 255"
    using n by (auto simp: py_isdigit_def list_all_iff is_digit_char_def dest!: num_str_ten_py_ord)
qed

lemma parse_ipv4_parts_Some:
  assumes "\<forall>p \<in> set parts. is_ascii p"
  shows "parse_ipv4_parts parts v = Some w \<longleftrightarrow>
    (\<exists>ns. (\<forall>n \<in> set ns. n < 256) \<and> parts = map (num_str 10) ns
          \<and> w = foldl (\<lambda>a n. a * 256 + n) v ns)"
  using assms
proof (induction parts arbitrary: v)
  case (Cons part parts)
  have IH: "parse_ipv4_parts parts u = Some w \<longleftrightarrow>
    (\<exists>ns. (\<forall>n \<in> set ns. n < 256) \<and> parts = map (num_str 10) ns
          \<and> w = foldl (\<lambda>a n. a * 256 + n) u ns)" for u
    using Cons by simp
  have oct: "py_isdigit part \<and> \<not> (length part > 1 \<and> prefix ''0'' part) \<and> num_val 10 part \<le> 255
    \<longleftrightarrow> (\<exists>n < 256. part = num_str 10 n)"
    using Cons.prems by (intro octet_canonical) simp
  show ?case
  proof (cases "\<exists>n < 256. part = num_str 10 n")
    case True
    then obtain n where n: "n < 256" "part = num_str 10 n" by blast
    have "push_bit 8 v OR n = v * 256 + n" using push_or_add [of n 8 v] n by simp
    then have step: "parse_ipv4_parts (part # parts) v = parse_ipv4_parts parts (v * 256 + n)"
      using n oct True by (auto simp: Let_def)
    have "(\<exists>ns. (\<forall>k \<in> set ns. k < 256) \<and> part # parts = map (num_str 10) ns
            \<and> w = foldl (\<lambda>a n. a * 256 + n) v ns)
       \<longleftrightarrow> (\<exists>ns. (\<forall>k \<in> set ns. k < 256) \<and> parts = map (num_str 10) ns
            \<and> w = foldl (\<lambda>a n. a * 256 + n) (v * 256 + n) ns)" (is "?L \<longleftrightarrow> ?R")
    proof
      assume ?L
      then show ?R using n(2) by (auto simp: Cons_eq_map_conv) blast
    next
      assume ?R
      then obtain ns where "\<forall>k \<in> set ns. k < 256" "parts = map (num_str 10) ns"
        "w = foldl (\<lambda>a n. a * 256 + n) (v * 256 + n) ns" by blast
      then show ?L using n by (intro exI [of _ "n # ns"]) auto
    qed
    then show ?thesis unfolding step IH by simp
  next
    case False
    then show ?thesis using oct by (auto simp: Let_def Cons_eq_map_conv)
  qed
qed auto

lemma dotted_text_ascii: "is_ascii (dotted_text ns)"
proof -
  have "py_ord c \<le> 127" if "c \<in> set (dotted_text ns)" for c
    using that set_py_join [of "''.''" "map (num_str 10) ns"]
    by (fastforce simp: dotted_text_def dest: num_str_ten_py_ord)
  then show ?thesis by (simp add: is_ascii_iff)
qed

lemma split_dotted_text: "ns \<noteq> [] \<Longrightarrow> py_split (CHR ''.'') (dotted_text ns) = map (num_str 10) ns"
  unfolding dotted_text_def
  by (rule py_split_join) (auto dest!: num_str_ten_py_ord)

lemma parse_ipv4_iff:
  assumes "is_ascii s"
  shows "parse_ipv4 s = Some v \<longleftrightarrow>
    (\<exists>ns. length ns = 4 \<and> (\<forall>n \<in> set ns. n < 256) \<and> s = dotted_text ns
          \<and> v = foldl (\<lambda>a n. a * 256 + n) 0 ns)"
proof -
  let ?parts = "py_split (CHR ''.'') s"
  have asc: "\<forall>p \<in> set ?parts. is_ascii p"
  proof
    fix p assume "p \<in> set ?parts"
    then obtain us vs where "?parts = us @ p # vs" by (meson split_list)
    then have "set p \<subseteq> set (py_join [CHR ''.''] ?parts)"
      by (simp add: set_subset_py_join)
    then show "is_ascii p" using assms by (auto simp: is_ascii_iff py_join_split)
  qed
  have "s = dotted_text ns \<longleftrightarrow> ?parts = map (num_str 10) ns" if "length ns = 4" for ns
    using that split_dotted_text [of ns] py_split_inj by (metis length_0_conv zero_neq_numeral)
  then show ?thesis
    unfolding parse_ipv4_def Let_def
    by (simp add: parse_ipv4_parts_Some [OF asc]) (metis length_map)
qed


section \<open>Parsing what the packet decoders print\<close>

lemma parse_ipv4_dotted:
  assumes "length ns = 4" "\<forall>n \<in> set ns. n < 256"
  shows "parse_ipv4 (dotted_text ns) = Some (foldl (\<lambda>a n. a * 256 + n) 0 ns)"
  using assms parse_ipv4_iff [OF dotted_text_ascii] by blast

lemma octets_value_bound:
  fixes ns :: "nat list"
  assumes "length ns = 4" "\<forall>n \<in> set ns. n < 256"
  shows "foldl (\<lambda>a n. a * 256 + n) 0 ns < 2 ^ 32"
proof -
  from assms(1) obtain a b c d where "ns = [a, b, c, d]" unfolding length_4_conv by blast
  then show ?thesis using assms(2) by auto
qed

lemma plain_address_text:
  assumes "s \<noteq> []" "\<forall>c \<in> set s. 46 \<le> py_ord c \<and> py_ord c \<le> 57 \<or> py_ord c = 58 \<or> 97 \<le> py_ord c \<and> py_ord c \<le> 102"
  shows "py_strip ascii_space s = s" "is_ascii s" "\<not> prefix ''['' s"
proof -
  have "hd s \<in> set s" "last s \<in> set s" using assms(1) by auto
  moreover have "c \<notin> set ascii_space" if "c \<in> set s" for c
    using assms(2) that by (auto simp: ascii_space_def)
  ultimately show "py_strip ascii_space s = s"
    using assms(1) by (intro py_strip_no_strip) auto
  show "is_ascii s" using assms(2) by (fastforce simp: is_ascii_iff)
  show "\<not> prefix ''['' s" using assms(2) by (cases s) auto
qed

lemma dotted_text_chars:
  "c \<in> set (dotted_text ns) \<Longrightarrow> 46 \<le> py_ord c \<and> py_ord c \<le> 57"
  using set_py_join [of "''.''" "map (num_str 10) ns"]
  by (fastforce simp: dotted_text_def dest: num_str_ten_py_ord)

lemma parse_address_dotted:
  assumes "length ns = 4" "\<forall>n \<in> set ns. n < 256"
  shows "parse_address (PStr (dotted_text ns)) = Some (v4_addr (foldl (\<lambda>a n. a * 256 + n) 0 ns))"
proof -
  have ne: "dotted_text ns \<noteq> []"
    using assms(1) unfolding dotted_text_def by (intro py_join_eq_Nil) auto
  have "\<forall>c \<in> set (dotted_text ns).
      46 \<le> py_ord c \<and> py_ord c \<le> 57 \<or> py_ord c = 58 \<or> 97 \<le> py_ord c \<and> py_ord c \<le> 102"
    using dotted_text_chars by blast
  from plain_address_text [OF ne this] show ?thesis
    using parse_ipv4_dotted [OF assms] by (simp add: parse_address_def)
qed


lemma partition_dcolon_Cons:
  "x \<noteq> CHR '':'' \<or> (s \<noteq> [] \<longrightarrow> hd s \<noteq> CHR '':'') \<Longrightarrow>
     partition_dcolon (x # s) = (let (l, sep, r) = partition_dcolon s in (x # l, sep, r))"
  by (cases s) auto

lemma count_dcolon_Cons:
  "x \<noteq> CHR '':'' \<or> (s \<noteq> [] \<longrightarrow> hd s \<noteq> CHR '':'') \<Longrightarrow> count_dcolon (x # s) = count_dcolon s"
  by (cases s) auto

lemma dcolon_free_append:
  "CHR '':'' \<notin> set p \<Longrightarrow> partition_dcolon (p @ s) =
     (let (l, sep, r) = partition_dcolon s in (p @ l, sep, r)) \<and>
     count_dcolon (p @ s) = count_dcolon s"
proof (induction p)
  case (Cons x p)
  then show ?case
    using partition_dcolon_Cons [of x "p @ s"] count_dcolon_Cons [of x "p @ s"]
    by (auto split: prod.splits)
qed (auto split: prod.splits)

lemma no_dcolon_join:
  "ps \<noteq> [] \<Longrightarrow> \<forall>p \<in> set ps. p \<noteq> [] \<and> CHR '':'' \<notin> set p \<Longrightarrow>
     partition_dcolon (py_join '':'' ps) = (py_join '':'' ps, False, []) \<and>
     count_dcolon (py_join '':'' ps) = 0"
proof (induction ps)
  case (Cons p ps)
  show ?case
  proof (cases "ps = []")
    case True
    then show ?thesis using Cons.prems dcolon_free_append [of p "[]"] by simp
  next
    case False
    let ?t = "py_join '':'' ps"
    obtain q qs where q: "ps = q # qs" using False by (cases ps) auto
    have "?t \<noteq> []" using False Cons.prems by (intro py_join_eq_Nil) auto
    moreover have "hd ?t \<noteq> CHR '':''"
      using q Cons.prems by (auto simp: hd_py_join) (metis hd_in_set)
    ultimately show ?thesis
      using Cons False dcolon_free_append [of p "CHR '':'' # ?t"]
        partition_dcolon_Cons [of "CHR '':''" ?t] count_dcolon_Cons [of "CHR '':''" ?t]
      by (simp add: py_join_Cons)
  qed
qed simp

lemma hex_group_num_str: "w < 65536 \<Longrightarrow> hex_group (num_str 16 w) = Some w"
  using num_str_length [of 16 w 4] num_str_digits [of 16 _ w]
  by (auto simp: hex_group_def list_all_iff hex_digit_iff simp del: set_simps)

lemma side_groups_num_str:
  "\<forall>w \<in> set ws. w < 65536 \<Longrightarrow> side_groups v (map (num_str 16) ws) = Some ws"
proof (induction ws)
  case (Cons w ws)
  have "CHR ''v'' \<notin> set (num_str 16 w)"
    using num_str_py_ord [of 16 "CHR ''v''" w] by auto
  then have "num_str 16 w \<noteq> ''v4''" by auto
  with Cons show ?case by (simp add: hex_group_num_str)
qed simp

lemma colon_hex_chars:
  "c \<in> set (colon_hex_text ws) \<Longrightarrow>
     48 \<le> py_ord c \<and> py_ord c \<le> 58 \<or> 97 \<le> py_ord c \<and> py_ord c \<le> 102"
  using set_py_join [of "'':''" "map (num_str 16) ws"]
  by (fastforce simp: colon_hex_text_def dest: num_str_py_ord [rotated 2])

lemma parse_ipv6_colon_hex:
  assumes "length ws = 8" "\<forall>w \<in> set ws. w < 65536"
  shows "parse_ipv6 (colon_hex_text ws) = Some ws"
proof -
  let ?t = "colon_hex_text ws"
  have ne: "map (num_str 16) ws \<noteq> []" using assms(1) by auto
  have free: "\<forall>p \<in> set (map (num_str 16) ws). p \<noteq> [] \<and> CHR '':'' \<notin> set p"
    by (auto dest!: num_str_py_ord [rotated 2])
  have low: "py_lower ?t = ?t"
    unfolding py_lower_def
    by (rule map_idI) (auto simp: lower_char_def Let_def dest!: colon_hex_chars)
  have "CHR ''%'' \<notin> set ?t" "CHR ''.'' \<notin> set ?t"
    using colon_hex_chars [of "CHR ''%''" ws] colon_hex_chars [of "CHR ''.''" ws] by auto
  moreover have "?t \<noteq> []"
    unfolding colon_hex_text_def using ne free by (intro py_join_eq_Nil) auto
  moreover have "py_split (CHR '':'') ?t = map (num_str 16) ws"
    unfolding colon_hex_text_def using py_split_join [OF ne] free by simp
  ultimately show ?thesis
    using no_dcolon_join [OF ne free] assms
    by (simp add: parse_ipv6_def low Let_def parse_ipv6_groups_def ipv6_side_def
        side_groups_num_str colon_hex_text_def [symmetric])
qed

lemma parse_address_colon_hex:
  assumes "length ws = 8" "\<forall>w \<in> set ws. w < 65536"
  shows "parse_address (PStr (colon_hex_text ws)) = Some (addr_of_words ws)"
proof -
  let ?t = "colon_hex_text ws"
  have ne: "?t \<noteq> []" using parse_ipv6_colon_hex [OF assms] by (auto simp: parse_ipv6_def Let_def py_lower_def)
  have "\<forall>c \<in> set ?t. 46 \<le> py_ord c \<and> py_ord c \<le> 57 \<or> py_ord c = 58 \<or> 97 \<le> py_ord c \<and> py_ord c \<le> 102"
    using colon_hex_chars by fastforce
  note t = plain_address_text [OF ne this]
  have "CHR ''.'' \<notin> set ?t" using colon_hex_chars [of "CHR ''.''" ws] by auto
  then have "parse_ipv4 ?t = None" by (simp add: parse_ipv4_def py_split_sep_free_self)
  then show ?thesis using t parse_ipv6_colon_hex [OF assms] by (simp add: parse_address_def)
qed


section \<open>Parsed addresses are well formed\<close>

lemma hex_group_bound: "hex_group s = Some w \<Longrightarrow> w < 65536"
proof -
  assume *: "hex_group s = Some w"
  then have dig: "\<forall>c \<in> set s. is_base_digit 16 c" and len: "length s \<le> 4" and w: "w = num_val 16 s"
    by (auto simp: hex_group_def list_all_iff hex_digit_iff simp del: set_simps split: if_splits)
  have "w < 16 ^ length s" unfolding w by (rule num_val_bound) (use dig in auto)
  also have "\<dots> \<le> 16 ^ 4" using len by (intro power_increasing) auto
  finally show ?thesis by simp
qed

lemma and_FFFF: "v AND 0xFFFF < 65536" for v :: nat
  using and_mask_nat [of v 16] by simp

lemma side_groups_bound: "side_groups v gs = Some ws \<Longrightarrow> \<forall>w \<in> set ws. w < 65536"
proof (induction gs arbitrary: ws)
  case (Cons g gs)
  then show ?case
    by (auto simp: and_FFFF hex_group_bound split: if_splits option.splits)
qed simp

lemma ipv6_side_bound: "ipv6_side v p = Some ws \<Longrightarrow> \<forall>w \<in> set ws. w < 65536"
  by (auto simp: ipv6_side_def dest: side_groups_bound split: if_splits)

lemma parse_ipv6_groups_wf:
  "parse_ipv6_groups v raw = Some ws \<Longrightarrow> length ws = 8 \<and> (\<forall>w \<in> set ws. w < 65536)"
  by (auto simp: parse_ipv6_groups_def Let_def dest: ipv6_side_bound [rule_format]
      split: prod.splits if_splits option.splits)

lemma parse_ipv6_wf:
  "parse_ipv6 s = Some ws \<Longrightarrow> length ws = 8 \<and> (\<forall>w \<in> set ws. w < 65536)"
  by (auto simp: parse_ipv6_def Let_def dest: parse_ipv6_groups_wf
      split: prod.splits if_splits option.splits)

lemma embedded_v4_bound: "embedded_v4 ws < 2 ^ 32"
  using and_mask_nat [of "push_bit 16 (ws ! 6) OR (ws ! 7)" 32] by (simp add: embedded_v4_def)

lemma addr_of_words_wf:
  assumes "length ws = 8" "\<forall>w \<in> set ws. w < 65536"
  shows "addr_wf (addr_of_words ws)"
proof -
  obtain a b c d e f g h where "ws = [a, b, c, d, e, f, g, h]"
    using assms(1) by (auto simp: length_8_conv)
  then show ?thesis
    using assms(2) embedded_v4_bound
    by (auto simp: addr_of_words_def addr_wf_def v4_addr_def)
qed

lemma v4_addr_wf: "v < 2 ^ 32 \<Longrightarrow> addr_wf (v4_addr v)"
  by (auto simp: addr_wf_def v4_addr_def)

lemma parse_ipv4_bound: "is_ascii s \<Longrightarrow> parse_ipv4 s = Some v \<Longrightarrow> v < 2 ^ 32"
  using octets_value_bound by (auto simp: parse_ipv4_iff)

lemma is_ascii_bracketed: "is_ascii s \<Longrightarrow> is_ascii (butlast (tl s))"
  by (cases s) (auto simp: is_ascii_iff dest: in_set_butlastD)

lemma parse_address_addr_wf: "parse_address x = Some a \<Longrightarrow> addr_wf a"
proof (cases x)
  case (PStr s)
  assume *: "parse_address x = Some a"
  let ?t = "if prefix ''['' s \<and> suffix '']'' s then butlast (tl s) else s"
  have asc: "is_ascii ?t"
    using * PStr by (auto simp: parse_address_def Let_def is_ascii_bracketed split: if_splits)
  have "parse_ipv4 ?t = Some v \<longrightarrow> addr_wf (v4_addr v)" for v
    using asc parse_ipv4_bound v4_addr_wf by blast
  then show ?thesis
    using * PStr
    by (auto simp: parse_address_def Let_def dest: parse_ipv6_wf intro!: addr_of_words_wf
        split: if_splits option.splits)
qed (simp_all add: parse_address_def)


section \<open>Embedded IPv4 spellings\<close>

lemma split_word_value: "v < 2 ^ 32 \<Longrightarrow>
    push_bit 16 (drop_bit 16 v AND 0xFFFF) OR (v AND 0xFFFF) = v" for v :: nat
proof -
  assume v: "v < 2 ^ 32"
  have "drop_bit 16 v AND 0xFFFF = v div 65536" "v AND 0xFFFF = v mod 65536"
    using v and_mask_nat [of "drop_bit 16 v" 16] and_mask_nat [of v 16]
    by (simp_all add: drop_bit_eq_div)
  then show ?thesis
    using push_or_add [of "v mod 65536" 16 "v div 65536"] by simp
qed

lemma embedded_v4_split:
  "v < 2 ^ 32 \<Longrightarrow>
     embedded_v4 [a, b, c, d, e, f, drop_bit 16 v AND 0xFFFF, v AND 0xFFFF] = v"
  using and_mask_nat [of v 32] split_word_value [of v] by (simp add: embedded_v4_def)

lemma rpartition_colon_append:
  "CHR '':'' \<notin> set t \<Longrightarrow> rpartition_colon (h @ CHR '':'' # t) = (h, True, t)"
proof -
  assume t: "CHR '':'' \<notin> set t"
  then have "takeWhile (\<lambda>c. c \<noteq> CHR '':'') (rev (h @ CHR '':'' # t)) = rev t"
    using takeWhile_append2 [of "rev t" "\<lambda>c. c \<noteq> CHR '':''" "CHR '':'' # rev h"] by auto
  then show ?thesis by (simp add: rpartition_colon_def)
qed

lemma count_dcolon_dotted: "count_dcolon (dotted_text ns) = 0"
proof -
  have "CHR '':'' \<notin> set (dotted_text ns)" using dotted_text_chars by fastforce
  then show ?thesis using dcolon_free_append [of "dotted_text ns" "[]"] by simp
qed

lemma count_dcolon_colon_dotted: "count_dcolon (CHR '':'' # dotted_text ns) = 0"
proof -
  have "CHR '':'' \<notin> set (dotted_text ns)" using dotted_text_chars by fastforce
  then have "dotted_text ns \<noteq> [] \<longrightarrow> hd (dotted_text ns) \<noteq> CHR '':''"
    by (metis hd_in_set)
  then show ?thesis
    using count_dcolon_Cons [of "CHR '':''" "dotted_text ns"] count_dcolon_dotted by simp
qed

lemma parse_ipv6_embedded:
  assumes ns: "length ns = 4" "\<forall>n \<in> set ns. n < 256"
    and h: "py_lower h = h" "CHR ''%'' \<notin> set h" "count_dcolon (h @ CHR '':'' # dotted_text ns) \<le> 1"
  shows "parse_ipv6 (h @ CHR '':'' # dotted_text ns) =
     parse_ipv6_groups (Some (foldl (\<lambda>a n. a * 256 + n) 0 ns)) (h @ '':v4'')"
proof -
  have chars: "46 \<le> py_ord c \<and> py_ord c \<le> 57" if "c \<in> set (dotted_text ns)" for c
    using that by (rule dotted_text_chars)
  have low: "py_lower (h @ CHR '':'' # dotted_text ns) = h @ CHR '':'' # dotted_text ns"
  proof -
    have "map lower_char (dotted_text ns) = dotted_text ns"
      by (rule map_idI) (auto simp: lower_char_def Let_def dest!: chars)
    then show ?thesis using h(1) by (simp add: py_lower_def lower_char_def)
  qed
  have "CHR ''.'' \<in> set (dotted_text ns)"
    using ns(1) by (auto simp: dotted_text_def length_4_conv)
  moreover have "CHR ''%'' \<notin> set (dotted_text ns)" "CHR '':'' \<notin> set (dotted_text ns)"
    using chars by fastforce+
  ultimately show ?thesis
    using h(2,3) parse_ipv4_dotted [OF ns]
    by (simp add: parse_ipv6_def low Let_def rpartition_colon_append)
qed

lemma embedded_text_plain:
  assumes "length ns = 4" "h = ''::'' \<or> h = ''::ffff:''"
  shows "py_strip ascii_space (h @ dotted_text ns) = h @ dotted_text ns"
    "is_ascii (h @ dotted_text ns)" "\<not> prefix ''['' (h @ dotted_text ns)"
    "parse_ipv4 (h @ dotted_text ns) = None"
proof -
  have "\<forall>c \<in> set (h @ dotted_text ns).
      46 \<le> py_ord c \<and> py_ord c \<le> 57 \<or> py_ord c = 58 \<or> 97 \<le> py_ord c \<and> py_ord c \<le> 102"
    using assms(2) dotted_text_chars by fastforce
  from plain_address_text [OF _ this] assms(2)
  show "py_strip ascii_space (h @ dotted_text ns) = h @ dotted_text ns"
    "is_ascii (h @ dotted_text ns)" "\<not> prefix ''['' (h @ dotted_text ns)" by auto
  have "h @ dotted_text ns \<noteq> dotted_text ms" for ms
  proof
    assume "h @ dotted_text ns = dotted_text ms"
    then have "CHR '':'' \<in> set (dotted_text ms)" using assms(2) by (metis UnI1 list.set_intros(1) set_append)
    then show False using dotted_text_chars by fastforce
  qed
  with \<open>is_ascii (h @ dotted_text ns)\<close> parse_ipv4_iff
  show "parse_ipv4 (h @ dotted_text ns) = None" by (metis not_Some_eq)
qed

lemma hex_group_ffff: "hex_group ''ffff'' = Some 0xFFFF"
  by code_simp

lemma replicate_zeros:
  "replicate 5 (0::nat) = [0, 0, 0, 0, 0]" "replicate 6 (0::nat) = [0, 0, 0, 0, 0, 0]"
  by (simp_all add: numeral_eq_Suc)

lemma parse_address_mapped_text:
  assumes "length ns = 4" "\<forall>n \<in> set ns. n < 256"
  shows "parse_address (PStr (''::ffff:'' @ dotted_text ns)) =
    Some (v4_addr (foldl (\<lambda>a n. a * 256 + n) 0 ns))"
proof -
  let ?v = "foldl (\<lambda>a n. a * 256 + n) 0 ns"
  have v: "?v < 2 ^ 32" by (rule octets_value_bound [OF assms])
  have "parse_ipv6 (''::ffff'' @ CHR '':'' # dotted_text ns) = parse_ipv6_groups (Some ?v) (''::ffff'' @ '':v4'')"
    by (intro parse_ipv6_embedded assms)
      (auto simp: py_lower_def lower_char_def count_dcolon_colon_dotted)
  also have "\<dots> = Some [0, 0, 0, 0, 0, 0xFFFF, drop_bit 16 ?v AND 0xFFFF, ?v AND 0xFFFF]"
    by (simp add: parse_ipv6_groups_def ipv6_side_def hex_group_ffff replicate_zeros)
  finally show ?thesis
    using embedded_text_plain [OF assms(1), of "''::ffff:''"] embedded_v4_split [OF v]
    by (simp add: parse_address_def addr_of_words_def)
qed

lemma address_class_compatible_text:
  assumes "length ns = 4" "\<forall>n \<in> set ns. n < 256"
  shows "map_option address_class (parse_address (PStr (''::'' @ dotted_text ns))) =
    Some (v4_class (foldl (\<lambda>a n. a * 256 + n) 0 ns))"
proof -
  let ?v = "foldl (\<lambda>a n. a * 256 + n) 0 ns"
  let ?ws = "[0, 0, 0, 0, 0, 0, drop_bit 16 ?v AND 0xFFFF, ?v AND 0xFFFF]"
  have v: "?v < 2 ^ 32" by (rule octets_value_bound [OF assms])
  have "parse_ipv6 ('':'' @ CHR '':'' # dotted_text ns) = parse_ipv6_groups (Some ?v) ('':'' @ '':v4'')"
    by (intro parse_ipv6_embedded assms)
      (auto simp: py_lower_def lower_char_def count_dcolon_dotted)
  also have "\<dots> = Some ?ws"
    by (simp add: parse_ipv6_groups_def ipv6_side_def replicate_zeros)
  finally have p: "parse_address (PStr (''::'' @ dotted_text ns)) = Some (addr_of_words ?ws)"
    using embedded_text_plain [OF assms(1), of "''::''"] by (simp add: parse_address_def)
  have zero: "?v = 0" if "drop_bit 16 ?v AND 0xFFFF = 0" "?v AND 0xFFFF = 0"
    using split_word_value [OF v] that by simp
  have "address_class (addr_of_words [0, 0, 0, 0, 0, 0, hi, lo]) = v4_class w"
    if "embedded_v4 [0, 0, 0, 0, 0, 0, hi, lo] = w" "hi = 0 \<Longrightarrow> lo = 0 \<Longrightarrow> w = 0" for hi lo w
  proof -
    have "v4_class 0 = ''loopback''" by code_simp
    with that show ?thesis by (auto simp: addr_of_words_def address_class_def Let_def)
  qed
  from this [OF embedded_v4_split [OF v] zero] show ?thesis unfolding p by simp
qed

section \<open>Properties\<close>

text \<open>\<open>parse_ipv4\<close> accepts exactly the canonical dotted decimal text of four octets (no sign,
  no leading zero, no octet above 255, no fifth part) and returns the 32-bit value of those
  octets.\<close>

theorem parse_ipv4_canonical:
  assumes "is_ascii s"
  shows "parse_ipv4 s = Some v \<longleftrightarrow>
    (\<exists>a < 256. \<exists>b < 256. \<exists>c < 256. \<exists>d < 256.
       s = dotted_text [a, b, c, d] \<and> v = ((a * 256 + b) * 256 + c) * 256 + d)"
  unfolding parse_ipv4_iff [OF assms] length_4_conv by fastforce

theorem parse_ipv4_canonical_witness:
  "is_ascii ''10.0.0.255'' \<and>
   (\<exists>a < 256. \<exists>b < 256. \<exists>c < 256. \<exists>d < 256.
      ''10.0.0.255'' = dotted_text [a, b, c, d] \<and> 167772415 = ((a * 256 + b) * 256 + c) * 256 + d)"
proof -
  have asc: "is_ascii ''10.0.0.255''" by code_simp
  have "parse_ipv4 ''10.0.0.255'' = Some 167772415" by code_simp
  with asc parse_ipv4_canonical [OF asc, of 167772415] show ?thesis by blast
qed

text \<open>Every address \<open>parse_address\<close> returns is well formed: an IPv4 value below \<open>2 ^ 32\<close>, or
  eight groups below \<open>2 ^ 16\<close> that are not an IPv4-mapped address, flagged compatible exactly when
  the first six groups are zero and the last two are not both zero.\<close>

theorem parse_address_wf:
  assumes "parse_address x = Some a"
  shows "addr_wf a"
  using assms by (rule parse_address_addr_wf)

theorem parse_address_wf_witness:
  "parse_address (PStr ''[fe80::1]'') = Some (addr_of_words [0xFE80, 0, 0, 0, 0, 0, 0, 1])
   \<and> addr_wf (addr_of_words [0xFE80, 0, 0, 0, 0, 0, 0, 1])"
proof -
  have "parse_address (PStr ''[fe80::1]'') = Some (addr_of_words [0xFE80, 0, 0, 0, 0, 0, 0, 1])"
    by code_simp
  with parse_address_wf show ?thesis by blast
qed

text \<open>The address text a packet decoder prints is read back without loss: four octets as
  dotted decimal to their 32-bit value, eight 16-bit groups as colon-separated hex to the same
  groups. So the \<open>address_not_canonical\<close> branch is unreachable for a printed destination.\<close>

theorem printed_address_roundtrip:
  assumes "length ns = 4" "\<forall>n \<in> set ns. n < 256" "length ws = 8" "\<forall>w \<in> set ws. w < 65536"
  shows "parse_address (PStr (dotted_text ns)) = Some (v4_addr (foldl (\<lambda>a n. a * 256 + n) 0 ns))
    \<and> parse_ipv6 (colon_hex_text ws) = Some ws"
  using parse_address_dotted [OF assms(1,2)] parse_ipv6_colon_hex [OF assms(3,4)] by blast

theorem printed_address_roundtrip_witness:
  "parse_address (PStr (dotted_text [127, 0, 0, 1])) = Some (v4_addr 2130706433)
   \<and> parse_ipv6 (colon_hex_text [0xFE80, 0, 0, 0, 0, 0, 0, 1]) = Some [0xFE80, 0, 0, 0, 0, 0, 0, 1]"
  using printed_address_roundtrip [of "[127, 0, 0, 1]" "[0xFE80, 0, 0, 0, 0, 0, 0, 1]"] by simp

text \<open>The class test cannot be evaded by embedding: the plain, the IPv4-mapped and the
  IPv4-compatible spelling of the same four octets have the class of the IPv4 address.\<close>

theorem embedded_class_collapse:
  assumes "length ns = 4" "\<forall>n \<in> set ns. n < 256" "h \<in> {[], ''::ffff:'', ''::''}"
  shows "map_option address_class (parse_address (PStr (h @ dotted_text ns))) =
    Some (v4_class (foldl (\<lambda>a n. a * 256 + n) 0 ns))"
  using assms(3) parse_address_dotted [OF assms(1,2)] parse_address_mapped_text [OF assms(1,2)]
    address_class_compatible_text [OF assms(1,2)]
  by (auto simp: address_class_def v4_addr_def)

theorem embedded_class_collapse_witness:
  "map_option address_class (parse_address (PStr (''::ffff:'' @ dotted_text [169, 254, 169, 254])))
     = Some ''link_local''"
proof -
  have "v4_class 2852039166 = ''link_local''" by code_simp
  then show ?thesis
    using embedded_class_collapse [of "[169, 254, 169, 254]" "''::ffff:''"] by simp
qed

text \<open>The strict parser accepts a text that is no IPv6 address: the marker \<open>v4\<close> that
  \<open>parse_ipv6\<close> writes in place of a dotted tail is also taken from the input, so
  \<open>v4::1.2.3.4\<close> is read as \<open>102:304::102:304\<close>.\<close>

theorem v4_marker_accepted:
  "parse_address (PStr ''v4::1.2.3.4'') =
     Some (addr_of_words [0x102, 0x304, 0, 0, 0, 0, 0x102, 0x304])"
  by code_simp

end
