(* ===== verification/T5_Names.thy ===== *)
theory T5_Names
  imports Py_Base
begin

text \<open>
  \<open>t5_egress/names.py\<close>: preparation of listed and candidate DNS names and the longest-match rule
  over them. A name is the tuple of its folded labels. A \<open>NameRejected\<close> value carries its reason
  token in \<^const>\<open>Inl\<close>.
\<close>

section \<open>Definitions\<close>

definition ascii_space_chars :: string where
  "ascii_space_chars = [CHR '' '', CHR 0x09, CHR 0x0D, CHR 0x0A, CHR 0x0C, CHR 0x0B]"

definition label_ok :: "char \<Rightarrow> bool" where
  "label_ok c =
     (let n = py_ord c in
      97 \<le> n \<and> n \<le> 122 \<or> 65 \<le> n \<and> n \<le> 90 \<or> 48 \<le> n \<and> n \<le> 57 \<or> n = 45 \<or> n = 95)"

definition bad_label :: "string \<Rightarrow> bool" where
  "bad_label lbl = (lbl = [] \<or> length lbl > 63 \<or> \<not> list_all label_ok lbl)"

definition prepare_listed_name :: "pyval \<Rightarrow> string + string list" where
  "prepare_listed_name raw =
     (case raw of
        PStr s \<Rightarrow>
          if s = [] then Inl ''policy_malformed''
          else
            (let txt = py_strip ascii_space_chars s in
             if list_ex (\<lambda>c. c \<in> set ascii_space_chars \<or> py_ord c > 127) txt
             then Inl ''policy_malformed''
             else
               (let txt = (if suffix ''.'' txt then butlast txt else txt) in
                if txt = [] \<or> sublist ''..'' txt \<or> prefix ''.'' txt \<or> suffix ''.'' txt
                then Inl ''policy_malformed''
                else
                  (let labels = py_split (CHR ''.'') (ascii_fold txt) in
                   if list_ex bad_label labels then Inl ''policy_malformed''
                   else Inr labels)))
      | _ \<Rightarrow> Inl ''policy_malformed'')"

definition prepare_candidate_name :: "pyval \<Rightarrow> string + string list" where
  "prepare_candidate_name raw =
     (case raw of
        PStr s \<Rightarrow>
          if s = [] then Inl ''dns_label_not_ldh''
          else
            (let txt = (if suffix ''.'' s then butlast s else s) in
             if txt = [] \<or> \<not> is_ascii txt then Inl ''dns_label_not_ldh''
             else if sublist ''..'' txt \<or> prefix ''.'' txt \<or> suffix ''.'' txt
             then Inl ''dns_label_not_ldh''
             else
               (let labels = py_split (CHR ''.'') (ascii_fold txt) in
                if list_ex bad_label labels then Inl ''dns_label_not_ldh''
                else Inr labels))
      | _ \<Rightarrow> Inl ''dns_label_not_ldh'')"

text \<open>One round of the loop of \<open>longest_match\<close>: \<open>exact or suffix\<close>.\<close>

definition name_matches :: "'a list \<Rightarrow> 'a list \<Rightarrow> bool" where
  "name_matches candidate item =
     (candidate = item
      \<or> length item \<ge> 2 \<and> length item < length candidate
        \<and> drop (length candidate - length item) candidate = item)"

fun longest_match_from ::
  "'a list option \<Rightarrow> 'a list \<Rightarrow> 'a list list \<Rightarrow> 'a list option" where
  "longest_match_from best candidate [] = best"
| "longest_match_from best candidate (item # listed) =
     (if name_matches candidate item
         \<and> (case best of None \<Rightarrow> True | Some b \<Rightarrow> length item > length b)
      then longest_match_from (Some item) candidate listed
      else longest_match_from best candidate listed)"

definition longest_match :: "'a list \<Rightarrow> 'a list list \<Rightarrow> 'a list option" where
  "longest_match candidate listed = longest_match_from None candidate listed"

text \<open>What a prepared name is: one to many folded labels of one to 63 letters, digits, hyphens or
  underscores.\<close>

definition name_wf :: "string list \<Rightarrow> bool" where
  "name_wf labels =
     (labels \<noteq> [] \<and> (\<forall>l \<in> set labels. \<not> bad_label l \<and> ascii_fold l = l \<and> CHR ''.'' \<notin> set l))"

section \<open>Lemmas\<close>

lemma lower_char_upper:
  "65 \<le> py_ord c \<Longrightarrow> py_ord c \<le> 90 \<Longrightarrow> py_ord (lower_char c) = py_ord c + 32"
  by (simp add: lower_char_def of_char_of take_bit_eq_mod)

lemma ascii_fold_idem [simp]: "ascii_fold (ascii_fold s) = ascii_fold s"
  by (auto simp: ascii_fold_def lower_char_upper)

lemma py_split_ascii_fold:
  "p \<in> set (py_split (CHR ''.'') (ascii_fold t)) \<Longrightarrow> ascii_fold p = p"
proof -
  assume p: "p \<in> set (py_split (CHR ''.'') (ascii_fold t))"
  have "\<forall>c \<in> set (ascii_fold t). \<not> (65 \<le> py_ord c \<and> py_ord c \<le> 90)"
    by (auto simp: ascii_fold_def lower_char_upper)
  moreover have "set p \<subseteq> set (ascii_fold t)"
    using set_subset_py_join [OF p, of "''.''"] by (simp add: py_join_split)
  ultimately have "\<forall>c \<in> set p. \<not> (65 \<le> py_ord c \<and> py_ord c \<le> 90)" by blast
  then show ?thesis
    unfolding ascii_fold_def [of p] by (intro map_idI) auto
qed

lemma split_fold_name_wf:
  "\<not> list_ex bad_label (py_split (CHR ''.'') (ascii_fold t)) \<Longrightarrow>
     name_wf (py_split (CHR ''.'') (ascii_fold t))"
  by (auto simp: name_wf_def list_ex_iff dest: py_split_ascii_fold py_split_sep_free)

lemma prepare_listed_name_wf: "prepare_listed_name x = Inr ls \<Longrightarrow> name_wf ls"
  by (auto simp: prepare_listed_name_def Let_def split_fold_name_wf
      split: pyval.splits if_splits)

lemma prepare_candidate_name_wf: "prepare_candidate_name x = Inr ls \<Longrightarrow> name_wf ls"
  by (auto simp: prepare_candidate_name_def Let_def split_fold_name_wf
      split: pyval.splits if_splits)

lemma prepare_candidate_reason: "prepare_candidate_name x = Inl r \<Longrightarrow> r = ''dns_label_not_ldh''"
  by (auto simp: prepare_candidate_name_def Let_def split: pyval.splits if_splits)

lemma name_matches_iff:
  "name_matches cand item \<longleftrightarrow> cand = item \<or> length item \<ge> 2 \<and> strict_suffix item cand"
  by (auto simp: name_matches_def strict_suffix_def suffix_def)
    (metis append_take_drop_id)

lemma longest_match_from_spec:
  assumes "best = Some b \<Longrightarrow> name_matches cand b"
  shows "case longest_match_from best cand listed of
      None \<Rightarrow> best = None \<and> (\<forall>i \<in> set listed. \<not> name_matches cand i)
    | Some m \<Rightarrow> (best = Some m \<or> m \<in> set listed \<and> name_matches cand m)
        \<and> (\<forall>b. best = Some b \<longrightarrow> length b \<le> length m)
        \<and> (\<forall>i \<in> set listed. name_matches cand i \<longrightarrow> length i \<le> length m)"
proof (induction listed arbitrary: best)
  case (Cons item listed)
  show ?case
  proof (cases "name_matches cand item \<and> (case best of None \<Rightarrow> True | Some b \<Rightarrow> length item > length b)")
    case True
    with Cons.IH [of "Some item"] show ?thesis
      by (auto split: option.splits)
  next
    case False
    with Cons.IH [of best] show ?thesis
      by (auto split: option.splits)
  qed
qed (auto split: option.splits)

text \<open>The kept name and the matching listed names: two matches of the same length are equal.\<close>

lemma name_matches_same_length:
  "name_matches cand a \<Longrightarrow> name_matches cand b \<Longrightarrow> length a = length b \<Longrightarrow> a = b"
  by (auto simp: name_matches_def)

lemma longest_match_None_iff:
  "longest_match cand listed = None \<longleftrightarrow> (\<forall>i \<in> set listed. \<not> name_matches cand i)"
  using longest_match_from_spec [of None _ cand listed]
  by (auto simp: longest_match_def split: option.splits)

lemma longest_match_Some_iff:
  "longest_match cand listed = Some m \<longleftrightarrow>
     m \<in> set listed \<and> name_matches cand m
     \<and> (\<forall>i \<in> set listed. name_matches cand i \<longrightarrow> length i \<le> length m)" (is "?L \<longleftrightarrow> ?R")
proof
  assume ?L
  then show ?R
    using longest_match_from_spec [of None _ cand listed] by (auto simp: longest_match_def)
next
  assume R: ?R
  then obtain k where k: "longest_match cand listed = Some k"
    using longest_match_None_iff [of cand listed] by auto
  then have "k \<in> set listed \<and> name_matches cand k
      \<and> (\<forall>i \<in> set listed. name_matches cand i \<longrightarrow> length i \<le> length k)"
    using longest_match_from_spec [of None _ cand listed] by (auto simp: longest_match_def)
  with R have "k = m" by (meson le_antisym name_matches_same_length)
  with k show ?L by simp
qed

section \<open>Properties\<close>

text \<open>\<open>longest_match\<close> returns the longest listed name that is the candidate itself or, with two
  or more labels, a proper label suffix of it; it returns nothing exactly when no listed name
  matches.\<close>

theorem longest_match_correct:
  "longest_match cand listed = Some m \<longleftrightarrow>
     m \<in> set listed \<and> (cand = m \<or> length m \<ge> 2 \<and> strict_suffix m cand)
     \<and> \<not> (\<exists>i \<in> set listed. length i > length m
            \<and> (cand = i \<or> length i \<ge> 2 \<and> strict_suffix i cand))"
  unfolding longest_match_Some_iff name_matches_iff by (meson linorder_not_le)

text \<open>A name accepted into the policy and a candidate name both come out as folded labels of
  one to 63 letters, digits, hyphens or underscores, with no dot inside a label.\<close>

theorem prepared_names_wf:
  "(\<forall>ls. prepare_listed_name x = Inr ls \<longrightarrow> name_wf ls)
   \<and> (\<forall>ls. prepare_candidate_name x = Inr ls \<longrightarrow> name_wf ls)"
  using prepare_listed_name_wf prepare_candidate_name_wf by blast

theorem prepared_names_wf_witness:
  "prepare_listed_name (PStr '' Allowed.Example. '') = Inr [''allowed'', ''example'']
   \<and> name_wf [''allowed'', ''example'']"
proof -
  have "prepare_listed_name (PStr '' Allowed.Example. '') = Inr [''allowed'', ''example'']"
    by code_simp
  with prepared_names_wf show ?thesis by blast
qed

end
