(* ===== verification/T5_Policy.thy ===== *)
theory T5_Policy
  imports T5_Address T5_Names
begin

text \<open>
  \<open>t5_egress/policy.py\<close>: the closed policy schema. \<open>load_policy\<close> takes a decoded JSON value and
  returns a policy; a value that breaks the schema gives the malformed policy, which every case
  refuses. The exceptions of the loader are values: \<open>PolicyMalformed\<close> is caught by
  \<open>load_policy\<close>, the \<open>OverflowError\<close> of \<open>float(value)\<close> on a large integer is not.
\<close>

section \<open>Definitions\<close>

datatype policy_exn = PolicyMalformed | OverflowError

record DnsPolicy =
  allowed_names :: "string list list"
  allowed_resolvers :: "Addr list"
  max_label_length :: int
  entropy_min_length :: int
  entropy_bits_max :: real
  dns_max_queries :: int
  window_seconds :: int

record IcmpPolicy =
  allowed_destinations :: "Addr list"
  allowed_types :: "int list"

record HttpPolicy =
  allowed_hosts :: "string list list"
  allowed_host_addrs :: "Addr list"
  max_query_length :: int
  max_path_length :: int
  max_header_bytes :: int
  write_query_keys :: "string list"
  write_path_prefixes :: "string list"

record LoopPolicy =
  allowed_ports :: "int list"
  privileged_ports :: "int list"

record Policy =
  dns :: DnsPolicy
  icmp :: IcmpPolicy
  http_get :: HttpPolicy
  loopback :: LoopPolicy
  malformed :: bool

definition TOP_keys :: "string list" where
  "TOP_keys = [''dns'', ''icmp'', ''http_get'', ''loopback'']"

definition DNS_keys :: "string list" where
  "DNS_keys =
     [''allowed_names'', ''allowed_resolvers'', ''max_label_length'', ''entropy_min_length'',
      ''entropy_bits_max'', ''max_queries'', ''window_seconds'']"

definition ICMP_keys :: "string list" where
  "ICMP_keys = [''allowed_destinations'', ''allowed_types'']"

definition HTTP_keys :: "string list" where
  "HTTP_keys =
     [''allowed_hosts'', ''max_query_length'', ''max_path_length'', ''max_header_bytes'',
      ''write_query_keys'', ''write_path_prefixes'']"

definition LOOP_keys :: "string list" where
  "LOOP_keys = [''allowed_ports'', ''privileged_ports'']"

definition policy_int :: "pyval \<Rightarrow> int \<Rightarrow> int \<Rightarrow> policy_exn + int" where
  "policy_int value low high =
     (case value of
        PInt v \<Rightarrow> if v < low \<or> v > high then Inl PolicyMalformed else Inr v
      | _ \<Rightarrow> Inl PolicyMalformed)"

text \<open>\<open>float(v)\<close> overflows from the first integer that rounds past the largest double; below
  \<open>2 ^ 53\<close> it is exact, and the range test only lets values up to \<open>high\<close> through.\<close>

definition float_of_int :: "int \<Rightarrow> policy_exn + real" where
  "float_of_int v =
     (if \<bar>v\<bar> \<ge> 2 ^ 1024 - 2 ^ 970 then Inl OverflowError else Inr (real_of_int v))"

definition float_range :: "real \<Rightarrow> real \<Rightarrow> real \<Rightarrow> policy_exn + real" where
  "float_range value low high =
     (if \<not> (low < value \<and> value \<le> high) then Inl PolicyMalformed else Inr value)"

definition policy_float :: "pyval \<Rightarrow> real \<Rightarrow> real \<Rightarrow> policy_exn + real" where
  "policy_float value low high =
     (case value of
        PInt v \<Rightarrow> bind_res (float_of_int v) (\<lambda>x. float_range x low high)
      | PFloat (Fin x) \<Rightarrow> float_range x low high
      | _ \<Rightarrow> Inl PolicyMalformed)"

definition policy_string :: "pyval \<Rightarrow> policy_exn + string" where
  "policy_string item =
     (case item of
        PStr s \<Rightarrow> if s = [] then Inl PolicyMalformed else Inr s
      | _ \<Rightarrow> Inl PolicyMalformed)"

definition policy_strings :: "pyval \<Rightarrow> policy_exn + string list" where
  "policy_strings value =
     (case value of PList items \<Rightarrow> map_res policy_string items | _ \<Rightarrow> Inl PolicyMalformed)"

definition policy_addr :: "string \<Rightarrow> policy_exn + Addr" where
  "policy_addr item =
     (if CHR ''/'' \<in> set item then Inl PolicyMalformed
      else (case parse_address (PStr item) of
              None \<Rightarrow> Inl PolicyMalformed
            | Some a \<Rightarrow> Inr a))"

definition policy_addrs :: "pyval \<Rightarrow> policy_exn + Addr list" where
  "policy_addrs value = bind_res (policy_strings value) (map_res policy_addr)"

definition policy_name :: "string \<Rightarrow> policy_exn + string list" where
  "policy_name item =
     (case prepare_listed_name (PStr item) of
        Inl _ \<Rightarrow> Inl PolicyMalformed
      | Inr labels \<Rightarrow> Inr labels)"

definition policy_names :: "pyval \<Rightarrow> policy_exn + string list list" where
  "policy_names value = bind_res (policy_strings value) (map_res policy_name)"

definition policy_require_list :: "pyval \<Rightarrow> policy_exn + pyval list" where
  "policy_require_list value =
     (case value of PList items \<Rightarrow> Inr items | _ \<Rightarrow> Inl PolicyMalformed)"

definition policy_ports :: "pyval \<Rightarrow> policy_exn + int list" where
  "policy_ports value =
     (case value of
        PList items \<Rightarrow> map_res (\<lambda>item. policy_int item 0 65535) items
      | _ \<Rightarrow> Inl PolicyMalformed)"

definition policy_section :: "pyval \<Rightarrow> string list \<Rightarrow> policy_exn + (string \<times> pyval) list" where
  "policy_section data keys =
     (case data of
        PDict d \<Rightarrow> if set (map fst d) \<noteq> set keys then Inl PolicyMalformed else Inr d
      | _ \<Rightarrow> Inl PolicyMalformed)"

text \<open>The loop over \<open>allowed_hosts\<close>: addresses and names in two lists, in order.\<close>

fun http_hosts :: "string list \<Rightarrow> policy_exn + (string list list \<times> Addr list)" where
  "http_hosts [] = Inr ([], [])"
| "http_hosts (host # hosts) =
     (let is_addr = (case parse_address (PStr host) of
                       None \<Rightarrow> None
                     | Some a \<Rightarrow>
                         if CHR '':'' \<notin> set host \<and> count_list host (CHR ''.'') = 3 then Some a
                         else if CHR '':'' \<in> set host then Some a
                         else None)
      in case is_addr of
           Some a \<Rightarrow> bind_res (http_hosts hosts) (\<lambda>(names, addrs). Inr (names, a # addrs))
         | None \<Rightarrow>
             bind_res (policy_name host)
               (\<lambda>n. bind_res (http_hosts hosts) (\<lambda>(names, addrs). Inr (n # names, addrs))))"

definition query_key_char :: "char \<Rightarrow> bool" where
  "query_key_char c =
     (let n = py_ord c in 97 \<le> n \<and> n \<le> 122 \<or> 48 \<le> n \<and> n \<le> 57 \<or> n = 95 \<or> n = 45)"

definition http_query_keys :: "string list \<Rightarrow> policy_exn + string list" where
  "http_query_keys items =
     (let keys = map (\<lambda>item. py_lower (py_strip [CHR '' '', CHR 0x09] item)) items in
      if list_ex (\<lambda>key. key = [] \<or> \<not> list_all query_key_char key) keys
      then Inl PolicyMalformed else Inr keys)"

definition http_prefix :: "string \<Rightarrow> policy_exn + string" where
  "http_prefix pre =
     (let folded = ascii_fold pre in
      if \<not> prefix ''/'' folded \<or> \<not> is_ascii folded then Inl PolicyMalformed
      else if CHR ''%'' \<in> set folded \<or> sublist ''..'' folded \<or> sublist ''//'' folded
           \<or> CHR 0x5C \<in> set folded \<or> CHR '';'' \<in> set folded
      then Inl PolicyMalformed
      else Inr folded)"

definition policy_http :: "(string \<times> pyval) list \<Rightarrow> policy_exn + HttpPolicy" where
  "policy_http data =
     bind_res (policy_strings (dict_get data ''allowed_hosts'')) (\<lambda>hosts.
     bind_res (http_hosts hosts) (\<lambda>(names, addrs).
     bind_res (policy_strings (dict_get data ''write_query_keys'')) (\<lambda>key_items.
     bind_res (http_query_keys key_items) (\<lambda>keys.
     bind_res (policy_strings (dict_get data ''write_path_prefixes'')) (\<lambda>prefix_items.
     bind_res (map_res http_prefix prefix_items) (\<lambda>pres.
     bind_res (policy_int (dict_get data ''max_query_length'') 1 128) (\<lambda>mq.
     bind_res (policy_int (dict_get data ''max_path_length'') 1 256) (\<lambda>mp.
     bind_res (policy_int (dict_get data ''max_header_bytes'') 0 1024) (\<lambda>mh.
     Inr \<lparr>allowed_hosts = names, allowed_host_addrs = addrs, max_query_length = mq,
          max_path_length = mp, max_header_bytes = mh, write_query_keys = keys,
          write_path_prefixes = pres\<rparr>)))))))))"

definition policy_dns :: "(string \<times> pyval) list \<Rightarrow> policy_exn + DnsPolicy" where
  "policy_dns data =
     bind_res (policy_names (dict_get data ''allowed_names'')) (\<lambda>names.
     bind_res (policy_addrs (dict_get data ''allowed_resolvers'')) (\<lambda>resolvers.
     bind_res (policy_int (dict_get data ''max_label_length'') 1 63) (\<lambda>ml.
     bind_res (policy_int (dict_get data ''entropy_min_length'') 1 63) (\<lambda>em.
     bind_res (policy_float (dict_get data ''entropy_bits_max'') 0 8) (\<lambda>eb.
     bind_res (policy_int (dict_get data ''max_queries'') 1 64) (\<lambda>mq.
     bind_res (policy_int (dict_get data ''window_seconds'') 1 3600) (\<lambda>ws.
     Inr \<lparr>allowed_names = names, allowed_resolvers = resolvers, max_label_length = ml,
          entropy_min_length = em, entropy_bits_max = eb, dns_max_queries = mq,
          window_seconds = ws\<rparr>)))))))"

definition policy_icmp :: "(string \<times> pyval) list \<Rightarrow> policy_exn + IcmpPolicy" where
  "policy_icmp data =
     bind_res (policy_addrs (dict_get data ''allowed_destinations'')) (\<lambda>dests.
     bind_res (policy_require_list (dict_get data ''allowed_types'')) (\<lambda>items.
     bind_res (map_res (\<lambda>item. policy_int item 0 255) items) (\<lambda>types.
     Inr \<lparr>allowed_destinations = dests, allowed_types = types\<rparr>)))"

definition policy_loop :: "(string \<times> pyval) list \<Rightarrow> policy_exn + LoopPolicy" where
  "policy_loop data =
     bind_res (policy_ports (dict_get data ''allowed_ports'')) (\<lambda>allowed.
     bind_res (policy_ports (dict_get data ''privileged_ports'')) (\<lambda>privileged.
     Inr \<lparr>allowed_ports = allowed, privileged_ports = privileged\<rparr>))"

definition malformed_policy :: Policy where
  "malformed_policy =
     \<lparr>dns = \<lparr>allowed_names = [], allowed_resolvers = [], max_label_length = 1,
             entropy_min_length = 1, entropy_bits_max = 1, dns_max_queries = 1,
             window_seconds = 1\<rparr>,
      icmp = \<lparr>allowed_destinations = [], allowed_types = []\<rparr>,
      http_get = \<lparr>allowed_hosts = [], allowed_host_addrs = [], max_query_length = 1,
                  max_path_length = 1, max_header_bytes = 0, write_query_keys = [],
                  write_path_prefixes = []\<rparr>,
      loopback = \<lparr>allowed_ports = [], privileged_ports = []\<rparr>,
      malformed = True\<rparr>"

text \<open>The body of the \<open>try\<close> block.\<close>

definition build_policy :: "pyval \<Rightarrow> policy_exn + Policy" where
  "build_policy data =
     bind_res (policy_section data TOP_keys) (\<lambda>top.
     bind_res (policy_section (dict_get top ''dns'') DNS_keys) (\<lambda>dns_data.
     bind_res (policy_section (dict_get top ''icmp'') ICMP_keys) (\<lambda>icmp_data.
     bind_res (policy_section (dict_get top ''http_get'') HTTP_keys) (\<lambda>http_data.
     bind_res (policy_section (dict_get top ''loopback'') LOOP_keys) (\<lambda>loop_data.
     bind_res (policy_dns dns_data) (\<lambda>dns_policy.
     bind_res (policy_icmp icmp_data) (\<lambda>icmp_policy.
     bind_res (policy_http http_data) (\<lambda>http_policy.
     bind_res (policy_loop loop_data) (\<lambda>loop_policy.
     Inr \<lparr>dns = dns_policy, icmp = icmp_policy, http_get = http_policy,
          loopback = loop_policy, malformed = False\<rparr>)))))))))"

definition load_policy :: "pyval \<Rightarrow> policy_exn + Policy" where
  "load_policy data =
     (case build_policy data of
        Inl PolicyMalformed \<Rightarrow> Inr malformed_policy
      | r \<Rightarrow> r)"

text \<open>The decoded file, or \<^const>\<open>None\<close> when reading or decoding it raised.\<close>

definition load_policy_file :: "pyval option \<Rightarrow> policy_exn + Policy" where
  "load_policy_file raw = (case raw of None \<Rightarrow> load_policy PNone | Some v \<Rightarrow> load_policy v)"

section \<open>Well-formed policies\<close>

definition dns_wf :: "DnsPolicy \<Rightarrow> bool" where
  "dns_wf d =
     ((\<forall>n \<in> set (allowed_names d). name_wf n) \<and> (\<forall>a \<in> set (allowed_resolvers d). addr_wf a)
      \<and> 1 \<le> max_label_length d \<and> max_label_length d \<le> 63
      \<and> 1 \<le> entropy_min_length d \<and> entropy_min_length d \<le> 63
      \<and> 0 < entropy_bits_max d \<and> entropy_bits_max d \<le> 8
      \<and> 1 \<le> dns_max_queries d \<and> dns_max_queries d \<le> 64
      \<and> 1 \<le> window_seconds d \<and> window_seconds d \<le> 3600)"

definition icmp_wf :: "IcmpPolicy \<Rightarrow> bool" where
  "icmp_wf i =
     ((\<forall>a \<in> set (allowed_destinations i). addr_wf a)
      \<and> (\<forall>t \<in> set (allowed_types i). 0 \<le> t \<and> t \<le> 255))"

definition http_wf :: "HttpPolicy \<Rightarrow> bool" where
  "http_wf h =
     ((\<forall>n \<in> set (allowed_hosts h). name_wf n) \<and> (\<forall>a \<in> set (allowed_host_addrs h). addr_wf a)
      \<and> 1 \<le> max_query_length h \<and> max_query_length h \<le> 128
      \<and> 1 \<le> max_path_length h \<and> max_path_length h \<le> 256
      \<and> 0 \<le> max_header_bytes h \<and> max_header_bytes h \<le> 1024
      \<and> (\<forall>k \<in> set (write_query_keys h). k \<noteq> [] \<and> list_all query_key_char k)
      \<and> (\<forall>p \<in> set (write_path_prefixes h). prefix ''/'' p \<and> ascii_fold p = p \<and> is_ascii p))"

definition loop_wf :: "LoopPolicy \<Rightarrow> bool" where
  "loop_wf l = (\<forall>p \<in> set (allowed_ports l) \<union> set (privileged_ports l). 0 \<le> p \<and> p \<le> 65535)"

definition policy_wf :: "Policy \<Rightarrow> bool" where
  "policy_wf p =
     (dns_wf (dns p) \<and> icmp_wf (icmp p) \<and> http_wf (http_get p) \<and> loop_wf (loopback p))"

lemmas policy_wf_defs = policy_wf_def dns_wf_def icmp_wf_def http_wf_def loop_wf_def

text \<open>A policy document used by the concrete instances, and the policy it loads to.\<close>

definition sample_policy_json :: "pyval \<Rightarrow> pyval" where
  "sample_policy_json bits =
     PDict
       [(''dns'', PDict
           [(''allowed_names'', PList [PStr '' Corp.Test.'']),
            (''allowed_resolvers'', PList [PStr ''192.0.2.53'']),
            (''max_label_length'', PInt 40), (''entropy_min_length'', PInt 16),
            (''entropy_bits_max'', bits),
            (''max_queries'', PInt 5), (''window_seconds'', PInt 10)]),
        (''icmp'', PDict
           [(''allowed_destinations'', PList [PStr ''192.0.2.10'']),
            (''allowed_types'', PList [PInt 8])]),
        (''http_get'', PDict
           [(''allowed_hosts'', PList [PStr ''api.corp.test'', PStr ''192.0.2.20'']),
            (''max_query_length'', PInt 64), (''max_path_length'', PInt 128),
            (''max_header_bytes'', PInt 512),
            (''write_query_keys'', PList [PStr ''Write '']),
            (''write_path_prefixes'', PList [PStr ''/Admin''])]),
        (''loopback'', PDict
           [(''allowed_ports'', PList [PInt 8080]), (''privileged_ports'', PList [PInt 22])])]"

definition sample_policy :: Policy where
  "sample_policy =
     \<lparr>dns = \<lparr>allowed_names = [[''corp'', ''test'']], allowed_resolvers = [v4_addr 0xC0000235],
             max_label_length = 40, entropy_min_length = 16, entropy_bits_max = 4,
             dns_max_queries = 5, window_seconds = 10\<rparr>,
      icmp = \<lparr>allowed_destinations = [v4_addr 0xC000020A], allowed_types = [8]\<rparr>,
      http_get = \<lparr>allowed_hosts = [[''api'', ''corp'', ''test'']],
                  allowed_host_addrs = [v4_addr 0xC0000214], max_query_length = 64,
                  max_path_length = 128, max_header_bytes = 512, write_query_keys = [''write''],
                  write_path_prefixes = [''/admin'']\<rparr>,
      loopback = \<lparr>allowed_ports = [8080], privileged_ports = [22]\<rparr>,
      malformed = False\<rparr>"

section \<open>Lemmas\<close>

lemma policy_int_Inr: "policy_int v lo hi = Inr i \<Longrightarrow> lo \<le> i \<and> i \<le> hi"
  by (auto simp: policy_int_def split: pyval.splits if_splits)

lemma policy_float_Inr: "policy_float v lo hi = Inr x \<Longrightarrow> lo < x \<and> x \<le> hi"
  by (auto simp: policy_float_def float_range_def bind_res_Inr_iff
      split: pyval.splits pyfloat.splits if_splits)

lemma policy_addr_Inr: "policy_addr s = Inr a \<Longrightarrow> addr_wf a"
  by (auto simp: policy_addr_def parse_address_addr_wf split: if_splits option.splits)

lemma policy_addrs_Inr: "policy_addrs v = Inr as \<Longrightarrow> \<forall>a \<in> set as. addr_wf a"
  by (auto simp: policy_addrs_def bind_res_Inr_iff dest: map_res_Inr_ball [where P = addr_wf] policy_addr_Inr)

lemma policy_name_Inr: "policy_name s = Inr n \<Longrightarrow> name_wf n"
  by (auto simp: policy_name_def prepare_listed_name_wf split: sum.splits)

lemma policy_names_Inr: "policy_names v = Inr ns \<Longrightarrow> \<forall>n \<in> set ns. name_wf n"
  by (auto simp: policy_names_def bind_res_Inr_iff dest: map_res_Inr_ball [where P = name_wf] policy_name_Inr)

lemma map_policy_int_Inr:
  "map_res (\<lambda>item. policy_int item lo hi) xs = Inr is \<Longrightarrow> \<forall>i \<in> set is. lo \<le> i \<and> i \<le> hi"
  by (erule map_res_Inr_ball) (rule policy_int_Inr)

lemma policy_ports_Inr: "policy_ports v = Inr ps \<Longrightarrow> \<forall>p \<in> set ps. 0 \<le> p \<and> p \<le> 65535"
  by (auto simp: policy_ports_def dest: map_policy_int_Inr split: pyval.splits)

lemma http_hosts_Inr:
  "http_hosts hs = Inr (ns, as) \<Longrightarrow> (\<forall>n \<in> set ns. name_wf n) \<and> (\<forall>a \<in> set as. addr_wf a)"
proof (induction hs arbitrary: ns as)
  case (Cons h hs)
  then show ?case
    by (auto simp: Let_def bind_res_Inr_iff dest: policy_name_Inr parse_address_addr_wf
        split: option.splits if_splits)
qed simp

lemma http_prefix_Inr: "http_prefix s = Inr p \<Longrightarrow> prefix ''/'' p \<and> ascii_fold p = p \<and> is_ascii p"
  by (auto simp: http_prefix_def Let_def split: if_splits)

lemma map_http_prefix_Inr:
  "map_res http_prefix xs = Inr ps \<Longrightarrow> \<forall>p \<in> set ps. prefix ''/'' p \<and> ascii_fold p = p \<and> is_ascii p"
  by (erule map_res_Inr_ball) (rule http_prefix_Inr)

lemma http_query_keys_Inr:
  "http_query_keys xs = Inr ks \<Longrightarrow> \<forall>k \<in> set ks. k \<noteq> [] \<and> list_all query_key_char k"
  by (simp only: http_query_keys_def Let_def list_ex_iff sum.inject sum.distinct split: if_splits) blast

lemmas policy_field_Inr =
  policy_int_Inr policy_float_Inr policy_addrs_Inr policy_names_Inr map_policy_int_Inr
  policy_ports_Inr http_hosts_Inr map_http_prefix_Inr http_query_keys_Inr

lemma policy_dns_wf: "policy_dns d = Inr p \<Longrightarrow> dns_wf p"
  by (auto simp: policy_dns_def bind_res_Inr_iff dns_wf_def dest!: policy_field_Inr)

lemma policy_icmp_wf: "policy_icmp d = Inr p \<Longrightarrow> icmp_wf p"
  by (auto simp: policy_icmp_def bind_res_Inr_iff icmp_wf_def dest!: policy_field_Inr)

lemma policy_http_wf: "policy_http d = Inr p \<Longrightarrow> http_wf p"
  by (auto simp: policy_http_def bind_res_Inr_iff http_wf_def dest!: policy_field_Inr)

lemma policy_loop_wf: "policy_loop d = Inr p \<Longrightarrow> loop_wf p"
  by (auto simp: policy_loop_def bind_res_Inr_iff loop_wf_def dest!: policy_field_Inr)

lemma build_policy_wf: "build_policy x = Inr p \<Longrightarrow> policy_wf p \<and> \<not> malformed p"
  by (auto simp: build_policy_def bind_res_Inr_iff policy_wf_def
      intro: policy_dns_wf policy_icmp_wf policy_http_wf policy_loop_wf)

lemma malformed_policy_wf: "policy_wf malformed_policy"
  by (simp add: malformed_policy_def policy_wf_defs)

lemma load_policy_Inr:
  "load_policy x = Inr p \<longleftrightarrow>
     build_policy x = Inr p \<or> build_policy x = Inl PolicyMalformed \<and> p = malformed_policy"
  by (auto simp: load_policy_def split: sum.splits policy_exn.splits)

lemma load_policy_policy_wf: "load_policy x = Inr p \<Longrightarrow> policy_wf p"
  using build_policy_wf malformed_policy_wf by (auto simp: load_policy_Inr)

lemma map_res_no_exn: "(\<And>x. f x \<noteq> Inl e) \<Longrightarrow> map_res f xs \<noteq> Inl e"
  by (induction xs) (auto simp: bind_res_def split: sum.splits)

lemma policy_int_no_overflow: "policy_int v lo hi \<noteq> Inl OverflowError"
  by (simp add: policy_int_def split: pyval.split)

lemma policy_name_no_overflow: "policy_name v \<noteq> Inl OverflowError"
  by (simp add: policy_name_def split: sum.split)

lemma policy_strings_no_overflow: "policy_strings v \<noteq> Inl OverflowError"
  by (simp add: policy_strings_def policy_string_def map_res_no_exn split: pyval.split)

lemma policy_names_no_overflow: "policy_names v \<noteq> Inl OverflowError"
  by (auto simp: policy_names_def bind_res_Inl_iff policy_strings_no_overflow
      dest: map_res_no_exn [OF policy_name_no_overflow, THEN notE])

lemma policy_addrs_no_overflow: "policy_addrs v \<noteq> Inl OverflowError"
  by (auto simp: policy_addrs_def bind_res_Inl_iff policy_strings_no_overflow policy_addr_def
      map_res_no_exn split: option.split)

lemma policy_ports_no_overflow: "policy_ports v \<noteq> Inl OverflowError"
  by (simp add: policy_ports_def map_res_no_exn policy_int_no_overflow split: pyval.split)

lemma http_hosts_no_overflow: "http_hosts hs \<noteq> Inl OverflowError"
  by (induction hs)
    (auto simp: Let_def bind_res_Inl_iff policy_name_no_overflow split: option.splits)

lemma http_query_keys_no_overflow: "http_query_keys ks \<noteq> Inl OverflowError"
  by (simp add: http_query_keys_def Let_def)

lemma http_prefix_no_overflow: "http_prefix p \<noteq> Inl OverflowError"
  by (simp add: http_prefix_def Let_def)

lemma policy_require_list_no_overflow: "policy_require_list v \<noteq> Inl OverflowError"
  by (simp add: policy_require_list_def split: pyval.split)

lemma policy_section_no_overflow: "policy_section v ks \<noteq> Inl OverflowError"
  by (simp add: policy_section_def split: pyval.split)

lemmas field_no_overflow =
  policy_int_no_overflow policy_names_no_overflow policy_addrs_no_overflow policy_ports_no_overflow
  policy_strings_no_overflow http_hosts_no_overflow http_query_keys_no_overflow
  policy_require_list_no_overflow policy_section_no_overflow
  map_res_no_exn [OF http_prefix_no_overflow] map_res_no_exn [OF policy_int_no_overflow]

lemma policy_icmp_no_overflow: "policy_icmp d \<noteq> Inl OverflowError"
  by (auto simp: policy_icmp_def bind_res_Inl_iff field_no_overflow)

lemma policy_http_no_overflow: "policy_http d \<noteq> Inl OverflowError"
  by (auto simp: policy_http_def bind_res_Inl_iff field_no_overflow)

lemma policy_loop_no_overflow: "policy_loop d \<noteq> Inl OverflowError"
  by (auto simp: policy_loop_def bind_res_Inl_iff field_no_overflow)

lemmas no_overflow =
  field_no_overflow policy_icmp_no_overflow policy_http_no_overflow policy_loop_no_overflow

lemma policy_float_overflow:
  "policy_float v lo hi = Inl OverflowError \<longleftrightarrow> (\<exists>i. v = PInt i \<and> 2 ^ 1024 - 2 ^ 970 \<le> \<bar>i\<bar>)"
  by (auto simp: policy_float_def float_of_int_def float_range_def bind_res_def
      split: pyval.split pyfloat.split)

lemma policy_section_Inr:
  "policy_section v keys = Inr d \<longleftrightarrow> v = PDict d \<and> set (map fst d) = set keys"
  by (auto simp: policy_section_def split: pyval.splits if_splits)

section \<open>Properties\<close>

text \<open>
  C36: a policy the loader returns is within the ranges of the schema (names and addresses
  well-formed, limits in their intervals), whatever JSON value it was given. The result is marked
  malformed exactly when it is the empty policy, and a policy that is not malformed comes from an
  object with exactly the four sections.
\<close>

theorem load_policy_wf:
  assumes "load_policy x = Inr p"
  shows "policy_wf p \<and> (malformed p \<longleftrightarrow> p = malformed_policy)
    \<and> (\<not> malformed p \<longrightarrow> (\<exists>d. x = PDict d \<and> set (map fst d) = set TOP_keys))"
proof (cases "build_policy x = Inr p")
  case True
  moreover have "\<not> malformed p" using build_policy_wf [OF True] by simp
  moreover have "p \<noteq> malformed_policy" using \<open>\<not> malformed p\<close> by (auto simp: malformed_policy_def)
  moreover have "\<exists>d. x = PDict d \<and> set (map fst d) = set TOP_keys"
    using True by (auto simp: build_policy_def bind_res_Inr_iff policy_section_Inr)
  ultimately show ?thesis using build_policy_wf [OF True] by simp
next
  case False
  then have "p = malformed_policy" using assms by (simp add: load_policy_Inr)
  then show ?thesis using malformed_policy_wf by (simp add: malformed_policy_def)
qed

lemma sample_policy_lists:
  "policy_names (PList [PStr '' Corp.Test.'']) = Inr [[''corp'', ''test'']]"
  "policy_addrs (PList [PStr ''192.0.2.53'']) = Inr [v4_addr 0xC0000235]"
  "policy_addrs (PList [PStr ''192.0.2.10'']) = Inr [v4_addr 0xC000020A]"
  "policy_strings (PList [PStr ''api.corp.test'', PStr ''192.0.2.20''])
     = Inr [''api.corp.test'', ''192.0.2.20'']"
  "http_hosts [''api.corp.test'', ''192.0.2.20'']
     = Inr ([[''api'', ''corp'', ''test'']], [v4_addr 0xC0000214])"
  "policy_strings (PList [PStr ''Write '']) = Inr [''Write '']"
  "http_query_keys [''Write ''] = Inr [''write'']"
  "policy_strings (PList [PStr ''/Admin'']) = Inr [''/Admin'']"
  "http_prefix ''/Admin'' = Inr ''/admin''"
  by code_simp+

lemma sample_policy_build:
  "build_policy (sample_policy_json bits) =
     bind_res (policy_float bits 0 8)
       (\<lambda>eb. Inr (sample_policy\<lparr>dns := (dns sample_policy)\<lparr>entropy_bits_max := eb\<rparr>\<rparr>))"
  by (simp add: build_policy_def sample_policy_json_def policy_section_def TOP_keys_def DNS_keys_def
      ICMP_keys_def HTTP_keys_def LOOP_keys_def policy_dns_def policy_icmp_def policy_http_def
      policy_loop_def sample_policy_lists policy_int_def policy_require_list_def policy_ports_def
      sample_policy_def insert_commute dict_get_def bind_res_assoc
      del: http_hosts.simps)

lemma sample_policy_loads: "load_policy (sample_policy_json (PInt 4)) = Inr sample_policy"
  by (simp add: load_policy_def sample_policy_build policy_float_def float_of_int_def
      float_range_def sample_policy_def)

theorem load_policy_wf_witness:
  "policy_wf sample_policy \<and> (malformed sample_policy \<longleftrightarrow> sample_policy = malformed_policy)
    \<and> \<not> malformed sample_policy \<and> (\<exists>d. sample_policy_json (PInt 4) = PDict d \<and> set (map fst d) = set TOP_keys)"
  using load_policy_wf [OF sample_policy_loads] by (simp add: sample_policy_def)

text \<open>
  An exception leaves the loader only from an integer \<open>entropy_bits_max\<close> beyond the range of a
  double: \<open>float(value)\<close> raises \<open>OverflowError\<close>, which the handler of \<open>load_policy\<close> does not
  list, so such a file is not turned into the malformed policy (the instance is one).
\<close>

theorem load_policy_escapes:
  assumes "load_policy x = Inl e"
  shows "e = OverflowError \<and>
    (\<exists>top d v. x = PDict top \<and> dict_get top ''dns'' = PDict d
       \<and> dict_get d ''entropy_bits_max'' = PInt v \<and> 2 ^ 1024 - 2 ^ 970 \<le> \<bar>v\<bar>)"
proof -
  have e: "e = OverflowError" using assms by (auto simp: load_policy_def split: sum.splits policy_exn.splits)
  have "build_policy x = Inl OverflowError"
    using assms e by (auto simp: load_policy_def split: sum.splits policy_exn.splits)
  then show ?thesis
    using e by (auto simp: build_policy_def bind_res_Inl_iff no_overflow policy_section_Inr
        policy_dns_def policy_float_overflow)
qed

theorem load_policy_escapes_witness:
  "load_policy (sample_policy_json (PInt (2 ^ 1024))) = Inl OverflowError
   \<and> (\<exists>top d v. sample_policy_json (PInt (2 ^ 1024)) = PDict top \<and> dict_get top ''dns'' = PDict d
       \<and> dict_get d ''entropy_bits_max'' = PInt v \<and> 2 ^ 1024 - 2 ^ 970 \<le> \<bar>v\<bar>)"
proof -
  have "load_policy (sample_policy_json (PInt (2 ^ 1024))) = Inl OverflowError"
    by (simp add: load_policy_def sample_policy_build policy_float_def float_of_int_def bind_res_def)
  from this load_policy_escapes [OF this] show ?thesis by blast
qed

end
