(* ===== verification/T5_Dns_Wire.thy ===== *)
theory T5_Dns_Wire
  imports T5_Address
begin

unbundle bit_operations_syntax

text \<open>
  \<open>t5_egress/dns_wire.py\<close>, the bounded walk over a DNS message, and the DNS half of
  \<open>t5_egress/fixtures.py\<close>, which builds messages. \<open>WireFail(reason)\<close> is \<open>Inl reason\<close>; the
  budget object is its step count, passed in and returned; offsets are natural numbers, since the
  walk never makes a negative one. Every packet access of the model is below the length test the
  code makes before it.
\<close>

section \<open>Definitions\<close>

definition MAX_STEPS :: nat where "MAX_STEPS = 128"
definition MAX_HOPS :: nat where "MAX_HOPS = 4"
definition MAX_NAME :: nat where "MAX_NAME = 255"

type_synonym wire_labels = "bytes list"

record Name =
  name_labels :: wire_labels
  name_end :: nat

record Question =
  q_labels :: wire_labels
  q_end :: nat

record Record =
  owner :: wire_labels
  rtype :: nat
  rdata_name :: "wire_labels option"
  rdata_addr :: "string option"

record ResponseView =
  authority :: "Record list"
  additional :: "Record list"

definition budget_take :: "nat \<Rightarrow> string + nat" where
  "budget_take steps =
     (if steps + 1 > MAX_STEPS then Inl ''dns_parse_budget'' else Inr (steps + 1))"

text \<open>The loop of \<open>_read_name\<close>; the arguments after the step count are the local variables
  \<open>labels\<close>, \<open>hops\<close>, \<open>jumped\<close>, \<open>end\<close>, \<open>cursor\<close> and \<open>octets\<close>.\<close>

function read_name_loop ::
  "bytes \<Rightarrow> nat \<Rightarrow> wire_labels \<Rightarrow> nat \<Rightarrow> bool \<Rightarrow> nat \<Rightarrow> nat \<Rightarrow> nat \<Rightarrow> string + Name \<times> nat" where
  "read_name_loop packet steps labels hops jumped end_pos cursor octets =
     (case budget_take steps of
        Inl r \<Rightarrow> Inl r
      | Inr steps' \<Rightarrow>
          if cursor \<ge> length packet then Inl ''dns_unparsable''
          else
            (let len = byte_at packet cursor in
             if len = 0 then
               (if octets + 1 > MAX_NAME then Inl ''dns_unparsable''
                else Inr (\<lparr>name_labels = labels,
                          name_end = (if \<not> jumped then cursor + 1 else end_pos)\<rparr>, steps'))
             else if len AND 0xC0 = 0xC0 then
               (if hops \<ge> MAX_HOPS then Inl ''dns_parse_budget''
                else if cursor + 1 \<ge> length packet then Inl ''dns_unparsable''
                else
                  (let pointer = push_bit 8 (len AND 0x3F) OR byte_at packet (cursor + 1) in
                   if pointer \<ge> cursor \<or> pointer \<ge> length packet then Inl ''dns_unparsable''
                   else read_name_loop packet steps' labels (hops + 1) True
                          (if \<not> jumped then cursor + 2 else end_pos) pointer octets))
             else if len AND 0xC0 \<noteq> 0 \<or> len > 63 then Inl ''dns_unparsable''
             else
               (let start = cursor + 1; stop = start + len in
                if stop > length packet then Inl ''dns_unparsable''
                else if octets + (len + 1) + 1 > MAX_NAME then Inl ''dns_unparsable''
                else read_name_loop packet steps' (labels @ [py_slice packet start stop]) hops
                       jumped end_pos stop (octets + (len + 1)))))"
  by pat_completeness auto

termination
  by (relation "measure (\<lambda>(p, steps, _). MAX_STEPS - steps)")
    (auto simp: budget_take_def split: if_splits)

definition read_name :: "bytes \<Rightarrow> nat \<Rightarrow> nat \<Rightarrow> string + Name \<times> nat" where
  "read_name packet offset steps = read_name_loop packet steps [] 0 False offset offset 0"

definition parse_question :: "bytes \<Rightarrow> string + Question" where
  "parse_question packet =
     (if length packet < 12 then Inl ''dns_unparsable''
      else if be16 packet 4 \<noteq> 1 then Inl ''dns_qdcount''
      else bind_res (read_name packet 12 0) (\<lambda>(name, _).
             if name_end name + 4 > length packet then Inl ''dns_unparsable''
             else Inr \<lparr>q_labels = name_labels name, q_end = name_end name + 4\<rparr>))"

definition addr_text :: "nat \<Rightarrow> bytes \<Rightarrow> string option" where
  "addr_text rt data =
     (if rt = 1 \<and> length data = 4 then Some (py_join ''.'' (map (\<lambda>b. num_str 10 (unat b)) data))
      else if rt = 28 \<and> length data = 16
      then Some (py_join '':'' (map (\<lambda>i. num_str 16 (be16 data (2 * i))) [0..<8]))
      else None)"

text \<open>One round of the loop of \<open>_read_records\<close>.\<close>

definition read_record :: "bytes \<Rightarrow> nat \<Rightarrow> nat \<Rightarrow> string + Record \<times> nat \<times> nat" where
  "read_record packet cursor steps =
     bind_res (read_name packet cursor steps) (\<lambda>(own, steps1).
       if name_end own + 10 > length packet then Inl ''dns_unparsable''
       else
         (let rt = be16 packet (name_end own);
              rdlength = be16 packet (name_end own + 8);
              start = name_end own + 10;
              stop = start + rdlength
          in if stop > length packet then Inl ''dns_unparsable''
             else
               bind_res
                 (if rt = 2
                  then bind_res (read_name packet start steps1)
                         (\<lambda>(n, steps2). Inr (Some (name_labels n), steps2))
                  else Inr (None, steps1))
                 (\<lambda>(rname, steps2).
                   Inr (\<lparr>owner = name_labels own, rtype = rt, rdata_name = rname,
                         rdata_addr = addr_text rt (py_slice packet start stop)\<rparr>, stop, steps2))))"

fun read_records :: "bytes \<Rightarrow> nat \<Rightarrow> nat \<Rightarrow> nat \<Rightarrow> string + Record list \<times> nat \<times> nat" where
  "read_records packet cursor 0 steps = Inr ([], cursor, steps)"
| "read_records packet cursor (Suc count) steps =
     bind_res (read_record packet cursor steps) (\<lambda>(r, stop, steps').
     bind_res (read_records packet stop count steps') (\<lambda>(rs, fin, steps'').
       Inr (r # rs, fin, steps'')))"

text \<open>The loop of \<open>parse_response\<close> that skips the questions.\<close>

fun skip_questions :: "bytes \<Rightarrow> nat \<Rightarrow> nat \<Rightarrow> nat \<Rightarrow> string + nat \<times> nat" where
  "skip_questions packet cursor 0 steps = Inr (cursor, steps)"
| "skip_questions packet cursor (Suc count) steps =
     bind_res (read_name packet cursor steps) (\<lambda>(name, steps').
       if name_end name + 4 > length packet then Inl ''dns_unparsable''
       else skip_questions packet (name_end name + 4) count steps')"

definition parse_response :: "bytes \<Rightarrow> string + ResponseView" where
  "parse_response packet =
     (if length packet < 12 then Inl ''dns_unparsable''
      else
        bind_res (skip_questions packet 12 (be16 packet 4) 0) (\<lambda>(c1, s1).
        bind_res (read_records packet c1 (be16 packet 6) s1) (\<lambda>(_, c2, s2).
        bind_res (read_records packet c2 (be16 packet 8) s2) (\<lambda>(auth, c3, s3).
        bind_res (read_records packet c3 (be16 packet 10) s3) (\<lambda>(addl, _, _).
          Inr \<lparr>authority = auth, additional = addl\<rparr>)))))"

section \<open>Message construction\<close>

definition u16 :: "nat \<Rightarrow> bytes" where
  "u16 n = [of_nat (n div 256), of_nat n]"

definition u32 :: "nat \<Rightarrow> bytes" where
  "u32 n = u16 (n div 65536) @ u16 (n mod 65536)"

text \<open>\<open>struct.pack\<close> with \<open>H\<close> fields raises \<open>struct.error\<close> out of range.\<close>

definition pack_h :: "nat list \<Rightarrow> string + bytes" where
  "pack_h ns = (if list_all (\<lambda>n. n < 65536) ns then Inr (concat (map u16 ns)) else Inl ''struct.error'')"

definition ascii_bytes :: "string \<Rightarrow> bytes" where
  "ascii_bytes s = map (\<lambda>c. of_nat (py_ord c)) s"

definition encode_label :: "string \<Rightarrow> string + bytes" where
  "encode_label s =
     (if \<not> is_ascii s then Inl ''UnicodeEncodeError''
      else if length s > 255 then Inl ''ValueError''
      else Inr (of_nat (length s) # ascii_bytes s))"

definition encode_name :: "string \<Rightarrow> string + bytes" where
  "encode_name name =
     bind_res (map_res encode_label (py_split (CHR ''.'') (py_rstrip ''.'' name)))
       (\<lambda>parts. Inr (concat parts @ [0]))"

definition dns_query :: "string \<Rightarrow> nat \<Rightarrow> string + bytes" where
  "dns_query name qid =
     bind_res (pack_h [qid, 0x0100, 1, 0, 0, 0]) (\<lambda>header.
     bind_res (encode_name name) (\<lambda>n. Inr (header @ n @ concat (map u16 [1, 1]))))"

text \<open>\<open>inet_aton\<close> is the C library's; the code uses that it gives four bytes.\<close>

definition dns_ns_response ::
  "(string \<Rightarrow> string + bytes) \<Rightarrow> string \<Rightarrow> string \<Rightarrow> string option \<Rightarrow> nat \<Rightarrow> string + bytes" where
  "dns_ns_response inet_aton own ns_host glue qid =
     bind_res (encode_name own) (\<lambda>own_bytes.
     bind_res (encode_name ns_host) (\<lambda>rdata.
     bind_res (pack_h [2, 1]) (\<lambda>h1.
     bind_res (pack_h [length rdata]) (\<lambda>h2.
     bind_res (case glue of
                 None \<Rightarrow> Inr []
               | Some g \<Rightarrow> bind_res (inet_aton g) (\<lambda>glue_bytes.
                   Inr (rdata @ u16 1 @ u16 1 @ u32 60 @ u16 4 @ glue_bytes))) (\<lambda>addl.
     bind_res (pack_h [qid, 0x8400, 1, 0, 1, (if glue = None then 0 else 1)]) (\<lambda>header.
       Inr (header @ (own_bytes @ u16 1 @ u16 1)
              @ (own_bytes @ h1 @ u32 60 @ h2 @ rdata) @ addl)))))))"

section \<open>Well-formed wire names\<close>

definition wire_octets :: "wire_labels \<Rightarrow> nat" where
  "wire_octets ls = sum_list (map (\<lambda>l. length l + 1) ls)"

definition wire_name_wf :: "wire_labels \<Rightarrow> bool" where
  "wire_name_wf ls =
     ((\<forall>l \<in> set ls. 1 \<le> length l \<and> length l \<le> 63) \<and> wire_octets ls + 1 \<le> 255)"

definition record_wf :: "Record \<Rightarrow> bool" where
  "record_wf r =
     (wire_name_wf (owner r)
      \<and> (case rdata_name r of None \<Rightarrow> rtype r \<noteq> 2 | Some n \<Rightarrow> rtype r = 2 \<and> wire_name_wf n)
      \<and> (case rdata_addr r of None \<Rightarrow> True
         | Some t \<Rightarrow> rtype r \<in> {1, 28} \<and> parse_address (PStr t) \<noteq> None))"

definition encode_labels :: "wire_labels \<Rightarrow> bytes" where
  "encode_labels ls = concat (map (\<lambda>l. of_nat (length l) # l) ls) @ [0]"

text \<open>Labels as text that the encoder takes and the walk gives back.\<close>

definition text_labels_ok :: "string list \<Rightarrow> bool" where
  "text_labels_ok ls =
     (ls \<noteq> [] \<and> (\<forall>l \<in> set ls. 1 \<le> length l \<and> length l \<le> 63 \<and> is_ascii l \<and> CHR ''.'' \<notin> set l)
      \<and> sum_list (map (\<lambda>l. length l + 1) ls) + 1 \<le> 255)"

section \<open>Lemmas on the walk\<close>

declare read_name_loop.simps [simp del]

lemmas limits = MAX_STEPS_def MAX_HOPS_def MAX_NAME_def

lemma wire_octets_simps [simp]:
  "wire_octets [] = 0"
  "wire_octets (l # ls) = Suc (length l) + wire_octets ls"
  "wire_octets (ls @ ms) = wire_octets ls + wire_octets ms"
  by (simp_all add: wire_octets_def)

lemma budget_take_Inr: "budget_take s = Inr s' \<longleftrightarrow> s' = s + 1 \<and> s < 128"
  by (auto simp: budget_take_def limits)

lemma read_name_loop_facts:
  "read_name_loop packet steps labels hops jumped end_pos cursor octets = Inr (n, steps') \<Longrightarrow>
   octets = wire_octets labels \<Longrightarrow> \<forall>l \<in> set labels. 1 \<le> length l \<and> length l \<le> 63 \<Longrightarrow>
   (jumped \<longrightarrow> end_pos \<le> length packet) \<Longrightarrow>
   wire_name_wf (name_labels n) \<and> steps < steps' \<and> steps' \<le> 128 \<and> name_end n \<le> length packet
     \<and> (if jumped then name_end n = end_pos else cursor < name_end n)
     \<and> length (name_labels n) < length labels + (steps' - steps)"
proof (induction packet steps labels hops jumped end_pos cursor octets rule: read_name_loop.induct)
  case (1 packet steps labels hops jumped end_pos cursor octets)
  note step = "1.prems"(1) [unfolded read_name_loop.simps
      [of packet steps labels hops jumped end_pos cursor octets]]
  from step obtain s where s: "budget_take steps = Inr s" "s = steps + 1" "steps < 128"
    and c: "cursor < length packet"
    by (auto simp: budget_take_Inr split: sum.splits if_splits)
  let ?len = "byte_at packet cursor"
  consider (stop) "?len = 0" | (jump) "?len \<noteq> 0" "?len AND 0xC0 = 0xC0"
    | (label) "?len \<noteq> 0" "?len AND 0xC0 \<noteq> 0xC0" by blast
  then show ?case
  proof cases
    case stop
    with step "1.prems"(2-4) s c show ?thesis
      by (auto simp: limits wire_name_wf_def split: if_splits)
  next
    case jump
    define p where "p = push_bit 8 (?len AND 0x3F) OR byte_at packet (cursor + 1)"
    have rec: "read_name_loop packet s labels (hops + 1) True
        (if \<not> jumped then cursor + 2 else end_pos) p octets = Inr (n, steps')"
      and g: "hops < MAX_HOPS" "cursor + 1 < length packet" "p < cursor" "p < length packet"
      using step s c jump by (simp_all add: p_def Let_def split: if_splits)
    have "wire_name_wf (name_labels n) \<and> s < steps' \<and> steps' \<le> 128 \<and> name_end n \<le> length packet
       \<and> name_end n = (if \<not> jumped then cursor + 2 else end_pos)
       \<and> length (name_labels n) < length labels + (steps' - s)"
      using "1.IH"(1) [OF s(1) _ refl _ _ _ _ p_def] rec g jump c "1.prems"(2-4) by auto
    then show ?thesis using s c by auto
  next
    case label
    let ?stop = "cursor + 1 + ?len"
    let ?l = "py_slice packet (cursor + 1) ?stop"
    have rec: "read_name_loop packet s (labels @ [?l]) hops jumped end_pos ?stop
        (octets + (?len + 1)) = Inr (n, steps')"
      and g: "?len \<le> 63" "?stop \<le> length packet" "?len AND 0xC0 = 0"
        "\<not> octets + (?len + 1) + 1 > MAX_NAME"
      using step s c label by (simp_all add: Let_def split: if_splits)
    have len: "length ?l = ?len" using g(2) by (simp add: length_py_slice)
    have "wire_name_wf (name_labels n) \<and> s < steps' \<and> steps' \<le> 128 \<and> name_end n \<le> length packet
       \<and> (if jumped then name_end n = end_pos else ?stop < name_end n)
       \<and> length (name_labels n) < length (labels @ [?l]) + (steps' - s)"
      using "1.IH"(2) [OF s(1) _ refl _ _ _ refl refl] rec g label c len "1.prems"(2-4) by auto
    then show ?thesis using s c by (auto split: if_splits)
  qed
qed

lemma read_name_facts:
  assumes "read_name packet offset steps = Inr (n, steps')"
  shows "wire_name_wf (name_labels n) \<and> steps < steps' \<and> steps' \<le> 128
    \<and> offset < name_end n \<and> name_end n \<le> length packet \<and> length (name_labels n) < steps' - steps"
  using read_name_loop_facts [OF assms [unfolded read_name_def]] by simp

lemma label_length_bits: "n \<le> 63 \<Longrightarrow> n AND 0xC0 = (0 :: nat)"
proof -
  assume "n \<le> 63"
  moreover have "\<forall>i \<in> set [0..<64]. i AND 0xC0 = (0 :: nat)" by code_simp
  ultimately show ?thesis by simp
qed

lemma byte_at_append [simp]: "byte_at (pre @ x # rest) (length pre) = unat x"
  by (simp add: byte_at_def)

lemma unat_of_nat_byte [simp]: "n < 256 \<Longrightarrow> unat (of_nat n :: byte) = n"
  by (simp add: unat_of_nat)

lemma encode_labels_simps [simp]:
  "encode_labels [] = [0]"
  "encode_labels (l # ls) = of_nat (length l) # l @ encode_labels ls"
  by (simp_all add: encode_labels_def)

lemma length_encode_labels [simp]: "length (encode_labels ls) = wire_octets ls + 1"
  by (induction ls) simp_all

lemma wire_octets_ge:
  "\<forall>l \<in> set ls. 1 \<le> length l \<and> length l \<le> 63 \<Longrightarrow> 2 * length ls \<le> wire_octets ls"
proof (induction ls)
  case (Cons l ls)
  then have "1 \<le> length l" by simp
  with Cons show ?case by simp
qed simp

text \<open>The walk reads back what the encoder wrote, at any place of a message.\<close>

lemma read_name_loop_encode:
  "\<forall>l \<in> set ls. 1 \<le> length l \<and> length l \<le> 63 \<Longrightarrow> octets + wire_octets ls + 1 \<le> 255 \<Longrightarrow>
   steps + length ls + 1 \<le> 128 \<Longrightarrow>
   read_name_loop (pre @ encode_labels ls @ rest) steps labels hops False e (length pre) octets
     = Inr (\<lparr>name_labels = labels @ ls, name_end = length pre + (wire_octets ls + 1)\<rparr>,
            steps + length ls + 1)"
proof (induction ls arbitrary: pre steps labels octets)
  case Nil
  then show ?case
    by (subst read_name_loop.simps) (simp add: budget_take_def limits)
next
  case (Cons l ls)
  let ?p = "pre @ encode_labels (l # ls) @ rest"
  let ?pre = "pre @ of_nat (length l) # l"
  have l: "1 \<le> length l" "length l \<le> 63" "l \<noteq> []" using Cons.prems by auto
  have b: "byte_at ?p (length pre) = length l" using l by simp
  have slice: "py_slice ?p (length pre + 1) (length pre + 1 + length l) = l"
    using py_slice_append [of "pre @ [of_nat (length l)]" l "encode_labels ls @ rest"] by simp
  have "read_name_loop ?p steps labels hops False e (length pre) octets
      = read_name_loop (?pre @ encode_labels ls @ rest) (steps + 1) (labels @ [l]) hops False e
          (length ?pre) (octets + (length l + 1))"
    using l Cons.prems b slice
    by (subst read_name_loop.simps)
      (simp add: budget_take_def limits Let_def label_length_bits del: byte_at_append)
  also have "\<dots> = Inr (\<lparr>name_labels = (labels @ [l]) @ ls,
       name_end = length ?pre + (wire_octets ls + 1)\<rparr>, (steps + 1) + length ls + 1)"
    by (rule Cons.IH) (use Cons.prems in auto)
  finally show ?case by simp
qed

lemma read_name_encode:
  assumes "wire_name_wf ls" "steps + length ls + 1 \<le> 128" "off = length pre"
  shows "read_name (pre @ encode_labels ls @ rest) off steps
     = Inr (\<lparr>name_labels = ls, name_end = length pre + (wire_octets ls + 1)\<rparr>,
            steps + length ls + 1)"
  using read_name_loop_encode [of ls 0 steps pre rest "[]"] assms
  by (simp add: read_name_def wire_name_wf_def)

section \<open>Lemmas on records\<close>

lemma addr_text_parses: "addr_text rt data = Some t \<Longrightarrow> rt \<in> {1, 28} \<and> parse_address (PStr t) \<noteq> None"
proof -
  assume t: "addr_text rt data = Some t"
  then consider "rt = 1" "length data = 4" "t = dotted_text (map unat data)"
    | "rt = 28" "t = colon_hex_text (map (\<lambda>i. be16 data (2 * i)) [0..<8])"
    by (auto simp: addr_text_def dotted_text_def colon_hex_text_def comp_def split: if_splits)
  then show ?thesis
  proof cases
    case 1
    then show ?thesis using parse_address_dotted [of "map unat data"] unat_byte_less by simp
  next
    case 2
    then show ?thesis
      using parse_address_colon_hex [of "map (\<lambda>i. be16 data (2 * i)) [0..<8]"] be16_less by simp
  qed
qed

lemma read_record_facts:
  assumes "read_record packet cursor steps = Inr (r, stop, steps')"
  shows "record_wf r \<and> steps < steps' \<and> steps' \<le> 128 \<and> cursor < stop \<and> stop \<le> length packet"
proof -
  from assms obtain own s1 where own: "read_name packet cursor steps = Inr (own, s1)"
    by (auto simp: read_record_def bind_res_Inr_iff)
  note f = read_name_facts [OF own]
  from assms own f show ?thesis
    by (auto simp: read_record_def bind_res_Inr_iff Let_def record_wf_def addr_text_parses
        split: if_splits option.splits dest!: read_name_facts addr_text_parses)
qed

lemma read_records_facts:
  "read_records packet cursor count steps = Inr (rs, fin, steps') \<Longrightarrow> steps \<le> 128 \<Longrightarrow>
   (\<forall>r \<in> set rs. record_wf r) \<and> length rs = count \<and> steps + length rs \<le> steps' \<and> steps' \<le> 128"
proof (induction count arbitrary: cursor steps rs)
  case (Suc count)
  then obtain r stop s1 rs' where r: "read_record packet cursor steps = Inr (r, stop, s1)"
    and rs: "read_records packet stop count s1 = Inr (rs', fin, steps')" "rs = r # rs'"
    by (auto simp: bind_res_Inr_iff)
  from read_record_facts [OF r] Suc.IH [OF rs(1)] rs(2) show ?case by auto
qed simp

lemma skip_questions_facts:
  "skip_questions packet cursor count steps = Inr (c, steps') \<Longrightarrow> steps \<le> 128 \<Longrightarrow>
   steps + count \<le> steps' \<and> steps' \<le> 128"
proof (induction count arbitrary: cursor steps)
  case (Suc count)
  then obtain n s1 where n: "read_name packet cursor steps = Inr (n, s1)"
    and rest: "skip_questions packet (name_end n + 4) count s1 = Inr (c, steps')"
    by (auto simp: bind_res_Inr_iff split: if_splits)
  from read_name_facts [OF n] Suc.IH [OF rest] show ?case by auto
qed simp

section \<open>Lemmas on construction\<close>

lemma length_ascii_bytes [simp]: "length (ascii_bytes s) = length s"
  by (simp add: ascii_bytes_def)

lemma text_labels_wire_wf: "text_labels_ok ls \<Longrightarrow> wire_name_wf (map ascii_bytes ls)"
  by (auto simp: text_labels_ok_def wire_name_wf_def wire_octets_def comp_def)

lemma text_labels_count: "text_labels_ok ls \<Longrightarrow> length ls \<le> 127"
  using wire_octets_ge [of "map ascii_bytes ls"] text_labels_wire_wf [of ls]
  by (auto simp: wire_name_wf_def)

lemma encode_label_map:
  "\<forall>l \<in> set ls. length l \<le> 63 \<and> is_ascii l \<Longrightarrow>
   map_res encode_label ls = Inr (map (\<lambda>l. of_nat (length l) # ascii_bytes l) ls)"
  by (induction ls) (auto simp: encode_label_def)

lemma encode_name_labels:
  assumes "text_labels_ok ls"
  shows "encode_name (py_join ''.'' ls) = Inr (encode_labels (map ascii_bytes ls))"
proof -
  have ok: "ls \<noteq> []" "\<forall>l \<in> set ls. l \<noteq> []" "\<forall>l \<in> set ls. CHR ''.'' \<notin> set l"
    "\<forall>l \<in> set ls. length l \<le> 63 \<and> is_ascii l"
    using assms by (auto simp: text_labels_ok_def)
  have "last (py_join ''.'' ls) \<noteq> CHR ''.''"
    using last_py_join [OF ok(1,2)] ok(1,3) last_in_set by metis
  then have "py_rstrip ''.'' (py_join ''.'' ls) = py_join ''.'' ls"
    by (intro py_rstrip_no_strip) simp
  then show ?thesis
    using ok by (simp add: encode_name_def py_split_join encode_label_map encode_labels_def comp_def)
qed

lemma length_u16 [simp]: "length (u16 n) = 2"
  by (simp add: u16_def)

lemma length_u32 [simp]: "length (u32 n) = 4"
  by (simp add: u32_def)

lemma unat_low_byte: "unat (of_nat n :: byte) = n mod 256"
  by (simp add: unat_of_nat)

lemma be16_u16:
  assumes "n < 65536" "off = length pre"
  shows "be16 (pre @ u16 n @ rest) off = n"
proof -
  have "n div 256 < 256" using assms by simp
  then show ?thesis
    using assms(2) by (simp add: be16_def byte_at_def u16_def nth_append unat_low_byte)
qed

text \<open>A record as it stands in a message, and what one round of the record loop makes of it.\<close>

lemma read_record_encode:
  assumes "packet = pre @ encode_labels ls @ u16 rt @ u16 cl @ u32 ttl @ u16 (length rd) @ rd @ rest"
    and "wire_name_wf ls" "steps + length ls + 1 \<le> 128" "cursor = length pre"
    and "rt < 65536" "length rd < 65536"
  shows "read_record packet cursor steps =
    bind_res
      (if rt = 2
       then bind_res (read_name packet (length pre + wire_octets ls + 11) (steps + length ls + 1))
              (\<lambda>(n, s). Inr (Some (name_labels n), s))
       else Inr (None, steps + length ls + 1))
      (\<lambda>(rname, s). Inr (\<lparr>owner = ls, rtype = rt, rdata_name = rname, rdata_addr = addr_text rt rd\<rparr>,
         length pre + wire_octets ls + 11 + length rd, s))"
proof -
  let ?e = "length pre + (wire_octets ls + 1)"
  have name: "read_name packet cursor steps =
      Inr (\<lparr>name_labels = ls, name_end = ?e\<rparr>, steps + length ls + 1)"
    unfolding assms(1) by (rule read_name_encode) (use assms in auto)
  have rt: "be16 packet ?e = rt"
    using be16_u16 [of rt ?e "pre @ encode_labels ls"] assms(1,5) by simp
  have rd: "be16 packet (?e + 8) = length rd"
    using be16_u16 [of "length rd" "?e + 8" "pre @ encode_labels ls @ u16 rt @ u16 cl @ u32 ttl" "rd @ rest"]
      assms(1,6) by simp
  have slice: "py_slice packet (?e + 10) (?e + 10 + length rd) = rd"
    using py_slice_append [of "pre @ encode_labels ls @ u16 rt @ u16 cl @ u32 ttl @ u16 (length rd)" rd rest]
      assms(1) by (simp add: ac_simps)
  have "?e + 10 + length rd \<le> length packet" using assms(1) by simp
  with slice rd rt show ?thesis
    by (simp add: read_record_def name Let_def ac_simps)
qed

lemma parse_response_one_each:
  assumes "12 \<le> length p" "be16 p 4 = 1" "be16 p 6 = 0" "be16 p 8 = 1" "be16 p 10 = 1"
    and "skip_questions p 12 1 0 = Inr (c1, s1)"
    and "read_record p c1 s1 = Inr (a, c2, s2)" "read_record p c2 s2 = Inr (b, c3, s3)"
  shows "parse_response p = Inr \<lparr>authority = [a], additional = [b]\<rparr>"
  using assms by (simp add: parse_response_def)

section \<open>Properties\<close>

text \<open>
  A question the walk accepts has a name of at most 255 octets whose labels have 1 to 63
  bytes, and it ends inside the packet.
\<close>

theorem parse_question_wf:
  assumes "parse_question packet = Inr q"
  shows "wire_name_wf (q_labels q) \<and> 12 < q_end q \<and> q_end q \<le> length packet
    \<and> length (q_labels q) < 128"
proof -
  from assms obtain n s where n: "read_name packet 12 0 = Inr (n, s)"
    and q: "name_end n + 4 \<le> length packet" "q = \<lparr>q_labels = name_labels n, q_end = name_end n + 4\<rparr>"
    by (auto simp: parse_question_def bind_res_Inr_iff split: if_splits)
  from read_name_facts [OF n] q show ?thesis by auto
qed

text \<open>
  The step budget bounds the whole message, not one name: a response is accepted only when
  its four counts add up to at most 128. The view then holds exactly the announced records, and
  each has well-formed names, an owner name for \<open>NS\<close> data and, for \<open>A\<close> and \<open>AAAA\<close> data, a text
  that the address parser accepts.
\<close>

theorem parse_response_bounded:
  assumes "parse_response packet = Inr v"
  shows "be16 packet 4 + be16 packet 6 + be16 packet 8 + be16 packet 10 \<le> 128
    \<and> length (authority v) = be16 packet 8 \<and> length (additional v) = be16 packet 10
    \<and> (\<forall>r \<in> set (authority v) \<union> set (additional v). record_wf r)"
proof -
  from assms obtain c1 s1 an c2 s2 c3 s3 c4 s4 where
    q: "skip_questions packet 12 (be16 packet 4) 0 = Inr (c1, s1)"
    and an: "read_records packet c1 (be16 packet 6) s1 = Inr (an, c2, s2)"
    and ns: "read_records packet c2 (be16 packet 8) s2 = Inr (authority v, c3, s3)"
    and ar: "read_records packet c3 (be16 packet 10) s3 = Inr (additional v, c4, s4)"
    by (auto simp: parse_response_def bind_res_Inr_iff split: if_splits)
  from skip_questions_facts [OF q] read_records_facts [OF an] read_records_facts [OF ns]
    read_records_facts [OF ar]
  show ?thesis by auto
qed

text \<open>
  C34: the question walk reads back every query the builder makes from a list of labels: labels of
  1 to 63 ASCII characters without dots, at most 255 octets in all.
\<close>

theorem dns_query_roundtrip:
  assumes "text_labels_ok ls" "qid < 65536"
  shows "\<exists>packet. dns_query (py_join ''.'' ls) qid = Inr packet
    \<and> parse_question packet = Inr \<lparr>q_labels = map ascii_bytes ls, q_end = length packet\<rparr>"
proof -
  let ?ls = "map ascii_bytes ls"
  let ?h = "u16 qid @ u16 0x0100 @ u16 1 @ u16 0 @ u16 0 @ u16 0"
  let ?p = "?h @ encode_labels ?ls @ u16 1 @ u16 1"
  have q: "dns_query (py_join ''.'' ls) qid = Inr ?p"
    using assms by (simp add: dns_query_def pack_h_def encode_name_labels)
  have "be16 ?p 4 = 1" using be16_u16 [of 1 4 "u16 qid @ u16 0x0100"] by simp
  moreover have "read_name ?p 12 0 = Inr (\<lparr>name_labels = ?ls,
      name_end = 12 + (wire_octets ?ls + 1)\<rparr>, 0 + length ?ls + 1)"
    using read_name_encode [of ?ls 0 12 ?h "u16 1 @ u16 1"] text_labels_wire_wf [OF assms(1)]
      text_labels_count [OF assms(1)] by simp
  ultimately have "parse_question ?p = Inr \<lparr>q_labels = ?ls, q_end = length ?p\<rparr>"
    by (simp add: parse_question_def)
  with q show ?thesis by blast
qed

theorem dns_query_roundtrip_witness:
  "\<exists>packet. dns_query (py_join ''.'' [''api'', ''corp'', ''test'']) 0x1505 = Inr packet
    \<and> parse_question packet =
        Inr \<lparr>q_labels = map ascii_bytes [''api'', ''corp'', ''test''], q_end = length packet\<rparr>"
  by (rule dns_query_roundtrip) code_simp+

theorem parse_question_wf_witness:
  "let q = \<lparr>q_labels = [[97]], q_end = 19\<rparr> in
     wire_name_wf (q_labels q) \<and> 12 < q_end q
     \<and> q_end q \<le> length ([0, 0, 1, 0, 0, 1, 0, 0, 0, 0, 0, 0, 1, 97, 0, 0, 1, 0, 1] :: bytes)
     \<and> length (q_labels q) < 128"
proof -
  have "parse_question [0, 0, 1, 0, 0, 1, 0, 0, 0, 0, 0, 0, 1, 97, 0, 0, 1, 0, 1]
      = Inr \<lparr>q_labels = [[97]], q_end = 19\<rparr>" by code_simp
  from parse_question_wf [OF this] show ?thesis by simp
qed

text \<open>
  The response walk reads back the referral the builder makes: one \<open>NS\<close> record in the
  authority section with the name server's name, and the glue address, when there is one, as an
  \<open>A\<close> record of the additional section. The budget allows it when the labels of the two names
  add up to at most 62.
\<close>

theorem dns_ns_response_roundtrip:
  assumes "text_labels_ok own" "text_labels_ok host" "length own + length host \<le> 62" "qid < 65536"
    and "inet_aton g = Inr quad" "length quad = 4"
  shows "\<exists>packet. dns_ns_response inet_aton (py_join ''.'' own) (py_join ''.'' host) (Some g) qid = Inr packet
    \<and> parse_response packet = Inr
        \<lparr>authority = [\<lparr>owner = map ascii_bytes own, rtype = 2,
             rdata_name = Some (map ascii_bytes host), rdata_addr = None\<rparr>],
         additional = [\<lparr>owner = map ascii_bytes host, rtype = 1, rdata_name = None,
             rdata_addr = Some (dotted_text (map unat quad))\<rparr>]\<rparr>"
proof -
  let ?o = "map ascii_bytes own" and ?h = "map ascii_bytes host"
  let ?rd = "encode_labels ?h"
  let ?hdr = "u16 qid @ u16 0x8400 @ u16 1 @ u16 0 @ u16 1 @ u16 1"
  let ?q = "encode_labels ?o @ u16 1 @ u16 1"
  let ?auth = "encode_labels ?o @ u16 2 @ u16 1 @ u32 60 @ u16 (length ?rd) @ ?rd"
  let ?add = "encode_labels ?h @ u16 1 @ u16 1 @ u32 60 @ u16 (length quad) @ quad"
  let ?p = "?hdr @ ?q @ ?auth @ ?add"
  have wf: "wire_name_wf ?o" "wire_name_wf ?h" using assms text_labels_wire_wf by auto
  then have lens: "wire_octets ?o \<le> 254" "wire_octets ?h \<le> 254" by (auto simp: wire_name_wf_def)
  have built: "dns_ns_response inet_aton (py_join ''.'' own) (py_join ''.'' host) (Some g) qid = Inr ?p"
    using assms lens by (simp add: dns_ns_response_def encode_name_labels pack_h_def)
  have counts: "be16 ?p 4 = 1" "be16 ?p 6 = 0" "be16 ?p 8 = 1" "be16 ?p 10 = 1"
    using be16_u16 [of 1 4 "u16 qid @ u16 0x8400"] be16_u16 [of 0 6 "u16 qid @ u16 0x8400 @ u16 1"]
      be16_u16 [of 1 8 "u16 qid @ u16 0x8400 @ u16 1 @ u16 0"]
      be16_u16 [of 1 10 "u16 qid @ u16 0x8400 @ u16 1 @ u16 0 @ u16 1"] by simp_all
  let ?c1 = "length (?hdr @ ?q)" and ?c2 = "length (?hdr @ ?q @ ?auth)"
  let ?s1 = "length own + 1"
  let ?s2 = "?s1 + length own + 1 + length host + 1"
  have "read_name ?p 12 0 = Inr (\<lparr>name_labels = ?o, name_end = length ?hdr + (wire_octets ?o + 1)\<rparr>, 0 + length ?o + 1)"
    using read_name_encode [of ?o 0 12 ?hdr "u16 1 @ u16 1 @ ?auth @ ?add"] wf assms by simp
  then have q: "skip_questions ?p 12 1 0 = Inr (?c1, ?s1)" by simp
  have "read_name ?p (length (?hdr @ ?q) + wire_octets ?o + 11) (?s1 + length ?o + 1)
      = Inr (\<lparr>name_labels = ?h, name_end = length (?hdr @ ?q @ encode_labels ?o @ u16 2 @ u16 1 @ u32 60
          @ u16 (length ?rd)) + (wire_octets ?h + 1)\<rparr>, ?s1 + length ?o + 1 + length ?h + 1)"
    using read_name_encode [of ?h "?s1 + length ?o + 1" _
        "?hdr @ ?q @ encode_labels ?o @ u16 2 @ u16 1 @ u32 60 @ u16 (length ?rd)" ?add] wf assms
    by simp
  then have a: "read_record ?p ?c1 ?s1 = Inr (\<lparr>owner = ?o, rtype = 2, rdata_name = Some ?h,
      rdata_addr = None\<rparr>, ?c2, ?s2)"
    using read_record_encode [of ?p "?hdr @ ?q" ?o 2 1 60 ?rd ?add ?s1 ?c1] wf assms lens
    by (simp add: addr_text_def)
  have "read_record ?p ?c2 ?s2 = Inr (\<lparr>owner = ?h, rtype = 1, rdata_name = None,
      rdata_addr = Some (dotted_text (map unat quad))\<rparr>, length ?p, ?s2 + length host + 1)"
    using read_record_encode [of ?p "?hdr @ ?q @ ?auth" ?h 1 1 60 quad "[]" ?s2 ?c2] wf assms lens
    by (simp add: addr_text_def dotted_text_def comp_def)
  with parse_response_one_each [OF _ counts q a] built show ?thesis by auto
qed

theorem dns_ns_response_roundtrip_witness:
  "\<exists>packet. dns_ns_response (\<lambda>s. case parse_ipv4 s of None \<Rightarrow> Inl ''OSError'' | Some v \<Rightarrow> Inr (u32 v))
      (py_join ''.'' [''corp'', ''test'']) (py_join ''.'' [''ns'', ''test'']) (Some ''192.0.2.7'') 1 = Inr packet
    \<and> parse_response packet = Inr
        \<lparr>authority = [\<lparr>owner = map ascii_bytes [''corp'', ''test''], rtype = 2,
             rdata_name = Some (map ascii_bytes [''ns'', ''test'']), rdata_addr = None\<rparr>],
         additional = [\<lparr>owner = map ascii_bytes [''ns'', ''test''], rtype = 1, rdata_name = None,
             rdata_addr = Some (dotted_text (map unat (u32 0xC0000207)))\<rparr>]\<rparr>"
  by (rule dns_ns_response_roundtrip) code_simp+

theorem parse_response_bounded_witness:
  "let packet = [0, 0, 0x84, 0, 0, 0, 0, 0, 0, 0, 0, 1,
       0, 0, 1, 0, 1, 0, 0, 0, 60, 0, 4, 192, 0, 2, 1];
       v = \<lparr>authority = [], additional = [\<lparr>owner = [], rtype = 1, rdata_name = None,
              rdata_addr = Some ''192.0.2.1''\<rparr>]\<rparr>
   in parse_response packet = Inr v
      \<and> be16 packet 4 + be16 packet 6 + be16 packet 8 + be16 packet 10 \<le> 128
      \<and> length (authority v) = be16 packet 8 \<and> length (additional v) = be16 packet 10
      \<and> (\<forall>r \<in> set (authority v) \<union> set (additional v). record_wf r)"
proof -
  have p: "parse_response [0, 0, 0x84, 0, 0, 0, 0, 0, 0, 0, 0, 1,
      0, 0, 1, 0, 1, 0, 0, 0, 60, 0, 4, 192, 0, 2, 1] =
    Inr \<lparr>authority = [], additional = [\<lparr>owner = [], rtype = 1, rdata_name = None,
      rdata_addr = Some ''192.0.2.1''\<rparr>]\<rparr>" by code_simp
  show ?thesis unfolding Let_def using p parse_response_bounded [OF p] by blast
qed

end
