(* ===== verification/T5_Entropy.thy ===== *)
theory T5_Entropy
  imports Py_Base
begin

text \<open>
  \<open>t5_egress/entropy.py\<close> and \<open>t5_egress/skb_signal.py\<close>: the Shannon entropy of a byte string and
  the digit-ratio signal of a label. The entropy is taken over the reals: the code's doubles
  round each term, which the model leaves out.
\<close>

section \<open>Definitions\<close>

definition count_bytes :: "bytes \<Rightarrow> nat list" where
  "count_bytes data =
     foldl (\<lambda>counts b. counts[unat b := counts ! unat b + 1]) (replicate 256 0) data"

definition shannon_bits :: "bytes \<Rightarrow> real" where
  "shannon_bits data =
     (if data = [] then 0
      else let total = length data in
        foldl (\<lambda>entropy count.
            if count \<noteq> 0
            then (let prob = real count / real total in entropy - prob * log 2 prob)
            else entropy)
          0 (count_bytes data))"

definition decimal_char :: "char \<Rightarrow> bool" where
  "decimal_char ch = (48 \<le> py_ord ch \<and> py_ord ch \<le> 57)"

definition skb_label_signal :: "string \<Rightarrow> bool" where
  "skb_label_signal label_text =
     (let sample = take 63 label_text;
          digits = foldl (\<lambda>n ch. if decimal_char ch then n + 1 else n) (0::nat) sample;
          len = length sample
      in 20 \<le> len \<and> len < digits * 2)"

section \<open>Lemmas\<close>

lemma foldl_add_sum:
  fixes f :: "'a \<Rightarrow> real"
  shows "foldl (\<lambda>e c. e + f c) a xs = a + sum_list (map f xs)"
  by (induction xs arbitrary: a) simp_all

lemma foldl_count_length:
  fixes cs :: "nat list" and data :: bytes
  shows   "length (foldl (\<lambda>counts b. counts[unat b := counts ! unat b + 1]) cs data) = length cs"
  by (induction data arbitrary: cs) simp_all

lemma foldl_count_nth:
  fixes cs :: "nat list" and data :: bytes
  assumes "length cs = 256"
  shows "foldl (\<lambda>counts b. counts[unat b := counts ! unat b + 1]) cs data ! unat x
    = cs ! unat x + count_list data x"
  using assms
proof (induction data arbitrary: cs)
  case (Cons b data)
  with unat_byte_less [of b] show ?case by (auto simp: nth_list_update word_unat_eq_iff)
qed simp

lemma length_count_bytes [simp]: "length (count_bytes data) = 256"
  using foldl_count_length [of "replicate 256 0" data] by (simp add: count_bytes_def)

lemma count_bytes_nth: "count_bytes data ! unat x = count_list data x"
  using unat_byte_less [of x] foldl_count_nth [of "replicate 256 0" data x] by (simp add: count_bytes_def)

lemma bij_unat_byte: "bij_betw (unat :: byte \<Rightarrow> nat) UNIV {..<256}"
proof (rule bij_betw_byWitness [where f' = "of_nat"])
  show "unat ` (UNIV :: byte set) \<subseteq> {..<256}"
    using unat_byte_less by auto
qed (auto simp: unat_of_nat)

lemma sum_list_count_bytes:
  fixes f :: "nat \<Rightarrow> real"
  assumes "f 0 = 0"
  shows "sum_list (map f (count_bytes data)) = (\<Sum>b\<in>set data. f (count_list data b))"
proof -
  have "sum_list (map f (count_bytes data)) = (\<Sum>i<256. f (count_bytes data ! i))"
    by (simp add: sum_list_sum_nth atLeast0LessThan)
  also have "\<dots> = (\<Sum>b\<in>UNIV. f (count_bytes data ! unat (b::byte)))"
    by (rule sum.reindex_bij_betw [OF bij_unat_byte, symmetric])
  also have "\<dots> = (\<Sum>b\<in>UNIV. f (count_list data b))"
    by (simp add: count_bytes_nth)
  also have "\<dots> = (\<Sum>b\<in>set data. f (count_list data b))"
    by (rule sum.mono_neutral_right) (auto simp: assms count_list_0_iff)
  finally show ?thesis .
qed

text \<open>The entropy as a sum over the bytes that occur.\<close>

lemma shannon_bits_sum:
  "shannon_bits data =
     (\<Sum>b\<in>set data. - (real (count_list data b) / real (length data)
        * log 2 (real (count_list data b) / real (length data))))"
proof (cases "data = []")
  case False
  define f where "f = (\<lambda>c::nat. - (real c / real (length data) * log 2 (real c / real (length data))))"
  have "(\<lambda>e c. if c \<noteq> 0 then (let prob = real c / real (length data) in e - prob * log 2 prob) else e)
      = (\<lambda>e c. e + f c)"
    by (auto simp: f_def Let_def fun_eq_iff)
  then have "shannon_bits data = sum_list (map f (count_bytes data))"
    using False foldl_add_sum [of f 0 "count_bytes data"] by (simp add: shannon_bits_def Let_def)
  also have "\<dots> = (\<Sum>b\<in>set data. f (count_list data b))"
    by (rule sum_list_count_bytes) (simp add: f_def)
  finally show ?thesis by (simp add: f_def)
qed (simp add: shannon_bits_def)

lemma sum_count_list_real: "(\<Sum>b\<in>set data. real (count_list data b)) = real (length data)"
  using sum_count_set [of data "set data"] by (simp flip: of_nat_sum)

text \<open>Gibbs' inequality against the uniform distribution, in natural logarithms.\<close>

lemma gibbs_uniform:
  fixes p :: "'a \<Rightarrow> real"
  assumes "finite S" "S \<noteq> {}" "\<forall>b\<in>S. 0 < p b" "sum p S = 1"
  shows "(\<Sum>b\<in>S. - (p b * ln (p b))) \<le> ln (real (card S))"
proof -
  let ?k = "real (card S)"
  have k: "0 < ?k" using assms by (simp add: card_gt_0_iff)
  have "(\<Sum>b\<in>S. - (p b * ln (p b)) - p b * ln ?k) \<le> (\<Sum>b\<in>S. 1 / ?k - p b)"
  proof (rule sum_mono)
    fix b assume b: "b \<in> S"
    then have pb: "0 < p b" using assms by blast
    have "ln (1 / (p b * ?k)) \<le> 1 / (p b * ?k) - 1"
      by (rule ln_le_minus_one) (use pb k in simp)
    then have "p b * ln (1 / (p b * ?k)) \<le> p b * (1 / (p b * ?k) - 1)"
      using pb by (simp add: mult_left_mono)
    moreover have "p b * ln (1 / (p b * ?k)) = - (p b * ln (p b)) - p b * ln ?k"
      using pb k by (simp add: ln_div ln_mult algebra_simps)
    moreover have "p b * (1 / (p b * ?k) - 1) = 1 / ?k - p b"
      using pb k by (simp add: field_simps)
    ultimately show "- (p b * ln (p b)) - p b * ln ?k \<le> 1 / ?k - p b" by simp
  qed
  also have "\<dots> = 0" using k assms by (simp add: sum_subtractf)
  finally show ?thesis
    using assms by (simp add: sum_subtractf flip: sum_distrib_right)
qed

lemma shannon_bits_nonneg: "0 \<le> shannon_bits data"
proof (cases "data = []")
  case False
  show ?thesis unfolding shannon_bits_sum
  proof (rule sum_nonneg)
    fix b assume "b \<in> set data"
    then have "0 < count_list data b" by (metis count_list_0_iff gr0I)
    moreover have "count_list data b \<le> length data" by (rule count_le_length)
    ultimately have "log 2 (real (count_list data b) / real (length data)) \<le> 0"
      using False by simp
    then show "0 \<le> - (real (count_list data b) / real (length data)
        * log 2 (real (count_list data b) / real (length data)))"
      by (simp add: mult_nonneg_nonpos divide_nonpos_nonneg)
  qed
qed (simp add: shannon_bits_def)

lemma shannon_bits_le_log:
  assumes "data \<noteq> []"
  shows "shannon_bits data \<le> log 2 (real (card (set data)))"
proof -
  define p where "p b = real (count_list data b) / real (length data)" for b
  have "(\<Sum>b\<in>set data. - (p b * ln (p b))) \<le> ln (real (card (set data)))"
  proof (rule gibbs_uniform)
    show "\<forall>b\<in>set data. 0 < p b"
      using assms by (auto simp: p_def count_list_0_iff intro!: divide_pos_pos gr0I)
    show "sum p (set data) = 1"
      using assms by (simp add: p_def flip: sum_divide_distrib) (simp add: sum_count_list_real)
  qed (use assms in auto)
  moreover have "shannon_bits data = (\<Sum>b\<in>set data. - (p b * ln (p b))) / ln 2"
    by (simp add: shannon_bits_sum p_def log_def sum_divide_distrib)
  ultimately show ?thesis by (simp add: log_def divide_right_mono)
qed

lemma foldl_digits:
  "foldl (\<lambda>n ch. if decimal_char ch then n + 1 else n) a s = a + length (filter decimal_char s)"
  for a :: nat
  by (induction s arbitrary: a) simp_all

section \<open>Properties\<close>

text \<open>
  The entropy of a non-empty byte string lies between 0 and the logarithm of the number of
  distinct bytes in it, which is at most 8 and at most the logarithm of its length; it is 0 when
  the string repeats one byte. The policy's range \<open>(0, 8]\<close> for the limit is therefore the
  range of the measure.
\<close>

theorem shannon_bits_bounds:
  assumes "data \<noteq> []"
  shows "0 \<le> shannon_bits data \<and> shannon_bits data \<le> log 2 (real (card (set data)))
    \<and> shannon_bits data \<le> 8 \<and> shannon_bits data \<le> log 2 (real (length data))
    \<and> (card (set data) = 1 \<longrightarrow> shannon_bits data = 0)"
proof -
  let ?k = "real (card (set data))"
  have k: "0 < ?k" using assms by (simp add: card_gt_0_iff)
  have "card (set data) \<le> card (UNIV :: byte set)" by (rule card_mono) auto
  then have "log 2 ?k \<le> log 2 256" using k by (simp add: card_word)
  moreover have "log 2 (256::real) = 8" using log_pow_cancel [of "2::real" 8] by simp
  moreover have "log 2 ?k \<le> log 2 (real (length data))" 
    using k card_length [of data] by (subst log_le_cancel_iff) auto
  moreover have "card (set data) = 1 \<Longrightarrow> log 2 ?k = 0" by simp
  ultimately show ?thesis
    using shannon_bits_nonneg [of data] shannon_bits_le_log [OF assms] by fastforce
qed

theorem shannon_bits_bounds_witness:
  "0 \<le> shannon_bits [1, 2] \<and> shannon_bits [1, 2] \<le> log 2 (real (card {1, 2 :: byte}))
    \<and> shannon_bits [1, 2] \<le> 8 \<and> shannon_bits [1, 2] \<le> log 2 2
    \<and> (card {1, 2 :: byte} = 1 \<longrightarrow> shannon_bits [1, 2] = 0)"
  using shannon_bits_bounds [of "[1, 2]"] by simp

text \<open>
  The signal of a label depends on its first 63 characters only, and holds exactly when
  there are at least 20 of them and digits are the majority.
\<close>

theorem skb_label_signal_iff:
  "skb_label_signal s \<longleftrightarrow>
     20 \<le> length s \<and> length (take 63 s) < 2 * length (filter decimal_char (take 63 s))"
  by (auto simp: skb_label_signal_def Let_def foldl_digits)

end
