(* ===== verification/T5_Decide.thy ===== *)
theory T5_Decide
  imports T5_Decision T5_Volume T5_Policy T5_Dns_Wire T5_Entropy
begin

unbundle bit_operations_syntax

text \<open>
  The decision entry points of \<open>t5_egress\<close>: \<open>dns_decide.py\<close>, \<open>http_decide.py\<close>, \<open>icmp_decide.py\<close>
  and \<open>loop_decide.py\<close>. Each takes the loaded policy, the mode and the enrollment flag and returns
  a decision; the DNS query case also threads the volume gate. A helper of the code that returns
  either a decision or a value returns \<open>Inl\<close> the decision or \<open>Inr\<close> the value.
\<close>

section \<open>Definitions: DNS\<close>

text \<open>After the call gate has passed, the mode is one of the two texts (the code's assertion).\<close>

definition mode_text :: "pyval \<Rightarrow> string" where
  "mode_text mode = (case mode of PStr m \<Rightarrow> m | _ \<Rightarrow> [])"

definition wire_label_ok :: "byte \<Rightarrow> bool" where
  "wire_label_ok b = label_ok (char_of (unat b))"

definition decode_ascii :: "bytes \<Rightarrow> string" where
  "decode_ascii bs = map (\<lambda>b. char_of (unat b)) bs"

fun labels_text :: "wire_labels \<Rightarrow> Decision + string list" where
  "labels_text [] = Inr []"
| "labels_text (lab # labs) =
     (if lab = [] \<or> length lab > 63 \<or> list_ex (\<lambda>b. \<not> wire_label_ok b) lab
      then Inl (deny_eval ''dns_label_not_ldh'')
      else bind_res (labels_text labs) (\<lambda>rest. Inr (ascii_fold (decode_ascii lab) # rest)))"

definition tunnel_reason :: "string list \<Rightarrow> string list \<Rightarrow> Policy \<Rightarrow> string option" where
  "tunnel_reason labels matched policy =
     (if length labels = length matched then None
      else
        (let left = take (length labels - length matched) labels;
             longest = max_label_length (dns policy)
         in if list_ex (\<lambda>l. int (length l) > longest) left then Some ''dns_label_too_long''
            else if int (sum_list (map length left)) > longest then Some ''dns_label_too_long''
            else
              (let blob = ascii_bytes (concat left) in
               if int (length blob) \<ge> entropy_min_length (dns policy)
                  \<and> shannon_bits blob > entropy_bits_max (dns policy)
               then Some ''dns_label_entropy''
               else None)))"

text \<open>The part of \<open>decide_dns_query\<close> after the volume gate has answered.\<close>

definition decide_dns_labels ::
  "wire_labels \<Rightarrow> pyval \<Rightarrow> Policy \<Rightarrow> string \<Rightarrow> string \<Rightarrow> Decision" where
  "decide_dns_labels qlabels resolver policy mode status =
     (case labels_text qlabels of
        Inl d \<Rightarrow> d
      | Inr labels \<Rightarrow>
          (case parse_address resolver of
             None \<Rightarrow> deny_eval ''address_not_canonical''
           | Some resolver_addr \<Rightarrow>
               if address_class resolver_addr = ''link_local''
               then deny_classified ''link_local_not_allowed'' mode
               else if \<not> listed_address resolver_addr (allowed_resolvers (dns policy))
               then deny_classified ''resolver_not_allowed'' mode
               else if list_ex (\<lambda>l. int (length l) > max_label_length (dns policy)) labels
               then deny_classified ''dns_label_too_long'' mode
               else
                 (case longest_match labels (allowed_names (dns policy)) of
                    None \<Rightarrow> deny_classified ''dns_name_not_allowed'' mode
                  | Some matched \<Rightarrow>
                      (case tunnel_reason labels matched policy of
                         Some tunnel \<Rightarrow> deny_classified tunnel mode
                       | None \<Rightarrow>
                           if status = ''over'' then deny_classified ''dns_query_volume'' mode
                           else allow_decision))))"

definition decide_dns_query ::
  "int option \<Rightarrow> bytes \<Rightarrow> pyval \<Rightarrow> Policy \<Rightarrow> pyval \<Rightarrow> pyval \<Rightarrow> VolumeGate option \<Rightarrow> pyval \<Rightarrow> pyval
     \<Rightarrow> Decision \<times> VolumeGate option" where
  "decide_dns_query clock packet resolver policy mode enrolled gate workload_id now_ns =
     (case gate_call enrolled mode of
        Some early \<Rightarrow> (early, gate)
      | None \<Rightarrow>
          if malformed policy then (deny_eval ''policy_malformed'', gate)
          else
            (case parse_question packet of
               Inl rsn \<Rightarrow> (deny_eval rsn, gate)
             | Inr question \<Rightarrow>
                 (case gate of
                    None \<Rightarrow> (deny_eval ''dns_query_volume'', None)
                  | Some g \<Rightarrow>
                      (let (status, g') = gate_hit clock g workload_id now_ns in
                       if status = ''failure'' then (deny_eval ''dns_query_volume'', Some g')
                       else (decide_dns_labels (q_labels question) resolver policy
                               (mode_text mode) status, Some g')))))"

text \<open>The glue addresses of one name server target, in order.\<close>

definition glue_texts :: "string list \<Rightarrow> Record list \<Rightarrow> string list" where
  "glue_texts target items =
     concat (map (\<lambda>item.
       case rdata_addr item of
         None \<Rightarrow> []
       | Some t \<Rightarrow>
           if rtype item \<notin> {1, 28} \<or> t = [] then []
           else if labels_text (owner item) = Inr target then [t] else []) items)"

fun check_glue :: "string list \<Rightarrow> Policy \<Rightarrow> string \<Rightarrow> Decision option" where
  "check_glue [] policy mode = None"
| "check_glue (t # ts) policy mode =
     (case parse_address (PStr t) of
        None \<Rightarrow> Some (deny_eval ''address_not_canonical'')
      | Some parsed \<Rightarrow>
          if address_class parsed = ''link_local''
          then Some (deny_classified ''link_local_not_allowed'' mode)
          else if \<not> listed_address parsed (allowed_resolvers (dns policy))
          then Some (deny_classified ''delegation_unknown'' mode)
          else check_glue ts policy mode)"

fun check_delegations ::
  "wire_labels list \<Rightarrow> Record list \<Rightarrow> Policy \<Rightarrow> string \<Rightarrow> Decision option" where
  "check_delegations [] items policy mode = None"
| "check_delegations (n # ns) items policy mode =
     (case labels_text n of
        Inl d \<Rightarrow> Some d
      | Inr target \<Rightarrow>
          if longest_match target (allowed_names (dns policy)) = None
          then Some (deny_classified ''delegation_unknown'' mode)
          else
            (let glue = glue_texts target items in
             if glue = [] then Some (deny_classified ''delegation_unresolved'' mode)
             else
               (case check_glue glue policy mode of
                  Some d \<Rightarrow> Some d
                | None \<Rightarrow> check_delegations ns items policy mode)))"

definition ns_targets :: "Record list \<Rightarrow> wire_labels list" where
  "ns_targets records =
     concat (map (\<lambda>r. case rdata_name r of
                        None \<Rightarrow> []
                      | Some n \<Rightarrow> if rtype r = 2 \<and> n \<noteq> [] then [n] else []) records)"

definition decide_dns_response :: "bytes \<Rightarrow> Policy \<Rightarrow> pyval \<Rightarrow> pyval \<Rightarrow> Decision" where
  "decide_dns_response packet policy mode enrolled =
     (case gate_call enrolled mode of
        Some early \<Rightarrow> early
      | None \<Rightarrow>
          if malformed policy then deny_eval ''policy_malformed''
          else
            (case parse_response packet of
               Inl rsn \<Rightarrow> deny_eval rsn
             | Inr view \<Rightarrow>
                 (let targets = ns_targets (authority view) in
                  if targets = [] then deny_classified ''delegation_unresolved'' (mode_text mode)
                  else
                    (case check_delegations targets (additional view) policy (mode_text mode) of
                       Some d \<Rightarrow> d
                     | None \<Rightarrow> allow_decision))))"

section \<open>Definitions: loopback\<close>

definition decide_loopback ::
  "pyval \<Rightarrow> pyval \<Rightarrow> pyval \<Rightarrow> Policy \<Rightarrow> pyval \<Rightarrow> pyval \<Rightarrow> Decision" where
  "decide_loopback destination port protocol policy mode enrolled =
     (case gate_call enrolled mode of
        Some early \<Rightarrow> early
      | None \<Rightarrow>
          if malformed policy then deny_eval ''policy_malformed''
          else if protocol \<notin> {PStr ''tcp'', PStr ''udp''}
          then deny_eval ''loopback_header_unreadable''
          else
            (case parse_address destination of
               None \<Rightarrow> deny_eval ''address_not_canonical''
             | Some parsed \<Rightarrow>
                 (let kind = address_class parsed in
                  if kind = ''link_local''
                  then deny_classified ''link_local_not_allowed'' (mode_text mode)
                  else if kind \<noteq> ''loopback'' then not_in_scope ''case_not_applicable''
                  else
                    (case port of
                       PInt p \<Rightarrow>
                         if p < 0 \<or> p > 65535 then deny_eval ''loopback_header_unreadable''
                         else if p \<notin> set (allowed_ports (loopback policy))
                         then deny_classified ''loopback_port_not_allowed'' (mode_text mode)
                         else allow_decision
                     | _ \<Rightarrow> deny_eval ''loopback_header_unreadable''))))"

section \<open>Definitions: HTTP GET\<close>

definition http_bad_tokens :: "string list" where
  "http_bad_tokens = [''%'', ''..'', ''//'', [CHR 0x5C], '';'']"

definition int_field :: "pyval \<Rightarrow> string \<Rightarrow> Decision + int" where
  "int_field value rsn =
     (case value of
        PInt v \<Rightarrow> if v < 0 then Inl (deny_eval rsn) else Inr v
      | _ \<Rightarrow> Inl (deny_eval rsn))"

definition address_shaped :: "string \<Rightarrow> bool" where
  "address_shaped host =
     (let body = (if prefix ''['' host \<and> suffix '']'' host then butlast (tl host) else host) in
      if prefix ''0x'' (py_lower body) \<or> py_isdigit body then True
      else if CHR '':'' \<in> set body then True
      else
        (let parts = py_split (CHR ''.'') body in
         length parts > 1 \<and> list_all py_isdigit parts))"

definition host_class :: "string \<Rightarrow> string option" where
  "host_class host =
     (if \<not> address_shaped host then None
      else (case parse_address (PStr host) of
              None \<Rightarrow> Some ''bad''
            | Some parsed \<Rightarrow> Some (address_class parsed)))"

definition class_decision :: "string \<Rightarrow> string \<Rightarrow> Decision" where
  "class_decision kind mode =
     (if kind = ''loopback'' then not_in_scope ''case_not_applicable''
      else if kind = ''link_local'' then deny_classified ''link_local_not_allowed'' mode
      else if kind = ''bad'' then deny_eval ''address_not_canonical''
      else deny_eval ''address_not_canonical'')"

text \<open>The three stages of \<open>decide_get\<close>: host, connected address, request. \<^const>\<open>None\<close> means the
  stage has no objection.\<close>

definition get_host_check :: "string \<Rightarrow> Policy \<Rightarrow> string \<Rightarrow> Decision option" where
  "get_host_check host policy mode =
     (case host_class host of
        Some host_kind \<Rightarrow>
          if host_kind \<noteq> ''external'' then Some (class_decision host_kind mode)
          else
            (case parse_address (PStr host) of
               None \<Rightarrow> Some (deny_classified ''get_host_not_allowed'' mode)
             | Some parsed_host \<Rightarrow>
                 if \<not> listed_address parsed_host (allowed_host_addrs (http_get policy))
                 then Some (deny_classified ''get_host_not_allowed'' mode)
                 else None)
      | None \<Rightarrow>
          (case prepare_candidate_name (PStr host) of
             Inl rsn \<Rightarrow>
               Some (deny_eval (if rsn \<noteq> ''policy_malformed'' then rsn else ''dns_label_not_ldh''))
           | Inr candidate \<Rightarrow>
               if longest_match candidate (allowed_hosts (http_get policy)) = None
               then Some (deny_classified ''get_host_not_allowed'' mode)
               else None))"

definition get_connected_check :: "pyval \<Rightarrow> string \<Rightarrow> Decision option" where
  "get_connected_check connected_address mode =
     (if connected_address = PNone then None
      else
        (case parse_address connected_address of
           None \<Rightarrow> Some (deny_eval ''address_not_canonical'')
         | Some conn \<Rightarrow>
             (let kind = address_class conn in
              if kind = ''loopback'' then Some (not_in_scope ''case_not_applicable'')
              else if kind = ''link_local''
              then Some (deny_classified ''link_local_not_allowed'' mode)
              else None)))"

definition query_write_key :: "string \<Rightarrow> Policy \<Rightarrow> bool" where
  "query_write_key query policy =
     (query \<noteq> [] \<and>
      list_ex (\<lambda>piece. ascii_fold (takeWhile (\<lambda>c. c \<noteq> CHR ''='') piece)
                        \<in> set (write_query_keys (http_get policy)))
        (py_split (CHR ''&'') query))"

definition get_request_check ::
  "string \<Rightarrow> string \<Rightarrow> int \<Rightarrow> Policy \<Rightarrow> string \<Rightarrow> Decision" where
  "get_request_check path query len policy mode =
     (let raw = path @ ''?'' @ query in
      if \<not> is_ascii raw \<or> list_ex (\<lambda>token. sublist token raw) http_bad_tokens
      then deny_eval ''get_path_not_normalized''
      else if int (length path) > max_path_length (http_get policy)
      then deny_eval ''get_path_too_long''
      else if int (length query) > max_query_length (http_get policy)
      then deny_classified ''get_query_too_long'' mode
      else if len > 0 then deny_classified ''get_body_write'' mode
      else if list_ex (\<lambda>pre. prefix pre (ascii_fold path)) (write_path_prefixes (http_get policy))
      then deny_classified ''get_path_write'' mode
      else if query_write_key query policy then deny_classified ''get_query_write_key'' mode
      else allow_decision)"

definition get_fields_check ::
  "pyval \<Rightarrow> pyval \<Rightarrow> pyval \<Rightarrow> pyval \<Rightarrow> Policy \<Rightarrow> string \<Rightarrow> Decision" where
  "get_fields_check path query body_length header_bytes policy mode =
     (case int_field body_length ''get_body_length_unknown'' of
        Inl d \<Rightarrow> d
      | Inr len \<Rightarrow>
          (case int_field header_bytes ''get_header_length_unknown'' of
             Inl d \<Rightarrow> d
           | Inr headers \<Rightarrow>
               if headers > max_header_bytes (http_get policy)
               then deny_classified ''get_headers_too_long'' mode
               else
                 (case (path, query) of
                    (PStr p, PStr q) \<Rightarrow> get_request_check p q len policy mode
                  | _ \<Rightarrow> deny_eval ''get_path_not_normalized'')))"

definition decide_get ::
  "pyval \<Rightarrow> pyval \<Rightarrow> pyval \<Rightarrow> pyval \<Rightarrow> pyval \<Rightarrow> pyval \<Rightarrow> pyval \<Rightarrow> Policy \<Rightarrow> pyval \<Rightarrow> pyval \<Rightarrow> pyval
     \<Rightarrow> Decision" where
  "decide_get method_visible req_method host path query body_length header_bytes policy mode
     enrolled connected_address =
     (case gate_call enrolled mode of
        Some early \<Rightarrow> early
      | None \<Rightarrow>
          if malformed policy then deny_eval ''policy_malformed''
          else if method_visible \<noteq> PBool True then deny_eval ''get_method_not_visible''
          else if (case req_method of PStr m \<Rightarrow> ascii_fold m \<noteq> ''get'' | _ \<Rightarrow> True)
          then not_in_scope ''case_not_applicable''
          else
            (case host of
               PStr h \<Rightarrow>
                 if h = [] then deny_eval ''get_host_not_allowed''
                 else
                   (case get_host_check h policy (mode_text mode) of
                      Some d \<Rightarrow> d
                    | None \<Rightarrow>
                        (case get_connected_check connected_address (mode_text mode) of
                           Some d \<Rightarrow> d
                         | None \<Rightarrow> get_fields_check path query body_length header_bytes policy
                                     (mode_text mode)))
             | _ \<Rightarrow> deny_eval ''get_host_not_allowed''))"

section \<open>Definitions: ICMP\<close>

definition EXT_headers :: "nat list" where
  "EXT_headers = [0, 43, 44, 51, 60]"

text \<open>The loop over extension headers: the next header and its offset.\<close>

function icmp_ext :: "bytes \<Rightarrow> nat \<Rightarrow> nat \<Rightarrow> nat \<Rightarrow> Decision + nat \<times> nat" where
  "icmp_ext packet next_header off seen =
     (if next_header \<notin> set EXT_headers then Inr (next_header, off)
      else if seen \<ge> 4 then Inl (deny_eval ''icmp_header_unreadable'')
      else if next_header = 44 then
        (if off + 8 > length packet then Inl (deny_eval ''icmp_header_unreadable'')
         else icmp_ext packet (byte_at packet off) (off + 8) (seen + 1))
      else if off + 2 > length packet then Inl (deny_eval ''icmp_header_unreadable'')
      else
        (let hdrlen = byte_at packet (off + 1);
             size = (if next_header = 51 then (hdrlen + 2) * 4 else (hdrlen + 1) * 8)
         in if off + size > length packet then Inl (deny_eval ''icmp_header_unreadable'')
            else icmp_ext packet (byte_at packet off) (off + size) (seen + 1)))"
  by pat_completeness auto

termination
  by (relation "measure (\<lambda>(_, _, _, seen). 4 - seen)") auto

definition icmp_parse :: "bytes \<Rightarrow> Decision + string \<times> nat \<times> string" where
  "icmp_parse packet =
     (if length packet < 1 then Inl (deny_eval ''icmp_header_unreadable'')
      else
        (let version = drop_bit 4 (byte_at packet 0) in
         if version = 4 then
           (if length packet < 20 then Inl (deny_eval ''icmp_header_unreadable'')
            else
              (let ihl = byte_at packet 0 AND 0x0F in
               if ihl < 5 then Inl (deny_eval ''icmp_header_unreadable'')
               else
                 (let header_len = ihl * 4 in
                  if length packet < header_len + 1 \<or> byte_at packet 9 \<noteq> 1 then
                    (if length packet \<ge> 20 \<and> byte_at packet 9 \<noteq> 1
                     then Inl (not_in_scope ''case_not_applicable'')
                     else Inl (deny_eval ''icmp_header_unreadable''))
                  else
                    Inr (''v4'', byte_at packet header_len,
                         py_join ''.'' (map (\<lambda>b. num_str 10 (unat b)) (py_slice packet 16 20))))))
         else if version = 6 then
           (if length packet < 40 then Inl (deny_eval ''icmp_header_unreadable'')
            else
              bind_res (icmp_ext packet (byte_at packet 6) 40 0) (\<lambda>(next_header, off).
                if next_header \<noteq> 58 \<or> off \<ge> length packet then
                  (if next_header \<noteq> 58 then Inl (not_in_scope ''case_not_applicable'')
                   else Inl (deny_eval ''icmp_header_unreadable''))
                else
                  Inr (''v6'', byte_at packet off,
                       py_join '':'' (map (\<lambda>i. num_str 16 (be16 packet (24 + 2 * i))) [0..<8]))))
         else Inl (deny_eval ''icmp_header_unreadable'')))"

definition decide_icmp :: "bytes \<Rightarrow> Policy \<Rightarrow> pyval \<Rightarrow> pyval \<Rightarrow> Decision" where
  "decide_icmp packet policy mode enrolled =
     (case gate_call enrolled mode of
        Some early \<Rightarrow> early
      | None \<Rightarrow>
          if malformed policy then deny_eval ''policy_malformed''
          else
            (case icmp_parse packet of
               Inl d \<Rightarrow> d
             | Inr (family, icmp_type, dest) \<Rightarrow>
                 if family = ''v6''
                 then deny_classified ''icmp_type_not_allowed'' (mode_text mode)
                 else
                   (case parse_address (PStr dest) of
                      None \<Rightarrow> deny_eval ''address_not_canonical''
                    | Some addr \<Rightarrow>
                        if address_class addr = ''link_local''
                        then deny_classified ''link_local_not_allowed'' (mode_text mode)
                        else if \<not> listed_address addr (allowed_destinations (icmp policy))
                        then deny_classified ''icmp_destination_not_allowed'' (mode_text mode)
                        else if int icmp_type \<notin> set (allowed_types (icmp policy))
                        then deny_classified ''icmp_type_not_allowed'' (mode_text mode)
                        else allow_decision)))"

section \<open>Every decision is well formed\<close>

declare icmp_ext.simps [simp del]

text \<open>The contract of the entry points: a packet is transmitted only on an allow or, in observe
  mode, on a would-deny, and a failed evaluation is a deny that transmits nothing.\<close>

definition fail_closed :: "pyval \<Rightarrow> Decision \<Rightarrow> bool" where
  "fail_closed mode d =
     (label d = ''Lab-only''
      \<and> (transmit d \<longleftrightarrow>
           action d = ''ALLOW'' \<or> action d = ''OBSERVE_WOULD_DENY'' \<and> mode = PStr ''observe'')
      \<and> (evaluation_failure d \<longrightarrow> action d = ''DENY'')
      \<and> (action d = ''ALLOW'' \<longleftrightarrow> enforce_outcome d = ''allow''))"

lemma mode_text_simps [simp]: "mode_text (PStr m) = m"
  by (simp add: mode_text_def)

lemma fail_closed_wf:
  "decision_wf (mode_text mode) d \<Longrightarrow> mode = PStr m \<or> \<not> transmit d \<Longrightarrow> fail_closed mode d"
  by (auto simp: decision_wf_def fail_closed_def)

lemma fail_closed_constructors [simp]:
  "fail_closed m allow_decision"
  "fail_closed (PStr t) (deny_classified r t)"
  "fail_closed m (deny_eval r)"
  "fail_closed m (not_in_scope r)"
  by (auto simp: fail_closed_def decision_defs)

lemma gate_call_fail_closed: "gate_call enrolled mode = Some d \<Longrightarrow> fail_closed mode d"
  by (auto simp: gate_call_def split: if_splits pyval.splits bool.splits)

lemma gate_call_mode: "gate_call enrolled mode = None \<Longrightarrow> \<exists>m. mode = PStr m"
  by (auto simp: gate_call_None_iff)

lemma labels_text_Inl: "labels_text ls = Inl d \<Longrightarrow> d = deny_eval ''dns_label_not_ldh''"
  by (induction ls) (auto simp: bind_res_Inl_iff split: if_splits)

lemma decide_dns_labels_fail_closed:
  "fail_closed (PStr m) (decide_dns_labels ls resolver policy m status)"
  by (auto simp: decide_dns_labels_def dest: labels_text_Inl split: sum.split option.split)

lemma check_glue_fail_closed: "check_glue ts policy m = Some d \<Longrightarrow> fail_closed (PStr m) d"
  by (induction ts) (auto split: option.splits if_splits)

lemma check_delegations_fail_closed:
  "check_delegations ns items policy m = Some d \<Longrightarrow> fail_closed (PStr m) d"
  by (induction ns)
    (auto simp: Let_def dest: labels_text_Inl check_glue_fail_closed
      split: sum.splits option.splits if_splits)

lemma int_field_Inl: "int_field v r = Inl d \<Longrightarrow> d = deny_eval r"
  by (auto simp: int_field_def split: pyval.splits if_splits)

lemma class_decision_fail_closed [simp]: "fail_closed (PStr m) (class_decision k m)"
  by (simp add: class_decision_def)

lemma get_checks_fail_closed:
  "get_host_check h policy m = Some d \<Longrightarrow> fail_closed (PStr m) d"
  "get_connected_check c m = Some d \<Longrightarrow> fail_closed (PStr m) d"
  by (auto simp: get_host_check_def get_connected_check_def Let_def
      split: option.splits sum.splits if_splits)

lemma get_request_check_fail_closed [simp]:
  "fail_closed (PStr m) (get_request_check p q n policy m)"
  by (simp add: get_request_check_def Let_def)

lemma get_fields_check_fail_closed [simp]:
  "fail_closed (PStr m) (get_fields_check p q b h policy m)"
  by (auto simp: get_fields_check_def dest: int_field_Inl split: sum.splits pyval.splits)

lemma icmp_ext_Inl: "icmp_ext p n off seen = Inl d \<Longrightarrow> d = deny_eval ''icmp_header_unreadable''"
proof (induction p n off seen rule: icmp_ext.induct)
  case (1 p n off seen)
  note step = "1.prems" [unfolded icmp_ext.simps [of p n off seen]]
  show ?case
  proof (cases "n \<in> set EXT_headers \<and> seen < 4")
    case True
    with step "1.IH" show ?thesis by (simp add: Let_def split: if_splits)
  next
    case False
    with step show ?thesis by (auto split: if_splits)
  qed
qed

lemma icmp_parse_Inl: "icmp_parse p = Inl d \<Longrightarrow> \<exists>r. d = deny_eval r \<or> d = not_in_scope r"
  by (auto simp: icmp_parse_def Let_def bind_res_Inl_iff dest!: icmp_ext_Inl split: if_splits)

lemma decide_dns_query_fail_closed:
  "fail_closed mode (fst (decide_dns_query clock packet resolver policy mode enrolled gate w now))"
proof (cases "gate_call enrolled mode")
  case None
  then obtain m where "mode = PStr m" using gate_call_mode by blast
  with None show ?thesis
    by (simp add: decide_dns_query_def decide_dns_labels_fail_closed Let_def
        split: option.split sum.split prod.split)
qed (simp add: decide_dns_query_def gate_call_fail_closed)

lemma decide_dns_response_fail_closed:
  "fail_closed mode (decide_dns_response packet policy mode enrolled)"
proof (cases "gate_call enrolled mode")
  case None
  then obtain m where "mode = PStr m" using gate_call_mode by blast
  with None show ?thesis
    by (simp add: decide_dns_response_def check_delegations_fail_closed Let_def
        split: option.split sum.split)
qed (simp add: decide_dns_response_def gate_call_fail_closed)

lemma decide_get_fail_closed:
  "fail_closed mode (decide_get visible meth host path query body hdrs policy mode enrolled conn)"
proof (cases "gate_call enrolled mode")
  case None
  then obtain m where "mode = PStr m" using gate_call_mode by blast
  with None show ?thesis
    by (simp add: decide_get_def get_checks_fail_closed split: option.split pyval.split)
qed (simp add: decide_get_def gate_call_fail_closed)

lemma decide_icmp_fail_closed: "fail_closed mode (decide_icmp packet policy mode enrolled)"
proof (cases "gate_call enrolled mode")
  case None
  then obtain m where "mode = PStr m" using gate_call_mode by blast
  moreover have "icmp_parse packet = Inl d \<Longrightarrow> fail_closed mode d" for d
    using icmp_parse_Inl [of packet d] by auto
  ultimately show ?thesis
    using None by (simp add: decide_icmp_def split: option.split sum.split prod.split)
qed (simp add: decide_icmp_def gate_call_fail_closed)

lemma decide_loopback_fail_closed:
  "fail_closed mode (decide_loopback destination port protocol policy mode enrolled)"
proof (cases "gate_call enrolled mode")
  case None
  then obtain m where "mode = PStr m" using gate_call_mode by blast
  with None show ?thesis
    by (simp add: decide_loopback_def Let_def split: option.split pyval.split)
qed (simp add: decide_loopback_def gate_call_fail_closed)

text \<open>
  Every decision entry point fails closed, for every packet, request, policy, mode and
  enrollment value: it transmits only on an allow, or on a would-deny when the mode is observe; a
  failed evaluation is a deny; and only an allow has the enforce outcome \<open>allow\<close>.
\<close>

theorem decisions_fail_closed:
  "fail_closed mode (fst (decide_dns_query clock packet resolver policy mode enrolled gate w now))
   \<and> fail_closed mode (decide_dns_response packet policy mode enrolled)
   \<and> fail_closed mode (decide_get visible meth host path query body hdrs policy mode enrolled conn)
   \<and> fail_closed mode (decide_icmp packet policy mode enrolled)
   \<and> fail_closed mode (decide_loopback destination port protocol policy mode enrolled)"
  by (simp add: decide_dns_query_fail_closed decide_dns_response_fail_closed decide_get_fail_closed
      decide_icmp_fail_closed decide_loopback_fail_closed)

end
