(* ===== verification/T5_Allow.thy ===== *)
theory T5_Allow
  imports T5_Decide
begin

unbundle bit_operations_syntax

text \<open>
  What an allow of \<open>t5_egress\<close> means: for each entry point, the conditions under which it answers
  \<open>ALLOW\<close>, stated without the order of the checks, and what they imply for the traffic.
\<close>

section \<open>Definitions\<close>

text \<open>The call is governed: enrolled, a known mode, a policy that loaded.\<close>

definition governed :: "pyval \<Rightarrow> pyval \<Rightarrow> Policy \<Rightarrow> bool" where
  "governed enrolled mode policy =
     (enrolled = PBool True \<and> (mode = PStr ''observe'' \<or> mode = PStr ''enforce'')
      \<and> \<not> malformed policy)"

definition be32 :: "bytes \<Rightarrow> nat \<Rightarrow> nat" where
  "be32 bs i = be16 bs i * 65536 + be16 bs (i + 2)"

definition resolver_ok :: "Addr \<Rightarrow> Policy \<Rightarrow> bool" where
  "resolver_ok a policy =
     (address_class a \<noteq> ''link_local'' \<and> listed_address a (allowed_resolvers (dns policy)))"

definition get_host_ok :: "string \<Rightarrow> Policy \<Rightarrow> bool" where
  "get_host_ok h policy =
     (if address_shaped h
      then (case parse_address (PStr h) of
              None \<Rightarrow> False
            | Some a \<Rightarrow> address_class a = ''external''
                \<and> listed_address a (allowed_host_addrs (http_get policy)))
      else (case prepare_candidate_name (PStr h) of
              Inl _ \<Rightarrow> False
            | Inr ls \<Rightarrow> list_ex (name_matches ls) (allowed_hosts (http_get policy))))"

definition get_connected_ok :: "pyval \<Rightarrow> bool" where
  "get_connected_ok c =
     (c = PNone \<or> (case parse_address c of
                      None \<Rightarrow> False
                    | Some a \<Rightarrow> address_class a \<notin> {''loopback'', ''link_local''}))"

text \<open>A request that carries no data beyond its bounded path and query, and no write signal.\<close>

definition get_read_only :: "string \<Rightarrow> string \<Rightarrow> Policy \<Rightarrow> bool" where
  "get_read_only path query policy =
     (is_ascii path \<and> is_ascii query
      \<and> \<not> list_ex (\<lambda>token. sublist token (path @ ''?'' @ query)) http_bad_tokens
      \<and> int (length path) \<le> max_path_length (http_get policy)
      \<and> int (length query) \<le> max_query_length (http_get policy)
      \<and> \<not> list_ex (\<lambda>pre. prefix pre (ascii_fold path)) (write_path_prefixes (http_get policy))
      \<and> \<not> query_write_key query policy)"

text \<open>A workload's queries, each with its resolver and its stamp, decided in order through one
  volume gate; the result pairs each stamp with its decision.\<close>

fun dns_session ::
  "Policy \<Rightarrow> pyval \<Rightarrow> pyval \<Rightarrow> pyval \<Rightarrow> (bytes \<times> pyval \<times> int) list \<Rightarrow> VolumeGate option
     \<Rightarrow> (int \<times> Decision) list" where
  "dns_session policy mode enrolled w [] gate = []"
| "dns_session policy mode enrolled w ((packet, resolver, stamp) # qs) gate =
     (let (d, gate') = decide_dns_query None packet resolver policy mode enrolled gate w (PInt stamp)
      in (stamp, d) # dns_session policy mode enrolled w qs gate')"

definition allowed_within :: "int \<Rightarrow> int \<Rightarrow> (int \<times> Decision) list \<Rightarrow> nat" where
  "allowed_within lo hi rows =
     length (filter (\<lambda>(t, d). action d = ''ALLOW'' \<and> lo < t \<and> t \<le> hi) rows)"

section \<open>Lemmas\<close>

lemma governed_iff: "governed e m p \<longleftrightarrow> gate_call e m = None \<and> \<not> malformed p"
  by (auto simp: governed_def gate_call_None_iff)

lemma gate_call_not_allow: "gate_call e m = Some d \<Longrightarrow> action d \<noteq> ''ALLOW''"
  using gate_call_Some_not_transmit by blast

lemma tunnel_reason_None_iff:
  "tunnel_reason labels m policy = None \<longleftrightarrow>
     length labels = length m \<or>
     (let left = take (length labels - length m) labels in
        int (length (concat left)) \<le> max_label_length (dns policy)
        \<and> (int (length (concat left)) < entropy_min_length (dns policy)
           \<or> shannon_bits (ascii_bytes (concat left)) \<le> entropy_bits_max (dns policy)))"
proof -
  have "\<not> list_ex (\<lambda>l. int (length l) > k) ls" if "int (sum_list (map length ls)) \<le> k" for k and ls :: "string list"
  proof -
    have "length l \<le> sum_list (map length ls)" if "l \<in> set ls" for l
      using that by (simp add: member_le_sum_list)
    then show ?thesis using that by (fastforce simp: list_ex_iff)
  qed
  then show ?thesis
    by (auto simp: tunnel_reason_def Let_def length_concat not_le not_less)
qed

lemma decide_dns_labels_allow:
  "action (decide_dns_labels qls resolver policy mode status) = ''ALLOW'' \<longleftrightarrow>
     status \<noteq> ''over'' \<and>
     (\<exists>ls a m. labels_text qls = Inr ls \<and> parse_address resolver = Some a \<and> resolver_ok a policy
        \<and> (\<forall>l \<in> set ls. int (length l) \<le> max_label_length (dns policy))
        \<and> longest_match ls (allowed_names (dns policy)) = Some m
        \<and> tunnel_reason ls m policy = None)"
  by (auto simp: decide_dns_labels_def resolver_ok_def list_ex_iff not_le dest: labels_text_Inl
      split: sum.splits option.splits if_splits)

lemma gate_hit_answers: "fst (gate_hit c g w n) \<in> {''ok'', ''over'', ''failure''}"
  by (rule gate_hit_answer)

lemma decide_dns_query_allow:
  "action (fst (decide_dns_query clock packet resolver policy mode enrolled gate w now)) = ''ALLOW'' \<longleftrightarrow>
     governed enrolled mode policy \<and>
     (\<exists>q g. parse_question packet = Inr q \<and> gate = Some g \<and> fst (gate_hit clock g w now) = ''ok''
       \<and> (\<exists>ls a m. labels_text (q_labels q) = Inr ls \<and> parse_address resolver = Some a
          \<and> resolver_ok a policy
          \<and> (\<forall>l \<in> set ls. int (length l) \<le> max_label_length (dns policy))
          \<and> longest_match ls (allowed_names (dns policy)) = Some m
          \<and> tunnel_reason ls m policy = None))"
proof (cases "gate_call enrolled mode = None \<and> \<not> malformed policy")
  case True
  show ?thesis
  proof (cases "parse_question packet")
    case (Inr q)
    show ?thesis
    proof (cases gate)
      case (Some g)
      then show ?thesis
        using True Inr gate_hit_answers [of clock g w now]
        by (auto simp: decide_dns_query_def governed_iff decide_dns_labels_allow Let_def
            split: prod.splits)
    qed (use True Inr in \<open>simp add: decide_dns_query_def\<close>)
  qed (use True in \<open>simp add: decide_dns_query_def\<close>)
next
  case False
  then show ?thesis
    by (auto simp: decide_dns_query_def governed_iff dest: gate_call_not_allow split: option.splits)
qed

lemma decide_loopback_allow:
  "action (decide_loopback destination port protocol policy mode enrolled) = ''ALLOW'' \<longleftrightarrow>
     governed enrolled mode policy \<and> protocol \<in> {PStr ''tcp'', PStr ''udp''} \<and>
     (\<exists>a p. parse_address destination = Some a \<and> address_class a = ''loopback''
        \<and> port = PInt p \<and> 0 \<le> p \<and> p \<le> 65535 \<and> p \<in> set (allowed_ports (loopback policy)))"
proof (cases "gate_call enrolled mode")
  case None
  then show ?thesis
    by (auto simp: decide_loopback_def governed_iff Let_def
        split: option.splits pyval.splits if_splits)
qed (auto simp: decide_loopback_def governed_iff dest: gate_call_not_allow)

lemma ihl_bits: "n AND 0x0F = n mod 16" for n :: nat
  using take_bit_eq_mask [of 4 n] by (simp add: take_bit_eq_mod mask_eq_exp_minus_1)

lemma icmp_v4_dest:
  assumes "20 \<le> length packet"
  shows "parse_address (PStr (py_join ''.'' (map (\<lambda>b. num_str 10 (unat b)) (py_slice packet 16 20))))
    = Some (v4_addr (be32 packet 16))"
proof -
  let ?ns = "map unat (py_slice packet 16 20)"
  have slice: "py_slice packet 16 20 = [packet ! 16, packet ! 17, packet ! 18, packet ! 19]"
    using assms by (simp add: py_slice_def take_Suc_conv_app_nth numeral_eq_Suc)
  have "parse_address (PStr (dotted_text ?ns)) = Some (v4_addr (foldl (\<lambda>a n. a * 256 + n) 0 ?ns))"
    using slice by (intro parse_address_dotted) (auto simp: unat_byte_less)
  then show ?thesis
    using slice by (simp add: dotted_text_def be32_def be16_def byte_at_def algebra_simps)
qed

lemma icmp_parse_Inr:
  "icmp_parse packet = Inr (''v4'', t, dest) \<longleftrightarrow>
     20 \<le> length packet \<and> byte_at packet 0 div 16 = 4 \<and> 5 \<le> byte_at packet 0 mod 16
     \<and> byte_at packet 9 = 1 \<and> 4 * (byte_at packet 0 mod 16) < length packet
     \<and> t = byte_at packet (4 * (byte_at packet 0 mod 16))
     \<and> dest = py_join ''.'' (map (\<lambda>b. num_str 10 (unat b)) (py_slice packet 16 20))"
  by (auto simp: icmp_parse_def Let_def bind_res_Inr_iff ihl_bits drop_bit_eq_div mult.commute
      split: if_splits)

lemma icmp_parse_family: "icmp_parse packet = Inr (f, t, dest) \<Longrightarrow> f = ''v4'' \<or> f = ''v6''"
  by (auto simp: icmp_parse_def Let_def bind_res_Inr_iff split: if_splits)

lemma address_class_v4 [simp]: "address_class (v4_addr v) = v4_class v"
  by (simp add: address_class_def v4_addr_def)

lemma name_matches_take:
  "name_matches ls m \<Longrightarrow> ls = take (length ls - length m) ls @ m"
  by (auto simp: name_matches_def) (metis append_take_drop_id)

lemma labels_text_length: "labels_text qls = Inr ls \<Longrightarrow> length ls = length qls"
  by (induction qls arbitrary: ls) (auto simp: bind_res_Inr_iff split: if_splits)

lemma check_glue_None:
  "check_glue ts policy mode = None \<longleftrightarrow>
     (\<forall>t \<in> set ts. \<exists>a. parse_address (PStr t) = Some a \<and> resolver_ok a policy)"
  by (induction ts) (auto simp: resolver_ok_def split: option.splits)

lemma case_option_first:
  "(case x of None \<Rightarrow> y | Some d \<Rightarrow> Some d) = None \<longleftrightarrow> x = None \<and> y = None"
  by (simp split: option.split)

lemma check_delegations_None:
  "check_delegations ns items policy mode = None \<longleftrightarrow>
     (\<forall>n \<in> set ns. \<exists>target. labels_text n = Inr target
        \<and> longest_match target (allowed_names (dns policy)) \<noteq> None
        \<and> glue_texts target items \<noteq> []
        \<and> (\<forall>t \<in> set (glue_texts target items).
             \<exists>a. parse_address (PStr t) = Some a \<and> resolver_ok a policy))"
  by (induction ns) (auto simp: Let_def case_option_first check_glue_None split: sum.splits)

lemma check_delegations_not_allow:
  "check_delegations ns items policy mode = Some d \<Longrightarrow> action d \<noteq> ''ALLOW''"
proof (induction ns)
  case (Cons n ns)
  have "check_glue ts policy mode = Some d \<Longrightarrow> action d \<noteq> ''ALLOW''" for ts
    by (induction ts) (auto split: option.splits if_splits)
  with Cons show ?case
    by (auto simp: Let_def dest: labels_text_Inl split: sum.splits option.splits if_splits)
qed simp

lemma set_ns_targets:
  "set (ns_targets records) =
     {n. n \<noteq> [] \<and> (\<exists>r \<in> set records. rtype r = 2 \<and> rdata_name r = Some n)}"
  by (auto simp: ns_targets_def split: option.splits if_splits)

lemma set_glue_texts:
  "set (glue_texts target items) =
     {t. t \<noteq> [] \<and> (\<exists>i \<in> set items. rtype i \<in> {1, 28} \<and> rdata_addr i = Some t
        \<and> labels_text (owner i) = Inr target)}"
  by (auto simp: glue_texts_def split: option.splits if_splits) force+

lemma get_host_check_None: "get_host_check h policy m = None \<longleftrightarrow> get_host_ok h policy"
  by (auto simp: get_host_check_def get_host_ok_def host_class_def longest_match_None_iff list_ex_iff
      split: option.splits sum.splits)

lemma get_connected_check_None: "get_connected_check c m = None \<longleftrightarrow> get_connected_ok c"
  by (auto simp: get_connected_check_def get_connected_ok_def Let_def split: option.splits)

lemma get_checks_not_allow:
  "get_host_check h policy m = Some d \<Longrightarrow> action d \<noteq> ''ALLOW''"
  "get_connected_check c m = Some d \<Longrightarrow> action d \<noteq> ''ALLOW''"
  by (auto simp: get_host_check_def get_connected_check_def class_decision_def Let_def
      split: option.splits sum.splits if_splits)

lemma get_request_check_allow:
  "action (get_request_check p q n policy m) = ''ALLOW'' \<longleftrightarrow> n \<le> 0 \<and> get_read_only p q policy"
  by (auto simp: get_request_check_def get_read_only_def Let_def is_ascii_def)

lemma get_fields_check_allow:
  "action (get_fields_check path query body hdrs policy m) = ''ALLOW'' \<longleftrightarrow>
     (\<exists>p q hb. path = PStr p \<and> query = PStr q \<and> body = PInt 0 \<and> hdrs = PInt hb \<and> 0 \<le> hb
        \<and> hb \<le> max_header_bytes (http_get policy) \<and> get_read_only p q policy)"
proof (cases "\<exists>n hb. body = PInt n \<and> hdrs = PInt hb \<and> 0 \<le> n \<and> 0 \<le> hb")
  case True
  then show ?thesis
    by (auto simp: get_fields_check_def int_field_def get_request_check_allow not_less
        split: pyval.splits)
next
  case False
  then show ?thesis
    by (auto simp: get_fields_check_def int_field_def not_less split: pyval.splits if_splits)
qed

lemma decide_get_allow:
  "action (decide_get visible meth host path query body hdrs policy mode enrolled conn) = ''ALLOW'' \<longleftrightarrow>
     governed enrolled mode policy \<and> visible = PBool True
     \<and> (\<exists>m. meth = PStr m \<and> ascii_fold m = ''get'')
     \<and> (\<exists>h. host = PStr h \<and> h \<noteq> [] \<and> get_host_ok h policy) \<and> get_connected_ok conn
     \<and> (\<exists>p q hb. path = PStr p \<and> query = PStr q \<and> body = PInt 0 \<and> hdrs = PInt hb \<and> 0 \<le> hb
        \<and> hb \<le> max_header_bytes (http_get policy) \<and> get_read_only p q policy)"
  (is "?L \<longleftrightarrow> ?R")
proof (cases "gate_call enrolled mode = None \<and> \<not> malformed policy \<and> visible = PBool True
    \<and> (\<exists>m h. meth = PStr m \<and> ascii_fold m = ''get'' \<and> host = PStr h \<and> h \<noteq> [])")
  case True
  then obtain m h where [simp]: "meth = PStr m" "host = PStr h" and "ascii_fold m = ''get''" "h \<noteq> []"
    by blast
  then have "decide_get visible meth host path query body hdrs policy mode enrolled conn =
      (case get_host_check h policy (mode_text mode) of
         Some d \<Rightarrow> d
       | None \<Rightarrow>
           (case get_connected_check conn (mode_text mode) of
              Some d \<Rightarrow> d
            | None \<Rightarrow> get_fields_check path query body hdrs policy (mode_text mode)))"
    using True by (simp add: decide_get_def)
  then have "?L \<longleftrightarrow> get_host_check h policy (mode_text mode) = None
      \<and> get_connected_check conn (mode_text mode) = None
      \<and> action (get_fields_check path query body hdrs policy (mode_text mode)) = ''ALLOW''"
    by (auto dest: get_checks_not_allow split: option.splits)
  then show ?thesis
    using True unfolding get_host_check_None get_connected_check_None get_fields_check_allow governed_iff
    by simp
next
  case False
  consider (early) d where "gate_call enrolled mode = Some d"
    | (late) "gate_call enrolled mode = None" by (cases "gate_call enrolled mode") auto
  then have "\<not> ?L"
  proof cases
    case early
    then show ?thesis by (simp add: decide_get_def gate_call_not_allow)
  next
    case late
    with False show ?thesis by (cases meth; cases host) (auto simp: decide_get_def)
  qed
  moreover have "\<not> ?R" using False by (auto simp: governed_iff)
  ultimately show ?thesis by blast
qed

text \<open>A decision either leaves the gate alone and does not allow, or is one attempt at the gate
  whose answer is \<open>ok\<close> if the decision allows.\<close>

lemma decide_dns_query_gate:
  assumes "r = decide_dns_query None packet resolver policy mode enrolled (Some g) w (PInt t)"
  shows "snd r = Some g \<and> action (fst r) \<noteq> ''ALLOW''
    \<or> snd r = Some (snd (gate_hit_stamp g w t))
      \<and> (action (fst r) = ''ALLOW'' \<longrightarrow> fst (gate_hit_stamp g w t) = ''ok'')"
proof -
  have "action (fst r) = ''ALLOW'' \<Longrightarrow> fst (gate_hit_stamp g w t) = ''ok''"
    unfolding assms decide_dns_query_allow by (auto simp: gate_hit_def)
  moreover have "snd r = Some g \<and> action (fst r) \<noteq> ''ALLOW'' \<or> snd r = Some (snd (gate_hit_stamp g w t))"
    by (auto simp: assms decide_dns_query_def gate_hit_def Let_def dest: gate_call_not_allow
        split: option.splits sum.splits prod.splits)
  ultimately show ?thesis by blast
qed

lemma length_filter_mono:
  "(\<And>x. x \<in> set xs \<Longrightarrow> P x \<Longrightarrow> Q x) \<Longrightarrow> length (filter P xs) \<le> length (filter Q xs)"
  by (induction xs) (auto intro: le_SucI)

lemma allowed_within_Cons [simp]:
  "allowed_within lo hi ((t, d) # rows) =
     (if action d = ''ALLOW'' \<and> lo < t \<and> t \<le> hi then 1 else 0) + allowed_within lo hi rows"
  by (simp add: allowed_within_def)

lemma dns_session_rate:
  fixes T W :: int
  assumes "keeps_tail g attempts" "gate_inv g" "0 < max_queries g"
    and "sorted (attempts @ map (\<lambda>(_, _, t). t) qs)"
    and "w = PStr (gate_workload_id g)" "W = window_ns g"
  shows "let n = allowed_within (T - W) T (dns_session policy mode enrolled w qs (Some g)) in
    n = 0 \<or> int (n + length (filter (\<lambda>x. T - W < x \<and> x \<le> T) attempts)) \<le> max_queries g"
  using assms
proof (induction qs arbitrary: g attempts)
  case (Cons q qs)
  obtain packet resolver t where q: "q = (packet, resolver, t)" by (cases q)
  define r where "r = decide_dns_query None packet resolver policy mode enrolled (Some g) w (PInt t)"
  let ?in = "\<lambda>xs. length (filter (\<lambda>x. T - W < x \<and> x \<le> T) xs)"
  from decide_dns_query_gate [OF r_def]
  consider (skip) "snd r = Some g" "action (fst r) \<noteq> ''ALLOW''"
    | (hit) "snd r = Some (snd (gate_hit_stamp g w t))"
      "action (fst r) = ''ALLOW'' \<longrightarrow> fst (gate_hit_stamp g w t) = ''ok''"
    by blast
  then show ?case
  proof cases
    case skip
    have "sorted (attempts @ map (\<lambda>(_, _, t). t) qs)" using Cons.prems(4) q by (auto simp: sorted_append)
    note IH = Cons.IH [OF Cons.prems(1-3) this Cons.prems(5,6)]
    then show ?thesis using skip by (auto simp: q r_def [symmetric] Let_def split: prod.splits)
  next
    case hit
    let ?g = "snd (gate_hit_stamp g w t)"
    let ?n = "allowed_within (T - W) T (dns_session policy mode enrolled w qs (Some ?g))"
    have srt: "sorted (attempts @ [t])" "sorted ((attempts @ [t]) @ map (\<lambda>(_, _, t). t) qs)"
      using Cons.prems(4) q by (auto simp: sorted_append)
    note step = keeps_tail_step [OF Cons.prems(1-3) srt(1), folded Cons.prems(5,6)]
    have IH: "?n = 0 \<or> int (?n + ?in (attempts @ [t])) \<le> max_queries g"
      using Cons.IH [of ?g "attempts @ [t]"] step gate_hit_stamp_inv [OF Cons.prems(2)] Cons.prems srt(2)
      by (simp add: Let_def)
    show ?thesis
    proof (cases "action (fst r) = ''ALLOW'' \<and> T - W < t \<and> t \<le> T")
      case True
      then have "int (length (filter (\<lambda>s. s > t - W) attempts)) < max_queries g"
        using hit(2) step by (auto simp: history_hit_def split: if_splits)
      moreover have "?in attempts \<le> length (filter (\<lambda>s. s > t - W) attempts)"
        using True by (intro length_filter_mono) auto
      ultimately show ?thesis
        using IH True hit(1) by (auto simp: q r_def [symmetric] Let_def split: prod.splits)
    next
      case False
      then show ?thesis
        using IH hit(1) by (auto simp: q r_def [symmetric] Let_def split: prod.splits if_splits)
    qed
  qed
qed (simp add: allowed_within_def)

section \<open>Properties\<close>

text \<open>
  C1: a DNS query is allowed exactly when the call is governed, the question parses, the volume
  gate answers \<open>ok\<close>, every label is a legal name label within the policy's length, the resolver is
  listed and not link-local, a listed name matches, and the labels in front of the longest match
  are, all together, within the label length and, from the entropy threshold on, within the
  entropy limit.
\<close>

theorem dns_query_allow_iff:
  "action (fst (decide_dns_query clock packet resolver policy mode enrolled gate w now)) = ''ALLOW'' \<longleftrightarrow>
     governed enrolled mode policy \<and>
     (\<exists>q g. parse_question packet = Inr q \<and> gate = Some g \<and> fst (gate_hit clock g w now) = ''ok''
       \<and> (\<exists>ls a m. labels_text (q_labels q) = Inr ls \<and> parse_address resolver = Some a
          \<and> resolver_ok a policy
          \<and> (\<forall>l \<in> set ls. int (length l) \<le> max_label_length (dns policy))
          \<and> longest_match ls (allowed_names (dns policy)) = Some m
          \<and> (\<exists>front. ls = front @ m
             \<and> (front = [] \<or> int (length (concat front)) \<le> max_label_length (dns policy)
                \<and> (int (length (concat front)) < entropy_min_length (dns policy)
                   \<or> shannon_bits (ascii_bytes (concat front)) \<le> entropy_bits_max (dns policy))))))"
proof -
  define F where "F front \<longleftrightarrow>
      front = [] \<or> int (length (concat front)) \<le> max_label_length (dns policy)
      \<and> (int (length (concat front)) < entropy_min_length (dns policy)
         \<or> shannon_bits (ascii_bytes (concat front)) \<le> entropy_bits_max (dns policy))"
    for front :: "string list"
  have "longest_match ls (allowed_names (dns policy)) = Some m \<and> tunnel_reason ls m policy = None \<longleftrightarrow>
      longest_match ls (allowed_names (dns policy)) = Some m \<and> (\<exists>front. ls = front @ m \<and> F front)"
    for ls m
  proof (rule conj_cong [OF refl])
    assume "longest_match ls (allowed_names (dns policy)) = Some m"
    then have "ls = take (length ls - length m) ls @ m"
      by (intro name_matches_take) (simp add: longest_match_Some_iff)
    then obtain front where "ls = front @ m" by blast
    then show "tunnel_reason ls m policy = None \<longleftrightarrow> (\<exists>front. ls = front @ m \<and> F front)"
      by (simp add: tunnel_reason_None_iff Let_def F_def)
  qed
  then show ?thesis
    unfolding decide_dns_query_allow F_def [symmetric] by (simp only:)
qed

text \<open>
  C29: a delegation response is allowed exactly when the call is governed, the response parses, its
  authority section names at least one name server, every name server's name is well formed and
  listed, and has glue, all of it at listed resolvers that are not link-local.
\<close>

theorem dns_response_allow_iff:
  "action (decide_dns_response packet policy mode enrolled) = ''ALLOW'' \<longleftrightarrow>
     governed enrolled mode policy \<and>
     (\<exists>v. parse_response packet = Inr v
        \<and> (\<exists>r \<in> set (authority v). rtype r = 2 \<and> (\<exists>n. rdata_name r = Some n \<and> n \<noteq> []))
        \<and> (\<forall>r \<in> set (authority v). \<forall>n. rtype r = 2 \<and> rdata_name r = Some n \<and> n \<noteq> [] \<longrightarrow>
             (\<exists>target. labels_text n = Inr target
                \<and> longest_match target (allowed_names (dns policy)) \<noteq> None
                \<and> glue_texts target (additional v) \<noteq> []
                \<and> (\<forall>t \<in> set (glue_texts target (additional v)).
                     \<exists>a. parse_address (PStr t) = Some a \<and> resolver_ok a policy))))"
proof (cases "gate_call enrolled mode = None \<and> \<not> malformed policy")
  case True
  have ne: "ns_targets rs \<noteq> [] \<longleftrightarrow> (\<exists>r \<in> set rs. rtype r = 2 \<and> (\<exists>n. rdata_name r = Some n \<and> n \<noteq> []))" for rs
    unfolding set_empty [symmetric] set_ns_targets by blast
  show ?thesis
  proof (cases "parse_response packet")
    case (Inr v)
    show ?thesis
    proof (cases "ns_targets (authority v) = []")
      case True
      then show ?thesis
        using \<open>gate_call enrolled mode = None \<and> \<not> malformed policy\<close> Inr ne [of "authority v"]
        by (simp add: decide_dns_response_def)
    next
      case False
      have "action (decide_dns_response packet policy mode enrolled) = ''ALLOW'' \<longleftrightarrow>
          check_delegations (ns_targets (authority v)) (additional v) policy (mode_text mode) = None"
        using True Inr False check_delegations_not_allow
        by (auto simp: decide_dns_response_def Let_def split: option.splits)
      then show ?thesis
        using True Inr False ne [of "authority v"]
        unfolding check_delegations_None set_ns_targets governed_iff by auto
    qed
  qed (use True in \<open>simp add: decide_dns_response_def\<close>)
next
  case False
  then show ?thesis
    by (auto simp: decide_dns_response_def governed_iff dest: gate_call_not_allow split: option.splits)
qed

text \<open>
  C2: an ICMP packet is allowed exactly when the call is governed, the packet is an IPv4 packet
  with a whole header carrying protocol 1, the four destination octets are a listed address that
  is not link-local, and the type byte after the header is listed. No ICMPv6 packet is allowed.
\<close>

theorem icmp_allow_iff:
  "action (decide_icmp packet policy mode enrolled) = ''ALLOW'' \<longleftrightarrow>
     governed enrolled mode policy \<and> 20 \<le> length packet \<and> byte_at packet 0 div 16 = 4
     \<and> 5 \<le> byte_at packet 0 mod 16 \<and> byte_at packet 9 = 1
     \<and> 4 * (byte_at packet 0 mod 16) < length packet
     \<and> v4_class (be32 packet 16) \<noteq> ''link_local''
     \<and> listed_address (v4_addr (be32 packet 16)) (allowed_destinations (icmp policy))
     \<and> int (byte_at packet (4 * (byte_at packet 0 mod 16))) \<in> set (allowed_types (icmp policy))"
proof (cases "gate_call enrolled mode = None \<and> \<not> malformed policy")
  case True
  show ?thesis
  proof (cases "icmp_parse packet")
    case (Inl d)
    moreover have "action d \<noteq> ''ALLOW''" using icmp_parse_Inl [OF Inl] by auto
    ultimately show ?thesis
      using True icmp_parse_Inr [of packet]
      by (auto simp: decide_icmp_def)
  next
    case (Inr x)
    obtain f t dest where x: "x = (f, t, dest)" by (cases x)
    from icmp_parse_family Inr x consider "f = ''v4''" | "f = ''v6''" by blast
    then show ?thesis
    proof cases
      case 1
      with Inr x have v4: "icmp_parse packet = Inr (''v4'', t, dest)" by simp
      note facts = v4 [unfolded icmp_parse_Inr]
      then show ?thesis
        using True Inr x 1 icmp_v4_dest [of packet]
        by (auto simp: decide_icmp_def governed_iff)
    next
      case 2
      with Inr x icmp_parse_Inr [of packet] show ?thesis
        using True by (auto simp: decide_icmp_def)
    qed
  qed
next
  case False
  then show ?thesis
    by (auto simp: decide_icmp_def governed_iff dest: gate_call_not_allow split: option.splits)
qed

text \<open>
  A connection to a loopback-class address is allowed exactly when the call is governed, the
  protocol is TCP or UDP, the destination is in the loopback class and the port is a listed port.
\<close>

theorem loopback_allow_iff:
  "action (decide_loopback destination port protocol policy mode enrolled) = ''ALLOW'' \<longleftrightarrow>
     governed enrolled mode policy \<and> protocol \<in> {PStr ''tcp'', PStr ''udp''} \<and>
     (\<exists>a p. parse_address destination = Some a \<and> address_class a = ''loopback''
        \<and> port = PInt p \<and> 0 \<le> p \<and> p \<le> 65535 \<and> p \<in> set (allowed_ports (loopback policy)))"
  by (rule decide_loopback_allow)

text \<open>
  C28: a GET is allowed exactly when the call is governed, the method is visible and is \<open>GET\<close>, the
  host is a listed external address or matches a listed name, the connected address (if known) is
  neither loopback nor link-local, the body is empty, the headers are within their limit, and path
  and query are ASCII, free of the evasion tokens, within their lengths and free of write
  signals.
\<close>

theorem get_allow_iff:
  "action (decide_get visible meth host path query body hdrs policy mode enrolled conn) = ''ALLOW'' \<longleftrightarrow>
     governed enrolled mode policy \<and> visible = PBool True
     \<and> (\<exists>m. meth = PStr m \<and> ascii_fold m = ''get'')
     \<and> (\<exists>h. host = PStr h \<and> h \<noteq> [] \<and> get_host_ok h policy) \<and> get_connected_ok conn
     \<and> (\<exists>p q hb. path = PStr p \<and> query = PStr q \<and> body = PInt 0 \<and> hdrs = PInt hb \<and> 0 \<le> hb
        \<and> hb \<le> max_header_bytes (http_get policy) \<and> get_read_only p q policy)"
  by (rule decide_get_allow)

text \<open>
  C35: the DNS path bounds the rate of allowed queries. A workload's queries, decided in stamp order
  through a fresh gate of the policy's size, are allowed at most \<open>max_queries\<close> times in any window
  of \<open>window_seconds\<close>, whatever the packets, resolvers, policy and mode are.
\<close>

theorem dns_allow_rate:
  assumes "volume_gate_init max_q seconds (PStr w) = Inr g" "0 < max_q"
    and "sorted (map (\<lambda>(_, _, t). t) qs)"
  shows "int (allowed_within (T - seconds * 1000000000) T
           (dns_session policy mode enrolled (PStr w) qs (Some g))) \<le> max_q"
proof -
  from assms(1) have g: "g = \<lparr>max_queries = max_q, window_ns = seconds * 1000000000,
      gate_workload_id = w, times = [], broken = False\<rparr>"
    by (auto simp: volume_gate_init_def split: if_splits)
  then have fields: "max_queries g = max_q" "window_ns g = seconds * 1000000000" "gate_workload_id g = w"
    by simp_all
  have start: "keeps_tail g []" "gate_inv g" "0 < max_queries g"
    using assms(2) by (auto simp: g keeps_tail_def gate_inv_def)
  have srt: "sorted ([] @ map (\<lambda>(_, _, t). t) qs)" using assms(3) by simp
  from dns_session_rate [OF start srt, folded fields, OF refl refl, unfolded Let_def, of T policy mode enrolled]
    assms(2)
  show ?thesis by (elim disjE) (simp_all add: fields)
qed

section \<open>Instances\<close>

definition sample_gate :: VolumeGate where
  "sample_gate = \<lparr>max_queries = 5, window_ns = 10000000000, gate_workload_id = ''w'', times = [], broken = False\<rparr>"

definition sample_query :: bytes where
  "sample_query = [0, 0, 1, 0, 0, 1, 0, 0, 0, 0, 0, 0,
     3, 0x41, 0x70, 0x69, 4, 0x63, 0x6F, 0x72, 0x70, 4, 0x74, 0x65, 0x73, 0x74, 0, 0, 1, 0, 1]"

lemma sample_query_parses:
  "parse_question sample_query = Inr \<lparr>q_labels =
     [[0x41, 0x70, 0x69], [0x63, 0x6F, 0x72, 0x70], [0x74, 0x65, 0x73, 0x74]], q_end = 31\<rparr>"
  "labels_text [[0x41, 0x70, 0x69], [0x63, 0x6F, 0x72, 0x70], [0x74, 0x65, 0x73, 0x74]]
     = Inr [''api'', ''corp'', ''test'']"
  "gate_hit None sample_gate (PStr ''w'') (PInt 7) = (''ok'', sample_gate\<lparr>times := [7]\<rparr>)"
  "longest_match [''api'', ''corp'', ''test''] [[''corp'', ''test'']] = Some [''corp'', ''test'']"
  "parse_address (PStr ''192.0.2.53'') = Some (v4_addr 0xC0000235)"
  "v4_class 0xC0000235 = ''external''"
  by code_simp+

theorem dns_query_allow_iff_witness:
  "action (fst (decide_dns_query None sample_query (PStr ''192.0.2.53'') sample_policy (PStr ''enforce'')
     (PBool True) (Some sample_gate) (PStr ''w'') (PInt 7))) = ''ALLOW''"
  unfolding dns_query_allow_iff
  by (simp add: governed_def sample_query_parses resolver_ok_def sample_policy_def listed_address_def
      same_allow_address_def Cons_eq_append_conv del: labels_text.simps)

theorem dns_allow_rate_witness:
  "int (allowed_within (20000000000 - 10 * 1000000000) 20000000000
     (dns_session sample_policy (PStr ''enforce'') (PBool True) (PStr ''w'')
        [(sample_query, PStr ''192.0.2.53'', 7), (sample_query, PStr ''192.0.2.53'', 12000000000)]
        (Some sample_gate))) \<le> 5"
proof (rule dns_allow_rate)
  show "volume_gate_init 5 10 (PStr ''w'') = Inr sample_gate" by code_simp
qed simp_all

definition sample_referral :: bytes where
  "sample_referral =
    [0, 1, 132, 0, 0, 1, 0, 0, 0, 1, 0, 1, 4, 99, 111, 114, 112, 4, 116, 101, 115, 116, 0,
     0, 1, 0, 1, 4, 99, 111, 114, 112, 4, 116, 101, 115, 116, 0, 0, 2, 0, 1, 0, 0, 0, 60,
     0, 14, 2, 110, 115, 4, 99, 111, 114, 112, 4, 116, 101, 115, 116, 0, 2, 110, 115, 4,
     99, 111, 114, 112, 4, 116, 101, 115, 116, 0, 0, 1, 0, 1, 0, 0, 0, 60, 0, 4, 192, 0,
     2, 53]"

definition sample_view :: ResponseView where
  "sample_view =
     \<lparr>authority = [\<lparr>owner = [[99, 111, 114, 112], [116, 101, 115, 116]], rtype = 2, rdata_name = Some [[110, 115], [99, 111, 114, 112], [116, 101, 115, 116]], rdata_addr = None\<rparr>],
      additional = [\<lparr>owner = [[110, 115], [99, 111, 114, 112], [116, 101, 115, 116]], rtype = 1, rdata_name = None, rdata_addr = Some ''192.0.2.53''\<rparr>]\<rparr>"

lemma sample_referral_parses:
  "parse_response sample_referral = Inr sample_view"
  "labels_text [[110, 115], [99, 111, 114, 112], [116, 101, 115, 116]] = Inr [''ns'', ''corp'', ''test'']"
  "longest_match [''ns'', ''corp'', ''test''] [[''corp'', ''test'']] = Some [''corp'', ''test'']"
  "glue_texts [''ns'', ''corp'', ''test''] (additional sample_view) = [''192.0.2.53'']"
  by code_simp+

theorem dns_response_allow_iff_witness:
  "action (decide_dns_response sample_referral sample_policy (PStr ''enforce'') (PBool True)) = ''ALLOW''"
proof -
  have auth: "authority sample_view = [\<lparr>owner = [[99, 111, 114, 112], [116, 101, 115, 116]], rtype = 2,
      rdata_name = Some [[110, 115], [99, 111, 114, 112], [116, 101, 115, 116]], rdata_addr = None\<rparr>]"
    by (simp add: sample_view_def)
  show ?thesis
    unfolding dns_response_allow_iff
    by (simp add: governed_def sample_referral_parses sample_query_parses auth resolver_ok_def
        sample_policy_def listed_address_def same_allow_address_def del: labels_text.simps)
qed

end
