(* ===== verification/T5_Kernel.thy ===== *)
theory T5_Kernel
  imports T5_Allow
begin

unbundle bit_operations_syntax

text \<open>
  \<open>t5_kernel/reasons.py\<close> and \<open>t5_kernel/decide.py\<close>: the model of the packet program, with its own
  limits (16 steps, 8 labels), its fixed window and its distinct-byte test in place of the
  entropy. A helper that returns a reason token or a value returns \<open>Inl\<close> the token or \<open>Inr\<close> the
  value; the fixed window is passed in and returned.
\<close>

section \<open>Definitions\<close>

definition REASONS :: "string list" where
  "REASONS =
     [''policy_permits'', ''policy_malformed'', ''resolver_not_allowed'', ''dns_name_not_allowed'',
      ''dns_label_too_long'', ''dns_label_entropy'', ''dns_label_not_ldh'', ''dns_unparsable'',
      ''dns_parse_budget'', ''dns_qdcount'', ''dns_query_volume'', ''dns_transport_not_visible'',
      ''link_local_not_allowed'', ''icmp_destination_not_allowed'', ''icmp_type_not_allowed'',
      ''icmp_header_unreadable'', ''loopback_port_not_allowed'', ''loopback_header_unreadable'',
      ''get_method_not_visible'', ''case_not_applicable'', ''address_not_canonical'']"

definition K_PASS :: string where "K_PASS = ''pass''"
definition K_CLASSIFIED :: string where "K_CLASSIFIED = ''classified''"
definition K_EVAL :: string where "K_EVAL = ''eval''"
definition K_SCOPE :: string where "K_SCOPE = ''scope''"

definition K_MAX_PARSE_STEPS :: nat where "K_MAX_PARSE_STEPS = 16"
definition K_MAX_LABELS :: nat where "K_MAX_LABELS = 8"
definition K_MAX_HOPS :: nat where "K_MAX_HOPS = 4"

record KernelDecision =
  k_reason :: string
  k_kind :: string
  k_transmit :: bool
  k_entropy_deferred :: bool
  k_action :: string
  k_label :: string

definition kernel_as_dict :: "KernelDecision \<Rightarrow> (string \<times> pyval) list" where
  "kernel_as_dict d =
     [(''action'', PStr (k_action d)),
      (''reason'', PStr (k_reason d)),
      (''kind'', PStr (k_kind d)),
      (''transmit'', PBool (k_transmit d)),
      (''entropy_deferred'', PBool (k_entropy_deferred d)),
      (''label'', PStr (k_label d))]"

record FixedWindow =
  start_ns :: int
  hit_count :: int

definition window_hit :: "int \<Rightarrow> int \<Rightarrow> int \<Rightarrow> FixedWindow \<Rightarrow> string \<times> FixedWindow" where
  "window_hit now window cap w =
     (if start_ns w \<noteq> 0 \<and> now < start_ns w then (''failure'', w)
      else
        (let w1 = (if start_ns w = 0 \<or> now - start_ns w \<ge> window
                   then w\<lparr>start_ns := now, hit_count := 0\<rparr> else w)
         in if hit_count w1 \<ge> cap then (''over'', w1)
            else (''ok'', w1\<lparr>hit_count := hit_count w1 + 1\<rparr>)))"

record KernelMaps =
  km_enforce :: bool
  km_max_label :: int
  km_max_queries :: int
  km_entropy_min_length :: int
  km_entropy_userspace :: int
  km_window_ns :: int
  km_names :: "string list"
  km_resolvers :: "string list"
  km_icmp_destinations :: "string list"
  km_ports :: "int list"

definition kernel_finish :: "string \<Rightarrow> string \<Rightarrow> string \<Rightarrow> bool \<Rightarrow> KernelDecision" where
  "kernel_finish rsn kind mode deferred =
     (let (act, tx, kind', rsn') =
        (if kind = K_PASS then (''ALLOW'', True, kind, rsn)
         else if kind = K_CLASSIFIED \<and> mode = ''observe'' then (''OBSERVE_WOULD_DENY'', True, kind, rsn)
         else if kind = K_CLASSIFIED then (''DENY'', False, kind, rsn)
         else if kind = K_SCOPE then (''NOT_IN_SCOPE'', False, kind, rsn)
         else if kind = K_EVAL then (''DENY'', False, kind, rsn)
         else (''DENY'', False, K_EVAL, ''policy_malformed''))
      in \<lparr>k_reason = rsn', k_kind = kind', k_transmit = tx, k_entropy_deferred = deferred,
          k_action = act, k_label = ''Lab-only''\<rparr>)"

definition cfg_ok :: "KernelMaps \<Rightarrow> bool" where
  "cfg_ok maps =
     (if km_entropy_userspace maps \<noteq> 1 then False
      else if \<not> (1 \<le> km_max_label maps \<and> km_max_label maps \<le> 63) then False
      else if \<not> (1 \<le> km_max_queries maps \<and> km_max_queries maps \<le> 64) then False
      else if km_window_ns maps \<le> 0 then False
      else if length (km_names maps) > 4 \<or> length (km_resolvers maps) > 4
              \<or> length (km_icmp_destinations maps) > 4 \<or> length (km_ports maps) > 8 then False
      else True)"

definition as_addrs :: "string list \<Rightarrow> Addr list" where
  "as_addrs entries = List.map_filter (\<lambda>entry. parse_address (PStr entry)) entries"

definition on_list :: "Addr \<Rightarrow> string list \<Rightarrow> bool" where
  "on_list candidate entries = listed_address candidate (as_addrs entries)"

definition ldh :: "char \<Rightarrow> bool" where
  "ldh ch =
     (let n = py_ord ch in
      97 \<le> n \<and> n \<le> 122 \<or> 65 \<le> n \<and> n \<le> 90 \<or> 48 \<le> n \<and> n \<le> 57 \<or> n = 45 \<or> n = 95)"

text \<open>The loop of \<open>_parse_name\<close>; the arguments after the packet are \<open>steps\<close>, \<open>labels\<close>, \<open>hops\<close>
  and \<open>cursor\<close>.\<close>

function parse_name_loop ::
  "bytes \<Rightarrow> int \<Rightarrow> nat \<Rightarrow> string list \<Rightarrow> nat \<Rightarrow> nat \<Rightarrow> string + string" where
  "parse_name_loop packet max_label steps labels hops cursor =
     (if \<not> steps < K_MAX_PARSE_STEPS then Inl ''dns_parse_budget''
      else if cursor \<ge> length packet then Inl ''dns_unparsable''
      else
        (let len = byte_at packet cursor in
         if len = 0 then Inr (py_join ''.'' labels)
         else if len AND 0xC0 = 0xC0 then
           (if hops \<ge> K_MAX_HOPS then Inl ''dns_parse_budget''
            else if cursor + 1 \<ge> length packet then Inl ''dns_unparsable''
            else
              (let pointer = push_bit 8 (len AND 0x3F) OR byte_at packet (cursor + 1) in
               if pointer \<ge> cursor then Inl ''dns_unparsable''
               else parse_name_loop packet max_label (steps + 1) labels (hops + 1) pointer))
         else if len AND 0xC0 \<noteq> 0 \<or> len > 63 then Inl ''dns_unparsable''
         else if length labels \<ge> K_MAX_LABELS then Inl ''dns_parse_budget''
         else if int len > max_label then Inl ''dns_label_too_long''
         else
           (let start = cursor + 1; stop = start + len in
            if stop > length packet then Inl ''dns_unparsable''
            else
              (let raw = decode_ascii (py_slice packet start stop) in
               if \<not> list_all ldh raw then Inl ''dns_label_not_ldh''
               else parse_name_loop packet max_label (steps + 1) (labels @ [ascii_fold raw])
                      hops stop))))"
  by pat_completeness auto

termination
  by (relation "measure (\<lambda>(_, _, steps, _). K_MAX_PARSE_STEPS - steps)") auto

definition parse_name :: "bytes \<Rightarrow> nat \<Rightarrow> int \<Rightarrow> string + string" where
  "parse_name packet off max_label = parse_name_loop packet max_label 0 [] 0 off"

text \<open>The loop over the name slots: the flag \<open>matched\<close> and the length \<open>best\<close>.\<close>

fun slot_match :: "string \<Rightarrow> string list \<Rightarrow> bool \<Rightarrow> nat \<Rightarrow> bool \<times> nat" where
  "slot_match name [] matched best = (matched, best)"
| "slot_match name (slot # slots) matched best =
     (if slot = [] \<or> length slot > 63 \<or> length slot > length name
      then slot_match name slots matched best
      else if slot = name then slot_match name slots True (length slot)
      else if \<not> suffix (''.'' @ slot) name then slot_match name slots matched best
      else if CHR ''.'' \<notin> set slot then slot_match name slots matched best
      else if length slot \<ge> best then slot_match name slots True (length slot)
      else slot_match name slots matched best)"

definition name_verdict :: "string \<Rightarrow> KernelMaps \<Rightarrow> string \<times> bool" where
  "name_verdict name maps =
     (let (matched, best) = slot_match name (map ascii_fold (km_names maps)) False 0 in
      if \<not> matched then (''dns_name_not_allowed'', False)
      else if length name > best then
        (let left = filter (\<lambda>c. c \<noteq> CHR ''.'') (take (length name - best - 1) name) in
         if int (length left) > km_max_label maps then (''dns_label_too_long'', False)
         else if km_entropy_min_length maps > 0 \<and> int (length left) \<ge> km_entropy_min_length maps
                 \<and> length (remdups left) * 4 > length left
         then (''dns_label_entropy'', False)
         else (''policy_permits'', False))
      else (''policy_permits'', False))"

definition kind_for :: "string \<Rightarrow> string" where
  "kind_for rsn =
     (if rsn = ''policy_permits'' then K_PASS
      else if rsn \<in> {''dns_name_not_allowed'', ''dns_label_too_long'', ''dns_label_entropy'',
                    ''resolver_not_allowed'', ''dns_query_volume'', ''link_local_not_allowed'',
                    ''icmp_destination_not_allowed'', ''icmp_type_not_allowed'',
                    ''loopback_port_not_allowed''} then K_CLASSIFIED
      else if rsn = ''case_not_applicable'' then K_SCOPE
      else K_EVAL)"

definition read_ipv4 :: "bytes \<Rightarrow> string + nat \<times> nat \<times> string \<times> int" where
  "read_ipv4 packet =
     (if length packet < 20 then Inl ''icmp_header_unreadable''
      else
        (let version = drop_bit 4 (byte_at packet 0) in
         if version = 6 then
           (if length packet < 40 then Inl ''icmp_header_unreadable''
            else if byte_at packet 6 = 58 then Inl ''icmp_v6''
            else Inl ''icmp_header_unreadable'')
         else if version \<noteq> 4 then Inl ''address_not_canonical''
         else
           (let ihl = byte_at packet 0 AND 0x0F in
            if ihl \<noteq> 5 then Inl ''icmp_header_unreadable''
            else
              (let protocol = byte_at packet 9;
                   dest = py_join ''.'' (map (\<lambda>b. num_str 10 (unat b)) (py_slice packet 16 20))
               in if protocol \<in> {6, 17} then
                    (if length packet < 24 then Inl ''loopback_header_unreadable''
                     else Inr (protocol, ihl, dest, int (be16 packet 22)))
                  else Inr (protocol, ihl, dest, -1)))))"

definition kernel_dns ::
  "bytes \<Rightarrow> string \<Rightarrow> KernelMaps \<Rightarrow> string \<Rightarrow> FixedWindow option \<Rightarrow> int
     \<Rightarrow> KernelDecision \<times> FixedWindow option" where
  "kernel_dns packet dest maps mode window now_ns =
     (if length packet < 28 + 12 then (kernel_finish ''dns_unparsable'' K_EVAL mode False, window)
      else if be16 packet (28 + 4) \<noteq> 1 then (kernel_finish ''dns_qdcount'' K_EVAL mode False, window)
      else
        (case parse_name packet (28 + 12) (km_max_label maps) of
           Inl rsn \<Rightarrow> (kernel_finish rsn (kind_for rsn) mode False, window)
         | Inr name \<Rightarrow>
             (case window of
                None \<Rightarrow> (kernel_finish ''dns_query_volume'' K_EVAL mode False, None)
              | Some w \<Rightarrow>
                  (let (status, w') = window_hit now_ns (km_window_ns maps) (km_max_queries maps) w in
                   (if status = ''failure'' then kernel_finish ''dns_query_volume'' K_EVAL mode False
                    else
                      (case parse_address (PStr dest) of
                         None \<Rightarrow> kernel_finish ''address_not_canonical'' K_EVAL mode False
                       | Some dest_addr \<Rightarrow>
                           if address_class dest_addr = ''link_local''
                           then kernel_finish ''link_local_not_allowed'' K_CLASSIFIED mode False
                           else if \<not> on_list dest_addr (km_resolvers maps)
                           then kernel_finish ''resolver_not_allowed'' K_CLASSIFIED mode False
                           else
                             (let (rsn, deferred) = name_verdict name maps in
                              if rsn \<noteq> ''policy_permits''
                              then kernel_finish rsn (kind_for rsn) mode False
                              else if status = ''over''
                              then kernel_finish ''dns_query_volume'' K_CLASSIFIED mode deferred
                              else kernel_finish ''policy_permits'' K_PASS mode deferred)),
                    Some w')))))"

definition kernel_icmp :: "bytes \<Rightarrow> string \<Rightarrow> KernelMaps \<Rightarrow> string \<Rightarrow> KernelDecision" where
  "kernel_icmp packet dest maps mode =
     (if length packet < 21 then kernel_finish ''icmp_header_unreadable'' K_EVAL mode False
      else
        (let kind = byte_at packet 20 in
         case parse_address (PStr dest) of
           None \<Rightarrow> kernel_finish ''address_not_canonical'' K_EVAL mode False
         | Some dest_addr \<Rightarrow>
             if address_class dest_addr = ''link_local''
             then kernel_finish ''link_local_not_allowed'' K_CLASSIFIED mode False
             else if kind \<notin> {0, 8} then kernel_finish ''icmp_type_not_allowed'' K_CLASSIFIED mode False
             else if \<not> on_list dest_addr (km_icmp_destinations maps)
             then kernel_finish ''icmp_destination_not_allowed'' K_CLASSIFIED mode False
             else kernel_finish ''policy_permits'' K_PASS mode False))"

definition loopback_packet :: "string \<Rightarrow> int \<Rightarrow> KernelMaps \<Rightarrow> string \<Rightarrow> KernelDecision" where
  "loopback_packet dest dport maps mode =
     (case parse_address (PStr dest) of
        None \<Rightarrow> kernel_finish ''address_not_canonical'' K_EVAL mode False
      | Some dest_addr \<Rightarrow>
          (let kind = address_class dest_addr in
           if kind = ''link_local'' then kernel_finish ''link_local_not_allowed'' K_CLASSIFIED mode False
           else if kind \<noteq> ''loopback'' then kernel_finish ''case_not_applicable'' K_SCOPE mode False
           else if dport \<in> set (km_ports maps) then kernel_finish ''policy_permits'' K_PASS mode False
           else kernel_finish ''loopback_port_not_allowed'' K_CLASSIFIED mode False))"

definition kernel_packet ::
  "bytes \<Rightarrow> KernelMaps \<Rightarrow> string \<Rightarrow> FixedWindow option \<Rightarrow> int \<Rightarrow> KernelDecision \<times> FixedWindow option" where
  "kernel_packet packet maps mode window now_ns =
     (if mode \<notin> {''observe'', ''enforce''}
      then (kernel_finish ''policy_malformed'' K_EVAL ''enforce'' False, window)
      else if \<not> cfg_ok maps then (kernel_finish ''policy_malformed'' K_EVAL mode False, window)
      else
        (case read_ipv4 packet of
           Inl parsed \<Rightarrow>
             (if parsed = ''icmp_v6''
              then (kernel_finish ''icmp_type_not_allowed'' K_CLASSIFIED mode False, window)
              else (kernel_finish parsed (kind_for parsed) mode False, window))
         | Inr (protocol, ihl, dest, dport) \<Rightarrow>
             if protocol = 1 then (kernel_icmp packet dest maps mode, window)
             else if protocol \<notin> {6, 17}
             then (kernel_finish ''case_not_applicable'' K_SCOPE mode False, window)
             else if dport < 0
             then (kernel_finish ''loopback_header_unreadable'' K_EVAL mode False, window)
             else if protocol = 6 \<and> dport = 53
             then (kernel_finish ''dns_transport_not_visible'' K_EVAL mode False, window)
             else if protocol = 17 \<and> dport = 53
             then kernel_dns packet dest maps mode window now_ns
             else if protocol = 6 \<and> dport = 80
             then (kernel_finish ''get_method_not_visible'' K_EVAL mode False, window)
             else (loopback_packet dest dport maps mode, window)))"

definition kernel_connect ::
  "pyval \<Rightarrow> pyval \<Rightarrow> string \<Rightarrow> KernelMaps \<Rightarrow> string \<Rightarrow> KernelDecision" where
  "kernel_connect destination port protocol maps mode =
     (if mode \<notin> {''observe'', ''enforce''} then kernel_finish ''policy_malformed'' K_EVAL ''enforce'' False
      else if \<not> cfg_ok maps then kernel_finish ''policy_malformed'' K_EVAL mode False
      else if protocol \<notin> {''tcp'', ''udp''}
      then kernel_finish ''loopback_header_unreadable'' K_EVAL mode False
      else
        (case port of
           PInt p \<Rightarrow>
             if p < 0 \<or> p > 65535 then kernel_finish ''loopback_header_unreadable'' K_EVAL mode False
             else
               (case parse_address destination of
                  None \<Rightarrow> kernel_finish ''address_not_canonical'' K_EVAL mode False
                | Some parsed \<Rightarrow>
                    (let kind = address_class parsed in
                     if p = 53 \<and> on_list parsed (km_resolvers maps)
                     then kernel_finish ''policy_permits'' K_PASS mode False
                     else if kind = ''link_local''
                     then kernel_finish ''link_local_not_allowed'' K_CLASSIFIED mode False
                     else if kind = ''loopback'' then
                       (if p \<in> set (km_ports maps)
                        then kernel_finish ''policy_permits'' K_PASS mode False
                        else kernel_finish ''loopback_port_not_allowed'' K_CLASSIFIED mode False)
                     else if p = 53
                     then kernel_finish ''resolver_not_allowed'' K_CLASSIFIED mode False
                     else kernel_finish ''case_not_applicable'' K_SCOPE mode False))
         | _ \<Rightarrow> kernel_finish ''loopback_header_unreadable'' K_EVAL mode False))"

section \<open>Specification\<close>

text \<open>The shape of every decision of the program: a token of the reason table, an action and a
  transmit flag determined by the kind, and a pass exactly for the permitting reason.\<close>

definition kernel_wf :: "string \<Rightarrow> KernelDecision \<Rightarrow> bool" where
  "kernel_wf mode d =
     (k_label d = ''Lab-only'' \<and> k_reason d \<in> set REASONS
      \<and> k_kind d \<in> {K_PASS, K_CLASSIFIED, K_EVAL, K_SCOPE}
      \<and> (k_transmit d \<longleftrightarrow> k_kind d = K_PASS \<or> k_kind d = K_CLASSIFIED \<and> mode = ''observe'')
      \<and> (k_action d = ''ALLOW'' \<longleftrightarrow> k_kind d = K_PASS)
      \<and> (k_kind d = K_PASS \<longleftrightarrow> k_reason d = ''policy_permits''))"

definition window_inv :: "int \<Rightarrow> FixedWindow \<Rightarrow> bool" where
  "window_inv cap w = (0 \<le> hit_count w \<and> hit_count w \<le> max 0 cap)"

text \<open>The oks of a run of the window, each hit with its stamp.\<close>

fun window_oks :: "int \<Rightarrow> int \<Rightarrow> int list \<Rightarrow> FixedWindow \<Rightarrow> int list" where
  "window_oks window cap [] w = []"
| "window_oks window cap (t # ts) w =
     (let (status, w') = window_hit t window cap w in
      (if status = ''ok'' then [t] else []) @ window_oks window cap ts w')"

definition oks_within :: "int \<Rightarrow> int \<Rightarrow> int list \<Rightarrow> nat" where
  "oks_within lo hi ts = length (filter (\<lambda>t. lo < t \<and> t \<le> hi) ts)"

section \<open>Lemmas on decisions\<close>

lemmas kinds = K_PASS_def K_CLASSIFIED_def K_EVAL_def K_SCOPE_def

lemma kernel_wf_finish [simp]:
  assumes "rsn \<in> set REASONS" "kind \<in> {K_PASS, K_CLASSIFIED, K_EVAL, K_SCOPE}"
    "kind = K_PASS \<longleftrightarrow> rsn = ''policy_permits''"
  shows "kernel_wf mode (kernel_finish rsn kind mode b)"
  using assms by (auto simp: kernel_wf_def kernel_finish_def kinds)

lemma kernel_wf_finish_eval:
  "rsn \<in> set REASONS \<Longrightarrow> rsn \<noteq> ''policy_permits'' \<Longrightarrow> kernel_wf mode (kernel_finish rsn K_EVAL m b)"
  by (auto simp: kernel_wf_def kernel_finish_def kinds)

lemma kind_for_wf:
  "kind_for rsn \<in> {K_PASS, K_CLASSIFIED, K_EVAL, K_SCOPE}"
  "kind_for rsn = K_PASS \<longleftrightarrow> rsn = ''policy_permits''"
  by (auto simp: kind_for_def kinds)

lemma kernel_wf_kind_for [simp]:
  "rsn \<in> set REASONS \<Longrightarrow> kernel_wf mode (kernel_finish rsn (kind_for rsn) mode b)"
  using kind_for_wf [of rsn] by (intro kernel_wf_finish) auto

declare parse_name_loop.simps [simp del]

lemma parse_name_loop_Inl:
  "parse_name_loop packet ml steps labels hops cursor = Inl rsn \<Longrightarrow>
   rsn \<in> {''dns_parse_budget'', ''dns_unparsable'', ''dns_label_too_long'', ''dns_label_not_ldh''}"
proof (induction packet ml steps labels hops cursor rule: parse_name_loop.induct)
  case (1 packet ml steps labels hops cursor)
  note step = "1.prems" [unfolded parse_name_loop.simps [of packet ml steps labels hops cursor]]
  show ?case
  proof (cases "steps < K_MAX_PARSE_STEPS \<and> cursor < length packet")
    case True
    with step "1.IH" show ?thesis by (simp add: Let_def split: if_splits)
  next
    case False
    with step show ?thesis by (auto split: if_splits)
  qed
qed

lemma parse_name_Inl:
  "parse_name packet off ml = Inl rsn \<Longrightarrow> rsn \<in> set REASONS \<and> rsn \<noteq> ''policy_permits''"
  unfolding parse_name_def by (drule parse_name_loop_Inl) (auto simp: REASONS_def)

lemma name_verdict_reason: "fst (name_verdict name maps) \<in> set REASONS"
  by (simp add: name_verdict_def REASONS_def Let_def case_prod_beta)

lemma read_ipv4_Inl:
  "read_ipv4 packet = Inl rsn \<Longrightarrow> rsn \<noteq> ''icmp_v6'' \<Longrightarrow> rsn \<in> set REASONS \<and> rsn \<noteq> ''policy_permits''"
  by (auto simp: read_ipv4_def Let_def REASONS_def split: if_splits)

lemma reason_tokens [simp]:
  "''dns_unparsable'' \<in> set REASONS" "''dns_qdcount'' \<in> set REASONS" "''dns_query_volume'' \<in> set REASONS"
  "''address_not_canonical'' \<in> set REASONS" "''link_local_not_allowed'' \<in> set REASONS"
  "''resolver_not_allowed'' \<in> set REASONS" "''policy_permits'' \<in> set REASONS"
  "''icmp_header_unreadable'' \<in> set REASONS" "''icmp_type_not_allowed'' \<in> set REASONS"
  "''icmp_destination_not_allowed'' \<in> set REASONS" "''case_not_applicable'' \<in> set REASONS"
  "''loopback_port_not_allowed'' \<in> set REASONS" "''loopback_header_unreadable'' \<in> set REASONS"
  "''policy_malformed'' \<in> set REASONS" "''dns_transport_not_visible'' \<in> set REASONS"
  "''get_method_not_visible'' \<in> set REASONS"
  by (simp_all add: REASONS_def)

lemma kind_distinct [simp]:
  "K_PASS \<noteq> K_CLASSIFIED" "K_PASS \<noteq> K_EVAL" "K_PASS \<noteq> K_SCOPE" "K_CLASSIFIED \<noteq> K_PASS"
  "K_EVAL \<noteq> K_PASS" "K_SCOPE \<noteq> K_PASS"
  by (simp_all add: kinds)

lemma kernel_dns_wf: "kernel_wf mode (fst (kernel_dns packet dest maps mode window now))"
  using name_verdict_reason [of _ maps]
  by (simp add: kernel_dns_def Let_def case_prod_beta parse_name_Inl split: sum.split option.split)

lemma kernel_icmp_wf: "kernel_wf mode (kernel_icmp packet dest maps mode)"
  by (simp add: kernel_icmp_def Let_def split: option.split)

lemma loopback_packet_wf: "kernel_wf mode (loopback_packet dest dport maps mode)"
  by (simp add: loopback_packet_def Let_def split: option.split)

lemma kernel_packet_kernel_wf: "kernel_wf mode (fst (kernel_packet packet maps mode window now))"
  by (auto simp: kernel_packet_def kernel_wf_finish_eval kernel_dns_wf kernel_icmp_wf loopback_packet_wf
      dest: read_ipv4_Inl split: sum.split prod.split)

lemma kernel_connect_kernel_wf: "kernel_wf mode (kernel_connect destination port protocol maps mode)"
  by (simp add: kernel_connect_def kernel_wf_finish_eval Let_def split: pyval.split option.split)

section \<open>The fixed window\<close>

lemma window_hit_inv: "window_inv cap w \<Longrightarrow> window_inv cap (snd (window_hit now window cap w))"
  by (auto simp: window_inv_def window_hit_def Let_def)

lemma window_hit_answer: "fst (window_hit now window cap w) \<in> {''ok'', ''over'', ''failure''}"
  by (auto simp: window_hit_def Let_def)

text \<open>The window as a rate gate: the state pairs the cap with the window, an attempt is a stamp
  with the window length of the map.\<close>

interpretation kernel_window: bounded_gate
  "\<lambda>(now, window) (cap, w). let (answer, w') = window_hit now window cap w in (answer, (cap, w'))"
  "\<lambda>(cap, w). hit_count w" fst "\<lambda>(cap, w). window_inv cap w"
proof
  fix s :: "int \<times> FixedWindow" and i :: "int \<times> int"
  let ?hit = "case i of (now, window) \<Rightarrow> \<lambda>(cap, w).
      let (answer, w') = window_hit now window cap w in (answer, (cap, w'))"
  obtain cap w now window where s: "s = (cap, w)" "i = (now, window)" by (cases s; cases i)
  show "case s of (cap, w) \<Rightarrow> window_inv cap w \<Longrightarrow> case snd (?hit s) of (cap, w) \<Rightarrow> window_inv cap w"
    using window_hit_inv [of cap w now window] by (simp add: s case_prod_beta Let_def)
  show "fst (snd (?hit s)) = fst s" by (simp add: s case_prod_beta Let_def)
  show "case s of (cap, w) \<Rightarrow> window_inv cap w \<Longrightarrow> (case s of (cap, w) \<Rightarrow> hit_count w) \<le> max 0 (fst s)"
    by (simp add: s window_inv_def)
  show "fst (?hit s) \<in> {''ok'', ''over'', ''failure''}"
    using window_hit_answer [of now window cap w] by (simp add: s case_prod_beta Let_def)
qed

lemma oks_within_simps [simp]:
  "oks_within lo hi [] = 0"
  "oks_within lo hi (t # ts) = (if lo < t \<and> t \<le> hi then 1 else 0) + oks_within lo hi ts"
  "oks_within lo hi (ts @ us) = oks_within lo hi ts + oks_within lo hi us"
  by (simp_all add: oks_within_def)

lemma window_oks_subset: "set (window_oks window cap ts w) \<subseteq> set ts"
  by (induction ts arbitrary: w) (auto simp: Let_def split: prod.splits)

lemma oks_within_after: "\<forall>t \<in> set ts. hi < t \<Longrightarrow> oks_within lo hi ts = 0"
  by (induction ts) auto

text \<open>From a state with a start inside the interval, the rest of the cap is left for it; from an
  older start, one more cap.\<close>

lemma window_oks_rate_inside:
  assumes "sorted ts" "\<forall>t \<in> set ts. T - window < t \<and> 0 < t" "0 < window" "1 \<le> cap"
    and "window_inv cap w"
  shows "int (oks_within (T - window) T (window_oks window cap ts w))
    \<le> cap - hit_count w + (if start_ns w \<noteq> 0 \<and> T - window < start_ns w then 0 else cap)"
  using assms
proof (induction ts arbitrary: w)
  case Nil
  then show ?case by (auto simp: window_inv_def)
next
  case (Cons t ts)
  define r where "r = window_hit t window cap w"
  have IH: "int (oks_within (T - window) T (window_oks window cap ts (snd r)))
    \<le> cap - hit_count (snd r) + (if start_ns (snd r) \<noteq> 0 \<and> T - window < start_ns (snd r) then 0 else cap)"
    using Cons.prems window_hit_inv [of cap w t window] by (intro Cons.IH) (auto simp: r_def)
  have oks: "window_oks window cap (t # ts) w =
      (if fst r = ''ok'' then [t] else []) @ window_oks window cap ts (snd r)"
    by (simp add: r_def case_prod_beta)
  have cnt: "0 \<le> hit_count w" "hit_count w \<le> cap" using Cons.prems(4,5) by (auto simp: window_inv_def)
  have t: "T - window < t" "0 < t" using Cons.prems(2) by auto
  show ?case
  proof (cases "t \<le> T")
    case True
    define n where "n = oks_within (T - window) T (window_oks window cap ts (snd r))"
    have "int (oks_within (T - window) T (window_oks window cap (t # ts) w)) =
        (if fst r = ''ok'' then 1 else 0) + int n"
      unfolding oks n_def using True t by simp
    with IH [folded n_def] True cnt t Cons.prems(3,4) show ?thesis
      by (auto simp: r_def window_hit_def Let_def split: if_splits)
  next
    case False
    then have "\<forall>x \<in> set (window_oks window cap (t # ts) w). T < x"
      using window_oks_subset [of window cap "t # ts" w] Cons.prems(1) by fastforce
    then show ?thesis using cnt by (simp add: oks_within_after del: window_oks.simps)
  qed
qed

lemma window_oks_rate:
  assumes "sorted ts" "\<forall>t \<in> set ts. 0 < t" "0 < window" "1 \<le> cap" "window_inv cap w"
  shows "int (oks_within (T - window) T (window_oks window cap ts w)) \<le> 2 * cap"
  using assms
proof (induction ts arbitrary: w)
  case (Cons t ts)
  show ?case
  proof (cases "T - window < t")
    case True
    then have "\<forall>x \<in> set (t # ts). T - window < x \<and> 0 < x" using Cons.prems(1,2) by auto
    from window_oks_rate_inside [OF Cons.prems(1) this Cons.prems(3-5)] Cons.prems(4,5)
    show ?thesis by (auto simp: window_inv_def split: if_splits simp del: window_oks.simps)
  next
    case False
    then show ?thesis
      using Cons.IH [of "snd (window_hit t window cap w)"] Cons.prems window_hit_inv
      by (simp add: case_prod_beta Let_def)
  qed
qed simp

end
