(* ===== verification/T5_Kernel_Names.thy ===== *)
theory T5_Kernel_Names
  imports T5_Kernel
begin

text \<open>
  The name test of the packet program works on text, the userspace test on label lists. This
  theory proves that they select the same listed name and the same characters in front of it.
\<close>

section \<open>Definitions\<close>

text \<open>Label lists that can be written as text with dots: no label is empty or has a dot.\<close>

definition dotted_name :: "string list \<Rightarrow> bool" where
  "dotted_name ls = (ls \<noteq> [] \<and> (\<forall>l \<in> set ls. l \<noteq> [] \<and> CHR ''.'' \<notin> set l))"

abbreviation name_text :: "string list \<Rightarrow> string" where
  "name_text ls \<equiv> py_join ''.'' ls"

text \<open>The verdict as the userspace matcher gives it: the longest listed match, the total length
  of the labels in front of it and the distinct-character test on them.\<close>

definition label_verdict :: "string list \<Rightarrow> string list list \<Rightarrow> int \<Rightarrow> int \<Rightarrow> string" where
  "label_verdict cand listed max_label entropy_min =
     (case longest_match cand listed of
        None \<Rightarrow> ''dns_name_not_allowed''
      | Some m \<Rightarrow>
          (let left = concat (take (length cand - length m) cand) in
           if int (length left) > max_label then ''dns_label_too_long''
           else if m \<noteq> cand \<and> 0 < entropy_min \<and> int (length left) \<ge> entropy_min
                   \<and> length (remdups left) * 4 > length left
           then ''dns_label_entropy''
           else ''policy_permits''))"

text \<open>A configuration used by the concrete instances.\<close>

definition sample_maps :: KernelMaps where
  "sample_maps =
     \<lparr>km_enforce = True, km_max_label = 40, km_max_queries = 5, km_entropy_min_length = 16,
      km_entropy_userspace = 1, km_window_ns = 10000000000, km_names = [''Corp.Test''],
      km_resolvers = [''192.0.2.53'', ''169.254.1.1''], km_icmp_destinations = [''192.0.2.10''],
      km_ports = [8080]\<rparr>"

section \<open>Lemmas on dotted text\<close>

lemma name_wf_dotted: "name_wf ls \<Longrightarrow> dotted_name ls"
  by (auto simp: name_wf_def dotted_name_def bad_label_def)

lemma py_split_append: "py_split c (p @ c # s) = py_split c p @ py_split c s"
  by (induction p) (auto split: list.split)

lemma split_name_text: "dotted_name ls \<Longrightarrow> py_split (CHR ''.'') (name_text ls) = ls"
  by (intro py_split_join) (auto simp: dotted_name_def)

lemma name_text_inj: "dotted_name xs \<Longrightarrow> dotted_name ys \<Longrightarrow> name_text xs = name_text ys \<longleftrightarrow> xs = ys"
  by (metis split_name_text)

lemma py_join_append: "xs \<noteq> [] \<Longrightarrow> ys \<noteq> [] \<Longrightarrow> py_join sep (xs @ ys) = py_join sep xs @ sep @ py_join sep ys"
  by (induction sep xs rule: py_join.induct) (auto simp: py_join_Cons)

lemma suffix_name_text:
  assumes "dotted_name xs" "dotted_name ys"
  shows "suffix (''.'' @ name_text ys) (name_text xs) \<longleftrightarrow> strict_suffix ys xs"
proof
  assume "suffix (''.'' @ name_text ys) (name_text xs)"
  then obtain p where "name_text xs = p @ CHR ''.'' # name_text ys" by (auto simp: suffix_def)
  then have "py_split (CHR ''.'') (name_text xs) = py_split (CHR ''.'') p @ py_split (CHR ''.'') (name_text ys)"
    by (simp add: py_split_append)
  then have "xs = py_split (CHR ''.'') p @ ys" using assms by (simp add: split_name_text)
  then show "strict_suffix ys xs" by (auto simp: strict_suffix_def suffix_def)
next
  assume "strict_suffix ys xs"
  then obtain zs where "xs = zs @ ys" "zs \<noteq> []" by (auto simp: strict_suffix_def suffix_def)
  then show "suffix (''.'' @ name_text ys) (name_text xs)"
    using assms(2) by (auto simp: py_join_append suffix_def dotted_name_def)
qed

lemma dot_in_name_text:
  assumes "dotted_name ls"
  shows "CHR ''.'' \<in> set (name_text ls) \<longleftrightarrow> 2 \<le> length ls"
proof (cases ls)
  case (Cons l rest)
  then show ?thesis using assms by (cases rest) (auto simp: dotted_name_def)
qed (use assms in \<open>simp add: dotted_name_def\<close>)

lemma name_text_nonempty: "dotted_name ls \<Longrightarrow> name_text ls \<noteq> []"
  by (intro py_join_eq_Nil) (auto simp: dotted_name_def)

lemma strict_suffix_text_length:
  assumes "dotted_name ys" "strict_suffix ys xs"
  shows "length (name_text ys) < length (name_text xs)"
proof -
  obtain zs where "xs = zs @ ys" "zs \<noteq> []" using assms(2) by (auto simp: strict_suffix_def suffix_def)
  then show ?thesis using assms(1) by (simp add: py_join_append dotted_name_def)
qed

lemma name_matches_suffix: "name_matches c m \<Longrightarrow> suffix m c"
  by (auto simp: name_matches_iff strict_suffix_def)

lemma matches_text_le:
  assumes "name_matches c a" "name_matches c b" "dotted_name a" "dotted_name b"
  shows "length (name_text a) \<le> length (name_text b) \<longleftrightarrow> length a \<le> length b"
proof -
  have "suffix a b \<or> suffix b a"
    using assms(1,2) name_matches_suffix suffix_same_cases by blast
  then consider "a = b" | "strict_suffix a b" | "strict_suffix b a" by (auto simp: strict_suffix_def)
  then show ?thesis
  proof cases
    case 2
    then show ?thesis
      using strict_suffix_text_length [OF assms(3) 2] suffix_length_less by fastforce
  next
    case 3
    then show ?thesis
      using strict_suffix_text_length [OF assms(4) 3] suffix_length_less by fastforce
  qed simp
qed

lemma filter_dots_name_text:
  "\<forall>l \<in> set ls. CHR ''.'' \<notin> set l \<Longrightarrow> filter (\<lambda>c. c \<noteq> CHR ''.'') (name_text ls) = concat ls"
proof (induction "''.''" ls rule: py_join.induct)
  case (2 p)
  then show ?case by (auto simp: filter_id_conv)
next
  case (3 p q ps)
  then have "filter (\<lambda>c. c \<noteq> CHR ''.'') p = p" by (auto simp: filter_id_conv)
  with 3 show ?case by simp
qed simp

section \<open>The slot loop is the longest match\<close>

definition slot_state :: "string list option \<Rightarrow> bool \<times> nat" where
  "slot_state b = (case b of None \<Rightarrow> (False, 0) | Some m \<Rightarrow> (True, length (name_text m)))"

lemma slot_match_longest:
  assumes "dotted_name cand" "\<forall>i \<in> set listed. dotted_name i \<and> length (name_text i) \<le> 63"
    and "\<forall>b. best = Some b \<longrightarrow> name_matches cand b \<and> dotted_name b"
  shows "slot_match (name_text cand) (map name_text listed) (fst (slot_state best)) (snd (slot_state best))
    = slot_state (longest_match_from best cand listed)"
  using assms(2,3)
proof (induction listed arbitrary: best)
  case (Cons i items)
  have i: "dotted_name i" "name_text i \<noteq> []" "length (name_text i) \<le> 63"
    using Cons.prems name_text_nonempty by auto
  have IH: "slot_match (name_text cand) (map name_text items) (fst (slot_state b)) (snd (slot_state b))
      = slot_state (longest_match_from b cand items)" if "b = best \<or> b = Some i \<and> name_matches cand i" for b
    using Cons.IH [of b] Cons.prems that i(1) by auto
  have long: "length (name_text cand) < length (name_text i) \<Longrightarrow> \<not> name_matches cand i"
    using strict_suffix_text_length [OF i(1), of cand] by (auto simp: name_matches_iff)
  show ?case
  proof (cases "name_matches cand i")
    case False
    then have "i \<noteq> cand" "\<not> strict_suffix i cand \<or> \<not> 2 \<le> length i"
      by (auto simp: name_matches_iff)
    then have "name_text i \<noteq> name_text cand"
        "\<not> suffix (''.'' @ name_text i) (name_text cand) \<or> CHR ''.'' \<notin> set (name_text i)"
      using name_text_inj suffix_name_text dot_in_name_text i(1) assms(1) by auto
    then show ?thesis using IH [of best] False i by (auto split: option.splits)
  next
    case True
    have later: "name_text i = name_text cand \<or>
        suffix (''.'' @ name_text i) (name_text cand) \<and> CHR ''.'' \<in> set (name_text i)"
      using True suffix_name_text [OF assms(1) i(1)] dot_in_name_text [OF i(1)]
      by (auto simp: name_matches_iff)
    have eq: "name_text i = name_text cand \<longleftrightarrow> i = cand" using name_text_inj i(1) assms(1) by blast
    have taken: "slot_match (name_text cand) (map name_text items) True (length (name_text i))
        = slot_state (longest_match_from (Some i) cand items)"
      using IH [of "Some i"] True by (simp add: slot_state_def)
    show ?thesis
    proof (cases best)
      case None
      then show ?thesis using True later taken i long by (auto simp: slot_state_def)
    next
      case (Some b)
      then have b: "name_matches cand b" "dotted_name b" using Cons.prems(2) by auto
      note cmp = matches_text_le [OF True b(1) i(1) b(2)] matches_text_le [OF b(1) True b(2) i(1)]
      show ?thesis
      proof (cases "length i = length b")
        case same: True
        then have "i = b" using name_matches_same_length True b(1) by blast
        then show ?thesis using Some True later taken i long IH [of best] by (auto simp: slot_state_def)
      next
        case False
        moreover have "i = cand \<Longrightarrow> length b \<le> length i"
          using name_matches_suffix [OF b(1)] suffix_length_le by blast
        ultimately show ?thesis
          using Some True later taken i long IH [of best] cmp eq by (auto simp: slot_state_def)
      qed
    qed
  qed
qed simp

lemma slot_match_text:
  assumes "dotted_name cand" "\<forall>i \<in> set listed. dotted_name i \<and> length (name_text i) \<le> 63"
  shows "slot_match (name_text cand) (map name_text listed) False 0 =
    (case longest_match cand listed of None \<Rightarrow> (False, 0) | Some m \<Rightarrow> (True, length (name_text m)))"
  using slot_match_longest [OF assms, of None] by (simp add: slot_state_def longest_match_def)

text \<open>The characters the program counts are those of the labels in front of the match.\<close>

lemma left_of_match:
  assumes "dotted_name cand" "name_matches cand m" "m \<noteq> cand"
  shows "length (name_text m) < length (name_text cand)"
    and "filter (\<lambda>c. c \<noteq> CHR ''.'') (take (length (name_text cand) - length (name_text m) - 1) (name_text cand))
      = concat (take (length cand - length m) cand)"
proof -
  from assms(2,3) obtain zs where cand: "cand = zs @ m" "zs \<noteq> []" "2 \<le> length m"
    by (auto simp: name_matches_iff strict_suffix_def suffix_def)
  have "m \<noteq> []" using cand(3) by auto
  with cand have joined: "name_text cand = name_text zs @ ''.'' @ name_text m" by (simp add: py_join_append)
  then show "length (name_text m) < length (name_text cand)" by simp
  have "\<forall>l \<in> set zs. CHR ''.'' \<notin> set l" using assms(1) cand(1) by (auto simp: dotted_name_def)
  then show "filter (\<lambda>c. c \<noteq> CHR ''.'') (take (length (name_text cand) - length (name_text m) - 1) (name_text cand))
      = concat (take (length cand - length m) cand)"
    using joined cand(1) by (simp add: filter_dots_name_text)
qed

lemma name_verdict_labels:
  assumes "dotted_name cand" "map ascii_fold (km_names maps) = map name_text listed"
    and "\<forall>i \<in> set listed. dotted_name i \<and> length (name_text i) \<le> 63" "1 \<le> km_max_label maps"
  shows "name_verdict (name_text cand) maps =
    (label_verdict cand listed (km_max_label maps) (km_entropy_min_length maps), False)"
proof (cases "longest_match cand listed")
  case None
  then show ?thesis
    by (simp add: name_verdict_def label_verdict_def slot_match_text [OF assms(1,3)] assms(2))
next
  case (Some m)
  then have m: "name_matches cand m" by (simp add: longest_match_Some_iff)
  show ?thesis
  proof (cases "m = cand")
    case True
    then show ?thesis
      using Some assms(4)
      by (simp add: name_verdict_def label_verdict_def slot_match_text [OF assms(1,3)] assms(2))
  next
    case False
    note left = left_of_match [OF assms(1) m False]
    show ?thesis
      using Some False left
      by (simp add: name_verdict_def label_verdict_def slot_match_text [OF assms(1,3)] assms(2) Let_def)
  qed
qed

section \<open>Properties\<close>

text \<open>
  The packet program's name test, on text slots, is the userspace longest match on label lists:
  for slots that are the dotted texts of the listed names (each within the 63 characters a slot
  holds), the verdict on a dotted name is that of the longest listed match, the total length of
  the labels in front of it and the distinct-character test on them.
\<close>

theorem name_verdict_longest_match:
  assumes "dotted_name cand" "map ascii_fold (km_names maps) = map name_text listed"
    and "\<forall>i \<in> set listed. dotted_name i \<and> length (name_text i) \<le> 63" "1 \<le> km_max_label maps"
  shows "name_verdict (name_text cand) maps =
    (label_verdict cand listed (km_max_label maps) (km_entropy_min_length maps), False)"
  by (rule name_verdict_labels [OF assms])

theorem name_verdict_longest_match_witness:
  "name_verdict ''api.corp.test'' sample_maps =
     (label_verdict [''api'', ''corp'', ''test''] [[''corp'', ''test'']] 40 16, False)
   \<and> label_verdict [''api'', ''corp'', ''test''] [[''corp'', ''test'']] 40 16 = ''policy_permits''"
proof -
  have "dotted_name [''api'', ''corp'', ''test'']"
    "map ascii_fold (km_names sample_maps) = map name_text [[''corp'', ''test'']]"
    "\<forall>i \<in> set [[''corp'', ''test'']]. dotted_name i \<and> length (name_text i) \<le> 63"
    "1 \<le> km_max_label sample_maps" by code_simp+
  note name_verdict_longest_match [OF this]
  moreover have "label_verdict [''api'', ''corp'', ''test''] [[''corp'', ''test'']] 40 16 = ''policy_permits''"
    by code_simp
  ultimately show ?thesis by (simp add: sample_maps_def)
qed

end
