(* ===== verification/T5_Kernel_Props.thy ===== *)
theory T5_Kernel_Props
  imports T5_Kernel_Names
begin

unbundle bit_operations_syntax

text \<open>
  Properties of the packet program as a whole: every decision fails closed, what a pass means on
  the bytes of a packet and on a connect, the rate the fixed window lets through, and how its name
  walk compares with the userspace walk.
\<close>

section \<open>Packets of the concrete instances\<close>

text \<open>A query for \<open>corp.test\<close> to a link-local resolver.\<close>

definition link_local_query :: bytes where
  "link_local_query =
    [69, 0, 0, 55, 0, 0, 0, 0, 64, 17, 0, 0, 10, 0, 0, 1, 169, 254, 1, 1, 15, 160, 0, 53,
     0, 35, 0, 0, 0, 1, 1, 0, 0, 1, 0, 0, 0, 0, 0, 0, 4, 99, 111, 114, 112, 4, 116, 101,
     115, 116, 0, 0, 1, 0, 1]"

text \<open>A query to a listed resolver whose name is \<open>corp.test\<close> followed by a pointer to offset 1.\<close>

definition pointer_query :: bytes where
  "pointer_query =
    [69, 0, 0, 56, 0, 0, 0, 0, 64, 17, 0, 0, 10, 0, 0, 1, 192, 0, 2, 53, 15, 160, 0, 53,
     0, 36, 0, 0, 0, 2, 101, 118, 0, 1, 0, 0, 0, 0, 0, 0, 4, 99, 111, 114, 112, 4, 116,
     101, 115, 116, 192, 1, 0, 1, 0, 1]"

section \<open>Lemmas\<close>

lemma kernel_finish_pass [simp]:
  "k_kind (kernel_finish rsn kind mode b) = K_PASS \<longleftrightarrow> kind = K_PASS"
  by (simp add: kernel_finish_def)

lemma kind_for_pass [simp]: "kind_for rsn = K_PASS \<longleftrightarrow> rsn = ''policy_permits''"
  by (rule kind_for_wf)

lemma kernel_icmp_pass:
  "k_kind (kernel_icmp packet dest maps mode) = K_PASS \<longleftrightarrow>
     21 \<le> length packet \<and> byte_at packet 20 \<in> {0, 8} \<and>
     (\<exists>a. parse_address (PStr dest) = Some a \<and> address_class a \<noteq> ''link_local''
        \<and> on_list a (km_icmp_destinations maps))"
  by (auto simp: kernel_icmp_def Let_def split: option.split)

lemma loopback_packet_pass:
  "k_kind (loopback_packet dest dport maps mode) = K_PASS \<longleftrightarrow>
     dport \<in> set (km_ports maps) \<and>
     (\<exists>a. parse_address (PStr dest) = Some a \<and> address_class a = ''loopback'')"
  by (auto simp: loopback_packet_def Let_def split: option.split)

lemma kernel_dns_pass:
  "k_kind (fst (kernel_dns packet dest maps mode window now)) = K_PASS \<longleftrightarrow>
     40 \<le> length packet \<and> be16 packet 32 = 1 \<and>
     (\<exists>name w a. parse_name packet 40 (km_max_label maps) = Inr name \<and> window = Some w
        \<and> fst (window_hit now (km_window_ns maps) (km_max_queries maps) w) = ''ok''
        \<and> parse_address (PStr dest) = Some a \<and> address_class a \<noteq> ''link_local''
        \<and> on_list a (km_resolvers maps) \<and> fst (name_verdict name maps) = ''policy_permits'')"
proof (cases "length packet < 40 \<or> be16 packet 32 \<noteq> 1")
  case True
  then show ?thesis by (auto simp: kernel_dns_def)
next
  case False
  show ?thesis
  proof (cases "parse_name packet 40 (km_max_label maps)")
    case (Inl rsn)
    then show ?thesis using False parse_name_Inl [OF Inl] by (simp add: kernel_dns_def)
  next
    case (Inr name)
    show ?thesis
    proof (cases window)
      case (Some w)
      then show ?thesis
        using False Inr window_hit_answer [of now "km_window_ns maps" "km_max_queries maps" w]
        by (auto simp: kernel_dns_def case_prod_beta Let_def split: option.split)
    qed (use False Inr in \<open>simp add: kernel_dns_def\<close>)
  qed
qed

lemma read_ipv4_Inr:
  "read_ipv4 packet = Inr (protocol, ihl, dest, dport) \<longleftrightarrow>
     20 \<le> length packet \<and> byte_at packet 0 = 0x45 \<and> protocol = byte_at packet 9 \<and> ihl = 5
     \<and> (protocol \<in> {6, 17} \<longrightarrow> 24 \<le> length packet)
     \<and> dest = py_join ''.'' (map (\<lambda>b. num_str 10 (unat b)) (py_slice packet 16 20))
     \<and> dport = (if protocol \<in> {6, 17} then int (be16 packet 22) else -1)"
proof -
  have "byte_at packet 0 div 16 = 4 \<and> byte_at packet 0 mod 16 = 5 \<longleftrightarrow> byte_at packet 0 = 0x45"
    by presburger
  then show ?thesis
    by (auto simp: read_ipv4_def Let_def ihl_bits drop_bit_eq_div split: if_splits)
qed

lemma read_ipv4_Inl_short:
  assumes "read_ipv4 packet = Inl rsn"
  shows "\<not> (20 \<le> length packet \<and> byte_at packet 0 = 0x45
    \<and> (byte_at packet 9 \<in> {6, 17} \<longrightarrow> 24 \<le> length packet))"
proof
  assume "20 \<le> length packet \<and> byte_at packet 0 = 0x45
    \<and> (byte_at packet 9 \<in> {6, 17} \<longrightarrow> 24 \<le> length packet)"
  then have "\<exists>x. read_ipv4 packet = Inr x" by (metis read_ipv4_Inr)
  with assms show False by auto
qed

text \<open>The name walk on an uncompressed name, which the encoder writes.\<close>

lemma decode_ascii_bytes [simp]: "decode_ascii (ascii_bytes l) = l"
  by (induction l) (simp_all add: decode_ascii_def ascii_bytes_def)

lemma parse_name_loop_encode:
  "\<forall>l \<in> set ls. 1 \<le> length l \<and> length l \<le> 63 \<and> int (length l) \<le> ml \<and> list_all ldh l \<Longrightarrow>
   length labels + length ls \<le> 8 \<Longrightarrow> steps + length ls + 1 \<le> 16 \<Longrightarrow>
   parse_name_loop (pre @ encode_labels (map ascii_bytes ls) @ rest) ml steps labels hops (length pre)
     = Inr (py_join ''.'' (labels @ map ascii_fold ls))"
proof (induction ls arbitrary: pre steps labels)
  case Nil
  then show ?case
    by (subst parse_name_loop.simps) (simp add: K_MAX_PARSE_STEPS_def)
next
  case (Cons l ls)
  let ?p = "pre @ encode_labels (map ascii_bytes (l # ls)) @ rest"
  let ?pre = "pre @ of_nat (length l) # ascii_bytes l"
  have l: "1 \<le> length l" "length l \<le> 63" "l \<noteq> []" "int (length l) \<le> ml" "list_all ldh l"
    using Cons.prems by auto
  have b: "byte_at ?p (length pre) = length l" using l by simp
  have slice: "py_slice ?p (length pre + 1) (length pre + 1 + length l) = ascii_bytes l"
    using py_slice_append [of "pre @ [of_nat (length l)]" "ascii_bytes l"
        "encode_labels (map ascii_bytes ls) @ rest"] by simp
  have "parse_name_loop ?p ml steps labels hops (length pre)
      = parse_name_loop (?pre @ encode_labels (map ascii_bytes ls) @ rest) ml (steps + 1)
          (labels @ [ascii_fold l]) hops (length ?pre)"
    using l Cons.prems(2,3) b slice
    by (subst parse_name_loop.simps)
      (simp add: K_MAX_PARSE_STEPS_def K_MAX_LABELS_def Let_def label_length_bits del: byte_at_append)
  also have "\<dots> = Inr (py_join ''.'' ((labels @ [ascii_fold l]) @ map ascii_fold ls))"
    by (rule Cons.IH) (use Cons.prems in auto)
  finally show ?case by simp
qed

lemma parse_name_encode:
  assumes "\<forall>l \<in> set ls. 1 \<le> length l \<and> length l \<le> 63 \<and> int (length l) \<le> ml \<and> list_all ldh l"
    and "length ls \<le> 8" "off = length pre"
  shows "parse_name (pre @ encode_labels (map ascii_bytes ls) @ rest) off ml
    = Inr (name_text (map ascii_fold ls))"
  using parse_name_loop_encode [of ls ml "[]" 0 pre rest 0] assms by (simp add: parse_name_def)

lemma ascii_bytes_eq_Nil [simp]: "ascii_bytes l = [] \<longleftrightarrow> l = []"
  by (simp add: ascii_bytes_def)

lemma ldh_label_ok: "ldh c \<Longrightarrow> label_ok c"
  by (auto simp: ldh_def label_ok_def Let_def)

lemma wire_ldh_label: "list_all ldh l \<Longrightarrow> b \<in> set (ascii_bytes l) \<Longrightarrow> wire_label_ok b"
  by (auto simp: ascii_bytes_def wire_label_ok_def list_all_iff ldh_label_ok)

lemma ldh_no_dot: "list_all ldh l \<Longrightarrow> CHR ''.'' \<notin> set (ascii_fold l)"
proof
  assume "list_all ldh l" "CHR ''.'' \<in> set (ascii_fold l)"
  then obtain c where "ldh c" "(if 65 \<le> py_ord c \<and> py_ord c \<le> 90 then lower_char c else c) = CHR ''.''"
    by (auto simp: ascii_fold_def list_all_iff split: if_splits)
  then show False
    using lower_char_upper [of c] by (auto simp: ldh_def Let_def split: if_splits)
qed

lemma kernel_packet_pass:
  "k_kind (fst (kernel_packet packet maps mode window now)) = K_PASS \<longleftrightarrow>
     mode \<in> {''observe'', ''enforce''} \<and> cfg_ok maps \<and> 20 \<le> length packet \<and> byte_at packet 0 = 0x45
     \<and> (let dest = v4_addr (be32 packet 16); protocol = byte_at packet 9; dport = be16 packet 22 in
        (protocol = 1 \<and> 21 \<le> length packet \<and> byte_at packet 20 \<in> {0, 8}
           \<and> v4_class (be32 packet 16) \<noteq> ''link_local'' \<and> on_list dest (km_icmp_destinations maps))
        \<or> (protocol = 17 \<and> dport = 53 \<and> 40 \<le> length packet \<and> be16 packet 32 = 1
           \<and> v4_class (be32 packet 16) \<noteq> ''link_local'' \<and> on_list dest (km_resolvers maps)
           \<and> (\<exists>name w. parse_name packet 40 (km_max_label maps) = Inr name \<and> window = Some w
                \<and> fst (window_hit now (km_window_ns maps) (km_max_queries maps) w) = ''ok''
                \<and> fst (name_verdict name maps) = ''policy_permits''))
        \<or> ((protocol = 17 \<and> dport \<noteq> 53 \<or> protocol = 6 \<and> dport \<notin> {53, 80}) \<and> 24 \<le> length packet
           \<and> v4_class (be32 packet 16) = ''loopback'' \<and> int dport \<in> set (km_ports maps)))"
  (is "?L \<longleftrightarrow> ?R")
proof (cases "mode \<in> {''observe'', ''enforce''} \<and> cfg_ok maps")
  case False
  then show ?thesis by (auto simp: kernel_packet_def)
next
  case ok: True
  show ?thesis
  proof (cases "read_ipv4 packet")
    case (Inl rsn)
    then have "\<not> ?L" using ok read_ipv4_Inl [OF Inl] by (auto simp: kernel_packet_def)
    moreover have "\<not> ?R"
      using read_ipv4_Inl_short [OF Inl] by (auto simp: Let_def)
    ultimately show ?thesis by blast
  next
    case (Inr x)
    obtain pr ihl dest dport where x: "x = (pr, ihl, dest, dport)" by (cases x)
    note facts = Inr [unfolded x read_ipv4_Inr]
    have addr: "parse_address (PStr dest) = Some (v4_addr (be32 packet 16))"
      using facts icmp_v4_dest [of packet] by simp
    consider (icmp) "pr = 1" | (udp) "pr = 17" | (tcp) "pr = 6" | (other) "pr \<notin> {1, 6, 17}" by blast
    then show ?thesis
    proof cases
      case icmp
      with ok Inr x facts addr show ?thesis by (simp add: kernel_packet_def kernel_icmp_pass Let_def)
    next
      case udp
      with ok Inr x facts addr show ?thesis
        by (cases "be16 packet 22 = 53")
          (auto simp: kernel_packet_def kernel_dns_pass loopback_packet_pass Let_def)
    next
      case tcp
      with ok Inr x facts addr show ?thesis
        by (auto simp: kernel_packet_def loopback_packet_pass Let_def)
    next
      case other
      with ok Inr x facts show ?thesis by (auto simp: kernel_packet_def Let_def)
    qed
  qed
qed

section \<open>Properties\<close>

text \<open>
  Every decision of the packet program and of the connect hook, for any packet, configuration,
  mode, window and clock, carries a token of the reason table; it transmits exactly on a pass or,
  in observe mode, on a classified deny; and it passes exactly for the reason \<open>policy_permits\<close>.
\<close>

theorem kernel_decisions_fail_closed:
  "kernel_wf mode (fst (kernel_packet packet maps mode window now))
   \<and> kernel_wf mode (kernel_connect destination port protocol maps mode)"
  by (simp add: kernel_packet_kernel_wf kernel_connect_kernel_wf)

text \<open>
  C12: a packet passes exactly when the mode and the configuration are valid, it is an IPv4 packet
  without options, and it is an echo or echo reply to a listed destination, a UDP query to port 53
  at a listed resolver that the window and the name test accept, or TCP or UDP to a listed port of
  a loopback-class address other than ports the program reserves. The destination is read from the
  four octets at offset 16; link-local destinations never pass.
\<close>

theorem kernel_packet_pass_iff:
  "k_kind (fst (kernel_packet packet maps mode window now)) = K_PASS \<longleftrightarrow>
     mode \<in> {''observe'', ''enforce''} \<and> cfg_ok maps \<and> 20 \<le> length packet \<and> byte_at packet 0 = 0x45
     \<and> (let dest = v4_addr (be32 packet 16); protocol = byte_at packet 9; dport = be16 packet 22 in
        (protocol = 1 \<and> 21 \<le> length packet \<and> byte_at packet 20 \<in> {0, 8}
           \<and> v4_class (be32 packet 16) \<noteq> ''link_local'' \<and> on_list dest (km_icmp_destinations maps))
        \<or> (protocol = 17 \<and> dport = 53 \<and> 40 \<le> length packet \<and> be16 packet 32 = 1
           \<and> v4_class (be32 packet 16) \<noteq> ''link_local'' \<and> on_list dest (km_resolvers maps)
           \<and> (\<exists>name w. parse_name packet 40 (km_max_label maps) = Inr name \<and> window = Some w
                \<and> fst (window_hit now (km_window_ns maps) (km_max_queries maps) w) = ''ok''
                \<and> fst (name_verdict name maps) = ''policy_permits''))
        \<or> ((protocol = 17 \<and> dport \<noteq> 53 \<or> protocol = 6 \<and> dport \<notin> {53, 80}) \<and> 24 \<le> length packet
           \<and> v4_class (be32 packet 16) = ''loopback'' \<and> int dport \<in> set (km_ports maps)))"
  by (rule kernel_packet_pass)

text \<open>
  A connect passes exactly when mode, configuration, protocol and port are valid, the address is
  canonical, and it is port 53 of a listed resolver or a listed port of a loopback-class address.
\<close>

theorem kernel_connect_pass_iff:
  "k_kind (kernel_connect destination port protocol maps mode) = K_PASS \<longleftrightarrow>
     mode \<in> {''observe'', ''enforce''} \<and> cfg_ok maps \<and> protocol \<in> {''tcp'', ''udp''} \<and>
     (\<exists>p a. port = PInt p \<and> 0 \<le> p \<and> p \<le> 65535 \<and> parse_address destination = Some a
        \<and> (p = 53 \<and> on_list a (km_resolvers maps)
           \<or> address_class a = ''loopback'' \<and> p \<in> set (km_ports maps)))"
  by (auto simp: kernel_connect_def Let_def split: pyval.splits option.splits)

text \<open>
  The connect hook looks at the resolver list before the address class, so a listed link-local
  address passes on port 53, although the address is of the link-local class and the packet path
  refuses the query that follows.
\<close>

theorem kernel_connect_link_local:
  "k_action (kernel_connect (PStr ''169.254.1.1'') (PInt 53) ''udp'' sample_maps ''enforce'') = ''ALLOW''
   \<and> map_option address_class (parse_address (PStr ''169.254.1.1'')) = Some ''link_local''
   \<and> k_reason (fst (kernel_packet link_local_query sample_maps ''enforce''
        (Some \<lparr>start_ns = 0, hit_count = 0\<rparr>) 5)) = ''link_local_not_allowed''"
  by code_simp

text \<open>
  The packet program takes a compression pointer as an offset into the packet, not into the DNS
  message, which starts 28 bytes later. The query below ends its name with a pointer: the program
  reads \<open>corp.test\<close> and lets it pass, while the message asks for \<open>corp.test.ev\<close>, which no listed
  name matches, as the userspace walk and matcher find.
\<close>

theorem kernel_pointer_base:
  "k_action (fst (kernel_packet pointer_query sample_maps ''enforce''
       (Some \<lparr>start_ns = 0, hit_count = 0\<rparr>) 5)) = ''ALLOW''
   \<and> parse_name pointer_query 40 40 = Inr ''corp.test''
   \<and> bind_res (parse_question (drop 28 pointer_query))
        (\<lambda>q. Inr (case labels_text (q_labels q) of Inl _ \<Rightarrow> None | Inr ls \<Rightarrow> Some ls))
      = Inr (Some [''corp'', ''test'', ''ev''])
   \<and> longest_match [''corp'', ''test'', ''ev''] [[''corp'', ''test'']] = None"
  by code_simp

text \<open>
  C37: the fixed window lets through at most twice its cap in any interval of the window's length,
  from any state within its cap, for positive stamps in order (a start of 0 means unset). The
  userspace gate's bound is the cap itself.
\<close>

theorem kernel_window_twice_cap:
  assumes "sorted ts" "\<forall>t \<in> set ts. 0 < t" "0 < window" "1 \<le> cap" "window_inv cap w"
  shows "int (oks_within (T - window) T (window_oks window cap ts w)) \<le> 2 * cap"
  by (rule window_oks_rate [OF assms])

theorem kernel_window_twice_cap_witness:
  "window_oks 10 2 [1, 9, 10, 11, 12, 13] \<lparr>start_ns = 0, hit_count = 0\<rparr> = [1, 9, 11, 12]
   \<and> int (oks_within (15 - 10) 15 (window_oks 10 2 [1, 9, 10, 11, 12, 13] \<lparr>start_ns = 0, hit_count = 0\<rparr>)) \<le> 2 * 2"
proof -
  have "window_oks 10 2 [1, 9, 10, 11, 12, 13] \<lparr>start_ns = 0, hit_count = 0\<rparr> = [1, 9, 11, 12]" by code_simp
  moreover have "window_inv 2 \<lparr>start_ns = 0, hit_count = 0\<rparr>" by (simp add: window_inv_def)
  ultimately show ?thesis
    using kernel_window_twice_cap [of "[1, 9, 10, 11, 12, 13]" 10 2 "\<lparr>start_ns = 0, hit_count = 0\<rparr>" 15]
    by simp
qed

text \<open>
  On an uncompressed query within the program's limits (at most 8 labels, each within the label
  cap and made of letters, digits, hyphens and underscores) the name the packet program reads is
  the text of the labels the userspace walk reads at the same place, and its verdict on it is the
  longest-match verdict on those labels.
\<close>

theorem kernel_name_walk_agrees:
  assumes "packet = pre @ encode_labels (map ascii_bytes ls) @ rest" "length pre = 40"
    and "\<forall>l \<in> set ls. 1 \<le> length l \<and> length l \<le> 63 \<and> int (length l) \<le> km_max_label maps \<and> list_all ldh l"
    and "ls \<noteq> []" "length ls \<le> 8" "wire_octets (map ascii_bytes ls) + 1 \<le> 255"
    and "map ascii_fold (km_names maps) = map name_text listed"
    and "\<forall>i \<in> set listed. dotted_name i \<and> length (name_text i) \<le> 63" "1 \<le> km_max_label maps"
  shows "\<exists>name n steps labels. parse_name packet 40 (km_max_label maps) = Inr name
    \<and> read_name packet 40 0 = Inr (n, steps) \<and> labels_text (name_labels n) = Inr labels
    \<and> name = name_text labels
    \<and> fst (name_verdict name maps) =
        label_verdict labels listed (km_max_label maps) (km_entropy_min_length maps)"
proof -
  let ?ls = "map ascii_bytes ls" and ?labels = "map ascii_fold ls"
  have k: "parse_name packet 40 (km_max_label maps) = Inr (name_text ?labels)"
    using parse_name_encode [OF assms(3,5), of 40 pre rest] assms(1,2) by simp
  have "wire_name_wf ?ls" using assms(3,6) by (auto simp: wire_name_wf_def)
  then have u: "read_name packet 40 0 =
      Inr (\<lparr>name_labels = ?ls, name_end = length pre + (wire_octets ?ls + 1)\<rparr>, 0 + length ?ls + 1)"
    unfolding assms(1) by (rule read_name_encode) (use assms in auto)
  have "labels_text (map ascii_bytes xs) = Inr (map ascii_fold xs)"
    if "\<forall>l \<in> set xs. 1 \<le> length l \<and> length l \<le> 63 \<and> list_all ldh l" for xs
    using that by (induction xs) (auto simp: ascii_bytes_eq_Nil wire_ldh_label list_ex_iff)
  then have t: "labels_text ?ls = Inr ?labels" using assms(3) by blast
  have "dotted_name ?labels" using assms(3,4) by (auto simp: dotted_name_def dest: ldh_no_dot)
  from name_verdict_labels [OF this assms(7-9)] k u t show ?thesis by simp
qed

theorem kernel_name_walk_agrees_witness:
  "\<exists>name n steps labels. parse_name (replicate 40 0 @ encode_labels (map ascii_bytes [''Api'', ''corp'', ''test''])) 40
        (km_max_label sample_maps) = Inr name
    \<and> read_name (replicate 40 0 @ encode_labels (map ascii_bytes [''Api'', ''corp'', ''test''])) 40 0 = Inr (n, steps)
    \<and> labels_text (name_labels n) = Inr labels \<and> name = name_text labels
    \<and> fst (name_verdict name sample_maps) =
        label_verdict labels [[''corp'', ''test'']] (km_max_label sample_maps) (km_entropy_min_length sample_maps)"
proof (rule kernel_name_walk_agrees)
  show "replicate 40 0 @ encode_labels (map ascii_bytes [''Api'', ''corp'', ''test'']) =
      replicate 40 0 @ encode_labels (map ascii_bytes [''Api'', ''corp'', ''test'']) @ []" by simp
qed code_simp+

end
