(* ===== verification/T5_Loader.thy ===== *)
theory T5_Loader
  imports T5_Kernel
begin

text \<open>
  \<open>t5_kernel/loader.py\<close>: the host gate in front of the \<open>bpf\<close> call. The seal values of
  \<open>pe_canonical_seal.py\<close>, the environment variable \<open>VANTIO_PARTNER_MARKERS\<close> and the caller's
  \<open>bpf_call\<close> are arguments. The dictionary \<open>attach_decision\<close> returns is an association list.
\<close>

section \<open>Definitions\<close>

definition LAB_PROJECT :: string where "LAB_PROJECT = ''vantio-lab-oct08''"
definition HOST_CLASS :: string where "HOST_CLASS = ''vantio-owned''"
definition CGROUP_PREFIX :: string where "CGROUP_PREFIX = ''/sys/fs/cgroup/vantio-t5-lab.slice/''"

definition FORBIDDEN_CGROUPS :: "string list" where
  "FORBIDDEN_CGROUPS =
     [''/sys/fs/cgroup'', ''/sys/fs/cgroup/'', ''/sys/fs/cgroup/system.slice'',
      ''/sys/fs/cgroup/user.slice'', ''/sys/fs/cgroup/vantio-enrolled.slice'',
      ''/sys/fs/cgroup/vantio.slice/vantio-enrolled.slice'']"

record AttachRequest =
  ar_host_class :: string
  ar_project :: string
  ar_cgroup :: string
  ar_hostname :: string
  ar_seal :: string
  ar_public_pin :: string
  ar_execute :: bool
  ar_maps :: "KernelMaps option"

text \<open>Little-endian fields of a \<open>struct\<close> format.\<close>

fun le_bytes :: "nat \<Rightarrow> nat \<Rightarrow> bytes" where
  "le_bytes 0 v = []"
| "le_bytes (Suc n) v = of_nat (v mod 256) # le_bytes n (v div 256)"

fun le_value :: "bytes \<Rightarrow> nat" where
  "le_value [] = 0"
| "le_value (b # bs) = unat b + 256 * le_value bs"

definition pack_field :: "nat \<Rightarrow> int \<Rightarrow> string + bytes" where
  "pack_field n v =
     (if 0 \<le> v \<and> v < 256 ^ n then Inr (le_bytes n (nat v)) else Inl ''struct.error'')"

definition pack_cfg :: "KernelMaps \<Rightarrow> string + bytes" where
  "pack_cfg maps =
     bind_res (pack_field 8 (km_window_ns maps)) (\<lambda>window.
     bind_res (map_res (pack_field 4)
         [(if km_enforce maps then 1 else 0), km_max_label maps, km_max_queries maps,
          km_entropy_min_length maps, km_entropy_userspace maps, int (length (km_names maps)),
          int (length (km_resolvers maps)), int (length (km_icmp_destinations maps)),
          int (length (km_ports maps)), 0]) (\<lambda>fields.
       Inr (window @ concat fields)))"

text \<open>The white space \<open>str.strip()\<close> removes, below code point 256.\<close>

definition py_space :: string where
  "py_space = map char_of ([9..<14] @ [28..<33] @ [133, 160 :: nat])"

definition partner_markers :: "string \<Rightarrow> string list" where
  "partner_markers raw =
     map (\<lambda>item. py_lower (py_strip py_space item))
       (filter (\<lambda>item. py_strip py_space item \<noteq> []) (py_split (CHR '','') raw))"

definition dirty :: "string \<Rightarrow> string list \<Rightarrow> bool" where
  "dirty env values =
     list_ex (\<lambda>value. list_ex (\<lambda>marker. sublist marker (py_lower value)) (partner_markers env)) values"

definition refusal :: "string \<Rightarrow> string \<Rightarrow> string \<Rightarrow> AttachRequest \<Rightarrow> string option" where
  "refusal lane_seal pin env request =
     (if dirty env [ar_host_class request, ar_project request, ar_cgroup request,
                    ar_hostname request, ar_seal request] then Some ''partner''
      else if ar_host_class request \<noteq> HOST_CLASS then Some ''host_class''
      else if ar_project request \<noteq> LAB_PROJECT then Some ''project''
      else
        (let cgroup = ar_cgroup request in
         if cgroup \<in> set FORBIDDEN_CGROUPS \<or> \<not> prefix CGROUP_PREFIX cgroup then Some ''cgroup''
         else if py_rstrip ''/'' cgroup = py_rstrip ''/'' CGROUP_PREFIX then Some ''cgroup''
         else
           (let leaf = drop (length CGROUP_PREFIX) cgroup in
            if leaf = [] \<or> CHR ''/'' \<in> set leaf \<or> leaf \<in> {''.'', ''..''} then Some ''cgroup''
            else if ar_public_pin request \<noteq> [] \<and> ar_public_pin request \<noteq> pin
            then Some ''public_pin''
            else if ar_seal request \<noteq> [] \<and> ar_seal request \<noteq> lane_seal then Some ''seal''
            else if ar_seal request = pin then Some ''seal''
            else
              (case ar_maps request of
                 None \<Rightarrow> Some ''entropy_userspace''
               | Some maps \<Rightarrow>
                   if km_entropy_userspace maps \<noteq> 1 then Some ''entropy_userspace'' else None))))"

definition attach_decision ::
  "string \<Rightarrow> string \<Rightarrow> string \<Rightarrow> AttachRequest \<Rightarrow> (AttachRequest \<Rightarrow> pyval) option
     \<Rightarrow> (string \<times> pyval) list" where
  "attach_decision lane_seal pin env request bpf_call =
     (case refusal lane_seal pin env request of
        Some rsn \<Rightarrow>
          [(''attached'', PBool False), (''reason'', PStr rsn), (''label'', PStr ''Roadmap''),
           (''bpf_calls'', PInt 0), (''project'', PStr LAB_PROJECT)]
      | None \<Rightarrow>
          if \<not> ar_execute request then
            [(''attached'', PBool False), (''reason'', PStr ''not_dispatched''),
             (''label'', PStr ''Roadmap''), (''bpf_calls'', PInt 0), (''project'', PStr LAB_PROJECT)]
          else
            (case bpf_call of
               None \<Rightarrow>
                 [(''attached'', PBool False), (''reason'', PStr ''syscall_not_issued''),
                  (''label'', PStr ''Roadmap''), (''bpf_calls'', PInt 0),
                  (''project'', PStr LAB_PROJECT)]
             | Some call \<Rightarrow>
                 (let loaded = (case call request of
                                  PDict d \<Rightarrow> dict_get d ''loaded'' = PBool True
                                | _ \<Rightarrow> False)
                  in [(''attached'', PBool loaded), (''reason'', PStr ''load_attempted''),
                      (''label'', PStr (if loaded then ''Lab-only'' else ''Roadmap'')),
                      (''bpf_calls'', PInt 1), (''verifier'', PStr ''caller_reported''),
                      (''project'', PStr LAB_PROJECT)])))"

text \<open>What the gate promises of a request it lets through.\<close>

definition lab_request :: "string \<Rightarrow> string \<Rightarrow> AttachRequest \<Rightarrow> bool" where
  "lab_request lane_seal pin request =
     (ar_host_class request = HOST_CLASS \<and> ar_project request = LAB_PROJECT
      \<and> (\<exists>leaf. ar_cgroup request = CGROUP_PREFIX @ leaf \<and> leaf \<noteq> [] \<and> CHR ''/'' \<notin> set leaf
           \<and> leaf \<noteq> ''.'' \<and> leaf \<noteq> ''..'')
      \<and> ar_seal request \<in> {[], lane_seal} - {pin} \<and> ar_public_pin request \<in> {[], pin}
      \<and> (\<exists>maps. ar_maps request = Some maps \<and> km_entropy_userspace maps = 1))"

section \<open>Lemmas\<close>

lemma length_le_bytes [simp]: "length (le_bytes n v) = n"
  by (induction n arbitrary: v) simp_all

lemma le_value_le_bytes: "v < 256 ^ n \<Longrightarrow> le_value (le_bytes n v) = v"
proof (induction n arbitrary: v)
  case (Suc n)
  then have "v div 256 < 256 ^ n" by (simp add: less_mult_imp_div_less)
  with Suc.IH show ?case by (simp add: unat_of_nat)
qed simp

lemma pack_field_Inr:
  "pack_field n v = Inr bs \<Longrightarrow> length bs = n \<and> int (le_value bs) = v \<and> 0 \<le> v \<and> v < 256 ^ n"
  using le_value_le_bytes [of "nat v" n] nat_less_iff [of v "256 ^ n"]
  by (auto simp: pack_field_def split: if_splits)

lemma map_pack_field_Inr:
  "map_res (pack_field n) vs = Inr fs \<Longrightarrow>
     length fs = length vs \<and> (\<forall>f \<in> set fs. length f = n) \<and> map (\<lambda>f. int (le_value f)) fs = vs"
proof (induction vs arbitrary: fs)
  case (Cons v vs)
  then obtain f gs where "pack_field n v = Inr f" "map_res (pack_field n) vs = Inr gs" "fs = f # gs"
    by (auto simp: bind_res_Inr_iff)
  with Cons.IH pack_field_Inr [of n v f] show ?case by auto
qed simp

lemma slice_concat:
  assumes "\<forall>f \<in> set fs. length f = n" "i < length fs"
  shows "py_slice (concat fs) (n * i) (n * i + n) = fs ! i"
  using assms
proof (induction fs arbitrary: i)
  case (Cons f fs)
  then show ?case
  proof (cases i)
    case (Suc j)
    have "py_slice (f @ concat fs) (n * Suc j) (n * Suc j + n) = py_slice (concat fs) (n * j) (n * j + n)"
      using Cons.prems(1) by (simp add: py_slice_def)
    with Cons Suc show ?thesis by simp
  qed (simp add: py_slice_def)
qed simp

lemma leaf_cgroup:
  assumes "leaf \<noteq> []" "CHR ''/'' \<notin> set leaf"
  shows "CGROUP_PREFIX @ leaf \<notin> set FORBIDDEN_CGROUPS"
    and "py_rstrip ''/'' (CGROUP_PREFIX @ leaf) \<noteq> py_rstrip ''/'' CGROUP_PREFIX"
proof -
  have "\<forall>c \<in> set FORBIDDEN_CGROUPS. \<not> prefix CGROUP_PREFIX c" by code_simp
  then show "CGROUP_PREFIX @ leaf \<notin> set FORBIDDEN_CGROUPS" by auto
  have "last leaf \<noteq> CHR ''/''" using assms last_in_set by metis
  then have "last (CGROUP_PREFIX @ leaf) \<notin> set ''/''" using assms(1) by simp
  then have "py_rstrip ''/'' (CGROUP_PREFIX @ leaf) = CGROUP_PREFIX @ leaf"
    by (intro py_rstrip_no_strip) simp
  moreover have "length (py_rstrip ''/'' CGROUP_PREFIX) < length CGROUP_PREFIX" by code_simp
  ultimately show "py_rstrip ''/'' (CGROUP_PREFIX @ leaf) \<noteq> py_rstrip ''/'' CGROUP_PREFIX"
    by (metis length_append less_irrefl_nat not_add_less1)
qed

lemma refusal_None_iff:
  "refusal lane_seal pin env request = None \<longleftrightarrow>
     lab_request lane_seal pin request
     \<and> \<not> dirty env [ar_host_class request, ar_project request, ar_cgroup request,
                      ar_hostname request, ar_seal request]"
proof (cases "prefix CGROUP_PREFIX (ar_cgroup request)")
  case False
  then show ?thesis by (auto simp: refusal_def lab_request_def Let_def)
next
  case True
  then obtain leaf where leaf: "ar_cgroup request = CGROUP_PREFIX @ leaf" by (auto simp: prefix_def)
  show ?thesis
  proof (cases "leaf = [] \<or> CHR ''/'' \<in> set leaf")
    case True
    then show ?thesis by (auto simp: refusal_def lab_request_def Let_def leaf)
  next
    case False
    with leaf_cgroup [of leaf] show ?thesis
      by (auto simp: refusal_def lab_request_def Let_def leaf split: option.split)
  qed
qed

section \<open>Properties\<close>

text \<open>
  The configuration record, when its fields fit the structure, has 48 bytes and holds the
  window in the first eight and the ten 32-bit fields, in order, in little-endian form; otherwise
  packing raises.
\<close>

theorem pack_cfg_layout:
  assumes "pack_cfg maps = Inr bs"
  shows "length bs = 48 \<and> int (le_value (py_slice bs 0 8)) = km_window_ns maps
    \<and> (\<forall>i < 10. int (le_value (py_slice bs (8 + 4 * i) (8 + 4 * i + 4))) =
         [(if km_enforce maps then 1 else 0), km_max_label maps, km_max_queries maps,
          km_entropy_min_length maps, km_entropy_userspace maps, int (length (km_names maps)),
          int (length (km_resolvers maps)), int (length (km_icmp_destinations maps)),
          int (length (km_ports maps)), 0] ! i)"
proof -
  let ?vs = "[(if km_enforce maps then 1 else 0), km_max_label maps, km_max_queries maps,
          km_entropy_min_length maps, km_entropy_userspace maps, int (length (km_names maps)),
          int (length (km_resolvers maps)), int (length (km_icmp_destinations maps)),
          int (length (km_ports maps)), 0]"
  obtain w fs where w: "pack_field 8 (km_window_ns maps) = Inr w"
    and fs: "map_res (pack_field 4) ?vs = Inr fs" and bs: "bs = w @ concat fs"
    using assms unfolding pack_cfg_def bind_res_Inr_iff by auto
  note wf = pack_field_Inr [OF w] and ff = map_pack_field_Inr [OF fs]
  have len: "length fs = 10" using ff by simp
  have "length (concat fs) = (\<Sum>f\<leftarrow>fs. 4)"
    using ff by (simp add: length_concat cong: map_cong)
  then have "length bs = 48" using len wf bs by (simp add: sum_list_triv)
  moreover have "py_slice bs 0 8 = w" using wf bs by (simp add: py_slice_def)
  moreover have "int (le_value (py_slice bs (8 + 4 * i) (8 + 4 * i + 4))) = ?vs ! i" if "i < 10" for i
  proof -
    have "py_slice bs (8 + 4 * i) (8 + 4 * i + 4) = py_slice (concat fs) (4 * i) (4 * i + 4)"
      using wf bs by (simp add: py_slice_def)
    also have "\<dots> = fs ! i" using slice_concat [of fs 4 i] ff len that by simp
    finally show ?thesis using ff len that by (metis (no_types, lifting) nth_map)
  qed
  ultimately show ?thesis using wf by blast
qed

text \<open>
  The gate opens for a lab request only. The \<open>bpf\<close> call is issued exactly when the caller
  asked for execution, passed a call, no value carries a partner marker, and the request is for
  the lab: host class, project, a leaf directly below the lab slice, no other seal than the lane's
  and never the public pin, and a configuration that leaves the entropy to userspace. Without the
  call nothing is reported as attached.
\<close>

theorem attach_only_lab:
  "dict_get (attach_decision lane_seal pin env request bpf_call) ''bpf_calls'' =
     PInt (if lab_request lane_seal pin request \<and> ar_execute request \<and> bpf_call \<noteq> None
              \<and> \<not> dirty env [ar_host_class request, ar_project request, ar_cgroup request,
                              ar_hostname request, ar_seal request] then 1 else 0)
   \<and> (dict_get (attach_decision lane_seal pin env request bpf_call) ''attached'' = PBool True \<longleftrightarrow>
        dict_get (attach_decision lane_seal pin env request bpf_call) ''bpf_calls'' = PInt 1
        \<and> (\<exists>call d. bpf_call = Some call \<and> call request = PDict d \<and> dict_get d ''loaded'' = PBool True))"
proof (cases "refusal lane_seal pin env request")
  case None
  then show ?thesis
    unfolding refusal_None_iff
    using None by (auto simp: attach_decision_def Let_def split: option.split pyval.splits)
next
  case (Some r)
  then have "\<not> (lab_request lane_seal pin request \<and> \<not> dirty env [ar_host_class request,
      ar_project request, ar_cgroup request, ar_hostname request, ar_seal request])"
    using refusal_None_iff [of lane_seal pin env request] by simp
  then show ?thesis using Some by (auto simp: attach_decision_def)
qed

theorem pack_cfg_layout_witness:
  "let maps = \<lparr>km_enforce = True, km_max_label = 40, km_max_queries = 5, km_entropy_min_length = 16,
        km_entropy_userspace = 1, km_window_ns = 10000000000, km_names = [''corp.test''],
        km_resolvers = [], km_icmp_destinations = [], km_ports = [8080]\<rparr>
   in \<exists>bs. pack_cfg maps = Inr bs \<and> length bs = 48 \<and> int (le_value (py_slice bs 0 8)) = km_window_ns maps"
proof -
  let ?maps = "\<lparr>km_enforce = True, km_max_label = 40, km_max_queries = 5, km_entropy_min_length = 16,
        km_entropy_userspace = 1, km_window_ns = 10000000000, km_names = [''corp.test''],
        km_resolvers = [], km_icmp_destinations = [], km_ports = [8080]\<rparr>"
  have "\<exists>bs. pack_cfg ?maps = Inr bs"
    by (simp add: pack_cfg_def pack_field_def)
  then obtain bs where bs: "pack_cfg ?maps = Inr bs" by blast
  from pack_cfg_layout [OF bs] bs show ?thesis unfolding Let_def by blast
qed

end
