(* ===== verification/Install_State.thy ===== *)
theory Install_State
  imports Py_Base
begin

text \<open>
  \<open>vantio_install/state_machine.py\<close>, \<open>errors.py\<close> and the transaction helpers \<open>_new_tx\<close>, \<open>_move\<close>,
  \<open>_exit_for\<close> and \<open>_require_yes\<close> of \<open>engine.py\<close>: the transaction record, its legal transitions
  and the exit code of each state. An \<open>InstallError\<close> is a value; \<open>Inl\<close> means it was raised. The
  digests, directories and proof labels that no command changes are left out of the record.
\<close>

section \<open>Definitions\<close>

record InstallError =
  err_message :: string
  err_exit_code :: int
  err_state :: string
  err_failure_class :: "string option"

definition install_error :: "string \<Rightarrow> int \<Rightarrow> string \<Rightarrow> InstallError" where
  "install_error msg code st =
     \<lparr>err_message = msg, err_exit_code = code, err_state = st, err_failure_class = None\<rparr>"

definition TRANSITIONS :: "(string \<times> string list) list" where
  "TRANSITIONS =
     [(''CREATED'', [''PREFLIGHTING'']),
      (''PREFLIGHTING'', [''PREFLIGHT_READY'', ''PREFLIGHT_READY_WITH_LIMITATIONS'',
         ''PREFLIGHT_BLOCKED'', ''UNSUPPORTED'', ''FAILED_SAFE'', ''INTERRUPTED'']),
      (''PREFLIGHT_READY'', [''PLANNED'', ''APPLYING'']),
      (''PREFLIGHT_READY_WITH_LIMITATIONS'', [''PLANNED'', ''APPLYING'']),
      (''PREFLIGHT_BLOCKED'', [''PREFLIGHTING'', ''CREATED'']),
      (''UNSUPPORTED'', []),
      (''PLANNED'', [''APPLYING'', ''CREATED'']),
      (''APPLYING'', [''APPLIED'', ''FAILED_SAFE'', ''INTERRUPTED'', ''ROLLING_BACK'']),
      (''APPLIED'', [''HEALTHY'', ''DEGRADED'', ''FAILED_SAFE'', ''INTERRUPTED'']),
      (''HEALTHY'', [''ROLLING_BACK'', ''UNINSTALLING'', ''DEGRADED'']),
      (''DEGRADED'', [''ROLLING_BACK'', ''UNINSTALLING'', ''HEALTHY'']),
      (''FAILED_SAFE'', [''ROLLING_BACK'', ''UNINSTALLING'', ''CREATED'']),
      (''ROLLING_BACK'', [''ROLLED_BACK'', ''FAILED_SAFE'', ''INTERRUPTED'']),
      (''ROLLED_BACK'', [''VERIFYING_REMOVAL'', ''CREATED'']),
      (''UNINSTALLING'', [''UNINSTALLED'', ''FAILED_SAFE'', ''INTERRUPTED'']),
      (''UNINSTALLED'', [''VERIFYING_REMOVAL'']),
      (''VERIFYING_REMOVAL'', [''VERIFIED_REMOVED'', ''RESIDUAL_PRESENT'', ''RESIDUAL_FOUND'', ''FAILED_SAFE'']),
      (''VERIFIED_REMOVED'', [''VERIFYING_REMOVAL'']),
      (''RESIDUAL_PRESENT'', [''VERIFYING_REMOVAL'', ''ROLLING_BACK'', ''UNINSTALLING'']),
      (''RESIDUAL_FOUND'', [''VERIFYING_REMOVAL'', ''ROLLING_BACK'', ''UNINSTALLING'']),
      (''INTERRUPTED'', [''APPLYING'', ''ROLLING_BACK'', ''UNINSTALLING'', ''FAILED_SAFE'', ''PREFLIGHTING''])]"

definition RESIDUAL_STATES :: "string list" where
  "RESIDUAL_STATES = [''RESIDUAL_FOUND'', ''RESIDUAL_PRESENT'']"

definition TRANSIENT :: "string list" where
  "TRANSIENT = [''PREFLIGHTING'', ''APPLYING'', ''ROLLING_BACK'', ''UNINSTALLING'', ''VERIFYING_REMOVAL'']"

definition SUCCESS_INSTALL_STATES :: "string list" where
  "SUCCESS_INSTALL_STATES = [''HEALTHY'', ''DEGRADED'']"

definition transition :: "string \<Rightarrow> string \<Rightarrow> InstallError + unit" where
  "transition current target =
     (case map_of TRANSITIONS current of
        None \<Rightarrow> Inl (install_error
          (''Cannot move transaction from '' @ current @ '' to '' @ target @ ''.'') 10
          (if current = [] then ''FAILED_SAFE'' else current))
      | Some allowed \<Rightarrow>
          if target \<notin> set allowed
          then Inl (install_error
            (''Cannot move transaction from '' @ current @ '' to '' @ target @ ''.'') 10
            (if current = [] then ''FAILED_SAFE'' else current))
          else Inr ())"

definition APPLY_STEPS :: "string list" where
  "APPLY_STEPS =
     [''verify_artifacts'', ''ensure_node'', ''install_optics_cli'', ''install_agent_sdks'',
      ''stage_pe_archive'', ''docker_load'', ''write_observe_config'', ''install_boot_hold'',
      ''start_pe_observe'', ''mark_applied'', ''collect_health'', ''write_support_index'']"

definition HOST_MUTATION_STEPS :: "string list" where
  "HOST_MUTATION_STEPS =
     [''install_optics_cli'', ''install_agent_sdks'', ''stage_pe_archive'', ''docker_load'',
      ''write_observe_config'', ''install_boot_hold'', ''start_pe_observe'']"

record Tx =
  tx_state :: string
  state_history :: "(string \<times> string \<times> string) list"
  updated_at :: string
  bundle_digest :: string
  config_digest :: string
  completed_steps :: "string list"
  rollback_completed_steps :: "string list"
  rollback_required_steps :: "string list"
  mutation_in_progress :: bool
  owner_pid :: "int option"
  host_mutation_count :: int
  tx_replayed :: bool
  health_overall :: string
  tx_limitations :: "string list"
  phase :: string
  last_error :: "string option"
  tx_scope :: "string option"
  preflight_status :: "string option"
  live_failure_class :: "string option"

definition new_tx :: "string \<Rightarrow> string \<Rightarrow> string \<Rightarrow> Tx" where
  "new_tx stamp digest cfg_digest =
     \<lparr>tx_state = ''CREATED'', state_history = [], updated_at = stamp, bundle_digest = digest,
      config_digest = cfg_digest, completed_steps = [], rollback_completed_steps = [],
      rollback_required_steps = [], mutation_in_progress = False, owner_pid = None,
      host_mutation_count = 0, tx_replayed = False, health_overall = ''UNKNOWN'',
      tx_limitations = [], phase = ''created'', last_error = None, tx_scope = None,
      preflight_status = None, live_failure_class = None\<rparr>"

definition move :: "Tx \<Rightarrow> string \<Rightarrow> string \<Rightarrow> InstallError + Tx" where
  "move tx target stamp =
     bind_res (transition (tx_state tx) target) (\<lambda>_.
       Inr (tx\<lparr>state_history := state_history tx @ [(tx_state tx, target, stamp)],
               tx_state := target, updated_at := stamp\<rparr>))"

definition exit_for :: "string \<Rightarrow> int" where
  "exit_for st =
     (if st \<in> {''PLANNED'', ''HEALTHY'', ''DEGRADED'', ''ROLLED_BACK'', ''UNINSTALLED'',
              ''VERIFIED_REMOVED'', ''PREFLIGHT_READY'', ''PREFLIGHT_READY_WITH_LIMITATIONS''} then 0
      else if st \<in> {''PREFLIGHT_BLOCKED'', ''RESIDUAL_PRESENT'', ''RESIDUAL_FOUND''} then 2
      else if st = ''UNSUPPORTED'' then 3
      else if st = ''FAILED_SAFE'' then 4
      else if st \<in> set TRANSIENT \<or> st \<in> {''INTERRUPTED'', ''APPLIED'', ''CREATED''} then 5
      else 4)"

definition require_yes :: "bool \<Rightarrow> string \<Rightarrow> InstallError + unit" where
  "require_yes yes act =
     (if yes then Inr ()
      else Inl (install_error (act @ '' needs --yes in this non-interactive Stage A installer.'') 10
                 ''FAILED_SAFE''))"

section \<open>The state machine as a step relation\<close>

definition legal :: "string \<Rightarrow> string \<Rightarrow> bool" where
  "legal s t = (transition s t = Inr ())"

inductive reach :: "string \<Rightarrow> string list \<Rightarrow> string \<Rightarrow> bool" where
  start: "reach s [] s"
| hop: "reach s visited t \<Longrightarrow> legal t u \<Longrightarrow> reach s (visited @ [u]) u"

inductive_cases reach_nonemptyE: "reach s (visited @ [u]) t"

text \<open>A transaction's history is a chain of legal hops from \<open>CREATED\<close> to its state.\<close>

fun chain :: "string \<Rightarrow> (string \<times> string \<times> string) list \<Rightarrow> string \<Rightarrow> bool" where
  "chain s [] t = (s = t)"
| "chain s ((a, b, stamp) # rest) t = (s = a \<and> legal a b \<and> chain b rest t)"

definition history_ok :: "Tx \<Rightarrow> bool" where
  "history_ok tx = chain ''CREATED'' (state_history tx) (tx_state tx)"

section \<open>Lemmas\<close>

lemma move_Inr: "move tx t stamp = Inr tx' \<longleftrightarrow> legal (tx_state tx) t \<and>
    tx' = tx\<lparr>state_history := state_history tx @ [(tx_state tx, t, stamp)], tx_state := t, updated_at := stamp\<rparr>"
  by (auto simp: move_def bind_res_Inr_iff legal_def)

lemma chain_append: "chain s (xs @ ys) t \<longleftrightarrow> (\<exists>u. chain s xs u \<and> chain u ys t)"
  by (induction s xs t rule: chain.induct) auto

lemma history_ok_new [simp]: "history_ok (new_tx stamp d c)"
  by (simp add: history_ok_def new_tx_def)

lemma history_ok_move: "history_ok tx \<Longrightarrow> move tx t stamp = Inr tx' \<Longrightarrow> history_ok tx'"
  by (auto simp: history_ok_def move_Inr chain_append)

lemma legal_iff: "legal s t \<longleftrightarrow> (\<exists>ts. map_of TRANSITIONS s = Some ts \<and> t \<in> set ts)"
  by (auto simp: legal_def transition_def split: option.splits)

lemma legal_source: "legal a u \<Longrightarrow> a \<in> set (map fst (filter (\<lambda>(_, ts). u \<in> set ts) TRANSITIONS))"
  by (force simp: legal_iff dest: map_of_SomeD)

text \<open>A group of states whose ways in from outside are listed is entered only after one of them
  was visited.\<close>

lemma reach_through:
  assumes "reach s visited t" "s \<notin> targets"
    and "\<And>a u. legal a u \<Longrightarrow> u \<in> targets \<Longrightarrow> a \<notin> targets \<Longrightarrow> a \<in> sources"
    and "t \<in> targets \<or> targets \<inter> set visited \<noteq> {}"
  shows "s \<in> sources \<or> sources \<inter> set visited \<noteq> {}"
  using assms
proof (induction rule: reach.induct)
  case (hop s visited t u)
  show ?case
  proof (cases "t \<in> targets \<or> targets \<inter> set visited \<noteq> {}")
    case False
    then have "u \<in> targets" "t \<notin> targets" using hop.prems by auto
    with hop have "t \<in> sources" by blast
    moreover have "t = s \<or> t \<in> set visited" using hop.hyps(1) by (cases rule: reach.cases) auto
    ultimately show ?thesis by auto
  qed (use hop in auto)
qed auto

lemma entry_sources:
  assumes "\<forall>u \<in> set targets. \<forall>a \<in> set (map fst (filter (\<lambda>(_, ts). u \<in> set ts) TRANSITIONS)).
      a \<in> set targets \<or> a \<in> set sources"
    and "legal a u" "u \<in> set targets" "a \<notin> set targets"
  shows "a \<in> set sources"
  using assms legal_source by blast

lemma chain_reach: "reach s visited t \<Longrightarrow> chain t hops u \<Longrightarrow> \<exists>vs. reach s vs u"
proof (induction hops arbitrary: t visited)
  case (Cons h hops)
  obtain a b st where "h = (a, b, st)" by (cases h)
  with Cons show ?case using reach.hop by fastforce
qed auto

lemma success_entry:
  "legal a u \<Longrightarrow> u \<in> set SUCCESS_INSTALL_STATES \<Longrightarrow> a \<notin> set SUCCESS_INSTALL_STATES \<Longrightarrow> a \<in> set [''APPLIED'']"
  by (rule entry_sources [rotated], assumption+) code_simp

lemma applied_entry:
  "legal a u \<Longrightarrow> u \<in> set [''APPLIED''] \<Longrightarrow> a \<notin> set [''APPLIED''] \<Longrightarrow> a \<in> set [''APPLYING'']"
  by (rule entry_sources [rotated], assumption+) code_simp

lemma removal_entry:
  "legal a u \<Longrightarrow> u \<in> set [''VERIFYING_REMOVAL'', ''VERIFIED_REMOVED'', ''RESIDUAL_PRESENT'', ''RESIDUAL_FOUND''] \<Longrightarrow>
   a \<notin> set [''VERIFYING_REMOVAL'', ''VERIFIED_REMOVED'', ''RESIDUAL_PRESENT'', ''RESIDUAL_FOUND''] \<Longrightarrow>
   a \<in> set [''ROLLED_BACK'', ''UNINSTALLED'']"
  by (rule entry_sources [rotated], assumption+) code_simp

text \<open>A list of hops, each from a state already seen, is a witness of reachability.\<close>

fun grow :: "string list \<Rightarrow> (string \<times> string) list \<Rightarrow> string list option" where
  "grow seen [] = Some seen"
| "grow seen ((a, b) # hops) = (if a \<in> set seen \<and> legal a b then grow (b # seen) hops else None)"

lemma grow_reach:
  "grow seen hops = Some ss \<Longrightarrow> set seen \<subseteq> {s. \<exists>visited. reach c visited s} \<Longrightarrow>
   set ss \<subseteq> {s. \<exists>visited. reach c visited s}"
proof (induction seen hops rule: grow.induct)
  case (2 seen a b hops)
  then have "a \<in> set seen" "legal a b" "grow (b # seen) hops = Some ss" by (auto split: if_splits)
  moreover from this 2 have "\<exists>visited. reach c visited b" using reach.hop by blast
  ultimately show ?case using 2 by auto
qed auto

section \<open>Properties\<close>

text \<open>
  The transition table is closed (every target is a state of the table), \<open>UNSUPPORTED\<close> is its
  only dead end, and every state is reachable from \<open>CREATED\<close>.
\<close>

theorem transitions_closed:
  "set (concat (map snd TRANSITIONS)) \<subseteq> set (map fst TRANSITIONS)
   \<and> {s. map_of TRANSITIONS s = Some []} = {''UNSUPPORTED''}
   \<and> set (map fst TRANSITIONS) \<subseteq> {s. \<exists>visited. reach ''CREATED'' visited s}"
proof (intro conjI)
  show "set (concat (map snd TRANSITIONS)) \<subseteq> set (map fst TRANSITIONS)" by code_simp
  have "\<forall>(s, ts) \<in> set TRANSITIONS. ts = [] \<longrightarrow> s = ''UNSUPPORTED''" by code_simp
  moreover have "map_of TRANSITIONS ''UNSUPPORTED'' = Some []" by code_simp
  ultimately show "{s. map_of TRANSITIONS s = Some []} = {''UNSUPPORTED''}"
    by (auto dest: map_of_SomeD)
  have "\<exists>ss. grow [''CREATED'']
      [(''CREATED'', ''PREFLIGHTING''), (''PREFLIGHTING'', ''PREFLIGHT_READY''),
       (''PREFLIGHTING'', ''PREFLIGHT_READY_WITH_LIMITATIONS''), (''PREFLIGHTING'', ''PREFLIGHT_BLOCKED''),
       (''PREFLIGHTING'', ''UNSUPPORTED''), (''PREFLIGHTING'', ''FAILED_SAFE''), (''PREFLIGHTING'', ''INTERRUPTED''),
       (''PREFLIGHT_READY'', ''PLANNED''), (''PLANNED'', ''APPLYING''), (''APPLYING'', ''APPLIED''),
       (''APPLIED'', ''HEALTHY''), (''APPLIED'', ''DEGRADED''), (''HEALTHY'', ''ROLLING_BACK''),
       (''HEALTHY'', ''UNINSTALLING''), (''ROLLING_BACK'', ''ROLLED_BACK''), (''UNINSTALLING'', ''UNINSTALLED''),
       (''ROLLED_BACK'', ''VERIFYING_REMOVAL''), (''VERIFYING_REMOVAL'', ''VERIFIED_REMOVED''),
       (''VERIFYING_REMOVAL'', ''RESIDUAL_PRESENT''), (''VERIFYING_REMOVAL'', ''RESIDUAL_FOUND'')] = Some ss
     \<and> set (map fst TRANSITIONS) \<subseteq> set ss"
    by (simp add: legal_iff TRANSITIONS_def)
  then obtain ss hops where "grow [''CREATED''] hops = Some ss" "set (map fst TRANSITIONS) \<subseteq> set ss" by blast
  note this(2)
  also have "set ss \<subseteq> {s. \<exists>visited. reach ''CREATED'' visited s}"
    by (rule grow_reach [OF \<open>grow [''CREATED''] hops = Some ss\<close>]) (auto intro: reach.start)
  finally show "set (map fst TRANSITIONS) \<subseteq> {s. \<exists>visited. reach ''CREATED'' visited s}" .
qed

text \<open>
  On every run of legal hops from \<open>CREATED\<close>, a success state comes after \<open>APPLIED\<close> and that after
  \<open>APPLYING\<close>, and a removal verdict comes after a rollback or an uninstall finished.
\<close>

theorem state_order:
  assumes "reach ''CREATED'' visited t"
  shows "(t \<in> set SUCCESS_INSTALL_STATES \<longrightarrow> ''APPLIED'' \<in> set visited \<and> ''APPLYING'' \<in> set visited)
    \<and> (t \<in> {''VERIFIED_REMOVED'', ''RESIDUAL_PRESENT'', ''RESIDUAL_FOUND''} \<longrightarrow>
         ''ROLLED_BACK'' \<in> set visited \<or> ''UNINSTALLED'' \<in> set visited)"
proof (intro conjI impI)
  assume t: "t \<in> set SUCCESS_INSTALL_STATES"
  have "''APPLIED'' \<in> set visited"
    using reach_through [of _ _ t "set SUCCESS_INSTALL_STATES" "set [''APPLIED'']", OF assms] success_entry t
    by (auto simp: SUCCESS_INSTALL_STATES_def)
  then show "''APPLIED'' \<in> set visited" .
  then show "''APPLYING'' \<in> set visited"
    using reach_through [of _ _ t "set [''APPLIED'']" "set [''APPLYING'']", OF assms] applied_entry by auto
next
  assume "t \<in> {''VERIFIED_REMOVED'', ''RESIDUAL_PRESENT'', ''RESIDUAL_FOUND''}"
  then show "''ROLLED_BACK'' \<in> set visited \<or> ''UNINSTALLED'' \<in> set visited"
    using reach_through [of _ _ t
        "set [''VERIFYING_REMOVAL'', ''VERIFIED_REMOVED'', ''RESIDUAL_PRESENT'', ''RESIDUAL_FOUND'']"
        "set [''ROLLED_BACK'', ''UNINSTALLED'']", OF assms _ removal_entry] by auto
qed

theorem state_order_witness:
  "''APPLIED'' \<in> set [''PREFLIGHTING'', ''PREFLIGHT_READY'', ''PLANNED'', ''APPLYING'', ''APPLIED'', ''HEALTHY'']
   \<and> reach ''CREATED'' [''PREFLIGHTING'', ''PREFLIGHT_READY'', ''PLANNED'', ''APPLYING'', ''APPLIED'', ''HEALTHY''] ''HEALTHY''"
proof -
  have hops: "legal ''CREATED'' ''PREFLIGHTING''" "legal ''PREFLIGHTING'' ''PREFLIGHT_READY''"
    "legal ''PREFLIGHT_READY'' ''PLANNED''" "legal ''PLANNED'' ''APPLYING''"
    "legal ''APPLYING'' ''APPLIED''" "legal ''APPLIED'' ''HEALTHY''" by code_simp+
  note r = reach.start [of "''CREATED''", THEN reach.hop, OF hops(1), THEN reach.hop, OF hops(2), THEN reach.hop, OF hops(3),
      THEN reach.hop, OF hops(4), THEN reach.hop, OF hops(5), THEN reach.hop, OF hops(6)]
  from state_order [OF r] r show ?thesis by (simp add: SUCCESS_INSTALL_STATES_def)
qed

end
