(* ===== verification/Install_Health.thy ===== *)
theory Install_Health
  imports Py_Base
begin

text \<open>
  \<open>vantio_install/observe_health.py\<close> and \<open>health.py\<close>: the readiness contract of the observe
  container and the derivation of the health report from a host snapshot. A snapshot is a record
  with the fields the installer reads, of the types \<open>host.py\<close> and the mutators write; an absent
  optional field is \<^const>\<open>None\<close>. The configuration fields are the texts after \<open>str(...)\<close> and the
  defaults.
\<close>

section \<open>Data\<close>

record ContainerRow =
  cr_name :: string
  cr_role :: string
  cr_status :: string
  cr_cmd :: "string list"
  cr_enforce :: bool

record ImageRow =
  im_tag :: string
  im_digest :: string
  im_role :: string

datatype programs = ProgText string | ProgList "string list" | ProgAbsent

record Enrollment =
  en_requested :: bool
  en_loader_output :: "string option"
  en_bpf_programs :: programs

record HostSnapshot =
  hs_optics_cli_version :: "string option"
  hs_agent_sdk_npm_version :: "string option"
  hs_agent_sdk_py_version :: "string option"
  hs_probe_errors :: "string list"
  hs_containers :: "ContainerRow list"
  hs_images :: "ImageRow list"
  hs_processes :: "string list"
  hs_bpf_pins :: "string list"
  hs_clsact_ifaces :: "string list"
  hs_active_lsm :: "string option"
  hs_enforce_flag :: bool
  hs_enrollment :: "Enrollment option"

record InstallConfig =
  cf_install_mode :: string
  cf_enforcement :: string
  cf_path_deny :: string
  cf_otlp :: string
  cf_iface :: string
  cf_interrupt_after_step :: "string option"
  cf_rollback_interrupt_after_step :: "string option"
  cf_uninstall_leave :: "string list"
  cf_simulate_missing :: "string list"
  cf_simulate_probe_errors :: "string list"
  cf_residual_probe_errors :: "string list"
  cf_bpffs_root :: string

definition BPF_PINS :: "string list" where
  "BPF_PINS =
     [''vantio_trace_map'', ''vantio_enrolled_cgroups'', ''vantio_debug_counters'',
      ''vantio_debug_last_comm'', ''vantio_tls_severed_pids'', ''vantio_deny_attr'', ''vantio_persist'']"

definition optics_cli_version_pin :: string where "optics_cli_version_pin = ''0.3.24''"

section \<open>The observe container\<close>

record ContainerInspect =
  ci_status :: string
  ci_running :: bool
  ci_pid :: int

definition observe_lifecycle :: "ContainerInspect option \<Rightarrow> string" where
  "observe_lifecycle parsed =
     (case parsed of
        None \<Rightarrow> ''unknown''
      | Some p \<Rightarrow>
          if ci_status p \<in> {''exited'', ''dead'', ''removing''} then ''stopped''
          else if ci_status p = ''running'' \<and> ci_running p \<and> ci_pid p > 0 then ''detached''
          else if ci_status p \<in> {''created'', ''restarting'', ''paused''} then ''starting''
          else if ci_pid p = 0 \<and> \<not> ci_running p then ''stopped''
          else ''unknown'')"

definition PIN_MTIME_SKEW_S :: real where "PIN_MTIME_SKEW_S = 2"

definition pins_are_current :: "real list \<Rightarrow> real option \<Rightarrow> bool" where
  "pins_are_current mtimes started_epoch =
     (case started_epoch of
        None \<Rightarrow> False
      | Some started \<Rightarrow>
          if length mtimes \<noteq> length BPF_PINS then False
          else list_all (\<lambda>m. m \<ge> started - PIN_MTIME_SKEW_S) mtimes)"

record LogFacts =
  lf_paths_active :: bool
  lf_policy_loaded :: bool
  lf_iface_ok :: bool
  lf_tc_attached :: bool
  lf_cgroup_attached :: bool
  lf_self_check :: bool

definition facts_from_logs :: "string \<Rightarrow> string \<Rightarrow> LogFacts" where
  "facts_from_logs txt iface =
     (let observe_paths = sublist ''Path observe maps loaded:'' txt;
          enforce_paths = sublist ''Path enforce maps loaded:'' txt;
          named = sublist (''iface '' @ [CHR 0x27] @ iface @ [CHR 0x27]) txt;
          audit = (sublist ''AUDIT (log only)'' txt \<and> named);
          enforce_on = (sublist ''NODE-WIDE DLP'' txt \<or> sublist ''SCOPED (drop enrolled)'' txt)
      in \<lparr>lf_paths_active = (observe_paths \<and> enforce_paths),
          lf_policy_loaded = (audit \<and> \<not> enforce_on),
          lf_iface_ok = named,
          lf_tc_attached = (audit \<and> \<not> enforce_on),
          lf_cgroup_attached = (sublist ''sock owner attached:'' txt \<and> sublist ''/sys/fs/cgroup'' txt),
          lf_self_check = (sublist ''Phantom Engine active'' txt \<and> sublist ''press Ctrl-C to stop'' txt
                             \<and> \<not> sublist ''failed to pin'' txt)\<rparr>)"

definition egress_program_attached :: "string option \<Rightarrow> string \<Rightarrow> string \<Rightarrow> bool" where
  "egress_program_attached tc_text logs iface =
     (if (case tc_text of None \<Rightarrow> False | Some t \<Rightarrow> sublist ''bpf'' (py_lower t)) then True
      else lf_tc_attached (facts_from_logs logs iface))"

text \<open>\<open>str.split()\<close> on white space, below code point 256.\<close>

definition is_space_char :: "char \<Rightarrow> bool" where
  "is_space_char c =
     (let n = py_ord c in 9 \<le> n \<and> n \<le> 13 \<or> 28 \<le> n \<and> n \<le> 32 \<or> n = 133 \<or> n = 160)"

fun py_words :: "string \<Rightarrow> string \<Rightarrow> string list" where
  "py_words acc [] = (if acc = [] then [] else [rev acc])"
| "py_words acc (c # cs) =
     (if is_space_char c then (if acc = [] then [] else [rev acc]) @ py_words [] cs
      else py_words (c # acc) cs)"

definition ENFORCE_PROGRAM :: string where "ENFORCE_PROGRAM = ''cgroup_skb_egress_enforce''"
definition SCOPED_BANNER :: string where "SCOPED_BANNER = ''SCOPED (drop enrolled)''"

definition program_listed :: "programs \<Rightarrow> bool" where
  "program_listed progs =
     (case progs of
        ProgText t \<Rightarrow> ENFORCE_PROGRAM \<in> set (py_words [] t)
      | ProgList ps \<Rightarrow> ENFORCE_PROGRAM \<in> set ps
      | ProgAbsent \<Rightarrow> False)"

definition enforce_proof :: "string option \<Rightarrow> programs \<Rightarrow> bool \<times> string" where
  "enforce_proof loader_output progs =
     (let txt = (case loader_output of None \<Rightarrow> [] | Some t \<Rightarrow> t);
          scoped = sublist SCOPED_BANNER txt;
          listed = program_listed progs
      in if scoped \<and> listed then (True, [])
         else (False, py_join '',''
                 ((if \<not> scoped then [''loader_missing_scoped_banner''] else [])
                  @ (if \<not> listed then [''cgroup_skb_egress_enforce_missing''] else []))))"

record EnforcementView =
  ev_requested :: bool
  ev_component :: string
  ev_protection_state :: string
  ev_reason :: string
  ev_accept_enforce_container :: bool

definition enforcement_view :: "HostSnapshot \<Rightarrow> InstallConfig \<Rightarrow> EnforcementView" where
  "enforcement_view snapshot config =
     (case hs_enrollment snapshot of
        Some enrollment \<Rightarrow>
          if en_requested enrollment then
            (let (ok, rsn) = enforce_proof (en_loader_output enrollment) (en_bpf_programs enrollment) in
             if ok then
               \<lparr>ev_requested = True, ev_component = ''PASS'', ev_protection_state = ''PROTECTED'',
                ev_reason = [], ev_accept_enforce_container = True\<rparr>
             else
               \<lparr>ev_requested = True, ev_component = ''DEGRADED'', ev_protection_state = ''DEGRADED'',
                ev_reason = (if rsn = [] then ''ENFORCE_NOT_PROVED'' else rsn),
                ev_accept_enforce_container = True\<rparr>)
          else
            \<lparr>ev_requested = False,
             ev_component = (if cf_enforcement config = ''NOT_ENABLED'' then ''NOT_ENABLED'' else ''FAIL''),
             ev_protection_state = ''OBSERVE'', ev_reason = [], ev_accept_enforce_container = False\<rparr>
      | None \<Rightarrow>
          \<lparr>ev_requested = False,
           ev_component = (if cf_enforcement config = ''NOT_ENABLED'' then ''NOT_ENABLED'' else ''FAIL''),
           ev_protection_state = ''OBSERVE'', ev_reason = [], ev_accept_enforce_container = False\<rparr>)"

definition engine_containers :: "HostSnapshot \<Rightarrow> ContainerRow list" where
  "engine_containers snapshot = filter (\<lambda>row. cr_role row = ''phantom_engine'') (hs_containers snapshot)"

definition running_containers :: "HostSnapshot \<Rightarrow> ContainerRow list" where
  "running_containers snapshot = filter (\<lambda>row. cr_status row = ''running'') (engine_containers snapshot)"

definition row_enforced :: "HostSnapshot \<Rightarrow> ContainerRow \<Rightarrow> bool" where
  "row_enforced snapshot row =
     (''--enforce'' \<in> set (cr_cmd row) \<or> hs_enforce_flag snapshot \<or> cr_enforce row)"

definition container_after_enforce :: "string \<Rightarrow> HostSnapshot \<Rightarrow> EnforcementView \<Rightarrow> string" where
  "container_after_enforce base_status snapshot view =
     (if \<not> ev_accept_enforce_container view \<or> base_status \<noteq> ''FAIL'' then base_status
      else
        (case running_containers snapshot of
           [] \<Rightarrow> ''DEGRADED''
         | row # _ \<Rightarrow>
             if \<not> row_enforced snapshot row then base_status
             else if ev_component view = ''PASS'' then ''PASS'' else ''DEGRADED''))"

definition apply_enforce_overall :: "string \<Rightarrow> string list \<Rightarrow> string" where
  "apply_enforce_overall overall values =
     (if overall \<in> {''UNKNOWN'', ''FAIL''} then overall
      else if list_ex (\<lambda>v. v = ''DEGRADED'') values then ''DEGRADED''
      else overall)"

section \<open>Readiness\<close>

record ObserveSample =
  os_mode :: "string option"
  os_lifecycle :: string
  os_security_ok :: bool
  os_pins :: "string list option"
  os_pins_error :: bool
  os_pins_current :: bool
  os_loader :: bool
  os_clsact :: bool
  os_programs :: bool
  os_paths_active :: bool
  os_policy_loaded :: bool
  os_iface_ok :: bool
  os_self_check :: bool
  os_boot_hold :: "string option"
  os_exit_code :: "string option"
  os_loader_output :: "string option"
  os_bpf_programs :: programs

definition readiness_gaps :: "ObserveSample \<Rightarrow> string list" where
  "readiness_gaps sample =
     (let life = os_lifecycle sample in
      if os_mode sample = Some ''enforce-enrolled'' then
        (let (ok, rsn) = enforce_proof (os_loader_output sample) (os_bpf_programs sample) in
         (if life \<noteq> ''detached''
          then [if life = ''stopped'' then ''container-stopped'' else ''container-state-unknown''] else [])
         @ (if \<not> ok then [if rsn = [] then ''enforce-not-proved'' else rsn] else []))
      else if life = ''stopped'' then
        [''container-stopped'']
        @ (case os_exit_code sample of
             None \<Rightarrow> [] | Some code \<Rightarrow> if code = [] then [] else [''exit-code-'' @ code])
        @ (case os_pins sample of
             None \<Rightarrow> [] | Some pins \<Rightarrow> if pins = [] then [] else [''pins-left-after-stop''])
      else if life = ''starting'' then [''container-starting'']
      else if life \<noteq> ''detached'' then [''container-state-unknown'']
      else
        (if \<not> os_security_ok sample then [''apparmor-profile''] else [])
        @ (if \<not> os_loader sample then [''loader-not-this-container''] else [])
        @ (if os_pins sample \<noteq> Some BPF_PINS then
             (let have = (case os_pins sample of None \<Rightarrow> [] | Some pins \<Rightarrow> pins);
                  missing = filter (\<lambda>name. name \<notin> set have) BPF_PINS
              in [if missing \<noteq> [] then ''pins-missing:'' @ py_join '','' missing else ''pins-mismatch''])
           else [])
        @ (if \<not> os_pins_current sample then [''pins-stale''] else [])
        @ (if \<not> os_clsact sample then [''clsact-missing''] else [])
        @ (if \<not> os_programs sample then [''tc-program-missing''] else [])
        @ (if \<not> os_paths_active sample then [''file-paths-not-loaded''] else [])
        @ (if \<not> os_policy_loaded sample then [''policy-not-loaded''] else [])
        @ (if \<not> os_iface_ok sample then [''iface-mismatch''] else [])
        @ (if \<not> os_self_check sample then [''self-check''] else [])
        @ (if os_boot_hold sample \<noteq> Some ''HELD'' then [''boot-hold''] else []))"

text \<open>The polling loop. The sampler and the clock are functions of the round: \<open>sample i\<close> is what
  \<open>sample_fn\<close> returns in round \<open>i\<close>, \<open>elapsed i\<close> what \<open>clock() - started\<close> is at its end.\<close>

fun wait_rounds :: "nat \<Rightarrow> nat \<Rightarrow> (nat \<Rightarrow> ObserveSample) \<Rightarrow> (nat \<Rightarrow> real) \<Rightarrow> real \<Rightarrow> bool \<Rightarrow> string" where
  "wait_rounds 0 i sample elapsed wait_s last_unknown =
     (if last_unknown then ''UNKNOWN'' else ''NOT_VERIFIED'')"
| "wait_rounds (Suc n) i sample elapsed wait_s last_unknown =
     (let s = sample i in
      if os_pins_error s then ''UNKNOWN''
      else if os_lifecycle s = ''stopped'' then ''NOT_VERIFIED''
      else if readiness_gaps s = [] then ''VERIFIED''
      else
        (let unknown = (os_lifecycle s = ''unknown'') in
         if elapsed i \<ge> wait_s then (if unknown then ''UNKNOWN'' else ''NOT_VERIFIED'')
         else wait_rounds n (i + 1) sample elapsed wait_s unknown))"

definition wait_for_observe_host ::
  "(nat \<Rightarrow> ObserveSample) \<Rightarrow> (nat \<Rightarrow> real) \<Rightarrow> real \<Rightarrow> real \<Rightarrow> string" where
  "wait_for_observe_host sample elapsed wait_s poll_s =
     (let w = (if wait_s < 0 then 0 else wait_s);
          p = (if poll_s \<le> 0 then 1 / 4 else poll_s)
      in wait_rounds (nat (\<lfloor>w / p\<rfloor> + 2)) 0 sample elapsed w True)"

section \<open>The health report\<close>

definition bpf_lsm_active :: "string option \<Rightarrow> bool" where
  "bpf_lsm_active txt =
     (case txt of
        None \<Rightarrow> False
      | Some t \<Rightarrow>
          list_ex (\<lambda>part. py_strip (map char_of ([9..<14] @ [28..<33] @ [133, 160 :: nat])) part = ''bpf'')
            (py_split (CHR '','') t))"

record Components =
  c_optics_cli :: string
  c_pe_container :: string
  c_pe_loader_process :: string
  c_bpf_maps_present :: string
  c_tc_clsact_iface :: string
  c_path_deny :: string
  c_enforcement :: string
  c_otlp :: string
  c_bpf_lsm :: string

definition component_values :: "Components \<Rightarrow> string list" where
  "component_values c =
     [c_optics_cli c, c_pe_container c, c_pe_loader_process c, c_bpf_maps_present c,
      c_tc_clsact_iface c, c_path_deny c, c_enforcement c, c_otlp c, c_bpf_lsm c]"

definition derive_container :: "HostSnapshot \<Rightarrow> EnforcementView \<Rightarrow> string" where
  "derive_container snapshot view =
     container_after_enforce
       (if ''container'' \<in> set (hs_probe_errors snapshot) then ''UNKNOWN''
        else if engine_containers snapshot = [] then ''NOT_INSTALLED''
        else
          (case running_containers snapshot of
             [] \<Rightarrow> ''FAIL''
           | row # _ \<Rightarrow> if row_enforced snapshot row then ''FAIL'' else ''PASS''))
       snapshot view"

text \<open>The four-way choice the report makes for a fact that depends on the container.\<close>

definition derive_fact :: "bool \<Rightarrow> bool \<Rightarrow> string \<Rightarrow> string" where
  "derive_fact probe_failed present container =
     (if probe_failed then ''UNKNOWN''
      else if present then ''PASS''
      else if container = ''NOT_INSTALLED'' then ''NOT_INSTALLED''
      else ''FAIL'')"

definition derive_components :: "HostSnapshot \<Rightarrow> InstallConfig \<Rightarrow> Components" where
  "derive_components snapshot config =
     (let view = enforcement_view snapshot config;
          container = derive_container snapshot view;
          probes = set (hs_probe_errors snapshot)
      in \<lparr>c_optics_cli =
            (if hs_optics_cli_version snapshot = Some optics_cli_version_pin then ''PASS''
             else if hs_optics_cli_version snapshot \<in> {None, Some ''ABSENT''} then ''NOT_INSTALLED''
             else ''FAIL''),
          c_pe_container = container,
          c_pe_loader_process =
            derive_fact (''process'' \<in> probes) (''vantio-loader'' \<in> set (hs_processes snapshot)) container,
          c_bpf_maps_present =
            derive_fact (''bpf'' \<in> probes)
              (list_all (\<lambda>name. name \<in> set (hs_bpf_pins snapshot)) BPF_PINS) container,
          c_tc_clsact_iface =
            derive_fact (''tc'' \<in> probes)
              (cf_iface config \<noteq> [] \<and> cf_iface config \<in> set (hs_clsact_ifaces snapshot)) container,
          c_path_deny = (if cf_path_deny config = ''disabled'' then ''NOT_ENABLED'' else ''FAIL''),
          c_enforcement = ev_component view,
          c_otlp = (if cf_otlp config = ''DISABLED'' then ''NOT_ENABLED'' else ''FAIL''),
          c_bpf_lsm = (if bpf_lsm_active (hs_active_lsm snapshot) then ''PASS'' else ''FAIL'')\<rparr>)"

record HealthReport =
  h_install_mode :: string
  h_enforcement :: string
  h_components :: Components
  h_overall :: string
  h_protection_state :: string
  h_degraded_reason :: "string option"

definition derive_overall :: "Components \<Rightarrow> string list \<Rightarrow> string" where
  "derive_overall c limitations =
     (let required = [c_optics_cli c, c_pe_container c, c_pe_loader_process c, c_bpf_maps_present c,
                      c_tc_clsact_iface c];
          overall =
            (if list_ex (\<lambda>v. v = ''UNKNOWN'') (component_values c) then ''UNKNOWN''
             else if list_ex (\<lambda>v. v = ''FAIL'') (component_values c) then ''FAIL''
             else if list_ex (\<lambda>v. v \<in> {''NOT_INSTALLED'', ''NOT_TESTED''}) required then ''FAIL''
             else if limitations \<noteq> [] then ''PASS_WITH_LIMITATIONS''
             else ''PASS'')
      in apply_enforce_overall overall (component_values c))"

definition derive :: "HostSnapshot \<Rightarrow> InstallConfig \<Rightarrow> string list \<Rightarrow> HealthReport" where
  "derive snapshot config limitations =
     (let view = enforcement_view snapshot config; c = derive_components snapshot config in
      \<lparr>h_install_mode = (if ev_requested view then ''enforce-enrolled'' else cf_install_mode config),
       h_enforcement = (if ev_requested view then ''ENROLLED'' else cf_enforcement config),
       h_components = c,
       h_overall = derive_overall c limitations,
       h_protection_state = ev_protection_state view,
       h_degraded_reason = (if ev_reason view = [] then None else Some (ev_reason view))\<rparr>)"

section \<open>Lemmas\<close>

definition enforcement_requested :: "HostSnapshot \<Rightarrow> bool" where
  "enforcement_requested s = (case hs_enrollment s of None \<Rightarrow> False | Some e \<Rightarrow> en_requested e)"

definition enforcement_proved :: "HostSnapshot \<Rightarrow> bool" where
  "enforcement_proved s =
     (case hs_enrollment s of
        None \<Rightarrow> False
      | Some e \<Rightarrow> en_requested e \<and> fst (enforce_proof (en_loader_output e) (en_bpf_programs e)))"

text \<open>What the host must show before the report may say it is healthy.\<close>

definition host_evidence :: "HostSnapshot \<Rightarrow> InstallConfig \<Rightarrow> bool" where
  "host_evidence s cf =
     (hs_optics_cli_version s = Some optics_cli_version_pin
      \<and> set (hs_probe_errors s) \<inter> {''container'', ''process'', ''bpf'', ''tc''} = {}
      \<and> running_containers s \<noteq> []
      \<and> (enforcement_proved s \<or> (\<not> row_enforced s (hd (running_containers s))))
      \<and> ''vantio-loader'' \<in> set (hs_processes s)
      \<and> set BPF_PINS \<subseteq> set (hs_bpf_pins s)
      \<and> cf_iface cf \<noteq> [] \<and> cf_iface cf \<in> set (hs_clsact_ifaces s)
      \<and> bpf_lsm_active (hs_active_lsm s)
      \<and> cf_path_deny cf = ''disabled'' \<and> cf_otlp cf = ''DISABLED''
      \<and> (if enforcement_requested s then enforcement_proved s else cf_enforcement cf = ''NOT_ENABLED''))"

lemma view_component:
  "ev_component (enforcement_view s cf) =
     (if enforcement_requested s then (if enforcement_proved s then ''PASS'' else ''DEGRADED'')
      else if cf_enforcement cf = ''NOT_ENABLED'' then ''NOT_ENABLED'' else ''FAIL'')"
  by (auto simp: enforcement_view_def enforcement_requested_def enforcement_proved_def split: option.splits prod.splits)

lemma view_accept: "ev_accept_enforce_container (enforcement_view s cf) = enforcement_requested s"
  by (auto simp: enforcement_view_def enforcement_requested_def split: option.splits prod.splits)

lemma proved_requested: "enforcement_proved s \<Longrightarrow> enforcement_requested s"
  by (auto simp: enforcement_requested_def enforcement_proved_def split: option.splits)

lemma running_engine: "engine_containers s = [] \<Longrightarrow> running_containers s = []"
  by (simp add: running_containers_def)

lemma derive_fact_PASS: "derive_fact p q c = ''PASS'' \<longleftrightarrow> \<not> p \<and> q"
  by (auto simp: derive_fact_def)

lemma derive_fact_range: "derive_fact p q c \<in> {''PASS'', ''UNKNOWN'', ''NOT_INSTALLED'', ''FAIL'', ''DEGRADED''}"
  by (auto simp: derive_fact_def)

lemma container_PASS:
  "derive_container s (enforcement_view s cf) = ''PASS'' \<longleftrightarrow>
     ''container'' \<notin> set (hs_probe_errors s) \<and> running_containers s \<noteq> []
     \<and> (enforcement_proved s \<or> \<not> row_enforced s (hd (running_containers s)))"
  using proved_requested [of s]
  by (auto simp: derive_container_def container_after_enforce_def view_component view_accept
      dest: running_engine split: list.splits)

lemma container_range:
  "derive_container s v \<in> {''PASS'', ''UNKNOWN'', ''NOT_INSTALLED'', ''FAIL'', ''DEGRADED''}"
  by (auto simp: derive_container_def container_after_enforce_def split: list.splits)

lemma overall_values:
  "derive_overall c lims \<in> {''PASS'', ''PASS_WITH_LIMITATIONS''} \<longleftrightarrow>
     set (component_values c) \<inter> {''UNKNOWN'', ''FAIL'', ''DEGRADED''} = {}
     \<and> {c_optics_cli c, c_pe_container c, c_pe_loader_process c, c_bpf_maps_present c, c_tc_clsact_iface c}
         \<inter> {''NOT_INSTALLED'', ''NOT_TESTED''} = {}"
  by (auto simp: derive_overall_def apply_enforce_overall_def list_ex_iff Let_def)

lemma overall_limitations:
  "derive_overall c lims = ''PASS'' \<Longrightarrow> lims = []"
  "derive_overall c lims = ''PASS_WITH_LIMITATIONS'' \<Longrightarrow> lims \<noteq> []"
  by (auto simp: derive_overall_def apply_enforce_overall_def Let_def split: if_splits)

lemma in_range_PASS:
  "v \<in> {''PASS'', ''UNKNOWN'', ''NOT_INSTALLED'', ''FAIL'', ''DEGRADED''} \<Longrightarrow>
   v \<notin> {''UNKNOWN'', ''FAIL'', ''DEGRADED''} \<and> v \<notin> {''NOT_INSTALLED'', ''NOT_TESTED''} \<longleftrightarrow> v = ''PASS''"
  by auto

lemma five_disjoint:
  "set (a # b # c # d # e # rest) \<inter> X = {} \<and> {a, b, c, d, e} \<inter> Y = {} \<longleftrightarrow>
     (a \<notin> X \<and> a \<notin> Y) \<and> (b \<notin> X \<and> b \<notin> Y) \<and> (c \<notin> X \<and> c \<notin> Y) \<and> (d \<notin> X \<and> d \<notin> Y)
     \<and> (e \<notin> X \<and> e \<notin> Y) \<and> set rest \<inter> X = {}"
  by auto

lemma components_ok:
  "derive_overall (derive_components s cf) lims \<in> {''PASS'', ''PASS_WITH_LIMITATIONS''} \<longleftrightarrow> host_evidence s cf"
proof -
  let ?c = "derive_components s cf"
  have core: "c_pe_container ?c \<in> {''PASS'', ''UNKNOWN'', ''NOT_INSTALLED'', ''FAIL'', ''DEGRADED''}"
    "c_pe_loader_process ?c \<in> {''PASS'', ''UNKNOWN'', ''NOT_INSTALLED'', ''FAIL'', ''DEGRADED''}"
    "c_bpf_maps_present ?c \<in> {''PASS'', ''UNKNOWN'', ''NOT_INSTALLED'', ''FAIL'', ''DEGRADED''}"
    "c_tc_clsact_iface ?c \<in> {''PASS'', ''UNKNOWN'', ''NOT_INSTALLED'', ''FAIL'', ''DEGRADED''}"
    unfolding derive_components_def Let_def
    by (simp_all only: Components.simps container_range derive_fact_range)
  have optics: "c_optics_cli ?c \<in> {''PASS'', ''UNKNOWN'', ''NOT_INSTALLED'', ''FAIL'', ''DEGRADED''}"
    by (auto simp: derive_components_def Let_def)
  have tail: "set [c_path_deny ?c, c_enforcement ?c, c_otlp ?c, c_bpf_lsm ?c] \<inter> {''UNKNOWN'', ''FAIL'', ''DEGRADED''} = {}
      \<longleftrightarrow> cf_path_deny cf = ''disabled'' \<and> cf_otlp cf = ''DISABLED'' \<and> bpf_lsm_active (hs_active_lsm s)
        \<and> (if enforcement_requested s then enforcement_proved s else cf_enforcement cf = ''NOT_ENABLED'')"
    by (simp add: derive_components_def Let_def view_component)
  have "derive_overall ?c lims \<in> {''PASS'', ''PASS_WITH_LIMITATIONS''} \<longleftrightarrow>
      c_optics_cli ?c = ''PASS'' \<and> c_pe_container ?c = ''PASS'' \<and> c_pe_loader_process ?c = ''PASS''
      \<and> c_bpf_maps_present ?c = ''PASS'' \<and> c_tc_clsact_iface ?c = ''PASS''
      \<and> set [c_path_deny ?c, c_enforcement ?c, c_otlp ?c, c_bpf_lsm ?c] \<inter> {''UNKNOWN'', ''FAIL'', ''DEGRADED''} = {}"
    unfolding overall_values component_values_def five_disjoint
    by (simp only: in_range_PASS [OF optics] core [THEN in_range_PASS])
  also have "\<dots> \<longleftrightarrow> host_evidence s cf"
    unfolding tail
    by (simp add: derive_components_def Let_def host_evidence_def container_PASS derive_fact_PASS
        list_all_iff subset_iff) blast
  finally show ?thesis .
qed

lemma wait_rounds_verified:
  "wait_rounds n i sample elapsed w u = ''VERIFIED'' \<longleftrightarrow>
     (\<exists>k. k < n \<and> readiness_gaps (sample (i + k)) = [] \<and> \<not> os_pins_error (sample (i + k))
        \<and> os_lifecycle (sample (i + k)) \<noteq> ''stopped''
        \<and> (\<forall>j < k. \<not> os_pins_error (sample (i + j)) \<and> os_lifecycle (sample (i + j)) \<noteq> ''stopped''
              \<and> elapsed (i + j) < w))"
proof (induction n arbitrary: i u)
  case (Suc n)
  have *: "(\<exists>k < Suc n. Q k) \<longleftrightarrow> Q 0 \<or> (\<exists>k < n. Q (Suc k))" for Q
    by (metis Suc_less_eq less_Suc_eq_0_disj zero_less_Suc)
  have **: "(\<forall>j < Suc k. Q j) \<longleftrightarrow> Q 0 \<and> (\<forall>j < k. Q (Suc j))" for Q k
    using less_Suc_eq_0_disj by auto
  show ?case
    unfolding * **
    using Suc.IH [of "i + 1" "os_lifecycle (sample i) = ''unknown''"]
    by (auto simp: Let_def)
qed simp

definition observe_ready :: "ObserveSample \<Rightarrow> bool" where
  "observe_ready s =
     (os_lifecycle s = ''detached''
      \<and> (if os_mode s = Some ''enforce-enrolled'' then
           (\<exists>out. os_loader_output s = Some out \<and> sublist SCOPED_BANNER out) \<and> program_listed (os_bpf_programs s)
         else os_security_ok s \<and> os_loader s \<and> os_pins s = Some BPF_PINS \<and> os_pins_current s \<and> os_clsact s
           \<and> os_programs s \<and> os_paths_active s \<and> os_policy_loaded s \<and> os_iface_ok s \<and> os_self_check s
           \<and> os_boot_hold s = Some ''HELD''))"

lemma enforce_proof_ok:
  "fst (enforce_proof out progs) \<longleftrightarrow> (\<exists>t. out = Some t \<and> sublist SCOPED_BANNER t) \<and> program_listed progs"
proof -
  have "\<not> sublist SCOPED_BANNER []" by code_simp
  then show ?thesis by (auto simp: enforce_proof_def Let_def split: option.splits)
qed

lemma gap_Nil: "(if c then [x] else []) = [] \<longleftrightarrow> \<not> c" by simp

lemma readiness_gaps_Nil: "readiness_gaps s = [] \<longleftrightarrow> observe_ready s"
proof (cases "os_mode s = Some ''enforce-enrolled''")
  case True
  obtain ok rsn where p: "enforce_proof (os_loader_output s) (os_bpf_programs s) = (ok, rsn)" by fastforce
  with enforce_proof_ok [of "os_loader_output s" "os_bpf_programs s"] True show ?thesis
    unfolding readiness_gaps_def observe_ready_def Let_def p by (simp add: gap_Nil del: if_split_asm)
next
  case False
  show ?thesis
  proof (cases "os_lifecycle s = ''detached''")
    case True
    with False show ?thesis
      unfolding readiness_gaps_def observe_ready_def Let_def
      by (simp only: if_False append_is_Nil_conv gap_Nil not_not refl if_True) simp
  next
    case life: False
    with False show ?thesis unfolding readiness_gaps_def observe_ready_def Let_def by simp
  qed
qed

lemma health_pass:
  "h_overall (derive s cf lims) = ''PASS'' \<longleftrightarrow> lims = [] \<and> host_evidence s cf"
  "h_overall (derive s cf lims) = ''PASS_WITH_LIMITATIONS'' \<longleftrightarrow> lims \<noteq> [] \<and> host_evidence s cf"
  using components_ok [of s cf lims] overall_limitations [of "derive_components s cf" lims]
  by (auto simp: derive_def Let_def)

section \<open>Properties\<close>

text \<open>
  C10: the health report says \<open>PASS\<close> (or \<open>PASS_WITH_LIMITATIONS\<close>, when the preflight left
  limitations) exactly when the host shows all the evidence: the pinned CLI, a running engine
  container that does not enforce unless enforcement is proved, the loader, every BPF map pinned,
  clsact on the configured interface, the bpf LSM, no failed probe, the default settings, and a
  requested enforcement proved by the loader banner and the attached program.
\<close>

theorem health_pass_iff:
  "(h_overall (derive s cf lims) = ''PASS'' \<longleftrightarrow> lims = [] \<and> host_evidence s cf)
   \<and> (h_overall (derive s cf lims) = ''PASS_WITH_LIMITATIONS'' \<longleftrightarrow> lims \<noteq> [] \<and> host_evidence s cf)"
  using health_pass [of s cf lims] by simp

text \<open>
  Waiting for the observe container ends \<open>VERIFIED\<close> exactly when, within the rounds the wait
  allows, a sample shows every readiness fact with its pin directory readable, before any sample
  whose pin scan failed or whose container stopped and before the time ran out.
\<close>

theorem wait_verified_iff:
  assumes "0 \<le> w" "0 < p"
  shows "wait_for_observe_host sample elapsed w p = ''VERIFIED'' \<longleftrightarrow>
    (\<exists>k. k < nat (\<lfloor>w / p\<rfloor> + 2) \<and> observe_ready (sample k) \<and> \<not> os_pins_error (sample k)
       \<and> (\<forall>j < k. \<not> os_pins_error (sample j) \<and> os_lifecycle (sample j) \<noteq> ''stopped'' \<and> elapsed j < w))"
  using assms
  by (auto simp: wait_for_observe_host_def wait_rounds_verified readiness_gaps_Nil observe_ready_def)

definition sample_ready :: ObserveSample where
  "sample_ready =
     \<lparr>os_mode = None, os_lifecycle = ''detached'', os_security_ok = True, os_pins = Some BPF_PINS,
      os_pins_error = False, os_pins_current = True, os_loader = True, os_clsact = True,
      os_programs = True, os_paths_active = True, os_policy_loaded = True, os_iface_ok = True,
      os_self_check = True, os_boot_hold = Some ''HELD'', os_exit_code = None,
      os_loader_output = None, os_bpf_programs = ProgAbsent\<rparr>"

theorem wait_verified_iff_witness:
  "wait_for_observe_host (\<lambda>i. if i = 2 then sample_ready else sample_ready\<lparr>os_boot_hold := None\<rparr>)
     (\<lambda>i. real i / 4) 60 (1 / 4) = ''VERIFIED''"
  by (subst wait_verified_iff, simp, simp, rule exI [where x = 2])
    (auto simp: sample_ready_def observe_ready_def)

end
