(* ===== verification/Install_Engine.thy ===== *)
theory Install_Engine
  imports Install_State Install_Health
begin

text \<open>
  \<open>vantio_install/engine.py\<close>: the transaction commands \<open>plan\<close>, \<open>apply\<close>, \<open>status\<close>, \<open>rollback\<close>,
  \<open>uninstall\<close> and \<open>verify_removal\<close>, and the lock file around them.

  A run is the list of the worlds the command went through, newest first: one entry per file of
  the transaction directory written and one per call of the mutator, so that a process that dies
  leaves one of them behind. The mutator object is the record \<open>Mutator\<close> of its methods; they act on
  the host, on the snapshot held in memory and on the mutation count. What the command reads from
  outside the transaction directory (files named on the command line, the preflight report, the
  live authorization, the residual inspection) are fields of the context. An uncaught Python
  exception is \<open>Crashed\<close>. Evidence copies, the event log and the printed payload are left out.
\<close>

section \<open>Data\<close>

record PlanStep =
  ps_ord :: nat
  ps_id :: string
  ps_mutation :: bool

record 'h World =
  w_lock :: bool
  w_tx :: "Tx option"
  w_config :: "InstallConfig option"
  w_plan :: "PlanStep list option"
  w_health :: "string option"
  w_snapshot :: "HostSnapshot option"
  w_residual :: "string option"
  w_host :: 'h

type_synonym 'h run = "'h World list"

abbreviation now_world :: "'h run \<Rightarrow> 'h World" where "now_world r \<equiv> hd r"

definition upd :: "('h World \<Rightarrow> 'h World) \<Rightarrow> 'h run \<Rightarrow> 'h run" where
  "upd f r = f (hd r) # r"

datatype outcome = Done int Tx | Raised InstallError | Crashed string

record 'h Live =
  l_host :: 'h
  l_snap :: HostSnapshot
  l_count :: int

type_synonym 'h effect = "'h Live \<Rightarrow> InstallError option \<times> 'h Live"

record 'h Mutator =
  apply_step :: "string \<Rightarrow> 'h effect"
  rollback_step :: "string \<Rightarrow> 'h effect"
  mu_uninstall :: "string \<Rightarrow> 'h effect"
  unpin_remaining :: "'h effect"
  clear_enforce_side_effects :: "'h effect"
  optics_cli_present :: "'h \<Rightarrow> bool"
  agent_sdk_present :: "'h \<Rightarrow> bool"
  partial_mutation_steps :: "'h \<Rightarrow> string list"
  clear_partial_mutation :: "string \<Rightarrow> 'h \<Rightarrow> 'h"

record Report =
  rp_result :: string
  rp_items :: "(string \<times> string) list"
  rp_probe_errors :: "string list"

record 'h Ctx =
  cx_command :: string
  cx_fixture :: bool
  cx_transaction_id :: string
  cx_config :: "(InstallError + InstallConfig) option"
  cx_config_digest :: string
  cx_bundle :: "InstallError option"
  cx_manifest :: "InstallError option"
  cx_digest :: string
  cx_yes :: bool
  cx_dry_run :: bool
  cx_accept_live :: bool
  cx_stamp :: string
  cx_scope :: string
  cx_pid :: int
  cx_pid_alive :: "int option \<Rightarrow> bool"
  cx_layout :: "InstallConfig \<Rightarrow> InstallError option"
  cx_roots :: "InstallConfig \<Rightarrow> InstallError option"
  cx_authorize :: "Tx \<Rightarrow> InstallConfig \<Rightarrow> HostSnapshot \<Rightarrow> InstallError option"
  cx_tracefs :: "HostSnapshot \<Rightarrow> InstallError option"
  cx_preflight :: "bool \<Rightarrow> InstallConfig \<Rightarrow> HostSnapshot \<Rightarrow> string \<times> string list \<times> string"
  cx_load_host :: HostSnapshot
  cx_inspect :: "'h \<Rightarrow> HostSnapshot \<Rightarrow> string \<Rightarrow> InstallConfig \<Rightarrow> Report"

section \<open>Helpers\<close>

definition lock_error :: InstallError where
  "lock_error = install_error ''Another install transaction holds the lock.'' 4 ''FAILED_SAFE''"

definition with_lock :: "('h run \<Rightarrow> 'h run \<times> outcome) \<Rightarrow> 'h run \<Rightarrow> 'h run \<times> outcome" where
  "with_lock body r =
     (if w_lock (now_world r) then (r, Raised lock_error)
      else
        (let (r', out) = body [(now_world r)\<lparr>w_lock := True\<rparr>]
         in ((now_world r')\<lparr>w_lock := False\<rparr> # r' @ r, out)))"

definition save_tx :: "Tx \<Rightarrow> 'h run \<Rightarrow> 'h run" where
  "save_tx tx = upd (\<lambda>w. w\<lparr>w_tx := Some tx\<rparr>)"

definition save_snapshot :: "HostSnapshot \<Rightarrow> 'h run \<Rightarrow> 'h run" where
  "save_snapshot snap = upd (\<lambda>w. w\<lparr>w_snapshot := Some snap\<rparr>)"

definition save_health :: "string \<Rightarrow> 'h run \<Rightarrow> 'h run" where
  "save_health overall = upd (\<lambda>w. w\<lparr>w_health := Some overall\<rparr>)"

definition touch_host :: "'h \<Rightarrow> 'h run \<Rightarrow> 'h run" where
  "touch_host h = upd (\<lambda>w. w\<lparr>w_host := h\<rparr>)"

definition LIVE_MUTATING_COMMANDS :: "string list" where
  "LIVE_MUTATING_COMMANDS = [''apply'', ''rollback'', ''uninstall'']"

definition guard_readonly_command :: "'h Ctx \<Rightarrow> InstallError option" where
  "guard_readonly_command ctx =
     (if \<not> cx_accept_live ctx then None
      else if cx_command ctx \<notin> set LIVE_MUTATING_COMMANDS then
        Some ((install_error ''The live mutation flag is only accepted on apply, rollback, and uninstall.'' 4
                 ''FAILED_SAFE'')\<lparr>err_failure_class := Some ''FAILED_SAFE''\<rparr>)
      else None)"

record Hooks =
  hk_interrupt_after_step :: "string option"
  hk_rollback_interrupt_after_step :: "string option"
  hk_residual_probe_errors :: "string list"

definition fixture_hooks :: "InstallConfig \<Rightarrow> bool \<Rightarrow> Hooks" where
  "fixture_hooks config enabled =
     (if \<not> enabled then
        \<lparr>hk_interrupt_after_step = None, hk_rollback_interrupt_after_step = None,
         hk_residual_probe_errors = []\<rparr>
      else
        \<lparr>hk_interrupt_after_step = cf_interrupt_after_step config,
         hk_rollback_interrupt_after_step = cf_rollback_interrupt_after_step config,
         hk_residual_probe_errors = cf_residual_probe_errors config\<rparr>)"

definition planned_steps :: "string \<Rightarrow> PlanStep list" where
  "planned_steps npm_action =
     map (\<lambda>(i, s). \<lparr>ps_ord = i, ps_id = s,
             ps_mutation = (if s = ''ensure_node'' \<and> npm_action = ''remediate'' then True
                            else s \<in> set HOST_MUTATION_STEPS)\<rparr>)
       (zip [1..<length APPLY_STEPS + 1] APPLY_STEPS)"

definition plan_document :: "string \<Rightarrow> string \<Rightarrow> PlanStep list" where
  "plan_document gate npm_action =
     (if gate \<in> {''PREFLIGHT_READY'', ''PREFLIGHT_READY_WITH_LIMITATIONS''}
      then planned_steps npm_action else [])"

definition open_existing :: "'h Ctx \<Rightarrow> 'h World \<Rightarrow> InstallError + (Tx \<times> InstallConfig)" where
  "open_existing ctx w =
     (if cx_transaction_id ctx = [] then
        Inl (install_error ''This command needs --transaction-id.'' 10 ''FAILED_SAFE'')
      else
        (case w_tx w of
           None \<Rightarrow> Inl (install_error ''Transaction record was not found.'' 10 ''FAILED_SAFE'')
         | Some tx \<Rightarrow>
             (case cx_config ctx of
                Some (Inl e) \<Rightarrow> Inl e
              | Some (Inr config) \<Rightarrow> Inr (tx, config)
              | None \<Rightarrow>
                  (case w_config w of
                     Some config \<Rightarrow> Inr (tx, config)
                   | None \<Rightarrow> Inl (install_error ''Transaction config is missing.'' 4 ''FAILED_SAFE'')))))"

definition live_grant :: "'h Ctx \<Rightarrow> Tx \<Rightarrow> InstallConfig \<Rightarrow> HostSnapshot \<Rightarrow> InstallError option" where
  "live_grant ctx tx config snap =
     (if cx_fixture ctx then None else cx_authorize ctx tx config snap)"

text \<open>\<open>_mutator\<close>: the fixture mutator checks its two roots; the live one needs the grant, which
  \<open>_live_grant\<close> has returned by then.\<close>

definition mutator_error :: "'h Ctx \<Rightarrow> InstallConfig \<Rightarrow> InstallError option" where
  "mutator_error ctx config = (if cx_fixture ctx then cx_roots ctx config else None)"

section \<open>Plan\<close>

definition plan_gate :: "string \<Rightarrow> string option" where
  "plan_gate overall =
     map_of [(''READY'', ''PREFLIGHT_READY''),
             (''READY_WITH_LIMITATIONS'', ''PREFLIGHT_READY_WITH_LIMITATIONS''),
             (''BLOCKED'', ''PREFLIGHT_BLOCKED''), (''UNSUPPORTED'', ''UNSUPPORTED'')] overall"

definition plan_preflight :: "'h Ctx \<Rightarrow> InstallConfig \<Rightarrow> Tx \<Rightarrow> 'h run \<Rightarrow> 'h run \<times> outcome" where
  "plan_preflight ctx config tx r =
     (let host = cx_load_host ctx;
          (overall, limitations, npm) = cx_preflight ctx False config host;
          tx1 = tx\<lparr>preflight_status := Some overall, tx_limitations := limitations\<rparr>
      in case plan_gate overall of
           None \<Rightarrow> (r, Crashed ''KeyError'')
         | Some gate \<Rightarrow>
             (case bind_res (move tx1 gate (cx_stamp ctx)) (\<lambda>tx2.
                     if gate \<in> {''PREFLIGHT_READY'', ''PREFLIGHT_READY_WITH_LIMITATIONS''}
                     then move tx2 ''PLANNED'' (cx_stamp ctx) else Inr tx2) of
                Inl e \<Rightarrow> (r, Raised e)
              | Inr tx2 \<Rightarrow>
                  (let tx3 = tx2\<lparr>phase := ''plan'', owner_pid := None, mutation_in_progress := False\<rparr>;
                       r1 = save_tx tx3 r;
                       r2 = upd (\<lambda>w. w\<lparr>w_plan := Some (plan_document gate npm)\<rparr>) r1;
                       r3 = upd (\<lambda>w. w\<lparr>w_config := Some config\<rparr>) r2;
                       r4 = save_snapshot host r3;
                       r5 = save_health ''UNKNOWN'' r4;
                       r6 = upd (\<lambda>w. w\<lparr>w_residual := Some ''UNKNOWN''\<rparr>) r5
                   in (r6, Done (exit_for (tx_state tx3)) tx3))))"

definition plan_locked :: "'h Ctx \<Rightarrow> InstallConfig \<Rightarrow> 'h run \<Rightarrow> 'h run \<times> outcome" where
  "plan_locked ctx config r0 =
     (let fresh = new_tx (cx_stamp ctx) (cx_digest ctx) (cx_config_digest ctx);
          existing = w_tx (now_world r0);
          tx = (case existing of None \<Rightarrow> fresh | Some t \<Rightarrow> t);
          r = (case existing of None \<Rightarrow> save_tx fresh r0 | Some _ \<Rightarrow> r0)
      in if existing \<noteq> None \<and> tx_state tx = ''PLANNED'' \<and> bundle_digest tx = cx_digest ctx
              \<and> config_digest tx = cx_config_digest ctx then
           (case w_plan (now_world r) of
              None \<Rightarrow> (r, Crashed ''FileNotFoundError'')
            | Some _ \<Rightarrow> (r, Done 0 tx))
         else if tx_state tx = ''UNSUPPORTED'' then (r, Done 3 tx)
         else
           (case (if tx_state tx = ''PLANNED'' then move tx ''CREATED'' (cx_stamp ctx)
                  else if tx_state tx \<notin> {''CREATED'', ''PREFLIGHT_BLOCKED''} then
                    Inl (install_error (''Plan cannot start from '' @ tx_state tx @ ''.'') 10 (tx_state tx))
                  else Inr tx) of
              Inl e \<Rightarrow> (r, Raised e)
            | Inr tx1 \<Rightarrow>
                (case move tx1 ''PREFLIGHTING'' (cx_stamp ctx) of
                   Inl e \<Rightarrow> (r, Raised e)
                 | Inr tx2 \<Rightarrow> plan_preflight ctx config tx2 r)))"

definition plan :: "'h Ctx \<Rightarrow> 'h run \<Rightarrow> 'h run \<times> outcome" where
  "plan ctx r =
     (case guard_readonly_command ctx of
        Some e \<Rightarrow> (r, Raised e)
      | None \<Rightarrow>
          if cx_dry_run ctx \<and> cx_command ctx \<noteq> ''plan'' then
            (r, Raised (install_error ''Apply does not accept --dry-run. Use plan.'' 10 ''FAILED_SAFE''))
          else
            (case cx_config ctx of
               None \<Rightarrow> (r, Raised (install_error ''Config file was not found.'' 10 ''FAILED_SAFE''))
             | Some (Inl e) \<Rightarrow> (r, Raised e)
             | Some (Inr config) \<Rightarrow>
                 (case cx_bundle ctx of
                    Some e \<Rightarrow> (r, Raised e)
                  | None \<Rightarrow>
                      (case cx_layout ctx config of
                         Some e \<Rightarrow> (r, Raised e)
                       | None \<Rightarrow>
                           (case cx_manifest ctx of
                              Some e \<Rightarrow> (r, Raised e)
                            | None \<Rightarrow> with_lock (plan_locked ctx config) r)))))"

section \<open>Apply\<close>

datatype step_result = Proceed | Stop | Fail InstallError

definition move_step ::
  "Tx \<Rightarrow> string \<Rightarrow> string \<Rightarrow> (Tx \<Rightarrow> Tx) \<Rightarrow> step_result \<Rightarrow> 'h Live \<Rightarrow> 'h run \<Rightarrow> (Tx \<times> 'h Live \<times> 'h run) \<times> step_result" where
  "move_step tx target stamp f res live r =
     (case move tx target stamp of
        Inl e \<Rightarrow> ((tx, live, r), Fail e)
      | Inr tx1 \<Rightarrow> ((f tx1, live, r), res))"

definition collect_health ::
  "'h Ctx \<Rightarrow> InstallConfig \<Rightarrow> Tx \<Rightarrow> 'h Live \<Rightarrow> 'h run \<Rightarrow> (Tx \<times> 'h Live \<times> 'h run) \<times> step_result" where
  "collect_health ctx config tx live r =
     (let health = derive (l_snap live) config (tx_limitations tx);
          overall = h_overall health;
          r1 = save_health overall r;
          demoted = (overall \<in> {''PASS'', ''PASS_WITH_LIMITATIONS''} \<and> c_bpf_lsm (h_components health) \<noteq> ''PASS'');
          final = (if demoted then ''FAIL'' else overall);
          r2 = (if demoted then save_health ''FAIL'' r1 else r1);
          tx1 = tx\<lparr>health_overall := final\<rparr>
      in if final = ''PASS'' then move_step tx1 ''HEALTHY'' (cx_stamp ctx) id Proceed live r2
         else if final \<in> {''PASS_WITH_LIMITATIONS'', ''DEGRADED''} then
           move_step tx1 ''DEGRADED'' (cx_stamp ctx) id Proceed live r2
         else
           move_step tx1 ''FAILED_SAFE'' (cx_stamp ctx)
             (\<lambda>t. t\<lparr>last_error := Some (''health overall '' @ final)\<rparr>) Proceed live r2)"

definition run_effect ::
  "'h effect \<Rightarrow> Tx \<Rightarrow> 'h Live \<Rightarrow> 'h run \<Rightarrow> (Tx \<times> 'h Live \<times> 'h run) \<times> step_result" where
  "run_effect op tx live r =
     (let (err, live1) = op live; r1 = touch_host (l_host live1) r
      in ((tx, live1, r1), case err of None \<Rightarrow> Proceed | Some e \<Rightarrow> Fail e))"

definition run_step ::
  "'h Ctx \<Rightarrow> 'h Mutator \<Rightarrow> InstallConfig \<Rightarrow> string \<Rightarrow> Tx \<Rightarrow> 'h Live \<Rightarrow> 'h run \<Rightarrow> (Tx \<times> 'h Live \<times> 'h run) \<times> step_result" where
  "run_step ctx m config step tx live r =
     (if step = ''verify_artifacts'' then
        (let overall = fst (cx_preflight ctx True config (l_snap live)) in
         if overall \<in> {''BLOCKED'', ''UNSUPPORTED''} then
           move_step tx ''FAILED_SAFE'' (cx_stamp ctx)
             (\<lambda>t. t\<lparr>last_error := Some ''artifact verification failed on resume'', preflight_status := Some overall\<rparr>)
             Stop live r
         else ((tx, live, r), Proceed))
      else if step = ''mark_applied'' then
        move_step tx ''APPLIED'' (cx_stamp ctx) (\<lambda>t. t\<lparr>health_overall := ''UNKNOWN''\<rparr>) Proceed live r
      else if step = ''collect_health'' then collect_health ctx config tx live r
      else if step = ''write_support_index'' then ((tx, live, save_snapshot (l_snap live) r), Proceed)
      else run_effect (apply_step m step) tx live r)"

definition complete_step ::
  "'h Mutator \<Rightarrow> string \<Rightarrow> Tx \<Rightarrow> 'h Live \<Rightarrow> 'h run \<Rightarrow> Tx \<times> 'h Live \<times> 'h run" where
  "complete_step m step tx live r =
     (let h = clear_partial_mutation m step (l_host live);
          r1 = touch_host h r;
          tx1 = tx\<lparr>completed_steps := completed_steps tx @ [step], host_mutation_count := l_count live\<rparr>;
          r2 = save_snapshot (l_snap live) r1;
          r3 = save_tx tx1 r2
      in (tx1, live\<lparr>l_host := h\<rparr>, r3))"

text \<open>The loop over \<open>APPLY_STEPS\<close>. The last component is the \<open>InstallError\<close> that left the loop and
  the step that raised it.\<close>

fun apply_loop ::
  "'h Ctx \<Rightarrow> 'h Mutator \<Rightarrow> InstallConfig \<Rightarrow> string list \<Rightarrow> Tx \<Rightarrow> 'h Live \<Rightarrow> 'h run \<Rightarrow>
   Tx \<times> 'h Live \<times> 'h run \<times> (InstallError \<times> string) option" where
  "apply_loop ctx m config [] tx live r = (tx, live, r, None)"
| "apply_loop ctx m config (step # rest) tx live r =
     (if step \<in> set (completed_steps tx) then apply_loop ctx m config rest tx live r
      else
        (case run_step ctx m config step tx live r of
           ((tx1, live1, r1), Fail e) \<Rightarrow> (tx1, live1, r1, Some (e, step))
         | ((tx1, live1, r1), Stop) \<Rightarrow> (tx1, live1, r1, None)
         | ((tx1, live1, r1), Proceed) \<Rightarrow>
             (let (tx2, live2, r2) = complete_step m step tx1 live1 r1 in
              if hk_interrupt_after_step (fixture_hooks config (cx_fixture ctx)) = Some step
                 \<and> tx_state tx2 \<in> {''APPLYING'', ''APPLIED''} then
                (case move tx2 ''INTERRUPTED'' (cx_stamp ctx) of
                   Inl e \<Rightarrow> (tx2, live2, r2, Some (e, step))
                 | Inr tx3 \<Rightarrow> (tx3\<lparr>last_error := Some (''interrupted after '' @ step)\<rparr>, live2, r2, None))
              else apply_loop ctx m config rest tx2 live2 r2)))"

definition apply_failed ::
  "'h Ctx \<Rightarrow> Tx \<Rightarrow> InstallError \<Rightarrow> string \<Rightarrow> 'h run \<Rightarrow> 'h run \<times> outcome" where
  "apply_failed ctx tx e current_step r =
     (let target = (if err_state e \<in> {''INTERRUPTED'', ''FAILED_SAFE''} then err_state e else ''FAILED_SAFE'') in
      case (if tx_state tx = ''APPLYING'' \<and> target \<noteq> tx_state tx then move tx target (cx_stamp ctx)
            else if tx_state tx = ''APPLIED'' \<and> target \<in> {''FAILED_SAFE'', ''INTERRUPTED''}
            then move tx target (cx_stamp ctx) else Inr tx) of
        Inl e2 \<Rightarrow> (r, Raised e2)
      | Inr tx1 \<Rightarrow>
          (let tx2 = tx1\<lparr>last_error := Some (err_message e),
                          live_failure_class :=
                            (case err_failure_class e of None \<Rightarrow> live_failure_class tx1
                             | Some c \<Rightarrow> if c = [] then live_failure_class tx1 else Some c),
                          rollback_required_steps :=
                            (if err_failure_class e = Some ''ROLLBACK_REQUIRED''
                                \<and> current_step \<in> set HOST_MUTATION_STEPS
                                \<and> current_step \<notin> set (completed_steps tx1)
                                \<and> current_step \<notin> set (rollback_required_steps tx1)
                             then rollback_required_steps tx1 @ [current_step]
                             else rollback_required_steps tx1),
                          mutation_in_progress := False, owner_pid := None\<rparr>
           in (save_tx tx2 r, Done (err_exit_code e) tx2)))"

definition apply_steps ::
  "'h Ctx \<Rightarrow> 'h Mutator \<Rightarrow> InstallConfig \<Rightarrow> Tx \<Rightarrow> 'h Live \<Rightarrow> 'h run \<Rightarrow> 'h run \<times> outcome" where
  "apply_steps ctx m config tx live r =
     (case apply_loop ctx m config APPLY_STEPS tx live r of
        (tx1, live1, r1, Some (e, step)) \<Rightarrow> apply_failed ctx tx1 e step r1
      | (tx1, live1, r1, None) \<Rightarrow>
          (let tx2 = tx1\<lparr>mutation_in_progress := False, owner_pid := None\<rparr>
           in (save_tx tx2 r1, Done (exit_for (tx_state tx2)) tx2)))"

definition apply_recheck ::
  "'h Ctx \<Rightarrow> 'h Mutator \<Rightarrow> InstallConfig \<Rightarrow> HostSnapshot \<Rightarrow> Tx \<Rightarrow> 'h run \<Rightarrow> 'h run \<times> outcome" where
  "apply_recheck ctx m config snap tx r =
     (case (if tx_state tx \<in> {''INTERRUPTED'', ''PLANNED''} then move tx ''APPLYING'' (cx_stamp ctx) else Inr tx) of
        Inl e \<Rightarrow> (r, Raised e)
      | Inr tx1 \<Rightarrow>
          (case mutator_error ctx config of
             Some e \<Rightarrow> (r, Raised e)
           | None \<Rightarrow>
               (let tx2 = tx1\<lparr>mutation_in_progress := True, owner_pid := Some (cx_pid ctx), phase := ''apply''\<rparr>;
                    r1 = save_tx tx2 r;
                    overall = fst (cx_preflight ctx True config snap)
                in if cx_tracefs ctx snap \<noteq> None then (r1, Raised (the (cx_tracefs ctx snap)))
                   else if overall \<in> {''BLOCKED'', ''UNSUPPORTED''} then
                     (case move tx2 ''FAILED_SAFE'' (cx_stamp ctx) of
                        Inl e \<Rightarrow> (r1, Raised e)
                      | Inr tx3 \<Rightarrow>
                          (let tx4 = tx3\<lparr>last_error := Some ''resume preflight failed closed'',
                                         preflight_status := Some overall,
                                         mutation_in_progress := False, owner_pid := None\<rparr>
                           in (save_tx tx4 r1, Done 4 tx4)))
                   else
                     apply_steps ctx m config tx2
                       \<lparr>l_host = w_host (now_world r1), l_snap = snap, l_count = 0\<rparr> r1)))"

definition fail_checkpoint ::
  "'h Ctx \<Rightarrow> bool \<Rightarrow> (Tx \<Rightarrow> Tx) \<Rightarrow> Tx \<Rightarrow> 'h run \<Rightarrow> 'h run \<times> outcome" where
  "fail_checkpoint ctx via_applying f tx r =
     (case bind_res (if via_applying then move tx ''APPLYING'' (cx_stamp ctx) else Inr tx)
             (\<lambda>t. move t ''FAILED_SAFE'' (cx_stamp ctx)) of
        Inl e \<Rightarrow> (r, Raised e)
      | Inr tx1 \<Rightarrow> (save_tx (f tx1) r, Done 4 (f tx1)))"

definition apply_locked :: "'h Ctx \<Rightarrow> 'h Mutator \<Rightarrow> 'h run \<Rightarrow> 'h run \<times> outcome" where
  "apply_locked ctx m r =
     (let w = now_world r in
      case open_existing ctx w of
        Inl e \<Rightarrow> (r, Raised e)
      | Inr (tx, config) \<Rightarrow>
          if tx_state tx \<in> {''HEALTHY'', ''DEGRADED''} \<and> bundle_digest tx = cx_digest ctx then
            (if \<not> cx_fixture ctx then
               (r, Raised ((install_error ''This transaction is already committed. Live apply will not run it again.''
                              4 ''FAILED_SAFE'')\<lparr>err_failure_class := Some ''FAILED_SAFE''\<rparr>))
             else
               (let tx1 = tx\<lparr>tx_replayed := True\<rparr> in (save_tx tx1 r, Done (exit_for (tx_state tx1)) tx1)))
          else if tx_state tx = ''PREFLIGHT_BLOCKED'' then (r, Done 2 tx)
          else if tx_state tx = ''UNSUPPORTED'' then (r, Done 3 tx)
          else if tx_state tx \<notin> {''PLANNED'', ''INTERRUPTED'', ''APPLYING''} then
            (r, Raised (install_error (''Apply cannot start from '' @ tx_state tx @ ''.'') 10 (tx_state tx)))
          else if tx_state tx = ''INTERRUPTED'' \<and> phase tx = ''rollback'' then
            (r, Raised (install_error ''Resume rollback, not apply.'' 10 ''INTERRUPTED''))
          else if cx_digest ctx \<noteq> bundle_digest tx \<or> w_plan w = None \<or> w_config w = None then
            fail_checkpoint ctx (tx_state tx = ''PLANNED'')
              (\<lambda>t. t\<lparr>last_error := Some ''checkpoint or bundle digest mismatch'', phase := ''apply''\<rparr>) tx r
          else if completed_steps tx \<noteq> take (length (completed_steps tx)) APPLY_STEPS then
            fail_checkpoint ctx (tx_state tx \<noteq> ''APPLYING'')
              (\<lambda>t. t\<lparr>last_error := Some ''checkpoint prefix is not intact''\<rparr>) tx r
          else
            (case (case w_snapshot w of
                     Some snap \<Rightarrow> Some snap
                   | None \<Rightarrow> if cx_fixture ctx then Some (cx_load_host ctx) else None) of
               None \<Rightarrow> (r, Crashed ''AttributeError'')
             | Some snap \<Rightarrow>
                 (case live_grant ctx tx config snap of
                    Some e \<Rightarrow> (r, Raised e)
                  | None \<Rightarrow> apply_recheck ctx m config snap tx r)))"

definition apply_cmd :: "'h Ctx \<Rightarrow> 'h Mutator \<Rightarrow> 'h run \<Rightarrow> 'h run \<times> outcome" where
  "apply_cmd ctx m r =
     (if cx_dry_run ctx then
        (r, Raised (install_error ''Apply does not accept --dry-run. Use plan.'' 10 ''FAILED_SAFE''))
      else
        (case require_yes (cx_yes ctx) ''apply'' of
           Inl e \<Rightarrow> (r, Raised e)
         | Inr _ \<Rightarrow> with_lock (apply_locked ctx m) r))"

section \<open>Status\<close>

definition status_locked :: "'h Ctx \<Rightarrow> 'h run \<Rightarrow> 'h run \<times> outcome" where
  "status_locked ctx r =
     (case open_existing ctx (now_world r) of
        Inl e \<Rightarrow> (r, Raised e)
      | Inr (tx, config) \<Rightarrow>
          if tx_state tx \<in> set TRANSIENT \<and> \<not> cx_pid_alive ctx (owner_pid tx) then
            (case move tx ''INTERRUPTED'' (cx_stamp ctx) of
               Inl e \<Rightarrow> (r, Raised e)
             | Inr tx1 \<Rightarrow>
                 (let tx2 = tx1\<lparr>mutation_in_progress := False,
                                last_error := (case last_error tx1 of
                                    None \<Rightarrow> Some ''process died mid-transaction''
                                  | Some e \<Rightarrow> Some (if e = [] then ''process died mid-transaction'' else e))\<rparr>
                  in (save_tx tx2 r, Done (exit_for (tx_state tx2)) tx2)))
          else if tx_state tx = ''APPLIED'' \<and> \<not> cx_pid_alive ctx (owner_pid tx) \<and> mutation_in_progress tx then
            (case move tx ''INTERRUPTED'' (cx_stamp ctx) of
               Inl e \<Rightarrow> (r, Raised e)
             | Inr tx1 \<Rightarrow>
                 (let tx2 = tx1\<lparr>mutation_in_progress := False\<rparr>
                  in (save_tx tx2 r, Done (exit_for (tx_state tx2)) tx2)))
          else (r, Done (exit_for (tx_state tx)) tx))"

definition status :: "'h Ctx \<Rightarrow> 'h run \<Rightarrow> 'h run \<times> outcome" where
  "status ctx r =
     (case guard_readonly_command ctx of
        Some e \<Rightarrow> (r, Raised e)
      | None \<Rightarrow> with_lock (status_locked ctx) r)"

section \<open>Rollback\<close>

definition step_order :: "string \<Rightarrow> nat" where
  "step_order s = length (takeWhile (\<lambda>t. t \<noteq> s) APPLY_STEPS)"

text \<open>The insertion of one extra step in front of the first step that comes after it.\<close>

fun insert_step :: "string \<Rightarrow> string list \<Rightarrow> string list" where
  "insert_step s [] = [s]"
| "insert_step s (t # ts) = (if step_order s < step_order t then s # t # ts else t # insert_step s ts)"

fun insert_extras :: "string list \<Rightarrow> string list \<Rightarrow> string list" where
  "insert_extras sq [] = sq"
| "insert_extras sq (s # extras) =
     (if s \<notin> set HOST_MUTATION_STEPS \<or> s \<in> set sq then insert_extras sq extras
      else insert_extras (insert_step s sq) extras)"

definition reverse_steps :: "string list \<Rightarrow> string list \<Rightarrow> string list \<Rightarrow> string list" where
  "reverse_steps completed already extras =
     filter (\<lambda>s. s \<notin> set already)
       (rev (insert_extras (filter (\<lambda>s. s \<in> set HOST_MUTATION_STEPS) completed) extras))"

fun unique_steps :: "string list \<Rightarrow> string list \<Rightarrow> string list" where
  "unique_steps acc [] = acc"
| "unique_steps acc (s # rest) = unique_steps (if s \<in> set acc then acc else acc @ [s]) rest"

definition rollback_extras :: "'h Mutator \<Rightarrow> Tx \<Rightarrow> 'h \<Rightarrow> string list" where
  "rollback_extras m tx h =
     (let extras = unique_steps [] (rollback_required_steps tx @ partial_mutation_steps m h);
          extras1 = (if optics_cli_present m h \<and> ''install_optics_cli'' \<notin> set extras
                     then extras @ [''install_optics_cli''] else extras)
      in if agent_sdk_present m h \<and> ''install_agent_sdks'' \<notin> set extras1
         then extras1 @ [''install_agent_sdks''] else extras1)"

definition rollback_pending :: "'h Mutator \<Rightarrow> Tx \<Rightarrow> 'h \<Rightarrow> string list" where
  "rollback_pending m tx h =
     (let already0 = rollback_completed_steps tx;
          already1 = (if optics_cli_present m h then filter (\<lambda>s. s \<noteq> ''install_optics_cli'') already0 else already0);
          already2 = (if agent_sdk_present m h then filter (\<lambda>s. s \<noteq> ''install_agent_sdks'') already1 else already1)
      in reverse_steps (completed_steps tx) already2 (rollback_extras m tx h))"

text \<open>The \<open>for\<close> loop with its \<open>else\<close> branch; \<open>Stop\<close> is the interrupted pass.\<close>

fun rollback_loop ::
  "'h Ctx \<Rightarrow> 'h Mutator \<Rightarrow> InstallConfig \<Rightarrow> string list \<Rightarrow> Tx \<Rightarrow> 'h Live \<Rightarrow> 'h run \<Rightarrow> (Tx \<times> 'h Live \<times> 'h run) \<times> step_result" where
  "rollback_loop ctx m config [] tx live r =
     (case run_effect (unpin_remaining m) tx live r of
        ((tx1, live1, r1), Proceed) \<Rightarrow>
          (case run_effect (clear_enforce_side_effects m) tx1 live1 r1 of
             ((tx2, live2, r2), Proceed) \<Rightarrow>
               move_step tx2 ''ROLLED_BACK'' (cx_stamp ctx) (\<lambda>t. t\<lparr>last_error := None\<rparr>) Proceed live2
                 (save_snapshot (l_snap live2) r2)
           | res \<Rightarrow> res)
      | res \<Rightarrow> res)"
| "rollback_loop ctx m config (step # rest) tx live r =
     (case run_effect (rollback_step m step) tx live r of
        ((tx1, live1, r1), Proceed) \<Rightarrow>
          (let tx2 = tx1\<lparr>rollback_completed_steps := rollback_completed_steps tx1 @ [step]\<rparr>;
               r2 = save_tx tx2 (save_snapshot (l_snap live1) r1)
           in if hk_rollback_interrupt_after_step (fixture_hooks config (cx_fixture ctx)) = Some step then
                move_step tx2 ''INTERRUPTED'' (cx_stamp ctx)
                  (\<lambda>t. t\<lparr>last_error := Some (''rollback interrupted after '' @ step)\<rparr>) Stop live1 r2
              else rollback_loop ctx m config rest tx2 live1 r2)
      | res \<Rightarrow> res)"

text \<open>The \<open>except InstallError\<close> branch that \<open>rollback\<close> and \<open>uninstall\<close> share; only \<open>rollback\<close>
  clears the owner.\<close>

definition removal_failed ::
  "'h Ctx \<Rightarrow> string \<Rightarrow> bool \<Rightarrow> Tx \<Rightarrow> InstallError \<Rightarrow> 'h run \<Rightarrow> 'h run \<times> outcome" where
  "removal_failed ctx running clear_owner tx e r =
     (let tx1 = tx\<lparr>mutation_in_progress := False,
                   owner_pid := (if clear_owner then None else owner_pid tx),
                   live_failure_class :=
                     (case err_failure_class e of None \<Rightarrow> live_failure_class tx
                      | Some c \<Rightarrow> if c = [] then live_failure_class tx else Some c)\<rparr>
      in case (if tx_state tx1 = running
               then move tx1 (if err_state e = ''INTERRUPTED'' then ''INTERRUPTED'' else ''FAILED_SAFE'') (cx_stamp ctx)
               else Inr tx1) of
           Inl e2 \<Rightarrow> (r, Raised e2)
         | Inr tx2 \<Rightarrow> (save_tx tx2 r, Raised e))"

definition rollback_run ::
  "'h Ctx \<Rightarrow> 'h Mutator \<Rightarrow> InstallConfig \<Rightarrow> HostSnapshot \<Rightarrow> Tx \<Rightarrow> 'h run \<Rightarrow> 'h run \<times> outcome" where
  "rollback_run ctx m config snap tx r =
     (let tx1 = tx\<lparr>mutation_in_progress := True, owner_pid := Some (cx_pid ctx), phase := ''rollback''\<rparr>;
          pending = rollback_pending m tx1 (w_host (now_world r));
          r1 = save_tx tx1 r
      in case rollback_loop ctx m config pending tx1
                \<lparr>l_host = w_host (now_world r1), l_snap = snap, l_count = 0\<rparr> r1 of
           ((tx2, live2, r2), Fail e) \<Rightarrow> removal_failed ctx ''ROLLING_BACK'' True tx2 e r2
         | ((tx2, live2, r2), res) \<Rightarrow>
             (let overall = h_overall (derive (l_snap live2) config (tx_limitations tx2));
                  tx3 = tx2\<lparr>health_overall := overall, mutation_in_progress := False, owner_pid := None\<rparr>
              in (save_tx tx3 (save_health overall r2), Done (exit_for (tx_state tx3)) tx3)))"

definition rollback_locked :: "'h Ctx \<Rightarrow> 'h Mutator \<Rightarrow> 'h run \<Rightarrow> 'h run \<times> outcome" where
  "rollback_locked ctx m r =
     (case open_existing ctx (now_world r) of
        Inl e \<Rightarrow> (r, Raised e)
      | Inr (tx0, config) \<Rightarrow>
          (case (if tx_state tx0 = ''APPLIED'' then move tx0 ''INTERRUPTED'' (cx_stamp ctx) else Inr tx0) of
             Inl e \<Rightarrow> (r, Raised e)
           | Inr tx \<Rightarrow>
               if tx_state tx \<notin> {''HEALTHY'', ''DEGRADED'', ''FAILED_SAFE'', ''INTERRUPTED'', ''APPLYING'', ''ROLLING_BACK''}
                    \<union> set RESIDUAL_STATES then
                 (r, Raised (install_error (''Rollback cannot start from '' @ tx_state tx @ ''.'') 10 (tx_state tx)))
               else
                 (case w_snapshot (now_world r) of
                    None \<Rightarrow> (r, Crashed ''FileNotFoundError'')
                  | Some snap \<Rightarrow>
                      (case live_grant ctx tx config snap of
                         Some e \<Rightarrow> (r, Raised e)
                       | None \<Rightarrow>
                           (case (if tx_state tx \<noteq> ''ROLLING_BACK'' then move tx ''ROLLING_BACK'' (cx_stamp ctx) else Inr tx) of
                              Inl e \<Rightarrow> (r, Raised e)
                            | Inr tx1 \<Rightarrow>
                                (case mutator_error ctx config of
                                   Some e \<Rightarrow> (r, Raised e)
                                 | None \<Rightarrow> rollback_run ctx m config snap tx1 r))))))"

definition rollback :: "'h Ctx \<Rightarrow> 'h Mutator \<Rightarrow> 'h run \<Rightarrow> 'h run \<times> outcome" where
  "rollback ctx m r =
     (case require_yes (cx_yes ctx) ''rollback'' of
        Inl e \<Rightarrow> (r, Raised e)
      | Inr _ \<Rightarrow> with_lock (rollback_locked ctx m) r)"

section \<open>Uninstall\<close>

definition scope_of :: "'h Ctx \<Rightarrow> string" where
  "scope_of ctx =
     (let scope = (if cx_scope ctx = [] then ''all'' else cx_scope ctx)
      in if scope = ''all_product_owned'' then ''all'' else scope)"

definition uninstall_effects ::
  "'h Mutator \<Rightarrow> string \<Rightarrow> Tx \<Rightarrow> 'h Live \<Rightarrow> 'h run \<Rightarrow> (Tx \<times> 'h Live \<times> 'h run) \<times> step_result" where
  "uninstall_effects m scope tx live r =
     (case run_effect (mu_uninstall m scope) tx live r of
        ((tx1, live1, r1), Proceed) \<Rightarrow>
          if scope \<in> {''pe'', ''all''} then
            (case run_effect (unpin_remaining m) tx1 live1 r1 of
               ((tx2, live2, r2), Proceed) \<Rightarrow> run_effect (clear_enforce_side_effects m) tx2 live2 r2
             | res \<Rightarrow> res)
          else ((tx1, live1, r1), Proceed)
      | res \<Rightarrow> res)"

definition uninstall_run ::
  "'h Ctx \<Rightarrow> 'h Mutator \<Rightarrow> InstallConfig \<Rightarrow> HostSnapshot \<Rightarrow> Tx \<Rightarrow> 'h run \<Rightarrow> 'h run \<times> outcome" where
  "uninstall_run ctx m config snap tx r =
     (let scope = scope_of ctx;
          tx1 = tx\<lparr>tx_scope := Some scope, phase := ''uninstall'', mutation_in_progress := True,
                   owner_pid := Some (cx_pid ctx)\<rparr>;
          r1 = save_tx tx1 r
      in case uninstall_effects m scope tx1 \<lparr>l_host = w_host (now_world r1), l_snap = snap, l_count = 0\<rparr> r1 of
           ((tx2, live2, r2), Fail e) \<Rightarrow> removal_failed ctx ''UNINSTALLING'' False tx2 e r2
         | ((tx2, live2, r2), res) \<Rightarrow>
             (let overall = h_overall (derive (l_snap live2) config (tx_limitations tx2));
                  r3 = save_health overall (save_snapshot (l_snap live2) r2);
                  tx3 = tx2\<lparr>health_overall := overall\<rparr>
              in case move tx3 ''UNINSTALLED'' (cx_stamp ctx) of
                   Inl e \<Rightarrow> removal_failed ctx ''UNINSTALLING'' False tx3 e r3
                 | Inr tx4 \<Rightarrow>
                     (let tx5 = tx4\<lparr>mutation_in_progress := False, owner_pid := None\<rparr>
                      in (save_tx tx5 r3, Done (exit_for (tx_state tx5)) tx5))))"

definition uninstall_locked :: "'h Ctx \<Rightarrow> 'h Mutator \<Rightarrow> 'h run \<Rightarrow> 'h run \<times> outcome" where
  "uninstall_locked ctx m r =
     (case open_existing ctx (now_world r) of
        Inl e \<Rightarrow> (r, Raised e)
      | Inr (tx0, config) \<Rightarrow>
          if tx_state tx0 = ''ROLLED_BACK'' then
            (r, Raised (install_error ''Rollback already reversed this transaction. Run verify-removal.'' 10 ''ROLLED_BACK''))
          else
            (case (if tx_state tx0 = ''APPLIED'' then move tx0 ''INTERRUPTED'' (cx_stamp ctx) else Inr tx0) of
               Inl e \<Rightarrow> (r, Raised e)
             | Inr tx \<Rightarrow>
                 if tx_state tx \<notin> {''INTERRUPTED'', ''HEALTHY'', ''DEGRADED'', ''FAILED_SAFE''} \<union> set RESIDUAL_STATES then
                   (r, Raised (install_error (''Uninstall cannot start from '' @ tx_state tx @ ''.'') 10 (tx_state tx)))
                 else
                   (case w_snapshot (now_world r) of
                      None \<Rightarrow> (r, Crashed ''FileNotFoundError'')
                    | Some snap \<Rightarrow>
                        (case live_grant ctx tx config snap of
                           Some e \<Rightarrow> (r, Raised e)
                         | None \<Rightarrow>
                             (case move tx ''UNINSTALLING'' (cx_stamp ctx) of
                                Inl e \<Rightarrow> (r, Raised e)
                              | Inr tx1 \<Rightarrow>
                                  (case mutator_error ctx config of
                                     Some e \<Rightarrow> (r, Raised e)
                                   | None \<Rightarrow> uninstall_run ctx m config snap tx1 r))))))"

definition uninstall :: "'h Ctx \<Rightarrow> 'h Mutator \<Rightarrow> 'h run \<Rightarrow> 'h run \<times> outcome" where
  "uninstall ctx m r =
     (case require_yes (cx_yes ctx) ''uninstall'' of
        Inl e \<Rightarrow> (r, Raised e)
      | Inr _ \<Rightarrow> with_lock (uninstall_locked ctx m) r)"

section \<open>Verification of the removal\<close>

definition residual_result :: "(string \<times> string) list \<Rightarrow> string list \<Rightarrow> string" where
  "residual_result items probe_errors =
     (if probe_errors \<noteq> [] then ''UNKNOWN'' else if items \<noteq> [] then ''RESIDUAL_FOUND'' else ''EMPTY'')"

definition removal_verdict :: "'h Ctx \<Rightarrow> Report \<Rightarrow> string" where
  "removal_verdict ctx report =
     (let result = (if cx_fixture ctx then rp_result report
                    else residual_result (rp_items report) (rp_probe_errors report))
      in if result = ''PASS'' then ''RESIDUAL_FOUND'' else result)"

definition removal_state :: "string \<Rightarrow> string" where
  "removal_state result =
     (if result = ''EMPTY'' then ''VERIFIED_REMOVED''
      else if result = ''UNKNOWN'' then ''FAILED_SAFE''
      else if result = ''RESIDUAL_FOUND'' then ''RESIDUAL_FOUND''
      else ''RESIDUAL_PRESENT'')"

definition verify_removal_locked :: "'h Ctx \<Rightarrow> 'h run \<Rightarrow> 'h run \<times> outcome" where
  "verify_removal_locked ctx r =
     (case open_existing ctx (now_world r) of
        Inl e \<Rightarrow> (r, Raised e)
      | Inr (tx0, config) \<Rightarrow>
          if tx_state tx0 \<notin> {''UNINSTALLED'', ''ROLLED_BACK'', ''VERIFIED_REMOVED'', ''RESIDUAL_PRESENT''} then
            (r, Raised (install_error (''verify-removal runs after uninstall or rollback, not from '' @ tx_state tx0 @ ''.'')
                          10 (tx_state tx0)))
          else
            (case move tx0 ''VERIFYING_REMOVAL'' (cx_stamp ctx) of
               Inl e \<Rightarrow> (r, Raised e)
             | Inr tx \<Rightarrow>
                 (case w_snapshot (now_world r) of
                    None \<Rightarrow> (r, Crashed ''FileNotFoundError'')
                  | Some snap0 \<Rightarrow>
                      (case cx_roots ctx config of
                         Some e \<Rightarrow> (r, Raised e)
                       | None \<Rightarrow>
                           (let probes = hk_residual_probe_errors (fixture_hooks config (cx_fixture ctx));
                                snap = (if probes \<noteq> [] then snap0\<lparr>hs_probe_errors := probes\<rparr> else snap0);
                                result = removal_verdict ctx
                                  (cx_inspect ctx (w_host (now_world r)) snap (scope_of ctx) config);
                                r1 = upd (\<lambda>w. w\<lparr>w_residual := Some result\<rparr>) r
                            in case move tx (removal_state result) (cx_stamp ctx) of
                                 Inl e \<Rightarrow> (r1, Raised e)
                               | Inr tx1 \<Rightarrow>
                                   (let tx2 = tx1\<lparr>last_error := (if result = ''UNKNOWN''
                                                     then Some ''residual probe returned UNKNOWN'' else last_error tx1),
                                                  phase := ''verify-removal'', tx_scope := Some (scope_of ctx)\<rparr>
                                    in (save_tx tx2 r1, Done (exit_for (tx_state tx2)) tx2)))))))"

definition verify_removal :: "'h Ctx \<Rightarrow> 'h run \<Rightarrow> 'h run \<times> outcome" where
  "verify_removal ctx r =
     (case guard_readonly_command ctx of
        Some e \<Rightarrow> (r, Raised e)
      | None \<Rightarrow> with_lock (verify_removal_locked ctx) r)"

datatype command = Plan | Apply | Status | Rollback | Uninstall | Verify_Removal

definition run_command :: "command \<Rightarrow> 'h Ctx \<Rightarrow> 'h Mutator \<Rightarrow> 'h run \<Rightarrow> 'h run \<times> outcome" where
  "run_command cmd ctx m r =
     (case cmd of
        Plan \<Rightarrow> plan ctx r | Apply \<Rightarrow> apply_cmd ctx m r | Status \<Rightarrow> status ctx r
      | Rollback \<Rightarrow> rollback ctx m r | Uninstall \<Rightarrow> uninstall ctx m r
      | Verify_Removal \<Rightarrow> verify_removal ctx r)"

end
