(* ===== verification/Install_Engine_Props.thy ===== *)
theory Install_Engine_Props
  imports Install_Engine
begin

text \<open>
  What the transaction commands of \<open>engine.py\<close> keep: the invariant of the saved transaction at
  every point where a process may die, the evidence behind a successful apply, the lock file, and
  the order in which a rollback undoes the steps.
\<close>

section \<open>The invariant of a saved transaction\<close>

definition applied_prefix :: "string list \<Rightarrow> bool" where
  "applied_prefix steps = (\<exists>rest. APPLY_STEPS = steps @ rest)"

lemma applied_prefix_take: "applied_prefix steps \<longleftrightarrow> steps = take (length steps) APPLY_STEPS"
  unfolding applied_prefix_def by (metis append_eq_conv_conj append_take_drop_id)

definition tx_facts ::
  "string \<Rightarrow> (string \<times> string \<times> string) list \<Rightarrow> string list \<Rightarrow> string \<Rightarrow> bool" where
  "tx_facts st history steps overall =
     (chain ''CREATED'' history st
      \<and> applied_prefix steps
      \<and> (st \<in> set SUCCESS_INSTALL_STATES \<longrightarrow>
           ''collect_health'' \<in> set steps
           \<and> (st = ''HEALTHY'' \<and> overall = ''PASS''
              \<or> st = ''DEGRADED'' \<and> overall \<in> {''PASS_WITH_LIMITATIONS'', ''DEGRADED''})))"

definition tx_ok :: "Tx \<Rightarrow> bool" where
  "tx_ok tx = tx_facts (tx_state tx) (state_history tx) (completed_steps tx) (health_overall tx)"

definition world_ok :: "'h World \<Rightarrow> bool" where
  "world_ok w = (case w_tx w of None \<Rightarrow> True | Some tx \<Rightarrow> tx_ok tx)"

text \<open>All worlds of a run keep the invariant, and their lock file is as \<open>Q\<close> says.\<close>

definition run_ok :: "(bool \<Rightarrow> bool) \<Rightarrow> 'h run \<Rightarrow> bool" where
  "run_ok Q r = (r \<noteq> [] \<and> list_all (\<lambda>w. world_ok w \<and> Q (w_lock w)) r)"

lemma run_ok_now: "run_ok Q r \<Longrightarrow> w_tx (hd r) = Some tx \<Longrightarrow> tx_ok tx"
  by (cases r) (auto simp: run_ok_def world_ok_def)

lemma run_ok_upd:
  "run_ok Q r \<Longrightarrow> world_ok (f (hd r)) \<Longrightarrow> w_lock (f (hd r)) = w_lock (hd r) \<Longrightarrow> run_ok Q (upd f r)"
  by (cases r) (auto simp: run_ok_def upd_def)

lemma run_ok_hd: "run_ok Q r \<Longrightarrow> world_ok (hd r)"
  by (cases r) (auto simp: run_ok_def)

lemma run_ok_save_tx [intro!]: "run_ok Q r \<Longrightarrow> tx_ok tx \<Longrightarrow> run_ok Q (save_tx tx r)"
  by (simp add: save_tx_def run_ok_upd world_ok_def)

text \<open>The invariant is about the transaction record alone, so every other write keeps it.\<close>

lemma run_ok_other:
  "run_ok Q r \<Longrightarrow> run_ok Q (save_snapshot s r)"
  "run_ok Q r \<Longrightarrow> run_ok Q (save_health h r)"
  "run_ok Q r \<Longrightarrow> run_ok Q (touch_host x r)"
  "run_ok Q r \<Longrightarrow> run_ok Q (upd (\<lambda>w. w\<lparr>w_plan := p\<rparr>) r)"
  "run_ok Q r \<Longrightarrow> run_ok Q (upd (\<lambda>w. w\<lparr>w_config := c\<rparr>) r)"
  "run_ok Q r \<Longrightarrow> run_ok Q (upd (\<lambda>w. w\<lparr>w_residual := res\<rparr>) r)"
  by (auto simp: save_snapshot_def save_health_def touch_host_def world_ok_def
      intro!: run_ok_upd dest: run_ok_hd)

lemma chain_move: "chain a hops s \<Longrightarrow> legal s t \<Longrightarrow> chain a (hops @ [(s, t, stamp)]) t"
  by (auto simp: chain_append)

lemma move_ok:
  "tx_ok tx \<Longrightarrow> move tx t stamp = Inr tx' \<Longrightarrow> t \<notin> set SUCCESS_INSTALL_STATES \<Longrightarrow> tx_ok tx'"
  by (auto simp: move_Inr tx_ok_def tx_facts_def chain_move)

lemma move2_ok:
  "tx_ok tx \<Longrightarrow> move tx a stamp = Inr t1 \<Longrightarrow> move t1 b stamp2 = Inr t2 \<Longrightarrow>
   a \<notin> set SUCCESS_INSTALL_STATES \<Longrightarrow> b \<notin> set SUCCESS_INSTALL_STATES \<Longrightarrow> tx_ok t2"
  using move_ok by blast

lemma move_health_ok:
  "tx_ok tx \<Longrightarrow> move tx t stamp = Inr tx' \<Longrightarrow> t \<notin> set SUCCESS_INSTALL_STATES \<Longrightarrow>
   tx_ok (tx'\<lparr>health_overall := v\<rparr>)"
  by (auto simp: move_Inr tx_ok_def tx_facts_def chain_move)

lemma move_same: "move tx t stamp = Inr tx' \<Longrightarrow>
    completed_steps tx' = completed_steps tx \<and> tx_state tx' = t \<and> health_overall tx' = health_overall tx
    \<and> phase tx' = phase tx \<and> bundle_digest tx' = bundle_digest tx"
  by (auto simp: move_Inr)

lemma not_success [simp, intro]:
  "''CREATED'' \<notin> set SUCCESS_INSTALL_STATES" "''PREFLIGHTING'' \<notin> set SUCCESS_INSTALL_STATES"
  "''PREFLIGHT_READY'' \<notin> set SUCCESS_INSTALL_STATES"
  "''PREFLIGHT_READY_WITH_LIMITATIONS'' \<notin> set SUCCESS_INSTALL_STATES"
  "''PREFLIGHT_BLOCKED'' \<notin> set SUCCESS_INSTALL_STATES" "''UNSUPPORTED'' \<notin> set SUCCESS_INSTALL_STATES"
  "''PLANNED'' \<notin> set SUCCESS_INSTALL_STATES" "''APPLYING'' \<notin> set SUCCESS_INSTALL_STATES"
  "''APPLIED'' \<notin> set SUCCESS_INSTALL_STATES" "''FAILED_SAFE'' \<notin> set SUCCESS_INSTALL_STATES"
  "''INTERRUPTED'' \<notin> set SUCCESS_INSTALL_STATES" "''ROLLING_BACK'' \<notin> set SUCCESS_INSTALL_STATES"
  "''ROLLED_BACK'' \<notin> set SUCCESS_INSTALL_STATES" "''UNINSTALLING'' \<notin> set SUCCESS_INSTALL_STATES"
  "''UNINSTALLED'' \<notin> set SUCCESS_INSTALL_STATES" "''VERIFYING_REMOVAL'' \<notin> set SUCCESS_INSTALL_STATES"
  by (simp_all add: SUCCESS_INSTALL_STATES_def)

lemma tx_ok_new: "tx_ok (new_tx stamp d c)"
  by (simp add: tx_ok_def tx_facts_def new_tx_def applied_prefix_def)

lemma removal_state_not_success [simp, intro]: "removal_state v \<notin> set SUCCESS_INSTALL_STATES"
  by (simp add: removal_state_def SUCCESS_INSTALL_STATES_def)

lemma plan_gate_not_success: "plan_gate v = Some gate \<Longrightarrow> gate \<notin> set SUCCESS_INSTALL_STATES"
  by (auto simp: plan_gate_def split: if_splits)

text \<open>Fields the invariant does not read.\<close>

lemma tx_ok_fields [simp]:
  "tx_ok (tx\<lparr>preflight_status := a\<rparr>) = tx_ok tx" "tx_ok (tx\<lparr>tx_limitations := b\<rparr>) = tx_ok tx"
  "tx_ok (tx\<lparr>phase := c\<rparr>) = tx_ok tx" "tx_ok (tx\<lparr>owner_pid := d\<rparr>) = tx_ok tx"
  "tx_ok (tx\<lparr>mutation_in_progress := e\<rparr>) = tx_ok tx" "tx_ok (tx\<lparr>last_error := f\<rparr>) = tx_ok tx"
  "tx_ok (tx\<lparr>tx_replayed := g\<rparr>) = tx_ok tx" "tx_ok (tx\<lparr>tx_scope := h\<rparr>) = tx_ok tx"
  "tx_ok (tx\<lparr>live_failure_class := i\<rparr>) = tx_ok tx" "tx_ok (tx\<lparr>rollback_required_steps := j\<rparr>) = tx_ok tx"
  "tx_ok (tx\<lparr>rollback_completed_steps := k\<rparr>) = tx_ok tx" "tx_ok (tx\<lparr>host_mutation_count := l\<rparr>) = tx_ok tx"
  by (simp_all add: tx_ok_def)

lemma tx_ok_health:
  "tx_ok tx \<Longrightarrow> tx_state tx \<notin> set SUCCESS_INSTALL_STATES \<Longrightarrow> tx_ok (tx\<lparr>health_overall := v\<rparr>)"
  by (simp add: tx_ok_def tx_facts_def)

section \<open>Plan and status\<close>

lemma open_existing_tx: "open_existing ctx w = Inr (tx, config) \<Longrightarrow> w_tx w = Some tx"
  by (auto simp: open_existing_def split: if_splits option.splits sum.splits)

lemma open_existing_ok: "run_ok Q r \<Longrightarrow> open_existing ctx (hd r) = Inr (tx, config) \<Longrightarrow> tx_ok tx"
  by (blast dest: open_existing_tx run_ok_now)

lemma gate_moves_ok:
  assumes "bind_res (move (tx\<lparr>preflight_status := a, tx_limitations := b\<rparr>) gate stamp)
      (\<lambda>t. if gate \<in> G then move t ''PLANNED'' stamp else Inr t) = Inr tx'"
    and "tx_ok tx" "gate \<notin> set SUCCESS_INSTALL_STATES"
  shows "tx_ok tx'"
proof -
  obtain t where t: "move (tx\<lparr>preflight_status := a, tx_limitations := b\<rparr>) gate stamp = Inr t"
    "(if gate \<in> G then move t ''PLANNED'' stamp else Inr t) = Inr tx'"
    using assms(1) by (auto simp: bind_res_Inr_iff)
  have "tx_ok t" using move_ok [OF _ t(1)] assms by simp
  with t(2) show ?thesis by (auto dest: move_ok split: if_splits)
qed

lemma plan_preflight_ok:
  assumes "run_ok Q r" "tx_ok tx"
  shows "run_ok Q (fst (plan_preflight ctx config tx r))"
proof -
  obtain overall lims npm where p: "cx_preflight ctx False config (cx_load_host ctx) = (overall, lims, npm)"
    by (cases "cx_preflight ctx False config (cx_load_host ctx)") auto
  show ?thesis
  proof (cases "plan_gate overall")
    case (Some gate)
    show ?thesis
    proof (cases "bind_res (move (tx\<lparr>preflight_status := Some overall, tx_limitations := lims\<rparr>) gate (cx_stamp ctx))
        (\<lambda>t. if gate \<in> {''PREFLIGHT_READY'', ''PREFLIGHT_READY_WITH_LIMITATIONS''}
             then move t ''PLANNED'' (cx_stamp ctx) else Inr t)")
      case (Inr tx')
      from gate_moves_ok [OF Inr assms(2) plan_gate_not_success [OF Some]] assms(1) Inr Some p
      show ?thesis by (simp add: plan_preflight_def Let_def run_ok_other run_ok_save_tx)
    qed (use p Some assms in \<open>simp add: plan_preflight_def Let_def\<close>)
  qed (use p assms in \<open>simp add: plan_preflight_def Let_def\<close>)
qed

text \<open>The shapes the commands are made of: open the record, move it, or raise.\<close>

lemma opened_ok:
  assumes "run_ok Q r"
    and "\<And>tx config. open_existing ctx (hd r) = Inr (tx, config) \<Longrightarrow> tx_ok tx \<Longrightarrow> run_ok Q (fst (k tx config))"
  shows "run_ok Q (fst (case open_existing ctx (hd r) of Inl e \<Rightarrow> (r, Raised e) | Inr (tx, config) \<Rightarrow> k tx config))"
  using assms open_existing_ok [OF assms(1)] by (auto split: sum.splits)

lemma moved_ok:
  assumes "run_ok Q r" "tx_ok tx" "t \<notin> set SUCCESS_INSTALL_STATES"
    and "\<And>tx'. move tx t stamp = Inr tx' \<Longrightarrow> tx_ok tx' \<Longrightarrow> run_ok Q (fst (k tx'))"
  shows "run_ok Q (fst (case move tx t stamp of Inl e \<Rightarrow> (r, Raised e) | Inr tx' \<Rightarrow> k tx'))"
  using assms move_ok [OF assms(2)] by (auto split: sum.splits)

lemma maybe_moved_ok:
  assumes "run_ok Q r" "tx_ok tx" "t \<notin> set SUCCESS_INSTALL_STATES"
    and "\<And>tx'. (if c then move tx t stamp else Inr tx) = Inr tx' \<Longrightarrow> tx_ok tx' \<Longrightarrow> run_ok Q (fst (k tx'))"
  shows "run_ok Q (fst (case (if c then move tx t stamp else Inr tx) of Inl e \<Rightarrow> (r, Raised e) | Inr tx' \<Rightarrow> k tx'))"
  using assms move_ok [OF assms(2)] by (auto split: sum.splits)

lemma guarded_ok:
  assumes "run_ok Q r" "x = None \<Longrightarrow> run_ok Q (fst k)"
  shows "run_ok Q (fst (case x of Some e \<Rightarrow> (r, Raised e) | None \<Rightarrow> k))"
  using assms by (auto split: option.splits)

lemma read_ok:
  assumes "run_ok Q r" "\<And>v. x = Some v \<Longrightarrow> run_ok Q (fst (k v))"
  shows "run_ok Q (fst (case x of None \<Rightarrow> (r, Crashed msg) | Some v \<Rightarrow> k v))"
  using assms by (auto split: option.splits)

lemma branch_ok: "(c \<Longrightarrow> run_ok Q (fst a)) \<Longrightarrow> (\<not> c \<Longrightarrow> run_ok Q (fst b)) \<Longrightarrow> run_ok Q (fst (if c then a else b))"
  by simp

lemmas command_ok = opened_ok moved_ok maybe_moved_ok guarded_ok read_ok branch_ok

lemma raised_ok:
  assumes "run_ok Q r" "\<And>v. x = Inr v \<Longrightarrow> run_ok Q (fst (k v))"
  shows "run_ok Q (fst (case x of Inl e \<Rightarrow> (r, Raised e) | Inr v \<Rightarrow> k v))"
  using assms by (auto split: sum.splits)

lemma plan_locked_ok:
  assumes "run_ok Q r"
  shows "run_ok Q (fst (plan_locked ctx config r))"
proof -
  define tx where "tx = (case w_tx (hd r) of None \<Rightarrow> new_tx (cx_stamp ctx) (cx_digest ctx) (cx_config_digest ctx) | Some t \<Rightarrow> t)"
  define r1 where "r1 = (case w_tx (hd r) of None \<Rightarrow>
      save_tx (new_tx (cx_stamp ctx) (cx_digest ctx) (cx_config_digest ctx)) r | Some _ \<Rightarrow> r)"
  have tx: "tx_ok tx" using assms by (auto simp: tx_def tx_ok_new dest: run_ok_now split: option.splits)
  have r1: "run_ok Q r1" using assms by (auto simp: r1_def tx_ok_new split: option.splits)
  show ?thesis
    unfolding plan_locked_def Let_def tx_def [symmetric] r1_def [symmetric]
    using tx r1 by (intro branch_ok read_ok raised_ok plan_preflight_ok)
      (auto dest: move_ok move2_ok split: if_splits)
qed

lemma status_locked_ok: "run_ok Q r \<Longrightarrow> run_ok Q (fst (status_locked ctx r))"
  unfolding status_locked_def Let_def by (intro command_ok) auto

lemma locked_start: "run_ok Q r \<Longrightarrow> run_ok id [(hd r)\<lparr>w_lock := True\<rparr>]"
  by (cases r) (auto simp: run_ok_def world_ok_def)

lemma with_lock_ok:
  assumes "run_ok (\<lambda>_. True) r" "\<And>r. run_ok id r \<Longrightarrow> run_ok id (fst (body r))"
  shows "run_ok (\<lambda>_. True) (fst (with_lock body r))"
proof (cases "w_lock (hd r)")
  case False
  obtain r' out where b: "body [(hd r)\<lparr>w_lock := True\<rparr>] = (r', out)" by (metis prod.exhaust)
  have "run_ok id r'" using assms(2) [OF locked_start [OF assms(1)]] b by simp
  with assms(1) b False show ?thesis
    by (cases r') (auto simp: with_lock_def run_ok_def world_ok_def list_all_iff)
qed (use assms in \<open>simp add: with_lock_def\<close>)

lemma with_lock_holds:
  assumes "run_ok (\<lambda>_. True) [w]" "\<And>r. run_ok id r \<Longrightarrow> run_ok id (fst (body r))"
  shows "\<forall>w' \<in> set (butlast (tl (fst (with_lock body [w])))). w_lock w'"
proof (cases "w_lock w")
  case False
  obtain r' out where b: "body [w\<lparr>w_lock := True\<rparr>] = (r', out)" by (metis prod.exhaust)
  have "run_ok id r'" using assms(2) [OF locked_start [OF assms(1)]] b by simp
  with b False show ?thesis by (auto simp: with_lock_def run_ok_def list_all_iff)
qed (simp add: with_lock_def)

lemma yes_ok:
  assumes "run_ok Q r" "run_ok Q (fst k)"
  shows "run_ok Q (fst (case require_yes y act of Inl e \<Rightarrow> (r, Raised e) | Inr _ \<Rightarrow> k))"
  using assms by (auto split: sum.splits)

section \<open>Apply\<close>

lemma move_step_ok:
  assumes "move_step tx t stamp f res live r = ((tx1, live1, r1), res1)" "tx_ok tx" "run_ok Q r"
    and "t \<notin> set SUCCESS_INSTALL_STATES" "\<And>t. tx_ok (f t) = tx_ok t" "\<And>t. completed_steps (f t) = completed_steps t"
  shows "tx_ok tx1 \<and> run_ok Q r1 \<and> completed_steps tx1 = completed_steps tx"
  using assms by (auto simp: move_step_def dest: move_ok move_same split: sum.splits)

lemma run_effect_ok:
  assumes "run_effect op tx live r = ((tx1, live1, r1), res)" "run_ok Q r"
  shows "tx1 = tx \<and> run_ok Q r1 \<and> res \<noteq> Stop"
  using assms by (auto simp: run_effect_def Let_def run_ok_other split: prod.splits option.splits)

text \<open>A step that went through: the record with the step added is what is saved next.\<close>

definition step_done :: "string \<Rightarrow> Tx \<Rightarrow> bool" where
  "step_done step tx = tx_ok (tx\<lparr>completed_steps := completed_steps tx @ [step]\<rparr>)"

definition next_step :: "string \<Rightarrow> Tx \<Rightarrow> bool" where
  "next_step step tx = (\<exists>rest. APPLY_STEPS = completed_steps tx @ step # rest)"

lemma next_step_prefix: "next_step step tx \<Longrightarrow> applied_prefix (completed_steps tx @ [step])"
  by (auto simp: next_step_def applied_prefix_def)

lemma step_done_intro: "tx_ok tx \<Longrightarrow> next_step step tx \<Longrightarrow> step_done step tx"
  using next_step_prefix [of step tx] by (auto simp: step_done_def tx_ok_def tx_facts_def)

lemma distinct_apply_steps: "distinct APPLY_STEPS" by code_simp

lemma next_step_new: "next_step step tx \<Longrightarrow> step \<notin> set (completed_steps tx)"
proof -
  assume "next_step step tx"
  then obtain rest where "APPLY_STEPS = completed_steps tx @ step # rest" by (auto simp: next_step_def)
  with distinct_apply_steps have "distinct (completed_steps tx @ step # rest)" by metis
  then show ?thesis by simp
qed

lemma collect_health_ok:
  assumes "collect_health ctx config tx live r = ((tx1, live1, r1), res)"
    and "tx_ok tx" "run_ok Q r" "next_step ''collect_health'' tx"
  shows "run_ok Q r1 \<and> completed_steps tx1 = completed_steps tx \<and> res \<noteq> Stop
     \<and> (if res = Proceed then step_done ''collect_health'' tx1 else tx_ok tx1)"
proof -
  have fresh: "tx_state tx \<notin> set SUCCESS_INSTALL_STATES"
    using assms(2) next_step_new [OF assms(4)] by (auto simp: tx_ok_def tx_facts_def)
  have pre: "applied_prefix (completed_steps tx @ [''collect_health''])" by (rule next_step_prefix [OF assms(4)])
  show ?thesis
    using assms(1-3) fresh pre
    by (auto simp: collect_health_def move_step_def move_Inr Let_def run_ok_other tx_ok_health step_done_def
        tx_ok_def tx_facts_def chain_move split: if_splits sum.splits)
qed

lemma run_step_ok:
  assumes "run_step ctx m config step tx live r = ((tx1, live1, r1), res)"
    and "tx_ok tx" "run_ok Q r" "next_step step tx"
  shows "run_ok Q r1 \<and> completed_steps tx1 = completed_steps tx
     \<and> (if res = Proceed then step_done step tx1 else tx_ok tx1)"
proof -
  have same: "next_step step t" if "completed_steps t = completed_steps tx" for t
    using that assms(4) by (simp add: next_step_def)
  consider "step \<in> {''verify_artifacts'', ''mark_applied''}" | "step = ''collect_health''"
    | "step = ''write_support_index''"
    | "step \<notin> {''verify_artifacts'', ''mark_applied'', ''collect_health'', ''write_support_index''}" by auto
  then show ?thesis
  proof cases
    case 1
    have "tx_ok tx1 \<and> run_ok Q r1 \<and> completed_steps tx1 = completed_steps tx"
      using 1 assms(1-3)
      by (auto simp: run_step_def Let_def move_step_def dest: move_ok move_same move_health_ok
          split: if_splits sum.splits)
    with same step_done_intro show ?thesis by auto
  next
    case 2
    then have "collect_health ctx config tx live r = ((tx1, live1, r1), res)"
      using assms(1) by (simp add: run_step_def)
    from collect_health_ok [OF this] assms 2 show ?thesis by auto
  next
    case 3
    with assms step_done_intro show ?thesis by (auto simp: run_step_def run_ok_other)
  next
    case 4
    with assms(1) have "run_effect (apply_step m step) tx live r = ((tx1, live1, r1), res)"
      by (simp add: run_step_def)
    from run_effect_ok [OF this assms(3)] assms step_done_intro show ?thesis by auto
  qed
qed

lemma complete_step_ok:
  assumes "complete_step m step tx live r = (tx1, live1, r1)" "step_done step tx" "run_ok Q r"
  shows "run_ok Q r1 \<and> tx_ok tx1 \<and> completed_steps tx1 = completed_steps tx @ [step]"
  using assms by (auto simp: complete_step_def step_done_def Let_def run_ok_other)

lemma next_step_at:
  assumes "APPLY_STEPS = before @ step # rest" "applied_prefix (completed_steps tx)"
    and "length before \<le> length (completed_steps tx)" "step \<notin> set (completed_steps tx)"
  shows "completed_steps tx = before"
proof -
  obtain more where "APPLY_STEPS = completed_steps tx @ more" using assms(2) by (auto simp: applied_prefix_def)
  with assms(1) have "completed_steps tx @ more = before @ step # rest" by metis
  then obtain mid where "completed_steps tx = before @ mid" "step # rest = mid @ more"
    using assms(3) by (auto simp: append_eq_append_conv2)
  with assms(4) show ?thesis by (cases mid) auto
qed

lemma passed_step:
  assumes "APPLY_STEPS = before @ step # rest" "applied_prefix (completed_steps tx)"
    and "length before \<le> length (completed_steps tx)" "step \<in> set (completed_steps tx)"
  shows "length before < length (completed_steps tx)"
proof (rule ccontr)
  obtain more where "APPLY_STEPS = completed_steps tx @ more" using assms(2) by (auto simp: applied_prefix_def)
  with assms(1) have eq: "completed_steps tx @ more = before @ step # rest" by metis
  assume "\<not> ?thesis"
  with eq assms(3) have "completed_steps tx = before" by simp
  moreover have "distinct (before @ step # rest)" using assms(1) distinct_apply_steps by metis
  ultimately show False using assms(4) by simp
qed

lemma apply_loop_ok:
  assumes "apply_loop ctx m config steps tx live r = (tx1, live1, r1, err)"
    and "tx_ok tx" "run_ok Q r" "APPLY_STEPS = before @ steps" "length before \<le> length (completed_steps tx)"
  shows "tx_ok tx1 \<and> run_ok Q r1"
  using assms
proof (induction steps arbitrary: tx live r before)
  case (Cons step rest)
  show ?case
  proof (cases "step \<in> set (completed_steps tx)")
    case True
    have "applied_prefix (completed_steps tx)" using Cons.prems by (simp add: tx_ok_def tx_facts_def)
    from passed_step [OF _ this] Cons.prems True
    have "length (before @ [step]) \<le> length (completed_steps tx)" by (simp add: Suc_le_eq)
    with True Cons.prems Cons.IH [of tx live r "before @ [step]"] show ?thesis by simp
  next
    case False
    have eq: "completed_steps tx = before"
      using next_step_at Cons.prems False by (auto simp: tx_ok_def tx_facts_def)
    then have nxt: "next_step step tx" using Cons.prems by (auto simp: next_step_def)
    obtain tx2 live2 r2 res where step: "run_step ctx m config step tx live r = ((tx2, live2, r2), res)"
      by (metis prod.exhaust)
    note ok = run_step_ok [OF step Cons.prems(2,3) nxt]
    obtain tx3 live3 r3 where comp: "complete_step m step tx2 live2 r2 = (tx3, live3, r3)"
      by (metis prod.exhaust)
    show ?thesis
    proof (cases res)
      case Proceed
      with ok complete_step_ok [OF comp] have ok3: "run_ok Q r3" "tx_ok tx3" "completed_steps tx3 = before @ [step]"
        using eq by auto
      show ?thesis
        using Cons.prems(1) False step Proceed comp ok3 Cons.IH [of tx3 live3 r3 "before @ [step]"] Cons.prems(4)
        by (auto dest: move_ok split: if_splits sum.splits)
    qed (use Cons.prems(1) False step ok in auto)
  qed
qed auto

lemma apply_failed_ok:
  assumes "run_ok Q r" "tx_ok tx"
  shows "run_ok Q (fst (apply_failed ctx tx e step r))"
  unfolding apply_failed_def Let_def using assms
  by (intro raised_ok) (auto dest: move_ok split: if_splits)

lemma apply_steps_ok:
  assumes "run_ok Q r" "tx_ok tx"
  shows "run_ok Q (fst (apply_steps ctx m config tx live r))"
proof -
  obtain tx1 live1 r1 err where loop: "apply_loop ctx m config APPLY_STEPS tx live r = (tx1, live1, r1, err)"
    by (metis prod.exhaust)
  have "tx_ok tx1 \<and> run_ok Q r1" by (rule apply_loop_ok [OF loop assms(2,1), of "[]"]) auto
  then show ?thesis using loop apply_failed_ok [of Q r1 tx1] by (auto simp: apply_steps_def Let_def split: option.splits)
qed

lemma apply_recheck_ok:
  assumes "run_ok Q r" "tx_ok tx"
  shows "run_ok Q (fst (apply_recheck ctx m config snap tx r))"
  unfolding apply_recheck_def Let_def using assms
  by (intro maybe_moved_ok guarded_ok branch_ok moved_ok apply_steps_ok) (auto dest: move_ok)

lemma fail_checkpoint_ok:
  assumes "run_ok Q r" "tx_ok tx" "\<And>t. tx_ok (f t) = tx_ok t"
  shows "run_ok Q (fst (fail_checkpoint ctx c f tx r))"
  unfolding fail_checkpoint_def using assms
  by (intro raised_ok) (auto simp: bind_res_Inr_iff dest: move_ok move2_ok split: if_splits)

lemma apply_locked_ok:
  assumes "run_ok Q r"
  shows "run_ok Q (fst (apply_locked ctx m r))"
  unfolding apply_locked_def Let_def using assms
  by (intro opened_ok branch_ok read_ok guarded_ok fail_checkpoint_ok apply_recheck_ok) auto

section \<open>Rollback, uninstall, verification\<close>

lemma removal_failed_ok:
  assumes "run_ok Q r" "tx_ok tx"
  shows "run_ok Q (fst (removal_failed ctx st b tx e r))"
  unfolding removal_failed_def Let_def using assms
  by (intro maybe_moved_ok) auto

lemma rollback_loop_ok:
  assumes "rollback_loop ctx m config steps tx live r = ((tx1, live1, r1), res)" "tx_ok tx" "run_ok Q r"
  shows "tx_ok tx1 \<and> run_ok Q r1"
  using assms
proof (induction steps arbitrary: tx live r)
  case Nil
  obtain t2 l2 r2 res2 where e2: "run_effect (unpin_remaining m) tx live r = ((t2, l2, r2), res2)" by (metis prod.exhaust)
  obtain t3 l3 r3 res3 where e3: "run_effect (clear_enforce_side_effects m) t2 l2 r2 = ((t3, l3, r3), res3)"
    by (metis prod.exhaust)
  have t2: "t2 = tx" "run_ok Q r2" using run_effect_ok [OF e2] Nil.prems by auto
  have t3: "t3 = tx" "run_ok Q r3" using run_effect_ok [OF e3] t2 by auto
  show ?case
  proof (cases "res2 = Proceed \<and> res3 = Proceed")
    case True
    with Nil.prems(1) e2 e3 have "move_step t3 ''ROLLED_BACK'' (cx_stamp ctx) (\<lambda>t. t\<lparr>last_error := None\<rparr>) Proceed l3
        (save_snapshot (l_snap l3) r3) = ((tx1, live1, r1), res)" by simp
    from move_step_ok [OF this, where Q = Q] t3 Nil.prems show ?thesis by (simp add: run_ok_other)
  qed (use Nil.prems e2 e3 t2 t3 in \<open>auto split: step_result.splits\<close>)
next
  case (Cons step rest)
  obtain t2 l2 r2 res2 where e2: "run_effect (rollback_step m step) tx live r = ((t2, l2, r2), res2)" by (metis prod.exhaust)
  have t2: "t2 = tx" "run_ok Q r2" using run_effect_ok [OF e2] Cons.prems by auto
  let ?tx = "tx\<lparr>rollback_completed_steps := rollback_completed_steps tx @ [step]\<rparr>"
  let ?r = "save_tx ?tx (save_snapshot (l_snap l2) r2)"
  have r: "run_ok Q ?r" using t2 Cons.prems by (auto intro: run_ok_other)
  show ?case
  proof (cases "res2 = Proceed")
    case True
    show ?thesis
    proof (cases "hk_rollback_interrupt_after_step (fixture_hooks config (cx_fixture ctx)) = Some step")
      case int: True
      with Cons.prems(1) e2 t2 True have "move_step ?tx ''INTERRUPTED'' (cx_stamp ctx)
          (\<lambda>t. t\<lparr>last_error := Some (''rollback interrupted after '' @ step)\<rparr>) Stop l2 ?r = ((tx1, live1, r1), res)"
        by (simp add: Let_def)
      from move_step_ok [OF this, where Q = Q] r Cons.prems show ?thesis by simp
    next
      case False
      with Cons.prems e2 t2 True r Cons.IH [of ?tx l2 ?r] show ?thesis by (simp add: Let_def)
    qed
  qed (use Cons.prems e2 t2 in \<open>auto split: step_result.splits\<close>)
qed

lemma move_step_state:
  assumes "move_step tx t stamp f res live r = ((tx1, live1, r1), res1)" "\<And>x. tx_state (f x) = tx_state x"
  shows "(res1 = res \<and> tx_state tx1 = t) \<or> (\<exists>e. res1 = Fail e \<and> tx_state tx1 = tx_state tx)"
  using assms by (auto simp: move_step_def dest: move_same split: sum.splits)

lemma run_effect_state:
  "run_effect op tx live r = ((tx1, live1, r1), res) \<Longrightarrow> tx1 = tx \<and> res \<noteq> Stop"
  by (auto simp: run_effect_def Let_def split: prod.splits option.splits)

lemma rollback_loop_state:
  assumes "rollback_loop ctx m config steps tx live r = ((tx1, live1, r1), res)"
  shows "(res = Proceed \<and> tx_state tx1 = ''ROLLED_BACK'') \<or> (res = Stop \<and> tx_state tx1 = ''INTERRUPTED'')
    \<or> (\<exists>e. res = Fail e \<and> tx_state tx1 = tx_state tx)"
  using assms
proof (induction steps arbitrary: tx live r)
  case Nil
  then show ?case
    by (auto split: prod.splits step_result.splits dest: run_effect_state move_step_state)
      (auto dest!: run_effect_state move_step_state)
next
  case (Cons step rest)
  show ?case
  proof (cases "\<exists>t l r2. run_effect (rollback_step m step) tx live r = ((t, l, r2), Proceed)")
    case True
    then obtain l r2 where "run_effect (rollback_step m step) tx live r = ((tx, l, r2), Proceed)"
      using run_effect_state by blast
    with Cons.prems show ?thesis by (auto simp: Let_def dest!: move_step_state Cons.IH split: if_splits)
  qed (use Cons.prems in \<open>auto split: prod.splits step_result.splits dest: run_effect_state\<close>)
qed

lemma rollback_run_ok:
  assumes "run_ok Q r" "tx_ok tx"
  shows "run_ok Q (fst (rollback_run ctx m config snap tx r))"
proof -
  let ?tx = "tx\<lparr>mutation_in_progress := True, owner_pid := Some (cx_pid ctx), phase := ''rollback''\<rparr>"
  let ?r = "save_tx ?tx r"
  let ?live = "\<lparr>l_host = w_host (hd ?r), l_snap = snap, l_count = 0\<rparr>"
  obtain tx1 live1 r1 res where loop: "rollback_loop ctx m config
      (rollback_pending m ?tx (w_host (hd r))) ?tx ?live ?r = ((tx1, live1, r1), res)" by (metis prod.exhaust)
  have ok: "tx_ok tx1 \<and> run_ok Q r1" by (rule rollback_loop_ok [OF loop]) (use assms in auto)
  have "fst (rollback_run ctx m config snap tx r) =
      (case res of Fail e \<Rightarrow> fst (removal_failed ctx ''ROLLING_BACK'' True tx1 e r1)
       | _ \<Rightarrow> (let overall = h_overall (derive (l_snap live1) config (tx_limitations tx1)) in
           save_tx (tx1\<lparr>health_overall := overall, mutation_in_progress := False, owner_pid := None\<rparr>)
             (save_health overall r1)))"
    using loop by (auto simp: rollback_run_def Let_def split: step_result.splits)
  moreover have "tx_state tx1 \<notin> set SUCCESS_INSTALL_STATES" if "res = Proceed \<or> res = Stop"
    using rollback_loop_state [OF loop] that by auto
  ultimately show ?thesis
    using ok by (auto simp: Let_def run_ok_other tx_ok_health removal_failed_ok split: step_result.splits)
qed

lemma rollback_locked_ok:
  assumes "run_ok Q r"
  shows "run_ok Q (fst (rollback_locked ctx m r))"
  unfolding rollback_locked_def using assms
  by (intro opened_ok maybe_moved_ok branch_ok read_ok guarded_ok rollback_run_ok) auto

lemma uninstall_effects_ok:
  assumes "uninstall_effects m scope tx live r = ((tx1, live1, r1), res)" "run_ok Q r"
  shows "tx1 = tx \<and> run_ok Q r1"
proof -
  obtain t2 l2 r2 res2 where e2: "run_effect (mu_uninstall m scope) tx live r = ((t2, l2, r2), res2)" by (metis prod.exhaust)
  obtain t3 l3 r3 res3 where e3: "run_effect (unpin_remaining m) t2 l2 r2 = ((t3, l3, r3), res3)" by (metis prod.exhaust)
  obtain t4 l4 r4 res4 where e4: "run_effect (clear_enforce_side_effects m) t3 l3 r3 = ((t4, l4, r4), res4)" by (metis prod.exhaust)
  note ok2 = run_effect_ok [OF e2 assms(2)]
  note ok3 = run_effect_ok [OF e3] and ok4 = run_effect_ok [OF e4]
  show ?thesis
    using assms(1) e2 e3 e4 ok2 ok3 ok4
    by (auto simp: uninstall_effects_def split: if_splits step_result.splits)
qed

lemma uninstall_run_ok:
  assumes "run_ok Q r" "tx_ok tx" "tx_state tx \<notin> set SUCCESS_INSTALL_STATES"
  shows "run_ok Q (fst (uninstall_run ctx m config snap tx r))"
proof -
  let ?tx = "tx\<lparr>tx_scope := Some (scope_of ctx), phase := ''uninstall'', mutation_in_progress := True, owner_pid := Some (cx_pid ctx)\<rparr>"
  let ?r = "save_tx ?tx r"
  obtain tx1 live1 r1 res where eff: "uninstall_effects m (scope_of ctx) ?tx
      \<lparr>l_host = w_host (hd ?r), l_snap = snap, l_count = 0\<rparr> ?r = ((tx1, live1, r1), res)" by (metis prod.exhaust)
  have ok: "tx1 = ?tx \<and> run_ok Q r1" by (rule uninstall_effects_ok [OF eff]) (use assms in auto)
  then have ok1: "tx_ok tx1" "run_ok Q r1" using assms by simp_all
  have health: "tx_ok (tx1\<lparr>health_overall := v\<rparr>)" for v
    using ok assms by (simp add: tx_ok_health)
  show ?thesis
    using ok1 eff
    by (auto simp: uninstall_run_def Let_def run_ok_other removal_failed_ok health dest: move_ok [OF health]
        split: step_result.splits sum.splits)
qed

lemma uninstall_locked_ok:
  assumes "run_ok Q r"
  shows "run_ok Q (fst (uninstall_locked ctx m r))"
  unfolding uninstall_locked_def using assms
  by (intro opened_ok maybe_moved_ok moved_ok branch_ok read_ok guarded_ok uninstall_run_ok) (auto dest: move_same)

lemma verify_removal_locked_ok:
  assumes "run_ok Q r"
  shows "run_ok Q (fst (verify_removal_locked ctx r))"
  unfolding verify_removal_locked_def Let_def using assms
  by (intro opened_ok moved_ok branch_ok read_ok guarded_ok) (auto intro: run_ok_other)

lemmas locked_bodies_ok =
  plan_locked_ok apply_locked_ok status_locked_ok rollback_locked_ok uninstall_locked_ok verify_removal_locked_ok

text \<open>Every command is its guards and, behind them, a locked body.\<close>

definition locked_body :: "command \<Rightarrow> 'h Ctx \<Rightarrow> 'h Mutator \<Rightarrow> InstallConfig \<Rightarrow> 'h run \<Rightarrow> 'h run \<times> outcome" where
  "locked_body cmd ctx m config =
     (case cmd of
        Plan \<Rightarrow> plan_locked ctx config | Apply \<Rightarrow> apply_locked ctx m | Status \<Rightarrow> status_locked ctx
      | Rollback \<Rightarrow> rollback_locked ctx m | Uninstall \<Rightarrow> uninstall_locked ctx m
      | Verify_Removal \<Rightarrow> verify_removal_locked ctx)"

lemma locked_body_ok: "run_ok Q r \<Longrightarrow> run_ok Q (fst (locked_body cmd ctx m config r))"
  by (auto simp: locked_body_def locked_bodies_ok split: command.splits)

lemma run_command_cases:
  "(\<exists>e. run_command cmd ctx m r = (r, Raised e))
   \<or> (\<exists>config. run_command cmd ctx m r = with_lock (locked_body cmd ctx m config) r)"
  by (auto simp: run_command_def plan_def apply_cmd_def status_def rollback_def uninstall_def verify_removal_def
      locked_body_def split: command.splits option.splits sum.splits)

lemma run_command_ok:
  assumes "run_ok (\<lambda>_. True) r"
  shows "run_ok (\<lambda>_. True) (fst (run_command cmd ctx m r))"
  using run_command_cases [of cmd ctx m r] with_lock_ok [OF assms locked_body_ok] assms by auto

section \<open>The evidence behind a success state\<close>

lemma next_after_health:
  assumes "next_step step tx" "''collect_health'' \<in> set (completed_steps tx)"
  shows "step = ''write_support_index''"
proof -
  obtain rest where eq: "APPLY_STEPS = completed_steps tx @ step # rest" using assms(1) by (auto simp: next_step_def)
  let ?k = "length (completed_steps tx)"
  have "?k < length APPLY_STEPS" "completed_steps tx = take ?k APPLY_STEPS" "APPLY_STEPS ! ?k = step"
    by (simp_all add: eq)
  moreover have "\<forall>k < length APPLY_STEPS. ''collect_health'' \<in> set (take k APPLY_STEPS) \<longrightarrow>
      APPLY_STEPS ! k = ''write_support_index''" by code_simp
  ultimately show ?thesis using assms(2) by metis
qed

text \<open>A success state in memory is backed by the snapshot in memory.\<close>

definition backed :: "InstallConfig \<Rightarrow> Tx \<Rightarrow> HostSnapshot \<Rightarrow> bool" where
  "backed config tx snap =
     (tx_state tx \<in> set SUCCESS_INSTALL_STATES \<longrightarrow>
        (tx_state tx = ''HEALTHY'' \<and> h_overall (derive snap config (tx_limitations tx)) = ''PASS''
         \<or> tx_state tx = ''DEGRADED'' \<and>
           h_overall (derive snap config (tx_limitations tx)) \<in> {''PASS_WITH_LIMITATIONS'', ''DEGRADED''}))"

lemma move_limitations: "move tx t stamp = Inr tx' \<Longrightarrow> tx_limitations tx' = tx_limitations tx"
  by (auto simp: move_Inr)

lemma collect_health_backed:
  assumes "collect_health ctx config tx live r = ((tx1, live1, r1), res)" "tx_state tx \<notin> set SUCCESS_INSTALL_STATES"
  shows "backed config tx1 (l_snap live1)"
  using assms
  by (auto simp: collect_health_def move_step_def Let_def backed_def
      dest: move_same move_limitations split: if_splits sum.splits)

lemma run_step_backed:
  assumes "run_step ctx m config step tx live r = ((tx1, live1, r1), res)"
    and "tx_ok tx" "next_step step tx" "backed config tx (l_snap live)"
  shows "backed config tx1 (l_snap live1)"
proof (cases "tx_state tx \<in> set SUCCESS_INSTALL_STATES")
  case True
  then have "''collect_health'' \<in> set (completed_steps tx)" using assms(2) by (auto simp: tx_ok_def tx_facts_def)
  with next_after_health [OF assms(3)] assms(1,4) show ?thesis by (auto simp: run_step_def)
next
  case False
  show ?thesis
  proof (cases "step = ''collect_health''")
    case True
    with assms(1) have "collect_health ctx config tx live r = ((tx1, live1, r1), res)" by (simp add: run_step_def)
    with False show ?thesis by (rule collect_health_backed [rotated])
  next
    case other: False
    with assms(1) False have "tx_state tx1 \<notin> set SUCCESS_INSTALL_STATES"
      by (auto simp: run_step_def Let_def move_step_def dest: move_same run_effect_state
          split: if_splits sum.splits)
    then show ?thesis by (simp add: backed_def)
  qed
qed

lemma run_step_refused:
  assumes "run_step ctx m config step tx live r = ((tx1, live1, r1), res)" "res \<noteq> Proceed"
    and "tx_ok tx" "next_step step tx"
  shows "tx_state tx1 \<notin> set SUCCESS_INSTALL_STATES"
proof (cases "tx_state tx \<in> set SUCCESS_INSTALL_STATES")
  case True
  then have "''collect_health'' \<in> set (completed_steps tx)" using assms(3) by (auto simp: tx_ok_def tx_facts_def)
  with next_after_health [OF assms(4)] assms(1,2) show ?thesis by (auto simp: run_step_def)
next
  case False
  with assms(1,2) show ?thesis
    by (auto simp: run_step_def collect_health_def Let_def move_step_def dest: move_same run_effect_state
        split: if_splits sum.splits)
qed

lemma backed_other: "move tx t stamp = Inr tx' \<Longrightarrow> t \<notin> set SUCCESS_INSTALL_STATES \<Longrightarrow> backed config tx' snap"
  by (auto simp: backed_def dest: move_same)

text \<open>After at least one step the snapshot on disk is the one in memory.\<close>

lemma complete_step_saves:
  assumes "complete_step m step tx live r = (tx1, live1, r1)"
  shows "w_snapshot (hd r1) = Some (l_snap live1) \<and> l_snap live1 = l_snap live
    \<and> tx_state tx1 = tx_state tx \<and> tx_limitations tx1 = tx_limitations tx"
  using assms by (auto simp: complete_step_def Let_def save_tx_def save_snapshot_def upd_def)

definition settled :: "InstallConfig \<Rightarrow> Tx \<Rightarrow> 'h Live \<Rightarrow> 'h run \<Rightarrow> bool" where
  "settled config tx live r =
     (backed config tx (l_snap live)
      \<and> (tx_state tx \<in> set SUCCESS_INSTALL_STATES \<longrightarrow> w_snapshot (hd r) = Some (l_snap live)))"

lemma apply_loop_settled:
  assumes "apply_loop ctx m config steps tx live r = (tx1, live1, r1, err)"
    and "tx_ok tx" "run_ok Q r" "APPLY_STEPS = before @ steps" "length before \<le> length (completed_steps tx)"
    and "settled config tx live r"
  shows "settled config tx1 live1 r1 \<and> (err \<noteq> None \<longrightarrow> tx_state tx1 \<notin> set SUCCESS_INSTALL_STATES)"
  using assms
proof (induction steps arbitrary: tx live r before)
  case (Cons step rest)
  have pre: "applied_prefix (completed_steps tx)" using Cons.prems by (simp add: tx_ok_def tx_facts_def)
  show ?case
  proof (cases "step \<in> set (completed_steps tx)")
    case True
    from passed_step [OF _ pre] Cons.prems True
    have "length (before @ [step]) \<le> length (completed_steps tx)" by (simp add: Suc_le_eq)
    with True Cons.prems Cons.IH [of tx live r "before @ [step]"] show ?thesis by simp
  next
    case False
    have eq: "completed_steps tx = before" using next_step_at pre Cons.prems False by blast
    then have nxt: "next_step step tx" using Cons.prems by (auto simp: next_step_def)
    obtain tx2 live2 r2 res where step: "run_step ctx m config step tx live r = ((tx2, live2, r2), res)"
      by (metis prod.exhaust)
    note ok = run_step_ok [OF step Cons.prems(2,3) nxt]
    have b: "backed config tx2 (l_snap live2)"
      using run_step_backed [OF step Cons.prems(2) nxt] Cons.prems(6) by (simp add: settled_def)
    obtain tx3 live3 r3 where comp: "complete_step m step tx2 live2 r2 = (tx3, live3, r3)" by (metis prod.exhaust)
    note saved = complete_step_saves [OF comp]
    show ?thesis
    proof (cases res)
      case Proceed
      with ok complete_step_ok [OF comp] have ok3: "run_ok Q r3" "tx_ok tx3" "completed_steps tx3 = before @ [step]"
        using eq by auto
      have "settled config tx3 live3 r3" using b saved by (auto simp: settled_def backed_def)
      then show ?thesis
        using Cons.prems(1) False step Proceed comp ok3 Cons.IH [of tx3 live3 r3 "before @ [step]"] Cons.prems(4)
        by (auto simp: settled_def backed_def dest: move_same split: if_splits sum.splits)
    qed (use Cons.prems(1) False step run_step_refused [OF step _ Cons.prems(2) nxt]
         in \<open>auto simp: settled_def backed_def\<close>)
  qed
qed auto

lemma apply_failed_state:
  assumes "apply_failed ctx tx e step r = (r1, Done code tx1)" "tx_state tx \<notin> set SUCCESS_INSTALL_STATES"
  shows "tx_state tx1 \<notin> set SUCCESS_INSTALL_STATES"
  using assms by (auto simp: apply_failed_def Let_def dest: move_same split: if_splits sum.splits)

lemma apply_steps_evidence:
  assumes "apply_steps ctx m config tx live r = (r1, Done code tx1)" "tx_state tx1 \<in> set SUCCESS_INSTALL_STATES"
    and "tx_ok tx" "run_ok Q r" "tx_state tx \<notin> set SUCCESS_INSTALL_STATES"
  shows "code = 0 \<and> (\<exists>snap. w_snapshot (hd r1) = Some snap \<and> backed config tx1 snap) \<and> w_tx (hd r1) = Some tx1"
proof -
  obtain tx2 live2 r2 err where loop: "apply_loop ctx m config APPLY_STEPS tx live r = (tx2, live2, r2, err)"
    by (metis prod.exhaust)
  have set2: "settled config tx2 live2 r2 \<and> (err \<noteq> None \<longrightarrow> tx_state tx2 \<notin> set SUCCESS_INSTALL_STATES)"
    by (rule apply_loop_settled [OF loop assms(3,4), of "[]"]) (use assms(5) in \<open>auto simp: settled_def backed_def\<close>)
  show ?thesis
  proof (cases err)
    case None
    with assms(1) loop have "r1 = save_tx (tx2\<lparr>mutation_in_progress := False, owner_pid := None\<rparr>) r2"
      "tx1 = tx2\<lparr>mutation_in_progress := False, owner_pid := None\<rparr>" "code = exit_for (tx_state tx2)"
      by (auto simp: apply_steps_def Let_def)
    with set2 assms(2) show ?thesis
      by (auto simp: settled_def backed_def save_tx_def upd_def SUCCESS_INSTALL_STATES_def exit_for_def)
  next
    case (Some ee)
    with assms(1) loop set2 have "tx_state tx1 \<notin> set SUCCESS_INSTALL_STATES"
      by (cases ee) (auto simp: apply_steps_def dest: apply_failed_state)
    with assms(2) show ?thesis by simp
  qed
qed

lemma apply_recheck_steps:
  assumes "apply_recheck ctx m config snap tx r = (r1, Done code tx1)" "tx_state tx1 \<in> set SUCCESS_INSTALL_STATES"
    and "tx_ok tx" "run_ok Q r" "tx_state tx \<notin> set SUCCESS_INSTALL_STATES"
  obtains tx2 live r2 where "apply_steps ctx m config tx2 live r2 = (r1, Done code tx1)"
    "tx_ok tx2" "run_ok Q r2" "tx_state tx2 \<notin> set SUCCESS_INSTALL_STATES"
proof -
  obtain t where t: "(if tx_state tx \<in> {''INTERRUPTED'', ''PLANNED''} then move tx ''APPLYING'' (cx_stamp ctx) else Inr tx) = Inr t"
    using assms(1) by (auto simp: apply_recheck_def split: sum.splits)
  then have ok: "tx_ok t" "tx_state t \<notin> set SUCCESS_INSTALL_STATES"
    using assms(3,5) by (auto dest: move_ok move_same split: if_splits)
  let ?t = "t\<lparr>mutation_in_progress := True, owner_pid := Some (cx_pid ctx), phase := ''apply''\<rparr>"
  let ?r = "save_tx ?t r"
  have "apply_steps ctx m config ?t \<lparr>l_host = w_host (hd ?r), l_snap = snap, l_count = 0\<rparr> ?r = (r1, Done code tx1)"
    using assms(1,2) unfolding apply_recheck_def t
    by (auto simp: Let_def dest: move_same split: if_splits sum.splits option.splits)
  moreover have "run_ok Q ?r" using ok assms(4) by auto
  ultimately show ?thesis using that ok by fastforce
qed

lemma apply_locked_evidence:
  assumes "apply_locked ctx m r = (r1, Done code tx1)" "tx_state tx1 \<in> set SUCCESS_INSTALL_STATES"
    and "run_ok Q r" "open_existing ctx (hd r) = Inr (tx, config)" "tx_state tx \<notin> set SUCCESS_INSTALL_STATES"
  shows "code = 0 \<and> (\<exists>snap. w_snapshot (hd r1) = Some snap \<and> backed config tx1 snap) \<and> w_tx (hd r1) = Some tx1"
proof -
  have tx: "tx_ok tx" by (rule open_existing_ok [OF assms(3,4)])
  obtain snap where "apply_recheck ctx m config snap tx r = (r1, Done code tx1)"
    using assms(1,2,4,5)
    by (auto simp: apply_locked_def fail_checkpoint_def Let_def bind_res_Inr_iff SUCCESS_INSTALL_STATES_def
        dest: move_same split: if_splits option.splits sum.splits)
  then show ?thesis
    by (rule apply_recheck_steps [OF _ assms(2) tx assms(3,5)]) (rule apply_steps_evidence [OF _ assms(2)])
qed

section \<open>Properties\<close>

text \<open>The worlds a host can be in: any command may run or be killed half way, and anything outside
  the transaction record may change in between.\<close>

inductive session :: "'h World \<Rightarrow> bool" where
  fresh: "w_tx w = None \<Longrightarrow> session w"
| ran: "session w \<Longrightarrow> w' \<in> set (fst (run_command cmd ctx m [w])) \<Longrightarrow> session w'"
| outside: "session w \<Longrightarrow> w_tx w' = w_tx w \<Longrightarrow> session w'"

lemma session_ok: "session w \<Longrightarrow> world_ok w"
proof (induction rule: session.induct)
  case (ran w w' cmd ctx m)
  then have "run_ok (\<lambda>_. True) [w]" by (simp add: run_ok_def)
  from run_command_ok [OF this] ran show ?case by (auto simp: run_ok_def list_all_iff)
qed (auto simp: world_ok_def)

text \<open>
  C5: whatever commands ran, and wherever one of them was killed, the transaction on disk is
  consistent: its history is a chain of legal transitions from \<open>CREATED\<close> to its state, its completed
  steps are a prefix of \<open>APPLY_STEPS\<close>, and a success state means that health was collected with
  an overall that allows it.
\<close>

theorem saved_transaction_consistent:
  assumes "session w" "w_tx w = Some tx"
  shows "chain ''CREATED'' (state_history tx) (tx_state tx)
    \<and> completed_steps tx = take (length (completed_steps tx)) APPLY_STEPS
    \<and> (tx_state tx = ''HEALTHY'' \<longrightarrow> ''collect_health'' \<in> set (completed_steps tx) \<and> health_overall tx = ''PASS'')
    \<and> (tx_state tx = ''DEGRADED'' \<longrightarrow> ''collect_health'' \<in> set (completed_steps tx)
         \<and> health_overall tx \<in> {''PASS_WITH_LIMITATIONS'', ''DEGRADED''})"
proof -
  have "tx_ok tx" using session_ok [OF assms(1)] assms(2) by (simp add: world_ok_def)
  then show ?thesis
    using applied_prefix_take [of "completed_steps tx"]
    by (auto simp: tx_ok_def tx_facts_def SUCCESS_INSTALL_STATES_def)
qed

text \<open>
  C11: apply success is evidence, not an exit code: when \<open>apply\<close> takes a transaction that is not yet
  committed to \<open>HEALTHY\<close>, the host snapshot saved with it shows the whole evidence and no limitation
  is left; for \<open>DEGRADED\<close> it shows the evidence with limitations, or a requested enforcement that is
  not proved.
\<close>

theorem apply_success_evidence:
  assumes "session w" "open_existing ctx w = Inr (tx0, config)" "tx_state tx0 \<notin> {''HEALTHY'', ''DEGRADED''}"
    and "apply_cmd ctx m [w] = (r, Done code tx)" "tx_state tx \<in> {''HEALTHY'', ''DEGRADED''}"
  shows "code = 0 \<and> w_tx (hd r) = Some tx \<and>
    (\<exists>snap. w_snapshot (hd r) = Some snap \<and>
      (if tx_state tx = ''HEALTHY'' then tx_limitations tx = [] \<and> host_evidence snap config
       else tx_limitations tx \<noteq> [] \<and> host_evidence snap config
         \<or> h_overall (derive snap config (tx_limitations tx)) = ''DEGRADED''))"
proof -
  let ?w = "w\<lparr>w_lock := True\<rparr>"
  have "run_ok (\<lambda>_. True) [w]" using session_ok [OF assms(1)] by (simp add: run_ok_def)
  then have ok: "run_ok id [?w]" using locked_start [of _ "[w]"] by simp
  have op: "open_existing ctx (hd [?w]) = Inr (tx0, config)"
    using assms(2) by (auto simp: open_existing_def split: if_splits option.splits sum.splits)
  obtain r1 where r1: "apply_locked ctx m [?w] = (r1, Done code tx)" "r = (hd r1)\<lparr>w_lock := False\<rparr> # r1 @ [w]"
    using assms(4) by (auto simp: apply_cmd_def with_lock_def Let_def split: if_splits sum.splits prod.splits)
  have succ: "tx_state tx0 \<notin> set SUCCESS_INSTALL_STATES" "tx_state tx \<in> set SUCCESS_INSTALL_STATES"
    using assms(3,5) by (auto simp: SUCCESS_INSTALL_STATES_def)
  from apply_locked_evidence [OF r1(1) succ(2) ok op succ(1)] obtain snap where
    "code = 0" "w_snapshot (hd r1) = Some snap" "backed config tx snap" "w_tx (hd r1) = Some tx" by auto
  moreover from this succ have "if tx_state tx = ''HEALTHY'' then tx_limitations tx = [] \<and> host_evidence snap config
       else tx_limitations tx \<noteq> [] \<and> host_evidence snap config
         \<or> h_overall (derive snap config (tx_limitations tx)) = ''DEGRADED''"
    using health_pass [of snap config "tx_limitations tx"] by (auto simp: backed_def)
  ultimately show ?thesis using r1(2) by auto
qed

text \<open>
  C38: while a command runs it holds the lock file, and a lock file is never taken over: after a
  command is killed, every command, \<open>status\<close> included, raises and changes nothing.
\<close>

theorem killed_command_blocks:
  assumes "session w" "w' \<in> set (butlast (tl (fst (run_command cmd ctx m [w]))))"
  shows "w_lock w' \<and> (\<exists>e. run_command cmd2 ctx2 m2 [w'] = ([w'], Raised e))"
proof -
  have ok: "run_ok (\<lambda>_. True) [w]" using session_ok [OF assms(1)] by (simp add: run_ok_def)
  have "w_lock w'"
    using run_command_cases [of cmd ctx m "[w]"] with_lock_holds [OF ok locked_body_ok] assms(2) by auto
  then show ?thesis using run_command_cases [of cmd2 ctx2 m2 "[w']"] by (auto simp: with_lock_def)
qed

end
