(* ===== verification/Install_Recovery.thy ===== *)
theory Install_Recovery
  imports Install_Engine_Props
begin

text \<open>
  Recovery in \<open>engine.py\<close>: the order in which \<open>rollback\<close> undoes the steps, what happens to an apply
  that was interrupted between \<open>mark_applied\<close> and \<open>collect_health\<close>, and concrete sessions.
\<close>

section \<open>The rollback order\<close>

definition undo_before :: "string \<Rightarrow> string \<Rightarrow> bool" where
  "undo_before s t = (step_order t < step_order s)"

lemma undo_before_eq: "undo_before = (\<lambda>s t. step_order t < step_order s)"
  by (intro ext) (simp add: undo_before_def)

lemma apply_order: "sorted_wrt (\<lambda>s t. step_order s < step_order t) APPLY_STEPS"
  by code_simp

lemma mutation_steps: "set HOST_MUTATION_STEPS \<subseteq> set APPLY_STEPS"
  by code_simp

lemma step_order_inj: "s \<in> set APPLY_STEPS \<Longrightarrow> t \<in> set APPLY_STEPS \<Longrightarrow> step_order s = step_order t \<Longrightarrow> s = t"
  using apply_order unfolding sorted_wrt_iff_nth_less by (metis in_set_conv_nth less_irrefl linorder_neqE_nat)

lemma insert_step_set [simp]: "set (insert_step s sq) = insert s (set sq)"
  by (induction s sq rule: insert_step.induct) auto

lemma insert_step_sorted:
  assumes "sorted_wrt (\<lambda>s t. step_order s < step_order t) sq" "set (s # sq) \<subseteq> set APPLY_STEPS" "s \<notin> set sq"
  shows "sorted_wrt (\<lambda>s t. step_order s < step_order t) (insert_step s sq)"
  using assms
proof (induction s sq rule: insert_step.induct)
  case (2 s t ts)
  show ?case
  proof (cases "step_order s < step_order t")
    case True
    with 2 show ?thesis by auto
  next
    case False
    moreover have "step_order s \<noteq> step_order t" using step_order_inj [of s t] 2 by auto
    ultimately show ?thesis using 2 by auto
  qed
qed auto

lemma insert_extras_spec:
  assumes "sorted_wrt (\<lambda>s t. step_order s < step_order t) sq" "set sq \<subseteq> set HOST_MUTATION_STEPS"
  shows "sorted_wrt (\<lambda>s t. step_order s < step_order t) (insert_extras sq extras)
    \<and> set (insert_extras sq extras) = set sq \<union> (set extras \<inter> set HOST_MUTATION_STEPS)"
  using assms
proof (induction sq extras rule: insert_extras.induct)
  case (2 sq s extras)
  show ?case
  proof (cases "s \<notin> set HOST_MUTATION_STEPS \<or> s \<in> set sq")
    case False
    have "sorted_wrt (\<lambda>s t. step_order s < step_order t) (insert_step s sq)"
      by (rule insert_step_sorted) (use 2 False mutation_steps in auto)
    with False 2 show ?thesis by auto
  qed (use 2 in auto)
qed auto

lemma reverse_steps_spec:
  assumes "applied_prefix completed"
  shows "sorted_wrt undo_before (reverse_steps completed already extras)
    \<and> set (reverse_steps completed already extras) =
        (set completed \<union> set extras) \<inter> set HOST_MUTATION_STEPS - set already"
proof -
  let ?sq = "filter (\<lambda>s. s \<in> set HOST_MUTATION_STEPS) completed"
  obtain rest where "APPLY_STEPS = completed @ rest" using assms by (auto simp: applied_prefix_def)
  with apply_order have "sorted_wrt (\<lambda>s t. step_order s < step_order t) (completed @ rest)" by metis
  then have "sorted_wrt (\<lambda>s t. step_order s < step_order t) ?sq" by (simp add: sorted_wrt_append sorted_wrt_filter)
  from insert_extras_spec [OF this, of extras]
  have "sorted_wrt (\<lambda>s t. step_order s < step_order t) (insert_extras ?sq extras)"
    "set (insert_extras ?sq extras) = set ?sq \<union> (set extras \<inter> set HOST_MUTATION_STEPS)" by auto
  then show ?thesis
    unfolding undo_before_eq by (auto simp: reverse_steps_def sorted_wrt_rev intro!: sorted_wrt_filter)
qed

lemma undo_distinct: "sorted_wrt undo_before p \<Longrightarrow> distinct p"
  by (induction p) (auto simp: undo_before_def)

section \<open>An apply interrupted after \<open>mark_applied\<close>\<close>

lemma apply_loop_skip:
  "set done_steps \<subseteq> set (completed_steps tx) \<Longrightarrow>
   apply_loop ctx m config (done_steps @ rest) tx live r = apply_loop ctx m config rest tx live r"
  by (induction done_steps) auto

lemma marked_prefix:
  assumes "applied_prefix steps" "''mark_applied'' \<in> set steps"
  shows "set (take 10 APPLY_STEPS) \<subseteq> set steps"
proof -
  obtain rest where eq: "APPLY_STEPS = steps @ rest" using assms(1) by (auto simp: applied_prefix_def)
  have no: "''mark_applied'' \<notin> set (take 9 APPLY_STEPS)" by code_simp
  have "10 \<le> length steps"
  proof (rule ccontr)
    assume "\<not> 10 \<le> length steps"
    then have "set steps \<subseteq> set (take 9 APPLY_STEPS)" by (auto simp: eq)
    with no assms(2) show False by blast
  qed
  then show ?thesis by (auto simp: eq dest: in_set_takeD)
qed

lemma collect_health_applying:
  assumes "collect_health ctx config tx live r = ((tx1, live1, r1), res)" "tx_state tx = ''APPLYING''"
  shows "completed_steps tx1 = completed_steps tx \<and>
    (res = Proceed \<and> tx_state tx1 = ''FAILED_SAFE''
     \<or> (\<exists>e. res = Fail e \<and> err_exit_code e = 10 \<and> err_state e = ''APPLYING'' \<and> tx_state tx1 = ''APPLYING''))"
  using assms
  by (auto simp: collect_health_def move_step_def move_def transition_def TRANSITIONS_def install_error_def
      bind_res_def Let_def split: if_splits)

definition unsuccessful :: "Tx \<Rightarrow> bool" where
  "unsuccessful tx = (tx_state tx \<in> {''APPLYING'', ''FAILED_SAFE'', ''INTERRUPTED''})"

lemma last_steps:
  assumes "apply_loop ctx m config [''write_support_index''] tx live r = (tx1, live1, r1, err)"
    and "tx_state tx \<in> {''APPLYING'', ''FAILED_SAFE''}"
  shows "err = None \<and> unsuccessful tx1"
  using assms
  by (auto simp: run_step_def complete_step_def Let_def unsuccessful_def move_def transition_def TRANSITIONS_def
      bind_res_def split: if_splits)

lemma resumed_loop:
  assumes "set (take 10 APPLY_STEPS) \<subseteq> set (completed_steps tx)" "tx_state tx = ''APPLYING''"
    and "apply_loop ctx m config APPLY_STEPS tx live r = (tx1, live1, r1, err)"
  shows "unsuccessful tx1 \<and> (\<forall>e s. err = Some (e, s) \<longrightarrow> err_exit_code e = 10)"
proof -
  have split: "APPLY_STEPS = take 10 APPLY_STEPS @ [''collect_health'', ''write_support_index'']" by code_simp
  have loop: "apply_loop ctx m config [''collect_health'', ''write_support_index''] tx live r = (tx1, live1, r1, err)"
    using assms(3) apply_loop_skip [OF assms(1)] split by metis
  show ?thesis
  proof (cases "''collect_health'' \<in> set (completed_steps tx)")
    case True
    with loop last_steps [of ctx m config tx live r tx1 live1 r1 err] assms(2) show ?thesis by simp
  next
    case False
    obtain tx2 live2 r2 res where step: "collect_health ctx config tx live r = ((tx2, live2, r2), res)"
      by (metis prod.exhaust)
    obtain tx3 live3 r3 where comp: "complete_step m ''collect_health'' tx2 live2 r2 = (tx3, live3, r3)"
      by (metis prod.exhaust)
    note f = collect_health_applying [OF step assms(2)] and saved = complete_step_saves [OF comp]
    show ?thesis
    proof (cases res)
      case Proceed
      with f saved have st: "tx_state tx3 = ''FAILED_SAFE''" by simp
      with loop False step Proceed comp
      have "apply_loop ctx m config [''write_support_index''] tx3 live3 r3 = (tx1, live1, r1, err)"
        by (auto simp: run_step_def)
      from last_steps [OF this] st show ?thesis by simp
    qed (use loop False step f in \<open>auto simp: run_step_def unsuccessful_def\<close>)
  qed
qed

lemma resumed_steps:
  assumes "set (take 10 APPLY_STEPS) \<subseteq> set (completed_steps tx)" "tx_state tx = ''APPLYING''"
    and "apply_steps ctx m config tx live r = (r1, Done code tx1)"
  shows "unsuccessful tx1 \<and> code \<in> {4, 5, 10}"
proof -
  obtain tx2 live2 r2 err where loop: "apply_loop ctx m config APPLY_STEPS tx live r = (tx2, live2, r2, err)"
    by (metis prod.exhaust)
  note f = resumed_loop [OF assms(1,2) loop]
  show ?thesis
  proof (cases err)
    case None
    with assms(3) loop f show ?thesis
      by (auto simp: apply_steps_def Let_def unsuccessful_def exit_for_def TRANSIENT_def)
  next
    case (Some ee)
    with assms(3) loop f show ?thesis
      by (cases ee) (auto simp: apply_steps_def apply_failed_def Let_def unsuccessful_def dest: move_same
          split: sum.splits if_splits)
  qed
qed

lemma resumed_apply:
  assumes "open_existing ctx (hd r) = Inr (tx0, config)" "set (take 10 APPLY_STEPS) \<subseteq> set (completed_steps tx0)"
    and "tx_state tx0 \<in> {''INTERRUPTED'', ''APPLYING''}" "apply_locked ctx m r = (r1, Done code tx)"
  shows "unsuccessful tx \<and> code \<in> {4, 5, 10}"
proof -
  have checkpoint: "unsuccessful tx \<and> code \<in> {4, 5, 10}"
    if "fail_checkpoint ctx c f tx0 r = (r1, Done code tx)" "\<And>t. tx_state (f t) = tx_state t" for c f
    using that by (auto simp: fail_checkpoint_def bind_res_Inr_iff unsuccessful_def dest: move_same split: sum.splits)
  have recheck: "unsuccessful tx \<and> code \<in> {4, 5, 10}"
    if rc: "apply_recheck ctx m config snap tx0 r = (r1, Done code tx)" for snap
  proof -
    obtain t where t: "(if tx_state tx0 \<in> {''INTERRUPTED'', ''PLANNED''} then move tx0 ''APPLYING'' (cx_stamp ctx) else Inr tx0) = Inr t"
      using rc by (auto simp: apply_recheck_def split: sum.splits)
    then have st: "completed_steps t = completed_steps tx0" "tx_state t = ''APPLYING''"
      using assms(3) by (auto dest: move_same split: if_splits)
    let ?t = "t\<lparr>mutation_in_progress := True, owner_pid := Some (cx_pid ctx), phase := ''apply''\<rparr>"
    have "set (take 10 APPLY_STEPS) \<subseteq> set (completed_steps ?t)" "tx_state ?t = ''APPLYING''" using st assms(2) by simp_all
    note steps = resumed_steps [OF this]
    show ?thesis
      using rc unfolding apply_recheck_def t
      by (auto simp: Let_def unsuccessful_def dest: move_same dest!: steps split: if_splits sum.splits option.splits)
  qed
  show ?thesis
    using assms(1,3,4)
    by (auto simp: apply_locked_def Let_def dest: checkpoint recheck split: if_splits option.splits)
qed

section \<open>Properties\<close>

text \<open>
  C33: a rollback undoes exactly the host steps that were completed, recorded as partly done or found
  on the host, less those already undone, each once and in the reverse of the order of apply.
\<close>

theorem rollback_order:
  assumes "session w" "w_tx w = Some tx"
  shows "distinct (rollback_pending m tx h) \<and> sorted_wrt undo_before (rollback_pending m tx h)
    \<and> set (rollback_pending m tx h) =
        (set (completed_steps tx) \<union> set (rollback_extras m tx h)) \<inter> set HOST_MUTATION_STEPS
          - (set (rollback_completed_steps tx)
             - ({s. s = ''install_optics_cli'' \<and> optics_cli_present m h} \<union> {s. s = ''install_agent_sdks'' \<and> agent_sdk_present m h}))"
proof -
  have "applied_prefix (completed_steps tx)"
    using session_ok [OF assms(1)] assms(2) by (simp add: world_ok_def tx_ok_def tx_facts_def)
  note spec = reverse_steps_spec [OF this]
  show ?thesis
    unfolding rollback_pending_def Let_def
    by (intro conjI undo_distinct spec [THEN conjunct1]) (auto simp: spec [THEN conjunct2])
qed

text \<open>
  Once \<open>mark_applied\<close> is recorded, an interrupted transaction cannot be resumed to success,
  whatever the host: \<open>collect_health\<close> would have to leave \<open>APPLYING\<close> for a success state, which the
  transition table does not allow, and a transaction whose steps are all recorded (an interrupted
  uninstall, say) is left in \<open>APPLYING\<close>. The exit code is never 0.
\<close>

theorem resume_after_applied_fails:
  assumes "session w" "w_tx w = Some tx0" "''mark_applied'' \<in> set (completed_steps tx0)"
    and "tx_state tx0 \<in> {''INTERRUPTED'', ''APPLYING''}" "apply_cmd ctx m [w] = (r, Done code tx)"
  shows "tx_state tx \<in> {''APPLYING'', ''FAILED_SAFE'', ''INTERRUPTED''} \<and> code \<in> {4, 5, 10}"
proof -
  have "tx_ok tx0" using session_ok [OF assms(1)] assms(2) by (simp add: world_ok_def)
  then have steps: "set (take 10 APPLY_STEPS) \<subseteq> set (completed_steps tx0)"
    using marked_prefix assms(3) by (auto simp: tx_ok_def tx_facts_def)
  let ?w = "w\<lparr>w_lock := True\<rparr>"
  obtain r1 where r1: "apply_locked ctx m [?w] = (r1, Done code tx)"
    using assms(5) by (auto simp: apply_cmd_def with_lock_def Let_def split: if_splits sum.splits prod.splits)
  then obtain config where "open_existing ctx (hd [?w]) = Inr (tx0, config)"
    using assms(2) open_existing_tx [of ctx ?w] by (auto simp: apply_locked_def Let_def split: sum.splits prod.splits)
  from resumed_apply [OF this steps assms(4) r1] show ?thesis by (simp add: unsuccessful_def)
qed

end
