(* ===== verification/Install_Commands.thy ===== *)
theory Install_Commands
  imports Install_State
begin

text \<open>
  \<open>vantio_install/commands.py\<close> and the argv catalog of \<open>live_executor.py\<close>: the command lines the
  live executor may run and the checks each of them passes first. Paths are texts. The load plan
  of the image archive (\<open>oci_load.py\<close>) is an argument.
\<close>

section \<open>Command lines\<close>

definition PE_OBSERVE_APPARMOR_PROFILE :: string where
  "PE_OBSERVE_APPARMOR_PROFILE = ''vantio-pe-observe''"

definition pe_local_tag :: string where "pe_local_tag = ''vantio-phantom-engine:pe-residuals-06696d5''"

definition observe_apparmor_opt :: string where
  "observe_apparmor_opt = ''apparmor='' @ PE_OBSERVE_APPARMOR_PROFILE"

definition observe_binds :: "string list" where
  "observe_binds = [''/sys/fs/bpf:/sys/fs/bpf'', ''/sys/kernel/tracing:/sys/kernel/tracing'']"

definition observe_container_argv :: "string \<Rightarrow> string \<Rightarrow> string \<Rightarrow> string list" where
  "observe_container_argv tag iface name =
     [''docker'', ''run'', ''-d'', ''--name'', name, ''--network'', ''host'',
      ''--cap-add'', ''NET_ADMIN'', ''--cap-add'', ''BPF'', ''--cap-add'', ''SYS_ADMIN'',
      ''--security-opt'', observe_apparmor_opt]
     @ concat (map (\<lambda>b. [''-v'', b]) observe_binds)
     @ [''-e'', ''VANTIO_TELEMETRY_DISABLED=1'', ''-e'', ''DO_NOT_TRACK=1'', tag, ''--iface'', iface]"

definition enforce_container_argv ::
  "string \<Rightarrow> string \<Rightarrow> string \<Rightarrow> string option \<Rightarrow> string list option" where
  "enforce_container_argv tag iface name exec_preset =
     (let argv =
        [''docker'', ''run'', ''-d'', ''--name'', name, ''--restart'', ''no'', ''--network'', ''host'',
         ''--cgroupns'', ''host'',
         ''--cap-add'', ''NET_ADMIN'', ''--cap-add'', ''BPF'', ''--cap-add'', ''SYS_ADMIN'',
         ''--security-opt'', observe_apparmor_opt]
        @ concat (map (\<lambda>b. [''-v'', b])
            (observe_binds @ [''/sys/fs/cgroup:/sys/fs/cgroup'', ''/var/lib/vantio/pe-events:/var/lib/vantio/pe-events'']))
        @ [''-e'', ''VANTIO_TELEMETRY_DISABLED=1'', ''-e'', ''DO_NOT_TRACK=1'', tag, ''--iface'', iface,
           ''--enforce'', ''--cgroup-skb-enforce'', ''--startup-enroll-cgroup'',
           ''/sys/fs/cgroup/vantio.slice/vantio-enrolled.slice'',
           ''--output-file'', ''/var/lib/vantio/pe-events/events.ndjson'']
      in case exec_preset of
           None \<Rightarrow> Some argv
         | Some preset \<Rightarrow> if preset \<noteq> ''web-server'' then None else Some (argv @ [''--exec-preset'', preset]))"

definition apparmor_parser_load_argv :: "string \<Rightarrow> string list" where
  "apparmor_parser_load_argv path = [''apparmor_parser'', ''-Kr'', path]"

definition apparmor_parser_remove_argv :: "string \<Rightarrow> string list" where
  "apparmor_parser_remove_argv path = [''apparmor_parser'', ''-KR'', path]"

definition docker_load_argv :: "string \<Rightarrow> string list" where
  "docker_load_argv archive = [''docker'', ''load'', ''-i'', archive]"

definition docker_tag_argv :: "string \<Rightarrow> string \<Rightarrow> string list" where
  "docker_tag_argv digest tag = [''docker'', ''tag'', digest, tag]"

definition docker_stop_rm_argv :: "string \<Rightarrow> string list list" where
  "docker_stop_rm_argv name = [[''docker'', ''stop'', name], [''docker'', ''rm'', name]]"

definition docker_rmi_argv :: "string \<Rightarrow> string list" where
  "docker_rmi_argv tag = [''docker'', ''rmi'', tag]"

definition npm_install_argv :: "string \<Rightarrow> string \<Rightarrow> string list" where
  "npm_install_argv tarball pre = [''npm'', ''install'', ''--global'', ''--prefix'', pre, tarball]"

definition npm_version_argv :: "string list" where
  "npm_version_argv = [''npm'', ''--version'']"

definition apt_install_npm_argv :: "string list" where
  "apt_install_npm_argv = [''apt-get'', ''install'', ''-y'', ''--no-install-recommends'', ''npm'']"

definition pip_wheel_argv :: "string \<Rightarrow> string \<Rightarrow> string list" where
  "pip_wheel_argv wheel pre =
     [''python3'', ''-m'', ''pip'', ''install'', ''--no-index'', ''--disable-pip-version-check'', ''--prefix'', pre, wheel]"

definition mkdir_argv :: "string \<Rightarrow> string list" where
  "mkdir_argv path = [''mkdir'', ''-p'', ''--'', path]"

definition tc_clsact_argv :: "string \<Rightarrow> string list" where
  "tc_clsact_argv iface = [''tc'', ''qdisc'', ''replace'', ''dev'', iface, ''clsact'']"

definition tc_clsact_del_argv :: "string \<Rightarrow> string list" where
  "tc_clsact_del_argv iface = [''tc'', ''qdisc'', ''del'', ''dev'', iface, ''clsact'']"

definition tc_filter_del_argv :: "string \<Rightarrow> string \<Rightarrow> string list option" where
  "tc_filter_del_argv iface direction =
     (if direction \<notin> {''egress'', ''ingress''} then None
      else Some [''tc'', ''filter'', ''del'', ''dev'', iface, direction])"

definition docker_start_argv :: "string \<Rightarrow> string list" where
  "docker_start_argv name = [''docker'', ''start'', name]"

section \<open>Checks on a command line\<close>

definition live_fail :: "string \<Rightarrow> string \<Rightarrow> InstallError" where
  "live_fail msg cls = (install_error msg 4 ''FAILED_SAFE'')\<lparr>err_failure_class := Some cls\<rparr>"

definition SHELLS :: "string list" where
  "SHELLS = [''sh'', ''bash'', ''dash'', ''zsh'', ''busybox'', ''sudo'', ''su'']"

definition META :: "string list" where
  "META = ['';'', ''|'', ''&'', ''`'', ''$('', [CHR 0x0A], [CHR 0x0D], ''>'', ''<'']"

definition ALLOWED_EXE :: "string list" where
  "ALLOWED_EXE = [''mkdir'', ''npm'', ''python3'', ''docker'', ''tc'', ''apparmor_parser'', ''apt-get'']"

text \<open>\<open>Path(text).name\<close>.\<close>

definition path_name :: "string \<Rightarrow> string" where
  "path_name p =
     (case filter (\<lambda>q. q \<noteq> [] \<and> q \<noteq> ''.'') (py_split (CHR ''/'') p) of [] \<Rightarrow> [] | qs \<Rightarrow> last qs)"

definition reject_argv :: "string list \<Rightarrow> InstallError + string list" where
  "reject_argv argv =
     (if argv = [] then Inl (live_fail ''Live commands accept an argv list. A shell string is refused.'' ''FAILED_SAFE'')
      else
        (let exe = path_name (hd argv) in
         if exe \<in> set SHELLS \<or> exe \<notin> set ALLOWED_EXE then
           Inl (live_fail (''Executable '' @ exe @ '' is not on the live allowlist.'') ''FAILED_SAFE'')
         else if exe = ''apt-get'' \<and> argv \<noteq> apt_install_npm_argv then
           Inl (live_fail ''apt-get is allowlisted only to install the Ubuntu npm package.'' ''FAILED_SAFE'')
         else if list_ex (\<lambda>item. list_ex (\<lambda>token. sublist token item) META) argv then
           Inl (live_fail ''An argument contains a shell metacharacter and is refused.'' ''FAILED_SAFE'')
         else Inr argv))"

definition reject_forbidden_live_argv :: "string list \<Rightarrow> InstallError + unit" where
  "reject_forbidden_live_argv argv =
     (if ''--enforce'' \<in> set argv \<or> ''--privileged'' \<in> set argv
          \<or> list_ex (\<lambda>item. sublist ''VANTIO_PHANTOM_DENY'' item) argv then
        Inl (live_fail ''Refusing an enforce or privileged flag.'' ''FAILED_SAFE'')
      else if list_ex (\<lambda>item. prefix ''apparmor='' item \<and> item \<noteq> observe_apparmor_opt) argv then
        Inl (live_fail ''Refusing an AppArmor setting other than the observe-only profile.'' ''FAILED_SAFE'')
      else Inr ())"

text \<open>The values that follow a flag. Only for the last element could \<open>argv[index + 1]\<close> be out of range.\<close>

fun flag_values :: "string \<Rightarrow> string list \<Rightarrow> string list" where
  "flag_values flag (a # b # rest) = (if a = flag then [b] else []) @ flag_values flag (b # rest)"
| "flag_values flag _ = []"

definition require_observe_apparmor :: "string list \<Rightarrow> InstallError + unit" where
  "require_observe_apparmor argv =
     (if count_list argv ''--security-opt'' \<noteq> 1 \<or> count_list argv observe_apparmor_opt \<noteq> 1 then
        Inl (live_fail ''The observe container argv is missing its AppArmor profile.'' ''FAILED_SAFE'')
      else if flag_values ''--cap-add'' argv \<noteq> [''NET_ADMIN'', ''BPF'', ''SYS_ADMIN''] then
        Inl (live_fail ''The observe container capability list changed.'' ''FAILED_SAFE'')
      else Inr ())"

definition require_observe_mounts :: "string list \<Rightarrow> InstallError + unit" where
  "require_observe_mounts argv =
     (if flag_values ''-v'' argv \<noteq> observe_binds then
        Inl (live_fail ''The observe container mount list changed.'' ''FAILED_SAFE'')
      else Inr ())"

definition require_apparmor_parser_argv :: "string \<Rightarrow> string list \<Rightarrow> InstallError + unit" where
  "require_apparmor_parser_argv op argv =
     (if take 2 argv \<noteq> [''apparmor_parser'', if op = ''load_pe_apparmor'' then ''-Kr'' else ''-KR''] then
        Inl (live_fail ''The AppArmor parser argv is not the allowlisted form.'' ''FAILED_SAFE'')
      else if \<not> suffix (''/'' @ PE_OBSERVE_APPARMOR_PROFILE) (last argv) then
        Inl (live_fail ''The AppArmor parser argv is not the observe profile path.'' ''FAILED_SAFE'')
      else Inr ())"

section \<open>The catalog\<close>

definition STEP_OPERATIONS :: "(string \<times> string list) list" where
  "STEP_OPERATIONS =
     [(''ensure_node'', [''ensure_npm'']),
      (''install_optics_cli'', [''mkdir_prefix'', ''install_optics_cli'']),
      (''install_agent_sdks'', [''install_agent_sdk_npm'', ''install_agent_sdk_py'']),
      (''stage_pe_archive'', [''mkdir_stage'', ''stage_pe_archive'']),
      (''docker_load'', [''docker_load'', ''docker_tag'']),
      (''write_observe_config'', [''mkdir_evidence'', ''write_observe_config'', ''o7_init'']),
      (''install_boot_hold'', [''install_boot_hold'']),
      (''start_pe_observe'', [''tc_clsact'', ''write_pe_apparmor'', ''load_pe_apparmor'', ''start_pe_observe''])]"

definition ROLLBACK_OPERATIONS :: "(string \<times> string list) list" where
  "ROLLBACK_OPERATIONS =
     [(''start_pe_observe'', [''docker_stop'', ''docker_rm'', ''unpin_bpf_maps'', ''unload_pe_apparmor'',
         ''remove_pe_apparmor'', ''tc_clsact_del'']),
      (''docker_load'', [''docker_rmi'']),
      (''stage_pe_archive'', [''remove_stage'']),
      (''write_observe_config'', [''remove_observe_config'', ''remove_o7_record'']),
      (''install_boot_hold'', [''remove_boot_hold'']),
      (''install_agent_sdks'', [''remove_sdks'']),
      (''install_optics_cli'', [''remove_optics''])]"

definition operations_of :: "(string \<times> string list) list \<Rightarrow> string \<Rightarrow> string list" where
  "operations_of table step = (case map_of table step of None \<Rightarrow> [] | Some ops \<Rightarrow> ops)"

definition live_operation_ids :: "string list" where
  "live_operation_ids = concat (map (operations_of STEP_OPERATIONS) APPLY_STEPS)"

definition rollback_operation_ids :: "string list" where
  "rollback_operation_ids = concat (map (operations_of ROLLBACK_OPERATIONS) (rev APPLY_STEPS))"

record LiveGrant =
  g_command :: string
  g_transaction_id :: string
  g_plan_sha256 :: string
  g_bundle_digest :: string
  g_iface :: string
  g_prefix :: string
  g_stage :: string
  g_evidence :: string
  g_bundle :: string
  g_tx_dir :: string
  g_tag :: string
  g_archive :: string
  g_optics_tarball :: string
  g_sdk_npm :: string
  g_sdk_wheel :: string
  g_container_name :: string
  g_observe_config :: string
  g_npm_action :: string

definition pe_apparmor_profile_path :: "string \<Rightarrow> string" where
  "pe_apparmor_profile_path stage = stage @ ''/apparmor/'' @ PE_OBSERVE_APPARMOR_PROFILE"

text \<open>The catalog entry: \<^const>\<open>None\<close> when the operation is not in the mapping, \<open>Some None\<close> for a
  file-system operation. The load plan is read for \<open>docker_load\<close> and \<open>docker_tag\<close> only.\<close>

definition catalog_entry :: "LiveGrant \<Rightarrow> string \<times> string \<Rightarrow> string \<Rightarrow> string list option option" where
  "catalog_entry g load_plan op =
     map_of
       [(''ensure_npm'', if g_npm_action g = ''present'' then Some npm_version_argv
                         else if g_npm_action g = ''remediate'' then Some apt_install_npm_argv else None),
        (''mkdir_prefix'', Some (mkdir_argv (g_prefix g))),
        (''mkdir_stage'', Some (mkdir_argv (g_stage g))),
        (''mkdir_evidence'', Some (mkdir_argv (g_evidence g))),
        (''install_optics_cli'', Some (npm_install_argv (g_optics_tarball g) (g_prefix g))),
        (''install_agent_sdk_npm'', Some (npm_install_argv (g_sdk_npm g) (g_prefix g))),
        (''install_agent_sdk_py'', Some (pip_wheel_argv (g_sdk_wheel g) (g_prefix g))),
        (''stage_pe_archive'', None),
        (''docker_load'', Some (docker_load_argv (fst load_plan))),
        (''docker_tag'', Some (docker_tag_argv (snd load_plan) pe_local_tag)),
        (''write_observe_config'', None), (''install_boot_hold'', None), (''remove_boot_hold'', None),
        (''o7_init'', None),
        (''tc_clsact'', Some (tc_clsact_argv (g_iface g))),
        (''write_pe_apparmor'', None),
        (''load_pe_apparmor'', Some (apparmor_parser_load_argv (pe_apparmor_profile_path (g_stage g)))),
        (''start_pe_observe'', Some (observe_container_argv pe_local_tag (g_iface g) (g_container_name g))),
        (''unload_pe_apparmor'', Some (apparmor_parser_remove_argv (pe_apparmor_profile_path (g_stage g)))),
        (''remove_pe_apparmor'', None),
        (''restart_pe_observe'', Some (docker_start_argv (g_container_name g))),
        (''docker_stop'', Some (docker_stop_rm_argv (g_container_name g) ! 0)),
        (''docker_rm'', Some (docker_stop_rm_argv (g_container_name g) ! 1)),
        (''unpin_bpf_maps'', None),
        (''docker_rmi'', Some (docker_rmi_argv pe_local_tag)),
        (''tc_clsact_del'', Some (tc_clsact_del_argv (g_iface g))),
        (''remove_stage'', None), (''remove_observe_config'', None), (''remove_o7_record'', None),
        (''remove_optics'', None), (''remove_sdks'', None)] op"

definition check_argv :: "string \<Rightarrow> string list \<Rightarrow> InstallError + unit" where
  "check_argv op argv =
     bind_res (reject_argv argv) (\<lambda>_.
     bind_res (reject_forbidden_live_argv argv) (\<lambda>_.
     bind_res (if op = ''start_pe_observe''
               then bind_res (require_observe_apparmor argv) (\<lambda>_. require_observe_mounts argv) else Inr ()) (\<lambda>_.
     bind_res (if op \<in> {''load_pe_apparmor'', ''unload_pe_apparmor''}
               then require_apparmor_parser_argv op argv else Inr ()) (\<lambda>_.
       if op = ''docker_tag'' \<and> (last argv \<noteq> pe_local_tag \<or> suffix '':latest'' (last argv)) then
         Inl (live_fail ''Refusing a mutable image tag.'' ''FAILED_SAFE'')
       else Inr ()))))"

definition catalog_argv ::
  "(LiveGrant \<Rightarrow> InstallError + string \<times> string) \<Rightarrow> string \<Rightarrow> LiveGrant \<Rightarrow> InstallError + string list option" where
  "catalog_argv oci_plan_for op g =
     bind_res (if op \<in> {''docker_load'', ''docker_tag''} then oci_plan_for g else Inr ([], []))
       (\<lambda>load_plan.
          case catalog_entry g load_plan op of
            None \<Rightarrow> Inl (live_fail (''Operation '' @ op @ '' is not on the live allowlist.'') ''FAILED_SAFE'')
          | Some None \<Rightarrow>
              if op = ''ensure_npm'' then
                Inl (live_fail ''Install the Ubuntu npm package. The nodejs package does not include the npm binary.''
                       ''FAILED_SAFE'')
              else Inr None
          | Some (Some argv) \<Rightarrow> bind_res (check_argv op argv) (\<lambda>_. Inr (Some argv)))"

section \<open>Lemmas\<close>

definition plain_char :: "char \<Rightarrow> bool" where
  "plain_char c =
     (let n = py_ord c in 48 \<le> n \<and> n \<le> 58 \<or> 65 \<le> n \<and> n \<le> 90 \<or> 97 \<le> n \<and> n \<le> 122 \<or> c \<in> set ''/_.-=@'')"

definition item_ok :: "string \<Rightarrow> bool" where
  "item_ok s =
     (list_all plain_char s \<and> \<not> sublist ''VANTIO_PHANTOM_DENY'' s \<and> s \<noteq> ''--enforce'' \<and> s \<noteq> ''--privileged''
      \<and> (prefix ''apparmor='' s \<longrightarrow> s = observe_apparmor_opt))"

text \<open>A field of a grant that the catalog can use: it cannot be read as a flag or an option.\<close>

definition clean_field :: "string \<Rightarrow> bool" where
  "clean_field s = (s \<noteq> [] \<and> hd s \<noteq> CHR ''-'' \<and> CHR ''='' \<notin> set s \<and> list_all plain_char s \<and> \<not> sublist ''VANTIO_PHANTOM_DENY'' s)"

definition clean_grant :: "LiveGrant \<Rightarrow> bool" where
  "clean_grant g =
     (list_all clean_field [g_iface g, g_prefix g, g_stage g, g_evidence g, g_optics_tarball g, g_sdk_npm g,
        g_sdk_wheel g, g_container_name g]
      \<and> g_npm_action g \<in> {''present'', ''remediate''})"

lemma no_meta: "list_all plain_char s \<Longrightarrow> \<not> list_ex (\<lambda>token. sublist token s) META"
proof -
  assume s: "list_all plain_char s"
  have "\<forall>token \<in> set META. \<exists>c \<in> set token. \<not> plain_char c" by code_simp
  with s show ?thesis by (auto simp: list_ex_iff list_all_iff dest!: set_mono_sublist)
qed

lemma clean_item: "clean_field s \<Longrightarrow> item_ok s"
proof -
  assume s: "clean_field s"
  have "CHR ''='' \<in> set ''apparmor=''" by simp
  then have "\<not> prefix ''apparmor='' s" using s by (auto simp: clean_field_def prefix_def)
  with s show ?thesis by (auto simp: clean_field_def item_ok_def)
qed

lemma clean_not_flag: "clean_field s \<Longrightarrow> s \<noteq> CHR ''-'' # t"
  by (auto simp: clean_field_def)

lemma reject_ok:
  assumes "list_all item_ok argv" "argv \<noteq> []" "path_name (hd argv) \<in> set ALLOWED_EXE"
    and "path_name (hd argv) = ''apt-get'' \<Longrightarrow> argv = apt_install_npm_argv"
  shows "reject_argv argv = Inr argv \<and> reject_forbidden_live_argv argv = Inr ()"
proof -
  have "\<forall>e \<in> set ALLOWED_EXE. e \<notin> set SHELLS" by code_simp
  moreover have "\<not> list_ex (\<lambda>item. list_ex (\<lambda>token. sublist token item) META) argv"
    using assms(1) no_meta by (auto simp: list_ex_iff list_all_iff item_ok_def)
  moreover have "reject_forbidden_live_argv argv = Inr ()"
    using assms(1) by (auto simp: reject_forbidden_live_argv_def list_ex_iff list_all_iff item_ok_def)
  ultimately show ?thesis using assms by (auto simp: reject_argv_def Let_def)
qed

lemma item_ok_words:
  "list_all item_ok [''docker'', ''run'', ''-d'', ''--name'', ''--network'', ''host'', ''--cap-add'', ''NET_ADMIN'', ''BPF'',
     ''SYS_ADMIN'', ''--security-opt'', observe_apparmor_opt, ''-v'', ''/sys/fs/bpf:/sys/fs/bpf'',
     ''/sys/kernel/tracing:/sys/kernel/tracing'', ''-e'', ''VANTIO_TELEMETRY_DISABLED=1'', ''DO_NOT_TRACK=1'',
     ''--iface'', pe_local_tag, ''apparmor_parser'', ''-Kr'', ''-KR'', ''load'', ''-i'', ''tag'', ''stop'', ''rm'', ''rmi'',
     ''npm'', ''install'', ''--global'', ''--prefix'', ''--version'', ''apt-get'', ''-y'', ''--no-install-recommends'',
     ''python3'', ''-m'', ''pip'', ''--no-index'', ''--disable-pip-version-check'', ''mkdir'', ''-p'', ''--'', ''tc'',
     ''qdisc'', ''replace'', ''dev'', ''clsact'', ''del'', ''start'']"
  by code_simp

lemmas builder_defs =
  mkdir_argv_def npm_install_argv_def pip_wheel_argv_def docker_load_argv_def docker_tag_argv_def tc_clsact_argv_def
  tc_clsact_del_argv_def docker_start_argv_def observe_container_argv_def observe_binds_def
  apparmor_parser_load_argv_def apparmor_parser_remove_argv_def docker_rmi_argv_def

lemma builders1_ok:
  assumes "clean_field a"
  shows "list_all item_ok (mkdir_argv a)" "list_all item_ok (docker_load_argv a)"
    "list_all item_ok (docker_tag_argv a pe_local_tag)" "list_all item_ok (tc_clsact_argv a)"
    "list_all item_ok (tc_clsact_del_argv a)" "list_all item_ok (docker_start_argv a)"
    "list_all item_ok (apparmor_parser_load_argv a)" "list_all item_ok (apparmor_parser_remove_argv a)"
  using item_ok_words clean_item [OF assms] by (simp_all add: builder_defs)

lemma builders2_ok:
  assumes "clean_field a" "clean_field b"
  shows "list_all item_ok (npm_install_argv a b)" "list_all item_ok (pip_wheel_argv a b)"
    "list_all item_ok (observe_container_argv pe_local_tag a b)"
  using item_ok_words clean_item [OF assms(1)] clean_item [OF assms(2)] by (simp_all add: builder_defs)

lemma docker_rmi_ok: "list_all item_ok (docker_rmi_argv pe_local_tag)"
  using item_ok_words by (simp add: builder_defs)

lemmas builders_ok = builders1_ok builders2_ok docker_rmi_ok

lemma path_name_words:
  "path_name ''docker'' = ''docker''" "path_name ''mkdir'' = ''mkdir''" "path_name ''npm'' = ''npm''"
  "path_name ''python3'' = ''python3''" "path_name ''tc'' = ''tc''"
  "path_name ''apparmor_parser'' = ''apparmor_parser''" "path_name ''apt-get'' = ''apt-get''"
  by code_simp+

text \<open>The profile path under a clean stage is clean.\<close>

lemma sublist_no_slash:
  assumes "sublist p (s @ CHR ''/'' # t)" "CHR ''/'' \<notin> set p"
  shows "sublist p s \<or> sublist p t"
  using assms by (auto simp: sublist_append sublist_Cons_right prefix_Cons)

lemma clean_profile_path:
  assumes "clean_field stage"
  shows "clean_field (pe_apparmor_profile_path stage)"
proof -
  have tail: "\<not> sublist ''VANTIO_PHANTOM_DENY'' (''apparmor/'' @ PE_OBSERVE_APPARMOR_PROFILE)"
    "list_all plain_char (''/apparmor/'' @ PE_OBSERVE_APPARMOR_PROFILE)"
    "CHR ''='' \<notin> set (''/apparmor/'' @ PE_OBSERVE_APPARMOR_PROFILE)"
    by code_simp+
  have "\<not> sublist ''VANTIO_PHANTOM_DENY'' (stage @ CHR ''/'' # (''apparmor/'' @ PE_OBSERVE_APPARMOR_PROFILE))"
    using sublist_no_slash [of "''VANTIO_PHANTOM_DENY''"] tail(1) assms unfolding clean_field_def by auto
  then show ?thesis
    using assms tail(2,3) by (auto simp: clean_field_def pe_apparmor_profile_path_def)
qed

lemma check_plain:
  assumes "list_all item_ok argv" "argv \<noteq> []" "path_name (hd argv) \<in> set ALLOWED_EXE"
    and "path_name (hd argv) = ''apt-get'' \<Longrightarrow> argv = apt_install_npm_argv"
    and "op \<notin> {''start_pe_observe'', ''load_pe_apparmor'', ''unload_pe_apparmor'', ''docker_tag''}"
  shows "check_argv op argv = Inr ()"
  using reject_ok [OF assms(1-4)] assms(5) by (simp add: check_argv_def)

lemma check_start:
  assumes "clean_field iface" "clean_field name"
  shows "check_argv ''start_pe_observe'' (observe_container_argv pe_local_tag iface name) = Inr ()"
proof -
  let ?argv = "observe_container_argv pe_local_tag iface name"
  have rej: "reject_argv ?argv = Inr ?argv \<and> reject_forbidden_live_argv ?argv = Inr ()"
    by (rule reject_ok) (use assms builders_ok path_name_words in
        \<open>auto simp: observe_container_argv_def ALLOWED_EXE_def\<close>)
  have opt: "CHR ''='' \<in> set observe_apparmor_opt" by (simp add: observe_apparmor_opt_def)
  then have "iface \<noteq> observe_apparmor_opt" "name \<noteq> observe_apparmor_opt"
    using assms by (auto simp: clean_field_def)
  then have aa: "require_observe_apparmor ?argv = Inr ()"
    using assms [THEN clean_not_flag]
    by (simp add: require_observe_apparmor_def observe_container_argv_def observe_binds_def
        observe_apparmor_opt_def PE_OBSERVE_APPARMOR_PROFILE_def pe_local_tag_def)
  have mm: "require_observe_mounts ?argv = Inr ()"
    using assms [THEN clean_not_flag]
    by (simp add: require_observe_mounts_def observe_container_argv_def observe_binds_def
        observe_apparmor_opt_def PE_OBSERVE_APPARMOR_PROFILE_def pe_local_tag_def)
  from rej aa mm show ?thesis by (simp add: check_argv_def)
qed

lemma check_parser:
  assumes "clean_field stage"
  shows "check_argv ''load_pe_apparmor'' (apparmor_parser_load_argv (pe_apparmor_profile_path stage)) = Inr ()"
    "check_argv ''unload_pe_apparmor'' (apparmor_parser_remove_argv (pe_apparmor_profile_path stage)) = Inr ()"
proof -
  note c = clean_profile_path [OF assms]
  have suf: "suffix (''/'' @ PE_OBSERVE_APPARMOR_PROFILE) (pe_apparmor_profile_path stage)"
    unfolding pe_apparmor_profile_path_def suffix_def by (rule exI [of _ "stage @ ''/apparmor''"]) simp
  have "reject_argv (apparmor_parser_load_argv (pe_apparmor_profile_path stage)) = Inr (apparmor_parser_load_argv (pe_apparmor_profile_path stage))
      \<and> reject_forbidden_live_argv (apparmor_parser_load_argv (pe_apparmor_profile_path stage)) = Inr ()"
    by (rule reject_ok) (use builders1_ok [OF c] path_name_words in
        \<open>auto simp: apparmor_parser_load_argv_def ALLOWED_EXE_def\<close>)
  with suf show "check_argv ''load_pe_apparmor'' (apparmor_parser_load_argv (pe_apparmor_profile_path stage)) = Inr ()"
    by (simp add: check_argv_def require_apparmor_parser_argv_def apparmor_parser_load_argv_def)
  have "reject_argv (apparmor_parser_remove_argv (pe_apparmor_profile_path stage)) = Inr (apparmor_parser_remove_argv (pe_apparmor_profile_path stage))
      \<and> reject_forbidden_live_argv (apparmor_parser_remove_argv (pe_apparmor_profile_path stage)) = Inr ()"
    by (rule reject_ok) (use builders1_ok [OF c] path_name_words in
        \<open>auto simp: apparmor_parser_remove_argv_def ALLOWED_EXE_def\<close>)
  with suf show "check_argv ''unload_pe_apparmor'' (apparmor_parser_remove_argv (pe_apparmor_profile_path stage)) = Inr ()"
    by (simp add: check_argv_def require_apparmor_parser_argv_def apparmor_parser_remove_argv_def)
qed

lemma check_tag:
  assumes "clean_field digest"
  shows "check_argv ''docker_tag'' (docker_tag_argv digest pe_local_tag) = Inr ()"
proof -
  have "reject_argv (docker_tag_argv digest pe_local_tag) = Inr (docker_tag_argv digest pe_local_tag)
      \<and> reject_forbidden_live_argv (docker_tag_argv digest pe_local_tag) = Inr ()"
    by (rule reject_ok) (use builders1_ok [OF assms] path_name_words in
        \<open>auto simp: docker_tag_argv_def ALLOWED_EXE_def\<close>)
  moreover have "\<not> suffix '':latest'' pe_local_tag" by code_simp
  ultimately show ?thesis by (simp add: check_argv_def docker_tag_argv_def)
qed

lemma builder_heads:
  "hd (mkdir_argv a) = ''mkdir''" "mkdir_argv a \<noteq> []" "hd (npm_install_argv a b) = ''npm''" "npm_install_argv a b \<noteq> []"
  "hd (pip_wheel_argv a b) = ''python3''" "pip_wheel_argv a b \<noteq> []" "hd (docker_load_argv a) = ''docker''"
  "docker_load_argv a \<noteq> []" "hd (tc_clsact_argv a) = ''tc''" "tc_clsact_argv a \<noteq> []"
  "hd (tc_clsact_del_argv a) = ''tc''" "tc_clsact_del_argv a \<noteq> []" "hd (docker_rmi_argv a) = ''docker''"
  "docker_rmi_argv a \<noteq> []" "hd npm_version_argv = ''npm''" "npm_version_argv \<noteq> []"
  "docker_stop_rm_argv a ! 0 = [''docker'', ''stop'', a]" "docker_stop_rm_argv a ! Suc 0 = [''docker'', ''rm'', a]"
  by (simp_all add: mkdir_argv_def npm_install_argv_def pip_wheel_argv_def docker_load_argv_def docker_stop_rm_argv_def
      tc_clsact_argv_def tc_clsact_del_argv_def docker_rmi_argv_def npm_version_argv_def)

lemma catalog_checked:
  assumes "(if op \<in> {''docker_load'', ''docker_tag''} then oci g else Inr ([], [])) = Inr load_plan"
    and "catalog_entry g load_plan op = Some (Some argv)" "check_argv op argv = Inr ()"
  shows "\<exists>argv. catalog_argv oci op g = Inr argv"
  using assms by (simp add: catalog_argv_def)

lemma catalog_plain:
  assumes "(if op \<in> {''docker_load'', ''docker_tag''} then oci g else Inr ([], [])) = Inr load_plan"
    and "catalog_entry g load_plan op = Some (Some argv)" "list_all item_ok argv" "argv \<noteq> []"
    and "hd argv \<in> {''docker'', ''mkdir'', ''npm'', ''python3'', ''tc''}"
    and "op \<notin> {''start_pe_observe'', ''load_pe_apparmor'', ''unload_pe_apparmor'', ''docker_tag''}"
  shows "\<exists>argv. catalog_argv oci op g = Inr argv"
proof -
  have "check_argv op argv = Inr ()"
    by (rule check_plain) (use assms path_name_words in \<open>auto simp: ALLOWED_EXE_def\<close>)
  then show ?thesis using assms(1,2) by (simp add: catalog_argv_def)
qed

lemma catalog_filesystem:
  assumes "catalog_entry g ([], []) op = Some None" "op \<notin> {''ensure_npm'', ''docker_load'', ''docker_tag''}"
  shows "\<exists>argv. catalog_argv oci op g = Inr argv"
  using assms by (simp add: catalog_argv_def)

lemma check_apt: "check_argv ''ensure_npm'' apt_install_npm_argv = Inr ()"
  by (rule check_plain) (use item_ok_words path_name_words in
      \<open>auto simp: apt_install_npm_argv_def ALLOWED_EXE_def\<close>)

lemma catalog_ensure_npm:
  assumes "g_npm_action g \<in> {''present'', ''remediate''}"
  shows "\<exists>argv. catalog_argv oci ''ensure_npm'' g = Inr argv"
proof (cases "g_npm_action g = ''present''")
  case True
  show ?thesis
    by (rule catalog_plain [where load_plan = "([], [])" and argv = npm_version_argv])
      (use True item_ok_words in \<open>auto simp: catalog_entry_def npm_version_argv_def\<close>)
next
  case False
  show ?thesis
    by (rule catalog_checked [where load_plan = "([], [])" and argv = apt_install_npm_argv])
      (use False assms check_apt in \<open>auto simp: catalog_entry_def\<close>)
qed

lemma clean_grant_fields:
  assumes "clean_grant g"
  shows "clean_field (g_iface g)" "clean_field (g_prefix g)" "clean_field (g_stage g)" "clean_field (g_evidence g)"
    "clean_field (g_optics_tarball g)" "clean_field (g_sdk_npm g)" "clean_field (g_sdk_wheel g)"
    "clean_field (g_container_name g)" "g_npm_action g \<in> {''present'', ''remediate''}"
  using assms by (simp_all add: clean_grant_def)

lemma catalog_plain_operations:
  assumes "clean_grant g"
  shows "\<exists>argv. catalog_argv oci ''mkdir_prefix'' g = Inr argv" "\<exists>argv. catalog_argv oci ''mkdir_stage'' g = Inr argv"
    "\<exists>argv. catalog_argv oci ''mkdir_evidence'' g = Inr argv" "\<exists>argv. catalog_argv oci ''install_optics_cli'' g = Inr argv"
    "\<exists>argv. catalog_argv oci ''install_agent_sdk_npm'' g = Inr argv" "\<exists>argv. catalog_argv oci ''install_agent_sdk_py'' g = Inr argv"
    "\<exists>argv. catalog_argv oci ''tc_clsact'' g = Inr argv" "\<exists>argv. catalog_argv oci ''docker_rmi'' g = Inr argv"
    "\<exists>argv. catalog_argv oci ''tc_clsact_del'' g = Inr argv"
  by (rule catalog_plain [where load_plan = "([], [])"],
      simp, simp add: catalog_entry_def, simp_all add: builder_heads builders_ok clean_grant_fields [OF assms])+

lemma catalog_container_operations:
  assumes "clean_grant g"
  shows "\<exists>argv. catalog_argv oci ''docker_stop'' g = Inr argv" "\<exists>argv. catalog_argv oci ''docker_rm'' g = Inr argv"
  using item_ok_words clean_item [OF clean_grant_fields(8) [OF assms]]
  by (auto intro!: catalog_plain [where load_plan = "([], [])"] simp: catalog_entry_def docker_stop_rm_argv_def)

lemma catalog_special_operations:
  assumes "clean_grant g" "oci g = Inr (load_path, digest)" "clean_field load_path" "clean_field digest"
  shows "\<exists>argv. catalog_argv oci ''docker_load'' g = Inr argv" "\<exists>argv. catalog_argv oci ''docker_tag'' g = Inr argv"
    "\<exists>argv. catalog_argv oci ''load_pe_apparmor'' g = Inr argv" "\<exists>argv. catalog_argv oci ''unload_pe_apparmor'' g = Inr argv"
    "\<exists>argv. catalog_argv oci ''start_pe_observe'' g = Inr argv"
proof -
  note c = clean_grant_fields [OF assms(1)]
  show "\<exists>argv. catalog_argv oci ''docker_load'' g = Inr argv"
    by (rule catalog_plain [where load_plan = "(load_path, digest)" and argv = "docker_load_argv load_path"])
      (use assms builders_ok in \<open>auto simp: catalog_entry_def builder_heads\<close>)
  show "\<exists>argv. catalog_argv oci ''docker_tag'' g = Inr argv"
    by (rule catalog_checked [where load_plan = "(load_path, digest)" and argv = "docker_tag_argv digest pe_local_tag"])
      (use assms check_tag in \<open>auto simp: catalog_entry_def\<close>)
  show "\<exists>argv. catalog_argv oci ''load_pe_apparmor'' g = Inr argv" "\<exists>argv. catalog_argv oci ''unload_pe_apparmor'' g = Inr argv"
    using check_parser [OF c(3)] by (auto intro!: catalog_checked [where load_plan = "([], [])"] simp: catalog_entry_def)
  show "\<exists>argv. catalog_argv oci ''start_pe_observe'' g = Inr argv"
    using check_start [OF c(1,8)] by (auto intro!: catalog_checked [where load_plan = "([], [])"] simp: catalog_entry_def)
qed

definition file_operations :: "string list" where
  "file_operations =
     [''stage_pe_archive'', ''write_observe_config'', ''install_boot_hold'', ''remove_boot_hold'', ''o7_init'',
      ''write_pe_apparmor'', ''remove_pe_apparmor'', ''unpin_bpf_maps'', ''remove_stage'', ''remove_observe_config'',
      ''remove_o7_record'', ''remove_optics'', ''remove_sdks'']"

definition process_operations :: "string list" where
  "process_operations =
     [''ensure_npm'', ''mkdir_prefix'', ''mkdir_stage'', ''mkdir_evidence'', ''install_optics_cli'',
      ''install_agent_sdk_npm'', ''install_agent_sdk_py'', ''docker_load'', ''docker_tag'', ''tc_clsact'',
      ''load_pe_apparmor'', ''start_pe_observe'', ''unload_pe_apparmor'', ''docker_stop'', ''docker_rm'',
      ''docker_rmi'', ''tc_clsact_del'']"

lemma catalog_file_operations: "\<forall>op \<in> set file_operations. \<exists>argv. catalog_argv oci op g = Inr argv"
  by (simp add: file_operations_def catalog_argv_def catalog_entry_def)

lemma catalog_process_operations:
  assumes "clean_grant g" "oci g = Inr (load_path, digest)" "clean_field load_path" "clean_field digest"
  shows "\<forall>op \<in> set process_operations. \<exists>argv. catalog_argv oci op g = Inr argv"
  using catalog_ensure_npm [OF clean_grant_fields(9) [OF assms(1)], of oci]
    catalog_plain_operations [OF assms(1), of oci] catalog_container_operations [OF assms(1), of oci]
    catalog_special_operations [of g oci, OF assms]
  by (simp add: process_operations_def)

lemma plan_operations:
  "set live_operation_ids \<union> set rollback_operation_ids \<subseteq> set file_operations \<union> set process_operations"
  by code_simp

section \<open>Properties\<close>

text \<open>
  For a grant whose fields are plain texts, no operation of the apply plan or of the rollback
  plan is refused by the catalog: the guards on the command lines never block the installer's own
  operations.
\<close>

theorem catalog_accepts_plan:
  assumes "clean_grant g" "oci g = Inr (load_path, digest)" "clean_field load_path" "clean_field digest"
    and "op \<in> set live_operation_ids \<union> set rollback_operation_ids"
  shows "\<exists>argv. catalog_argv oci op g = Inr argv"
  using plan_operations catalog_file_operations catalog_process_operations [of g oci, OF assms(1-4)] assms(5) by blast

definition sample_grant :: LiveGrant where
  "sample_grant =
     \<lparr>g_command = ''apply'', g_transaction_id = ''vantio-tx-1'', g_plan_sha256 = ''aa'', g_bundle_digest = ''bb'',
      g_iface = ''ens5'', g_prefix = ''/var/lib/vantio/prefix'', g_stage = ''/var/lib/vantio/stage'',
      g_evidence = ''/var/lib/vantio/evidence'', g_bundle = ''/bundle'', g_tx_dir = ''/var/lib/vantio/tx'',
      g_tag = pe_local_tag, g_archive = ''/bundle/artifacts/phantom-engine/pe.oci.tar'',
      g_optics_tarball = ''/bundle/cli-0.3.24.tgz'', g_sdk_npm = ''/bundle/agent-sdk-0.2.4.tgz'',
      g_sdk_wheel = ''/bundle/vantio_agent_sdk-3.1.0-py3-none-any.whl'', g_container_name = ''vantio-pe-vantio-tx-1'',
      g_observe_config = ''/var/lib/vantio/tx/observe-config.json'', g_npm_action = ''present''\<rparr>"

theorem catalog_accepts_plan_witness:
  "\<exists>argv. catalog_argv (\<lambda>_. Inr (''/var/lib/vantio/stage/pe.tar'', ''sha256:00'')) ''start_pe_observe'' sample_grant = Inr argv"
  by (rule catalog_accepts_plan [where load_path = "''/var/lib/vantio/stage/pe.tar''" and digest = "''sha256:00''"]) code_simp+

lemma catalog_argv_checked: "catalog_argv oci op g = Inr (Some argv) \<Longrightarrow> check_argv op argv = Inr ()"
  by (auto simp: catalog_argv_def bind_res_Inr_iff split: option.splits if_splits)

lemma check_argv_parts:
  assumes "check_argv op argv = Inr ()"
  shows "reject_argv argv = Inr argv" "reject_forbidden_live_argv argv = Inr ()"
    "op = ''start_pe_observe'' \<Longrightarrow> require_observe_apparmor argv = Inr () \<and> require_observe_mounts argv = Inr ()"
    "op \<in> {''load_pe_apparmor'', ''unload_pe_apparmor''} \<Longrightarrow> require_apparmor_parser_argv op argv = Inr ()"
    "op = ''docker_tag'' \<Longrightarrow> last argv = pe_local_tag"
  using assms by (auto simp: check_argv_def bind_res_Inr_iff reject_argv_def Let_def split: if_splits)

lemma catalog_start:
  assumes "catalog_argv oci ''start_pe_observe'' g = Inr (Some argv)"
  shows "argv = observe_container_argv pe_local_tag (g_iface g) (g_container_name g)"
  using assms by (auto simp: catalog_argv_def catalog_entry_def bind_res_Inr_iff split: if_splits)

text \<open>The count of the check leaves no room for a second option, so the one there is has the profile as its value.\<close>

lemma start_security:
  assumes "catalog_argv oci ''start_pe_observe'' g = Inr (Some argv)"
  shows "flag_values ''--security-opt'' argv = [''apparmor=vantio-pe-observe'']"
proof -
  have "require_observe_apparmor argv = Inr ()"
    using check_argv_parts(3) [OF catalog_argv_checked [OF assms]] by simp
  then have "g_iface g \<noteq> ''--security-opt'' \<and> g_container_name g \<noteq> ''--security-opt''"
    unfolding catalog_start [OF assms]
    by (auto simp: require_observe_apparmor_def observe_container_argv_def observe_binds_def observe_apparmor_opt_def
        PE_OBSERVE_APPARMOR_PROFILE_def pe_local_tag_def split: if_splits)
  then show ?thesis
    unfolding catalog_start [OF assms]
    by (simp add: observe_container_argv_def observe_binds_def observe_apparmor_opt_def PE_OBSERVE_APPARMOR_PROFILE_def
        pe_local_tag_def)
qed

text \<open>
  C30: whatever the grant holds, a command line that leaves the catalog starts one of seven programs, \<open>apt-get\<close> only to
  install npm, and has no shell metacharacter in any argument, no flag that enforces or privileges, and no AppArmor
  option but the observe profile. The observe container is started under that profile as its one security option, with
  exactly the three capabilities and the two mounts; the AppArmor parser is given a file of the profile's name to
  load or remove, and only the pinned tag is set.
\<close>

theorem catalog_argv_safe:
  assumes "catalog_argv oci op g = Inr (Some argv)"
  shows "argv \<noteq> [] \<and> path_name (hd argv) \<in> {''mkdir'', ''npm'', ''python3'', ''docker'', ''tc'', ''apparmor_parser'', ''apt-get''}
    \<and> (path_name (hd argv) = ''apt-get'' \<longrightarrow> argv = [''apt-get'', ''install'', ''-y'', ''--no-install-recommends'', ''npm''])
    \<and> (\<forall>item \<in> set argv. (\<forall>token \<in> set META. \<not> sublist token item) \<and> \<not> sublist ''VANTIO_PHANTOM_DENY'' item
          \<and> item \<notin> {''--enforce'', ''--privileged''} \<and> (prefix ''apparmor='' item \<longrightarrow> item = ''apparmor=vantio-pe-observe''))
    \<and> (op = ''start_pe_observe'' \<longrightarrow>
          flag_values ''--security-opt'' argv = [''apparmor=vantio-pe-observe'']
          \<and> flag_values ''--cap-add'' argv = [''NET_ADMIN'', ''BPF'', ''SYS_ADMIN'']
          \<and> flag_values ''-v'' argv = [''/sys/fs/bpf:/sys/fs/bpf'', ''/sys/kernel/tracing:/sys/kernel/tracing''])
    \<and> (op \<in> {''load_pe_apparmor'', ''unload_pe_apparmor''} \<longrightarrow>
          take 2 argv = [''apparmor_parser'', if op = ''load_pe_apparmor'' then ''-Kr'' else ''-KR'']
          \<and> suffix ''/vantio-pe-observe'' (last argv))
    \<and> (op = ''docker_tag'' \<longrightarrow> last argv = ''vantio-phantom-engine:pe-residuals-06696d5'')"
proof -
  note parts = check_argv_parts [OF catalog_argv_checked [OF assms]]
  have "op = ''start_pe_observe'' \<Longrightarrow> flag_values ''--security-opt'' argv = [''apparmor=vantio-pe-observe'']"
    using start_security assms by blast
  moreover have "op = ''start_pe_observe'' \<Longrightarrow> flag_values ''--cap-add'' argv = [''NET_ADMIN'', ''BPF'', ''SYS_ADMIN'']
      \<and> flag_values ''-v'' argv = [''/sys/fs/bpf:/sys/fs/bpf'', ''/sys/kernel/tracing:/sys/kernel/tracing'']"
    using parts(3) by (simp add: require_observe_apparmor_def require_observe_mounts_def observe_binds_def split: if_splits)
  moreover have "op \<in> {''load_pe_apparmor'', ''unload_pe_apparmor''} \<Longrightarrow>
      take 2 argv = [''apparmor_parser'', if op = ''load_pe_apparmor'' then ''-Kr'' else ''-KR'']
      \<and> suffix ''/vantio-pe-observe'' (last argv)"
    using parts(4) by (simp add: require_apparmor_parser_argv_def PE_OBSERVE_APPARMOR_PROFILE_def split: if_splits)
  ultimately show ?thesis
    using parts(1,2,5)
    by (auto simp: reject_argv_def reject_forbidden_live_argv_def Let_def list_ex_iff ALLOWED_EXE_def apt_install_npm_argv_def
        observe_apparmor_opt_def PE_OBSERVE_APPARMOR_PROFILE_def pe_local_tag_def split: if_splits)
qed

theorem catalog_argv_safe_witness:
  "flag_values ''--security-opt'' (observe_container_argv pe_local_tag ''ens5'' ''vantio-pe-vantio-tx-1'') = [''apparmor=vantio-pe-observe'']"
proof -
  have "catalog_argv (\<lambda>_. Inr ([], [])) ''start_pe_observe'' sample_grant =
      Inr (Some (observe_container_argv pe_local_tag ''ens5'' ''vantio-pe-vantio-tx-1''))" by code_simp
  from catalog_argv_safe [OF this] show ?thesis by blast
qed

end
