(* ===== verification/Install_Prefix.thy ===== *)
theory Install_Prefix
  imports Install_State "HOL-Library.List_Lexorder" "HOL-Library.Char_ord"
begin

text \<open>
  \<open>vantio_install/optics_cli.py\<close> and \<open>agent_sdk.py\<close>: what the installer finds and removes under its
  prefix. The prefix is a list of entries, one per path that a lookup below it finds, with the kind
  a lookup of that path sees and whether the path and its parent resolve inside the prefix. No two
  paths name the same object. Unreadable directories (\<open>OSError\<close>) and the version probes are left out.
\<close>

section \<open>Entries\<close>

datatype nkind = NFile | NDir | NOther | NLinkFile | NLinkDir | NLinkBroken

record Entry =
  e_path :: string
  e_kind :: nkind
  e_parent_inside :: bool
  e_inside :: bool

type_synonym tree = "Entry list"

definition is_symlink :: "nkind \<Rightarrow> bool" where "is_symlink k = (k \<in> {NLinkFile, NLinkDir, NLinkBroken})"
definition is_file :: "nkind \<Rightarrow> bool" where "is_file k = (k \<in> {NFile, NLinkFile})"
definition is_dir :: "nkind \<Rightarrow> bool" where "is_dir k = (k \<in> {NDir, NLinkDir})"

definition lookup :: "tree \<Rightarrow> string \<Rightarrow> Entry option" where
  "lookup t p = find (\<lambda>e. e_path e = p) t"

definition entry_is :: "tree \<Rightarrow> string \<Rightarrow> (Entry \<Rightarrow> bool) \<Rightarrow> bool" where
  "entry_is t p Q = (case lookup t p of None \<Rightarrow> False | Some e \<Rightarrow> Q e)"

definition below :: "string \<Rightarrow> string \<Rightarrow> bool" where
  "below p q = (q = p \<or> prefix (p @ ''/'') q)"

text \<open>\<open>unlink\<close> and \<open>rmtree\<close>: the path and whatever is seen below it are gone.\<close>

definition drop_tree :: "string \<Rightarrow> tree \<Rightarrow> tree" where
  "drop_tree p t = filter (\<lambda>e. \<not> below p (e_path e)) t"

definition children :: "tree \<Rightarrow> string \<Rightarrow> string list" where
  "children t p =
     sort (map (\<lambda>e. drop (length p + 1) (e_path e))
       (filter (\<lambda>e. prefix (p @ ''/'') (e_path e) \<and> CHR ''/'' \<notin> set (drop (length p + 1) (e_path e))) t))"

definition escape_error :: InstallError where
  "escape_error = (install_error ''A live path escapes the transaction roots.'' 4 ''FAILED_SAFE'')
     \<lparr>err_failure_class := Some ''FAILED_SAFE''\<rparr>"

definition remove_entry :: "string \<Rightarrow> tree \<Rightarrow> InstallError + tree" where
  "remove_entry p t =
     (case lookup t p of
        None \<Rightarrow> Inr t
      | Some e \<Rightarrow>
          if \<not> e_parent_inside e then Inl escape_error
          else if is_symlink (e_kind e) \<or> is_file (e_kind e) then Inr (drop_tree p t)
          else if is_dir (e_kind e) then
            (if \<not> e_inside e then Inl escape_error else Inr (drop_tree p t))
          else Inl escape_error)"

text \<open>The empty scope directory is removed with the last package in it.\<close>

definition remove_empty_parent :: "string \<Rightarrow> tree \<Rightarrow> tree" where
  "remove_empty_parent p t =
     (if entry_is t p (\<lambda>e. is_dir (e_kind e) \<and> \<not> is_symlink (e_kind e) \<and> e_inside e) \<and> children t p = []
      then filter (\<lambda>e. e_path e \<noteq> p) t else t)"

section \<open>The Optics CLI\<close>

definition OPTICS_BIN :: string where "OPTICS_BIN = ''bin/vantio''"
definition OPTICS_PACKAGE :: string where "OPTICS_PACKAGE = ''lib/node_modules/@vantio/cli''"
definition OPTICS_RECEIPT :: string where "OPTICS_RECEIPT = ''optics-cli-receipt.json''"
definition VANTIO_SCOPE :: string where "VANTIO_SCOPE = ''lib/node_modules/@vantio''"

definition optics_present :: "tree \<Rightarrow> bool" where
  "optics_present t =
     (entry_is t OPTICS_BIN (\<lambda>e. is_symlink (e_kind e) \<or> is_file (e_kind e)) \<or> entry_is t OPTICS_PACKAGE (\<lambda>e. is_dir (e_kind e)))"

definition optics_cli_residual_items :: "tree \<Rightarrow> (string \<times> string) list" where
  "optics_cli_residual_items t =
     (if entry_is t OPTICS_BIN (\<lambda>e. is_symlink (e_kind e) \<or> is_file (e_kind e)) then [(''optics_cli'', OPTICS_BIN)] else [])
     @ (if entry_is t OPTICS_PACKAGE (\<lambda>e. is_dir (e_kind e)) then [(''optics_cli'', OPTICS_PACKAGE)] else [])"

definition remove_optics_prefix :: "tree option \<Rightarrow> InstallError + tree option" where
  "remove_optics_prefix pre =
     (case pre of
        None \<Rightarrow> Inr None
      | Some t0 \<Rightarrow>
          bind_res (remove_entry OPTICS_BIN t0) (\<lambda>t1.
          bind_res (remove_entry OPTICS_PACKAGE t1) (\<lambda>t2.
          bind_res (remove_entry OPTICS_RECEIPT t2) (\<lambda>t3.
            Inr (Some (remove_empty_parent VANTIO_SCOPE t3))))))"

section \<open>The agent SDKs\<close>

definition SDK_NPM :: string where "SDK_NPM = ''lib/node_modules/@vantio/agent-sdk''"
definition SDK_RECEIPT :: string where "SDK_RECEIPT = ''agent-sdk-receipt.json''"
definition LIB_BASES :: "string list" where "LIB_BASES = [''lib'', ''lib64'', ''local/lib'', ''local/lib64'']"
definition SITE_LEAVES :: "string list" where "SITE_LEAVES = [''dist-packages'', ''site-packages'']"

definition is_python_dir :: "string \<Rightarrow> bool" where
  "is_python_dir name =
     (if name = ''python3'' then True
      else if \<not> prefix ''python3.'' name then False
      else py_isdigit (drop (length ''python3.'') name))"

definition is_sdk_metadata_dir :: "string \<Rightarrow> bool" where
  "is_sdk_metadata_dir name =
     ((suffix ''.dist-info'' name \<or> suffix ''.egg-info'' name)
      \<and> (prefix ''vantio_agent_sdk-'' name \<or> prefix ''vantio-agent-sdk-'' name))"

definition node_present :: "tree \<Rightarrow> string \<Rightarrow> bool" where
  "node_present t p = entry_is t p (\<lambda>e. is_symlink (e_kind e) \<or> is_dir (e_kind e))"

definition sdk_receipt_present :: "tree \<Rightarrow> bool" where
  "sdk_receipt_present t = entry_is t SDK_RECEIPT (\<lambda>e. is_symlink (e_kind e) \<or> is_file (e_kind e))"

definition dir_inside :: "tree \<Rightarrow> string \<Rightarrow> bool" where
  "dir_inside t p = entry_is t p (\<lambda>e. is_dir (e_kind e) \<and> e_inside e)"

definition site_dirs :: "tree \<Rightarrow> string list" where
  "site_dirs t =
     concat (map (\<lambda>base.
         if \<not> dir_inside t base then []
         else
           concat (map (\<lambda>child.
               if \<not> is_python_dir child then []
               else filter (dir_inside t) (map (\<lambda>leaf. base @ ''/'' @ child @ ''/'' @ leaf) SITE_LEAVES))
             (children t base)))
       LIB_BASES)"

definition py_artifacts :: "tree \<Rightarrow> string list" where
  "py_artifacts t =
     concat (map (\<lambda>site.
         filter (node_present t)
           (map (\<lambda>child. site @ ''/'' @ child)
             (filter (\<lambda>child. child = ''vantio'' \<or> is_sdk_metadata_dir child) (children t site))))
       (site_dirs t))"

definition sdk_present :: "tree \<Rightarrow> bool" where
  "sdk_present t = (if node_present t SDK_NPM \<or> sdk_receipt_present t then True else py_artifacts t \<noteq> [])"

definition agent_sdk_residual_items :: "tree \<Rightarrow> (string \<times> string) list" where
  "agent_sdk_residual_items t =
     (if node_present t SDK_NPM then [(''agent_sdk_npm'', SDK_NPM)] else [])
     @ map (\<lambda>p. (''agent_sdk_py'', p)) (py_artifacts t)
     @ (if sdk_receipt_present t then [(''optics_receipt'', SDK_RECEIPT)] else [])"

fun remove_entries :: "string list \<Rightarrow> tree \<Rightarrow> InstallError + tree" where
  "remove_entries [] t = Inr t"
| "remove_entries (p # ps) t = bind_res (remove_entry p t) (remove_entries ps)"

definition remove_agent_sdks :: "tree option \<Rightarrow> InstallError + tree option" where
  "remove_agent_sdks pre =
     (case pre of
        None \<Rightarrow> Inr None
      | Some t0 \<Rightarrow>
          bind_res (remove_entry SDK_NPM t0) (\<lambda>t1.
            let t2 = remove_empty_parent VANTIO_SCOPE t1 in
            bind_res (remove_entries (py_artifacts t2) t2) (\<lambda>t3.
            bind_res (remove_entry SDK_RECEIPT t3) (\<lambda>t4. Inr (Some t4)))))"

section \<open>Lemmas\<close>

text \<open>A removal only takes paths away.\<close>

definition tree_sub :: "tree \<Rightarrow> tree \<Rightarrow> bool" where
  "tree_sub t' t = (\<exists>K. t' = filter (\<lambda>e. K (e_path e)) t)"

lemma tree_sub_refl [simp]: "tree_sub t t"
  unfolding tree_sub_def by (rule exI [of _ "\<lambda>_. True"]) simp

lemma tree_sub_trans: "tree_sub t2 t1 \<Longrightarrow> tree_sub t1 t \<Longrightarrow> tree_sub t2 t"
proof -
  assume "tree_sub t2 t1" "tree_sub t1 t"
  then obtain K L where "t1 = filter (\<lambda>e. L (e_path e)) t" "t2 = filter (\<lambda>e. K (e_path e)) t1"
    by (auto simp: tree_sub_def)
  then have "t2 = filter (\<lambda>e. (\<lambda>p. L p \<and> K p) (e_path e)) t" by simp
  then show ?thesis unfolding tree_sub_def by (rule exI [of _ "\<lambda>p. L p \<and> K p"])
qed

lemma lookup_filter: "lookup (filter (\<lambda>e. K (e_path e)) t) p = (if K p then lookup t p else None)"
  by (induction t) (auto simp: lookup_def)

lemma lookup_sub: "tree_sub t' t \<Longrightarrow> lookup t' p = None \<or> lookup t' p = lookup t p"
  by (auto simp: tree_sub_def lookup_filter)

lemma entry_is_sub: "tree_sub t' t \<Longrightarrow> entry_is t' p Q \<Longrightarrow> entry_is t p Q"
  using lookup_sub [of t' t p] by (auto simp: entry_is_def)

lemma lookup_none_sub: "tree_sub t' t \<Longrightarrow> lookup t p = None \<Longrightarrow> lookup t' p = None"
  using lookup_sub [of t' t p] by auto

lemma entry_is_none: "lookup t p = None \<Longrightarrow> \<not> entry_is t p Q"
  by (simp add: entry_is_def)

lemma children_sub: "tree_sub t' t \<Longrightarrow> set (children t' p) \<subseteq> set (children t p)"
  by (auto simp: tree_sub_def children_def)

lemma in_site_dirs:
  "s \<in> set (site_dirs t) \<longleftrightarrow>
     (\<exists>base \<in> set LIB_BASES. \<exists>child \<in> set (children t base). \<exists>leaf \<in> set SITE_LEAVES.
        dir_inside t base \<and> is_python_dir child \<and> s = base @ ''/'' @ child @ ''/'' @ leaf \<and> dir_inside t s)"
  unfolding site_dirs_def by (auto split: if_splits)

lemma in_py_artifacts:
  "p \<in> set (py_artifacts t) \<longleftrightarrow>
     (\<exists>site \<in> set (site_dirs t). \<exists>child \<in> set (children t site).
        (child = ''vantio'' \<or> is_sdk_metadata_dir child) \<and> p = site @ ''/'' @ child \<and> node_present t p)"
  unfolding py_artifacts_def by auto

lemma site_dirs_sub: "tree_sub t' t \<Longrightarrow> set (site_dirs t') \<subseteq> set (site_dirs t)"
proof -
  assume sub: "tree_sub t' t"
  have "dir_inside t' p \<Longrightarrow> dir_inside t p" for p using entry_is_sub [OF sub] by (simp add: dir_inside_def)
  with children_sub [OF sub] show ?thesis unfolding subset_iff in_site_dirs by blast
qed

lemma py_artifacts_sub: "tree_sub t' t \<Longrightarrow> set (py_artifacts t') \<subseteq> set (py_artifacts t)"
proof -
  assume sub: "tree_sub t' t"
  have "node_present t' p \<Longrightarrow> node_present t p" for p using entry_is_sub [OF sub] by (simp add: node_present_def)
  then show ?thesis using children_sub [OF sub] site_dirs_sub [OF sub] unfolding subset_iff in_py_artifacts by metis
qed

lemma drop_tree_sub [simp]: "tree_sub (drop_tree p t) t"
  unfolding tree_sub_def drop_tree_def by (rule exI [of _ "\<lambda>q. \<not> below p q"]) simp

lemma lookup_drop_tree [simp]: "lookup (drop_tree p t) p = None"
  using lookup_filter [of "\<lambda>q. \<not> below p q" t p] by (simp add: drop_tree_def below_def)

lemma remove_entry_Inr:
  assumes "remove_entry p t = Inr t'"
  shows "tree_sub t' t \<and> lookup t' p = None \<and> (\<forall>e \<in> set t. \<not> below p (e_path e) \<longrightarrow> e \<in> set t')"
  using assms by (auto simp: remove_entry_def drop_tree_def [symmetric] split: option.splits if_splits)
    (auto simp: drop_tree_def)

lemma remove_empty_parent_sub: "tree_sub (remove_empty_parent p t) t"
  unfolding tree_sub_def remove_empty_parent_def
  by (cases "entry_is t p (\<lambda>e. is_dir (e_kind e) \<and> \<not> is_symlink (e_kind e) \<and> e_inside e) \<and> children t p = []")
    (auto intro: exI [of _ "\<lambda>q. q \<noteq> p"] exI [of _ "\<lambda>_. True"])

lemma remove_empty_parent_keeps: "e \<in> set t \<Longrightarrow> e_path e \<noteq> p \<Longrightarrow> e \<in> set (remove_empty_parent p t)"
  by (simp add: remove_empty_parent_def)

lemma remove_entries_Inr:
  assumes "remove_entries ps t = Inr t'"
  shows "tree_sub t' t \<and> (\<forall>p \<in> set ps. lookup t' p = None)
    \<and> (\<forall>e \<in> set t. (\<forall>p \<in> set ps. \<not> below p (e_path e)) \<longrightarrow> e \<in> set t')"
  using assms
proof (induction ps arbitrary: t)
  case (Cons p ps)
  then obtain t1 where t1: "remove_entry p t = Inr t1" "remove_entries ps t1 = Inr t'"
    by (auto simp: bind_res_Inr_iff)
  from remove_entry_Inr [OF t1(1)] Cons.IH [OF t1(2)] show ?case
    by (auto intro: tree_sub_trans dest: lookup_none_sub)
qed auto

lemma remove_optics_Inr:
  assumes "remove_optics_prefix (Some t) = Inr (Some t')"
  shows "tree_sub t' t \<and> lookup t' OPTICS_BIN = None \<and> lookup t' OPTICS_PACKAGE = None \<and> lookup t' OPTICS_RECEIPT = None
    \<and> (\<forall>e \<in> set t. \<not> below OPTICS_BIN (e_path e) \<and> \<not> below OPTICS_PACKAGE (e_path e)
          \<and> \<not> below OPTICS_RECEIPT (e_path e) \<and> e_path e \<noteq> VANTIO_SCOPE \<longrightarrow> e \<in> set t')"
proof -
  obtain t1 t2 t3 where r: "remove_entry OPTICS_BIN t = Inr t1" "remove_entry OPTICS_PACKAGE t1 = Inr t2"
    "remove_entry OPTICS_RECEIPT t2 = Inr t3" "t' = remove_empty_parent VANTIO_SCOPE t3"
    using assms by (auto simp: remove_optics_prefix_def bind_res_Inr_iff)
  have sub: "tree_sub t' t3" using r(4) remove_empty_parent_sub by simp
  note f = remove_entry_Inr [OF r(1)] remove_entry_Inr [OF r(2)] remove_entry_Inr [OF r(3)]
  from f sub have "tree_sub t' t2" "tree_sub t' t1" "tree_sub t' t" by (blast intro: tree_sub_trans)+
  with f sub r(4) show ?thesis by (auto dest: lookup_none_sub intro: remove_empty_parent_keeps)
qed

lemma remove_sdks_Inr:
  assumes "remove_agent_sdks (Some t) = Inr (Some t')"
  shows "tree_sub t' t \<and> lookup t' SDK_NPM = None \<and> lookup t' SDK_RECEIPT = None \<and> py_artifacts t' = []
    \<and> (\<forall>e \<in> set t. \<not> below SDK_NPM (e_path e) \<and> \<not> below SDK_RECEIPT (e_path e) \<and> e_path e \<noteq> VANTIO_SCOPE
          \<and> (\<forall>p \<in> set (py_artifacts t). \<not> below p (e_path e)) \<longrightarrow> e \<in> set t')"
proof -
  obtain t1 t3 where r: "remove_entry SDK_NPM t = Inr t1"
    "remove_entries (py_artifacts (remove_empty_parent VANTIO_SCOPE t1)) (remove_empty_parent VANTIO_SCOPE t1) = Inr t3"
    "remove_entry SDK_RECEIPT t3 = Inr t'"
    using assms by (auto simp: remove_agent_sdks_def bind_res_Inr_iff Let_def)
  let ?t2 = "remove_empty_parent VANTIO_SCOPE t1"
  note f = remove_entry_Inr [OF r(1)] remove_entries_Inr [OF r(2)] remove_entry_Inr [OF r(3)]
  have sub: "tree_sub ?t2 t1" by (rule remove_empty_parent_sub)
  have s3: "tree_sub t' t3" and s2: "tree_sub t3 ?t2" and s1: "tree_sub t1 t" using f by simp_all
  note subs = s3 tree_sub_trans [OF s3 s2] tree_sub_trans [OF tree_sub_trans [OF s3 s2] sub]
    tree_sub_trans [OF tree_sub_trans [OF tree_sub_trans [OF s3 s2] sub] s1] tree_sub_trans [OF sub s1]
  have "py_artifacts t' = []"
  proof (rule ccontr)
    assume "py_artifacts t' \<noteq> []"
    then obtain p where p: "p \<in> set (py_artifacts t')" by (meson ex_in_conv set_empty)
    then have "p \<in> set (py_artifacts ?t2)" using py_artifacts_sub [OF subs(2)] by blast
    with f(2) subs(1) have "lookup t' p = None" by (blast dest: lookup_none_sub)
    moreover have "node_present t' p" using p by (auto simp: in_py_artifacts)
    ultimately show False by (simp add: node_present_def entry_is_none)
  qed
  moreover have "e \<in> set t'"
    if "e \<in> set t" "\<not> below SDK_NPM (e_path e)" "\<not> below SDK_RECEIPT (e_path e)" "e_path e \<noteq> VANTIO_SCOPE"
      "\<forall>p \<in> set (py_artifacts t). \<not> below p (e_path e)" for e
  proof -
    have "e \<in> set ?t2" using that f(1) remove_empty_parent_keeps by blast
    then have "e \<in> set t3" using that(5) f(2) py_artifacts_sub [OF subs(5)] by blast
    then show ?thesis using that f(3) by blast
  qed
  moreover have "lookup t' SDK_NPM = None" using f(1) subs(3) lookup_none_sub by blast
  moreover have "lookup t' SDK_RECEIPT = None" using f(3) by blast
  ultimately show ?thesis using subs(4) by simp
qed

lemma remove_optics_None: "remove_optics_prefix pre = Inr None \<Longrightarrow> pre = None"
  by (auto simp: remove_optics_prefix_def bind_res_Inr_iff split: option.splits)

lemma remove_sdks_None: "remove_agent_sdks pre = Inr None \<Longrightarrow> pre = None"
  by (auto simp: remove_agent_sdks_def bind_res_Inr_iff Let_def split: option.splits)

text \<open>What is left in a prefix that the product owns.\<close>

definition prefix_items :: "tree option \<Rightarrow> (string \<times> string) list" where
  "prefix_items pre =
     (case pre of None \<Rightarrow> []
      | Some t \<Rightarrow>
          (if entry_is t OPTICS_RECEIPT (\<lambda>e. is_file (e_kind e)) then [(''optics_receipt'', OPTICS_RECEIPT)] else [])
          @ optics_cli_residual_items t @ agent_sdk_residual_items t)"

definition owned_path :: "tree \<Rightarrow> string \<Rightarrow> bool" where
  "owned_path t p =
     (list_ex (\<lambda>q. below q p) ([OPTICS_BIN, OPTICS_PACKAGE, OPTICS_RECEIPT, SDK_NPM, SDK_RECEIPT] @ py_artifacts t)
      \<or> p = VANTIO_SCOPE)"

section \<open>Properties\<close>

text \<open>
  Removing the CLI and then the SDKs from a prefix, when neither is refused, leaves nothing that
  the residual scan reports, invents nothing, and keeps every entry that is not the product's.
\<close>

theorem prefix_removal_exact:
  assumes "remove_optics_prefix (Some t) = Inr (Some t1)" "remove_agent_sdks (Some t1) = Inr (Some t2)"
  shows "prefix_items (Some t2) = [] \<and> set t2 \<subseteq> set t \<and> (\<forall>e \<in> set t. \<not> owned_path t (e_path e) \<longrightarrow> e \<in> set t2)"
proof -
  note f = remove_optics_Inr [OF assms(1)] and g = remove_sdks_Inr [OF assms(2)]
  have s1: "tree_sub t1 t" and s2: "tree_sub t2 t1" using f g by simp_all
  have gone: "lookup t2 OPTICS_BIN = None" "lookup t2 OPTICS_PACKAGE = None" "lookup t2 OPTICS_RECEIPT = None"
    using f lookup_none_sub [OF s2] by simp_all
  have "prefix_items (Some t2) = []"
    using gone g by (simp add: prefix_items_def optics_cli_residual_items_def agent_sdk_residual_items_def
        node_present_def sdk_receipt_present_def entry_is_none)
  moreover have "set t2 \<subseteq> set t" using s1 s2 by (auto simp: tree_sub_def)
  moreover have "e \<in> set t2" if "e \<in> set t" "\<not> owned_path t (e_path e)" for e
  proof -
    have "e \<in> set t1" using that f by (simp add: owned_path_def list_ex_iff)
    moreover have "\<forall>p \<in> set (py_artifacts t1). \<not> below p (e_path e)"
      using that py_artifacts_sub [OF s1] by (auto simp: owned_path_def list_ex_iff)
    ultimately show ?thesis using that g by (simp add: owned_path_def list_ex_iff)
  qed
  ultimately show ?thesis by blast
qed

definition sample_prefix :: tree where
  "sample_prefix =
     map (\<lambda>(p, k). \<lparr>e_path = p, e_kind = k, e_parent_inside = True, e_inside = True\<rparr>)
       [(''bin'', NDir), (''bin/vantio'', NLinkFile), (''lib'', NDir), (''lib/node_modules'', NDir),
        (''lib/node_modules/@vantio'', NDir), (''lib/node_modules/@vantio/cli'', NDir),
        (''lib/python3.12'', NDir), (''lib/python3.12/site-packages'', NDir),
        (''lib/python3.12/site-packages/vantio'', NDir), (''lib/python3.12/site-packages/other'', NDir)]"

theorem prefix_removal_exact_witness:
  "\<exists>t1 t2. remove_optics_prefix (Some sample_prefix) = Inr (Some t1) \<and> remove_agent_sdks (Some t1) = Inr (Some t2)
     \<and> prefix_items (Some t2) = [] \<and> prefix_items (Some sample_prefix) \<noteq> []"
proof -
  let ?keep = "\<lambda>ps. filter (\<lambda>e. e_path e \<in> set ps) sample_prefix"
  have a: "remove_optics_prefix (Some sample_prefix) = Inr (Some (?keep
      [''bin'', ''lib'', ''lib/node_modules'', ''lib/python3.12'', ''lib/python3.12/site-packages'',
       ''lib/python3.12/site-packages/vantio'', ''lib/python3.12/site-packages/other'']))" by code_simp
  have b: "remove_agent_sdks (Some (?keep
      [''bin'', ''lib'', ''lib/node_modules'', ''lib/python3.12'', ''lib/python3.12/site-packages'',
       ''lib/python3.12/site-packages/vantio'', ''lib/python3.12/site-packages/other''])) = Inr (Some (?keep
      [''bin'', ''lib'', ''lib/node_modules'', ''lib/python3.12'', ''lib/python3.12/site-packages'',
       ''lib/python3.12/site-packages/other'']))" by code_simp
  have "prefix_items (Some sample_prefix) \<noteq> []" by code_simp
  with a b prefix_removal_exact [OF a b] show ?thesis by blast
qed

end
