(* ===== verification/Install_Grub.thy ===== *)
theory Install_Grub
  imports Install_Health
begin

text \<open>
  \<open>vantio_install/host_prep.py\<close>: the grub drop-in that adds \<open>bpf\<close> to the active security modules,
  and its removal with the restore on failure. The files are texts of code points below 256;
  \<open>update-grub\<close> is an argument that returns its exit code and the texts of the \<open>grub.cfg\<close> files found
  afterwards. The boot id and the digest of the record are left out.
\<close>

section \<open>Definitions\<close>

record GrubFs =
  gf_dropin :: "string option"
  gf_main :: "string option"
  gf_extra :: "(string \<times> string) list"
  gf_cfgs :: "string list"

type_synonym updater = "GrubFs \<Rightarrow> int \<times> string list"

text \<open>The character class of \<open>_SAFE\<close> and \<open>_TOKEN\<close>.\<close>

definition lsm_char :: "char \<Rightarrow> bool" where
  "lsm_char c =
     (let n = py_ord c in 48 \<le> n \<and> n \<le> 57 \<or> 65 \<le> n \<and> n \<le> 90 \<or> 97 \<le> n \<and> n \<le> 122 \<or> c \<in> set ''_,.-'')"

definition lsm_safe :: "string \<Rightarrow> bool" where
  "lsm_safe s = (s \<noteq> [] \<and> list_all lsm_char s)"

definition grub_quote :: char where "grub_quote = CHR 0x22"
definition grub_newline :: char where "grub_newline = CHR 0x0A"

definition dropin_text :: "string \<Rightarrow> string option" where
  "dropin_text current =
     (if \<not> lsm_safe current \<or> bpf_lsm_active (Some current) then None
      else Some (''GRUB_CMDLINE_LINUX='' @ [grub_quote] @ ''$GRUB_CMDLINE_LINUX lsm='' @ current @ '',bpf''
                   @ [grub_quote, grub_newline]))"

definition prepare :: "string option \<Rightarrow> GrubFs \<Rightarrow> updater \<Rightarrow> GrubFs \<times> bool \<times> string" where
  "prepare lsm fs upd_grub =
     (case lsm of
        None \<Rightarrow> (fs, False, ''LSM_UNREADABLE'')
      | Some current \<Rightarrow>
          if \<not> lsm_safe current then (fs, False, ''LSM_UNREADABLE'')
          else if bpf_lsm_active (Some current) then (fs, True, ''NO_CHANGE_NEEDED'')
          else
            (let fs1 = fs\<lparr>gf_dropin := dropin_text current\<rparr>;
                 (rc, cfgs) = upd_grub fs1;
                 fs2 = fs1\<lparr>gf_cfgs := cfgs\<rparr>
             in if rc \<noteq> 0 then (fs2\<lparr>gf_dropin := None\<rparr>, False, ''UPDATE_GRUB_FAILED'')
                else (fs2, True, ''REBOOT_REQUIRED'')))"

text \<open>\<open>_TOKEN.finditer\<close>: the values of the matches of \<open>lsm=\<close> and a non-empty run, from the left.\<close>

function token_values :: "string \<Rightarrow> string list" where
  "token_values s =
     (if s = [] then []
      else if prefix ''lsm='' s \<and> takeWhile lsm_char (drop 4 s) \<noteq> [] then
        takeWhile lsm_char (drop 4 s) # token_values (dropWhile lsm_char (drop 4 s))
      else token_values (tl s))"
  by pat_completeness auto
termination
proof (relation "measure length")
  fix s :: string
  assume "s \<noteq> []"
  then show "(dropWhile lsm_char (drop 4 s), s) \<in> measure length"
    using length_dropWhile_le [of lsm_char "drop 4 s"] by (cases s) auto
qed auto

declare token_values.simps [simp del]

definition lsm_value_from_dropin :: "string \<Rightarrow> string" where
  "lsm_value_from_dropin s = (case token_values s of [] \<Rightarrow> [] | vs \<Rightarrow> last vs)"

text \<open>\<open>str.splitlines()\<close> below code point 256. A carriage return and a line feed are one break.\<close>

definition line_break :: "char \<Rightarrow> bool" where
  "line_break c = (let n = py_ord c in 10 \<le> n \<and> n \<le> 13 \<or> 28 \<le> n \<and> n \<le> 30 \<or> n = 133)"

fun split_lines :: "string \<Rightarrow> string \<Rightarrow> string list" where
  "split_lines acc [] = (if acc = [] then [] else [rev acc])"
| "split_lines acc (c # cs) =
     (if py_ord c = 13 \<and> cs \<noteq> [] \<and> py_ord (hd cs) = 10 then split_lines acc cs
      else if line_break c then rev acc # split_lines [] cs
      else split_lines (c # acc) cs)"

definition spaces :: string where
  "spaces = map char_of ([9..<14] @ [28..<33] @ [133, 160 :: nat])"

text \<open>\<open>_ASSIGN.match\<close>: indentation, variable name and value of an assignment line.\<close>

definition match_assign :: "string \<Rightarrow> (string \<times> string \<times> string) option" where
  "match_assign line =
     (let indent = takeWhile is_space_char line;
          rest = dropWhile is_space_char line;
          name = (if prefix ''GRUB_CMDLINE_LINUX_DEFAULT'' rest then ''GRUB_CMDLINE_LINUX_DEFAULT''
                  else ''GRUB_CMDLINE_LINUX'')
      in if \<not> prefix name rest then None
         else
           (case dropWhile is_space_char (drop (length name) rest) of
              [] \<Rightarrow> None
            | c # value \<Rightarrow>
                if c \<noteq> CHR ''='' then None else Some (indent, name, dropWhile is_space_char value)))"

definition strip_line :: "string \<Rightarrow> string \<Rightarrow> string" where
  "strip_line needle raw =
     (case match_assign raw of
        None \<Rightarrow> raw
      | Some (indent, name, value0) \<Rightarrow>
          (let quoted = py_strip spaces value0;
               wrapped = (length quoted \<ge> 2 \<and> hd quoted = last quoted \<and> hd quoted \<in> {CHR 0x22, CHR 0x27});
               value = (if wrapped then butlast (tl quoted) else quoted);
               quote = (if wrapped then hd quoted else grub_quote);
               tokens = filter (\<lambda>part. part \<noteq> needle) (py_words [] value)
           in indent @ name @ ''='' @ [quote] @ py_join '' '' tokens @ [quote]))"

definition strip_lsm_token :: "string \<Rightarrow> string \<Rightarrow> string" where
  "strip_lsm_token txt token =
     (let body = py_join [grub_newline] (map (strip_line (''lsm='' @ token)) (split_lines [] txt))
      in if txt = [] \<or> last txt = grub_newline then body @ [grub_newline] else body)"

definition cfg_has_token :: "string \<Rightarrow> string \<Rightarrow> bool" where
  "cfg_has_token token txt =
     list_ex (\<lambda>line. ''lsm='' @ token \<in> set (py_words [] line)) (split_lines [] txt)"

definition remove_grub_dropin :: "GrubFs \<Rightarrow> updater \<Rightarrow> bool \<Rightarrow> GrubFs \<times> bool \<times> bool \<times> string" where
  "remove_grub_dropin fs upd_grub require_grub_cfg =
     (case gf_dropin fs of
        None \<Rightarrow> (fs, True, False, [])
      | Some prior \<Rightarrow>
          (let token = lsm_value_from_dropin prior in
           if token = [] then (fs, False, False, ''lsm_value'')
           else
             (let fs1 = fs\<lparr>gf_main := map_option (\<lambda>txt. strip_lsm_token txt token) (gf_main fs),
                           gf_extra := map (\<lambda>(p, txt). (p, strip_lsm_token txt token)) (gf_extra fs),
                           gf_dropin := None\<rparr>;
                  (rc, cfgs) = upd_grub fs1;
                  fs2 = fs1\<lparr>gf_cfgs := cfgs\<rparr>;
                  remains = list_ex (cfg_has_token token) cfgs
              in if rc \<noteq> 0 \<or> remains \<or> require_grub_cfg \<and> cfgs = [] then
                   (fs2\<lparr>gf_main := gf_main fs, gf_extra := gf_extra fs, gf_dropin := Some prior\<rparr>, False, False,
                    if rc \<noteq> 0 then ''update_grub'' else if remains then ''grub_cfg_still_has_lsm'' else ''grub_cfg_missing'')
                 else (fs2, True, True, []))))"

section \<open>Lemmas\<close>

lemma token_values_skip:
  assumes "CHR ''l'' \<notin> set s"
  shows "token_values (s @ t) = token_values t"
  using assms
proof (induction s)
  case (Cons c s)
  then have "CHR ''l'' \<noteq> c" by auto
  then have "token_values (c # s @ t) = token_values (s @ t)"
    by (subst token_values.simps) simp
  with Cons show ?case by simp
qed simp

lemma token_values_hit:
  assumes "lsm_safe v" "\<not> lsm_char c"
  shows "token_values (''lsm='' @ v @ c # t) = v # token_values (c # t)"
proof -
  have all: "list_all lsm_char v" "v \<noteq> []" using assms(1) by (auto simp: lsm_safe_def)
  then have "takeWhile lsm_char (v @ c # t) = v" "dropWhile lsm_char (v @ c # t) = c # t"
    using assms(2) by (simp_all add: list_all_iff takeWhile_append2 dropWhile_append2)
  then show ?thesis using all by (subst token_values.simps) simp
qed

lemma dropin_value:
  assumes "dropin_text current = Some d"
  shows "lsm_value_from_dropin d = current @ '',bpf''"
proof -
  have safe: "lsm_safe current" and
    d: "d = (''GRUB_CMDLINE_LINUX='' @ [grub_quote] @ ''$GRUB_CMDLINE_LINUX '')
        @ ''lsm='' @ (current @ '',bpf'') @ grub_quote # [grub_newline]"
    using assms by (auto simp: dropin_text_def split: if_splits)
  have v: "lsm_safe (current @ '',bpf'')" using safe by (simp add: lsm_safe_def lsm_char_def)
  have q: "\<not> lsm_char grub_quote" by code_simp
  have tail: "token_values (grub_quote # [grub_newline]) = []" by code_simp
  have "CHR ''l'' \<notin> set (''GRUB_CMDLINE_LINUX='' @ [grub_quote] @ ''$GRUB_CMDLINE_LINUX '')" by code_simp
  from token_values_skip [OF this] have "token_values d = [current @ '',bpf'']"
    unfolding d using token_values_hit [OF v q, of "[grub_newline]"] tail by metis
  then show ?thesis by (simp add: lsm_value_from_dropin_def)
qed

section \<open>Properties\<close>

text \<open>
  Removing the drop-in is all or nothing: either it is reported removed, the drop-in is gone and
  no regenerated boot configuration still has its word, or every file the removal edits is as it was.
\<close>

theorem grub_removal_atomic:
  "case remove_grub_dropin fs upd_grub req of
     (fs', ok, removed, err) \<Rightarrow>
       if removed then ok \<and> gf_dropin fs' = None
         \<and> (\<exists>d. gf_dropin fs = Some d \<and> \<not> list_ex (cfg_has_token (lsm_value_from_dropin d)) (gf_cfgs fs'))
       else gf_dropin fs' = gf_dropin fs \<and> gf_main fs' = gf_main fs \<and> gf_extra fs' = gf_extra fs
         \<and> (ok \<longleftrightarrow> gf_dropin fs = None)"
  by (auto simp: remove_grub_dropin_def Let_def split: option.splits prod.splits)

text \<open>
  A drop-in that the preparation wrote can be removed: its word is read back from it as the
  modules it listed, and with a regenerated configuration that no longer has the word the removal
  succeeds.
\<close>

theorem grub_prepare_removable:
  assumes "prepare (Some current) fs up1 = (fs1, True, ''REBOOT_REQUIRED'')"
    and "\<And>g. up2 g = (0, cfgs)" "\<not> list_ex (cfg_has_token (current @ '',bpf'')) cfgs" "cfgs \<noteq> []"
  shows "\<exists>d. gf_dropin fs1 = Some d \<and> lsm_value_from_dropin d = current @ '',bpf''
    \<and> (\<exists>fs2. remove_grub_dropin fs1 up2 True = (fs2, True, True, []) \<and> gf_dropin fs2 = None)"
proof -
  obtain d where d: "gf_dropin fs1 = Some d" "dropin_text current = Some d"
    using assms(1) by (auto simp: prepare_def dropin_text_def Let_def split: if_splits prod.splits)
  note v = dropin_value [OF d(2)]
  have "\<exists>fs2. remove_grub_dropin fs1 up2 True = (fs2, True, True, []) \<and> gf_dropin fs2 = None"
    using d(1) v assms(2-4) by (simp add: remove_grub_dropin_def Let_def)
  with d v show ?thesis by blast
qed

theorem grub_prepare_removable_witness:
  "\<exists>d. dropin_text ''lockdown,yama'' = Some d \<and> lsm_value_from_dropin d = ''lockdown,yama,bpf''"
proof -
  let ?fs = "\<lparr>gf_dropin = None, gf_main = None, gf_extra = [], gf_cfgs = []\<rparr>"
  let ?up = "\<lambda>g :: GrubFs. (0 :: int, [''linux /vmlinuz quiet''])"
  have "prepare (Some ''lockdown,yama'') ?fs ?up =
      (\<lparr>gf_dropin = dropin_text ''lockdown,yama'', gf_main = None, gf_extra = [], gf_cfgs = [''linux /vmlinuz quiet'']\<rparr>,
       True, ''REBOOT_REQUIRED'')" by code_simp
  moreover have "\<not> list_ex (cfg_has_token (''lockdown,yama'' @ '',bpf'')) [''linux /vmlinuz quiet'']" by code_simp
  ultimately have "\<exists>d. dropin_text ''lockdown,yama'' = Some d \<and> lsm_value_from_dropin d = ''lockdown,yama'' @ '',bpf''"
    using grub_prepare_removable [of "''lockdown,yama''" ?fs ?up _ ?up "[''linux /vmlinuz quiet'']"] by auto
  then show ?thesis by simp
qed

end
