(* ===== verification/Install_Mutator.thy ===== *)
theory Install_Mutator
  imports Install_Recovery Install_Commands Install_Prefix Install_Grub
begin

text \<open>
  \<open>vantio_install/mutator.py\<close> (\<open>FixtureMutator\<close>), \<open>bpf_pins.py\<close>, \<open>enroll.py\<close>, \<open>residual.py\<close> and
  \<open>_clear_enforce_side_effects\<close> of \<open>engine.py\<close>: the mutations of the host, their reversal, and the
  inspection that decides whether a removal is complete. The host is the record \<open>FixtureHost\<close> of the
  files and directories these functions touch; what they change in the snapshot held in memory is in
  \<open>l_snap\<close>; the lists of product files and the boot hold entry, which nothing else of the model reads,
  are kept with the host, and the recorded command lines are left out. The boot hold service, the
  archive hash and the image load plan are fields of the step context.
\<close>

section \<open>Pins on bpffs\<close>

datatype bpffs = Bpffs_Missing | Bpffs_Unreadable | Bpffs_Dir "string list"

definition scan_known_pins :: "bpffs \<Rightarrow> string list \<times> string list" where
  "scan_known_pins fs =
     (case fs of
        Bpffs_Missing \<Rightarrow> ([], [])
      | Bpffs_Unreadable \<Rightarrow> ([], [''bpf''])
      | Bpffs_Dir found \<Rightarrow> (filter (\<lambda>name. name \<in> set found) BPF_PINS, []))"

text \<open>\<open>unlink_known_pins\<close> on a fixture directory; \<open>stuck name\<close> says that \<open>unlink\<close> fails for a name.\<close>

definition unlink_known_pins :: "(string \<Rightarrow> bool) \<Rightarrow> bpffs \<Rightarrow> bpffs" where
  "unlink_known_pins stuck fs =
     (case fs of
        Bpffs_Dir found \<Rightarrow> Bpffs_Dir (filter (\<lambda>name. name \<notin> set BPF_PINS \<or> stuck name) found)
      | other \<Rightarrow> other)"

definition engine_output_is_verified :: "int \<Rightarrow> string \<Rightarrow> bool" where
  "engine_output_is_verified returncode stdout =
     (if returncode \<noteq> 0 then False
      else if sublist ''UNINSTALL_RESIDUAL'' stdout \<or> sublist ''uninstall refused'' stdout then False
      else sublist ''UNINSTALL_VERIFIED'' stdout)"

section \<open>Drop-ins of enrolled units\<close>

definition unit_start_char :: "char \<Rightarrow> bool" where
  "unit_start_char c = (let n = py_ord c in 48 \<le> n \<and> n \<le> 57 \<or> 65 \<le> n \<and> n \<le> 90 \<or> 97 \<le> n \<and> n \<le> 122)"

definition unit_char :: "char \<Rightarrow> bool" where
  "unit_char c = (unit_start_char c \<or> c \<in> set '':_.@+-'')"

definition unit_match :: "string \<Rightarrow> bool" where
  "unit_match s =
     (case s of [] \<Rightarrow> False | c # cs \<Rightarrow> unit_start_char c \<and> length cs \<le> 200 \<and> list_all unit_char cs)"

definition normalize_unit :: "string \<Rightarrow> string option" where
  "normalize_unit name =
     (let txt = py_strip spaces name in
      if txt = [] \<or> CHR ''/'' \<in> set txt \<or> prefix ''.'' txt \<or> sublist ''..'' txt then None
      else
        (case (if suffix ''.service'' txt then Some txt
               else if CHR ''.'' \<in> set txt then None
               else Some (txt @ ''.service'')) of
           None \<Rightarrow> None
         | Some unit \<Rightarrow>
             if \<not> unit_match unit \<or> \<not> unit_match (take (length unit - length ''.service'') unit) then None
             else Some unit))"

definition refusal_reason :: "string \<Rightarrow> string option" where
  "refusal_reason name =
     (case normalize_unit name of
        None \<Rightarrow> Some ''UNIT_REFUSED''
      | Some unit \<Rightarrow>
          (let base = take (length unit - length ''.service'') unit in
           if base \<in> {''docker'', ''containerd'', ''sshd'', ''ssh''} then Some ''UNIT_REFUSED''
           else if prefix ''vantio-'' base \<or> prefix ''systemd-'' base \<or> prefix ''vantio-'' unit \<or> prefix ''systemd-'' unit
           then Some ''UNIT_REFUSED''
           else None))"

text \<open>The drop-in files are the list of the unit directories that hold one.\<close>

definition write_dropin :: "string \<Rightarrow> int \<Rightarrow> string list \<Rightarrow> string list \<times> bool \<times> string" where
  "write_dropin unit rc dropins =
     (case refusal_reason unit of
        Some rsn \<Rightarrow> (dropins, False, rsn)
      | None \<Rightarrow>
          (let others = filter (\<lambda>u. u \<noteq> unit) dropins in
           if rc \<noteq> 0 then (others, False, ''DAEMON_RELOAD_FAILED'')
           else (others @ [unit], True, ''ENROLLED'')))"

definition remove_dropin :: "string \<Rightarrow> int \<Rightarrow> string list \<Rightarrow> string list \<times> bool \<times> string" where
  "remove_dropin unit rc dropins =
     (case normalize_unit unit of
        None \<Rightarrow> (dropins, False, ''UNIT_REFUSED'')
      | Some u \<Rightarrow>
          if u \<notin> set dropins then (dropins, True, ''ABSENT'')
          else
            (let others = filter (\<lambda>v. v \<noteq> u) dropins in
             if rc \<noteq> 0 then (others, False, ''DAEMON_RELOAD_FAILED'') else (others, True, ''UNENROLLED'')))"

definition remove_all_dropins :: "int \<Rightarrow> string list \<Rightarrow> string list \<times> bool" where
  "remove_all_dropins rc dropins =
     (if dropins \<noteq> [] \<and> rc \<noteq> 0 then ([], False) else ([], True))"

section \<open>The host and the step context\<close>

text \<open>The stage: nothing, a directory or a symbolic link to one, with the names inside.\<close>

datatype stage_dir = Stage_Absent | Stage_Dir "string list" | Stage_Link "string list"

fun stage_names :: "stage_dir \<Rightarrow> string list" where
  "stage_names Stage_Absent = []"
| "stage_names (Stage_Dir names) = names"
| "stage_names (Stage_Link names) = names"

fun stage_linked :: "stage_dir \<Rightarrow> bool" where
  "stage_linked (Stage_Link names) = True"
| "stage_linked _ = False"

record FixtureHost =
  fh_prefix :: "tree option"
  fh_stage :: stage_dir
  fh_config_file :: bool
  fh_product_files :: "string list"
  fh_bpffs :: bpffs
  fh_boot_hold :: string
  fh_grub :: GrubFs
  fh_license :: bool
  fh_dropins :: "string list"
  fh_standin :: "bool option"
  fh_partial :: "string list"

record StepCtx =
  sc_transaction_id :: string
  sc_config :: InstallConfig
  sc_config_path :: string
  sc_prefix_path :: string
  sc_stage_path :: string
  sc_archive_name :: string
  sc_archive_ok :: bool
  sc_load_plan :: "InstallError + string"
  sc_boot_enable :: "InstallError option"
  sc_boot_remove :: "InstallError option"
  sc_boot_state :: string
  sc_simulate_missing :: "string list"
  sc_simulate_probe_errors :: "string list"
  sc_uninstall_leave :: "string list"
  sc_bpffs_root :: string
  sc_stuck_pin :: "string \<Rightarrow> bool"

type_synonym fixture_effect = "FixtureHost effect"

definition host_effect :: "(FixtureHost \<Rightarrow> FixtureHost) \<Rightarrow> (HostSnapshot \<Rightarrow> HostSnapshot) \<Rightarrow> fixture_effect" where
  "host_effect f g live = (None, live\<lparr>l_host := f (l_host live), l_snap := g (l_snap live)\<rparr>)"

definition then_effect :: "fixture_effect \<Rightarrow> fixture_effect \<Rightarrow> fixture_effect" where
  "then_effect a b live = (case a live of (Some e, live1) \<Rightarrow> (Some e, live1) | (None, live1) \<Rightarrow> b live1)"

definition count_effect :: "bool \<Rightarrow> fixture_effect" where
  "count_effect c live = (None, if c then live\<lparr>l_count := l_count live + 1\<rparr> else live)"

definition container_suffix :: "StepCtx \<Rightarrow> string" where
  "container_suffix sc =
     drop (length (sc_transaction_id sc) - 12) (sc_transaction_id sc)"

definition add_file :: "string \<Rightarrow> FixtureHost \<Rightarrow> FixtureHost" where
  "add_file p h =
     (if p \<in> set (fh_product_files h) then h else h\<lparr>fh_product_files := fh_product_files h @ [p]\<rparr>)"

definition drop_file :: "string \<Rightarrow> FixtureHost \<Rightarrow> FixtureHost" where
  "drop_file p h = h\<lparr>fh_product_files := filter (\<lambda>q. q \<noteq> p) (fh_product_files h)\<rparr>"

definition put_entry :: "string \<Rightarrow> tree option \<Rightarrow> tree option" where
  "put_entry p pre =
     Some (filter (\<lambda>e. e_path e \<noteq> p) (case pre of None \<Rightarrow> [] | Some t \<Rightarrow> t)
           @ [\<lparr>e_path = p, e_kind = NFile, e_parent_inside = True, e_inside = True\<rparr>])"

definition unlink_entry :: "string \<Rightarrow> tree option \<Rightarrow> tree option" where
  "unlink_entry p pre =
     map_option (\<lambda>t. if entry_is t p (\<lambda>e. is_file (e_kind e) \<or> is_symlink (e_kind e)) then drop_tree p t else t) pre"

section \<open>The fixture mutator\<close>

definition install_optics :: "StepCtx \<Rightarrow> fixture_effect" where
  "install_optics sc =
     host_effect
       (\<lambda>h. add_file (sc_prefix_path sc @ ''/'' @ OPTICS_RECEIPT)
              (h\<lparr>fh_prefix := put_entry OPTICS_RECEIPT (fh_prefix h)\<rparr>))
       (\<lambda>s. s\<lparr>hs_optics_cli_version := Some optics_cli_version_pin\<rparr>)"

definition agent_sdk_npm_pin :: string where "agent_sdk_npm_pin = ''0.2.4''"
definition agent_sdk_py_pin :: string where "agent_sdk_py_pin = ''3.1.0''"

definition install_sdks :: "StepCtx \<Rightarrow> fixture_effect" where
  "install_sdks sc =
     host_effect
       (\<lambda>h. add_file (sc_prefix_path sc @ ''/'' @ SDK_RECEIPT)
              (h\<lparr>fh_prefix := put_entry SDK_RECEIPT (fh_prefix h)\<rparr>))
       (\<lambda>s. s\<lparr>hs_agent_sdk_npm_version := Some agent_sdk_npm_pin,
              hs_agent_sdk_py_version := Some agent_sdk_py_pin\<rparr>)"

definition remove_optics :: "StepCtx \<Rightarrow> fixture_effect" where
  "remove_optics sc live =
     (case remove_optics_prefix (fh_prefix (l_host live)) of
        Inl e \<Rightarrow> (Some e, live)
      | Inr pre \<Rightarrow>
          host_effect
            (\<lambda>h. drop_file (sc_prefix_path sc @ ''/'' @ OPTICS_BIN) (drop_file (sc_prefix_path sc @ ''/'' @ OPTICS_RECEIPT)
                   (h\<lparr>fh_prefix := unlink_entry OPTICS_BIN (unlink_entry OPTICS_RECEIPT pre)\<rparr>)))
            (\<lambda>s. s\<lparr>hs_optics_cli_version := None\<rparr>) live)"

definition remove_sdks :: "StepCtx \<Rightarrow> fixture_effect" where
  "remove_sdks sc live =
     (case remove_agent_sdks (fh_prefix (l_host live)) of
        Inl e \<Rightarrow> (Some e, live)
      | Inr pre \<Rightarrow>
          host_effect
            (\<lambda>h. drop_file (sc_prefix_path sc @ ''/'' @ SDK_RECEIPT) (h\<lparr>fh_prefix := unlink_entry SDK_RECEIPT pre\<rparr>))
            (\<lambda>s. s\<lparr>hs_agent_sdk_npm_version := None, hs_agent_sdk_py_version := None\<rparr>) live)"

definition stage_put :: "string \<Rightarrow> stage_dir \<Rightarrow> stage_dir" where
  "stage_put name st =
     (let names = (if name \<in> set (stage_names st) then stage_names st else stage_names st @ [name]) in
      if stage_linked st then Stage_Link names else Stage_Dir names)"

definition stage_pe :: "StepCtx \<Rightarrow> fixture_effect" where
  "stage_pe sc live =
     (let live1 = snd (host_effect (\<lambda>h. h\<lparr>fh_stage := stage_put (sc_archive_name sc) (fh_stage h)\<rparr>) id live) in
      if \<not> sc_archive_ok sc then
        (Some (install_error ''Staged Phantom Engine archive hash does not match the frozen pin.'' 4 ''FAILED_SAFE''), live1)
      else
        host_effect
          (\<lambda>h. add_file (sc_stage_path sc @ ''/STAGE.json'') (h\<lparr>fh_stage := stage_put ''STAGE.json'' (fh_stage h)\<rparr>))
          id live1)"

definition stage_refused_error :: InstallError where
  "stage_refused_error = live_fail ''Refusing to remove a symlinked stage.'' ''FAILED_SAFE''"

definition remove_stage :: "StepCtx \<Rightarrow> fixture_effect" where
  "remove_stage sc live =
     (if stage_linked (fh_stage (l_host live)) then (Some stage_refused_error, live)
      else
        host_effect
          (\<lambda>h. h\<lparr>fh_stage := Stage_Absent,
                 fh_product_files := filter (\<lambda>p. \<not> prefix (sc_stage_path sc) p) (fh_product_files h)\<rparr>) id live)"

definition docker_load :: "StepCtx \<Rightarrow> fixture_effect" where
  "docker_load sc live =
     (case sc_load_plan sc of
        Inl e \<Rightarrow> (Some (install_error (err_message e) 4 ''FAILED_SAFE''), live)
      | Inr digest \<Rightarrow>
          host_effect id
            (\<lambda>s. if list_ex (\<lambda>row. im_tag row = pe_local_tag) (hs_images s) then s
                 else s\<lparr>hs_images := hs_images s @ [\<lparr>im_tag = pe_local_tag, im_digest = digest, im_role = ''phantom_engine''\<rparr>]\<rparr>)
            live)"

definition docker_rmi :: "StepCtx \<Rightarrow> fixture_effect" where
  "docker_rmi sc =
     host_effect id (\<lambda>s. s\<lparr>hs_images := filter (\<lambda>row. im_tag row \<noteq> pe_local_tag) (hs_images s)\<rparr>)"

definition install_boot_hold :: "StepCtx \<Rightarrow> fixture_effect" where
  "install_boot_hold sc live =
     (case sc_boot_enable sc of
        Some e \<Rightarrow> (Some e, live)
      | None \<Rightarrow> host_effect (\<lambda>h. h\<lparr>fh_boot_hold := sc_boot_state sc\<rparr>) id live)"

definition remove_boot_hold :: "StepCtx \<Rightarrow> fixture_effect" where
  "remove_boot_hold sc live =
     (case sc_boot_remove sc of
        Some e \<Rightarrow> (Some e, live)
      | None \<Rightarrow> host_effect (\<lambda>h. h\<lparr>fh_boot_hold := ''REMOVED''\<rparr>) id live)"

definition write_config :: "StepCtx \<Rightarrow> fixture_effect" where
  "write_config sc live =
     (if ''--enforce'' \<in> set [''--iface'', cf_iface (sc_config sc)] then
        (Some (install_error ''Refusing to write an enforcing config.'' 4 ''FAILED_SAFE''), live)
      else host_effect (\<lambda>h. add_file (sc_config_path sc) (h\<lparr>fh_config_file := True\<rparr>)) id live)"

definition remove_config :: "StepCtx \<Rightarrow> fixture_effect" where
  "remove_config sc = host_effect (\<lambda>h. drop_file (sc_config_path sc) (h\<lparr>fh_config_file := False\<rparr>)) id"

definition add_once :: "'a \<Rightarrow> 'a list \<Rightarrow> 'a list" where
  "add_once x xs = (if x \<in> set xs then xs else xs @ [x])"

definition start_snapshot :: "StepCtx \<Rightarrow> HostSnapshot \<Rightarrow> HostSnapshot" where
  "start_snapshot sc s =
     (let iface = cf_iface (sc_config sc); name = ''vantio-pe-'' @ container_suffix sc in
      if list_ex (\<lambda>row. cr_name row = name \<and> cr_status row = ''running'') (hs_containers s) then s
      else
        s\<lparr>hs_containers := hs_containers s
            @ [\<lparr>cr_name = name, cr_role = ''phantom_engine'', cr_status = ''running'', cr_cmd = [''--iface'', iface],
                cr_enforce = False\<rparr>],
          hs_bpf_pins := (if ''bpf_pins'' \<notin> set (sc_simulate_missing sc) then BPF_PINS else hs_bpf_pins s),
          hs_clsact_ifaces := (if ''clsact'' \<notin> set (sc_simulate_missing sc) then add_once iface (hs_clsact_ifaces s)
                               else hs_clsact_ifaces s),
          hs_processes := (if ''vantio-loader'' \<notin> set (sc_simulate_missing sc)
                           then add_once ''vantio-loader'' (hs_processes s) else hs_processes s),
          hs_probe_errors := (if sc_simulate_probe_errors sc \<noteq> []
                              then sort (remdups (hs_probe_errors s @ sc_simulate_probe_errors sc))
                              else hs_probe_errors s)\<rparr>)"

definition start_observe :: "StepCtx \<Rightarrow> fixture_effect" where
  "start_observe sc live =
     (let argv = observe_container_argv pe_local_tag (cf_iface (sc_config sc)) (''vantio-pe-'' @ container_suffix sc) in
      if ''--enforce'' \<in> set argv \<or> ''--privileged'' \<in> set argv \<or> ''apparmor=unconfined'' \<in> set argv then
        (Some (install_error ''Observe start refused an enforce flag.'' 4 ''FAILED_SAFE''), live)
      else if observe_apparmor_opt \<notin> set argv then
        (Some (install_error ''Observe start is missing its AppArmor profile.'' 4 ''FAILED_SAFE''), live)
      else host_effect id (start_snapshot sc) live)"

definition stop_observe :: "StepCtx \<Rightarrow> fixture_effect" where
  "stop_observe sc =
     host_effect id
       (\<lambda>s. s\<lparr>hs_containers := filter (\<lambda>row. \<not> suffix (container_suffix sc) (cr_name row)) (hs_containers s),
              hs_clsact_ifaces := [],
              hs_processes := filter (\<lambda>name. name \<noteq> ''vantio-loader'') (hs_processes s)\<rparr>)"

definition unpin_error :: InstallError where
  "unpin_error = live_fail ''Could not read the bpffs pin directory after unlink.'' ''FAILED_SAFE''"

definition fixture_unpin :: "StepCtx \<Rightarrow> fixture_effect" where
  "fixture_unpin sc live =
     (if ''bpf_pins'' \<in> set (sc_uninstall_leave sc) then (None, live)
      else if py_strip spaces (sc_bpffs_root sc) = [] then host_effect id (\<lambda>s. s\<lparr>hs_bpf_pins := []\<rparr>) live
      else
        (let fs = unlink_known_pins (sc_stuck_pin sc) (fh_bpffs (l_host live));
             live1 = live\<lparr>l_host := (l_host live)\<lparr>fh_bpffs := fs\<rparr>\<rparr>
         in if snd (scan_known_pins fs) \<noteq> [] then (Some unpin_error, live1)
            else host_effect id (\<lambda>s. s\<lparr>hs_bpf_pins := fst (scan_known_pins fs)\<rparr>) live1))"

definition fixture_handlers :: "StepCtx \<Rightarrow> (string \<times> fixture_effect \<times> fixture_effect) list" where
  "fixture_handlers sc =
     [(''install_optics_cli'', install_optics sc, remove_optics sc),
      (''install_agent_sdks'', install_sdks sc, remove_sdks sc),
      (''stage_pe_archive'', stage_pe sc, remove_stage sc),
      (''docker_load'', docker_load sc, docker_rmi sc),
      (''write_observe_config'', write_config sc, remove_config sc),
      (''install_boot_hold'', install_boot_hold sc, remove_boot_hold sc),
      (''start_pe_observe'', start_observe sc, stop_observe sc)]"

definition fixture_apply_step :: "StepCtx \<Rightarrow> string \<Rightarrow> fixture_effect" where
  "fixture_apply_step sc step =
     then_effect (count_effect (step \<in> set HOST_MUTATION_STEPS))
       (case map_of (fixture_handlers sc) step of None \<Rightarrow> host_effect id id | Some (doit, _) \<Rightarrow> doit)"

definition fixture_rollback_step :: "StepCtx \<Rightarrow> string \<Rightarrow> fixture_effect" where
  "fixture_rollback_step sc step =
     then_effect
       (case map_of (fixture_handlers sc) step of
          None \<Rightarrow> host_effect id id
        | Some (_, undo) \<Rightarrow> then_effect (count_effect True) undo)
       (if step = ''start_pe_observe'' then fixture_unpin sc else host_effect id id)"

definition unless_left :: "StepCtx \<Rightarrow> string \<Rightarrow> fixture_effect \<Rightarrow> fixture_effect" where
  "unless_left sc what op = (if what \<in> set (sc_uninstall_leave sc) then host_effect id id else op)"

definition fixture_uninstall :: "StepCtx \<Rightarrow> string \<Rightarrow> fixture_effect" where
  "fixture_uninstall sc scope =
     then_effect
       (if scope \<in> {''pe'', ''all''} then
          then_effect (remove_boot_hold sc)
          (then_effect (unless_left sc ''container'' (stop_observe sc))
          (then_effect (unless_left sc ''image'' (docker_rmi sc))
          (then_effect (unless_left sc ''stage'' (remove_stage sc))
          (then_effect (if ''bpf_pins'' \<in> set (sc_uninstall_leave sc)
                        then host_effect id (\<lambda>s. s\<lparr>hs_bpf_pins := BPF_PINS\<rparr>) else fixture_unpin sc)
          (then_effect (unless_left sc ''clsact'' (host_effect id (\<lambda>s. s\<lparr>hs_clsact_ifaces := []\<rparr>)))
             (unless_left sc ''loader''
                (host_effect id (\<lambda>s. s\<lparr>hs_processes := filter (\<lambda>name. name \<noteq> ''vantio-loader'') (hs_processes s)\<rparr>))))))))
        else host_effect id id)
     (then_effect
       (if scope \<in> {''optics'', ''all''} \<and> ''optics'' \<notin> set (sc_uninstall_leave sc)
        then then_effect (remove_optics sc) (remove_sdks sc) else host_effect id id)
       (count_effect True))"

definition clear_enforce :: "bool \<Rightarrow> updater \<Rightarrow> int \<Rightarrow> fixture_effect" where
  "clear_enforce require_cfg update_grub reload_rc live =
     (let (grub, ok, removed, err) = remove_grub_dropin (fh_grub (l_host live)) update_grub require_cfg;
          live1 = live\<lparr>l_host := (l_host live)\<lparr>fh_grub := grub\<rparr>\<rparr>
      in if \<not> ok then
           (Some (install_error (''Could not remove the grub drop-in ('' @ err @ '').'') 4 ''FAILED_SAFE''), live1)
         else
           (let (dropins, units_ok) = remove_all_dropins reload_rc (fh_dropins (l_host live));
                live2 = live1\<lparr>l_host := (l_host live1)\<lparr>fh_license := False, fh_dropins := dropins\<rparr>\<rparr>
            in if \<not> units_ok then
                 (Some (install_error ''Could not remove the enrolled-slice drop-ins.'' 4 ''FAILED_SAFE''), live2)
               else host_effect id (\<lambda>s. s\<lparr>hs_enrollment := None, hs_enforce_flag := False\<rparr>) live2))"

text \<open>A fixture command runs \<open>update-grub\<close> and \<open>daemon-reload\<close> through a runner that returns 0 and
  changes nothing.\<close>

definition fixture_mutator :: "StepCtx \<Rightarrow> FixtureHost Mutator" where
  "fixture_mutator sc =
     \<lparr>apply_step = fixture_apply_step sc, rollback_step = fixture_rollback_step sc,
      mu_uninstall = fixture_uninstall sc, unpin_remaining = fixture_unpin sc,
      clear_enforce_side_effects = clear_enforce False (\<lambda>g. (0, gf_cfgs g)) 0,
      optics_cli_present = (\<lambda>h. case fh_prefix h of None \<Rightarrow> False | Some t \<Rightarrow> optics_present t),
      agent_sdk_present = (\<lambda>h. case fh_prefix h of None \<Rightarrow> False | Some t \<Rightarrow> sdk_present t),
      partial_mutation_steps = fh_partial,
      clear_partial_mutation = (\<lambda>step h. h\<lparr>fh_partial := filter (\<lambda>s. s \<noteq> step) (fh_partial h)\<rparr>)\<rparr>"

section \<open>Residual inspection\<close>

definition pin_items :: "HostSnapshot \<Rightarrow> bpffs option \<Rightarrow> bool option \<Rightarrow> (string \<times> string) list \<times> string list" where
  "pin_items snapshot fs standin =
     (let (live, errors) = (case fs of None \<Rightarrow> ([], []) | Some f \<Rightarrow> scan_known_pins f);
          recorded = filter (\<lambda>pin. pin \<in> set BPF_PINS) (hs_bpf_pins snapshot) @ live;
          items = map (\<lambda>name. (''bpf_pin'', name)) (filter (\<lambda>name. name \<in> set recorded) BPF_PINS)
      in if errors \<noteq> [] then ([], errors)
         else
           (case standin of
              None \<Rightarrow> ([], [''standin''])
            | Some present \<Rightarrow>
                (items @ (if present then [(''failclosed_mounts'', ''/run/vantio-failclosed-mounts'')] else []), [])))"

definition customer_enforce_items :: "FixtureHost \<Rightarrow> (string \<times> string) list" where
  "customer_enforce_items h =
     (if gf_dropin (fh_grub h) \<noteq> None then [(''grub_dropin'', ''etc/default/grub.d/99-vantio-lsm.cfg'')] else [])
     @ (if fh_license h then [(''license'', ''license'')] else [])
     @ map (\<lambda>u. (''enroll_dropin'', u)) (fh_dropins h)"

definition version_item :: "string \<Rightarrow> string option \<Rightarrow> (string \<times> string) list" where
  "version_item kind v = (case v of None \<Rightarrow> [] | Some x \<Rightarrow> if x = [] then [] else [(kind, x)])"

definition optics_receipt_items :: "tree \<Rightarrow> (string \<times> string) list" where
  "optics_receipt_items t =
     (if entry_is t OPTICS_RECEIPT (\<lambda>e. is_file (e_kind e)) then [(''optics_receipt'', OPTICS_RECEIPT)] else [])"

definition in_prefix :: "(tree \<Rightarrow> (string \<times> string) list) \<Rightarrow> tree option \<Rightarrow> (string \<times> string) list" where
  "in_prefix scan pre = (case pre of None \<Rightarrow> [] | Some t \<Rightarrow> scan t)"

definition inspect_residual :: "HostSnapshot \<Rightarrow> string \<Rightarrow> string \<Rightarrow> bpffs option \<Rightarrow> FixtureHost \<Rightarrow> Report" where
  "inspect_residual snapshot scope iface fs h =
     (if hs_probe_errors snapshot \<noteq> [] then
        \<lparr>rp_result = ''UNKNOWN'', rp_items = [], rp_probe_errors = hs_probe_errors snapshot\<rparr>
      else
        (let (pins, pin_errors) = (if scope \<in> {''pe'', ''all''} then pin_items snapshot fs (fh_standin h) else ([], []));
             pe = (if scope \<in> {''pe'', ''all''} then
                     map (\<lambda>row. (''container'', cr_name row)) (engine_containers snapshot)
                     @ map (\<lambda>row. (''image'', im_tag row)) (filter (\<lambda>row. im_role row = ''phantom_engine'') (hs_images snapshot))
                     @ (if stage_names (fh_stage h) \<noteq> [] then [(''stage_dir'', ''stage'')] else [])
                     @ (if pin_errors = [] then pins else [])
                     @ (if iface \<noteq> [] \<and> iface \<in> set (hs_clsact_ifaces snapshot) then [(''clsact'', iface)] else [])
                     @ (if ''vantio-loader'' \<in> set (hs_processes snapshot) then [(''process'', ''vantio-loader'')] else [])
                   else []);
             optics = (if scope \<in> {''optics'', ''all''} then
                         in_prefix optics_receipt_items (fh_prefix h)
                         @ version_item ''optics_cli'' (hs_optics_cli_version snapshot)
                         @ in_prefix optics_cli_residual_items (fh_prefix h)
                         @ version_item ''agent_sdk_npm'' (hs_agent_sdk_npm_version snapshot)
                         @ version_item ''agent_sdk_py'' (hs_agent_sdk_py_version snapshot)
                         @ in_prefix agent_sdk_residual_items (fh_prefix h)
                       else []);
             items = pe @ optics @ customer_enforce_items h
         in if pin_errors \<noteq> [] then \<lparr>rp_result = ''UNKNOWN'', rp_items = items, rp_probe_errors = pin_errors\<rparr>
            else \<lparr>rp_result = (if items = [] then ''EMPTY'' else ''RESIDUAL_PRESENT''), rp_items = items, rp_probe_errors = []\<rparr>))"

definition fixture_bpffs :: "InstallConfig \<Rightarrow> FixtureHost \<Rightarrow> bpffs option" where
  "fixture_bpffs config h = (if py_strip spaces (cf_bpffs_root config) = [] then None else Some (fh_bpffs h))"

definition fixture_inspect :: "FixtureHost \<Rightarrow> HostSnapshot \<Rightarrow> string \<Rightarrow> InstallConfig \<Rightarrow> Report" where
  "fixture_inspect h snapshot scope config =
     inspect_residual snapshot scope (cf_iface config) (fixture_bpffs config h) h"

end
