(* ===== verification/Install_Progress.thy ===== *)
theory Install_Progress
  imports Install_Mutator
begin

text \<open>
  Progress of \<open>apply\<close>: when every host step of the mutator succeeds, the command returns and its
  verdict is the one the final snapshot earns; with the fixture mutator on a host whose kernel has
  the BPF LSM, that verdict is \<open>HEALTHY\<close>.
\<close>

section \<open>The host steps in a row\<close>

definition EFFECT_STEPS :: "string list" where
  "EFFECT_STEPS =
     [''ensure_node'', ''install_optics_cli'', ''install_agent_sdks'', ''stage_pe_archive'', ''docker_load'',
      ''write_observe_config'', ''install_boot_hold'', ''start_pe_observe'']"

fun run_effects :: "'h Mutator \<Rightarrow> string list \<Rightarrow> 'h Live \<Rightarrow> 'h Live option" where
  "run_effects m [] live = Some live"
| "run_effects m (step # rest) live =
     (case apply_step m step live of
        (None, live1) \<Rightarrow> run_effects m rest (live1\<lparr>l_host := clear_partial_mutation m step (l_host live1)\<rparr>)
      | (Some e, live1) \<Rightarrow> None)"

lemma apply_steps_split:
  "APPLY_STEPS = ''verify_artifacts'' # EFFECT_STEPS @ [''mark_applied'', ''collect_health'', ''write_support_index'']"
  by (simp add: APPLY_STEPS_def EFFECT_STEPS_def)

lemma nine_steps: "take 9 APPLY_STEPS @ [''mark_applied'', ''collect_health'', ''write_support_index''] = APPLY_STEPS"
  by (simp add: APPLY_STEPS_def)

definition advanced :: "Tx \<Rightarrow> string list \<Rightarrow> Tx \<Rightarrow> bool" where
  "advanced tx steps tx' =
     (tx_state tx' = tx_state tx \<and> completed_steps tx' = completed_steps tx @ steps
      \<and> tx_limitations tx' = tx_limitations tx \<and> bundle_digest tx' = bundle_digest tx \<and> phase tx' = phase tx)"

abbreviation interrupt_hook :: "'h Ctx \<Rightarrow> InstallConfig \<Rightarrow> string option" where
  "interrupt_hook ctx config \<equiv> hk_interrupt_after_step (fixture_hooks config (cx_fixture ctx))"

lemma complete_step_advanced:
  "complete_step m step tx live r = (tx1, live1, r1) \<Longrightarrow>
   advanced tx [step] tx1 \<and> live1 = live\<lparr>l_host := clear_partial_mutation m step (l_host live)\<rparr>"
  by (auto simp: complete_step_def Let_def advanced_def)

lemma effect_step_run:
  assumes "step \<in> set EFFECT_STEPS"
  shows "run_step ctx m config step tx live r = run_effect (apply_step m step) tx live r"
  using assms by (auto simp: run_step_def EFFECT_STEPS_def)

lemma apply_loop_step:
  assumes "run_step ctx m config step tx live r = ((tx1, live1, r1), Proceed)"
    and "complete_step m step tx1 live1 r1 = (tx2, live2, r2)"
    and "step \<notin> set (completed_steps tx)" "interrupt_hook ctx config \<noteq> Some step"
  shows "apply_loop ctx m config (step # rest) tx live r = apply_loop ctx m config rest tx2 live2 r2"
  using assms by simp

lemma effects_loop:
  assumes "run_effects m steps live = Some live'" "set steps \<subseteq> set EFFECT_STEPS"
    and "distinct steps" "set steps \<inter> set (completed_steps tx) = {}" "interrupt_hook ctx config \<notin> Some ` set steps"
  shows "\<exists>tx' r'. apply_loop ctx m config (steps @ rest) tx live r = apply_loop ctx m config rest tx' live' r'
    \<and> advanced tx steps tx'"
  using assms
proof (induction steps arbitrary: live tx r)
  case Nil
  then show ?case by (auto simp: advanced_def)
next
  case (Cons step steps)
  obtain live1 where op: "apply_step m step live = (None, live1)"
    using Cons.prems(1) by (auto split: prod.splits option.splits)
  obtain tx2 live2 r2 where comp:
      "complete_step m step tx live1 (touch_host (l_host live1) r) = (tx2, live2, r2)" by (metis prod.exhaust)
  note adv = complete_step_advanced [OF comp]
  have "apply_loop ctx m config ((step # steps) @ rest) tx live r = apply_loop ctx m config (steps @ rest) tx2 live2 r2"
    using Cons.prems op comp by (auto simp: effect_step_run run_effect_def)
  moreover have "\<exists>tx' r'. apply_loop ctx m config (steps @ rest) tx2 live2 r2 = apply_loop ctx m config rest tx' live' r'
      \<and> advanced tx2 steps tx'"
    by (rule Cons.IH) (use Cons.prems adv op in \<open>auto simp: advanced_def\<close>)
  ultimately show ?case using adv by (auto simp: advanced_def)
qed

section \<open>The last steps\<close>

definition verdict_state :: "HostSnapshot \<Rightarrow> InstallConfig \<Rightarrow> string list \<Rightarrow> string" where
  "verdict_state snap config lims =
     (if h_overall (derive snap config lims) = ''DEGRADED'' then ''DEGRADED''
      else if \<not> host_evidence snap config then ''FAILED_SAFE''
      else if lims = [] then ''HEALTHY'' else ''DEGRADED'')"

lemma evidence_lsm: "host_evidence s cf \<Longrightarrow> c_bpf_lsm (h_components (derive s cf lims)) = ''PASS''"
  by (simp add: host_evidence_def derive_def derive_components_def Let_def)

lemma collect_health_verdict:
  assumes "tx_state tx = ''APPLIED''"
  shows "\<exists>tx' r'. collect_health ctx config tx live r = ((tx', live, r'), Proceed)
    \<and> tx_state tx' = verdict_state (l_snap live) config (tx_limitations tx)
    \<and> completed_steps tx' = completed_steps tx \<and> tx_limitations tx' = tx_limitations tx"
  using assms health_pass [of "l_snap live" config "tx_limitations tx"]
    evidence_lsm [of "l_snap live" config "tx_limitations tx"]
  by (auto simp: collect_health_def verdict_state_def move_step_def move_def transition_def TRANSITIONS_def
      bind_res_def Let_def)

lemma last_three:
  assumes "tx_state tx = ''APPLYING''" "set (completed_steps tx) \<subseteq> set (take 9 APPLY_STEPS)"
    and "interrupt_hook ctx config = None"
  shows "\<exists>tx' live' r'. apply_loop ctx m config [''mark_applied'', ''collect_health'', ''write_support_index''] tx live r
      = (tx', live', r', None) \<and> tx_state tx' = verdict_state (l_snap live) config (tx_limitations tx)
        \<and> completed_steps tx' = completed_steps tx @ [''mark_applied'', ''collect_health'', ''write_support_index'']"
proof -
  have new: "''mark_applied'' \<notin> set (completed_steps tx)" "''collect_health'' \<notin> set (completed_steps tx)"
    "''write_support_index'' \<notin> set (completed_steps tx)"
    using assms(2) by (auto simp: APPLY_STEPS_def)
  obtain txa where ma: "move tx ''APPLIED'' (cx_stamp ctx) = Inr txa"
    and txa: "completed_steps txa = completed_steps tx" "tx_state txa = ''APPLIED''" "tx_limitations txa = tx_limitations tx"
    using assms(1) by (simp add: move_def transition_def TRANSITIONS_def bind_res_def)
  let ?txa = "txa\<lparr>health_overall := ''UNKNOWN''\<rparr>"
  obtain tx1 live1 r1 where c1: "complete_step m ''mark_applied'' ?txa live r = (tx1, live1, r1)" by (metis prod.exhaust)
  note a1 = complete_step_advanced [OF c1]
  obtain tx2 r2 where h: "collect_health ctx config tx1 live1 r1 = ((tx2, live1, r2), Proceed)"
    "tx_state tx2 = verdict_state (l_snap live1) config (tx_limitations tx1)" "completed_steps tx2 = completed_steps tx1"
    using collect_health_verdict [of tx1 ctx config live1 r1] a1 txa(2) by (auto simp: advanced_def)
  obtain tx3 live3 r3 where c3: "complete_step m ''collect_health'' tx2 live1 r2 = (tx3, live3, r3)" by (metis prod.exhaust)
  note a3 = complete_step_advanced [OF c3]
  obtain tx4 live4 r4 where c4:
      "complete_step m ''write_support_index'' tx3 live3 (save_snapshot (l_snap live3) r3) = (tx4, live4, r4)"
    by (metis prod.exhaust)
  note a4 = complete_step_advanced [OF c4]
  have s1: "run_step ctx m config ''mark_applied'' tx live r = ((?txa, live, r), Proceed)"
    using ma by (simp add: run_step_def move_step_def)
  have s2: "run_step ctx m config ''collect_health'' tx1 live1 r1 = ((tx2, live1, r2), Proceed)"
    using h(1) by (simp add: run_step_def)
  have s3: "run_step ctx m config ''write_support_index'' tx3 live3 r3
      = ((tx3, live3, save_snapshot (l_snap live3) r3), Proceed)"
    by (simp add: run_step_def)
  have live: "live1 = live\<lparr>l_host := clear_partial_mutation m ''mark_applied'' (l_host live)\<rparr>" using a1 by simp
  have tx1: "''collect_health'' \<notin> set (completed_steps tx1)" "tx_limitations tx1 = tx_limitations tx"
    using a1 new txa by (auto simp: advanced_def)
  have tx3: "''write_support_index'' \<notin> set (completed_steps tx3)" "tx_state tx4 = tx_state tx2"
    "completed_steps tx4 = completed_steps tx @ [''mark_applied'', ''collect_health'', ''write_support_index'']"
    using a1 a3 a4 new txa h(3) by (auto simp: advanced_def)
  have "apply_loop ctx m config [''mark_applied'', ''collect_health'', ''write_support_index''] tx live r = (tx4, live4, r4, None)"
    using apply_loop_step [OF s1 c1 new(1)] apply_loop_step [OF s2 c3 tx1(1)] apply_loop_step [OF s3 c4 tx3(1)] assms(3)
    by (simp del: apply_loop.simps(2))
  then show ?thesis using h(2) tx1(2) tx3(2,3) by (simp add: live)
qed

section \<open>The whole command\<close>

text \<open>What \<open>apply\<close> checks before it touches the host.\<close>

definition apply_ready :: "'h Ctx \<Rightarrow> 'h World \<Rightarrow> Tx \<Rightarrow> InstallConfig \<Rightarrow> HostSnapshot \<Rightarrow> bool" where
  "apply_ready ctx w tx config snap =
     (cx_yes ctx \<and> \<not> cx_dry_run ctx \<and> \<not> w_lock w \<and> open_existing ctx w = Inr (tx, config)
      \<and> tx_state tx = ''PLANNED'' \<and> completed_steps tx = [] \<and> bundle_digest tx = cx_digest ctx
      \<and> w_plan w \<noteq> None \<and> w_config w \<noteq> None \<and> w_snapshot w = Some snap
      \<and> live_grant ctx tx config snap = None \<and> mutator_error ctx config = None \<and> cx_tracefs ctx snap = None
      \<and> fst (cx_preflight ctx True config snap) \<notin> {''BLOCKED'', ''UNSUPPORTED''})"

lemma apply_ready_steps:
  assumes "apply_ready ctx w tx config snap"
  shows "\<exists>tx1 r1. apply_cmd ctx m [w] = (let (r', out) = apply_steps ctx m config tx1
        \<lparr>l_host = w_host w, l_snap = snap, l_count = 0\<rparr> r1 in ((hd r')\<lparr>w_lock := False\<rparr> # r' @ [w], out))
      \<and> tx_state tx1 = ''APPLYING'' \<and> completed_steps tx1 = [] \<and> tx_limitations tx1 = tx_limitations tx
      \<and> bundle_digest tx1 = bundle_digest tx \<and> phase tx1 = ''apply''"
proof -
  have "open_existing ctx (w\<lparr>w_lock := True\<rparr>) = Inr (tx, config)"
    using assms by (auto simp: apply_ready_def open_existing_def split: if_splits option.splits sum.splits)
  moreover obtain tx1 where "move tx ''APPLYING'' (cx_stamp ctx) = Inr tx1" "completed_steps tx1 = []"
      "tx_state tx1 = ''APPLYING''" "tx_limitations tx1 = tx_limitations tx" "bundle_digest tx1 = bundle_digest tx"
    using assms by (simp add: apply_ready_def move_def transition_def TRANSITIONS_def bind_res_def)
  ultimately show ?thesis
    using assms
    by (auto simp: apply_ready_def apply_cmd_def require_yes_def with_lock_def apply_locked_def apply_recheck_def
        Let_def save_tx_def upd_def)
qed

lemma verify_artifacts_passes:
  assumes "fst (cx_preflight ctx True config (l_snap live)) \<notin> {''BLOCKED'', ''UNSUPPORTED''}"
  shows "run_step ctx m config ''verify_artifacts'' tx live r = ((tx, live, r), Proceed)"
  using assms by (simp add: run_step_def Let_def)

text \<open>The steps up to \<open>start_pe_observe\<close>. No mutator method has touched the host when
  \<open>verify_artifacts\<close> is recorded.\<close>

lemma apply_loop_effects:
  assumes "tx_state tx = ''APPLYING''" "completed_steps tx = []"
    and "fst (cx_preflight ctx True config (l_snap live)) \<notin> {''BLOCKED'', ''UNSUPPORTED''}"
    and "run_effects m EFFECT_STEPS (live\<lparr>l_host := clear_partial_mutation m ''verify_artifacts'' (l_host live)\<rparr>) = Some live'"
    and "interrupt_hook ctx config \<notin> Some ` set (take 9 APPLY_STEPS)"
  shows "\<exists>tx' r'. apply_loop ctx m config APPLY_STEPS tx live r
      = apply_loop ctx m config [''mark_applied'', ''collect_health'', ''write_support_index''] tx' live' r'
    \<and> advanced tx (take 9 APPLY_STEPS) tx'"
proof -
  have nine: "take 9 APPLY_STEPS = ''verify_artifacts'' # EFFECT_STEPS" by (simp add: APPLY_STEPS_def EFFECT_STEPS_def)
  obtain tx1 live1 r1 where c: "complete_step m ''verify_artifacts'' tx live r = (tx1, live1, r1)" by (metis prod.exhaust)
  note a = complete_step_advanced [OF c]
  have steps: "distinct EFFECT_STEPS" "''verify_artifacts'' \<notin> set EFFECT_STEPS" by (simp_all add: EFFECT_STEPS_def)
  have "\<exists>tx' r'. apply_loop ctx m config
        (EFFECT_STEPS @ [''mark_applied'', ''collect_health'', ''write_support_index'']) tx1 live1 r1
      = apply_loop ctx m config [''mark_applied'', ''collect_health'', ''write_support_index''] tx' live' r'
    \<and> advanced tx1 EFFECT_STEPS tx'"
    by (rule effects_loop) (use assms a steps in \<open>auto simp: advanced_def nine\<close>)
  moreover have "apply_loop ctx m config APPLY_STEPS tx live r
      = apply_loop ctx m config (EFFECT_STEPS @ [''mark_applied'', ''collect_health'', ''write_support_index'']) tx1 live1 r1"
    using apply_loop_step [OF verify_artifacts_passes [OF assms(3)] c] assms(2,5)
    by (auto simp: apply_steps_split nine simp del: apply_loop.simps(2))
  ultimately show ?thesis using a by (auto simp: advanced_def nine)
qed

lemma apply_completes:
  assumes "apply_ready ctx w tx config snap" "interrupt_hook ctx config = None"
    and "run_effects m EFFECT_STEPS
      \<lparr>l_host = clear_partial_mutation m ''verify_artifacts'' (w_host w), l_snap = snap, l_count = 0\<rparr> = Some live'"
  shows "\<exists>r tx'. apply_cmd ctx m [w] = (r, Done (exit_for (tx_state tx')) tx')
    \<and> tx_state tx' = verdict_state (l_snap live') config (tx_limitations tx) \<and> completed_steps tx' = APPLY_STEPS
    \<and> w_tx (hd r) = Some tx'"
proof -
  obtain tx1 r1 where cmd: "apply_cmd ctx m [w] = (let (r', out) = apply_steps ctx m config tx1
        \<lparr>l_host = w_host w, l_snap = snap, l_count = 0\<rparr> r1 in ((hd r')\<lparr>w_lock := False\<rparr> # r' @ [w], out))"
    and tx1: "tx_state tx1 = ''APPLYING''" "completed_steps tx1 = []" "tx_limitations tx1 = tx_limitations tx"
    using apply_ready_steps [OF assms(1)] by blast
  obtain tx2 r2 where l1: "apply_loop ctx m config APPLY_STEPS tx1 \<lparr>l_host = w_host w, l_snap = snap, l_count = 0\<rparr> r1
      = apply_loop ctx m config [''mark_applied'', ''collect_health'', ''write_support_index''] tx2 live' r2"
    and a2: "advanced tx1 (take 9 APPLY_STEPS) tx2"
    using apply_loop_effects [OF tx1(1,2), of ctx config "\<lparr>l_host = w_host w, l_snap = snap, l_count = 0\<rparr>" m live' r1]
      assms by (auto simp: apply_ready_def)
  have "\<exists>tx3 live3 r3. apply_loop ctx m config [''mark_applied'', ''collect_health'', ''write_support_index''] tx2 live' r2
      = (tx3, live3, r3, None) \<and> tx_state tx3 = verdict_state (l_snap live') config (tx_limitations tx2)
        \<and> completed_steps tx3 = completed_steps tx2 @ [''mark_applied'', ''collect_health'', ''write_support_index'']"
    by (rule last_three) (use a2 tx1 assms(2) in \<open>auto simp: advanced_def\<close>)
  then obtain tx3 live3 r3 where fin: "apply_loop ctx m config APPLY_STEPS tx1
        \<lparr>l_host = w_host w, l_snap = snap, l_count = 0\<rparr> r1 = (tx3, live3, r3, None)"
      "tx_state tx3 = verdict_state (l_snap live') config (tx_limitations tx)" "completed_steps tx3 = APPLY_STEPS"
    using l1 a2 tx1(2,3) nine_steps by (simp add: advanced_def del: apply_loop.simps) metis
  then show ?thesis by (simp add: cmd apply_steps_def Let_def save_tx_def upd_def del: apply_loop.simps)
qed

section \<open>The fixture mutator\<close>

text \<open>The step context of a fixture without simulated faults.\<close>

definition faultless :: "StepCtx \<Rightarrow> bool" where
  "faultless sc =
     (sc_archive_ok sc \<and> (\<exists>d. sc_load_plan sc = Inr d) \<and> sc_boot_enable sc = None \<and> sc_simulate_missing sc = []
      \<and> sc_simulate_probe_errors sc = []
      \<and> cf_iface (sc_config sc) \<notin> {''--enforce'', ''--privileged'', ''apparmor=unconfined''})"

lemma start_observe_ok:
  assumes "cf_iface (sc_config sc) \<notin> {''--enforce'', ''--privileged'', ''apparmor=unconfined''}"
  shows "start_observe sc live = host_effect id (start_snapshot sc) live"
  using assms
  by (auto simp: start_observe_def Let_def observe_container_argv_def observe_binds_def observe_apparmor_opt_def pe_local_tag_def
      PE_OBSERVE_APPARMOR_PROFILE_def)

definition loaded :: "string \<Rightarrow> HostSnapshot \<Rightarrow> HostSnapshot" where
  "loaded digest s =
     (if list_ex (\<lambda>row. im_tag row = pe_local_tag) (hs_images s) then s
      else s\<lparr>hs_images := hs_images s @ [\<lparr>im_tag = pe_local_tag, im_digest = digest, im_role = ''phantom_engine''\<rparr>]\<rparr>)"

definition applied_snapshot :: "StepCtx \<Rightarrow> string \<Rightarrow> HostSnapshot \<Rightarrow> HostSnapshot" where
  "applied_snapshot sc digest s =
     start_snapshot sc (loaded digest (s\<lparr>hs_optics_cli_version := Some optics_cli_version_pin,
       hs_agent_sdk_npm_version := Some agent_sdk_npm_pin, hs_agent_sdk_py_version := Some agent_sdk_py_pin\<rparr>))"

lemma write_config_ok:
  assumes "cf_iface (sc_config sc) \<noteq> ''--enforce''"
  shows "write_config sc live
    = host_effect (\<lambda>h. add_file (sc_config_path sc) (h\<lparr>fh_config_file := True\<rparr>)) id live"
  using assms by (simp add: write_config_def)

definition step_snapshot :: "StepCtx \<Rightarrow> string \<Rightarrow> string \<Rightarrow> HostSnapshot \<Rightarrow> HostSnapshot" where
  "step_snapshot sc digest step s =
     (if step = ''install_optics_cli'' then s\<lparr>hs_optics_cli_version := Some optics_cli_version_pin\<rparr>
      else if step = ''install_agent_sdks'' then
        s\<lparr>hs_agent_sdk_npm_version := Some agent_sdk_npm_pin, hs_agent_sdk_py_version := Some agent_sdk_py_pin\<rparr>
      else if step = ''docker_load'' then loaded digest s
      else if step = ''start_pe_observe'' then start_snapshot sc s
      else s)"

definition snapshot_only :: "(HostSnapshot \<Rightarrow> HostSnapshot) \<Rightarrow> fixture_effect \<Rightarrow> bool" where
  "snapshot_only g op = (\<forall>live. fst (op live) = None \<and> l_snap (snd (op live)) = g (l_snap live))"

lemma snapshot_only_host [simp]: "snapshot_only g (host_effect f g)"
  by (simp add: snapshot_only_def host_effect_def)

lemma handlers_ok:
  assumes "faultless sc" "sc_load_plan sc = Inr digest"
  shows "snapshot_only (step_snapshot sc digest ''install_optics_cli'') (install_optics sc)"
    "snapshot_only (step_snapshot sc digest ''install_agent_sdks'') (install_sdks sc)"
    "snapshot_only (step_snapshot sc digest ''stage_pe_archive'') (stage_pe sc)"
    "snapshot_only (step_snapshot sc digest ''docker_load'') (docker_load sc)"
    "snapshot_only (step_snapshot sc digest ''write_observe_config'') (write_config sc)"
    "snapshot_only (step_snapshot sc digest ''install_boot_hold'') (install_boot_hold sc)"
    "snapshot_only (step_snapshot sc digest ''start_pe_observe'') (start_observe sc)"
    "snapshot_only (step_snapshot sc digest ''ensure_node'') (host_effect id id)"
  using assms
  by (simp_all add: faultless_def snapshot_only_def host_effect_def step_snapshot_def install_optics_def install_sdks_def
      stage_pe_def docker_load_def write_config_ok install_boot_hold_def start_observe_ok loaded_def Let_def)

lemma fixture_step_ok:
  assumes "faultless sc" "sc_load_plan sc = Inr digest" "step \<in> set EFFECT_STEPS"
  shows "snapshot_only (step_snapshot sc digest step) (fixture_apply_step sc step)"
proof -
  let ?op = "case map_of (fixture_handlers sc) step of None \<Rightarrow> host_effect id id | Some (doit, _) \<Rightarrow> doit"
  have "snapshot_only (step_snapshot sc digest step) ?op"
    using assms(3) handlers_ok [OF assms(1,2)] by (auto simp: EFFECT_STEPS_def fixture_handlers_def)
  then show ?thesis
    by (simp add: snapshot_only_def fixture_apply_step_def then_effect_def count_effect_def)
qed

lemma fixture_effects:
  assumes "faultless sc" "sc_load_plan sc = Inr digest" "set steps \<subseteq> set EFFECT_STEPS"
  shows "\<exists>live'. run_effects (fixture_mutator sc) steps live = Some live'
    \<and> l_snap live' = fold (step_snapshot sc digest) steps (l_snap live)"
  using assms(3)
proof (induction steps arbitrary: live)
  case (Cons step steps)
  obtain live1 where "fixture_apply_step sc step live = (None, live1)"
    "l_snap live1 = step_snapshot sc digest step (l_snap live)"
    using fixture_step_ok [OF assms(1,2), of step] Cons.prems
    by (metis insert_subset list.simps(15) prod.collapse snapshot_only_def)
  then show ?case
    using Cons.IH [of "live1\<lparr>l_host := clear_partial_mutation (fixture_mutator sc) step (l_host live1)\<rparr>"] Cons.prems
    by (simp add: fixture_mutator_def)
qed simp

lemma effect_steps_snapshot: "fold (step_snapshot sc digest) EFFECT_STEPS s = applied_snapshot sc digest s"
  by (simp add: EFFECT_STEPS_def step_snapshot_def applied_snapshot_def)

text \<open>The host of a first installation, and a configuration that asks for nothing but observation.\<close>

definition first_host :: "HostSnapshot \<Rightarrow> bool" where
  "first_host s =
     (hs_probe_errors s = [] \<and> engine_containers s = [] \<and> bpf_lsm_active (hs_active_lsm s)
      \<and> \<not> hs_enforce_flag s \<and> hs_enrollment s = None)"

definition observe_only :: "InstallConfig \<Rightarrow> bool" where
  "observe_only cf =
     (cf_iface cf \<noteq> [] \<and> cf_path_deny cf = ''disabled'' \<and> cf_otlp cf = ''DISABLED'' \<and> cf_enforcement cf = ''NOT_ENABLED'')"

lemma first_container:
  assumes "engine_containers s = []" "hs_containers t = hs_containers s @ [c]"
    and "cr_role c = ''phantom_engine''" "cr_status c = ''running''"
  shows "running_containers t = [c]"
  using assms by (simp add: running_containers_def engine_containers_def)

lemma applied_evidence:
  assumes "faultless sc" "first_host s" "observe_only (sc_config sc)"
    and "''vantio-pe-'' @ container_suffix sc \<notin> cr_name ` set (hs_containers s)"
  shows "host_evidence (applied_snapshot sc digest s) (sc_config sc)"
proof -
  let ?t = "applied_snapshot sc digest s"
  let ?c = "\<lparr>cr_name = ''vantio-pe-'' @ container_suffix sc, cr_role = ''phantom_engine'', cr_status = ''running'',
    cr_cmd = [''--iface'', cf_iface (sc_config sc)], cr_enforce = False\<rparr>"
  have new: "\<not> list_ex (\<lambda>row. cr_name row = ''vantio-pe-'' @ container_suffix sc \<and> cr_status row = ''running'') (hs_containers s)"
    using assms(4) unfolding list_ex_iff by (metis imageI)
  then have t: "hs_containers ?t = hs_containers s @ [?c]" "hs_optics_cli_version ?t = Some optics_cli_version_pin"
    "hs_probe_errors ?t = hs_probe_errors s" "hs_enforce_flag ?t = hs_enforce_flag s" "hs_enrollment ?t = hs_enrollment s"
    "hs_active_lsm ?t = hs_active_lsm s" "hs_bpf_pins ?t = BPF_PINS"
    "''vantio-loader'' \<in> set (hs_processes ?t)" "cf_iface (sc_config sc) \<in> set (hs_clsact_ifaces ?t)"
    using assms(1)
    by (simp_all add: applied_snapshot_def loaded_def start_snapshot_def faultless_def Let_def add_once_def)
  have "running_containers ?t = [?c]"
    using first_container [OF _ t(1)] assms(2) by (simp add: first_host_def)
  then show ?thesis
    using assms(1-3) t
    by (auto simp: faultless_def first_host_def observe_only_def host_evidence_def row_enforced_def enforcement_requested_def)
qed

lemma fixture_apply_completes:
  assumes "apply_ready ctx w tx config snap" "interrupt_hook ctx config = None" "tx_limitations tx = []"
    and "faultless sc" "sc_config sc = config" "first_host snap" "observe_only config"
    and "''vantio-pe-'' @ container_suffix sc \<notin> cr_name ` set (hs_containers snap)"
  shows "\<exists>r tx'. apply_cmd ctx (fixture_mutator sc) [w] = (r, Done 0 tx') \<and> tx_state tx' = ''HEALTHY''
    \<and> completed_steps tx' = APPLY_STEPS \<and> w_tx (hd r) = Some tx'"
proof -
  obtain digest where digest: "sc_load_plan sc = Inr digest" using assms(4) by (auto simp: faultless_def)
  obtain live' where live': "run_effects (fixture_mutator sc) EFFECT_STEPS
      \<lparr>l_host = clear_partial_mutation (fixture_mutator sc) ''verify_artifacts'' (w_host w), l_snap = snap, l_count = 0\<rparr>
        = Some live'" "l_snap live' = applied_snapshot sc digest snap"
    using fixture_effects [OF assms(4) digest order.refl] unfolding effect_steps_snapshot by (metis Live.select_convs(2))
  have ev: "host_evidence (l_snap live') config"
    using applied_evidence [of sc snap digest] assms(4-8) live'(2) by metis
  then have "verdict_state (l_snap live') config (tx_limitations tx) = ''HEALTHY''"
    using assms(3) health_pass [of "l_snap live'" config "[]"] by (simp add: verdict_state_def)
  then show ?thesis using apply_completes [OF assms(1,2) live'(1)] by (auto simp: exit_for_def)
qed

section \<open>Properties\<close>

text \<open>
  C14: progress of \<open>apply\<close>: on a planned transaction whose checks pass, with a mutator whose host
  steps all succeed and no interrupt hook, the command returns, and the state it ends in is the one
  the health of the final snapshot earns: \<open>HEALTHY\<close>, \<open>DEGRADED\<close> or \<open>FAILED_SAFE\<close>; every step is then recorded,
  and the transaction on disk is the one reported.
\<close>

theorem apply_progress:
  assumes "apply_ready ctx w tx config snap" "interrupt_hook ctx config = None"
    and "run_effects m EFFECT_STEPS
      \<lparr>l_host = clear_partial_mutation m ''verify_artifacts'' (w_host w), l_snap = snap, l_count = 0\<rparr> = Some live'"
  shows "\<exists>r tx'. apply_cmd ctx m [w] = (r, Done (exit_for (tx_state tx')) tx')
    \<and> tx_state tx' = verdict_state (l_snap live') config (tx_limitations tx) \<and> completed_steps tx' = APPLY_STEPS
    \<and> w_tx (hd r) = Some tx'"
  by (rule apply_completes [OF assms])

text \<open>
  With the fixture mutator, without simulated faults, on a host of a first installation whose
  kernel has the BPF LSM and under a configuration that only observes, \<open>apply\<close> takes a planned
  transaction without limitations to \<open>HEALTHY\<close> and exits with 0.
\<close>

theorem fixture_apply_healthy:
  assumes "apply_ready ctx w tx config snap" "interrupt_hook ctx config = None" "tx_limitations tx = []"
    and "faultless sc" "sc_config sc = config" "first_host snap" "observe_only config"
    and "''vantio-pe-'' @ container_suffix sc \<notin> cr_name ` set (hs_containers snap)"
  shows "\<exists>r tx'. apply_cmd ctx (fixture_mutator sc) [w] = (r, Done 0 tx') \<and> tx_state tx' = ''HEALTHY''
    \<and> completed_steps tx' = APPLY_STEPS \<and> w_tx (hd r) = Some tx'"
  by (rule fixture_apply_completes [OF assms])

end
