(* ===== verification/Install_Removal.thy ===== *)
theory Install_Removal
  imports Install_Mutator
begin

text \<open>
  What the removal commands promise about the host. The contract between the engine and a mutator is
  the locale \<open>rollback_contract\<close> and, for an uninstall, its extension \<open>removal_contract\<close>; the engine's
  part (a rollback undoes every pending step, an uninstall leaves a removed product) is proved inside
  them. The fixture mutator satisfies the first whatever it simulates, the second when it simulates no
  left-over. The inspection of a host in that condition reports \<open>EMPTY\<close>.
\<close>

section \<open>Reversals only take away\<close>

definition prefix_sub :: "tree option \<Rightarrow> tree option \<Rightarrow> bool" where
  "prefix_sub p' p = (case (p', p) of (None, None) \<Rightarrow> True | (Some t', Some t) \<Rightarrow> tree_sub t' t | _ \<Rightarrow> False)"

definition shrunk_host :: "FixtureHost \<Rightarrow> FixtureHost \<Rightarrow> bool" where
  "shrunk_host h' h =
     (prefix_sub (fh_prefix h') (fh_prefix h) \<and> fh_stage h' \<in> {fh_stage h, Stage_Absent}
      \<and> (fh_config_file h' \<longrightarrow> fh_config_file h) \<and> fh_boot_hold h' \<in> {fh_boot_hold h, ''REMOVED''}
      \<and> fh_standin h' = fh_standin h)"

definition shrunk_snap :: "HostSnapshot \<Rightarrow> HostSnapshot \<Rightarrow> bool" where
  "shrunk_snap s' s =
     (hs_optics_cli_version s' \<in> {hs_optics_cli_version s, None}
      \<and> hs_agent_sdk_npm_version s' \<in> {hs_agent_sdk_npm_version s, None}
      \<and> hs_agent_sdk_py_version s' \<in> {hs_agent_sdk_py_version s, None}
      \<and> set (hs_containers s') \<subseteq> set (hs_containers s) \<and> set (hs_images s') \<subseteq> set (hs_images s)
      \<and> set (hs_clsact_ifaces s') \<subseteq> set (hs_clsact_ifaces s) \<and> set (hs_processes s') \<subseteq> set (hs_processes s)
      \<and> hs_probe_errors s' = hs_probe_errors s)"

definition shrunk :: "FixtureHost Live \<Rightarrow> FixtureHost Live \<Rightarrow> bool" where
  "shrunk live' live = (shrunk_host (l_host live') (l_host live) \<and> shrunk_snap (l_snap live') (l_snap live))"

lemma prefix_sub_refl [simp]: "prefix_sub p p"
  by (simp add: prefix_sub_def split: option.splits)

lemma prefix_sub_trans: "prefix_sub p2 p1 \<Longrightarrow> prefix_sub p1 p \<Longrightarrow> prefix_sub p2 p"
  by (auto simp: prefix_sub_def intro: tree_sub_trans split: option.splits)

lemma shrunk_refl [simp]: "shrunk live live"
  by (simp add: shrunk_def shrunk_host_def shrunk_snap_def)

lemma pick_trans: "c \<in> {b, z} \<Longrightarrow> b \<in> {a, z} \<Longrightarrow> c \<in> {a, z}"
  by auto

lemma shrunk_trans: "shrunk c b \<Longrightarrow> shrunk b a \<Longrightarrow> shrunk c a"
  unfolding shrunk_def shrunk_host_def shrunk_snap_def
  by (elim conjE, intro conjI)
    ((erule (1) prefix_sub_trans pick_trans subset_trans | simp)+)

definition shrinking :: "fixture_effect \<Rightarrow> bool" where
  "shrinking op = (\<forall>live. shrunk (snd (op live)) live)"

lemma shrinkingD: "shrinking op \<Longrightarrow> op live = (e, live') \<Longrightarrow> shrunk live' live"
  unfolding shrinking_def by (metis snd_conv)

lemma shrinking_then: "shrinking a \<Longrightarrow> shrinking b \<Longrightarrow> shrinking (then_effect a b)"
  unfolding shrinking_def then_effect_def
proof (intro allI)
  fix live
  assume ab: "\<forall>live. shrunk (snd (a live)) live" "\<forall>live. shrunk (snd (b live)) live"
  obtain e live1 where a: "a live = (e, live1)" by (metis prod.exhaust)
  with ab(1) have "shrunk live1 live" by (metis snd_conv)
  moreover have "shrunk (snd (b live1)) live1" using ab(2) by blast
  ultimately show "shrunk (snd (case a live of (Some e, live1) \<Rightarrow> (Some e, live1) | (None, live1) \<Rightarrow> b live1)) live"
    by (cases e) (auto simp: a intro: shrunk_trans)
qed

lemma shrinking_if: "shrinking a \<Longrightarrow> shrinking b \<Longrightarrow> shrinking (if c then a else b)"
  by simp

lemma shrinking_count: "shrinking (count_effect c)"
  by (simp add: shrinking_def count_effect_def shrunk_def shrunk_host_def shrunk_snap_def)

lemma shrinking_host:
  "(\<And>h. shrunk_host (f h) h) \<Longrightarrow> (\<And>s. shrunk_snap (g s) s) \<Longrightarrow> shrinking (host_effect f g)"
  by (simp add: shrinking_def host_effect_def shrunk_def)

lemma shrunk_self [simp]: "shrunk_host h h" "shrunk_snap s s"
  by (simp_all add: shrunk_host_def shrunk_snap_def)

lemma file_ops [simp]:
  "fh_prefix (drop_file p h) = fh_prefix h" "fh_stage (drop_file p h) = fh_stage h"
  "fh_config_file (drop_file p h) = fh_config_file h" "fh_boot_hold (drop_file p h) = fh_boot_hold h"
  "fh_standin (drop_file p h) = fh_standin h"
  by (simp_all add: drop_file_def)

lemma unlink_entry_sub: "prefix_sub (unlink_entry p pre) pre"
  by (simp add: prefix_sub_def unlink_entry_def split: option.splits)

lemma remove_optics_sub:
  assumes "remove_optics_prefix pre = Inr pre'"
  shows "prefix_sub pre' pre"
proof (cases pre)
  case None
  with assms show ?thesis by (auto simp: remove_optics_prefix_def)
next
  case (Some t)
  with assms obtain t' where "pre' = Some t'" by (auto simp: remove_optics_prefix_def bind_res_Inr_iff)
  with assms Some show ?thesis using remove_optics_Inr [of t t'] by (simp add: prefix_sub_def)
qed

lemma remove_sdks_sub:
  assumes "remove_agent_sdks pre = Inr pre'"
  shows "prefix_sub pre' pre"
proof (cases pre)
  case None
  with assms show ?thesis by (auto simp: remove_agent_sdks_def)
next
  case (Some t)
  with assms obtain t' where "pre' = Some t'" by (auto simp: remove_agent_sdks_def bind_res_Inr_iff Let_def)
  with assms Some show ?thesis using remove_sdks_Inr [of t t'] by (simp add: prefix_sub_def)
qed

lemma shrinking_ops:
  "shrinking (remove_optics sc)" "shrinking (remove_sdks sc)" "shrinking (remove_stage sc)" "shrinking (docker_rmi sc)"
  "shrinking (remove_config sc)" "shrinking (remove_boot_hold sc)" "shrinking (stop_observe sc)" "shrinking (fixture_unpin sc)"
proof -
  have opt: "prefix_sub (unlink_entry OPTICS_BIN (unlink_entry OPTICS_RECEIPT x)) p" if "remove_optics_prefix p = Inr x" for x p
    by (rule prefix_sub_trans [OF prefix_sub_trans [OF unlink_entry_sub unlink_entry_sub] remove_optics_sub [OF that]])
  have sdk: "prefix_sub (unlink_entry SDK_RECEIPT x) p" if "remove_agent_sdks p = Inr x" for x p
    by (rule prefix_sub_trans [OF unlink_entry_sub remove_sdks_sub [OF that]])
  show "shrinking (remove_optics sc)" "shrinking (remove_sdks sc)"
    by (simp_all add: shrinking_def remove_optics_def remove_sdks_def host_effect_def shrunk_def shrunk_host_def
        shrunk_snap_def opt sdk split: sum.splits)
  show "shrinking (remove_stage sc)" "shrinking (docker_rmi sc)" "shrinking (remove_config sc)"
    "shrinking (remove_boot_hold sc)" "shrinking (stop_observe sc)" "shrinking (fixture_unpin sc)"
    by (auto simp: shrinking_def remove_stage_def docker_rmi_def remove_config_def remove_boot_hold_def stop_observe_def
        fixture_unpin_def host_effect_def shrunk_def shrunk_host_def shrunk_snap_def Let_def split: option.splits)
qed

lemma shrinking_clear: "shrinking (clear_enforce req up rc)"
  by (auto simp: shrinking_def clear_enforce_def host_effect_def shrunk_def shrunk_host_def shrunk_snap_def Let_def
      split: prod.splits)

section \<open>What a step leaves when it is undone\<close>

definition optics_gone :: "FixtureHost \<Rightarrow> HostSnapshot \<Rightarrow> bool" where
  "optics_gone h s =
     (hs_optics_cli_version s = None
      \<and> (\<forall>t. fh_prefix h = Some t \<longrightarrow>
            lookup t OPTICS_BIN = None \<and> lookup t OPTICS_PACKAGE = None \<and> lookup t OPTICS_RECEIPT = None))"

definition sdks_gone :: "FixtureHost \<Rightarrow> HostSnapshot \<Rightarrow> bool" where
  "sdks_gone h s =
     (hs_agent_sdk_npm_version s = None \<and> hs_agent_sdk_py_version s = None
      \<and> (\<forall>t. fh_prefix h = Some t \<longrightarrow>
            lookup t SDK_NPM = None \<and> lookup t SDK_RECEIPT = None \<and> set (py_artifacts t) = {}))"

definition image_gone :: "HostSnapshot \<Rightarrow> bool" where
  "image_gone s = (\<forall>row \<in> set (hs_images s). im_tag row \<noteq> pe_local_tag)"

definition observe_gone :: "StepCtx \<Rightarrow> HostSnapshot \<Rightarrow> bool" where
  "observe_gone sc s =
     ((\<forall>row \<in> set (hs_containers s). \<not> suffix (container_suffix sc) (cr_name row))
      \<and> set (hs_clsact_ifaces s) = {} \<and> ''vantio-loader'' \<notin> set (hs_processes s))"

definition undone :: "StepCtx \<Rightarrow> string \<Rightarrow> FixtureHost Live \<Rightarrow> bool" where
  "undone sc step live =
     (let h = l_host live; s = l_snap live in
      if step = ''install_optics_cli'' then optics_gone h s
      else if step = ''install_agent_sdks'' then sdks_gone h s
      else if step = ''stage_pe_archive'' then fh_stage h = Stage_Absent
      else if step = ''docker_load'' then image_gone s
      else if step = ''write_observe_config'' then \<not> fh_config_file h
      else if step = ''install_boot_hold'' then fh_boot_hold h = ''REMOVED''
      else if step = ''start_pe_observe'' then observe_gone sc s
      else True)"

lemma prefix_subD: "prefix_sub p' p \<Longrightarrow> p' = Some t' \<Longrightarrow> \<exists>t. p = Some t \<and> tree_sub t' t"
  by (auto simp: prefix_sub_def split: option.splits)

lemma shrunk_facts:
  assumes "shrunk live' live"
  shows "fh_prefix (l_host live') = Some t' \<Longrightarrow> \<exists>t. fh_prefix (l_host live) = Some t \<and> tree_sub t' t"
    "hs_optics_cli_version (l_snap live) = None \<Longrightarrow> hs_optics_cli_version (l_snap live') = None"
    "hs_agent_sdk_npm_version (l_snap live) = None \<Longrightarrow> hs_agent_sdk_npm_version (l_snap live') = None"
    "hs_agent_sdk_py_version (l_snap live) = None \<Longrightarrow> hs_agent_sdk_py_version (l_snap live') = None"
    "set (hs_containers (l_snap live')) \<subseteq> set (hs_containers (l_snap live))"
    "set (hs_images (l_snap live')) \<subseteq> set (hs_images (l_snap live))"
    "set (hs_clsact_ifaces (l_snap live')) \<subseteq> set (hs_clsact_ifaces (l_snap live))"
    "set (hs_processes (l_snap live')) \<subseteq> set (hs_processes (l_snap live))"
    "fh_stage (l_host live) = Stage_Absent \<Longrightarrow> fh_stage (l_host live') = Stage_Absent"
    "\<not> fh_config_file (l_host live) \<Longrightarrow> \<not> fh_config_file (l_host live')"
    "fh_boot_hold (l_host live) = ''REMOVED'' \<Longrightarrow> fh_boot_hold (l_host live') = ''REMOVED''"
    "hs_probe_errors (l_snap live') = hs_probe_errors (l_snap live)" "fh_standin (l_host live') = fh_standin (l_host live)"
  using assms prefix_subD [of "fh_prefix (l_host live')" "fh_prefix (l_host live)" t']
  unfolding shrunk_def shrunk_host_def shrunk_snap_def by auto

lemma optics_gone_shrunk:
  assumes "shrunk live' live" "optics_gone (l_host live) (l_snap live)"
  shows "optics_gone (l_host live') (l_snap live')"
proof -
  have "lookup t' OPTICS_BIN = None \<and> lookup t' OPTICS_PACKAGE = None \<and> lookup t' OPTICS_RECEIPT = None"
    if "fh_prefix (l_host live') = Some t'" for t'
    using shrunk_facts(1) [OF assms(1) that] assms(2) lookup_none_sub unfolding optics_gone_def by blast
  then show ?thesis using assms(2) shrunk_facts(2) [OF assms(1)] by (simp add: optics_gone_def)
qed

lemma sdks_gone_shrunk:
  assumes "shrunk live' live" "sdks_gone (l_host live) (l_snap live)"
  shows "sdks_gone (l_host live') (l_snap live')"
proof -
  have "lookup t' SDK_NPM = None \<and> lookup t' SDK_RECEIPT = None \<and> set (py_artifacts t') = {}"
    if "fh_prefix (l_host live') = Some t'" for t'
    using shrunk_facts(1) [OF assms(1) that] assms(2) lookup_none_sub py_artifacts_sub unfolding sdks_gone_def
    by (metis subset_empty)
  then show ?thesis using assms(2) shrunk_facts(3,4) [OF assms(1)] by (simp add: sdks_gone_def)
qed

lemma undone_shrunk:
  assumes "shrunk live' live" "undone sc step live"
  shows "undone sc step live'"
proof -
  note f = shrunk_facts [OF assms(1)]
  have "image_gone (l_snap live) \<Longrightarrow> image_gone (l_snap live')" using f(6) by (auto simp: image_gone_def)
  moreover have "observe_gone sc (l_snap live) \<Longrightarrow> observe_gone sc (l_snap live')"
    using f(5,7,8) by (auto simp: observe_gone_def)
  ultimately show ?thesis
    using assms(2) optics_gone_shrunk [OF assms(1)] sdks_gone_shrunk [OF assms(1)] f(9-11)
    by (simp add: undone_def Let_def split: if_splits)
qed

definition establishes :: "fixture_effect \<Rightarrow> (FixtureHost Live \<Rightarrow> bool) \<Rightarrow> bool" where
  "establishes op P = (\<forall>live live'. op live = (None, live') \<longrightarrow> P live')"

lemma establishesD: "establishes op P \<Longrightarrow> op live = (None, live') \<Longrightarrow> P live'"
  by (simp add: establishes_def)

lemma then_effect_None: "then_effect a b live = (None, live2) \<longleftrightarrow> (\<exists>live1. a live = (None, live1) \<and> b live1 = (None, live2))"
  by (auto simp: then_effect_def split: prod.splits option.splits)

lemma establishes_second: "establishes b P \<Longrightarrow> establishes (then_effect a b) P"
  by (auto simp: establishes_def then_effect_None)

lemma establishes_first:
  assumes "establishes a (undone sc step)" "shrinking b"
  shows "establishes (then_effect a b) (undone sc step)"
  unfolding establishes_def
proof (intro allI impI)
  fix live live' assume "then_effect a b live = (None, live')"
  then obtain live1 where "a live = (None, live1)" "b live1 = (None, live')" by (auto simp: then_effect_None)
  then show "undone sc step live'" using assms undone_shrunk shrinkingD establishesD by metis
qed

lemma undo_ops:
  "establishes (remove_optics sc) (undone sc ''install_optics_cli'')"
  "establishes (remove_sdks sc) (undone sc ''install_agent_sdks'')"
  "establishes (remove_stage sc) (undone sc ''stage_pe_archive'')"
  "establishes (docker_rmi sc) (undone sc ''docker_load'')"
  "establishes (remove_config sc) (undone sc ''write_observe_config'')"
  "establishes (remove_boot_hold sc) (undone sc ''install_boot_hold'')"
  "establishes (stop_observe sc) (undone sc ''start_pe_observe'')"
proof -
  have opt: "lookup t p = None"
    if r: "remove_optics_prefix pre = Inr x" and u: "unlink_entry OPTICS_BIN (unlink_entry OPTICS_RECEIPT x) = Some t"
      and p: "p \<in> {OPTICS_BIN, OPTICS_PACKAGE, OPTICS_RECEIPT}" for pre x t p
  proof -
    obtain t1 where t1: "x = Some t1" "tree_sub t t1"
      using prefix_subD [OF prefix_sub_trans [OF unlink_entry_sub unlink_entry_sub] u] by blast
    then obtain t0 where "pre = Some t0" using r by (cases pre) (auto simp: remove_optics_prefix_def)
    then show ?thesis using remove_optics_Inr [of t0 t1] r p t1 lookup_none_sub [OF t1(2)] by auto
  qed
  have sdk: "lookup t SDK_NPM = None \<and> lookup t SDK_RECEIPT = None \<and> set (py_artifacts t) = {}"
    if r: "remove_agent_sdks pre = Inr x" and u: "unlink_entry SDK_RECEIPT x = Some t" for pre x t
  proof -
    obtain t1 where t1: "x = Some t1" "tree_sub t t1" using prefix_subD [OF unlink_entry_sub u] by blast
    then obtain t0 where "pre = Some t0" using r by (cases pre) (auto simp: remove_agent_sdks_def)
    then show ?thesis
      using remove_sdks_Inr [of t0 t1] r t1 lookup_none_sub [OF t1(2)] py_artifacts_sub [OF t1(2)] by auto
  qed
  show "establishes (remove_optics sc) (undone sc ''install_optics_cli'')"
    using opt by (auto simp: establishes_def undone_def remove_optics_def host_effect_def optics_gone_def split: sum.splits)
  show "establishes (remove_sdks sc) (undone sc ''install_agent_sdks'')"
    using sdk by (auto simp: establishes_def undone_def remove_sdks_def host_effect_def sdks_gone_def split: sum.splits)
qed (auto simp: establishes_def undone_def remove_stage_def docker_rmi_def remove_config_def remove_boot_hold_def
    stop_observe_def host_effect_def image_gone_def observe_gone_def drop_file_def split: if_splits option.splits)

section \<open>The contract of a mutator\<close>

text \<open>\<open>undo step live\<close> says that nothing of the step is left, \<open>clear live\<close> that neither pins nor
  enforcement files are left.\<close>

locale rollback_contract =
  fixes m :: "'h Mutator" and undo :: "string \<Rightarrow> 'h Live \<Rightarrow> bool" and clear :: "'h Live \<Rightarrow> bool"
  assumes step_undoes: "rollback_step m step live = (None, live') \<Longrightarrow> undo step live'"
    and step_keeps: "rollback_step m other live = (None, live') \<Longrightarrow> undo step live \<Longrightarrow> undo step live'"
    and unpin_keeps: "unpin_remaining m live = (None, live') \<Longrightarrow> undo step live \<Longrightarrow> undo step live'"
    and enforce_keeps: "clear_enforce_side_effects m live = (None, live') \<Longrightarrow> undo step live \<Longrightarrow> undo step live'"
    and clears: "unpin_remaining m live = (None, live1) \<Longrightarrow> clear_enforce_side_effects m live1 = (None, live')
      \<Longrightarrow> clear live'"
begin

lemma loop_undoes:
  assumes "rollback_loop ctx m config steps tx live r = ((tx', live', r'), Proceed)"
    and "\<forall>s \<in> done_steps. undo s live"
  shows "(\<forall>s \<in> done_steps \<union> set steps. undo s live') \<and> clear live' \<and> tx_state tx' = ''ROLLED_BACK''
    \<and> w_snapshot (hd r') = Some (l_snap live') \<and> w_host (hd r') = l_host live'"
  using assms
proof (induction steps arbitrary: tx live r done_steps)
  case Nil
  obtain live1 live2 where ops: "unpin_remaining m live = (None, live1)"
      "clear_enforce_side_effects m live1 = (None, live2)" "live' = live2"
    and saved: "tx_state tx' = ''ROLLED_BACK''" "w_snapshot (hd r') = Some (l_snap live2)" "w_host (hd r') = l_host live2"
    using Nil.prems(1)
    by (auto simp: run_effect_def move_step_def Let_def save_snapshot_def touch_host_def upd_def
        dest: move_same split: prod.splits option.splits step_result.splits sum.splits)
  with Nil.prems(2) show ?case using clears unpin_keeps enforce_keeps by simp
next
  case (Cons step steps)
  obtain live1 where op: "rollback_step m step live = (None, live1)"
    using Cons.prems(1) by (auto simp: run_effect_def Let_def split: prod.splits option.splits)
  then obtain tx2 r2 where "rollback_loop ctx m config steps tx2 live1 r2 = ((tx', live', r'), Proceed)"
    using Cons.prems(1) by (auto simp: run_effect_def move_step_def Let_def split: if_splits sum.splits)
  from Cons.IH [OF this, of "insert step done_steps"] op Cons.prems(2) step_undoes step_keeps show ?case by auto
qed

end

locale removal_contract = rollback_contract +
  assumes uninstall_undoes: "mu_uninstall m ''all'' live = (None, live') \<Longrightarrow> step \<in> set HOST_MUTATION_STEPS
      \<Longrightarrow> step \<noteq> ''write_observe_config'' \<Longrightarrow> undo step live'"
begin

lemma uninstall_leaves:
  assumes "uninstall_effects m ''all'' tx live r = ((tx', live', r'), Proceed)" "step \<in> set HOST_MUTATION_STEPS"
    and "step \<noteq> ''write_observe_config''"
  shows "undo step live' \<and> clear live' \<and> w_host (hd r') = l_host live'"
proof -
  obtain live1 live2 where ops: "mu_uninstall m ''all'' live = (None, live1)" "unpin_remaining m live1 = (None, live2)"
      "clear_enforce_side_effects m live2 = (None, live')" "w_host (hd r') = l_host live'"
    using assms(1)
    by (auto simp: uninstall_effects_def run_effect_def Let_def touch_host_def upd_def split: prod.splits option.splits)
  then show ?thesis using uninstall_undoes assms(2,3) unpin_keeps enforce_keeps clears by meson
qed

end

section \<open>The fixture mutator satisfies it\<close>

definition honest :: "StepCtx \<Rightarrow> bool" where
  "honest sc = (sc_uninstall_leave sc = [] \<and> (\<forall>p. \<not> sc_stuck_pin sc p))"

definition cleared :: "StepCtx \<Rightarrow> FixtureHost Live \<Rightarrow> bool" where
  "cleared sc live =
     (set BPF_PINS \<inter> set (hs_bpf_pins (l_snap live)) = {}
      \<and> (py_strip spaces (sc_bpffs_root sc) \<noteq> [] \<longrightarrow> scan_known_pins (fh_bpffs (l_host live)) = ([], []))
      \<and> customer_enforce_items (l_host live) = [])"

lemma unlink_clears: "(\<And>p. \<not> stuck p) \<Longrightarrow> snd (scan_known_pins (unlink_known_pins stuck fs)) = []
    \<Longrightarrow> scan_known_pins (unlink_known_pins stuck fs) = ([], [])"
  by (cases fs) (simp_all add: scan_known_pins_def unlink_known_pins_def)

lemma unpin_clears:
  assumes "honest sc" "fixture_unpin sc live = (None, live')"
  shows "set BPF_PINS \<inter> set (hs_bpf_pins (l_snap live')) = {}
    \<and> (py_strip spaces (sc_bpffs_root sc) \<noteq> [] \<longrightarrow> scan_known_pins (fh_bpffs (l_host live')) = ([], []))"
  using assms unlink_clears [of "sc_stuck_pin sc" "fh_bpffs (l_host live)"]
  by (auto simp: honest_def fixture_unpin_def host_effect_def Let_def split: if_splits)

lemma clear_enforce_clears:
  assumes "clear_enforce req up rc live = (None, live')"
  shows "customer_enforce_items (l_host live') = [] \<and> hs_bpf_pins (l_snap live') = hs_bpf_pins (l_snap live)
    \<and> fh_bpffs (l_host live') = fh_bpffs (l_host live)"
proof -
  have "gf_dropin g = None" if "remove_grub_dropin fs up req = (g, True, removed, err)" for fs g removed err
    using that by (auto simp: remove_grub_dropin_def Let_def split: option.splits if_splits prod.splits)
  with assms show ?thesis
    by (auto simp: clear_enforce_def customer_enforce_items_def host_effect_def remove_all_dropins_def Let_def
        split: prod.splits if_splits)
qed

lemma undo_handlers:
  assumes "map_of (fixture_handlers sc) step = Some (doit, undo)"
  shows "establishes undo (undone sc step) \<and> shrinking undo"
  using assms undo_ops [of sc] shrinking_ops [of sc] by (auto simp: fixture_handlers_def split: if_splits)

lemma rollback_step_shrinking: "shrinking (fixture_rollback_step sc step)"
proof -
  have "shrinking (host_effect id id)" by (rule shrinking_host) simp_all
  then show ?thesis
    unfolding fixture_rollback_step_def
    by (intro shrinking_then shrinking_if shrinking_ops)
      (auto intro: shrinking_then shrinking_count dest: undo_handlers split: option.splits)
qed

lemma rollback_step_undoes: "establishes (fixture_rollback_step sc step) (undone sc step)"
proof (cases "map_of (fixture_handlers sc) step")
  case None
  then have "undone sc step live" for live by (auto simp: fixture_handlers_def undone_def Let_def split: if_splits)
  then show ?thesis by (simp add: establishes_def)
next
  case (Some ops)
  obtain doit undo where ops: "ops = (doit, undo)" by (cases ops)
  have "shrinking (if step = ''start_pe_observe'' then fixture_unpin sc else host_effect id id)"
    by (intro shrinking_if shrinking_ops shrinking_host) simp_all
  moreover have "establishes (then_effect (count_effect True) undo) (undone sc step)"
    using undo_handlers [of sc step doit undo] Some ops by (auto intro: establishes_second)
  ultimately show ?thesis using Some ops establishes_first by (simp add: fixture_rollback_step_def)
qed

definition pe_removal :: "StepCtx \<Rightarrow> fixture_effect list" where
  "pe_removal sc =
     [remove_boot_hold sc, stop_observe sc, docker_rmi sc, remove_stage sc, fixture_unpin sc,
      host_effect id (\<lambda>s. s\<lparr>hs_clsact_ifaces := []\<rparr>),
      host_effect id (\<lambda>s. s\<lparr>hs_processes := filter (\<lambda>name. name \<noteq> ''vantio-loader'') (hs_processes s)\<rparr>),
      remove_optics sc, remove_sdks sc, count_effect True]"

fun in_order :: "fixture_effect list \<Rightarrow> fixture_effect" where
  "in_order [] live = (None, live)"
| "in_order (op # ops) live = then_effect op (in_order ops) live"

lemma uninstall_in_order: "honest sc \<Longrightarrow> fixture_uninstall sc ''all'' = in_order (pe_removal sc)"
  by (intro ext) (auto simp: honest_def fixture_uninstall_def pe_removal_def unless_left_def then_effect_def
      split: prod.splits option.splits)

lemma in_order_shrinking: "list_all shrinking ops \<Longrightarrow> shrinking (in_order ops)"
proof (induction ops)
  case Nil
  then show ?case by (simp add: shrinking_def)
next
  case (Cons op ops)
  have "in_order (op # ops) = then_effect op (in_order ops)" by (intro ext) simp
  with Cons show ?case by (auto intro: shrinking_then)
qed

lemma in_order_establishes:
  assumes "list_all shrinking ops" "op \<in> set ops" "establishes op (undone sc step)"
  shows "establishes (in_order ops) (undone sc step)"
  using assms
proof (induction ops)
  case (Cons o1 ops)
  have eq: "in_order (o1 # ops) = then_effect o1 (in_order ops)" by (intro ext) simp
  show ?case
  proof (cases "op = o1")
    case True
    with Cons.prems in_order_shrinking [of ops] show ?thesis unfolding eq by (auto intro: establishes_first)
  next
    case False
    with Cons show ?thesis unfolding eq by (auto intro: establishes_second)
  qed
qed simp

lemma pe_removal_shrinking: "list_all shrinking (pe_removal sc)"
  using shrinking_ops [of sc] shrinking_count
  by (auto simp: pe_removal_def shrunk_snap_def intro!: shrinking_host)

lemma uninstall_undoes_all:
  assumes "honest sc" "step \<in> set HOST_MUTATION_STEPS" "step \<noteq> ''write_observe_config''"
  shows "establishes (fixture_uninstall sc ''all'') (undone sc step)"
proof -
  have "\<exists>op \<in> set (pe_removal sc). establishes op (undone sc step)"
    using assms(2,3) undo_ops [of sc] by (auto simp: HOST_MUTATION_STEPS_def pe_removal_def)
  then show ?thesis using uninstall_in_order [OF assms(1)] in_order_establishes [OF pe_removal_shrinking] by metis
qed

text \<open>What is left of pins and enforcement files, and that the snapshot says which pins are left.\<close>

definition left_recorded :: "StepCtx \<Rightarrow> FixtureHost Live \<Rightarrow> bool" where
  "left_recorded sc live =
     (customer_enforce_items (l_host live) = []
      \<and> (''bpf_pins'' \<notin> set (sc_uninstall_leave sc) \<longrightarrow>
           hs_bpf_pins (l_snap live)
             = (if py_strip spaces (sc_bpffs_root sc) = [] then [] else fst (scan_known_pins (fh_bpffs (l_host live))))))"

lemma unpin_recorded:
  "fixture_unpin sc live = (None, live') \<Longrightarrow> ''bpf_pins'' \<notin> set (sc_uninstall_leave sc) \<Longrightarrow>
   hs_bpf_pins (l_snap live') = (if py_strip spaces (sc_bpffs_root sc) = [] then [] else fst (scan_known_pins (fh_bpffs (l_host live'))))"
  by (auto simp: fixture_unpin_def host_effect_def Let_def split: if_splits)

interpretation undoing: rollback_contract "fixture_mutator sc" "undone sc"
  "\<lambda>live. left_recorded sc live \<and> (honest sc \<longrightarrow> cleared sc live)" for sc
proof unfold_locales
  fix step other live live' live1
  note simps = fixture_mutator_def
  show "rollback_step (fixture_mutator sc) step live = (None, live') \<Longrightarrow> undone sc step live'"
    using establishesD [OF rollback_step_undoes] by (simp add: simps)
  show "rollback_step (fixture_mutator sc) other live = (None, live') \<Longrightarrow> undone sc step live \<Longrightarrow> undone sc step live'"
    using shrinkingD [OF rollback_step_shrinking] undone_shrunk by (simp add: simps) blast
  show "unpin_remaining (fixture_mutator sc) live = (None, live') \<Longrightarrow> undone sc step live \<Longrightarrow> undone sc step live'"
    using shrinkingD [OF shrinking_ops(8)] undone_shrunk by (simp add: simps) blast
  show "clear_enforce_side_effects (fixture_mutator sc) live = (None, live') \<Longrightarrow> undone sc step live \<Longrightarrow> undone sc step live'"
    using shrinkingD [OF shrinking_clear] undone_shrunk by (simp add: simps) blast
  show "unpin_remaining (fixture_mutator sc) live = (None, live1)
      \<Longrightarrow> clear_enforce_side_effects (fixture_mutator sc) live1 = (None, live')
      \<Longrightarrow> left_recorded sc live' \<and> (honest sc \<longrightarrow> cleared sc live')"
    using unpin_clears [of sc live live1] unpin_recorded [of sc live live1]
      clear_enforce_clears [of False "\<lambda>g. (0, gf_cfgs g)" 0 live1 live']
    by (auto simp: simps cleared_def left_recorded_def)
qed

interpretation fixture: removal_contract "fixture_mutator sc" "\<lambda>step live. honest sc \<longrightarrow> undone sc step live"
  "\<lambda>live. honest sc \<longrightarrow> cleared sc live" for sc
proof unfold_locales
  fix step other live live' live1
  show "rollback_step (fixture_mutator sc) step live = (None, live') \<Longrightarrow> honest sc \<longrightarrow> undone sc step live'"
    using undoing.step_undoes by blast
  show "rollback_step (fixture_mutator sc) other live = (None, live') \<Longrightarrow> honest sc \<longrightarrow> undone sc step live
      \<Longrightarrow> honest sc \<longrightarrow> undone sc step live'" using undoing.step_keeps by blast
  show "unpin_remaining (fixture_mutator sc) live = (None, live') \<Longrightarrow> honest sc \<longrightarrow> undone sc step live
      \<Longrightarrow> honest sc \<longrightarrow> undone sc step live'" using undoing.unpin_keeps by blast
  show "clear_enforce_side_effects (fixture_mutator sc) live = (None, live') \<Longrightarrow> honest sc \<longrightarrow> undone sc step live
      \<Longrightarrow> honest sc \<longrightarrow> undone sc step live'" using undoing.enforce_keeps by blast
  show "unpin_remaining (fixture_mutator sc) live = (None, live1)
      \<Longrightarrow> clear_enforce_side_effects (fixture_mutator sc) live1 = (None, live') \<Longrightarrow> honest sc \<longrightarrow> cleared sc live'"
    using undoing.clears by blast
  show "mu_uninstall (fixture_mutator sc) ''all'' live = (None, live') \<Longrightarrow> step \<in> set HOST_MUTATION_STEPS
      \<Longrightarrow> step \<noteq> ''write_observe_config'' \<Longrightarrow> honest sc \<longrightarrow> undone sc step live'"
    using establishesD [OF uninstall_undoes_all] by (simp add: fixture_mutator_def)
qed

section \<open>The inspection afterwards\<close>

text \<open>The engine containers and images of the host are the transaction's own.\<close>

definition own_only :: "StepCtx \<Rightarrow> HostSnapshot \<Rightarrow> bool" where
  "own_only sc s =
     ((\<forall>row \<in> set (hs_containers s). cr_role row = ''phantom_engine'' \<longrightarrow> suffix (container_suffix sc) (cr_name row))
      \<and> (\<forall>row \<in> set (hs_images s). im_role row = ''phantom_engine'' \<longrightarrow> im_tag row = pe_local_tag))"

lemma own_only_shrunk: "shrunk live' live \<Longrightarrow> own_only sc (l_snap live) \<Longrightarrow> own_only sc (l_snap live')"
  using shrunk_facts(5,6) [of live' live] by (auto simp: own_only_def)

lemma prefix_items_empty:
  "optics_gone h s \<Longrightarrow> in_prefix optics_receipt_items (fh_prefix h) = []"
  "optics_gone h s \<Longrightarrow> in_prefix optics_cli_residual_items (fh_prefix h) = []"
  "sdks_gone h s \<Longrightarrow> in_prefix agent_sdk_residual_items (fh_prefix h) = []"
  by (auto simp: optics_gone_def sdks_gone_def in_prefix_def optics_receipt_items_def optics_cli_residual_items_def
      agent_sdk_residual_items_def node_present_def sdk_receipt_present_def entry_is_none split: option.splits)

lemma pin_items_empty:
  assumes "cleared sc live" "fh_standin (l_host live) = Some False" "sc_bpffs_root sc = cf_bpffs_root config"
  shows "pin_items (l_snap live) (fixture_bpffs config (l_host live)) (fh_standin (l_host live)) = ([], [])"
proof -
  have "filter (\<lambda>pin. pin \<in> set BPF_PINS) (hs_bpf_pins (l_snap live)) = []"
    using assms(1) by (auto simp: cleared_def filter_empty_conv)
  then show ?thesis
    using assms by (auto simp: pin_items_def cleared_def fixture_bpffs_def split: option.splits prod.splits)
qed

definition removed :: "StepCtx \<Rightarrow> FixtureHost Live \<Rightarrow> bool" where
  "removed sc live =
     ((\<forall>step \<in> set HOST_MUTATION_STEPS. step \<noteq> ''write_observe_config'' \<longrightarrow> undone sc step live) \<and> cleared sc live)"

lemma inspect_empty:
  assumes "removed sc live" "own_only sc (l_snap live)" "hs_probe_errors (l_snap live) = []"
    and "fh_standin (l_host live) = Some False" "sc_bpffs_root sc = cf_bpffs_root config"
  shows "fixture_inspect (l_host live) (l_snap live) ''all'' config
    = \<lparr>rp_result = ''EMPTY'', rp_items = [], rp_probe_errors = []\<rparr>"
proof -
  have g: "optics_gone (l_host live) (l_snap live)" "sdks_gone (l_host live) (l_snap live)"
      "fh_stage (l_host live) = Stage_Absent" "image_gone (l_snap live)" "observe_gone sc (l_snap live)"
      and c: "cleared sc live"
    using assms(1) by (simp_all add: removed_def HOST_MUTATION_STEPS_def undone_def)
  have rows: "engine_containers (l_snap live) = []"
    "filter (\<lambda>row. im_role row = ''phantom_engine'') (hs_images (l_snap live)) = []"
    using g(4,5) assms(2)
    by (auto simp: own_only_def image_gone_def observe_gone_def engine_containers_def filter_empty_conv)
  note pins = pin_items_empty [OF c assms(4,5)] and pre = prefix_items_empty(1,2) [OF g(1)] prefix_items_empty(3) [OF g(2)]
  show ?thesis
    using g c assms(3) rows pins pre
    by (simp add: fixture_inspect_def inspect_residual_def Let_def version_item_def optics_gone_def sdks_gone_def
        observe_gone_def cleared_def)
qed

lemma verify_verdict:
  assumes "cx_fixture ctx" "cx_inspect ctx = fixture_inspect" "\<not> cx_accept_live ctx" "\<not> w_lock w" "scope_of ctx = ''all''"
    and "open_existing ctx w = Inr (tx, config)" "tx_state tx \<in> {''UNINSTALLED'', ''ROLLED_BACK''}"
    and "w_snapshot w = Some snap" "cx_roots ctx config = None" "cf_residual_probe_errors config = []"
    and "rp_result (fixture_inspect (w_host w) snap ''all'' config) = ''EMPTY''"
  shows "\<exists>r tx'. verify_removal ctx [w] = (r, Done 0 tx') \<and> tx_state tx' = ''VERIFIED_REMOVED''
    \<and> w_residual (hd r) = Some ''EMPTY''"
proof -
  have "open_existing ctx (w\<lparr>w_lock := True\<rparr>) = Inr (tx, config)"
    using assms(6) by (auto simp: open_existing_def split: if_splits option.splits sum.splits)
  moreover obtain tx1 where "move tx ''VERIFYING_REMOVAL'' (cx_stamp ctx) = Inr tx1" "tx_state tx1 = ''VERIFYING_REMOVAL''"
    using assms(7) by (auto simp: move_def transition_def TRANSITIONS_def bind_res_def)
  moreover obtain tx2 where "move tx1 ''VERIFIED_REMOVED'' (cx_stamp ctx) = Inr tx2" "tx_state tx2 = ''VERIFIED_REMOVED''"
    using calculation(3) by (auto simp: move_def transition_def TRANSITIONS_def bind_res_def)
  ultimately show ?thesis
    using assms
    by (auto simp: verify_removal_def guard_readonly_command_def with_lock_def verify_removal_locked_def Let_def
        fixture_hooks_def removal_verdict_def removal_state_def exit_for_def save_tx_def upd_def)
qed

section \<open>The removal commands\<close>

lemma open_existing_config:
  assumes "cx_config ctx = Some (Inr config)" "cx_transaction_id ctx \<noteq> []" "w_tx w = Some tx"
  shows "open_existing ctx w = Inr (tx, config)"
  using assms by (simp add: open_existing_def)

lemma uninstall_cmd_effects:
  assumes "uninstall ctx m [w] = (r, Done code tx)" "w_snapshot w = Some snap"
  shows "\<exists>tx1 tx2 live2 r1 r2. uninstall_effects m (scope_of ctx) tx1 \<lparr>l_host = w_host w, l_snap = snap, l_count = 0\<rparr> r1
      = ((tx2, live2, r2), Proceed)
    \<and> w_tx (hd r) = Some tx \<and> tx_state tx = ''UNINSTALLED'' \<and> w_snapshot (hd r) = Some (l_snap live2)
    \<and> w_host (hd r) = w_host (hd r2) \<and> \<not> w_lock (hd r)"
proof -
  let ?w = "w\<lparr>w_lock := True\<rparr>"
  obtain r1 where locked: "uninstall_locked ctx m [?w] = (r1, Done code tx)" "r = (hd r1)\<lparr>w_lock := False\<rparr> # r1 @ [w]"
    using assms(1) by (auto simp: uninstall_def with_lock_def Let_def split: if_splits sum.splits prod.splits)
  obtain config tx1 where run: "uninstall_run ctx m config snap tx1 [?w] = (r1, Done code tx)"
    using locked(1) assms(2)
    by (auto simp: uninstall_locked_def split: sum.splits prod.splits if_splits option.splits)
  obtain tx2 live2 r2 res where eff: "uninstall_effects m (scope_of ctx)
      (tx1\<lparr>tx_scope := Some (scope_of ctx), phase := ''uninstall'', mutation_in_progress := True, owner_pid := Some (cx_pid ctx)\<rparr>)
      \<lparr>l_host = w_host w, l_snap = snap, l_count = 0\<rparr>
      (save_tx (tx1\<lparr>tx_scope := Some (scope_of ctx), phase := ''uninstall'', mutation_in_progress := True,
         owner_pid := Some (cx_pid ctx)\<rparr>) [?w]) = ((tx2, live2, r2), res)" by (metis prod.exhaust)
  have res: "res = Proceed"
    using eff run by (cases res)
      (auto simp: uninstall_run_def Let_def save_tx_def upd_def removal_failed_def uninstall_effects_def run_effect_def
        split: sum.splits prod.splits option.splits if_splits)
  have "w_tx (hd r1) = Some tx \<and> tx_state tx = ''UNINSTALLED'' \<and> w_snapshot (hd r1) = Some (l_snap live2)
      \<and> w_host (hd r1) = w_host (hd r2)"
    using run eff res
    by (auto simp: uninstall_run_def Let_def save_tx_def save_health_def save_snapshot_def upd_def removal_failed_def
        dest: move_same split: sum.splits)
  with eff res locked(2) show ?thesis by simp blast
qed

lemma rollback_loop_stop:
  "rollback_loop ctx m config steps tx live r = ((tx', live', r'), Stop) \<Longrightarrow> tx_state tx' = ''INTERRUPTED''"
  by (induction steps arbitrary: tx live r)
    (auto simp: run_effect_def move_step_def Let_def dest: move_same split: prod.splits option.splits sum.splits
      if_splits step_result.splits)

lemma rollback_cmd_loop:
  assumes "rollback ctx m [w] = (r, Done code tx)" "w_snapshot w = Some snap" "tx_state tx = ''ROLLED_BACK''"
    and "open_existing ctx w = Inr (tx0, config)"
  shows "\<exists>tx1 tx2 live2 r1 r2. completed_steps tx1 = completed_steps tx0
    \<and> rollback_completed_steps tx1 = rollback_completed_steps tx0
    \<and> rollback_loop ctx m config (rollback_pending m tx1 (w_host w)) tx1 \<lparr>l_host = w_host w, l_snap = snap, l_count = 0\<rparr> r1
        = ((tx2, live2, r2), Proceed)
    \<and> w_tx (hd r) = Some tx \<and> w_snapshot (hd r) = w_snapshot (hd r2) \<and> w_host (hd r) = w_host (hd r2) \<and> \<not> w_lock (hd r)"
proof -
  let ?w = "w\<lparr>w_lock := True\<rparr>" and ?live = "\<lparr>l_host = w_host w, l_snap = snap, l_count = 0\<rparr>"
  have op: "open_existing ctx ?w = Inr (tx0, config)"
    using assms(4) by (auto simp: open_existing_def split: if_splits option.splits sum.splits)
  obtain r1 where locked: "rollback_locked ctx m [?w] = (r1, Done code tx)" "r = (hd r1)\<lparr>w_lock := False\<rparr> # r1 @ [w]"
    using assms(1) by (auto simp: rollback_def with_lock_def Let_def split: if_splits sum.splits prod.splits)
  obtain t where run: "rollback_run ctx m config snap t [?w] = (r1, Done code tx)"
    and t: "completed_steps t = completed_steps tx0" "rollback_completed_steps t = rollback_completed_steps tx0"
    using locked(1) assms(2) op
    by (auto simp: rollback_locked_def move_Inr split: sum.splits if_splits option.splits)
  let ?t = "t\<lparr>mutation_in_progress := True, owner_pid := Some (cx_pid ctx), phase := ''rollback''\<rparr>"
  obtain tx2 live2 r2 res where loop: "rollback_loop ctx m config (rollback_pending m ?t (w_host w)) ?t ?live (save_tx ?t [?w])
      = ((tx2, live2, r2), res)" by (metis prod.exhaust)
  have not_fail: "\<nexists>e. res = Fail e"
    using run loop by (auto simp: rollback_run_def Let_def save_tx_def upd_def removal_failed_def split: sum.splits)
  have tx: "tx_state tx = tx_state tx2 \<and> w_tx (hd r1) = Some tx \<and> w_snapshot (hd r1) = w_snapshot (hd r2)
      \<and> w_host (hd r1) = w_host (hd r2)"
    using run loop not_fail
    by (cases res) (auto simp: rollback_run_def Let_def save_tx_def save_health_def upd_def)
  then have "res = Proceed"
    using not_fail loop assms(3) rollback_loop_stop [of ctx m config _ ?t ?live _ tx2 live2 r2] by (cases res) auto
  with loop tx locked(2) t show ?thesis
    by (intro exI [of _ ?t] exI [of _ tx2] exI [of _ live2] exI [of _ "save_tx ?t [?w]"] exI [of _ r2]) simp
qed

lemma uninstall_shrinking: "honest sc \<Longrightarrow> shrinking (fixture_uninstall sc ''all'')"
  using in_order_shrinking [OF pe_removal_shrinking] uninstall_in_order by metis

lemma uninstall_removed:
  assumes "uninstall ctx (fixture_mutator sc) [w] = (r, Done code tx)" "w_snapshot w = Some snap"
    and "honest sc" "scope_of ctx = ''all''"
  shows "\<exists>live. removed sc live \<and> shrunk live \<lparr>l_host = w_host w, l_snap = snap, l_count = 0\<rparr>
    \<and> w_tx (hd r) = Some tx \<and> tx_state tx = ''UNINSTALLED'' \<and> w_snapshot (hd r) = Some (l_snap live)
    \<and> w_host (hd r) = l_host live \<and> \<not> w_lock (hd r)"
proof -
  let ?live = "\<lparr>l_host = w_host w, l_snap = snap, l_count = 0\<rparr>"
  obtain tx1 tx2 live2 r1 r2 where eff: "uninstall_effects (fixture_mutator sc) ''all'' tx1 ?live r1 = ((tx2, live2, r2), Proceed)"
    and w: "w_tx (hd r) = Some tx" "tx_state tx = ''UNINSTALLED''" "w_snapshot (hd r) = Some (l_snap live2)"
      "w_host (hd r) = w_host (hd r2)" "\<not> w_lock (hd r)"
    using uninstall_cmd_effects [OF assms(1,2)] unfolding assms(4) by blast
  note left = fixture.uninstall_leaves [OF eff]
  have "''install_optics_cli'' \<in> set HOST_MUTATION_STEPS" "''install_optics_cli'' \<noteq> ''write_observe_config''"
    by (simp_all add: HOST_MUTATION_STEPS_def)
  from left [OF this] assms(3) have c: "cleared sc live2" "w_host (hd r2) = l_host live2" by auto
  with left assms(3) have "removed sc live2" by (auto simp: removed_def)
  moreover have "shrunk live2 ?live"
  proof -
    obtain l1 l2 where ops: "fixture_uninstall sc ''all'' ?live = (None, l1)" "fixture_unpin sc l1 = (None, l2)"
        "clear_enforce False (\<lambda>g. (0, gf_cfgs g)) 0 l2 = (None, live2)"
      using eff by (auto simp: uninstall_effects_def run_effect_def fixture_mutator_def Let_def split: prod.splits option.splits)
    show ?thesis
      by (rule shrunk_trans [OF shrinkingD [OF shrinking_clear ops(3)] shrunk_trans [OF
            shrinkingD [OF shrinking_ops(8) ops(2)] shrinkingD [OF uninstall_shrinking [OF assms(3)] ops(1)]]])
  qed
  ultimately show ?thesis using w c(2) by auto
qed

lemma rollback_removed:
  assumes "rollback ctx (fixture_mutator sc) [w] = (r, Done code tx)" "w_snapshot w = Some snap" "tx_state tx = ''ROLLED_BACK''"
    and "open_existing ctx w = Inr (tx0, config)" "applied_prefix (completed_steps tx0)"
  shows "\<exists>live. w_snapshot (hd r) = Some (l_snap live) \<and> w_host (hd r) = l_host live
    \<and> left_recorded sc live \<and> (honest sc \<longrightarrow> cleared sc live)
    \<and> (\<forall>step \<in> set (completed_steps tx0) \<inter> set HOST_MUTATION_STEPS - set (rollback_completed_steps tx0). undone sc step live)"
proof -
  obtain tx1 tx2 live2 r1 r2 where tx1: "completed_steps tx1 = completed_steps tx0"
      "rollback_completed_steps tx1 = rollback_completed_steps tx0"
    and loop: "rollback_loop ctx (fixture_mutator sc) config (rollback_pending (fixture_mutator sc) tx1 (w_host w)) tx1
        \<lparr>l_host = w_host w, l_snap = snap, l_count = 0\<rparr> r1 = ((tx2, live2, r2), Proceed)"
    and w: "w_snapshot (hd r) = w_snapshot (hd r2)" "w_host (hd r) = w_host (hd r2)"
    using rollback_cmd_loop [OF assms(1-4)] by blast
  have "set (completed_steps tx0) \<inter> set HOST_MUTATION_STEPS - set (rollback_completed_steps tx0)
      \<subseteq> set (rollback_pending (fixture_mutator sc) tx1 (w_host w))"
    using reverse_steps_spec [OF assms(5)] tx1 by (auto simp: rollback_pending_def Let_def)
  with undoing.loop_undoes [OF loop, of "{}"] w show ?thesis by auto
qed

section \<open>Properties\<close>

text \<open>
  C13: uninstall and verification agree on a fixture host. The mutator is the fixture mutator and simulates neither a
  left-over nor a pin that cannot be unlinked; the engine containers and images are the transaction's own, the
  snapshot has no probe error, no stand-in mount is recorded, and the verification runs on the same fixture with scope
  all, the same pin directory and no simulated probe error. Then an uninstall of scope all that reports success is
  followed by a verification that finds nothing and ends in \<open>VERIFIED_REMOVED\<close> with exit code 0. The removal of a
  live host is not part of the claim.
\<close>

theorem uninstall_verified:
  assumes "uninstall ctx (fixture_mutator sc) [w] = (r, Done code tx)" "scope_of ctx = ''all''" "honest sc"
    and "w_snapshot w = Some snap" "own_only sc snap" "hs_probe_errors snap = []" "fh_standin (w_host w) = Some False"
    and "cx_fixture vctx" "cx_inspect vctx = fixture_inspect" "\<not> cx_accept_live vctx" "scope_of vctx = ''all''"
    and "cx_config vctx = Some (Inr config)" "cx_transaction_id vctx \<noteq> []" "cx_roots vctx config = None"
    and "cf_residual_probe_errors config = []" "sc_bpffs_root sc = cf_bpffs_root config"
  shows "\<exists>r' tx'. verify_removal vctx [hd r] = (r', Done 0 tx') \<and> tx_state tx' = ''VERIFIED_REMOVED''
    \<and> w_residual (hd r') = Some ''EMPTY''"
proof -
  obtain live where live: "removed sc live" "shrunk live \<lparr>l_host = w_host w, l_snap = snap, l_count = 0\<rparr>"
    and w: "w_tx (hd r) = Some tx" "tx_state tx = ''UNINSTALLED''" "w_snapshot (hd r) = Some (l_snap live)"
      "w_host (hd r) = l_host live" "\<not> w_lock (hd r)"
    using uninstall_removed [OF assms(1,4,3,2)] by blast
  have "own_only sc (l_snap live)" "hs_probe_errors (l_snap live) = []" "fh_standin (l_host live) = Some False"
    using own_only_shrunk [OF live(2)] shrunk_facts(12,13) [OF live(2)] assms(5-7) by simp_all
  from inspect_empty [OF live(1) this assms(16)]
  have "rp_result (fixture_inspect (w_host (hd r)) (l_snap live) ''all'' config) = ''EMPTY''" using w(4) by simp
  then show ?thesis
    by (intro verify_verdict [OF assms(8-10) w(5) assms(11) open_existing_config [OF assms(12,13) w(1)] _ w(3) assms(14,15)])
      (simp_all add: w(2))
qed

text \<open>
  C23: on a fixture host, whatever the fixture simulates, a rollback that reports \<open>ROLLED_BACK\<close> has undone, on the
  host and in the saved snapshot, every host step that was recorded as completed and not yet undone; it has left no
  grub drop-in, license or enrolled unit, and unless the fixture is told to leave the pins the snapshot names exactly
  the known pins still there. Where the fixture simulates no left-over and no pin that cannot be unlinked, no pin is
  there. The rollback of a live host is not part of the claim.
\<close>

theorem rollback_undoes:
  assumes "session w" "rollback ctx (fixture_mutator sc) [w] = (r, Done code tx)" "tx_state tx = ''ROLLED_BACK''"
    and "w_snapshot w = Some snap" "open_existing ctx w = Inr (tx0, config)"
  shows "\<exists>live. w_snapshot (hd r) = Some (l_snap live) \<and> w_host (hd r) = l_host live
    \<and> (\<forall>step \<in> set (completed_steps tx0) \<inter> set HOST_MUTATION_STEPS - set (rollback_completed_steps tx0). undone sc step live)
    \<and> customer_enforce_items (l_host live) = []
    \<and> (''bpf_pins'' \<notin> set (sc_uninstall_leave sc) \<longrightarrow>
         hs_bpf_pins (l_snap live)
           = (if py_strip spaces (sc_bpffs_root sc) = [] then [] else fst (scan_known_pins (fh_bpffs (l_host live)))))
    \<and> (honest sc \<longrightarrow> cleared sc live)"
proof -
  have "w_tx w = Some tx0" using assms(5) by (rule open_existing_tx)
  then have "applied_prefix (completed_steps tx0)"
    using session_ok [OF assms(1)] by (simp add: world_ok_def tx_ok_def tx_facts_def)
  from rollback_removed [OF assms(2,4,3,5) this] show ?thesis by (fastforce simp: left_recorded_def)
qed

end
