(* ===== verification/Install_Session.thy ===== *)
theory Install_Session
  imports Install_Progress Install_Removal
begin

text \<open>
  A concrete host and a concrete transaction on it: plan, apply, an apply that is interrupted after
  \<open>mark_applied\<close> and one that is killed. The properties of the engine are applied to these sessions.
\<close>

section \<open>The host\<close>

definition sample_config :: InstallConfig where
  "sample_config =
     \<lparr>cf_install_mode = ''observe'', cf_enforcement = ''NOT_ENABLED'', cf_path_deny = ''disabled'', cf_otlp = ''DISABLED'',
      cf_iface = ''eth0'', cf_interrupt_after_step = None, cf_rollback_interrupt_after_step = None,
      cf_uninstall_leave = [], cf_simulate_missing = [], cf_simulate_probe_errors = [], cf_residual_probe_errors = [],
      cf_bpffs_root = ''''\<rparr>"

definition sample_snapshot :: HostSnapshot where
  "sample_snapshot =
     \<lparr>hs_optics_cli_version = None, hs_agent_sdk_npm_version = None, hs_agent_sdk_py_version = None, hs_probe_errors = [],
      hs_containers = [], hs_images = [], hs_processes = [], hs_bpf_pins = [], hs_clsact_ifaces = [],
      hs_active_lsm = Some ''lockdown,bpf'', hs_enforce_flag = False, hs_enrollment = None\<rparr>"

definition sample_host :: FixtureHost where
  "sample_host =
     \<lparr>fh_prefix = None, fh_stage = Stage_Absent, fh_config_file = False, fh_product_files = [], fh_bpffs = Bpffs_Missing,
      fh_boot_hold = '''', fh_grub = \<lparr>gf_dropin = None, gf_main = None, gf_extra = [], gf_cfgs = []\<rparr>,
      fh_license = False, fh_dropins = [], fh_standin = Some False, fh_partial = []\<rparr>"

definition sample_step_ctx :: StepCtx where
  "sample_step_ctx =
     \<lparr>sc_transaction_id = ''tx-000000000001'', sc_config = sample_config, sc_config_path = ''/c'', sc_prefix_path = ''/p'',
      sc_stage_path = ''/s'', sc_archive_name = ''pe.tar'', sc_archive_ok = True, sc_load_plan = Inr ''sha256:0'',
      sc_boot_enable = None, sc_boot_remove = None, sc_boot_state = ''HELD'', sc_simulate_missing = [],
      sc_simulate_probe_errors = [], sc_uninstall_leave = [], sc_bpffs_root = '''', sc_stuck_pin = (\<lambda>_. False)\<rparr>"

definition sample_mutator :: "FixtureHost Mutator" where
  "sample_mutator = fixture_mutator sample_step_ctx"

definition sample_ctx :: "string \<Rightarrow> InstallConfig \<Rightarrow> FixtureHost Ctx" where
  "sample_ctx command config =
     \<lparr>cx_command = command, cx_fixture = True, cx_transaction_id = ''tx-000000000001'', cx_config = Some (Inr config),
      cx_config_digest = ''c'', cx_bundle = None, cx_manifest = None, cx_digest = ''d'', cx_yes = True,
      cx_dry_run = False, cx_accept_live = False, cx_stamp = ''t'', cx_scope = '''', cx_pid = 7,
      cx_pid_alive = (\<lambda>_. False), cx_layout = (\<lambda>_. None), cx_roots = (\<lambda>_. None),
      cx_authorize = (\<lambda>_ _ _. None), cx_tracefs = (\<lambda>_. None),
      cx_preflight = (\<lambda>_ _ _. (''READY'', [], ''none'')), cx_load_host = sample_snapshot, cx_inspect = fixture_inspect\<rparr>"

definition fresh_world :: "FixtureHost World" where
  "fresh_world =
     \<lparr>w_lock = False, w_tx = None, w_config = None, w_plan = None, w_health = None, w_snapshot = None,
      w_residual = None, w_host = sample_host\<rparr>"

definition planned_world :: "FixtureHost World" where
  "planned_world = hd (fst (plan (sample_ctx ''plan'' sample_config) [fresh_world]))"

lemma hd_writes [simp]:
  "hd (upd f r) = f (hd r)" "hd (save_tx tx r) = (hd r)\<lparr>w_tx := Some tx\<rparr>"
  "hd (save_snapshot snap r) = (hd r)\<lparr>w_snapshot := Some snap\<rparr>" "hd (save_health overall r) = (hd r)\<lparr>w_health := Some overall\<rparr>"
  by (simp_all add: upd_def save_tx_def save_snapshot_def save_health_def)

lemmas move_defs = move_def transition_def TRANSITIONS_def bind_res_def

lemma plan_moves:
  "move (new_tx a b c) ''PREFLIGHTING'' a
     = Inr ((new_tx a b c)\<lparr>tx_state := ''PREFLIGHTING'', state_history := [(''CREATED'', ''PREFLIGHTING'', a)]\<rparr>)"
  "tx_state tx = ''PREFLIGHTING'' \<Longrightarrow>
     bind_res (move tx ''PREFLIGHT_READY'' a) (\<lambda>tx2. move tx2 ''PLANNED'' a)
     = Inr (tx\<lparr>state_history := state_history tx @ [(''PREFLIGHTING'', ''PREFLIGHT_READY'', a), (''PREFLIGHT_READY'', ''PLANNED'', a)],
         tx_state := ''PLANNED'', updated_at := a\<rparr>)"
  by (simp_all add: new_tx_def move_defs)

definition planned_tx :: Tx where
  "planned_tx =
     (new_tx ''t'' ''d'' ''c'')\<lparr>tx_state := ''PLANNED'',
       state_history := [(''CREATED'', ''PREFLIGHTING'', ''t''), (''PREFLIGHTING'', ''PREFLIGHT_READY'', ''t''),
                         (''PREFLIGHT_READY'', ''PLANNED'', ''t'')],
       phase := ''plan'', preflight_status := Some ''READY''\<rparr>"

lemma planned_preflight:
  "plan_preflight (sample_ctx ''plan'' sample_config) sample_config
     ((new_tx ''t'' ''d'' ''c'')\<lparr>tx_state := ''PREFLIGHTING'', state_history := [(''CREATED'', ''PREFLIGHTING'', ''t'')]\<rparr>) r
   = (let r1 = save_tx planned_tx r;
          r2 = upd (\<lambda>w. w\<lparr>w_plan := Some (planned_steps ''none'')\<rparr>) r1;
          r3 = upd (\<lambda>w. w\<lparr>w_config := Some sample_config\<rparr>) r2;
          r4 = save_snapshot sample_snapshot r3;
          r5 = save_health ''UNKNOWN'' r4;
          r6 = upd (\<lambda>w. w\<lparr>w_residual := Some ''UNKNOWN''\<rparr>) r5
      in (r6, Done 0 planned_tx))"
  by (simp add: plan_preflight_def plan_gate_def plan_document_def sample_ctx_def plan_moves planned_tx_def new_tx_def
      exit_for_def Let_def)

lemma planned_locked:
  "plan_locked (sample_ctx ''plan'' sample_config) sample_config [fresh_world\<lparr>w_lock := True\<rparr>]
   = plan_preflight (sample_ctx ''plan'' sample_config) sample_config
       ((new_tx ''t'' ''d'' ''c'')\<lparr>tx_state := ''PREFLIGHTING'', state_history := [(''CREATED'', ''PREFLIGHTING'', ''t'')]\<rparr>)
       (save_tx (new_tx ''t'' ''d'' ''c'') [fresh_world\<lparr>w_lock := True\<rparr>])"
proof -
  have "tx_state (new_tx ''t'' ''d'' ''c'') = ''CREATED''" by (simp add: new_tx_def)
  then show ?thesis
    using plan_moves(1) [of "''t''" "''d''" "''c''"] by (simp add: plan_locked_def fresh_world_def sample_ctx_def Let_def)
qed

definition planned_run :: "FixtureHost run \<times> outcome" where
  "planned_run = plan (sample_ctx ''plan'' sample_config) [fresh_world]"

lemma planned_run_eq:
  "planned_run = (let (r', out) = plan_locked (sample_ctx ''plan'' sample_config) sample_config [fresh_world\<lparr>w_lock := True\<rparr>]
     in ((hd r')\<lparr>w_lock := False\<rparr> # r' @ [fresh_world], out))"
  by (simp add: planned_run_def plan_def guard_readonly_command_def with_lock_def sample_ctx_def fresh_world_def)

lemma planned_world_eq:
  "planned_world =
     \<lparr>w_lock = False, w_tx = Some planned_tx, w_config = Some sample_config, w_plan = Some (planned_steps ''none''),
      w_health = Some ''UNKNOWN'', w_snapshot = Some sample_snapshot, w_residual = Some ''UNKNOWN'', w_host = sample_host\<rparr>"
  unfolding planned_world_def planned_run_def [symmetric] planned_run_eq planned_locked planned_preflight
  by (simp add: Let_def fresh_world_def)

lemma session_now:
  assumes "session w"
  shows "session (hd (fst (run_command cmd ctx m [w])))"
proof -
  have "run_ok (\<lambda>_. True) [w]" using session_ok [OF assms] by (simp add: run_ok_def)
  from run_command_ok [OF this] have "fst (run_command cmd ctx m [w]) \<noteq> []" by (simp add: run_ok_def)
  then show ?thesis using session.ran [OF assms hd_in_set] by blast
qed

lemma planned_session: "session planned_world"
  using session_now [of fresh_world Plan "sample_ctx ''plan'' sample_config" sample_mutator]
  by (simp add: planned_world_def run_command_def session.fresh fresh_world_def)

lemma planned_simps [simp]:
  "w_tx planned_world = Some planned_tx" "tx_state planned_tx = ''PLANNED''" "completed_steps planned_tx = []"
  "bundle_digest planned_tx = ''d''" "tx_limitations planned_tx = []" "phase planned_tx = ''plan''"
  "w_snapshot planned_world = Some sample_snapshot" "w_lock planned_world = False"
  "w_plan planned_world = Some (planned_steps ''none'')" "w_config planned_world = Some sample_config"
  "w_host planned_world = sample_host"
  by (simp_all add: planned_tx_def planned_world_eq new_tx_def)

lemma sample_ready: "apply_ready (sample_ctx ''apply'' config) planned_world planned_tx config sample_snapshot"
  by (simp add: apply_ready_def sample_ctx_def open_existing_def live_grant_def mutator_error_def)

lemma sample_lsm: "bpf_lsm_active (Some ''lockdown,bpf'')"
  by code_simp

lemma sample_faultless: "faultless sample_step_ctx" "sc_config sample_step_ctx = sample_config" "first_host sample_snapshot"
  "observe_only sample_config" "hs_containers sample_snapshot = []"
  by (simp_all add: faultless_def sample_step_ctx_def sample_config_def first_host_def sample_snapshot_def
      engine_containers_def observe_only_def sample_lsm)

lemma sample_hook [simp]: "interrupt_hook (sample_ctx c config) config = cf_interrupt_after_step config"
  by (simp add: fixture_hooks_def sample_ctx_def)

lemma sample_config_hook [simp]: "cf_interrupt_after_step sample_config = None"
  by (simp add: sample_config_def)

section \<open>Witnesses\<close>

theorem fixture_apply_healthy_witness:
  "\<exists>r tx. apply_cmd (sample_ctx ''apply'' sample_config) (fixture_mutator sample_step_ctx) [planned_world] = (r, Done 0 tx)
     \<and> tx_state tx = ''HEALTHY'' \<and> completed_steps tx = APPLY_STEPS \<and> w_tx (hd r) = Some tx"
  by (rule fixture_apply_healthy [OF sample_ready]) (simp_all add: sample_faultless)

theorem apply_progress_witness:
  "\<exists>r tx. apply_cmd (sample_ctx ''apply'' sample_config) sample_mutator [planned_world] = (r, Done (exit_for (tx_state tx)) tx)
     \<and> completed_steps tx = APPLY_STEPS"
proof -
  obtain live' where "run_effects sample_mutator EFFECT_STEPS
      \<lparr>l_host = clear_partial_mutation sample_mutator ''verify_artifacts'' (w_host planned_world), l_snap = sample_snapshot,
       l_count = 0\<rparr> = Some live'"
    using fixture_effects [OF sample_faultless(1) _ order.refl, of "''sha256:0''"]
    unfolding sample_mutator_def by (force simp: sample_step_ctx_def)
  from apply_progress [OF sample_ready [of sample_config] _ this] show ?thesis by auto
qed

lemma applied_sample:
  obtains r tx where "apply_cmd (sample_ctx ''apply'' sample_config) sample_mutator [planned_world] = (r, Done 0 tx)"
    and "tx_state tx = ''HEALTHY''" "completed_steps tx = APPLY_STEPS" "w_tx (hd r) = Some tx" "session (hd r)"
proof -
  have "\<exists>r tx. apply_cmd (sample_ctx ''apply'' sample_config) sample_mutator [planned_world] = (r, Done 0 tx)
     \<and> tx_state tx = ''HEALTHY'' \<and> completed_steps tx = APPLY_STEPS \<and> w_tx (hd r) = Some tx"
    unfolding sample_mutator_def
    by (rule fixture_apply_completes [OF sample_ready]) (simp_all add: sample_faultless)
  moreover have "session (hd (fst (apply_cmd (sample_ctx ''apply'' sample_config) sample_mutator [planned_world])))"
    using session_now [OF planned_session, of Apply "sample_ctx ''apply'' sample_config" sample_mutator]
    by (simp add: run_command_def)
  ultimately show thesis using that by (metis fst_conv)
qed

theorem saved_transaction_consistent_witness:
  "\<exists>w tx. session w \<and> w_tx w = Some (tx :: Tx) \<and> tx_state tx = ''HEALTHY'' \<and> (w :: FixtureHost World) \<noteq> fresh_world
     \<and> chain ''CREATED'' (state_history tx) ''HEALTHY'' \<and> health_overall tx = ''PASS''"
proof -
  obtain r tx where a: "tx_state tx = ''HEALTHY''" "w_tx (hd r) = Some tx" "session (hd r :: FixtureHost World)"
    by (rule applied_sample)
  moreover have "hd r \<noteq> fresh_world" using a(2) by (auto simp: fresh_world_def)
  ultimately show ?thesis using saved_transaction_consistent [OF a(3,2)] by metis
qed

theorem apply_success_evidence_witness:
  "\<exists>r tx snap. apply_cmd (sample_ctx ''apply'' sample_config) sample_mutator [planned_world] = (r, Done 0 tx)
     \<and> w_snapshot (hd r) = Some snap \<and> host_evidence snap sample_config"
proof -
  obtain r tx where a: "apply_cmd (sample_ctx ''apply'' sample_config) sample_mutator [planned_world] = (r, Done 0 tx)"
    "tx_state tx = ''HEALTHY''" by (rule applied_sample)
  have "open_existing (sample_ctx ''apply'' sample_config) planned_world = Inr (planned_tx, sample_config)"
    using sample_ready by (simp add: apply_ready_def)
  from apply_success_evidence [OF planned_session this _ a(1)] a show ?thesis by auto
qed

theorem killed_command_blocks_witness:
  "fresh_world\<lparr>w_lock := True\<rparr> \<in> set (butlast (tl (fst planned_run)))
   \<and> (\<exists>e. status (sample_ctx ''status'' sample_config) [fresh_world\<lparr>w_lock := True\<rparr>] = ([fresh_world\<lparr>w_lock := True\<rparr>], Raised e))"
proof -
  have "fresh_world\<lparr>w_lock := True\<rparr> \<in> set (butlast (tl (fst planned_run)))"
    unfolding planned_run_eq planned_locked planned_preflight
    by (simp add: Let_def butlast_append upd_def save_tx_def save_snapshot_def save_health_def)
  moreover have "planned_run = run_command Plan (sample_ctx ''plan'' sample_config) sample_mutator [fresh_world]"
    by (simp add: planned_run_def run_command_def)
  moreover have "session fresh_world" by (simp add: session.fresh fresh_world_def)
  ultimately show ?thesis
    using killed_command_blocks [of fresh_world _ Plan "sample_ctx ''plan'' sample_config" sample_mutator
        Status "sample_ctx ''status'' sample_config" sample_mutator] by (auto simp: run_command_def)
qed

theorem rollback_order_witness:
  "\<exists>(w :: FixtureHost World) tx. session w \<and> w_tx w = Some tx \<and> sorted_wrt undo_before (rollback_pending sample_mutator tx sample_host)
     \<and> set (rollback_pending sample_mutator tx sample_host) \<supseteq> set HOST_MUTATION_STEPS - set (rollback_completed_steps tx)"
proof -
  obtain r tx where a: "completed_steps tx = APPLY_STEPS" "w_tx (hd r) = Some tx" "session (hd r :: FixtureHost World)"
    by (rule applied_sample)
  have "set HOST_MUTATION_STEPS \<subseteq> set APPLY_STEPS" by (rule mutation_steps)
  with rollback_order [OF a(3,2), of sample_mutator sample_host] a(1)
  have "set (rollback_pending sample_mutator tx sample_host) \<supseteq> set HOST_MUTATION_STEPS - set (rollback_completed_steps tx)"
    "sorted_wrt undo_before (rollback_pending sample_mutator tx sample_host)" by auto
  with a(2,3) show ?thesis by blast
qed

section \<open>An interrupted apply\<close>

lemma marked_interrupt:
  assumes "tx_state tx = ''APPLYING''" "''mark_applied'' \<notin> set (completed_steps tx)"
    and "interrupt_hook ctx config = Some ''mark_applied''"
  shows "\<exists>tx' live' r'. apply_loop ctx m config (''mark_applied'' # rest) tx live r = (tx', live', r', None)
    \<and> tx_state tx' = ''INTERRUPTED'' \<and> completed_steps tx' = completed_steps tx @ [''mark_applied'']
    \<and> bundle_digest tx' = bundle_digest tx \<and> phase tx' = phase tx"
proof -
  obtain txa where ma: "move tx ''APPLIED'' (cx_stamp ctx) = Inr txa" and txa: "tx_state txa = ''APPLIED''"
    "completed_steps txa = completed_steps tx" "bundle_digest txa = bundle_digest tx" "phase txa = phase tx"
    using assms(1) by (simp add: move_defs)
  let ?txa = "txa\<lparr>health_overall := ''UNKNOWN''\<rparr>"
  obtain tx1 live1 r1 where c1: "complete_step m ''mark_applied'' ?txa live r = (tx1, live1, r1)" by (metis prod.exhaust)
  note a1 = complete_step_advanced [OF c1]
  obtain txi where "move tx1 ''INTERRUPTED'' (cx_stamp ctx) = Inr txi" "tx_state txi = ''INTERRUPTED''"
    "completed_steps txi = completed_steps tx1" "bundle_digest txi = bundle_digest tx1" "phase txi = phase tx1"
    using a1 txa(1) by (simp add: move_defs advanced_def)
  moreover have "run_step ctx m config ''mark_applied'' tx live r = ((?txa, live, r), Proceed)"
    using ma by (simp add: run_step_def move_step_def)
  ultimately show ?thesis using assms c1 a1 txa by (simp add: advanced_def)
qed

lemma interrupted_apply:
  assumes "apply_ready ctx w tx config snap" "interrupt_hook ctx config = Some ''mark_applied''"
    and "run_effects m EFFECT_STEPS
      \<lparr>l_host = clear_partial_mutation m ''verify_artifacts'' (w_host w), l_snap = snap, l_count = 0\<rparr> = Some live'"
  shows "\<exists>r code tx'. apply_cmd ctx m [w] = (r, Done code tx') \<and> tx_state tx' = ''INTERRUPTED''
    \<and> completed_steps tx' = take 10 APPLY_STEPS \<and> w_tx (hd r) = Some tx'
    \<and> bundle_digest tx' = bundle_digest tx \<and> phase tx' = ''apply''"
proof -
  let ?live = "\<lparr>l_host = w_host w, l_snap = snap, l_count = 0\<rparr>"
  obtain tx1 r1 where cmd: "apply_cmd ctx m [w] = (let (r', out) = apply_steps ctx m config tx1 ?live r1
        in ((hd r')\<lparr>w_lock := False\<rparr> # r' @ [w], out))"
    and tx1: "tx_state tx1 = ''APPLYING''" "completed_steps tx1 = []" "bundle_digest tx1 = bundle_digest tx" "phase tx1 = ''apply''"
    using apply_ready_steps [OF assms(1)] by blast
  have nine: "''mark_applied'' \<notin> set (take 9 APPLY_STEPS)" "take 10 APPLY_STEPS = take 9 APPLY_STEPS @ [''mark_applied'']"
    by (simp_all add: APPLY_STEPS_def)
  obtain tx2 r2 where l1: "apply_loop ctx m config APPLY_STEPS tx1 ?live r1
      = apply_loop ctx m config [''mark_applied'', ''collect_health'', ''write_support_index''] tx2 live' r2"
    and a2: "advanced tx1 (take 9 APPLY_STEPS) tx2"
    using apply_loop_effects [OF tx1(1,2), of ctx config ?live m live' r1] assms nine(1)
    by (auto simp: apply_ready_def)
  obtain tx3 live3 r3 where "apply_loop ctx m config APPLY_STEPS tx1 ?live r1 = (tx3, live3, r3, None)"
    "tx_state tx3 = ''INTERRUPTED''" "completed_steps tx3 = take 10 APPLY_STEPS"
    "bundle_digest tx3 = bundle_digest tx" "phase tx3 = ''apply''"
    using marked_interrupt [of tx2 config ctx m "[''collect_health'', ''write_support_index'']" live' r2]
      a2 tx1 assms(2) nine l1 by (auto simp: advanced_def simp del: apply_loop.simps)
  then show ?thesis by (simp add: cmd apply_steps_def Let_def del: apply_loop.simps)
qed

lemma resumed_steps_return:
  assumes "set (take 10 APPLY_STEPS) \<subseteq> set (completed_steps tx)" "tx_state tx = ''APPLYING''"
  shows "\<exists>r1 code tx1. apply_steps ctx m config tx live r = (r1, Done code tx1)"
proof -
  obtain tx2 live2 r2 err where loop: "apply_loop ctx m config APPLY_STEPS tx live r = (tx2, live2, r2, err)"
    by (metis prod.exhaust)
  have "tx_state tx2 \<in> {''APPLYING'', ''FAILED_SAFE'', ''INTERRUPTED''}"
    using resumed_loop [OF assms loop] by (simp add: unsuccessful_def)
  then have "\<exists>r1 code tx1. apply_failed ctx tx2 e step r2 = (r1, Done code tx1)" for e step
    by (auto simp: apply_failed_def Let_def move_defs)
  with loop show ?thesis by (cases err) (auto simp: apply_steps_def Let_def simp del: apply_loop.simps)
qed

theorem resume_after_applied_fails_witness:
  "\<exists>w r code tx. session w \<and> map_option tx_state (w_tx w) = Some ''INTERRUPTED''
     \<and> apply_cmd (sample_ctx ''apply'' sample_config) sample_mutator [w] = (r, Done code tx)
     \<and> tx_state tx \<in> {''APPLYING'', ''FAILED_SAFE'', ''INTERRUPTED''} \<and> code \<in> {4, 5, 10}"
proof -
  let ?cf = "sample_config\<lparr>cf_interrupt_after_step := Some ''mark_applied''\<rparr>"
  let ?ctx = "sample_ctx ''apply'' sample_config"
  obtain live' where "run_effects sample_mutator EFFECT_STEPS
      \<lparr>l_host = clear_partial_mutation sample_mutator ''verify_artifacts'' (w_host planned_world), l_snap = sample_snapshot,
       l_count = 0\<rparr> = Some live'"
    using fixture_effects [OF sample_faultless(1) _ order.refl, of "''sha256:0''"]
    unfolding sample_mutator_def by (force simp: sample_step_ctx_def)
  from interrupted_apply [OF sample_ready [of ?cf] _ this] obtain r0 code0 tx0 where
    cmd0: "apply_cmd (sample_ctx ''apply'' ?cf) sample_mutator [planned_world] = (r0, Done code0 tx0)"
    and tx0: "tx_state tx0 = ''INTERRUPTED''" "completed_steps tx0 = take 10 APPLY_STEPS" "w_tx (hd r0) = Some tx0"
      "bundle_digest tx0 = ''d''" "phase tx0 = ''apply''" by auto
  let ?w = "planned_world\<lparr>w_tx := Some tx0\<rparr>"
  have "session (hd r0)"
    using session_now [OF planned_session, of Apply "sample_ctx ''apply'' ?cf" sample_mutator] cmd0 by (simp add: run_command_def)
  then have sess: "session ?w" using tx0(3) by (auto intro: session.outside)
  obtain tx1 where mv: "move tx0 ''APPLYING'' ''t'' = Inr tx1" "tx_state tx1 = ''APPLYING''" "completed_steps tx1 = take 10 APPLY_STEPS"
    using tx0(1,2) by (simp add: move_defs)
  have "take (length (take 10 APPLY_STEPS)) APPLY_STEPS = take 10 APPLY_STEPS" by (simp add: APPLY_STEPS_def)
  then have "\<exists>r code tx. apply_locked ?ctx sample_mutator [?w\<lparr>w_lock := True\<rparr>] = (r, Done code tx)"
    using resumed_steps_return [of "tx1\<lparr>mutation_in_progress := True, owner_pid := Some 7, phase := ''apply''\<rparr>"] tx0 mv
    by (simp add: apply_locked_def open_existing_def apply_recheck_def live_grant_def mutator_error_def sample_ctx_def Let_def)
  then obtain r code tx where cmd: "apply_cmd ?ctx sample_mutator [?w] = (r, Done code tx)"
    by (auto simp: apply_cmd_def require_yes_def with_lock_def sample_ctx_def)
  have "''mark_applied'' \<in> set (completed_steps tx0)" by (simp add: tx0(2) APPLY_STEPS_def)
  from resume_after_applied_fails [OF sess _ this _ cmd] tx0(1) sess cmd show ?thesis
    by (intro exI [of _ ?w] exI [of _ r] exI [of _ code] exI [of _ tx]) simp
qed

section \<open>Removal of the sample\<close>

definition removable :: "StepCtx \<Rightarrow> FixtureHost Live \<Rightarrow> bool" where
  "removable sc live =
     (sc_boot_remove sc = None \<and> py_strip spaces (sc_bpffs_root sc) = [] \<and> fh_prefix (l_host live) = None
      \<and> \<not> stage_linked (fh_stage (l_host live)) \<and> gf_dropin (fh_grub (l_host live)) = None)"

definition succeeds :: "StepCtx \<Rightarrow> fixture_effect \<Rightarrow> bool" where
  "succeeds sc op = (\<forall>live. removable sc live \<longrightarrow> (\<exists>live'. op live = (None, live') \<and> removable sc live'))"

lemma succeeds_then: "succeeds sc a \<Longrightarrow> succeeds sc b \<Longrightarrow> succeeds sc (then_effect a b)"
  unfolding succeeds_def then_effect_None by blast

lemma succeeds_ops:
  "succeeds sc (remove_optics sc)" "succeeds sc (remove_sdks sc)" "succeeds sc (remove_stage sc)" "succeeds sc (docker_rmi sc)"
  "succeeds sc (remove_config sc)" "succeeds sc (remove_boot_hold sc)" "succeeds sc (stop_observe sc)"
  "succeeds sc (fixture_unpin sc)" "succeeds sc (host_effect id g)" "succeeds sc (count_effect c)"
  "succeeds sc (clear_enforce False (\<lambda>g. (0, gf_cfgs g)) 0)"
  by (simp_all add: succeeds_def removable_def remove_optics_def remove_sdks_def remove_optics_prefix_def
      remove_agent_sdks_def unlink_entry_def remove_stage_def docker_rmi_def remove_config_def remove_boot_hold_def
      stop_observe_def fixture_unpin_def host_effect_def count_effect_def clear_enforce_def remove_grub_dropin_def
      remove_all_dropins_def drop_file_def Let_def)

lemma succeeds_rollback_step: "succeeds sc (fixture_rollback_step sc step)"
proof -
  have "succeeds sc undo" if "map_of (fixture_handlers sc) step = Some (doit, undo)" for doit undo
    using that succeeds_ops [of sc] by (auto simp: fixture_handlers_def split: if_splits)
  then show ?thesis
    using succeeds_ops [of sc]
    by (auto simp: fixture_rollback_step_def intro!: succeeds_then split: option.splits)
qed

lemma succeeds_uninstall: "honest sc \<Longrightarrow> succeeds sc (fixture_uninstall sc ''all'')"
proof -
  have "succeeds sc (in_order ops)" if "list_all (succeeds sc) ops" for ops
    using that
  proof (induction ops)
    case (Cons op ops)
    have "in_order (op # ops) = then_effect op (in_order ops)" by (intro ext) simp
    with Cons show ?case by (auto intro: succeeds_then)
  qed (simp add: succeeds_def)
  moreover have "list_all (succeeds sc) (pe_removal sc)" using succeeds_ops [of sc] by (simp add: pe_removal_def)
  moreover assume "honest sc"
  ultimately show ?thesis using uninstall_in_order by metis
qed

lemma rollback_loop_progress:
  assumes "removable sc live" "hk_rollback_interrupt_after_step (fixture_hooks config (cx_fixture ctx)) = None"
    and "tx_state tx = ''ROLLING_BACK''"
  shows "\<exists>tx' live' r'. rollback_loop ctx (fixture_mutator sc) config steps tx live r = ((tx', live', r'), Proceed)
    \<and> tx_state tx' = ''ROLLED_BACK''"
  using assms
proof (induction steps arbitrary: tx live r)
  case Nil
  obtain live1 live2 where "fixture_unpin sc live = (None, live1)" "clear_enforce False (\<lambda>g. (0, gf_cfgs g)) 0 live1 = (None, live2)"
    using succeeds_ops(8,11) [of sc] Nil.prems(1) unfolding succeeds_def by blast
  with Nil.prems show ?case
    by (simp add: run_effect_def fixture_mutator_def move_step_def move_defs)
next
  case (Cons step steps)
  obtain live1 where op: "fixture_rollback_step sc step live = (None, live1)" "removable sc live1"
    using succeeds_rollback_step [of sc step] Cons.prems(1) unfolding succeeds_def by blast
  then have "\<exists>tx' live' r'. rollback_loop ctx (fixture_mutator sc) config steps
      (tx\<lparr>rollback_completed_steps := rollback_completed_steps tx @ [step]\<rparr>) live1
      (save_tx (tx\<lparr>rollback_completed_steps := rollback_completed_steps tx @ [step]\<rparr>)
        (save_snapshot (l_snap live1) (touch_host (l_host live1) r))) = ((tx', live', r'), Proceed) \<and> tx_state tx' = ''ROLLED_BACK''"
    by (intro Cons.IH) (use Cons.prems in simp_all)
  moreover have "run_effect (rollback_step (fixture_mutator sc) step) tx live r
      = ((tx, live1, touch_host (l_host live1) r), Proceed)"
    using op(1) by (simp add: run_effect_def fixture_mutator_def)
  ultimately show ?case using Cons.prems(2) by (simp add: Let_def)
qed

lemma sample_removable: "removable sample_step_ctx \<lparr>l_host = sample_host, l_snap = s, l_count = n\<rparr>" "honest sample_step_ctx"
  by (simp_all add: removable_def sample_step_ctx_def sample_host_def honest_def py_strip_def)

lemma sample_ctx_simps [simp]:
  "cx_yes (sample_ctx c cf) = True" "cx_fixture (sample_ctx c cf) = True" "cx_transaction_id (sample_ctx c cf) = ''tx-000000000001''"
  "cx_config (sample_ctx c cf) = Some (Inr cf)" "cx_roots (sample_ctx c cf) cf = None" "cx_accept_live (sample_ctx c cf) = False"
  "cx_inspect (sample_ctx c cf) = fixture_inspect" "scope_of (sample_ctx c cf) = ''all''"
  by (simp_all add: sample_ctx_def scope_of_def)

lemma healthy_open:
  "w_tx w = Some tx \<Longrightarrow> open_existing (sample_ctx c sample_config) w = Inr (tx, sample_config)"
  by (simp add: open_existing_def)

lemma sample_rollback_hook: "hk_rollback_interrupt_after_step (fixture_hooks sample_config b) = None"
  by (simp add: fixture_hooks_def sample_config_def)

lemma sample_rolled_back:
  assumes "tx_state tx = ''HEALTHY''"
  shows "\<exists>r code tx'. rollback (sample_ctx ''rollback'' sample_config) (fixture_mutator sample_step_ctx)
      [planned_world\<lparr>w_tx := Some tx\<rparr>] = (r, Done code tx') \<and> tx_state tx' = ''ROLLED_BACK''"
proof -
  let ?ctx = "sample_ctx ''rollback'' sample_config" and ?w = "planned_world\<lparr>w_tx := Some tx, w_lock := True\<rparr>"
  obtain tx1 where mv: "move tx ''ROLLING_BACK'' (cx_stamp ?ctx) = Inr tx1" "tx_state tx1 = ''ROLLING_BACK''"
    using assms by (simp add: move_defs)
  let ?t = "tx1\<lparr>mutation_in_progress := True, owner_pid := Some (cx_pid ?ctx), phase := ''rollback''\<rparr>"
  obtain tx2 live2 r2 where loop: "rollback_loop ?ctx (fixture_mutator sample_step_ctx) sample_config
      (rollback_pending (fixture_mutator sample_step_ctx) ?t sample_host) ?t
      \<lparr>l_host = sample_host, l_snap = sample_snapshot, l_count = 0\<rparr> (save_tx ?t [?w]) = ((tx2, live2, r2), Proceed)"
      "tx_state tx2 = ''ROLLED_BACK''"
    using rollback_loop_progress [OF sample_removable(1) sample_rollback_hook, of ?t] mv(2) by fastforce
  have "\<exists>r1 tx'. rollback_run ?ctx (fixture_mutator sample_step_ctx) sample_config sample_snapshot tx1 [?w]
      = (r1, Done (exit_for ''ROLLED_BACK'') tx') \<and> tx_state tx' = ''ROLLED_BACK''"
    using loop by (simp add: rollback_run_def Let_def)
  then show ?thesis
    using mv(1) assms healthy_open [of ?w tx "''rollback''"]
    by (auto simp: rollback_def require_yes_def with_lock_def rollback_locked_def live_grant_def mutator_error_def Let_def
        split: prod.splits)
qed

theorem rollback_undoes_witness:
  "\<exists>(w :: FixtureHost World) r code tx0 tx live. session w \<and> w_tx w = Some tx0 \<and> set HOST_MUTATION_STEPS \<subseteq> set (completed_steps tx0)
     \<and> rollback (sample_ctx ''rollback'' sample_config) (fixture_mutator sample_step_ctx) [w] = (r, Done code tx)
     \<and> w_host (hd r) = l_host live \<and> cleared sample_step_ctx live
     \<and> (\<forall>step \<in> set HOST_MUTATION_STEPS - set (rollback_completed_steps tx0). undone sample_step_ctx step live)"
proof -
  obtain r0 tx0 where a: "tx_state tx0 = ''HEALTHY''" "completed_steps tx0 = APPLY_STEPS" "w_tx (hd r0) = Some tx0"
    "session (hd r0 :: FixtureHost World)" by (rule applied_sample)
  let ?w = "planned_world\<lparr>w_tx := Some tx0\<rparr>"
  have sess: "session ?w" using a(3,4) by (auto intro: session.outside)
  obtain r code tx where cmd: "rollback (sample_ctx ''rollback'' sample_config) (fixture_mutator sample_step_ctx) [?w] = (r, Done code tx)"
    "tx_state tx = ''ROLLED_BACK''" using sample_rolled_back [OF a(1)] by blast
  have host: "set (completed_steps tx0) \<inter> set HOST_MUTATION_STEPS = set HOST_MUTATION_STEPS"
    using mutation_steps a(2) by auto
  have "w_snapshot ?w = Some sample_snapshot" "open_existing (sample_ctx ''rollback'' sample_config) ?w = Inr (tx0, sample_config)"
    by (simp_all add: healthy_open)
  from rollback_undoes [OF sess cmd this] sample_removable(2) host obtain live where
    "w_host (hd r) = l_host live" "cleared sample_step_ctx live"
    "\<forall>step \<in> set HOST_MUTATION_STEPS - set (rollback_completed_steps tx0). undone sample_step_ctx step live" by auto
  with sess cmd(1) mutation_steps a(2) show ?thesis
    by (intro exI [of _ ?w] exI [of _ r] exI [of _ code] exI [of _ tx0] exI [of _ tx] exI [of _ live]) simp
qed

definition installed_snapshot :: HostSnapshot where
  "installed_snapshot =
     sample_snapshot\<lparr>hs_optics_cli_version := Some optics_cli_version_pin,
       hs_images := [\<lparr>im_tag = pe_local_tag, im_digest = ''sha256:0'', im_role = ''phantom_engine''\<rparr>],
       hs_clsact_ifaces := [''eth0''], hs_processes := [''vantio-loader'']\<rparr>"

definition installed_world :: "FixtureHost World" where
  "installed_world =
     planned_world\<lparr>w_tx := Some (planned_tx\<lparr>tx_state := ''HEALTHY''\<rparr>), w_snapshot := Some installed_snapshot,
       w_host := sample_host\<lparr>fh_stage := Stage_Dir [''pe.tar'']\<rparr>\<rparr>"

lemma sample_uninstalled:
  "\<exists>r code tx. uninstall (sample_ctx ''uninstall'' sample_config) (fixture_mutator sample_step_ctx) [installed_world] = (r, Done code tx)"
proof -
  let ?ctx = "sample_ctx ''uninstall'' sample_config" and ?w = "installed_world\<lparr>w_lock := True\<rparr>"
  let ?live = "\<lparr>l_host = w_host installed_world, l_snap = installed_snapshot, l_count = 0 :: int\<rparr>"
  have w: "w_snapshot installed_world = Some installed_snapshot" "w_lock installed_world = False"
    "w_tx installed_world = Some (planned_tx\<lparr>tx_state := ''HEALTHY''\<rparr>)" by (simp_all add: installed_world_def)
  have "removable sample_step_ctx ?live" using sample_removable(1) by (simp add: removable_def installed_world_def)
  then obtain l1 l2 l3 where ops: "fixture_uninstall sample_step_ctx ''all'' ?live = (None, l1)"
    "fixture_unpin sample_step_ctx l1 = (None, l2)" "clear_enforce False (\<lambda>g. (0, gf_cfgs g)) 0 l2 = (None, l3)"
    using succeeds_uninstall [OF sample_removable(2)] succeeds_ops(8,11) [of sample_step_ctx] unfolding succeeds_def by metis
  obtain tx1 where mv: "move (planned_tx\<lparr>tx_state := ''HEALTHY''\<rparr>) ''UNINSTALLING'' (cx_stamp ?ctx) = Inr tx1" "tx_state tx1 = ''UNINSTALLING''"
    by (simp add: move_defs)
  have "\<exists>r tx. uninstall_run ?ctx (fixture_mutator sample_step_ctx) sample_config installed_snapshot tx1 [?w]
      = (r, Done (exit_for ''UNINSTALLED'') tx)"
    using ops mv(2) by (simp add: uninstall_run_def uninstall_effects_def run_effect_def fixture_mutator_def Let_def move_defs)
  then show ?thesis
    using mv(1) w healthy_open [of ?w "planned_tx\<lparr>tx_state := ''HEALTHY''\<rparr>" "''uninstall''"]
    by (auto simp: uninstall_def require_yes_def with_lock_def uninstall_locked_def live_grant_def mutator_error_def Let_def
        split: prod.splits)
qed

theorem uninstall_verified_witness:
  "\<exists>r code tx r' tx'. uninstall (sample_ctx ''uninstall'' sample_config) (fixture_mutator sample_step_ctx) [installed_world] = (r, Done code tx)
     \<and> rp_result (fixture_inspect (w_host installed_world) installed_snapshot ''all'' sample_config) = ''RESIDUAL_PRESENT''
     \<and> verify_removal (sample_ctx ''verify-removal'' sample_config) [hd r] = (r', Done 0 tx') \<and> tx_state tx' = ''VERIFIED_REMOVED''"
proof -
  have own: "own_only sample_step_ctx installed_snapshot" "hs_probe_errors installed_snapshot = []"
    "fh_standin (w_host installed_world) = Some False" "w_snapshot installed_world = Some installed_snapshot"
    by (simp_all add: own_only_def installed_snapshot_def sample_snapshot_def installed_world_def sample_host_def)
  have cf: "cf_residual_probe_errors sample_config = []" "sc_bpffs_root sample_step_ctx = cf_bpffs_root sample_config"
    by (simp_all add: sample_config_def sample_step_ctx_def)
  have "rp_result (fixture_inspect (w_host installed_world) installed_snapshot ''all'' sample_config) = ''RESIDUAL_PRESENT''"
    by (simp add: fixture_inspect_def inspect_residual_def installed_snapshot_def sample_snapshot_def installed_world_def
        sample_host_def pin_items_def fixture_bpffs_def sample_config_def py_strip_def Let_def)
  moreover obtain r code tx where cmd: "uninstall (sample_ctx ''uninstall'' sample_config) (fixture_mutator sample_step_ctx) [installed_world]
      = (r, Done code tx)" using sample_uninstalled by blast
  ultimately show ?thesis
    using uninstall_verified [OF cmd _ sample_removable(2) own(4,1-3), of "sample_ctx ''verify-removal'' sample_config" sample_config] cf
    by auto
qed

end
