(* ===== verification/Boot_Policy.thy ===== *)
theory Boot_Policy
  imports Install_Commands Install_Health "HOL-Library.Char_ord" "HOL-Library.List_Lexorder"
begin

text \<open>
  \<open>vantio_install/signed_policy.py\<close> and \<open>vantio_install/boot_hold/policy.py\<close>: the signed envelope a live
  host asks for and the boot-hold configuration read from it.

  The signature check of the \<open>cryptography\<close> package is the parameter \<open>ed_verify\<close>, from a public key, a
  signature and a message to the verdict; a key it cannot load is a negative verdict, as in the code.
  The text of a \<open>float\<close> in JSON is the parameter \<open>float_text\<close>. Base64, JSON and UTF-8 are written out.
\<close>

section \<open>Base64\<close>

definition b64_char :: "nat \<Rightarrow> char" where
  "b64_char n =
     (if n < 26 then char_of (n + 65)
      else if n < 52 then char_of (n + 71)
      else if n < 62 then char_of (n - 4)
      else if n = 62 then CHR ''+'' else CHR ''/'')"

definition b64_val :: "char \<Rightarrow> nat option" where
  "b64_val c =
     (let n = py_ord c in
      if 65 \<le> n \<and> n \<le> 90 then Some (n - 65)
      else if 97 \<le> n \<and> n \<le> 122 then Some (n - 71)
      else if 48 \<le> n \<and> n \<le> 57 then Some (n + 4)
      else if n = 43 then Some 62 else if n = 47 then Some 63 else None)"

fun b64encode :: "bytes \<Rightarrow> string" where
  "b64encode [] = []"
| "b64encode [a] = [b64_char (unat a div 4), b64_char (unat a mod 4 * 16), CHR ''='', CHR ''='']"
| "b64encode [a, b] =
     [b64_char (unat a div 4), b64_char (unat a mod 4 * 16 + unat b div 16), b64_char (unat b mod 16 * 4), CHR ''='']"
| "b64encode (a # b # c # rest) =
     [b64_char (unat a div 4), b64_char (unat a mod 4 * 16 + unat b div 16),
      b64_char (unat b mod 16 * 4 + unat c div 64), b64_char (unat c mod 64)] @ b64encode rest"

text \<open>\<open>base64.b64decode(s, validate=True)\<close>; \<^const>\<open>None\<close> is the \<open>ValueError\<close>.\<close>

fun b64decode :: "string \<Rightarrow> bytes option" where
  "b64decode [] = Some []"
| "b64decode (p # q # r # s # rest) =
     (if rest = [] \<and> s = CHR ''='' then
        (case (b64_val p, b64_val q) of
           (Some w, Some x) \<Rightarrow>
             if r = CHR ''='' then Some [word_of_nat (w * 4 + x div 16)]
             else
               (case b64_val r of
                  None \<Rightarrow> None
                | Some y \<Rightarrow> Some [word_of_nat (w * 4 + x div 16), word_of_nat (x mod 16 * 16 + y div 4)])
         | _ \<Rightarrow> None)
      else
        (case (b64_val p, b64_val q, b64_val r, b64_val s, b64decode rest) of
           (Some w, Some x, Some y, Some z, Some later) \<Rightarrow>
             Some (word_of_nat (w * 4 + x div 16) # word_of_nat (x mod 16 * 16 + y div 4)
                   # word_of_nat (y mod 4 * 64 + z) # later)
         | _ \<Rightarrow> None))"
| "b64decode _ = None"

section \<open>Canonical JSON\<close>

definition int_text :: "int \<Rightarrow> string" where
  "int_text n = (if n < 0 then ''-'' else []) @ num_str 10 (nat \<bar>n\<bar>)"

definition json_char :: "char \<Rightarrow> string" where
  "json_char c =
     (let n = py_ord c; esc = CHR 0x5C in
      if n = 34 then [esc, c] else if n = 92 then [esc, c]
      else if n = 10 then [esc, CHR ''n''] else if n = 13 then [esc, CHR ''r''] else if n = 9 then [esc, CHR ''t'']
      else if n = 8 then [esc, CHR ''b''] else if n = 12 then [esc, CHR ''f'']
      else if n < 32 then [esc, CHR ''u'', CHR ''0'', CHR ''0'', digit_char (n div 16), digit_char (n mod 16)]
      else [c])"

definition json_string :: "string \<Rightarrow> string" where
  "json_string s = [CHR 0x22] @ concat (map json_char s) @ [CHR 0x22]"

fun json_text :: "(pyfloat \<Rightarrow> string) \<Rightarrow> pyval \<Rightarrow> string" where
  "json_text ft PNone = ''null''"
| "json_text ft (PBool b) = (if b then ''true'' else ''false'')"
| "json_text ft (PInt n) = int_text n"
| "json_text ft (PFloat f) = ft f"
| "json_text ft (PStr s) = json_string s"
| "json_text ft (PList vs) = ''['' @ py_join '','' (map (json_text ft) vs) @ '']''"
| "json_text ft (PDict d) =
     ''{'' @ py_join '','' (map (\<lambda>(k, t). json_string k @ '':'' @ t) (sort_key fst (map (\<lambda>(k, v). (k, json_text ft v)) d))) @ ''}''"

definition utf8_char :: "char \<Rightarrow> bytes" where
  "utf8_char c =
     (let n = py_ord c in if n < 128 then [word_of_nat n] else [word_of_nat (192 + n div 64), word_of_nat (128 + n mod 64)])"

definition canonical_policy :: "(pyfloat \<Rightarrow> string) \<Rightarrow> (string \<times> pyval) list \<Rightarrow> bytes" where
  "canonical_policy ft policy = concat (map utf8_char (json_text ft (PDict policy)))"

section \<open>Trusted keys\<close>

record DevPublicKey =
  dk_key_id :: string
  dk_public_key :: bytes

definition DEV_PREFIX :: string where "DEV_PREFIX = ''dev-nonprod-''"
definition DEV_CLASS :: string where "DEV_CLASS = ''dev_non_production''"
definition LAB_DEV_PREFIX :: string where "LAB_DEV_PREFIX = ''dev-nonprod-lab-''"

definition trust_item :: "pyval \<Rightarrow> DevPublicKey option" where
  "trust_item item =
     (case item of
        PDict d \<Rightarrow>
          if dict_get d ''key_class'' \<noteq> PStr DEV_CLASS \<or> dict_get d ''not_a_production_root'' \<noteq> PBool True then None
          else
            (case (dict_get d ''key_id'', dict_get d ''public_key_b64'') of
               (PStr kid, PStr b64) \<Rightarrow>
                 if \<not> prefix DEV_PREFIX kid then None
                 else
                   (case b64decode b64 of
                      None \<Rightarrow> None
                    | Some raw \<Rightarrow>
                        if length raw \<noteq> 32 then None else Some \<lparr>dk_key_id = kid, dk_public_key = raw\<rparr>)
             | _ \<Rightarrow> None)
      | _ \<Rightarrow> None)"

definition trust_from_mapping :: "pyval \<Rightarrow> DevPublicKey list" where
  "trust_from_mapping payload =
     (case payload of
        PDict d \<Rightarrow> (case dict_get d ''keys'' of PList items \<Rightarrow> List.map_filter trust_item items | _ \<Rightarrow> [])
      | _ \<Rightarrow> [])"

text \<open>What the trust comes from: the packaged file, the environment and the file it names, and the
  override of the tests. A file that is absent or not JSON is \<^const>\<open>None\<close>.\<close>

record TrustSources =
  ts_packaged :: "pyval option"
  ts_lab_scope :: string
  ts_lab_trust :: string
  ts_lab_file :: "pyval option"
  ts_override :: "DevPublicKey list option"

definition packaged_dev_trust :: "TrustSources \<Rightarrow> DevPublicKey list" where
  "packaged_dev_trust ts = (case ts_packaged ts of None \<Rightarrow> [] | Some v \<Rightarrow> trust_from_mapping v)"

definition lab_dev_trust :: "TrustSources \<Rightarrow> DevPublicKey list" where
  "lab_dev_trust ts =
     (if ts_lab_scope ts \<noteq> ''lab-nonprod'' then []
      else if list_all is_space_char (ts_lab_trust ts) then []
      else
        (case ts_lab_file ts of
           Some (PDict d) \<Rightarrow>
             if dict_get d ''audience'' \<noteq> PStr ''LAB_NONPROD'' \<or> dict_get d ''not_a_production_root'' \<noteq> PBool True then []
             else filter (\<lambda>k. prefix LAB_DEV_PREFIX (dk_key_id k)) (trust_from_mapping (PDict d))
         | _ \<Rightarrow> []))"

definition active_dev_trust :: "TrustSources \<Rightarrow> DevPublicKey list" where
  "active_dev_trust ts =
     (case ts_override ts of Some keys \<Rightarrow> keys | None \<Rightarrow> packaged_dev_trust ts @ lab_dev_trust ts)"

section \<open>The signed envelope\<close>

record Crypto =
  ed_verify :: "bytes \<Rightarrow> bytes \<Rightarrow> bytes \<Rightarrow> bool"
  float_text :: "pyfloat \<Rightarrow> string"

text \<open>
  \<open>b64decode(str(v))\<close>. The text of a list or a dict has a bracket. The text of a \<open>float\<close> has a character
  outside the alphabet (a dot or a minus sign), or it is one of \<open>inf\<close>, \<open>nan\<close>, \<open>1e+16\<close> and \<open>1e+100\<close> and the
  like, whose length is no multiple of four. All of these are a \<open>ValueError\<close>.
\<close>

definition b64_of_value :: "pyval \<Rightarrow> bytes option" where
  "b64_of_value v =
     (case v of
        PStr s \<Rightarrow> b64decode s
      | PNone \<Rightarrow> b64decode ''None''
      | PBool b \<Rightarrow> b64decode (if b then ''True'' else ''False'')
      | PInt n \<Rightarrow> b64decode (int_text n)
      | _ \<Rightarrow> None)"

definition signature_ok :: "Crypto \<Rightarrow> (string \<times> pyval) list \<Rightarrow> (string \<times> pyval) list \<Rightarrow> DevPublicKey list \<Rightarrow> string" where
  "signature_ok cr policy signature trust =
     (if dict_get signature ''algorithm'' \<noteq> PStr ''Ed25519'' then ''ALGORITHM_REFUSED''
      else if dict_get signature ''key_class'' \<noteq> PStr DEV_CLASS \<or> dict_get signature ''not_a_production_root'' \<noteq> PBool True
      then ''PRODUCTION_KEY_REFUSED''
      else
        (case dict_get signature ''key_id'' of
           PStr kid \<Rightarrow>
             if \<not> prefix DEV_PREFIX kid then ''PRODUCTION_KEY_REFUSED''
             else
               (case (b64_of_value (dict_get signature ''public_key_b64''),
                      b64_of_value (dict_get signature ''signature_b64'')) of
                  (Some presented, Some raw_signature) \<Rightarrow>
                    (case find (\<lambda>item. dk_key_id item = kid) trust of
                       None \<Rightarrow> ''UNTRUSTED_DEV_KEY''
                     | Some item \<Rightarrow>
                         if presented \<noteq> dk_public_key item then ''UNTRUSTED_DEV_KEY''
                         else if ed_verify cr (dk_public_key item) raw_signature (canonical_policy (float_text cr) policy)
                         then ''VERIFIED'' else ''SIGNATURE_INVALID'')
                | _ \<Rightarrow> ''SIGNATURE_INVALID'')
         | _ \<Rightarrow> ''PRODUCTION_KEY_REFUSED''))"

record SignedPolicyResult =
  sp_ok :: bool
  sp_reason :: string
  sp_policy :: "(string \<times> pyval) list option"

definition verify_signed_policy :: "Crypto \<Rightarrow> DevPublicKey list \<Rightarrow> pyval \<Rightarrow> SignedPolicyResult" where
  "verify_signed_policy cr keys document =
     (case document of
        PDict doc \<Rightarrow>
          (case (dict_get doc ''policy'', dict_get doc ''signature'') of
             (PDict policy, PDict signature) \<Rightarrow>
               if set (map fst doc) \<noteq> {''policy'', ''signature''}
               then \<lparr>sp_ok = False, sp_reason = ''MALFORMED'', sp_policy = None\<rparr>
               else
                 (let reason = signature_ok cr policy signature keys in
                  if reason \<noteq> ''VERIFIED'' then \<lparr>sp_ok = False, sp_reason = reason, sp_policy = None\<rparr>
                  else \<lparr>sp_ok = True, sp_reason = ''VERIFIED'', sp_policy = Some policy\<rparr>)
           | _ \<Rightarrow> \<lparr>sp_ok = False, sp_reason = ''UNSIGNED_POLICY'', sp_policy = None\<rparr>)
      | _ \<Rightarrow> \<lparr>sp_ok = False, sp_reason = ''UNSIGNED_POLICY'', sp_policy = None\<rparr>)"

text \<open>\<open>sign_policy\<close>; \<^const>\<open>None\<close> is the \<open>ValueError\<close> for a key id that is not a dev key.\<close>

definition sign_policy ::
  "Crypto \<Rightarrow> (string \<times> pyval) list \<Rightarrow> string \<Rightarrow> bytes \<Rightarrow> (bytes \<Rightarrow> bytes) \<Rightarrow> pyval option" where
  "sign_policy cr policy kid public_key sign =
     (if \<not> prefix DEV_PREFIX kid then None
      else
        Some (PDict
          [(''policy'', PDict policy),
           (''signature'', PDict
              [(''algorithm'', PStr ''Ed25519''), (''key_class'', PStr DEV_CLASS), (''key_id'', PStr kid),
               (''not_a_production_root'', PBool True), (''public_key_b64'', PStr (b64encode public_key)),
               (''signature_b64'', PStr (b64encode (sign (canonical_policy (float_text cr) policy))))])]))"

section \<open>The configuration\<close>

definition CGROUP_REL :: string where "CGROUP_REL = ''vantio.slice/vantio-enrolled.slice''"
definition SUBNET_V4 :: string where "SUBNET_V4 = ''10.250.250.0/24''"
definition SUBNET_V6 :: string where "SUBNET_V6 = ''fd76:616e:7469::/64''"

record BootPolicy =
  bp_enabled :: bool
  bp_hold :: bool
  bp_ordering :: bool
  bp_cgroup_slice :: string
  bp_subnet_v4 :: string
  bp_subnet_v6 :: string
  bp_deny_probe :: "(string \<times> int) option"

definition hold_default_policy :: BootPolicy where
  "hold_default_policy =
     \<lparr>bp_enabled = True, bp_hold = True, bp_ordering = True, bp_cgroup_slice = CGROUP_REL, bp_subnet_v4 = SUBNET_V4,
      bp_subnet_v6 = SUBNET_V6, bp_deny_probe = None\<rparr>"

text \<open>The configuration file: mode, owner and content, \<^const>\<open>None\<close> where the text is not JSON.\<close>

record ConfigFile =
  cf_mode :: int
  cf_uid :: int
  cf_json :: "pyval option"

definition config_trusted :: "bool \<Rightarrow> ConfigFile \<Rightarrow> bool" where
  "config_trusted live f = (if cf_mode f AND 0x12 \<noteq> 0 then False else if live then cf_uid f = 0 else True)"

definition probe_of_value :: "pyval \<Rightarrow> (string \<times> int) option" where
  "probe_of_value v =
     (case v of
        PDict p \<Rightarrow>
          (case dict_get p ''host'' of
             PStr host \<Rightarrow>
               (case (case dict_get p ''port'' of PInt n \<Rightarrow> Some n | PBool b \<Rightarrow> Some (of_bool b) | _ \<Rightarrow> None) of
                  None \<Rightarrow> None
                | Some port \<Rightarrow>
                    if host \<noteq> [] \<and> host \<notin> set [''0.0.0.0'', ''::'', ''0.0.0.0/0'', ''::/0''] \<and> 0 < port \<and> port < 65536
                    then Some (host, port) else None)
           | _ \<Rightarrow> None)
      | _ \<Rightarrow> None)"

definition policy_from_dict :: "(string \<times> pyval) list \<Rightarrow> BootPolicy" where
  "policy_from_dict d =
     hold_default_policy
       \<lparr>bp_enabled := dict_get d ''enabled'' \<noteq> PBool False, bp_hold := dict_get d ''hold'' \<noteq> PBool False,
        bp_ordering := dict_get d ''ordering'' \<noteq> PBool False, bp_deny_probe := probe_of_value (dict_get d ''deny_probe'')\<rparr>"

definition policy_notes :: "BootPolicy \<Rightarrow> string list" where
  "policy_notes p =
     (if \<not> bp_enabled p then [''A root admin opted out of the boot hold.'']
      else if \<not> bp_hold p \<or> \<not> bp_ordering p then [''A root admin changed hold or ordering. The change is explicit.'']
      else [])"

definition not_json_note :: string where
  "not_json_note = ''Boot hold config is not valid JSON. Opt-out is ignored and the hold stays on.''"

definition unsigned_note :: string where
  "unsigned_note =
     ''Unsigned or untrusted policy was refused. The hold stays on. A dev key signature is required.''"

text \<open>\<open>load_policy\<close>. \<open>live\<close> says that the layout root is \<open>/\<close>. The two key sets are those of
  \<^const>\<open>packaged_dev_trust\<close> and \<^const>\<open>active_dev_trust\<close>.\<close>

definition load_hold_policy ::
  "Crypto \<Rightarrow> TrustSources \<Rightarrow> bool \<Rightarrow> ConfigFile option \<Rightarrow> BootPolicy \<times> string list" where
  "load_hold_policy cr ts live config =
     (case config of
        None \<Rightarrow> (hold_default_policy, [''Boot hold config is absent, so the hold stays on.''])
      | Some f \<Rightarrow>
          if \<not> config_trusted live f then
            (hold_default_policy,
             [''Boot hold config is not a root-owned file with mode 0644 or stricter. Opt-out is ignored and the hold stays on.''])
          else
            (case cf_json f of
               Some (PDict d) \<Rightarrow>
                 if live \<or> {''policy'', ''signature''} \<subseteq> set (map fst d) then
                   (let verified = verify_signed_policy cr (if live then packaged_dev_trust ts else active_dev_trust ts) (PDict d) in
                    case (sp_ok verified, sp_policy verified) of
                      (True, Some body) \<Rightarrow> (policy_from_dict body, policy_notes (policy_from_dict body))
                    | _ \<Rightarrow> (hold_default_policy, [unsigned_note]))
                 else (policy_from_dict d, policy_notes (policy_from_dict d))
             | _ \<Rightarrow> (hold_default_policy, [not_json_note])))"

definition policy_dict :: "BootPolicy \<Rightarrow> (string \<times> pyval) list" where
  "policy_dict p =
     [(''enabled'', PBool (bp_enabled p)), (''hold'', PBool (bp_hold p)), (''ordering'', PBool (bp_ordering p)),
      (''cgroup_slice'', PStr CGROUP_REL), (''enrolled_subnet_v4'', PStr SUBNET_V4), (''enrolled_subnet_v6'', PStr SUBNET_V6)]
     @ (case bp_deny_probe p of
          None \<Rightarrow> []
        | Some (host, port) \<Rightarrow> [(''deny_probe'', PDict [(''host'', PStr host), (''port'', PInt port)])])"

text \<open>\<open>save_policy\<close>: a plain file of mode 0644, owned by root on a live host. A file that was there keeps
  its owner elsewhere, a new one has the owner of the process.\<close>

definition save_policy :: "bool \<Rightarrow> int \<Rightarrow> BootPolicy \<Rightarrow> ConfigFile option \<Rightarrow> ConfigFile option" where
  "save_policy live euid p config =
     Some \<lparr>cf_mode = 0x1A4, cf_uid = (if live then 0 else case config of None \<Rightarrow> euid | Some f \<Rightarrow> cf_uid f),
           cf_json = Some (PDict (policy_dict p))\<rparr>"

definition mechanisms_active :: "BootPolicy \<Rightarrow> bool \<times> bool" where
  "mechanisms_active p = (if \<not> bp_enabled p then (False, False) else (bp_hold p, bp_ordering p))"

record BootHoldError =
  he_message :: string
  he_exit_code :: int
  he_state :: string

definition hold_error :: "string \<Rightarrow> BootHoldError" where
  "hold_error message = \<lparr>he_message = message, he_exit_code = 4, he_state = ''FAILED_SAFE''\<rparr>"

definition usage_error :: "string \<Rightarrow> BootHoldError" where
  "usage_error message = \<lparr>he_message = message, he_exit_code = 10, he_state = ''FAILED_SAFE''\<rparr>"

definition held_error :: "string \<Rightarrow> BootHoldError" where
  "held_error message = \<lparr>he_message = message, he_exit_code = 4, he_state = ''HELD''\<rparr>"

definition require_explicit_matrix :: "bool \<Rightarrow> bool \<Rightarrow> BootHoldError + unit" where
  "require_explicit_matrix hold ordr =
     (if \<not> hold \<and> \<not> ordr then
        Inl (usage_error
          ''Turning the hold and ordering off together is an opt-out. Use `vantio-boot-hold opt-out --reason ...`.'')
      else Inr ())"

section \<open>Lemmas on base64\<close>

lemma b64_val_char [simp]: "n < 64 \<Longrightarrow> b64_val (b64_char n) = Some n"
  by (auto simp: b64_val_def b64_char_def Let_def of_char_of take_bit_eq_mod)

lemma b64_char_not_pad [simp]: "n < 64 \<Longrightarrow> b64_char n \<noteq> CHR ''=''"
proof
  assume "n < 64" and "b64_char n = CHR ''=''"
  then have "b64_val (CHR ''='') = Some n" using b64_val_char [of n] by simp
  then show False by (simp add: b64_val_def Let_def)
qed

lemma byte_parts:
  fixes a b c :: byte
  shows "unat a div 4 < 64" "unat a mod 4 * 16 < 64" "unat a mod 4 * 16 + unat b div 16 < 64"
    "unat b mod 16 * 4 < 64" "unat b mod 16 * 4 + unat c div 64 < 64" "unat c mod 64 < 64"
  using unat_byte_less [of a] unat_byte_less [of b] unat_byte_less [of c] by auto

lemma byte_high:
  fixes b c :: byte
  shows "unat b div 16 div 16 = 0" "unat b div 16 mod 16 = unat b div 16"
    "unat c div 64 div 4 = 0" "unat c div 64 mod 4 = unat c div 64"
  using unat_byte_less [of b] unat_byte_less [of c] by auto

lemma byte_join: "word_of_nat (unat b div k) * word_of_nat k + word_of_nat (unat b mod k) = (b :: byte)"
  by (simp flip: of_nat_mult of_nat_add)

lemma b64_roundtrip: "b64decode (b64encode bs) = Some bs"
  using byte_join [where k = 16] byte_join [where k = 64] byte_join [where k = 4]
  by (induction bs rule: b64encode.induct) (simp_all add: byte_parts byte_high)

section \<open>Lemmas on keys and signatures\<close>

definition dev_key :: "DevPublicKey \<Rightarrow> bool" where
  "dev_key k = (prefix DEV_PREFIX (dk_key_id k) \<and> length (dk_public_key k) = 32)"

lemma trust_item_dev: "trust_item v = Some k \<Longrightarrow> dev_key k"
  by (auto simp: trust_item_def dev_key_def split: pyval.splits if_splits option.splits)

lemma trust_from_mapping_dev: "k \<in> set (trust_from_mapping v) \<Longrightarrow> dev_key k"
  by (auto simp: trust_from_mapping_def List.map_filter_def intro: trust_item_dev split: pyval.splits)

lemma packaged_trust_dev: "k \<in> set (packaged_dev_trust ts) \<Longrightarrow> dev_key k"
  by (auto simp: packaged_dev_trust_def intro: trust_from_mapping_dev split: option.splits)

text \<open>What a verified envelope has: the two entries, and a signature by a key of the trust set over the
  canonical text of exactly the policy that is returned.\<close>

definition signed_by :: "Crypto \<Rightarrow> DevPublicKey \<Rightarrow> pyval \<Rightarrow> (string \<times> pyval) list \<Rightarrow> bool" where
  "signed_by cr k document policy =
     (case document of
        PDict doc \<Rightarrow>
          set (map fst doc) = {''policy'', ''signature''} \<and> dict_get doc ''policy'' = PDict policy
          \<and> (case dict_get doc ''signature'' of
               PDict sg \<Rightarrow>
                 dict_get sg ''key_id'' = PStr (dk_key_id k) \<and> prefix DEV_PREFIX (dk_key_id k)
                 \<and> b64_of_value (dict_get sg ''public_key_b64'') = Some (dk_public_key k)
                 \<and> (case b64_of_value (dict_get sg ''signature_b64'') of
                      None \<Rightarrow> False
                    | Some raw \<Rightarrow> ed_verify cr (dk_public_key k) raw (canonical_policy (float_text cr) policy))
             | _ \<Rightarrow> False)
      | _ \<Rightarrow> False)"

lemma find_member: "find P xs = Some x \<Longrightarrow> x \<in> set xs \<and> P x"
  by (induction xs) (auto split: if_splits)

lemma signature_ok_verified:
  assumes "signature_ok cr policy sg trust = ''VERIFIED''"
  obtains k raw where "k \<in> set trust" "dict_get sg ''key_id'' = PStr (dk_key_id k)" "prefix DEV_PREFIX (dk_key_id k)"
    "b64_of_value (dict_get sg ''public_key_b64'') = Some (dk_public_key k)"
    "b64_of_value (dict_get sg ''signature_b64'') = Some raw"
    "ed_verify cr (dk_public_key k) raw (canonical_policy (float_text cr) policy)"
  using assms
  by (fastforce simp: signature_ok_def dest: find_member split: pyval.splits if_splits option.splits)

lemma verified_parts:
  assumes "sp_ok (verify_signed_policy cr trust document)"
  obtains doc policy sg where "document = PDict doc" "dict_get doc ''policy'' = PDict policy"
    "dict_get doc ''signature'' = PDict sg" "set (map fst doc) = {''policy'', ''signature''}"
    "signature_ok cr policy sg trust = ''VERIFIED''"
    "sp_policy (verify_signed_policy cr trust document) = Some policy"
  using assms by (auto simp: verify_signed_policy_def Let_def split: pyval.splits if_splits)

lemma verified_signed_by:
  assumes "sp_ok (verify_signed_policy cr trust document)"
  shows "\<exists>k \<in> set trust. \<exists>policy. sp_policy (verify_signed_policy cr trust document) = Some policy \<and> signed_by cr k document policy"
proof -
  obtain doc policy sg where v: "document = PDict doc" "dict_get doc ''policy'' = PDict policy"
    "dict_get doc ''signature'' = PDict sg" "set (map fst doc) = {''policy'', ''signature''}"
    "signature_ok cr policy sg trust = ''VERIFIED''"
    "sp_policy (verify_signed_policy cr trust document) = Some policy"
    using assms by (rule verified_parts)
  from v(5) obtain k raw where k: "k \<in> set trust" "dict_get sg ''key_id'' = PStr (dk_key_id k)" "prefix DEV_PREFIX (dk_key_id k)"
    "b64_of_value (dict_get sg ''public_key_b64'') = Some (dk_public_key k)"
    "b64_of_value (dict_get sg ''signature_b64'') = Some raw"
    "ed_verify cr (dk_public_key k) raw (canonical_policy (float_text cr) policy)"
    by (rule signature_ok_verified)
  then have "signed_by cr k document policy" using v by (simp add: signed_by_def)
  with k(1) v(6) show ?thesis by blast
qed

lemma sign_verify:
  assumes "find (\<lambda>item. dk_key_id item = dk_key_id k) trust = Some k" "prefix DEV_PREFIX (dk_key_id k)"
    and "ed_verify cr (dk_public_key k) (sign (canonical_policy (float_text cr) policy)) (canonical_policy (float_text cr) policy)"
  shows "\<exists>document. sign_policy cr policy (dk_key_id k) (dk_public_key k) sign = Some document
           \<and> verify_signed_policy cr trust document = \<lparr>sp_ok = True, sp_reason = ''VERIFIED'', sp_policy = Some policy\<rparr>"
  using assms
  by (simp add: sign_policy_def verify_signed_policy_def signature_ok_def b64_of_value_def b64_roundtrip)

section \<open>Lemmas on the configuration\<close>

lemma policy_from_dict_fixed [simp]:
  "bp_cgroup_slice (policy_from_dict d) = CGROUP_REL"
  "bp_subnet_v4 (policy_from_dict d) = SUBNET_V4"
  "bp_subnet_v6 (policy_from_dict d) = SUBNET_V6"
  by (simp_all add: policy_from_dict_def hold_default_policy_def)

text \<open>The part of a policy no file can change: the slice and the two subnets the packet hold names.\<close>

definition scoped_policy :: "BootPolicy \<Rightarrow> bool" where
  "scoped_policy p = (bp_cgroup_slice p = CGROUP_REL \<and> bp_subnet_v4 p = SUBNET_V4 \<and> bp_subnet_v6 p = SUBNET_V6)"

lemma load_policy_cases:
  obtains (dflt) "fst (load_hold_policy cr ts live config) = hold_default_policy"
  | (plain) f d where "config = Some f" "config_trusted live f" "cf_json f = Some (PDict d)"
      "\<not> live" "\<not> {''policy'', ''signature''} \<subseteq> set (map fst d)"
      "load_hold_policy cr ts live config = (policy_from_dict d, policy_notes (policy_from_dict d))"
  | (signed) f d body where "config = Some f" "config_trusted live f" "cf_json f = Some (PDict d)"
      "sp_ok (verify_signed_policy cr (if live then packaged_dev_trust ts else active_dev_trust ts) (PDict d))"
      "sp_policy (verify_signed_policy cr (if live then packaged_dev_trust ts else active_dev_trust ts) (PDict d)) = Some body"
      "load_hold_policy cr ts live config = (policy_from_dict body, policy_notes (policy_from_dict body))"
proof (cases "\<exists>f d. config = Some f \<and> config_trusted live f \<and> cf_json f = Some (PDict d)")
  case True
  then obtain f d where f: "config = Some f" "config_trusted live f" "cf_json f = Some (PDict d)" by blast
  let ?v = "verify_signed_policy cr (if live then packaged_dev_trust ts else active_dev_trust ts) (PDict d)"
  show thesis
  proof (cases "live \<or> {''policy'', ''signature''} \<subseteq> set (map fst d)")
    case True
    show thesis
    proof (cases "sp_ok ?v \<and> sp_policy ?v \<noteq> None")
      case True
      then obtain body where "sp_ok ?v" "sp_policy ?v = Some body" by blast
      with f \<open>live \<or> _\<close> show thesis by (intro signed) (auto simp: load_hold_policy_def Let_def)
    next
      case False
      with f \<open>live \<or> _\<close> show thesis
        by (intro dflt) (auto simp: load_hold_policy_def Let_def split: bool.splits option.splits)
    qed
  next
    case False
    with f show thesis by (intro plain) (auto simp: load_hold_policy_def)
  qed
next
  case False
  then show thesis
    by (auto simp: load_hold_policy_def split: option.splits pyval.splits intro: dflt)
qed

lemma load_policy_scoped: "scoped_policy (fst (load_hold_policy cr ts live config))"
  by (rule load_policy_cases [of cr ts live config]) (simp_all add: scoped_policy_def hold_default_policy_def)

definition probe_ok :: "(string \<times> int) option \<Rightarrow> bool" where
  "probe_ok pr =
     (case pr of
        None \<Rightarrow> True
      | Some (host, port) \<Rightarrow>
          host \<noteq> [] \<and> host \<notin> set [''0.0.0.0'', ''::'', ''0.0.0.0/0'', ''::/0''] \<and> 0 < port \<and> port < 65536)"

lemma probe_of_value_ok: "probe_ok (probe_of_value v)"
  by (auto simp: probe_of_value_def probe_ok_def split: pyval.splits)

lemma policy_dict_probe: "probe_ok (bp_deny_probe p) \<Longrightarrow> probe_of_value (dict_get (policy_dict p) ''deny_probe'') = bp_deny_probe p"
  by (cases "bp_deny_probe p") (auto simp: policy_dict_def probe_of_value_def probe_ok_def)

lemma policy_dict_roundtrip:
  assumes "scoped_policy p" "probe_ok (bp_deny_probe p)"
  shows "policy_from_dict (policy_dict p) = p"
proof -
  have "dict_get (policy_dict p) ''enabled'' = PBool (bp_enabled p)" "dict_get (policy_dict p) ''hold'' = PBool (bp_hold p)"
    "dict_get (policy_dict p) ''ordering'' = PBool (bp_ordering p)"
    by (simp_all add: policy_dict_def)
  with assms policy_dict_probe [OF assms(2)] show ?thesis
    by (simp add: policy_from_dict_def hold_default_policy_def scoped_policy_def)
qed

lemma policy_dict_keys: "''policy'' \<notin> set (map fst (policy_dict p))"
  by (auto simp: policy_dict_def split: option.splits)

lemma policy_dict_unsigned: "dict_get (policy_dict p) ''policy'' = PNone"
  by (auto simp: policy_dict_def split: option.splits)

lemma saved_mode_trusted: "config_trusted live \<lparr>cf_mode = 0x1A4, cf_uid = (if live then 0 else u), cf_json = v\<rparr>"
  by (simp add: config_trusted_def)

lemma load_saved_plain:
  assumes "scoped_policy p" "probe_ok (bp_deny_probe p)"
  shows "fst (load_hold_policy cr ts False (save_policy False euid p config)) = p"
  using saved_mode_trusted [of False] policy_dict_keys [of p] policy_dict_roundtrip [OF assms]
  by (simp add: load_hold_policy_def save_policy_def)

lemma load_saved_live: "load_hold_policy cr ts True (save_policy True euid p config) = (hold_default_policy, [unsigned_note])"
  using saved_mode_trusted [of True]
  by (simp add: load_hold_policy_def save_policy_def verify_signed_policy_def policy_dict_unsigned)

lemma load_signed_live:
  assumes "scoped_policy p" "probe_ok (bp_deny_probe p)" and "sign_policy cr (policy_dict p) kid pk sign = Some document"
    and "verify_signed_policy cr (packaged_dev_trust ts) document = \<lparr>sp_ok = True, sp_reason = r, sp_policy = Some (policy_dict p)\<rparr>"
  shows "fst (load_hold_policy cr ts True (Some \<lparr>cf_mode = 0x1A4, cf_uid = 0, cf_json = Some document\<rparr>)) = p"
proof -
  obtain d where "document = PDict d" using assms(3) by (auto simp: sign_policy_def split: if_splits)
  then show ?thesis
    using assms(4) saved_mode_trusted [of True] policy_dict_roundtrip [OF assms(1,2)]
    by (simp add: load_hold_policy_def Let_def)
qed

section \<open>Properties\<close>

text \<open>
  C25: on a live host the boot hold has other settings than the default (both mechanisms on) only if the
  configuration is owned by root, not writable by others, and an envelope that a packaged dev key signed;
  the settings are then those of exactly the signed policy, and the slice and subnets are the fixed ones.
\<close>

theorem hold_off_only_signed:
  assumes "mechanisms_active (fst (load_hold_policy cr ts True config)) \<noteq> (True, True)"
  shows "\<exists>f document k body.
           config = Some f \<and> cf_uid f = 0 \<and> cf_mode f AND 0x12 = 0 \<and> cf_json f = Some document
           \<and> k \<in> set (packaged_dev_trust ts) \<and> dev_key k \<and> signed_by cr k document body
           \<and> fst (load_hold_policy cr ts True config) = policy_from_dict body
           \<and> scoped_policy (policy_from_dict body)"
proof (cases rule: load_policy_cases [of cr ts True config])
  case dflt
  with assms show ?thesis by (simp add: mechanisms_active_def hold_default_policy_def)
next
  case (plain f d)
  then show ?thesis by simp
next
  case (signed f d body)
  then obtain k where "k \<in> set (packaged_dev_trust ts)" "signed_by cr k (PDict d) body"
    using verified_signed_by [of cr "packaged_dev_trust ts" "PDict d"] by auto
  with signed show ?thesis
    by (auto simp: config_trusted_def scoped_policy_def intro: packaged_trust_dev split: if_splits)
qed

definition zero_key_b64 :: string where "zero_key_b64 = b64encode (replicate 32 0)"

definition sample_trust :: TrustSources where
  "sample_trust =
     \<lparr>ts_packaged = Some (PDict [(''keys'', PList [PDict
         [(''key_class'', PStr ''dev_non_production''), (''not_a_production_root'', PBool True),
          (''key_id'', PStr ''dev-nonprod-1''), (''public_key_b64'', PStr zero_key_b64)]])]),
      ts_lab_scope = [], ts_lab_trust = [], ts_lab_file = None, ts_override = None\<rparr>"

definition sample_crypto :: Crypto where
  "sample_crypto = \<lparr>ed_verify = (\<lambda>pk sig msg. pk = replicate 32 0 \<and> sig = msg), float_text = (\<lambda>f. [])\<rparr>"

definition sample_key :: DevPublicKey where
  "sample_key = \<lparr>dk_key_id = ''dev-nonprod-1'', dk_public_key = replicate 32 0\<rparr>"

lemma zero_key_decoded: "b64decode zero_key_b64 = Some (replicate 32 0)"
  by (simp only: zero_key_b64_def b64_roundtrip)

lemma sample_trust_key: "packaged_dev_trust sample_trust = [sample_key]"
  by (simp add: packaged_dev_trust_def sample_trust_def trust_from_mapping_def List.map_filter_def trust_item_def
      zero_key_decoded DEV_CLASS_def DEV_PREFIX_def sample_key_def)

text \<open>
  C32: a policy that is signed with a packaged dev key and stored is the policy a live host loads, whatever
  signature scheme verifies what it signed.
\<close>

theorem signed_policy_roundtrip:
  assumes "scoped_policy p" "probe_ok (bp_deny_probe p)"
    and "find (\<lambda>item. dk_key_id item = dk_key_id k) (packaged_dev_trust ts) = Some k"
    and "\<And>msg. ed_verify cr (dk_public_key k) (sign msg) msg"
  shows "\<exists>document. sign_policy cr (policy_dict p) (dk_key_id k) (dk_public_key k) sign = Some document
           \<and> fst (load_hold_policy cr ts True (Some \<lparr>cf_mode = 0x1A4, cf_uid = 0, cf_json = Some document\<rparr>)) = p"
proof -
  have "dev_key k" using assms(3) packaged_trust_dev find_member by metis
  then obtain document where "sign_policy cr (policy_dict p) (dk_key_id k) (dk_public_key k) sign = Some document"
    "verify_signed_policy cr (packaged_dev_trust ts) document = \<lparr>sp_ok = True, sp_reason = ''VERIFIED'', sp_policy = Some (policy_dict p)\<rparr>"
    using sign_verify [where cr = cr and sign = sign and policy = "policy_dict p", OF assms(3)] assms(4)
    unfolding dev_key_def by blast
  with load_signed_live [OF assms(1,2)] show ?thesis by blast
qed

definition opted_out_policy :: BootPolicy where
  "opted_out_policy = hold_default_policy\<lparr>bp_enabled := False, bp_deny_probe := Some (''198.51.100.2'', 18080)\<rparr>"

lemma opted_out_policy_ok: "scoped_policy opted_out_policy" "probe_ok (bp_deny_probe opted_out_policy)"
  by (simp_all add: opted_out_policy_def scoped_policy_def hold_default_policy_def probe_ok_def)

theorem signed_policy_roundtrip_witness:
  "\<exists>document. sign_policy sample_crypto (policy_dict opted_out_policy) ''dev-nonprod-1'' (replicate 32 0) id = Some document
     \<and> fst (load_hold_policy sample_crypto sample_trust True
              (Some \<lparr>cf_mode = 0x1A4, cf_uid = 0, cf_json = Some document\<rparr>)) = opted_out_policy"
  using signed_policy_roundtrip [OF opted_out_policy_ok, of sample_key sample_trust sample_crypto id]
  by (simp add: sample_trust_key sample_key_def sample_crypto_def)

definition sample_document :: pyval where
  "sample_document =
     the (sign_policy sample_crypto (policy_dict opted_out_policy) (dk_key_id sample_key) (dk_public_key sample_key) id)"

definition sample_config :: "ConfigFile option" where
  "sample_config = Some \<lparr>cf_mode = 0x1A4, cf_uid = 0, cf_json = Some sample_document\<rparr>"

lemma sample_config_loads: "fst (load_hold_policy sample_crypto sample_trust True sample_config) = opted_out_policy"
proof -
  have "prefix DEV_PREFIX (dk_key_id sample_key)" by (simp add: DEV_PREFIX_def sample_key_def)
  moreover have "find (\<lambda>item. dk_key_id item = dk_key_id sample_key) (packaged_dev_trust sample_trust) = Some sample_key"
    by (simp add: sample_trust_key)
  moreover have "\<And>msg. ed_verify sample_crypto (dk_public_key sample_key) (id msg) msg"
    by (simp add: sample_crypto_def sample_key_def)
  ultimately obtain document where
    "sign_policy sample_crypto (policy_dict opted_out_policy) (dk_key_id sample_key) (dk_public_key sample_key) id = Some document"
    "verify_signed_policy sample_crypto (packaged_dev_trust sample_trust) document
       = \<lparr>sp_ok = True, sp_reason = ''VERIFIED'', sp_policy = Some (policy_dict opted_out_policy)\<rparr>"
    using sign_verify [where sign = id] by blast
  then show ?thesis
    using load_signed_live [OF opted_out_policy_ok] by (simp add: sample_config_def sample_document_def)
qed

theorem hold_off_only_signed_witness:
  "mechanisms_active (fst (load_hold_policy sample_crypto sample_trust True sample_config)) = (False, False)
   \<and> (\<exists>f document k body.
           sample_config = Some f \<and> cf_uid f = 0 \<and> cf_mode f AND 0x12 = 0 \<and> cf_json f = Some document
           \<and> k \<in> set (packaged_dev_trust sample_trust) \<and> dev_key k \<and> signed_by sample_crypto k document body
           \<and> fst (load_hold_policy sample_crypto sample_trust True sample_config) = policy_from_dict body
           \<and> scoped_policy (policy_from_dict body))"
proof -
  have "mechanisms_active (fst (load_hold_policy sample_crypto sample_trust True sample_config)) = (False, False)"
    by (simp add: sample_config_loads mechanisms_active_def opted_out_policy_def)
  with hold_off_only_signed [of sample_crypto sample_trust sample_config] show ?thesis by simp
qed

text \<open>
  What \<open>save_policy\<close> writes is loaded back exactly under a fixture root, and never on a live host: there the
  file is plain, and a plain file is refused, so the loaded policy is the default with the hold on.
\<close>

theorem saved_policy_refused_live:
  assumes "scoped_policy p" "probe_ok (bp_deny_probe p)"
  shows "fst (load_hold_policy cr ts False (save_policy False euid p config)) = p
    \<and> load_hold_policy cr ts True (save_policy True euid p config) = (hold_default_policy, [unsigned_note])"
  using load_saved_plain [OF assms] load_saved_live by blast

theorem saved_policy_refused_live_witness:
  "fst (load_hold_policy sample_crypto sample_trust False (save_policy False 0 opted_out_policy None)) = opted_out_policy
   \<and> load_hold_policy sample_crypto sample_trust True (save_policy True 0 opted_out_policy None) = (hold_default_policy, [unsigned_note])"
  by (rule saved_policy_refused_live [OF opted_out_policy_ok])

end
