(* ===== verification/Boot_Registry.thy ===== *)
theory Boot_Registry
  imports Boot_Policy Install_Grub
begin

text \<open>
  \<open>vantio_install/boot_hold/registry.py\<close>: the enrollment registry and the checks a workload passes before it
  is enrolled. A registry row is one of those the service writes; an entry a kind of row lacks is \<^const>\<open>None\<close>
  or the empty list. Regular expressions are written out for code points below 256.
\<close>

section \<open>Rows and file\<close>

record Workload =
  wl_id :: string
  wl_kind :: string
  wl_enrolled :: bool
  wl_unit :: "string option"
  wl_container :: "string option"
  wl_project_dir :: "string option"
  wl_paths :: "string list"

datatype registry_file = RegMissing | RegNotJson | RegBadShape | RegRows "Workload list"

definition unknown_error :: "string \<Rightarrow> BootHoldError" where
  "unknown_error message = \<lparr>he_message = message, he_exit_code = 4, he_state = ''UNKNOWN''\<rparr>"

definition load_registry :: "registry_file \<Rightarrow> BootHoldError + Workload list" where
  "load_registry f =
     (case f of
        RegMissing \<Rightarrow> Inr []
      | RegNotJson \<Rightarrow> Inl (unknown_error ''The enrollment registry is not valid JSON. Status is UNKNOWN.'')
      | RegBadShape \<Rightarrow> Inl (unknown_error ''The enrollment registry is unreadable. Status is UNKNOWN.'')
      | RegRows rows \<Rightarrow> Inr rows)"

definition save_registry :: "Workload list \<Rightarrow> registry_file" where
  "save_registry rows = RegRows rows"

definition upsert :: "Workload list \<Rightarrow> Workload \<Rightarrow> Workload list" where
  "upsert rows r = filter (\<lambda>row. wl_id row \<noteq> wl_id r) rows @ [r]"

definition find_workload :: "Workload list \<Rightarrow> string \<Rightarrow> Workload option" where
  "find_workload rows name =
     find (\<lambda>row. wl_id row = name \<or> wl_unit row = Some name \<or> wl_container row = Some name) rows"

section \<open>Checks\<close>

definition RECOVERY_UNITS :: "string list" where
  "RECOVERY_UNITS =
     [''ssh.service'', ''sshd.service'', ''ssh.socket'', ''systemd-networkd.service'',
      ''systemd-networkd-wait-online.service'', ''systemd-resolved.service'', ''systemd-timesyncd.service'',
      ''dhcpcd.service'', ''amazon-ssm-agent.service'', ''snap.amazon-ssm-agent.amazon-ssm-agent.service'',
      ''docker.service'', ''containerd.service'', ''vantio-boot-hold.service'', ''vantio-pe-loader.service'',
      ''vantio-pe-enforce-ready.service'', ''vantio-enrolled-network.service'']"

definition BLOCKED_EXACT :: "string list" where
  "BLOCKED_EXACT =
     [''/'', ''/etc'', ''/usr'', ''/bin'', ''/sbin'', ''/lib'', ''/lib64'', ''/boot'', ''/root'', ''/home'', ''/var'',
      ''/var/lib'', ''/sys'', ''/proc'', ''/dev'', ''/run'', ''/tmp'', ''/etc/ssh'', ''/root/.ssh'']"

definition BLOCKED_PREFIXES :: "string list" where
  "BLOCKED_PREFIXES =
     [''/etc/'', ''/usr/'', ''/bin/'', ''/sbin/'', ''/lib/'', ''/lib64/'', ''/boot/'', ''/sys/'', ''/proc/'', ''/dev/'',
      ''/run/'', ''/root/.ssh/'', ''/etc/ssh/'']"

definition alnum_char :: "char \<Rightarrow> bool" where
  "alnum_char c = (let n = py_ord c in 48 \<le> n \<and> n \<le> 57 \<or> 65 \<le> n \<and> n \<le> 90 \<or> 97 \<le> n \<and> n \<le> 122)"

text \<open>The end anchor \<open>$\<close> also matches before one final line feed.\<close>

definition end_anchor :: "string \<Rightarrow> string" where
  "end_anchor s = (if s \<noteq> [] \<and> last s = CHR 0x0A then butlast s else s)"

definition unit_body_char :: "char \<Rightarrow> bool" where
  "unit_body_char c = (alnum_char c \<or> c \<in> set '':_.@-'' \<or> c = CHR 0x5C)"

definition unit_name_match :: "string \<Rightarrow> bool" where
  "unit_name_match s =
     (case end_anchor s of
        [] \<Rightarrow> False
      | c # rest \<Rightarrow>
          alnum_char c \<and> suffix ''.service'' rest \<and> length rest \<le> 208
          \<and> list_all unit_body_char (take (length rest - 8) rest))"

definition docker_name_match :: "string \<Rightarrow> bool" where
  "docker_name_match s =
     (case end_anchor s of
        [] \<Rightarrow> False
      | c # rest \<Rightarrow> alnum_char c \<and> length rest \<le> 120 \<and> list_all (\<lambda>d. alnum_char d \<or> d \<in> set ''_.-'') rest)"

text \<open>\<open>os.path.normpath\<close> of an absolute path without a double dot component: exactly two leading slashes
  stay two.\<close>

definition normpath_abs :: "string \<Rightarrow> string" where
  "normpath_abs raw =
     (if prefix ''//'' raw \<and> \<not> prefix ''///'' raw then ''//'' else ''/'')
     @ py_join ''/'' (filter (\<lambda>p. p \<noteq> [] \<and> p \<noteq> ''.'') (py_split (CHR ''/'') raw))"

definition path_parts :: "string \<Rightarrow> string list" where
  "path_parts path = filter (\<lambda>p. p \<noteq> []) (py_split (CHR ''/'') path)"

definition validate_protected_path :: "string \<Rightarrow> BootHoldError + string" where
  "validate_protected_path raw =
     (if \<not> prefix ''/'' raw \<or> CHR 0x00 \<in> set raw then
        Inl (usage_error ''A protected path is an absolute workload directory, three or more levels deep.'')
      else if ''..'' \<in> set (py_split (CHR ''/'') raw) then
        Inl (usage_error ''Choose a specific workload directory without dot segments.'')
      else
        (let path = normpath_abs raw in
         if path \<noteq> py_rstrip ''/'' raw then
           Inl (usage_error ''Choose a specific workload directory without dot segments.'')
         else if path \<in> set BLOCKED_EXACT \<or> list_ex (\<lambda>pre. prefix pre path) BLOCKED_PREFIXES then
           Inl (usage_error ''Choose a workload directory outside SSH, system, and recovery paths.'')
         else if ''.ssh'' \<in> set (path_parts path) then
           Inl (usage_error ''Choose a workload directory outside SSH paths.'')
         else if length (path_parts path) < 3 then
           Inl (usage_error ''Choose a specific workload directory at least three levels deep.'')
         else Inr path))"

definition validate_unit_name :: "string \<Rightarrow> BootHoldError + string" where
  "validate_unit_name unit =
     (if \<not> unit_name_match unit then Inl (usage_error ''The systemd unit name is not usable for enrollment.'')
      else if unit \<in> set RECOVERY_UNITS \<or> prefix ''ssh'' unit then
        Inl (usage_error
          (unit @ '' stays outside the enrolled slice so SSH, DNS, DHCP, and host agents keep working.''))
      else Inr unit)"

definition validate_docker_name :: "string \<Rightarrow> BootHoldError + string" where
  "validate_docker_name name =
     (if \<not> docker_name_match name then Inl (usage_error ''The container name is not usable for enrollment.'') else Inr name)"

definition restart_message :: string where
  "restart_message =
     ''Docker restart policy must be `no` for an enrolled container. '' @
     ''A restart policy of always, unless-stopped, or on-failure starts the container with the daemon, '' @
     ''ahead of enforce-ready. Set it with `docker update --restart=no <name>` '' @
     ''and let `vantio-enrolled-docker@.service` start it.''"

definition restart_is_gated :: "string \<Rightarrow> BootHoldError + unit" where
  "restart_is_gated policy =
     (if py_strip spaces (if policy = [] then ''no'' else policy) \<in> set [[], ''no'', ''none''] then Inr ()
      else Inl (usage_error restart_message))"

text \<open>\<open>_RESTART_BAD.search\<close>: at the start of a line, white space, \<open>restart\<close>, a colon and one of the three
  policies, in any case.\<close>

definition word_char :: "char \<Rightarrow> bool" where
  "word_char c =
     (let n = py_ord c in
      alnum_char c \<or> n = 95 \<or> n \<in> set [170, 178, 179, 181, 185, 186, 188, 189, 190] \<or> 192 \<le> n \<and> n \<noteq> 215 \<and> n \<noteq> 247)"

definition restart_value_bad :: "string \<Rightarrow> bool" where
  "restart_value_bad s =
     (prefix ''always'' s \<or> prefix ''unless-stopped'' s
      \<or> prefix ''on-failure'' s \<and> (case drop 10 s of [] \<Rightarrow> True | c # _ \<Rightarrow> \<not> word_char c))"

definition restart_at :: "string \<Rightarrow> bool" where
  "restart_at s =
     (let rest = dropWhile is_space_char s in
      prefix ''restart'' rest
      \<and> (case dropWhile is_space_char (drop 7 rest) of
           [] \<Rightarrow> False
         | c # value \<Rightarrow> c = CHR '':'' \<and> restart_value_bad (dropWhile is_space_char value)))"

fun restart_search :: "bool \<Rightarrow> string \<Rightarrow> bool" where
  "restart_search line_start [] = False"
| "restart_search line_start (c # cs) =
     (line_start \<and> restart_at (c # cs) \<or> restart_search (c = CHR 0x0A) cs)"

definition COMPOSE_REQUIRED :: "(string \<times> string) list" where
  "COMPOSE_REQUIRED =
     [(''cgroup_parent'', ''Set `cgroup_parent: /vantio-enrolled.slice` on the enrolled service.''),
      (''vantio-enrolled.slice'', ''Point `cgroup_parent` at /vantio-enrolled.slice.''),
      (''vantio-boot-hold'', ''Set `security_opt: apparmor:vantio-boot-hold` on the enrolled service.''),
      (''10.250.250.0/24'', ''Attach the service to a network whose subnet is 10.250.250.0/24.'')]"

definition compose_message :: string where
  "compose_message =
     ''Compose restart is `always`, `unless-stopped`, or `on-failure`. '' @
     ''Set `restart: '' @ [CHR 0x22] @ ''no'' @ [CHR 0x22] @ ''` so the systemd unit starts the project after enforce-ready.''"

definition compose_text_gated :: "string \<Rightarrow> BootHoldError + unit" where
  "compose_text_gated txt =
     (if restart_search True (py_lower txt) then Inl (usage_error compose_message)
      else
        (case filter (\<lambda>(token, message). \<not> sublist token txt) COMPOSE_REQUIRED of
           [] \<Rightarrow> Inr ()
         | (token, message) # _ \<Rightarrow> Inl (usage_error message)))"

section \<open>A store of keyed records\<close>

locale keyed_store =
  fixes lookup :: "'s \<Rightarrow> 'k \<Rightarrow> 'r option"
    and put :: "'s \<Rightarrow> 'r \<Rightarrow> 's"
    and key :: "'r \<Rightarrow> 'k"
    and inv :: "'s \<Rightarrow> bool"
    and ok :: "'r \<Rightarrow> bool"
  assumes inv_put: "inv s \<Longrightarrow> ok r \<Longrightarrow> inv (put s r)"
    and lookup_put_same: "inv s \<Longrightarrow> ok r \<Longrightarrow> lookup (put s r) (key r) = Some r"
    and lookup_put_other: "inv s \<Longrightarrow> ok r \<Longrightarrow> k \<noteq> key r \<Longrightarrow> lookup (put s r) k = lookup s k"
begin

lemma inv_puts: "inv s \<Longrightarrow> list_all ok rs \<Longrightarrow> inv (foldl put s rs)"
  by (induction rs arbitrary: s) (auto intro: inv_put)

lemma lookup_puts:
  "inv s \<Longrightarrow> list_all ok rs \<Longrightarrow>
   lookup (foldl put s rs) k = (case find (\<lambda>r. key r = k) (rev rs) of Some r \<Rightarrow> Some r | None \<Rightarrow> lookup s k)"
proof (induction rs rule: rev_induct)
  case (snoc r rs)
  then have "inv (foldl put s rs)" "ok r" by (auto intro: inv_puts)
  with snoc show ?case
    using lookup_put_same lookup_put_other [of _ r k] by (cases "key r = k") auto
qed simp

end

text \<open>The rows the service writes name their unit or container after the id.\<close>

definition row_ok :: "Workload \<Rightarrow> bool" where
  "row_ok r = (wl_unit r \<in> {None, Some (wl_id r)} \<and> wl_container r \<in> {None, Some (wl_id r)})"

definition registry_ok :: "Workload list \<Rightarrow> bool" where
  "registry_ok rows = (distinct (map wl_id rows) \<and> list_all row_ok rows)"

lemma find_filter_other: "(\<And>x. P x \<Longrightarrow> Q x) \<Longrightarrow> find P (filter Q xs) = find P xs"
  by (induction xs) auto

lemma find_append: "find P (xs @ ys) = (case find P xs of Some x \<Rightarrow> Some x | None \<Rightarrow> find P ys)"
  by (induction xs) auto

lemma find_workload_id: "list_all row_ok rows \<Longrightarrow> find_workload rows name = find (\<lambda>row. wl_id row = name) rows"
  by (induction rows) (auto simp: find_workload_def row_ok_def)

lemma upsert_ok: "registry_ok rows \<Longrightarrow> row_ok r \<Longrightarrow> registry_ok (upsert rows r)"
  by (auto simp: registry_ok_def upsert_def list_all_iff distinct_map inj_on_def)

lemma find_workload_upsert:
  assumes "registry_ok rows" "row_ok r"
  shows "find_workload (upsert rows r) name = (if name = wl_id r then Some r else find_workload rows name)"
proof -
  have "list_all row_ok (upsert rows r)" "list_all row_ok rows"
    using assms upsert_ok [OF assms] by (auto simp: registry_ok_def)
  moreover have "find (\<lambda>row. wl_id row = wl_id r) (filter (\<lambda>row. wl_id row \<noteq> wl_id r) rows) = None"
    by (auto simp: find_None_iff)
  moreover have "find (\<lambda>row. wl_id row = name) (filter (\<lambda>row. wl_id row \<noteq> wl_id r) rows) = find (\<lambda>row. wl_id row = name) rows"
    if "name \<noteq> wl_id r"
    using that by (intro find_filter_other) auto
  ultimately show ?thesis
    by (auto simp: find_workload_id upsert_def find_append split: option.splits)
qed

interpretation registry: keyed_store find_workload upsert wl_id registry_ok row_ok
  by unfold_locales (simp_all add: upsert_ok find_workload_upsert)

section \<open>Properties\<close>

text \<open>
  After any sequence of enrollments into an empty registry, looking a workload up returns the last record
  written for it and nothing for a workload never written; the ids stay distinct.
\<close>

theorem registry_last_write_wins:
  assumes "list_all row_ok rs"
  shows "find_workload (foldl upsert [] rs) name = find (\<lambda>r. wl_id r = name) (rev rs)
    \<and> distinct (map wl_id (foldl upsert [] rs))"
proof
  have empty: "registry_ok []" by (simp add: registry_ok_def)
  show "find_workload (foldl upsert [] rs) name = find (\<lambda>r. wl_id r = name) (rev rs)"
    using registry.lookup_puts [OF empty assms, of name] by (simp add: find_workload_def split: option.splits)
  show "distinct (map wl_id (foldl upsert [] rs))"
    using registry.inv_puts [OF empty assms] by (simp add: registry_ok_def)
qed

definition sample_row :: "bool \<Rightarrow> Workload" where
  "sample_row enrolled =
     \<lparr>wl_id = ''app.service'', wl_kind = ''systemd'', wl_enrolled = enrolled, wl_unit = Some ''app.service'',
      wl_container = None, wl_project_dir = None, wl_paths = [''/srv/app/data'']\<rparr>"

theorem registry_last_write_wins_witness:
  "find_workload (foldl upsert [] [sample_row False, sample_row True]) ''app.service'' = Some (sample_row True)
    \<and> distinct (map wl_id (foldl upsert [] [sample_row False, sample_row True]))"
  using registry_last_write_wins [of "[sample_row False, sample_row True]" "''app.service''"]
  by (simp add: row_ok_def sample_row_def)

lemma validated_path:
  assumes "validate_protected_path raw = Inr path"
  shows "path = normpath_abs raw" "path = py_rstrip ''/'' raw" "prefix ''/'' raw" "''..'' \<notin> set (py_split (CHR ''/'') raw)"
    "path \<notin> set BLOCKED_EXACT" "\<not> list_ex (\<lambda>pre. prefix pre path) BLOCKED_PREFIXES"
    "''.ssh'' \<notin> set (path_parts path)" "3 \<le> length (path_parts path)"
  using assms by (auto simp: validate_protected_path_def Let_def split: if_splits)

lemma split_join_parts:
  assumes "\<forall>p \<in> set ps. p \<noteq> [] \<and> CHR ''/'' \<notin> set p" "ps \<noteq> []"
  shows "path_parts (''/'' @ py_join ''/'' ps) = ps"
proof -
  have "py_split (CHR ''/'') (''/'' @ py_join ''/'' ps) = [] # ps"
    using assms py_split_join [of ps "CHR ''/''"] by simp
  then show ?thesis using assms by (auto simp: path_parts_def filter_id_conv)
qed

lemma kept_parts:
  "p \<in> set (filter (\<lambda>p. p \<noteq> [] \<and> p \<noteq> ''.'') (py_split (CHR ''/'') raw)) \<Longrightarrow>
   p \<noteq> [] \<and> p \<noteq> ''.'' \<and> CHR ''/'' \<notin> set p \<and> p \<in> set (py_split (CHR ''/'') raw)"
  by (auto dest: py_split_sep_free)

lemma normpath_parts:
  assumes "\<not> prefix ''//'' raw" "path_parts (normpath_abs raw) \<noteq> []"
  shows "path_parts (normpath_abs raw) = filter (\<lambda>p. p \<noteq> [] \<and> p \<noteq> ''.'') (py_split (CHR ''/'') raw)"
proof -
  let ?ps = "filter (\<lambda>p. p \<noteq> [] \<and> p \<noteq> ''.'') (py_split (CHR ''/'') raw)"
  have abs: "normpath_abs raw = ''/'' @ py_join ''/'' ?ps" using assms(1) by (simp add: normpath_abs_def)
  with assms(2) have "?ps \<noteq> []" by (auto simp: path_parts_def)
  moreover have "\<forall>p \<in> set ?ps. p \<noteq> [] \<and> CHR ''/'' \<notin> set p" using kept_parts by blast
  ultimately show ?thesis unfolding abs by (intro split_join_parts)
qed

text \<open>The first components of the system directories a protected path must not be under.\<close>

definition SYSTEM_TOPS :: "string list" where
  "SYSTEM_TOPS = [''etc'', ''usr'', ''bin'', ''sbin'', ''lib'', ''lib64'', ''boot'', ''sys'', ''proc'', ''dev'', ''run'']"

text \<open>
  A protected path that is accepted and does not begin with two slashes is in normal form, at least three
  levels deep, has no dot segment and no \<open>.ssh\<close> segment, and is not under a system directory.
\<close>

theorem protected_path_safe:
  assumes "validate_protected_path raw = Inr path" "\<not> prefix ''//'' raw"
  shows "path = ''/'' @ py_join ''/'' (path_parts path) \<and> 3 \<le> length (path_parts path)
    \<and> set (path_parts path) \<inter> {''.'', ''..'', ''.ssh''} = {} \<and> hd (path_parts path) \<notin> set SYSTEM_TOPS"
proof -
  note v = validated_path [OF assms(1)]
  let ?ps = "path_parts path"
  have parts: "?ps = filter (\<lambda>p. p \<noteq> [] \<and> p \<noteq> ''.'') (py_split (CHR ''/'') raw)"
    using normpath_parts [OF assms(2)] v(1,8) by fastforce
  have path: "path = ''/'' @ py_join ''/'' ?ps"
    using v(1) assms(2) parts by (simp add: normpath_abs_def)
  obtain p1 p2 rest where ps: "?ps = p1 # p2 # rest"
    using v(8) by (metis Suc_le_length_iff numeral_3_eq_3)
  have "hd ?ps \<notin> set SYSTEM_TOPS"
  proof
    assume "hd ?ps \<in> set SYSTEM_TOPS"
    then have "''/'' @ p1 @ ''/'' \<in> set BLOCKED_PREFIXES"
      using ps by (auto simp: SYSTEM_TOPS_def BLOCKED_PREFIXES_def)
    moreover have "path = ''/'' @ py_join ''/'' (p1 # p2 # rest)" using path ps by simp
    then have "prefix (''/'' @ p1 @ ''/'') path" by simp
    ultimately show False using v(6) by (auto simp: list_ex_iff)
  qed
  moreover have "set ?ps \<inter> {''.'', ''..'', ''.ssh''} = {}"
    using v(4,7) parts by auto
  ultimately show ?thesis using path v(8) by blast
qed

lemma sample_path: "validate_protected_path ''/srv/app/data'' = Inr ''/srv/app/data''"
  by (simp add: validate_protected_path_def normpath_abs_def path_parts_def py_rstrip_def BLOCKED_EXACT_def
      BLOCKED_PREFIXES_def)

theorem protected_path_safe_witness:
  "''/srv/app/data'' = ''/'' @ py_join ''/'' (path_parts ''/srv/app/data'') \<and> 3 \<le> length (path_parts ''/srv/app/data'')
    \<and> set (path_parts ''/srv/app/data'') \<inter> {''.'', ''..'', ''.ssh''} = {} \<and> hd (path_parts ''/srv/app/data'') \<notin> set SYSTEM_TOPS"
  by (rule protected_path_safe [OF sample_path]) simp

text \<open>
  The two checks have a gap each. A protected path that begins with two slashes names a system directory
  and is accepted, and a unit name followed by a line feed is accepted although the unit is a recovery unit.
\<close>

theorem enrollment_check_gaps:
  "validate_protected_path ''//etc/ssh/keys'' = Inr ''//etc/ssh/keys''
   \<and> validate_unit_name (''docker.service'' @ [CHR 0x0A]) = Inr (''docker.service'' @ [CHR 0x0A])
   \<and> validate_protected_path ''/etc/ssh/keys'' = Inl (usage_error ''Choose a workload directory outside SSH, system, and recovery paths.'')
   \<and> (\<exists>m. validate_unit_name ''docker.service'' = Inl (usage_error m))"
proof (intro conjI)
  show "validate_protected_path ''//etc/ssh/keys'' = Inr ''//etc/ssh/keys''"
    by (simp add: validate_protected_path_def normpath_abs_def path_parts_def py_rstrip_def BLOCKED_EXACT_def BLOCKED_PREFIXES_def)
  show "validate_unit_name (''docker.service'' @ [CHR 0x0A]) = Inr (''docker.service'' @ [CHR 0x0A])"
    by (simp add: validate_unit_name_def unit_name_match_def end_anchor_def alnum_char_def unit_body_char_def
        suffix_def RECOVERY_UNITS_def)
  show "validate_protected_path ''/etc/ssh/keys'' = Inl (usage_error ''Choose a workload directory outside SSH, system, and recovery paths.'')"
    by (simp add: validate_protected_path_def normpath_abs_def path_parts_def py_rstrip_def BLOCKED_EXACT_def BLOCKED_PREFIXES_def)
  show "\<exists>m. validate_unit_name ''docker.service'' = Inl (usage_error m)"
    by (simp add: validate_unit_name_def unit_name_match_def end_anchor_def alnum_char_def unit_body_char_def
        suffix_def RECOVERY_UNITS_def) blast
qed

end
