(* ===== verification/Install_Files.thy ===== *)
theory Install_Files
  imports Install_Mutator Boot_Registry
begin

text \<open>
  \<open>vantio_install/paths.py\<close>, \<open>manifest.py\<close> and the pin table of \<open>constants.py\<close>: safe roots, the files of a
  bundle and their digests. A bundle is a map from relative paths to the bytes of regular files.
  SHA-256 and the parser of a JSON file are parameters: \<open>fe_sha\<close> and \<open>fe_json\<close>, which tells a file that is not UTF-8
  from one that is not JSON, because the code treats the two differently. Following symbolic links
  (\<open>Path.resolve\<close>) is the parameter \<open>resolve\<close>, from a text to a normal absolute path.
\<close>

section \<open>Safe roots\<close>

definition EXACT_DENY :: "string list" where
  "EXACT_DENY =
     [''/'', ''/var'', ''/usr'', ''/tmp'', ''/opt'', ''/home'', ''/etc'', ''/root'', ''/var/tmp'', ''/var/lib'',
      ''/usr/local'', ''/usr/bin'']"

definition PREFIX_DENY :: "string list" where
  "PREFIX_DENY =
     [''/home'', ''/root'', ''/proc'', ''/sys'', ''/dev'', ''/boot'', ''/etc'', ''/bin'', ''/sbin'', ''/lib'', ''/lib64'',
      ''/usr'']"

definition DISCLOSURE_FORBIDDEN :: "string list" where
  "DISCLOSURE_FORBIDDEN = [''/home/vantioai'', ''vantio-sandbox'', ''absolute_control/secret.token'']"

text \<open>The named parts of a path: what lies between the slashes, without empty parts and dots.\<close>

definition pure_parts :: "string \<Rightarrow> string list" where
  "pure_parts p = filter (\<lambda>q. q \<noteq> [] \<and> q \<noteq> ''.'') (py_split (CHR ''/'') p)"

definition root_error :: "string \<Rightarrow> string \<Rightarrow> InstallError" where
  "root_error label msg = install_error (label @ msg) 10 ''FAILED_SAFE''"

definition assert_safe_root :: "(string \<Rightarrow> string) \<Rightarrow> string \<Rightarrow> string \<Rightarrow> InstallError + string" where
  "assert_safe_root resolve label val =
     (if val = [] \<or> char_of (0 :: nat) \<in> set val \<or> prefix ''~'' val then
        Inl (root_error label '' must be an absolute path.'')
      else if \<not> prefix ''/'' val \<or> ''..'' \<in> set (pure_parts val) then
        Inl (root_error label '' must be an absolute path with no parent segments.'')
      else
        (let txt = resolve val in
         if txt \<in> set EXACT_DENY \<or> length (pure_parts txt) < 3 then
           Inl (root_error label '' is a dangerous root and cannot be used as an install path.'')
         else if list_ex (\<lambda>pre. txt = pre \<or> prefix (pre @ ''/'') txt) PREFIX_DENY then
           Inl (root_error label '' is under a protected system path and cannot be used.'')
         else if list_ex (\<lambda>needle. sublist needle txt) DISCLOSURE_FORBIDDEN then
           Inl (root_error label '' contains a path the disclosure gate refuses.'')
         else Inr txt))"

section \<open>Files\<close>

datatype json_doc = Not_Utf8 | Not_Json | Doc pyval
datatype json_file = No_File | File json_doc

type_synonym files = "string \<Rightarrow> bytes option"

record FileEnv =
  fe_sha :: "bytes \<Rightarrow> string"
  fe_json :: "bytes \<Rightarrow> json_doc"

definition json_at :: "FileEnv \<Rightarrow> files \<Rightarrow> string \<Rightarrow> json_file" where
  "json_at fe fs p = (case fs p of None \<Rightarrow> No_File | Some b \<Rightarrow> File (fe_json fe b))"

definition hash_named :: "FileEnv \<Rightarrow> files \<Rightarrow> string \<Rightarrow> string option" where
  "hash_named fe fs p = map_option (fe_sha fe) (fs p)"

section \<open>Pins\<close>

text \<open>The part of the pin table read from \<open>release/pe-canonical-seal.json\<close> is an argument.\<close>

record PublicPin =
  pp_archive_sha256 :: string
  pp_source_commit :: string
  pp_manifest_digest :: string
  pp_archive_basename :: string

record Pins =
  optics_cli_version :: string
  optics_cli_filename :: string
  optics_cli_sha256 :: string
  agent_sdk_npm_filename :: string
  agent_sdk_npm_sha256 :: string
  agent_sdk_py_wheel :: string
  agent_sdk_py_wheel_sha256 :: string
  agent_sdk_py_sdist :: string
  agent_sdk_py_sdist_sha256 :: string
  pe_source_commit :: string
  pe_archive_name :: string
  pe_archive_sha256 :: string
  pe_manifest_digest :: string
  pe_config_digest :: string
  pe_loader_sha256 :: string
  pe_layer_digests :: "string list"

definition hex_text :: "string \<Rightarrow> nat \<Rightarrow> bool" where
  "hex_text t n = (length t = n \<and> list_all (\<lambda>c. c \<in> set ''0123456789abcdef'') t)"

definition public_pin_ok :: "PublicPin \<Rightarrow> bool" where
  "public_pin_ok p =
     (prefix ''sha256:'' (pp_manifest_digest p) \<and> hex_text (drop 7 (pp_manifest_digest p)) 64
      \<and> CHR ''/'' \<notin> set (pp_archive_basename p) \<and> suffix ''.oci.tar'' (pp_archive_basename p)
      \<and> hex_text (pp_archive_sha256 p) 64 \<and> hex_text (pp_source_commit p) 40)"

definition FROZEN_PINS :: "PublicPin \<Rightarrow> Pins" where
  "FROZEN_PINS p =
     \<lparr>optics_cli_version = ''0.3.24'', optics_cli_filename = ''cli-0.3.24.tgz'',
      optics_cli_sha256 = ''82fe13ad6fc916ac67a670bd95fbf18b24389ecb383d81246e1d52cb96712a1f'',
      agent_sdk_npm_filename = ''agent-sdk-0.2.4.tgz'',
      agent_sdk_npm_sha256 = ''465eca5e0db9240530c15b6ab9725c5e302626cdbec541b31b4987d52d36c55c'',
      agent_sdk_py_wheel = ''vantio_agent_sdk-3.1.0-py3-none-any.whl'',
      agent_sdk_py_wheel_sha256 = ''dcf84cb3c4f144ece21032001657bfd9c91067faeffbefd0fb2ae19d6109dbeb'',
      agent_sdk_py_sdist = ''vantio_agent_sdk-3.1.0.tar.gz'',
      agent_sdk_py_sdist_sha256 = ''9f991291d5e44a23e17a9b0d7db24f6e7048d4c76cf0a9c37e35ccbcfe999c4f'',
      pe_source_commit = pp_source_commit p, pe_archive_name = pp_archive_basename p,
      pe_archive_sha256 = pp_archive_sha256 p, pe_manifest_digest = pp_manifest_digest p,
      pe_config_digest = ''sha256:1c7bbbd08a87639334b18e841e6b2be67e6de4c9864deaf768dfae723ea517b0'',
      pe_loader_sha256 = ''f19b43f26a4b42671bb8d4f0aeb4b97bac7f52ae78442241f6e30d8ef385694f'',
      pe_layer_digests =
        [''sha256:774043ccc8ccd0d0833a9ee0792142ab7ad93df971e59dd248fbf82db16d0150'',
         ''sha256:1a6bdb81d7e0937f4806047859066a399a52bfedfca104091f3d1f6a02fd176c'',
         ''sha256:769a1b3da566912c6a7f3766d159125b07fdeeba8a5e156c06c98e31ead5d2db'']\<rparr>"

section \<open>The bundle\<close>

definition optics_path :: "string \<Rightarrow> string" where "optics_path name = ''artifacts/optics/'' @ name"
definition pe_path :: "string \<Rightarrow> string" where "pe_path name = ''artifacts/phantom-engine/'' @ name"

record ArtifactPaths =
  ap_optics_cli :: string
  ap_agent_sdk_npm :: string
  ap_agent_sdk_py_wheel :: string
  ap_agent_sdk_py_sdist :: string
  ap_pe_archive :: string
  ap_pe_manifest :: string

definition artifact_paths :: "Pins \<Rightarrow> ArtifactPaths" where
  "artifact_paths pin =
     \<lparr>ap_optics_cli = optics_path (optics_cli_filename pin),
      ap_agent_sdk_npm = optics_path (agent_sdk_npm_filename pin),
      ap_agent_sdk_py_wheel = optics_path (agent_sdk_py_wheel pin),
      ap_agent_sdk_py_sdist = optics_path (agent_sdk_py_sdist pin),
      ap_pe_archive = pe_path (pe_archive_name pin),
      ap_pe_manifest = pe_path ''PHANTOM-ARTIFACT-MANIFEST.json''\<rparr>"

text \<open>An exception is the installer's own or any other, which leaves the program.\<close>

datatype py_exn = Refused InstallError | Py_Error string

definition load_manifest :: "FileEnv \<Rightarrow> files \<Rightarrow> py_exn + (string \<times> pyval) list" where
  "load_manifest fe fs =
     (case json_at fe fs ''MANIFEST.json'' of
        No_File \<Rightarrow> Inl (Refused (install_error ''Bundle is missing MANIFEST.json.'' 10 ''FAILED_SAFE''))
      | File Not_Utf8 \<Rightarrow> Inl (Py_Error ''UnicodeDecodeError'')
      | File Not_Json \<Rightarrow> Inl (Refused (install_error ''MANIFEST.json is not valid JSON.'' 10 ''FAILED_SAFE''))
      | File (Doc (PDict d)) \<Rightarrow> Inr d
      | File (Doc _) \<Rightarrow> Inl (Refused (install_error ''MANIFEST.json must be an object.'' 10 ''FAILED_SAFE'')))"

definition REQUIRED_MANIFEST_FIELDS :: "string list" where
  "REQUIRED_MANIFEST_FIELDS =
     [''manifest_version'', ''bundle_id'', ''contract_version'', ''proof_ceiling'', ''products'', ''artifacts'',
      ''artifact_verification'', ''configuration'', ''filesystem_paths'', ''privileges'', ''kernel_capabilities'',
      ''network_requirements'', ''workload_roots'', ''health'', ''coverage'', ''policy'', ''evidence'', ''transaction'',
      ''rollback'', ''uninstall'', ''residual_inspection'', ''independent_verification'', ''support_bundle'',
      ''version_compatibility'', ''unsupported_environments'', ''exclusions'']"

definition missing_manifest_fields :: "(string \<times> pyval) list \<Rightarrow> string list" where
  "missing_manifest_fields manifest = filter (\<lambda>field. field \<notin> set (map fst manifest)) REQUIRED_MANIFEST_FIELDS"

record SumRow =
  sr_path :: string
  sr_expected :: string
  sr_observed :: "string option"
  sr_match :: bool

text \<open>\<open>target rel\<close> is the resolved \<open>bundle / rel\<close>: whether it is inside the bundle and its bytes.\<close>

fun sum_rows :: "FileEnv \<Rightarrow> (string \<Rightarrow> bool \<times> bytes option) \<Rightarrow> string list \<Rightarrow> py_exn + SumRow list" where
  "sum_rows fe target [] = Inr []"
| "sum_rows fe target (line # rest) =
     (if py_strip spaces line = [] then sum_rows fe target rest
      else
        (let parts = py_words [] line in
         if length parts < 2 then
           Inl (Refused (install_error ''SHA256SUMS has a malformed line.'' 2 ''PREFLIGHT_BLOCKED''))
         else if \<not> fst (target (last parts)) then
           Inl (Refused (install_error ''SHA256SUMS points outside the bundle.'' 10 ''FAILED_SAFE''))
         else
           (let observed = map_option (fe_sha fe) (snd (target (last parts))) in
            bind_res (sum_rows fe target rest) (\<lambda>later.
              Inr (\<lparr>sr_path = last parts, sr_expected = hd parts, sr_observed = observed,
                    sr_match = (observed = Some (hd parts))\<rparr> # later)))))"

datatype text_file = No_Text | Undecodable | Text_File string

definition verify_sha256sums ::
  "FileEnv \<Rightarrow> (string \<Rightarrow> bool \<times> bytes option) \<Rightarrow> text_file \<Rightarrow> py_exn + SumRow list" where
  "verify_sha256sums fe target listing =
     (case listing of
        No_Text \<Rightarrow> Inl (Refused (install_error ''Bundle is missing SHA256SUMS.'' 2 ''PREFLIGHT_BLOCKED''))
      | Undecodable \<Rightarrow> Inl (Py_Error ''UnicodeDecodeError'')
      | Text_File t \<Rightarrow> sum_rows fe target (split_lines [] t))"

definition text_bytes :: "string \<Rightarrow> bytes" where
  "text_bytes s = map (\<lambda>c. word_of_nat (py_ord c)) s"

definition scan_disclosure :: "files \<Rightarrow> string \<Rightarrow> string list" where
  "scan_disclosure fs p =
     (case fs p of
        None \<Rightarrow> []
      | Some data \<Rightarrow> filter (\<lambda>needle. sublist (text_bytes needle) data) DISCLOSURE_FORBIDDEN)"

section \<open>JSON text\<close>

text \<open>\<open>json.dumps\<close> with its default \<open>ensure_ascii\<close>: \<open>isep\<close> and \<open>ksep\<close> are the two separators.\<close>

definition json_ascii_char :: "char \<Rightarrow> string" where
  "json_ascii_char c =
     (let n = py_ord c in
      if 126 < n then [CHR 0x5C, CHR ''u'', CHR ''0'', CHR ''0'', digit_char (n div 16), digit_char (n mod 16)]
      else json_char c)"

definition json_ascii_string :: "string \<Rightarrow> string" where
  "json_ascii_string s = [CHR 0x22] @ concat (map json_ascii_char s) @ [CHR 0x22]"

fun json_dumps :: "string \<Rightarrow> string \<Rightarrow> bool \<Rightarrow> (pyfloat \<Rightarrow> string) \<Rightarrow> pyval \<Rightarrow> string" where
  "json_dumps isep ksep by_key ft PNone = ''null''"
| "json_dumps isep ksep by_key ft (PBool b) = (if b then ''true'' else ''false'')"
| "json_dumps isep ksep by_key ft (PInt n) = int_text n"
| "json_dumps isep ksep by_key ft (PFloat f) = ft f"
| "json_dumps isep ksep by_key ft (PStr s) = json_ascii_string s"
| "json_dumps isep ksep by_key ft (PList vs) =
     ''['' @ py_join isep (map (json_dumps isep ksep by_key ft) vs) @ '']''"
| "json_dumps isep ksep by_key ft (PDict d) =
     (let entries = map (\<lambda>(k, v). (k, json_dumps isep ksep by_key ft v)) d in
      ''{'' @ py_join isep (map (\<lambda>(k, t). json_ascii_string k @ ksep @ t) (if by_key then sort_key fst entries else entries))
      @ ''}'')"


section \<open>Values\<close>

text \<open>A value that cannot be asked for in a set, and the truth of a value.\<close>

fun unhashable :: "pyval \<Rightarrow> bool" where
  "unhashable (PList vs) = True"
| "unhashable (PDict d) = True"
| "unhashable _ = False"

fun truthy :: "pyval \<Rightarrow> bool" where
  "truthy PNone = False"
| "truthy (PBool b) = b"
| "truthy (PInt n) = (n \<noteq> 0)"
| "truthy (PFloat f) = (f \<noteq> Fin 0)"
| "truthy (PStr s) = (s \<noteq> [])"
| "truthy (PList vs) = (vs \<noteq> [])"
| "truthy (PDict d) = (d \<noteq> [])"

end
