(* ===== verification/Install_Verifier.thy ===== *)
theory Install_Verifier
  imports Install_Files Install_Engine_Props
begin

text \<open>
  \<open>vantio_install/verifier.py\<close>: the independent check of an evidence directory. It shares no code with the
  health report and the residual inspection of the installer; that both come to the same verdict
  is proved here. An exception (a set membership asked of a list or an object is a \<open>TypeError\<close>) is
  \<^const>\<open>Inl\<close> with its name.
\<close>

section \<open>The health, recomputed\<close>

definition recompute_health :: "HostSnapshot \<Rightarrow> InstallConfig \<Rightarrow> bool \<Rightarrow> string" where
  "recompute_health snapshot config limitations =
     (let probes = set (hs_probe_errors snapshot);
          optics = (if hs_optics_cli_version snapshot = Some optics_cli_version_pin then ''PASS''
                    else if hs_optics_cli_version snapshot \<in> {None, Some ''ABSENT''} then ''NOT_INSTALLED''
                    else ''FAIL'');
          view = enforcement_view snapshot config;
          path_deny = (if cf_path_deny config = ''disabled'' then ''NOT_ENABLED'' else ''FAIL'');
          otlp = (if cf_otlp config = ''DISABLED'' then ''NOT_ENABLED'' else ''FAIL'');
          containers = filter (\<lambda>row. cr_role row = ''phantom_engine'') (hs_containers snapshot);
          running = filter (\<lambda>row. cr_status row = ''running'') containers;
          container0 =
            (if ''container'' \<in> probes then ''UNKNOWN''
             else if containers = [] then ''NOT_INSTALLED''
             else if running = [] then ''FAIL''
             else if ''--enforce'' \<in> set (cr_cmd (hd running)) \<or> hs_enforce_flag snapshot \<or> cr_enforce (hd running)
             then ''FAIL'' else ''PASS'');
          container = container_after_enforce container0 snapshot view;
          loader =
            (if ''process'' \<in> probes then ''UNKNOWN''
             else if ''vantio-loader'' \<in> set (hs_processes snapshot) then ''PASS''
             else if container = ''NOT_INSTALLED'' then ''NOT_INSTALLED'' else ''FAIL'');
          maps =
            (if ''bpf'' \<in> probes then ''UNKNOWN''
             else if list_all (\<lambda>name. name \<in> set (hs_bpf_pins snapshot)) BPF_PINS then ''PASS''
             else if container = ''NOT_INSTALLED'' then ''NOT_INSTALLED'' else ''FAIL'');
          clsact =
            (if ''tc'' \<in> probes then ''UNKNOWN''
             else if cf_iface config \<noteq> [] \<and> cf_iface config \<in> set (hs_clsact_ifaces snapshot) then ''PASS''
             else if container = ''NOT_INSTALLED'' then ''NOT_INSTALLED'' else ''FAIL'');
          lsm = (if bpf_lsm_active (hs_active_lsm snapshot) then ''PASS'' else ''FAIL'');
          values = [optics, ev_component view, path_deny, otlp, container, loader, maps, clsact, lsm];
          required = [optics, container, loader, maps, clsact]
      in if list_ex (\<lambda>v. v = ''UNKNOWN'') values then ''UNKNOWN''
         else if list_ex (\<lambda>v. v = ''FAIL'') values then ''FAIL''
         else if list_ex (\<lambda>v. v \<in> {''NOT_INSTALLED'', ''NOT_TESTED''}) required then ''FAIL''
         else if limitations then apply_enforce_overall ''PASS_WITH_LIMITATIONS'' values
         else apply_enforce_overall ''PASS'' values)"

section \<open>Claims above the proof ceiling\<close>

definition FORBIDDEN_PROOF_STATES :: "string list" where
  "FORBIDDEN_PROOF_STATES =
     [''CUSTOMER_VALIDATED'', ''PROVED_EXTERNAL'', ''SHIPPED'', ''DESIGN_PARTNER_VALIDATED'']"

definition FORBIDDEN_CLAIMS :: "string list" where
  "FORBIDDEN_CLAIMS =
     [''customer_deployment'', ''stranger_host'', ''PE_enforce_mode'', ''OTLP_bounded_cycle'',
      ''formal_video_recordings_A_H'', ''ingress_egress_deny_matrix'', ''public_publication'', ''announcement'',
      ''Paid_plan'', ''certification_or_compliance'', ''FULL_resource_sufficiency'', ''GHCR_0.1.0_verified'',
      ''CUSTOMER_VALIDATED'', ''PROVED_EXTERNAL'', ''GA_0.2.0_internal_rebind_completed'']"

text \<open>\<open>item in {"PASS", "PROVED", "SHIPPED", True}\<close>: one equals \<open>True\<close>.\<close>

definition claim_value :: "pyval \<Rightarrow> bool" where
  "claim_value item =
     (item \<in> {PStr ''PASS'', PStr ''PROVED'', PStr ''SHIPPED'', PBool True, PInt 1, PFloat (Fin 1)})"

definition forbidden_state :: "pyval \<Rightarrow> bool" where
  "forbidden_state item = (case item of PStr s \<Rightarrow> s \<in> set FORBIDDEN_PROOF_STATES | _ \<Rightarrow> False)"

definition state_text :: "pyval \<Rightarrow> string" where
  "state_text item = (case item of PStr s \<Rightarrow> s | _ \<Rightarrow> [])"

text \<open>The hits of one key and its value, before the value itself is walked.\<close>

definition entry_hits :: "string \<Rightarrow> pyval \<Rightarrow> string + string list" where
  "entry_hits key item =
     (if key \<in> set FORBIDDEN_CLAIMS \<and> unhashable item then Inl ''TypeError''
      else if key = ''proof_state'' \<and> unhashable item then Inl ''TypeError''
      else Inr ((if key \<in> set FORBIDDEN_CLAIMS \<and> claim_value item then [key] else [])
                @ (if key = ''proof_state'' \<and> forbidden_state item then [state_text item] else [])))"

fun claim_hits :: "pyval \<Rightarrow> string + string list"
  and item_hits :: "(string \<times> pyval) list \<Rightarrow> string + string list"
  and list_hits :: "pyval list \<Rightarrow> string + string list" where
  "claim_hits (PDict d) = item_hits d"
| "claim_hits (PList vs) = list_hits vs"
| "claim_hits (PStr s) = Inr (if s \<in> set FORBIDDEN_PROOF_STATES then [s] else [])"
| "claim_hits _ = Inr []"
| "item_hits [] = Inr []"
| "item_hits ((key, item) # rest) =
     bind_res (entry_hits key item) (\<lambda>here.
     bind_res (claim_hits item) (\<lambda>inner.
     bind_res (item_hits rest) (\<lambda>later. Inr (here @ inner @ later))))"
| "list_hits [] = Inr []"
| "list_hits (item # rest) =
     bind_res (claim_hits item) (\<lambda>inner. bind_res (list_hits rest) (\<lambda>later. Inr (inner @ later)))"

section \<open>What is left, recomputed\<close>

definition residual_rows ::
  "HostSnapshot \<Rightarrow> string \<Rightarrow> string \<Rightarrow> tree option option \<Rightarrow> bpffs option \<Rightarrow> (string \<times> string) list option" where
  "residual_rows snapshot scope iface pre fs =
     (if hs_probe_errors snapshot \<noteq> [] then None
      else
        (let pe = (scope \<in> {''pe'', ''all''});
             live = (case fs of None \<Rightarrow> ([], []) | Some b \<Rightarrow> scan_known_pins b);
             recorded = set (hs_bpf_pins snapshot) \<union> (if snd live = [] then set (fst live) else {});
             unreadable = (pe \<and> snd live \<noteq> []);
             items =
               (if pe then
                  map (\<lambda>row. (''container'', [])) (filter (\<lambda>row. cr_role row = ''phantom_engine'') (hs_containers snapshot))
                  @ map (\<lambda>row. (''image'', [])) (filter (\<lambda>row. im_role row = ''phantom_engine'') (hs_images snapshot))
                  @ map (\<lambda>name. (''bpf_pin'', name)) (filter (\<lambda>name. name \<in> recorded) BPF_PINS)
                  @ (if iface \<noteq> [] \<and> iface \<in> set (hs_clsact_ifaces snapshot) then [(''clsact'', [])] else [])
                  @ (if ''vantio-loader'' \<in> set (hs_processes snapshot) then [(''process'', [])] else [])
                else [])
               @ (if scope \<in> {''optics'', ''all''} then
                    version_item ''optics_cli'' (hs_optics_cli_version snapshot)
                    @ version_item ''agent_sdk_npm'' (hs_agent_sdk_npm_version snapshot)
                    @ version_item ''agent_sdk_py'' (hs_agent_sdk_py_version snapshot)
                    @ (case pre of
                         None \<Rightarrow> []
                       | Some p \<Rightarrow> in_prefix optics_cli_residual_items p @ in_prefix agent_sdk_residual_items p)
                  else [])
         in if unreadable \<and> items = [] then None else Some items))"

section \<open>The verification\<close>

record Evidence =
  evd_tx :: json_file
  evd_preflight :: json_file
  evd_plan :: json_file
  evd_health :: json_file
  evd_residual :: json_file
  evd_exit :: json_file
  evd_artifact_verification :: bool
  evd_snapshot_file :: bool
  evd_snapshot :: "HostSnapshot option"
  evd_config :: InstallConfig
  evd_prefix :: "string option"

text \<open>What the verifier reads of the host: the tree below a prefix and the pins.\<close>

record VerifierHost =
  vh_resolve :: "string \<Rightarrow> string"
  vh_tree :: "string \<Rightarrow> tree option"
  vh_bpffs :: bpffs

record VRow =
  vr_id :: string
  vr_result :: string
  vr_fields :: "(string \<times> pyval) list"

definition load_doc :: "json_file \<Rightarrow> string + (string \<times> pyval) list option" where
  "load_doc f =
     (case f of
        File Not_Utf8 \<Rightarrow> Inl ''UnicodeDecodeError''
      | File (Doc (PDict d)) \<Rightarrow> Inr (Some d)
      | _ \<Rightarrow> Inr None)"

definition load_or_empty :: "json_file \<Rightarrow> string + (string \<times> pyval) list" where
  "load_or_empty f = bind_res (load_doc f) (\<lambda>d. Inr (case d of None \<Rightarrow> [] | Some m \<Rightarrow> m))"

definition evidence_missing :: "Evidence \<Rightarrow> string list" where
  "evidence_missing e =
     (if evd_tx e = No_File then [''TRANSACTION.json''] else [])
     @ (if evd_preflight e = No_File then [''PREFLIGHT.json''] else [])
     @ (if evd_plan e = No_File then [''PLAN.json''] else [])
     @ (if evd_health e = No_File then [''HEALTH.json''] else [])
     @ (if \<not> evd_artifact_verification e then [''ARTIFACT-VERIFICATION.json''] else [])
     @ (if evd_residual e = No_File then [''RESIDUAL.json''] else [])
     @ (if \<not> evd_snapshot_file e then [''HOST-SNAPSHOT.json''] else [])"

text \<open>\<open>list(tx.get("limitations") or [])\<close>: only whether the list is empty matters.\<close>

definition limitations_given :: "pyval \<Rightarrow> string + bool" where
  "limitations_given v =
     (if \<not> truthy v then Inr False
      else case v of PList _ \<Rightarrow> Inr True | PStr _ \<Rightarrow> Inr True | PDict _ \<Rightarrow> Inr True | _ \<Rightarrow> Inl ''TypeError'')"

definition success_text :: "pyval \<Rightarrow> bool" where
  "success_text v = (v \<in> {PStr ''PASS'', PStr ''PASS_WITH_LIMITATIONS''})"

definition health_row :: "pyval \<Rightarrow> string \<Rightarrow> VRow" where
  "health_row stated recomputed =
     \<lparr>vr_id = ''recompute-health'',
      vr_result =
        (if recomputed = ''UNKNOWN'' \<and> stated = PStr ''UNKNOWN'' then ''UNKNOWN''
         else if stated = PStr recomputed
              \<and> (\<not> success_text stated \<or> recomputed \<in> {''PASS'', ''PASS_WITH_LIMITATIONS''}) then ''PASS''
         else ''FAIL''),
      vr_fields = [(''stated'', stated), (''recomputed'', PStr recomputed)]\<rparr>"

text \<open>A scope that is no text is none of the scopes, whatever its text is.\<close>

definition scope_text :: "pyval \<Rightarrow> string" where
  "scope_text v = (if \<not> truthy v then ''all'' else case v of PStr s \<Rightarrow> s | _ \<Rightarrow> [])"

definition residual_row :: "pyval \<Rightarrow> (string \<times> string) list option \<Rightarrow> VRow" where
  "residual_row stated items =
     (case items of
        None \<Rightarrow> \<lparr>vr_id = ''recompute-residual'', vr_result = ''UNKNOWN'', vr_fields = []\<rparr>
      | Some rows \<Rightarrow>
          (let recomputed = (if rows = [] then ''EMPTY'' else ''RESIDUAL_PRESENT'');
               ok = (if stated = PStr ''EMPTY'' \<and> rows \<noteq> [] then False
                     else stated = PStr recomputed \<or> stated = PStr ''UNKNOWN'')
           in \<lparr>vr_id = ''recompute-residual'', vr_result = (if ok then ''PASS'' else ''FAIL''),
               vr_fields = [(''stated'', stated), (''recomputed'', PStr recomputed)]\<rparr>))"

text \<open>\<open>_configured_prefix\<close>: the safe prefix, and whether a configured one was refused.\<close>

definition configured_prefix :: "VerifierHost \<Rightarrow> string option \<Rightarrow> string option \<times> bool" where
  "configured_prefix vh raw =
     (case raw of
        None \<Rightarrow> (None, False)
      | Some t \<Rightarrow>
          if py_strip spaces t = [] then (None, False)
          else (case assert_safe_root (vh_resolve vh) ''prefix'' t of Inl _ \<Rightarrow> (None, True) | Inr p \<Rightarrow> (Some p, False)))"

definition snapshot_rows ::
  "Evidence \<Rightarrow> VerifierHost \<Rightarrow> (string \<times> pyval) list \<Rightarrow> (string \<times> pyval) list \<Rightarrow> (string \<times> pyval) list
     \<Rightarrow> string + VRow list" where
  "snapshot_rows e vh tx health residual =
     (case evd_snapshot e of
        None \<Rightarrow> Inr [\<lparr>vr_id = ''recompute-health'', vr_result = ''UNKNOWN'', vr_fields = []\<rparr>]
      | Some snapshot \<Rightarrow>
          bind_res (limitations_given (dict_get tx ''limitations'')) (\<lambda>limits.
            (let stated = dict_get health ''overall''; (pre, blocked) = configured_prefix vh (evd_prefix e) in
             if unhashable stated then Inl ''TypeError''
             else
               Inr [health_row stated (recompute_health snapshot (evd_config e) limits),
                    residual_row (dict_get residual ''result'')
                      (if blocked then None
                       else residual_rows snapshot (scope_text (dict_get residual ''scope'')) (cf_iface (evd_config e))
                              (map_option (vh_tree vh) pre) (Some (vh_bpffs vh)))])))"

fun all_hits :: "json_file list \<Rightarrow> string + string list" where
  "all_hits [] = Inr []"
| "all_hits (f # fs) =
     bind_res (load_doc f) (\<lambda>d.
     bind_res (case d of None \<Rightarrow> Inr [] | Some m \<Rightarrow> claim_hits (PDict m)) (\<lambda>here.
     bind_res (all_hits fs) (\<lambda>later. Inr (here @ later))))"

definition ceiling_hits :: "pyval \<Rightarrow> string + string list" where
  "ceiling_hits state =
     (if unhashable state then Inl ''TypeError''
      else if state \<in> {PNone, PStr ''NOT_PROVED'', PStr ''UNKNOWN''} then Inr []
      else if forbidden_state state \<or> state = PStr ''INTERNAL_CLEAN_HOST_PROOF'' then Inr [state_text state]
      else Inr [])"

definition verdict_of :: "VRow list \<Rightarrow> string" where
  "verdict_of rows =
     (if list_ex (\<lambda>row. vr_result row = ''FAIL'') rows then ''FAIL''
      else if list_ex (\<lambda>row. vr_result row = ''UNKNOWN'') rows then ''UNKNOWN''
      else ''PASS'')"

definition presence_row :: "Evidence \<Rightarrow> VRow" where
  "presence_row e =
     \<lparr>vr_id = ''evidence-present'', vr_result = (if evidence_missing e \<noteq> [] then ''FAIL'' else ''PASS''),
      vr_fields = [(''missing'', PList (map PStr (evidence_missing e)))]\<rparr>"

definition rehash_row :: "FileEnv \<Rightarrow> Pins \<Rightarrow> files \<Rightarrow> VRow" where
  "rehash_row fe pin bundle =
     (let archive = (hash_named fe bundle (ap_pe_archive (artifact_paths pin)) = Some (pe_archive_sha256 pin));
          cli = (hash_named fe bundle (ap_optics_cli (artifact_paths pin)) = Some (optics_cli_sha256 pin))
      in \<lparr>vr_id = ''rehash-artifacts'', vr_result = (if archive \<and> cli then ''PASS'' else ''FAIL''),
          vr_fields = [(''archive_match'', PBool archive), (''cli_match'', PBool cli)]\<rparr>)"

definition exit_row :: "json_file \<Rightarrow> string + VRow" where
  "exit_row f =
     bind_res (load_doc f) (\<lambda>d.
       Inr \<lparr>vr_id = ''installer-exit-ignored'', vr_result = ''PASS'',
            vr_fields = [(''exit_file_present'', PBool (f \<noteq> No_File)),
                         (''recorded_exit_code'', (case d of None \<Rightarrow> PNone | Some m \<Rightarrow> dict_get m ''exit_code'')),
                         (''trusted'', PBool False)]\<rparr>)"

definition verify_evidence ::
  "FileEnv \<Rightarrow> Pins \<Rightarrow> VerifierHost \<Rightarrow> Evidence \<Rightarrow> files \<Rightarrow> string + string \<times> VRow list" where
  "verify_evidence fe pin vh e bundle =
     bind_res (load_or_empty (evd_tx e)) (\<lambda>tx.
     bind_res (load_or_empty (evd_health e)) (\<lambda>health.
     bind_res (load_or_empty (evd_residual e)) (\<lambda>residual.
     bind_res (exit_row (evd_exit e)) (\<lambda>exit.
     bind_res (snapshot_rows e vh tx health residual) (\<lambda>rows.
     bind_res (all_hits [evd_tx e, evd_health e, evd_plan e, evd_preflight e]) (\<lambda>hits.
     bind_res (ceiling_hits (dict_get tx ''proof_state'')) (\<lambda>more_hits.
       (let found = hits @ more_hits;
            checks = [presence_row e, rehash_row fe pin bundle, exit] @ rows
              @ [\<lparr>vr_id = ''claim-ceiling'', vr_result = (if found \<noteq> [] then ''FAIL'' else ''PASS''),
                   vr_fields = [(''hits'', PList (map PStr found))]\<rparr>]
        in Inr (verdict_of checks, checks)))))))))"

section \<open>Lemmas\<close>

lemma derive_container_plain:
  "derive_container s view =
     container_after_enforce
       (if ''container'' \<in> set (hs_probe_errors s) then ''UNKNOWN''
        else if engine_containers s = [] then ''NOT_INSTALLED''
        else if running_containers s = [] then ''FAIL''
        else if row_enforced s (hd (running_containers s)) then ''FAIL'' else ''PASS'') s view"
  by (cases "running_containers s") (auto simp: derive_container_def)

lemma recompute_agrees:
  "recompute_health snapshot config (limitations \<noteq> []) = h_overall (derive snapshot config limitations)"
proof -
  let ?c = "derive_components snapshot config"
  let ?view = "enforcement_view snapshot config"
  have s: "filter (\<lambda>row. cr_role row = ''phantom_engine'') (hs_containers snapshot) = engine_containers snapshot"
    "filter (\<lambda>row. cr_status row = ''running'') (engine_containers snapshot) = running_containers snapshot"
    "(''--enforce'' \<in> set (cr_cmd (hd (running_containers snapshot))) \<or> hs_enforce_flag snapshot
        \<or> cr_enforce (hd (running_containers snapshot))) = row_enforced snapshot (hd (running_containers snapshot))"
    by (simp_all add: engine_containers_def running_containers_def row_enforced_def)
  have v: "list_ex P [c_optics_cli ?c, c_enforcement ?c, c_path_deny ?c, c_otlp ?c, c_pe_container ?c,
      c_pe_loader_process ?c, c_bpf_maps_present ?c, c_tc_clsact_iface ?c, c_bpf_lsm ?c] = list_ex P (component_values ?c)" for P
    by (auto simp: component_values_def)
  have a: "apply_enforce_overall w [c_optics_cli ?c, c_enforcement ?c, c_path_deny ?c, c_otlp ?c, c_pe_container ?c,
      c_pe_loader_process ?c, c_bpf_maps_present ?c, c_tc_clsact_iface ?c, c_bpf_lsm ?c]
      = apply_enforce_overall w (component_values ?c)" for w
    unfolding apply_enforce_overall_def v ..
  have "recompute_health snapshot config limits =
      (if list_ex (\<lambda>v. v = ''UNKNOWN'') (component_values ?c) then ''UNKNOWN''
       else if list_ex (\<lambda>v. v = ''FAIL'') (component_values ?c) then ''FAIL''
       else if list_ex (\<lambda>v. v \<in> {''NOT_INSTALLED'', ''NOT_TESTED''})
            [c_optics_cli ?c, c_pe_container ?c, c_pe_loader_process ?c, c_bpf_maps_present ?c, c_tc_clsact_iface ?c]
       then ''FAIL''
       else if limits then apply_enforce_overall ''PASS_WITH_LIMITATIONS'' (component_values ?c)
       else apply_enforce_overall ''PASS'' (component_values ?c))" for limits
    unfolding v [symmetric] a [symmetric]
    unfolding recompute_health_def derive_components_def Let_def s derive_fact_def derive_container_plain
      Components.simps ..
  then show ?thesis
    by (simp add: derive_def derive_overall_def Let_def apply_enforce_overall_def)
qed

text \<open>A key and its value occur in a document, at any depth.\<close>

inductive occurs :: "string \<Rightarrow> pyval \<Rightarrow> pyval \<Rightarrow> bool" where
  entry: "(key, item) \<in> set d \<Longrightarrow> occurs key item (PDict d)"
| in_dict: "(k, v) \<in> set d \<Longrightarrow> occurs key item v \<Longrightarrow> occurs key item (PDict d)"
| in_list: "v \<in> set vs \<Longrightarrow> occurs key item v \<Longrightarrow> occurs key item (PList vs)"

lemma item_hits_Nil:
  "item_hits d = Inr [] \<longleftrightarrow> (\<forall>(key, item) \<in> set d. entry_hits key item = Inr [] \<and> claim_hits item = Inr [])"
  by (induction d) (auto simp: bind_res_Inr_iff)

lemma list_hits_Nil: "list_hits vs = Inr [] \<longleftrightarrow> (\<forall>v \<in> set vs. claim_hits v = Inr [])"
  by (induction vs) (auto simp: bind_res_Inr_iff)

lemma occurs_no_hits: "occurs key item v \<Longrightarrow> claim_hits v = Inr [] \<Longrightarrow> entry_hits key item = Inr []"
  by (induction rule: occurs.induct) (auto simp: item_hits_Nil list_hits_Nil)

lemma entry_hits_Nil:
  "entry_hits key item = Inr [] \<Longrightarrow>
     (key \<in> set FORBIDDEN_CLAIMS \<longrightarrow> \<not> claim_value item) \<and> (key = ''proof_state'' \<longrightarrow> \<not> forbidden_state item)"
  by (auto simp: entry_hits_def split: if_splits)

lemma all_hits_Nil:
  assumes "all_hits fs = Inr []" "f \<in> set fs" "f = File (Doc (PDict d))"
  shows "claim_hits (PDict d) = Inr []"
  using assms by (induction fs) (auto simp: bind_res_Inr_iff load_doc_def)

lemma verdict_pass: "verdict_of rows = ''PASS'' \<longleftrightarrow> (\<forall>row \<in> set rows. vr_result row \<notin> {''FAIL'', ''UNKNOWN''})"
  by (auto simp: verdict_of_def list_ex_iff)

lemma health_row_result: "vr_result (health_row stated r) \<in> {''PASS'', ''FAIL'', ''UNKNOWN''}"
  by (simp add: health_row_def)

lemma load_or_empty_doc: "load_or_empty f = Inr d \<Longrightarrow> d \<noteq> [] \<Longrightarrow> f = File (Doc (PDict d))"
  by (auto simp: load_or_empty_def load_doc_def split: json_file.splits json_doc.splits pyval.splits)

lemma evidence_missing_Nil:
  "evidence_missing e = [] \<longleftrightarrow> No_File \<notin> {evd_tx e, evd_preflight e, evd_plan e, evd_health e, evd_residual e}
     \<and> evd_artifact_verification e \<and> evd_snapshot_file e"
  by (auto simp: evidence_missing_def)

text \<open>A verification that passes, taken apart.\<close>

lemma verify_pass_rows:
  assumes "verify_evidence fe pin vh e bundle = Inr (''PASS'', checks)"
  obtains tx health residual limits snapshot pre where
    "load_or_empty (evd_tx e) = Inr tx" "load_or_empty (evd_health e) = Inr health"
    "load_or_empty (evd_residual e) = Inr residual" "limitations_given (dict_get tx ''limitations'') = Inr limits"
    "evd_snapshot e = Some snapshot" "configured_prefix vh (evd_prefix e) = (pre, False)"
    "vr_result (presence_row e) = ''PASS''" "vr_result (rehash_row fe pin bundle) = ''PASS''"
    "vr_result (health_row (dict_get health ''overall'') (recompute_health snapshot (evd_config e) limits)) = ''PASS''"
    "vr_result (residual_row (dict_get residual ''result'')
        (residual_rows snapshot (scope_text (dict_get residual ''scope'')) (cf_iface (evd_config e))
           (map_option (vh_tree vh) pre) (Some (vh_bpffs vh)))) = ''PASS''"
    "all_hits [evd_tx e, evd_health e, evd_plan e, evd_preflight e] = Inr []"
    "ceiling_hits (dict_get tx ''proof_state'') = Inr []"
proof -
  from assms obtain tx health residual exit rows hits extra where b:
    "load_or_empty (evd_tx e) = Inr tx" "load_or_empty (evd_health e) = Inr health"
    "load_or_empty (evd_residual e) = Inr residual" "exit_row (evd_exit e) = Inr exit"
    "snapshot_rows e vh tx health residual = Inr rows"
    "all_hits [evd_tx e, evd_health e, evd_plan e, evd_preflight e] = Inr hits"
    "ceiling_hits (dict_get tx ''proof_state'') = Inr extra"
    and p: "\<forall>row \<in> set ([presence_row e, rehash_row fe pin bundle, exit] @ rows
        @ [\<lparr>vr_id = ''claim-ceiling'', vr_result = (if hits @ extra \<noteq> [] then ''FAIL'' else ''PASS''),
             vr_fields = [(''hits'', PList (map PStr (hits @ extra)))]\<rparr>]). vr_result row \<notin> {''FAIL'', ''UNKNOWN''}"
    unfolding verify_evidence_def bind_res_Inr_iff Let_def by (auto simp: verdict_pass simp del: all_hits.simps)
  from p have h: "hits = []" "extra = []" by (auto split: if_splits)
  from p b(5) obtain snapshot where s: "evd_snapshot e = Some snapshot"
    by (auto simp: snapshot_rows_def split: option.splits)
  obtain pre blocked where cp: "configured_prefix vh (evd_prefix e) = (pre, blocked)" by fastforce
  from b(5) s cp obtain limits where l: "limitations_given (dict_get tx ''limitations'') = Inr limits"
    and r: "rows = [health_row (dict_get health ''overall'') (recompute_health snapshot (evd_config e) limits),
        residual_row (dict_get residual ''result'')
          (if blocked then None
           else residual_rows snapshot (scope_text (dict_get residual ''scope'')) (cf_iface (evd_config e))
                  (map_option (vh_tree vh) pre) (Some (vh_bpffs vh)))]"
    by (auto simp: snapshot_rows_def bind_res_Inr_iff Let_def split: if_splits)
  from p r have nb: "\<not> blocked" by (auto simp: residual_row_def)
  show thesis
  proof (rule that [OF b(1-3) l s])
    show "configured_prefix vh (evd_prefix e) = (pre, False)" using cp nb by simp
    show "vr_result (health_row (dict_get health ''overall'') (recompute_health snapshot (evd_config e) limits)) = ''PASS''"
      using p r health_row_result by fastforce
    show "vr_result (residual_row (dict_get residual ''result'')
        (residual_rows snapshot (scope_text (dict_get residual ''scope'')) (cf_iface (evd_config e))
           (map_option (vh_tree vh) pre) (Some (vh_bpffs vh)))) = ''PASS''"
      using p r nb by (auto simp: residual_row_def Let_def split: option.splits if_splits)
    show "vr_result (presence_row e) = ''PASS''" "vr_result (rehash_row fe pin bundle) = ''PASS''"
      using p by (auto simp: presence_row_def rehash_row_def Let_def split: if_splits)
    show "all_hits [evd_tx e, evd_health e, evd_plan e, evd_preflight e] = Inr []"
      "ceiling_hits (dict_get tx ''proof_state'') = Inr []" using b(6,7) h by simp_all
  qed
qed

text \<open>A text occurs as a value in a document, at any depth.\<close>

inductive says :: "string \<Rightarrow> pyval \<Rightarrow> bool" where
  itself: "says s (PStr s)"
| dict_value: "(k, v) \<in> set d \<Longrightarrow> says s v \<Longrightarrow> says s (PDict d)"
| list_value: "v \<in> set vs \<Longrightarrow> says s v \<Longrightarrow> says s (PList vs)"

text \<open>A document stays below the proof ceiling: no entry of a forbidden claim has a value that claims it, no proof state
  is a forbidden one, and neither is any text. The test of an entry is a set membership, which a list or an object
  does not survive.\<close>

definition below_ceiling :: "pyval \<Rightarrow> bool" where
  "below_ceiling v =
     ((\<forall>key item. occurs key item v \<longrightarrow>
         (key \<in> set FORBIDDEN_CLAIMS \<longrightarrow> \<not> unhashable item \<and> \<not> claim_value item)
         \<and> (key = ''proof_state'' \<longrightarrow> \<not> unhashable item \<and> \<not> forbidden_state item))
      \<and> (\<forall>s. says s v \<longrightarrow> s \<notin> set FORBIDDEN_PROOF_STATES))"

lemma entry_hits_ok:
  "entry_hits key item = Inr [] \<longleftrightarrow>
     (key \<in> set FORBIDDEN_CLAIMS \<longrightarrow> \<not> unhashable item \<and> \<not> claim_value item)
     \<and> (key = ''proof_state'' \<longrightarrow> \<not> unhashable item \<and> \<not> forbidden_state item)"
  by (auto simp: entry_hits_def)

lemma says_no_hits: "says s v \<Longrightarrow> claim_hits v = Inr [] \<Longrightarrow> s \<notin> set FORBIDDEN_PROOF_STATES"
  by (induction rule: says.induct) (auto simp: item_hits_Nil list_hits_Nil split: if_splits)

lemma below_ceiling_parts:
  "below_ceiling (PDict d) \<Longrightarrow> (key, item) \<in> set d \<Longrightarrow> entry_hits key item = Inr [] \<and> below_ceiling item"
  "below_ceiling (PList vs) \<Longrightarrow> v \<in> set vs \<Longrightarrow> below_ceiling v"
  unfolding below_ceiling_def entry_hits_ok by (blast intro: occurs.intros says.intros)+

lemma below_ceiling_no_hits: "below_ceiling v \<Longrightarrow> claim_hits v = Inr []"
proof (induction v)
  case (PStr s)
  then show ?case by (auto simp: below_ceiling_def intro: says.intros)
next
  case (PDict d)
  then have "claim_hits item = Inr []" if "(key, item) \<in> set d" for key item
    using that below_ceiling_parts(1) [OF PDict.prems that] by fastforce
  then show ?case using below_ceiling_parts(1) [OF PDict.prems] by (auto simp: item_hits_Nil)
next
  case (PList vs)
  then show ?case using below_ceiling_parts(2) by (auto simp: list_hits_Nil)
qed simp_all

lemma claim_hits_none: "claim_hits v = Inr [] \<longleftrightarrow> below_ceiling v"
  using below_ceiling_no_hits occurs_no_hits says_no_hits unfolding below_ceiling_def entry_hits_ok by blast

text \<open>The object a document holds; anything else counts as the empty one.\<close>

definition doc_of :: "json_file \<Rightarrow> (string \<times> pyval) list" where
  "doc_of f = (case f of File (Doc (PDict d)) \<Rightarrow> d | _ \<Rightarrow> [])"

lemma load_or_empty_iff: "load_or_empty f = Inr d \<longleftrightarrow> f \<noteq> File Not_Utf8 \<and> d = doc_of f"
  by (auto simp: load_or_empty_def load_doc_def doc_of_def split: json_file.splits json_doc.splits pyval.splits)

lemma load_doc_outcome:
  "load_doc f = Inl x \<Longrightarrow> f = File Not_Utf8"
  "load_doc f = Inr None \<Longrightarrow> f \<noteq> File Not_Utf8 \<and> doc_of f = []"
  "load_doc f = Inr (Some m) \<Longrightarrow> f \<noteq> File Not_Utf8 \<and> doc_of f = m"
  by (auto simp: load_doc_def doc_of_def split: json_file.splits json_doc.splits pyval.splits)

lemma all_hits_none:
  "all_hits fs = Inr [] \<longleftrightarrow> (\<forall>f \<in> set fs. f \<noteq> File Not_Utf8 \<and> below_ceiling (PDict (doc_of f)))"
proof -
  have empty: "below_ceiling (PDict [])" unfolding claim_hits_none [symmetric] by simp
  have "bind_res (load_doc f) (\<lambda>d. case d of None \<Rightarrow> Inr [] | Some m \<Rightarrow> claim_hits (PDict m)) = Inr []
      \<longleftrightarrow> f \<noteq> File Not_Utf8 \<and> below_ceiling (PDict (doc_of f))" for f
  proof (cases "load_doc f")
    case (Inl x)
    with load_doc_outcome(1) [OF Inl] show ?thesis by simp
  next
    case (Inr d)
    show ?thesis
    proof (cases d)
      case None
      with Inr empty load_doc_outcome(2) [of f] show ?thesis by simp
    next
      case (Some m)
      with Inr load_doc_outcome(3) [of f m] show ?thesis by (simp add: claim_hits_none del: claim_hits.simps)
    qed
  qed
  note one = this
  have more: "all_hits (f # fs) = Inr [] \<longleftrightarrow>
      bind_res (load_doc f) (\<lambda>d. case d of None \<Rightarrow> Inr [] | Some m \<Rightarrow> claim_hits (PDict m)) = Inr [] \<and> all_hits fs = Inr []" for f fs
    by (cases "load_doc f") (auto simp: bind_res_Inr_iff)
  show ?thesis
  proof (induction fs)
    case (Cons f fs)
    then show ?case unfolding more one by simp
  qed simp
qed

definition listable :: "pyval \<Rightarrow> bool" where
  "listable v = (\<not> truthy v \<or> (\<exists>l. v = PList l) \<or> (\<exists>s. v = PStr s) \<or> (\<exists>d. v = PDict d))"

lemma limitations_given_iff: "limitations_given v = Inr limits \<longleftrightarrow> listable v \<and> limits = truthy v"
  by (auto simp: limitations_given_def listable_def split: pyval.splits)

lemma health_row_pass: "vr_result (health_row stated r) = ''PASS'' \<longleftrightarrow> stated = PStr r \<and> r \<noteq> ''UNKNOWN''"
  by (auto simp: health_row_def success_text_def)

lemma residual_row_pass:
  "vr_result (residual_row stated items) = ''PASS'' \<longleftrightarrow>
     (\<exists>rows. items = Some rows \<and> stated \<in> {PStr (if rows = [] then ''EMPTY'' else ''RESIDUAL_PRESENT''), PStr ''UNKNOWN''})"
proof (cases items)
  case (Some rows)
  then show ?thesis by (cases "rows = []") (auto simp: residual_row_def Let_def)
qed (simp add: residual_row_def)

lemma ceiling_hits_none:
  "ceiling_hits state = Inr [] \<longleftrightarrow>
     \<not> unhashable state \<and> state \<notin> PStr ` (set FORBIDDEN_PROOF_STATES \<union> {''INTERNAL_CLEAN_HOST_PROOF''})"
  by (auto simp: ceiling_hits_def forbidden_state_def FORBIDDEN_PROOF_STATES_def state_text_def split: pyval.splits)

lemma exit_row_passes: "f \<noteq> File Not_Utf8 \<Longrightarrow> \<exists>x. exit_row f = Inr x \<and> vr_result x = ''PASS''"
  using load_doc_outcome(1) [of f] by (cases "load_doc f") (auto simp: exit_row_def)

lemma verify_exit: "verify_evidence fe pin vh e bundle = Inr r \<Longrightarrow> evd_exit e \<noteq> File Not_Utf8"
  by (auto simp: verify_evidence_def bind_res_Inr_iff exit_row_def load_doc_def)

lemma agrees: "recompute_health snapshot config limits
    = h_overall (derive snapshot config (if limits then [''limitation''] else []))"
  using recompute_agrees [of snapshot config "if limits then [''limitation''] else []"] by (cases limits) auto

text \<open>The evidence of a verification that passes.\<close>

definition sound_evidence :: "FileEnv \<Rightarrow> Pins \<Rightarrow> VerifierHost \<Rightarrow> Evidence \<Rightarrow> files \<Rightarrow> bool" where
  "sound_evidence fe pin vh e bundle =
     (let tx = doc_of (evd_tx e); health = doc_of (evd_health e); residual = doc_of (evd_residual e);
          limits = dict_get tx ''limitations'' in
      No_File \<notin> {evd_tx e, evd_preflight e, evd_plan e, evd_health e, evd_residual e}
      \<and> evd_artifact_verification e \<and> evd_snapshot_file e
      \<and> File Not_Utf8 \<notin> {evd_tx e, evd_preflight e, evd_plan e, evd_health e, evd_residual e, evd_exit e}
      \<and> hash_named fe bundle (ap_pe_archive (artifact_paths pin)) = Some (pe_archive_sha256 pin)
      \<and> hash_named fe bundle (ap_optics_cli (artifact_paths pin)) = Some (optics_cli_sha256 pin)
      \<and> listable limits
      \<and> (\<exists>snapshot pre rows overall.
           evd_snapshot e = Some snapshot \<and> configured_prefix vh (evd_prefix e) = (pre, False)
           \<and> overall = h_overall (derive snapshot (evd_config e) (if truthy limits then [''limitation''] else []))
           \<and> overall \<noteq> ''UNKNOWN'' \<and> dict_get health ''overall'' = PStr overall
           \<and> residual_rows snapshot (scope_text (dict_get residual ''scope'')) (cf_iface (evd_config e))
                (map_option (vh_tree vh) pre) (Some (vh_bpffs vh)) = Some rows
           \<and> dict_get residual ''result'' \<in> {PStr (if rows = [] then ''EMPTY'' else ''RESIDUAL_PRESENT''), PStr ''UNKNOWN''})
      \<and> \<not> unhashable (dict_get tx ''proof_state'')
      \<and> dict_get tx ''proof_state'' \<notin> PStr ` (set FORBIDDEN_PROOF_STATES \<union> {''INTERNAL_CLEAN_HOST_PROOF''})
      \<and> (\<forall>f \<in> {evd_tx e, evd_health e, evd_plan e, evd_preflight e}. below_ceiling (PDict (doc_of f))))"

lemma verify_pass_sound:
  assumes "verify_evidence fe pin vh e bundle = Inr (''PASS'', checks)"
  shows "sound_evidence fe pin vh e bundle"
proof (rule verify_pass_rows [OF assms])
  fix tx health residual limits snapshot pre
  assume a: "load_or_empty (evd_tx e) = Inr tx" "load_or_empty (evd_health e) = Inr health"
    "load_or_empty (evd_residual e) = Inr residual" "limitations_given (dict_get tx ''limitations'') = Inr limits"
    "evd_snapshot e = Some snapshot" "configured_prefix vh (evd_prefix e) = (pre, False)"
    "vr_result (presence_row e) = ''PASS''" "vr_result (rehash_row fe pin bundle) = ''PASS''"
    and hr: "vr_result (health_row (dict_get health ''overall'') (recompute_health snapshot (evd_config e) limits)) = ''PASS''"
    and rr: "vr_result (residual_row (dict_get residual ''result'')
        (residual_rows snapshot (scope_text (dict_get residual ''scope'')) (cf_iface (evd_config e))
           (map_option (vh_tree vh) pre) (Some (vh_bpffs vh)))) = ''PASS''"
    and hits: "all_hits [evd_tx e, evd_health e, evd_plan e, evd_preflight e] = Inr []"
    and ceiling: "ceiling_hits (dict_get tx ''proof_state'') = Inr []"
  have docs: "tx = doc_of (evd_tx e)" "health = doc_of (evd_health e)" "residual = doc_of (evd_residual e)"
    "evd_residual e \<noteq> File Not_Utf8" "evd_exit e \<noteq> File Not_Utf8"
    using a(1-3) verify_exit [OF assms] by (simp_all add: load_or_empty_iff)
  have "evidence_missing e = []" "hash_named fe bundle (ap_pe_archive (artifact_paths pin)) = Some (pe_archive_sha256 pin)"
    "hash_named fe bundle (ap_optics_cli (artifact_paths pin)) = Some (optics_cli_sha256 pin)"
    using a(7,8) by (auto simp: presence_row_def rehash_row_def Let_def split: if_splits)
  with docs a(4-6) hr rr hits ceiling show ?thesis
    unfolding sound_evidence_def Let_def health_row_pass residual_row_pass all_hits_none ceiling_hits_none
      limitations_given_iff agrees evidence_missing_Nil by auto
qed

lemma sound_evidence_passes:
  assumes "sound_evidence fe pin vh e bundle"
  shows "\<exists>checks. verify_evidence fe pin vh e bundle = Inr (''PASS'', checks)"
proof -
  let ?tx = "doc_of (evd_tx e)" and ?health = "doc_of (evd_health e)" and ?residual = "doc_of (evd_residual e)"
  obtain snapshot pre rows where s: "evd_snapshot e = Some snapshot" "configured_prefix vh (evd_prefix e) = (pre, False)"
    and h: "vr_result (health_row (dict_get ?health ''overall'')
        (recompute_health snapshot (evd_config e) (truthy (dict_get ?tx ''limitations'')))) = ''PASS''"
      "\<not> unhashable (dict_get ?health ''overall'')"
    and r: "residual_rows snapshot (scope_text (dict_get ?residual ''scope'')) (cf_iface (evd_config e))
        (map_option (vh_tree vh) pre) (Some (vh_bpffs vh)) = Some rows"
      "vr_result (residual_row (dict_get ?residual ''result'') (Some rows)) = ''PASS''"
    using assms unfolding sound_evidence_def Let_def health_row_pass residual_row_pass agrees
    by auto
  have docs: "load_or_empty (evd_tx e) = Inr ?tx" "load_or_empty (evd_health e) = Inr ?health"
    "load_or_empty (evd_residual e) = Inr ?residual"
    "all_hits [evd_tx e, evd_health e, evd_plan e, evd_preflight e] = Inr []"
    "ceiling_hits (dict_get ?tx ''proof_state'') = Inr []"
    "limitations_given (dict_get ?tx ''limitations'') = Inr (truthy (dict_get ?tx ''limitations''))"
    using assms unfolding sound_evidence_def Let_def load_or_empty_iff all_hits_none ceiling_hits_none limitations_given_iff
    by auto
  obtain exit where x: "exit_row (evd_exit e) = Inr exit" "vr_result exit = ''PASS''"
    using assms exit_row_passes [of "evd_exit e"] by (auto simp: sound_evidence_def Let_def)
  have rows: "snapshot_rows e vh ?tx ?health ?residual
      = Inr [health_row (dict_get ?health ''overall'') (recompute_health snapshot (evd_config e) (truthy (dict_get ?tx ''limitations''))),
             residual_row (dict_get ?residual ''result'') (Some rows)]"
    using s h(2) r(1) docs(6) by (simp add: snapshot_rows_def)
  have "vr_result (presence_row e) = ''PASS''" "vr_result (rehash_row fe pin bundle) = ''PASS''"
    using assms evidence_missing_Nil [of e] by (simp_all add: sound_evidence_def Let_def presence_row_def rehash_row_def)
  with h(1) r(2) x(2) show ?thesis
    unfolding verify_evidence_def docs x(1) rows Let_def bind_res_simps by (auto simp: verdict_pass)
qed

section \<open>Properties\<close>

text \<open>
  C18: the health the verifier recomputes from a snapshot is, for every snapshot, configuration and list
  of limitations, the overall health of the report the installer derives from them.
\<close>

theorem verifier_agrees_health:
  "recompute_health snapshot config (limitations \<noteq> []) = h_overall (derive snapshot config limitations)"
  by (rule recompute_agrees)

text \<open>
  C17: a verification passes exactly when every required file is there and is UTF-8, the archive and the command line
  tool have the pinned digests, there is a snapshot and an accepted prefix, the stated health is the health the installer
  derives from the snapshot under the transaction's limitations and is not UNKNOWN, the host could be read, the stated
  residual is UNKNOWN or is EMPTY or RESIDUAL_PRESENT as the snapshot and the host show, and no document claims more
  than the proof ceiling at any depth. The recorded exit code of the installer plays no part. A stated residual UNKNOWN
  passes whatever is left, as the code has it.
\<close>

theorem verifier_pass_iff:
  "(\<exists>checks. verify_evidence fe pin vh e bundle = Inr (''PASS'', checks)) \<longleftrightarrow>
     (let tx = doc_of (evd_tx e); health = doc_of (evd_health e); residual = doc_of (evd_residual e);
          limits = dict_get tx ''limitations'' in
      No_File \<notin> {evd_tx e, evd_preflight e, evd_plan e, evd_health e, evd_residual e}
      \<and> evd_artifact_verification e \<and> evd_snapshot_file e
      \<and> File Not_Utf8 \<notin> {evd_tx e, evd_preflight e, evd_plan e, evd_health e, evd_residual e, evd_exit e}
      \<and> hash_named fe bundle (ap_pe_archive (artifact_paths pin)) = Some (pe_archive_sha256 pin)
      \<and> hash_named fe bundle (ap_optics_cli (artifact_paths pin)) = Some (optics_cli_sha256 pin)
      \<and> listable limits
      \<and> (\<exists>snapshot pre rows overall.
           evd_snapshot e = Some snapshot \<and> configured_prefix vh (evd_prefix e) = (pre, False)
           \<and> overall = h_overall (derive snapshot (evd_config e) (if truthy limits then [''limitation''] else []))
           \<and> overall \<noteq> ''UNKNOWN'' \<and> dict_get health ''overall'' = PStr overall
           \<and> residual_rows snapshot (scope_text (dict_get residual ''scope'')) (cf_iface (evd_config e))
                (map_option (vh_tree vh) pre) (Some (vh_bpffs vh)) = Some rows
           \<and> dict_get residual ''result'' \<in> {PStr (if rows = [] then ''EMPTY'' else ''RESIDUAL_PRESENT''), PStr ''UNKNOWN''})
      \<and> \<not> unhashable (dict_get tx ''proof_state'')
      \<and> dict_get tx ''proof_state'' \<notin> PStr ` (set FORBIDDEN_PROOF_STATES \<union> {''INTERNAL_CLEAN_HOST_PROOF''})
      \<and> (\<forall>f \<in> {evd_tx e, evd_health e, evd_plan e, evd_preflight e}. below_ceiling (PDict (doc_of f))))"
  using verify_pass_sound sound_evidence_passes unfolding sound_evidence_def by blast

text \<open>
  C40: the report a live installer writes when it finds leftovers says RESIDUAL_FOUND, a word the
  verifier does not know: no evidence with it passes, whatever the snapshot and the host hold.
\<close>

theorem verifier_rejects_live_residual:
  assumes "\<not> cx_fixture ctx" "rp_items report \<noteq> []" "rp_probe_errors report = []"
    and "load_or_empty (evd_residual e) = Inr residual"
    and "dict_get residual ''result'' = PStr (removal_verdict ctx report)"
  shows "verify_evidence fe pin vh e bundle \<noteq> Inr (''PASS'', checks)"
proof
  assume "verify_evidence fe pin vh e bundle = Inr (''PASS'', checks)"
  then show False
  proof (rule verify_pass_rows)
    fix residual2 snapshot pre
    assume "load_or_empty (evd_residual e) = Inr residual2"
      "vr_result (residual_row (dict_get residual2 ''result'')
        (residual_rows snapshot (scope_text (dict_get residual2 ''scope'')) (cf_iface (evd_config e))
           (map_option (vh_tree vh) pre) (Some (vh_bpffs vh)))) = ''PASS''"
    then show False
      using assms by (auto simp: residual_row_def removal_verdict_def residual_result_def Let_def split: option.splits if_splits)
  qed
qed

text \<open>
  A host the installer's own inspection calls EMPTY has nothing the verifier counts as left, for
  the same snapshot, scope, interface, prefix and pins.
\<close>

theorem verifier_confirms_empty:
  assumes "rp_result (inspect_residual snapshot scope iface (Some fs) h) = ''EMPTY''"
  shows "residual_rows snapshot scope iface (Some (fh_prefix h)) (Some fs) = Some []"
proof -
  have probes: "hs_probe_errors snapshot = []"
    using assms by (auto simp: inspect_residual_def split: if_splits)
  obtain pins errors where p: "(if scope \<in> {''pe'', ''all''} then pin_items snapshot (Some fs) (fh_standin h) else ([], [])) = (pins, errors)"
    by fastforce
  have e: "errors = []"
    "(if scope \<in> {''pe'', ''all''} then
        map (\<lambda>row. (''container'', cr_name row)) (engine_containers snapshot)
        @ map (\<lambda>row. (''image'', im_tag row)) (filter (\<lambda>row. im_role row = ''phantom_engine'') (hs_images snapshot))
        @ (if stage_names (fh_stage h) \<noteq> [] then [(''stage_dir'', ''stage'')] else [])
        @ (if errors = [] then pins else [])
        @ (if iface \<noteq> [] \<and> iface \<in> set (hs_clsact_ifaces snapshot) then [(''clsact'', iface)] else [])
        @ (if ''vantio-loader'' \<in> set (hs_processes snapshot) then [(''process'', ''vantio-loader'')] else [])
      else []) = []"
    "(if scope \<in> {''optics'', ''all''} then
        in_prefix optics_receipt_items (fh_prefix h)
        @ version_item ''optics_cli'' (hs_optics_cli_version snapshot)
        @ in_prefix optics_cli_residual_items (fh_prefix h)
        @ version_item ''agent_sdk_npm'' (hs_agent_sdk_npm_version snapshot)
        @ version_item ''agent_sdk_py'' (hs_agent_sdk_py_version snapshot)
        @ in_prefix agent_sdk_residual_items (fh_prefix h)
      else []) = []"
    using assms probes by (auto simp only: inspect_residual_def p Let_def prod.case Report.simps if_False if_True
        not_True_eq_False append_is_Nil_conv simp_thms split: if_splits)
  have pe: "engine_containers snapshot = []" "filter (\<lambda>row. im_role row = ''phantom_engine'') (hs_images snapshot) = []"
    "pins = []" "\<not> (iface \<noteq> [] \<and> iface \<in> set (hs_clsact_ifaces snapshot))" "''vantio-loader'' \<notin> set (hs_processes snapshot)"
    "snd (scan_known_pins fs) = []"
    "filter (\<lambda>name. name \<in> set (hs_bpf_pins snapshot) \<union> set (fst (scan_known_pins fs))) BPF_PINS = []"
    if "scope \<in> {''pe'', ''all''}"
    using e(1,2) that p
    by (auto simp: pin_items_def Let_def filter_empty_conv split: if_splits option.splits prod.splits)
  show ?thesis
    unfolding residual_rows_def Let_def option.case
    using probes e(3) pe by (auto simp: engine_containers_def)
qed

subsection \<open>Concrete evidence\<close>

definition verified_config :: InstallConfig where
  "verified_config =
     \<lparr>cf_install_mode = ''observe-only'', cf_enforcement = ''NOT_ENABLED'', cf_path_deny = ''disabled'',
      cf_otlp = ''DISABLED'', cf_iface = ''ens5'', cf_interrupt_after_step = None,
      cf_rollback_interrupt_after_step = None, cf_uninstall_leave = [], cf_simulate_missing = [],
      cf_simulate_probe_errors = [], cf_residual_probe_errors = [], cf_bpffs_root = []\<rparr>"

definition verified_snapshot :: HostSnapshot where
  "verified_snapshot =
     \<lparr>hs_optics_cli_version = Some ''0.3.24'', hs_agent_sdk_npm_version = None, hs_agent_sdk_py_version = None,
      hs_probe_errors = [],
      hs_containers = [\<lparr>cr_name = ''vantio-pe-0123456789ab'', cr_role = ''phantom_engine'', cr_status = ''running'',
                        cr_cmd = [''--iface'', ''ens5''], cr_enforce = False\<rparr>],
      hs_images = [], hs_processes = [''vantio-loader''], hs_bpf_pins = BPF_PINS, hs_clsact_ifaces = [''ens5''],
      hs_active_lsm = Some ''lockdown,bpf'', hs_enforce_flag = False, hs_enrollment = None\<rparr>"

definition sealed_pin :: PublicPin where
  "sealed_pin =
     \<lparr>pp_archive_sha256 = ''e0b19d557891b1ee8bbd20e702df11669d175e4083ef5bbe2f7077cf30093b5e'',
      pp_source_commit = ''06696d5020700693b0154c59d0e072a24f648378'',
      pp_manifest_digest = ''sha256:8b40aec5c125043ec4278a14170677474c9ca31a7ae78e8496c40dffa69d0e19'',
      pp_archive_basename = ''vantio-phantom-engine-pe-residuals-06696d5-linux-amd64.oci.tar''\<rparr>"

text \<open>A bundle of two one-byte files, and a digest that gives them the pinned values.\<close>

definition sample_files :: files where
  "sample_files p =
     (if p = ap_pe_archive (artifact_paths (FROZEN_PINS sealed_pin)) then Some [1]
      else if p = ap_optics_cli (artifact_paths (FROZEN_PINS sealed_pin)) then Some [2] else None)"

definition sample_file_env :: FileEnv where
  "sample_file_env =
     \<lparr>fe_sha = (\<lambda>b. if b = [1] then pp_archive_sha256 sealed_pin
                    else if b = [2] then optics_cli_sha256 (FROZEN_PINS sealed_pin) else []),
      fe_json = (\<lambda>_. Not_Json)\<rparr>"

definition sample_evidence :: "string \<Rightarrow> Evidence" where
  "sample_evidence result =
     \<lparr>evd_tx = File (Doc (PDict [(''proof_state'', PStr ''NOT_PROVED'')])), evd_preflight = File (Doc (PDict [])),
      evd_plan = File (Doc (PDict [])), evd_health = File (Doc (PDict [(''overall'', PStr ''PASS'')])),
      evd_residual = File (Doc (PDict [(''result'', PStr result)])), evd_exit = No_File,
      evd_artifact_verification = True, evd_snapshot_file = True, evd_snapshot = Some verified_snapshot,
      evd_config = verified_config, evd_prefix = None\<rparr>"

definition sample_verifier :: VerifierHost where
  "sample_verifier = \<lparr>vh_resolve = (\<lambda>p. p), vh_tree = (\<lambda>_. None), vh_bpffs = Bpffs_Dir BPF_PINS\<rparr>"

lemma sample_verification:
  "\<exists>checks. verify_evidence sample_file_env (FROZEN_PINS sealed_pin) sample_verifier (sample_evidence ''RESIDUAL_PRESENT'') sample_files
     = Inr (''PASS'', checks)"
proof -
  have "(case verify_evidence sample_file_env (FROZEN_PINS sealed_pin) sample_verifier (sample_evidence ''RESIDUAL_PRESENT'') sample_files
      of Inl _ \<Rightarrow> False | Inr (v, _) \<Rightarrow> v = ''PASS'')" by code_simp
  then show ?thesis by (auto split: sum.splits)
qed

theorem verifier_pass_iff_witness:
  "\<exists>rows. residual_rows verified_snapshot ''all'' ''ens5'' None (Some (Bpffs_Dir BPF_PINS)) = Some rows \<and> rows \<noteq> []
     \<and> h_overall (derive verified_snapshot verified_config []) = ''PASS''"
proof -
  let ?e = "sample_evidence ''RESIDUAL_PRESENT''"
  have fields: "doc_of (evd_residual ?e) = [(''result'', PStr ''RESIDUAL_PRESENT'')]" "doc_of (evd_health ?e) = [(''overall'', PStr ''PASS'')]"
    "evd_snapshot ?e = Some verified_snapshot" "evd_config ?e = verified_config" "evd_prefix ?e = None"
    "doc_of (evd_tx ?e) = [(''proof_state'', PStr ''NOT_PROVED'')]" "cf_iface verified_config = ''ens5''"
    by (simp_all add: sample_evidence_def doc_of_def verified_config_def)
  have scope: "scope_text (dict_get [(''result'', PStr ''RESIDUAL_PRESENT'')] ''scope'') = ''all''"
    "truthy (dict_get [(''proof_state'', PStr ''NOT_PROVED'')] ''limitations'') = False" by code_simp+
  show ?thesis
    using sample_verification unfolding verifier_pass_iff Let_def fields scope
    by (auto simp: configured_prefix_def sample_verifier_def dict_get_def split: if_splits)
qed

definition live_ctx :: "unit Ctx" where
  "live_ctx =
     \<lparr>cx_command = ''verify-removal'', cx_fixture = False, cx_transaction_id = ''vantio-tx-0123456789ab'',
      cx_config = Some (Inr verified_config), cx_config_digest = [], cx_bundle = None, cx_manifest = None, cx_digest = [],
      cx_yes = True, cx_dry_run = False, cx_accept_live = True, cx_stamp = [], cx_scope = ''all'', cx_pid = 7,
      cx_pid_alive = (\<lambda>_. False), cx_layout = (\<lambda>_. None), cx_roots = (\<lambda>_. None),
      cx_authorize = (\<lambda>_ _ _. None), cx_tracefs = (\<lambda>_. None), cx_preflight = (\<lambda>_ _ _. (''READY'', [], ''none'')),
      cx_load_host = verified_snapshot,
      cx_inspect = (\<lambda>_ _ _ _. \<lparr>rp_result = ''RESIDUAL_PRESENT'', rp_items = [(''container'', ''vantio-pe'')],
                               rp_probe_errors = []\<rparr>)\<rparr>"

theorem verifier_rejects_live_residual_witness:
  "verify_evidence sample_file_env (FROZEN_PINS sealed_pin) sample_verifier (sample_evidence ''RESIDUAL_FOUND'') sample_files
     \<noteq> Inr (''PASS'', [])"
proof (rule verifier_rejects_live_residual)
  let ?report = "cx_inspect live_ctx () verified_snapshot ''all'' verified_config"
  show "\<not> cx_fixture live_ctx" "rp_items ?report \<noteq> []" "rp_probe_errors ?report = []"
    by (simp_all add: live_ctx_def)
  show "load_or_empty (evd_residual (sample_evidence ''RESIDUAL_FOUND'')) = Inr [(''result'', PStr ''RESIDUAL_FOUND'')]"
    by (simp add: sample_evidence_def load_or_empty_def load_doc_def)
  show "dict_get [(''result'', PStr ''RESIDUAL_FOUND'')] ''result'' = PStr (removal_verdict live_ctx ?report)"
    by (simp add: live_ctx_def removal_verdict_def residual_result_def)
qed

definition clean_host :: FixtureHost where
  "clean_host =
     \<lparr>fh_prefix = None, fh_stage = Stage_Absent, fh_config_file = False, fh_product_files = [], fh_bpffs = Bpffs_Dir [],
      fh_boot_hold = [], fh_grub = \<lparr>gf_dropin = None, gf_main = None, gf_extra = [], gf_cfgs = []\<rparr>,
      fh_license = False, fh_dropins = [], fh_standin = Some False, fh_partial = []\<rparr>"

definition clean_snapshot :: HostSnapshot where
  "clean_snapshot =
     verified_snapshot\<lparr>hs_optics_cli_version := None, hs_containers := [], hs_processes := [], hs_bpf_pins := [],
       hs_clsact_ifaces := []\<rparr>"

theorem verifier_confirms_empty_witness:
  "residual_rows clean_snapshot ''all'' ''ens5'' (Some (fh_prefix clean_host)) (Some (fh_bpffs clean_host)) = Some []"
proof (rule verifier_confirms_empty)
  show "rp_result (inspect_residual clean_snapshot ''all'' ''ens5'' (Some (fh_bpffs clean_host)) clean_host) = ''EMPTY''"
    by code_simp
qed

text \<open>The walk over the claims raises on a proof state that is a list.\<close>

lemma verifier_type_error: "claim_hits (PDict [(''proof_state'', PList [])]) = Inl ''TypeError''"
  by (simp add: entry_hits_def)

end
