(* ===== verification/Install_Docker.thy ===== *)
theory Install_Docker
  imports Boot_Registry
begin

text \<open>
  \<open>vantio_install/docker_object.py\<close>: what the installer concludes about the one container it owns from
  the output of a docker command and of the inspection after it. The regular expressions are
  scanners from the left; on text below code point 256 each of them matches in one way only.
  \<open>json.loads\<close> is the parameter \<open>js_loads\<close> (\<^const>\<open>None\<close> is the decode error) and the text of a float
  is \<open>js_float\<close>; the process that runs docker is an argument.
\<close>

section \<open>Text\<close>

text \<open>\<open>str.casefold\<close>. The micro sign folds to a letter above code point 255 and is kept: neither is
  in any text the code compares with.\<close>

definition py_casefold :: "string \<Rightarrow> string" where
  "py_casefold s = concat (map (\<lambda>c. if py_ord c = 223 then ''ss'' else [lower_char c]) s)"

definition py_isspace_strip :: "string \<Rightarrow> string" where
  "py_isspace_strip s = rev (dropWhile is_space_char (rev (dropWhile is_space_char s)))"

definition name_char :: "char \<Rightarrow> bool" where
  "name_char c = (alnum_char c \<or> c = CHR ''_'' \<or> c = CHR ''.'' \<or> c = CHR ''-'')"

definition object_name_ok :: "string \<Rightarrow> bool" where
  "object_name_ok s =
     (case s of [] \<Rightarrow> False | c # cs \<Rightarrow> alnum_char c \<and> list_all name_char cs \<and> length cs \<le> 127)"

text \<open>A literal matched without regard to case: what is left after it.\<close>

fun eat_fold :: "string \<Rightarrow> string \<Rightarrow> string option" where
  "eat_fold [] s = Some s"
| "eat_fold (p # ps) [] = None"
| "eat_fold (p # ps) (c # cs) = (if lower_char c = p then eat_fold ps cs else None)"

definition eat_absent :: "string \<Rightarrow> string option" where
  "eat_absent s =
     (case eat_fold ''no such '' s of
        None \<Rightarrow> None
      | Some rest \<Rightarrow>
          (case eat_fold ''container'' rest of None \<Rightarrow> eat_fold ''object'' rest | Some later \<Rightarrow> Some later))"

definition eat_one :: "string \<Rightarrow> string \<Rightarrow> string" where
  "eat_one cs s = (case s of [] \<Rightarrow> [] | c # rest \<Rightarrow> if c \<in> set cs then rest else s)"

text \<open>One match of \<open>_ABSENT_NAMED\<close> at the head of the text: the name and the rest.\<close>

definition absent_named_at :: "string \<Rightarrow> (string \<times> string) option" where
  "absent_named_at s =
     (case eat_absent s of
        None \<Rightarrow> None
      | Some later \<Rightarrow>
          (case dropWhile is_space_char later of
             CHR '':'' # rest \<Rightarrow>
               (let body = eat_one ''/'' (eat_one [CHR 0x27, CHR 0x22] (dropWhile is_space_char rest)) in
                if body \<noteq> [] \<and> alnum_char (hd body) then Some (takeWhile name_char body, dropWhile name_char body)
                else None)
           | _ \<Rightarrow> None))"

lemma eat_fold_length: "eat_fold p s = Some r \<Longrightarrow> length s = length p + length r"
  by (induction p s rule: eat_fold.induct) (auto split: if_splits)

lemma eat_absent_length: "eat_absent s = Some r \<Longrightarrow> length r < length s"
  by (auto simp: eat_absent_def dest!: eat_fold_length split: option.splits)

lemma length_dropWhile: "length (dropWhile P s) \<le> length s"
  by (induction s) auto

lemma eat_one_length: "length (eat_one cs s) \<le> length s"
  by (auto simp: eat_one_def split: list.splits)

lemma absent_named_at_length: "absent_named_at s = Some (name, rest) \<Longrightarrow> length rest < length s"
proof -
  assume "absent_named_at s = Some (name, rest)"
  then obtain later r where l: "eat_absent s = Some later" "dropWhile is_space_char later = CHR '':'' # r"
    "rest = dropWhile name_char (eat_one ''/'' (eat_one [CHR 0x27, CHR 0x22] (dropWhile is_space_char r)))"
    by (auto simp: absent_named_at_def Let_def split: option.splits list.splits char.splits bool.splits if_splits)
  from l(2) have "length r < length later" using length_dropWhile [of is_space_char later] by simp
  moreover have "length rest \<le> length r"
    unfolding l(3) by (meson eat_one_length le_trans length_dropWhile)
  ultimately show ?thesis using eat_absent_length [OF l(1)] by simp
qed

text \<open>\<open>finditer\<close>: the names of the matches from the left, each search going on after the last match.\<close>

function absent_names :: "string \<Rightarrow> string list" where
  "absent_names [] = []"
| "absent_names (c # cs) =
     (case absent_named_at (c # cs) of
        None \<Rightarrow> absent_names cs
      | Some (name, rest) \<Rightarrow> name # absent_names rest)"
  by pat_completeness auto
termination by (relation "measure length") (auto dest: absent_named_at_length)

definition owned_at :: "string \<Rightarrow> (string \<times> string) option" where
  "owned_at s =
     (case eat_fold ''vantio-pe-'' s of
        None \<Rightarrow> None
      | Some body \<Rightarrow>
          if body \<noteq> [] \<and> name_char (hd body)
          then Some (take 10 s @ takeWhile name_char body, dropWhile name_char body) else None)"

lemma owned_at_length:
  assumes "owned_at s = Some (name, rest)"
  shows "length rest < length s"
proof -
  from assms obtain body where b: "eat_fold ''vantio-pe-'' s = Some body" "rest = dropWhile name_char body"
    by (auto simp: owned_at_def split: option.splits if_splits)
  from eat_fold_length [OF b(1)] have "length body < length s" by simp
  then show ?thesis using length_dropWhile [of name_char body] b(2) by simp
qed

function owned_names :: "string \<Rightarrow> string list" where
  "owned_names [] = []"
| "owned_names (c # cs) =
     (case owned_at (c # cs) of
        None \<Rightarrow> owned_names cs
      | Some (name, rest) \<Rightarrow> name # owned_names rest)"
  by pat_completeness auto
termination by (relation "measure length") (auto dest: owned_at_length)

fun absent_bare :: "string \<Rightarrow> bool" where
  "absent_bare [] = False"
| "absent_bare (c # cs) =
     ((case eat_absent (c # cs) of None \<Rightarrow> False | Some r \<Rightarrow> r = [] \<or> \<not> word_char (hd r)) \<or> absent_bare cs)"

section \<open>Results and inspections\<close>

record DockerCommandResult =
  dc_returncode :: int
  dc_timed_out :: bool
  dc_stdout :: string
  dc_stderr :: string

record DockerObjectInspection =
  di_probed_name :: string
  di_state :: string
  di_running :: "bool option"
  di_canonical_name :: "string option"
  di_labels :: "(string \<times> string) list"
  di_exit_code :: "int option"
  di_stdout :: string
  di_stderr :: string
  di_failure_kind :: "string option"

record JsonEnv =
  js_loads :: "string \<Rightarrow> pyval option"
  js_float :: "pyfloat \<Rightarrow> string"

definition IDEMPOTENT_ABSENT :: string where "IDEMPOTENT_ABSENT = ''IDEMPOTENT_ABSENT''"
definition REMOVED :: string where "REMOVED = ''REMOVED''"
definition FAILED_SAFE :: string where "FAILED_SAFE = ''FAILED_SAFE''"
definition RESIDUAL_FOUND :: string where "RESIDUAL_FOUND = ''RESIDUAL_FOUND''"

definition DOCKER_BLOCKING :: "string list" where
  "DOCKER_BLOCKING = [''permission'', ''daemon'', ''connectivity'', ''invalid_name'', ''empty'', ''unknown'', ''timeout'']"

definition PERMISSION_NEEDLES :: "string list" where
  "PERMISSION_NEEDLES = [''permission denied'', ''operation not permitted'', ''access denied'']"

definition DAEMON_NEEDLES :: "string list" where
  "DAEMON_NEEDLES =
     [''cannot connect to the docker daemon'', ''is the docker daemon running'', ''error during connect'',
      ''docker daemon'', ''docker.sock'']"

definition CONNECTIVITY_NEEDLES :: "string list" where
  "CONNECTIVITY_NEEDLES =
     [''connection refused'', ''network is unreachable'', ''no route to host'',
      ''temporary failure in name resolution'', ''i/o timeout'', ''context deadline exceeded'', ''tls handshake'']"

definition INVALID_NAME_NEEDLES :: "string list" where
  "INVALID_NAME_NEEDLES =
     [''invalid container name'', ''invalid reference format'', ''invalid object name'',
      ''not a valid container name'', ''malformed name'']"

definition transaction_container_name :: "string \<Rightarrow> string" where
  "transaction_container_name tid =
     (if length tid < 12 then []
      else
        (let name = ''vantio-pe-'' @ drop (length tid - 12) tid in
         if object_name_ok name then name else []))"

definition mentions_only :: "string \<Rightarrow> string \<Rightarrow> bool" where
  "mentions_only txt expected = list_all (\<lambda>m. py_casefold m = expected) (owned_names txt)"

definition claims_absent_object :: "string \<Rightarrow> string \<Rightarrow> bool" where
  "claims_absent_object txt expected_name =
     (if txt = [] \<or> \<not> object_name_ok expected_name then False
      else
        (let expected = py_casefold expected_name; named = map py_casefold (absent_names txt) in
         if \<not> mentions_only txt expected then False
         else if named \<noteq> [] then list_all (\<lambda>item. item = expected) named
         else if sublist ''no such file'' (py_casefold txt) then False
         else absent_bare txt))"

definition has_needle :: "string list \<Rightarrow> string \<Rightarrow> bool" where
  "has_needle needles folded = list_ex (\<lambda>needle. sublist needle folded) needles"

definition probe_failure_kind :: "string \<Rightarrow> int \<Rightarrow> bool \<Rightarrow> string \<Rightarrow> string option" where
  "probe_failure_kind txt returncode timed_out expected_name =
     (if timed_out then Some ''timeout''
      else if returncode = 0 then None
      else
        (let folded = py_casefold txt in
         if has_needle PERMISSION_NEEDLES folded then Some ''permission''
         else if has_needle DAEMON_NEEDLES folded then Some ''daemon''
         else if has_needle CONNECTIVITY_NEEDLES folded then Some ''connectivity''
         else if has_needle INVALID_NAME_NEEDLES folded then Some ''invalid_name''
         else if py_isspace_strip folded = [] then Some ''empty''
         else if claims_absent_object txt expected_name then Some ''absent''
         else Some ''unknown''))"

definition inspection_unknown :: "string \<Rightarrow> DockerCommandResult \<Rightarrow> string \<Rightarrow> DockerObjectInspection" where
  "inspection_unknown name completed kind =
     \<lparr>di_probed_name = name, di_state = ''unknown'', di_running = None, di_canonical_name = None, di_labels = [],
      di_exit_code = Some (dc_returncode completed), di_stdout = dc_stdout completed, di_stderr = dc_stderr completed,
      di_failure_kind = Some kind\<rparr>"

definition inspection_absent :: "string \<Rightarrow> DockerCommandResult \<Rightarrow> DockerObjectInspection" where
  "inspection_absent name completed =
     \<lparr>di_probed_name = name, di_state = ''absent'', di_running = None, di_canonical_name = None, di_labels = [],
      di_exit_code = Some (dc_returncode completed), di_stdout = dc_stdout completed, di_stderr = dc_stderr completed,
      di_failure_kind = Some ''absent''\<rparr>"

fun label_text :: "(pyfloat \<Rightarrow> string) \<Rightarrow> pyval \<Rightarrow> string option" where
  "label_text ft (PDict d) = None"
| "label_text ft (PList vs) = None"
| "label_text ft PNone = Some []"
| "label_text ft (PBool b) = Some (if b then ''True'' else ''False'')"
| "label_text ft (PInt n) = Some (int_text n)"
| "label_text ft (PFloat f) = Some (ft f)"
| "label_text ft (PStr s) = Some s"

fun labels_of :: "(pyfloat \<Rightarrow> string) \<Rightarrow> (string \<times> pyval) list \<Rightarrow> (string \<times> string) list option" where
  "labels_of ft [] = Some []"
| "labels_of ft ((key, v) # rest) =
     (case (label_text ft v, labels_of ft rest) of
        (Some t, Some later) \<Rightarrow> Some ((key, t) # later)
      | _ \<Rightarrow> None)"

definition container_labels :: "(pyfloat \<Rightarrow> string) \<Rightarrow> pyval \<Rightarrow> (string \<times> string) list option" where
  "container_labels ft config =
     (case config of
        PDict c \<Rightarrow>
          (case dict_get c ''Labels'' of PNone \<Rightarrow> Some [] | PDict raw \<Rightarrow> labels_of ft raw | _ \<Rightarrow> None)
      | _ \<Rightarrow> None)"

definition inspect_document :: "pyval \<Rightarrow> (string \<times> pyval) list option" where
  "inspect_document v =
     (case v of
        PDict d \<Rightarrow> Some d
      | PList [PDict d] \<Rightarrow> Some d
      | _ \<Rightarrow> None)"

definition canonical_name :: "string \<Rightarrow> string" where
  "canonical_name raw = (if prefix ''/'' raw \<and> \<not> prefix ''//'' raw then tl raw else raw)"

definition parse_present :: "JsonEnv \<Rightarrow> string \<Rightarrow> DockerCommandResult \<Rightarrow> DockerObjectInspection option" where
  "parse_present js name completed =
     (let raw = py_isspace_strip (dc_stdout completed) in
      if raw = [] then None
      else
        (case Option.bind (js_loads js raw) inspect_document of
           None \<Rightarrow> None
         | Some document \<Rightarrow>
             (case (dict_get document ''Name'', dict_get document ''State'') of
                (PStr raw_name, PDict st) \<Rightarrow>
                  (case dict_get st ''Running'' of
                     PBool running \<Rightarrow>
                       (case container_labels (js_float js) (dict_get document ''Config'') of
                          None \<Rightarrow> None
                        | Some labels \<Rightarrow>
                            Some \<lparr>di_probed_name = name, di_state = ''present'', di_running = Some running,
                              di_canonical_name = Some (canonical_name raw_name), di_labels = labels,
                              di_exit_code = Some (dc_returncode completed), di_stdout = dc_stdout completed,
                              di_stderr = dc_stderr completed, di_failure_kind = None\<rparr>)
                   | _ \<Rightarrow> None)
              | _ \<Rightarrow> None)))"

definition joined_output :: "DockerCommandResult \<Rightarrow> string" where
  "joined_output c = dc_stderr c @ [CHR 0x0A] @ dc_stdout c"

definition interpret_probe :: "JsonEnv \<Rightarrow> string \<Rightarrow> DockerCommandResult \<Rightarrow> DockerObjectInspection" where
  "interpret_probe js name completed =
     (if dc_timed_out completed then inspection_unknown name completed ''timeout''
      else if dc_returncode completed = 0 then
        (case parse_present js name completed of
           None \<Rightarrow> inspection_unknown name completed ''unknown''
         | Some parsed \<Rightarrow> parsed)
      else
        (case probe_failure_kind (joined_output completed) (dc_returncode completed) False name of
           None \<Rightarrow> inspection_unknown name completed ''unknown''
         | Some kind \<Rightarrow>
             if kind = ''absent'' then inspection_absent name completed
             else inspection_unknown name completed kind))"

definition inspect_argv :: "string \<Rightarrow> string list" where
  "inspect_argv name = [''docker'', ''inspect'', ''--format'', ''{{json .}}'', name]"

definition refused_inspection :: "string \<Rightarrow> DockerObjectInspection" where
  "refused_inspection name =
     \<lparr>di_probed_name = name, di_state = ''unknown'', di_running = None, di_canonical_name = None, di_labels = [],
      di_exit_code = None, di_stdout = [], di_stderr = [], di_failure_kind = Some ''invalid_name''\<rparr>"

definition inspect_container ::
  "JsonEnv \<Rightarrow> (string list \<Rightarrow> nat \<Rightarrow> DockerCommandResult) \<Rightarrow> string \<Rightarrow> DockerObjectInspection" where
  "inspect_container js run name =
     (if \<not> object_name_ok name then refused_inspection name
      else interpret_probe js name (run (inspect_argv name) 15))"

section \<open>Classification\<close>

definition label_agrees :: "(string \<times> string) list \<Rightarrow> string \<Rightarrow> bool" where
  "label_agrees labels tid =
     (case map_of labels ''vantio.transaction_id'' of None \<Rightarrow> True | Some recorded \<Rightarrow> recorded = tid)"

definition classify_stop ::
  "DockerCommandResult \<Rightarrow> DockerObjectInspection \<Rightarrow> string option \<Rightarrow> string" where
  "classify_stop command inspection kind =
     (if dc_returncode command = 0 then
        (if di_state inspection = ''absent'' then REMOVED
         else if di_state inspection = ''present'' \<and> di_running inspection = Some False then REMOVED
         else if di_state inspection = ''present'' \<and> di_running inspection = Some True then RESIDUAL_FOUND
         else FAILED_SAFE)
      else if kind = Some ''absent'' \<and> di_state inspection = ''absent'' then IDEMPOTENT_ABSENT
      else if kind = Some ''absent'' \<and> di_state inspection = ''present'' then RESIDUAL_FOUND
      else FAILED_SAFE)"

definition classify_rm ::
  "DockerCommandResult \<Rightarrow> DockerObjectInspection \<Rightarrow> string option \<Rightarrow> string" where
  "classify_rm command inspection kind =
     (if dc_returncode command = 0 then
        (if di_state inspection = ''absent'' then REMOVED
         else if di_state inspection = ''present'' then RESIDUAL_FOUND
         else FAILED_SAFE)
      else if kind = Some ''absent'' \<and> di_state inspection = ''absent'' then IDEMPOTENT_ABSENT
      else if kind = Some ''absent'' \<and> di_state inspection = ''present'' then RESIDUAL_FOUND
      else FAILED_SAFE)"

definition classify_docker_object_operation ::
  "string \<Rightarrow> string \<Rightarrow> string \<Rightarrow> DockerCommandResult \<Rightarrow> DockerObjectInspection \<Rightarrow> string" where
  "classify_docker_object_operation operation tid object_name command inspection =
     (if operation \<notin> {''docker_stop'', ''docker_rm''} then FAILED_SAFE
      else if object_name \<noteq> transaction_container_name tid then FAILED_SAFE
      else if di_probed_name inspection \<noteq> object_name then FAILED_SAFE
      else if dc_timed_out command \<or> di_failure_kind inspection = Some ''timeout'' then FAILED_SAFE
      else if di_state inspection = ''present'' \<and> di_canonical_name inspection \<noteq> Some object_name then FAILED_SAFE
      else if di_state inspection = ''present'' \<and> \<not> label_agrees (di_labels inspection) tid then FAILED_SAFE
      else
        (let kind = probe_failure_kind (joined_output command) (dc_returncode command) (dc_timed_out command) object_name in
         if kind \<in> set (map Some DOCKER_BLOCKING) then FAILED_SAFE
         else if operation = ''docker_stop'' then classify_stop command inspection kind
         else classify_rm command inspection kind))"

definition docker_object_host_status :: "string \<Rightarrow> DockerObjectInspection \<Rightarrow> string" where
  "docker_object_host_status operation inspection =
     (if di_state inspection = ''unknown'' then ''UNKNOWN''
      else if operation = ''docker_rm'' then (if di_state inspection = ''absent'' then ''VERIFIED'' else ''NOT_VERIFIED'')
      else if operation = ''docker_stop'' then
        (if di_state inspection = ''absent'' then ''VERIFIED''
         else if di_state inspection = ''present'' \<and> di_running inspection = Some False then ''VERIFIED''
         else ''NOT_VERIFIED'')
      else ''UNKNOWN'')"

section \<open>What the classification rests on\<close>

text \<open>The output of a docker command says that the named object is absent.\<close>

definition says_absent :: "string \<Rightarrow> DockerCommandResult \<Rightarrow> bool" where
  "says_absent name c = (probe_failure_kind (joined_output c) (dc_returncode c) (dc_timed_out c) name = Some ''absent'')"

lemma says_absent_iff:
  "says_absent name c \<longleftrightarrow>
     \<not> dc_timed_out c \<and> dc_returncode c \<noteq> 0 \<and> claims_absent_object (joined_output c) name
     \<and> \<not> has_needle PERMISSION_NEEDLES (py_casefold (joined_output c))
     \<and> \<not> has_needle DAEMON_NEEDLES (py_casefold (joined_output c))
     \<and> \<not> has_needle CONNECTIVITY_NEEDLES (py_casefold (joined_output c))
     \<and> \<not> has_needle INVALID_NAME_NEEDLES (py_casefold (joined_output c))
     \<and> py_isspace_strip (py_casefold (joined_output c)) \<noteq> []"
  unfolding says_absent_def probe_failure_kind_def Let_def by auto

lemma says_absent_name: "says_absent name c \<Longrightarrow> object_name_ok name"
  by (auto simp: says_absent_iff claims_absent_object_def split: if_splits)

text \<open>The inspection shows the named object, and it belongs to the transaction.\<close>

definition own_present :: "JsonEnv \<Rightarrow> string \<Rightarrow> string \<Rightarrow> DockerCommandResult \<Rightarrow> bool \<Rightarrow> bool" where
  "own_present js tid name c running =
     (object_name_ok name \<and> \<not> dc_timed_out c \<and> dc_returncode c = 0
      \<and> (case parse_present js name c of
           None \<Rightarrow> False
         | Some p \<Rightarrow> di_canonical_name p = Some name \<and> label_agrees (di_labels p) tid \<and> di_running p = Some running))"

lemma parse_present_fields:
  assumes "parse_present js name c = Some p"
  shows "di_state p = ''present'' \<and> di_probed_name p = name \<and> di_failure_kind p = None \<and> di_running p \<noteq> None"
  using assms
  by (auto simp: parse_present_def Let_def split: if_splits option.splits pyval.splits)

lemma failure_kind_simps [simp]:
  "probe_failure_kind t rc True n = Some ''timeout''"
  "probe_failure_kind t 0 False n = None"
  by (simp_all add: probe_failure_kind_def)

lemma inspect_state_absent:
  "di_state (inspect_container js run name) = ''absent'' \<longleftrightarrow> says_absent name (run (inspect_argv name) 15)"
proof -
  let ?c = "run (inspect_argv name) 15"
  show ?thesis
  proof (cases "object_name_ok name \<and> \<not> dc_timed_out ?c \<and> dc_returncode ?c \<noteq> 0")
    case True
    then show ?thesis
      by (auto simp: inspect_container_def interpret_probe_def inspection_unknown_def inspection_absent_def
          says_absent_def split: option.splits)
  next
    case False
    then have "\<not> says_absent name ?c" using says_absent_name says_absent_iff by blast
    moreover have "di_state (inspect_container js run name) \<noteq> ''absent''"
      using False parse_present_fields [of js name ?c]
      by (auto simp: inspect_container_def interpret_probe_def inspection_unknown_def refused_inspection_def
          split: option.splits)
    ultimately show ?thesis by simp
  qed
qed

lemma inspect_state_present:
  "di_state (inspect_container js run name) = ''present'' \<longleftrightarrow>
     object_name_ok name \<and> \<not> dc_timed_out (run (inspect_argv name) 15) \<and> dc_returncode (run (inspect_argv name) 15) = 0
     \<and> parse_present js name (run (inspect_argv name) 15) = Some (inspect_container js run name)"
  using parse_present_fields [of js name "run (inspect_argv name) 15"]
  by (auto simp: inspect_container_def interpret_probe_def inspection_unknown_def inspection_absent_def
      refused_inspection_def split: option.splits if_splits)

lemma inspect_probed: "di_probed_name (inspect_container js run name) = name"
  using parse_present_fields [of js name "run (inspect_argv name) 15"]
  by (auto simp: inspect_container_def interpret_probe_def inspection_unknown_def inspection_absent_def
      refused_inspection_def split: option.splits)

lemma inspect_kind:
  "di_state (inspect_container js run name) = ''absent'' \<Longrightarrow> di_failure_kind (inspect_container js run name) = Some ''absent''"
  "di_state (inspect_container js run name) = ''present'' \<Longrightarrow> di_failure_kind (inspect_container js run name) = None"
  using parse_present_fields [of js name "run (inspect_argv name) 15"]
  by (auto simp: inspect_container_def interpret_probe_def inspection_unknown_def inspection_absent_def
      refused_inspection_def split: option.splits if_splits)

lemma own_present_iff:
  "own_present js tid name (run (inspect_argv name) 15) b \<longleftrightarrow>
     (let i = inspect_container js run name in
      di_state i = ''present'' \<and> di_canonical_name i = Some name \<and> label_agrees (di_labels i) tid \<and> di_running i = Some b)"
  unfolding own_present_def Let_def inspect_state_present
  by (auto simp: inspect_container_def interpret_probe_def split: option.splits)

lemma kind_blocking:
  "probe_failure_kind t rc False n \<noteq> Some ''absent'' \<Longrightarrow> rc \<noteq> 0
     \<Longrightarrow> probe_failure_kind t rc False n \<in> set (map Some DOCKER_BLOCKING)"
  unfolding probe_failure_kind_def DOCKER_BLOCKING_def Let_def by (simp split: if_splits)

lemma inspect_states:
  "di_state (inspect_container js run name) \<in> {''absent'', ''present'', ''unknown''}"
  using parse_present_fields [of js name "run (inspect_argv name) 15"]
  by (auto simp: inspect_container_def interpret_probe_def inspection_unknown_def inspection_absent_def
      refused_inspection_def split: option.splits)

lemma disposition_distinct [simp]:
  "REMOVED \<noteq> FAILED_SAFE" "REMOVED \<noteq> RESIDUAL_FOUND" "REMOVED \<noteq> IDEMPOTENT_ABSENT"
  "IDEMPOTENT_ABSENT \<noteq> FAILED_SAFE" "IDEMPOTENT_ABSENT \<noteq> RESIDUAL_FOUND" "FAILED_SAFE \<noteq> RESIDUAL_FOUND"
  "FAILED_SAFE \<noteq> REMOVED" "RESIDUAL_FOUND \<noteq> REMOVED" "IDEMPOTENT_ABSENT \<noteq> REMOVED"
  "FAILED_SAFE \<noteq> IDEMPOTENT_ABSENT" "RESIDUAL_FOUND \<noteq> IDEMPOTENT_ABSENT" "RESIDUAL_FOUND \<noteq> FAILED_SAFE"
  by (simp_all add: REMOVED_def FAILED_SAFE_def RESIDUAL_FOUND_def IDEMPOTENT_ABSENT_def)

text \<open>A command that ends without a time-out: exit 0 has no failure kind, and any other exit blocks
  unless it says that the object is absent.\<close>

lemma classify_cases:
  fixes js run
  assumes "op \<in> {''docker_stop'', ''docker_rm''}" "name = transaction_container_name tid" "\<not> dc_timed_out command"
  defines "i \<equiv> inspect_container js run name"
  assumes "di_state i = ''present'' \<Longrightarrow> di_canonical_name i = Some name \<and> label_agrees (di_labels i) tid"
    and "di_failure_kind i \<noteq> Some ''timeout''"
  shows "classify_docker_object_operation op tid name command i =
    (if dc_returncode command \<noteq> 0 \<and> \<not> says_absent name command then FAILED_SAFE
     else if op = ''docker_stop'' then
       classify_stop command i (if dc_returncode command = 0 then None else Some ''absent'')
     else classify_rm command i (if dc_returncode command = 0 then None else Some ''absent''))"
proof -
  have g: "di_probed_name i = name" "di_failure_kind i \<noteq> Some ''timeout''"
    "\<not> (di_state i = ''present'' \<and> di_canonical_name i \<noteq> Some name)"
    "\<not> (di_state i = ''present'' \<and> \<not> label_agrees (di_labels i) tid)"
    using inspect_probed [of js run name] assms(4-6) by blast+
  have a: "Some ''absent'' \<notin> set (map Some DOCKER_BLOCKING)" "None \<notin> set (map Some DOCKER_BLOCKING)"
    by (auto simp: DOCKER_BLOCKING_def)
  let ?k = "probe_failure_kind (joined_output command) (dc_returncode command) False name"
  have k: "?k = (if dc_returncode command = 0 then None else ?k)" by simp
  have b: "?k \<in> set (map Some DOCKER_BLOCKING) \<longleftrightarrow> dc_returncode command \<noteq> 0 \<and> \<not> says_absent name command"
    "says_absent name command \<longleftrightarrow> ?k = Some ''absent''"
    using a kind_blocking [of "joined_output command" "dc_returncode command" name] assms(3) k
    by (auto simp: says_absent_def simp del: set_map list.map)
  have "classify_docker_object_operation op tid name command i =
      (if ?k \<in> set (map Some DOCKER_BLOCKING) then FAILED_SAFE
       else if op = ''docker_stop'' then classify_stop command i ?k else classify_rm command i ?k)"
    unfolding classify_docker_object_operation_def Let_def using assms(1-3) g
    by (simp only: if_False if_True simp_thms)
  then show ?thesis using b k by simp
qed

lemma classify_guards:
  assumes "classify_docker_object_operation op tid name command i \<noteq> FAILED_SAFE"
  shows "op \<in> {''docker_stop'', ''docker_rm''}" "name = transaction_container_name tid" "\<not> dc_timed_out command"
    "di_failure_kind i \<noteq> Some ''timeout''"
    "di_state i = ''present'' \<Longrightarrow> di_canonical_name i = Some name \<and> label_agrees (di_labels i) tid"
  using assms by (auto simp: classify_docker_object_operation_def split: if_splits)

section \<open>Properties\<close>

text \<open>
  C19: after a stop or a removal, whatever the command and the inspection printed, the container
  counts as gone before the command only when both say that the transaction's own container is
  absent, and as removed only when the command succeeded and the inspection says it is absent or,
  for a stop, shows it stopped and bound to the transaction. In both cases the host check on the
  same inspection is VERIFIED.
\<close>

theorem docker_gone_iff:
  fixes js run name command op tid
  defines "probe \<equiv> run (inspect_argv name) 15"
    and "verdict \<equiv> classify_docker_object_operation op tid name command (inspect_container js run name)"
    and "owned \<equiv> op \<in> {''docker_stop'', ''docker_rm''} \<and> name = transaction_container_name tid \<and> \<not> dc_timed_out command"
  shows "(verdict = IDEMPOTENT_ABSENT \<longleftrightarrow> owned \<and> says_absent name command \<and> says_absent name probe)
    \<and> (verdict = REMOVED \<longleftrightarrow> owned \<and> dc_returncode command = 0
         \<and> (says_absent name probe \<or> op = ''docker_stop'' \<and> own_present js tid name probe False))
    \<and> (verdict \<notin> {IDEMPOTENT_ABSENT, REMOVED}
        \<or> docker_object_host_status op (inspect_container js run name) = ''VERIFIED'')"
proof -
  let ?i = "inspect_container js run name"
  have absent: "says_absent name probe \<longleftrightarrow> di_state ?i = ''absent''"
    unfolding probe_def inspect_state_absent ..
  have own: "own_present js tid name probe False \<longleftrightarrow> di_state ?i = ''present'' \<and> di_canonical_name ?i = Some name
      \<and> label_agrees (di_labels ?i) tid \<and> di_running ?i = Some False"
    unfolding probe_def own_present_iff Let_def ..
  have rc: "says_absent name command \<Longrightarrow> dc_returncode command \<noteq> 0" by (simp add: says_absent_iff)
  show ?thesis
  proof (cases "owned \<and> di_failure_kind ?i \<noteq> Some ''timeout''
      \<and> (di_state ?i = ''present'' \<longrightarrow> di_canonical_name ?i = Some name \<and> label_agrees (di_labels ?i) tid)")
    case True
    then have v: "verdict = (if dc_returncode command \<noteq> 0 \<and> \<not> says_absent name command then FAILED_SAFE
       else if op = ''docker_stop'' then
         classify_stop command ?i (if dc_returncode command = 0 then None else Some ''absent'')
       else classify_rm command ?i (if dc_returncode command = 0 then None else Some ''absent''))"
      unfolding verdict_def owned_def by (intro classify_cases) auto
    show ?thesis
      unfolding v absent own using True rc
      by (auto simp: classify_stop_def classify_rm_def docker_object_host_status_def owned_def)
  next
    case False
    then have "verdict = FAILED_SAFE"
      using classify_guards [of op tid name command ?i] unfolding verdict_def owned_def by blast
    then show ?thesis
      using False unfolding absent own
      by (auto simp: inspect_kind)
  qed
qed


definition sample_gone :: DockerCommandResult where
  "sample_gone =
     \<lparr>dc_returncode = 1, dc_timed_out = False, dc_stdout = ''[]'',
      dc_stderr = ''Error: No such object: vantio-pe-0123456789ab''\<rparr>"

theorem docker_gone_iff_witness:
  "docker_object_host_status ''docker_rm''
     (inspect_container \<lparr>js_loads = (\<lambda>_. None), js_float = (\<lambda>_. [])\<rparr> (\<lambda>_ _. sample_gone) ''vantio-pe-0123456789ab'')
     = ''VERIFIED''"
proof -
  have "says_absent ''vantio-pe-0123456789ab'' sample_gone" by code_simp
  moreover have "''vantio-pe-0123456789ab'' = transaction_container_name ''vantio-tx-0123456789ab''"
    "\<not> dc_timed_out sample_gone" by code_simp+
  ultimately show ?thesis
    using docker_gone_iff [where op = "''docker_rm''" and name = "''vantio-pe-0123456789ab''"
        and tid = "''vantio-tx-0123456789ab''" and command = sample_gone
        and js = "\<lparr>js_loads = (\<lambda>_. None), js_float = (\<lambda>_. [])\<rparr>" and run = "\<lambda>_ _. sample_gone"]
    by blast
qed

subsection \<open>The sentences docker prints\<close>

lemma takeWhile_dropWhile_stop:
  assumes "list_all P s" "\<not> P c"
  shows "takeWhile P (s @ [c]) = s" "dropWhile P (s @ [c]) = [c]"
  using assms by (induction s) auto

lemma transaction_name_shape:
  assumes "transaction_container_name tid \<noteq> []"
  obtains body where "transaction_container_name tid = ''vantio-pe-'' @ body" "list_all name_char body"
    "length body = 12" "object_name_ok (transaction_container_name tid)"
proof -
  let ?body = "drop (length tid - 12) tid"
  from assms have l: "12 \<le> length tid" and ok: "object_name_ok (''vantio-pe-'' @ ?body)"
    and n: "transaction_container_name tid = ''vantio-pe-'' @ ?body"
    by (auto simp: transaction_container_name_def Let_def split: if_splits)
  from ok have "list_all name_char ?body" by (simp add: object_name_ok_def)
  with l ok n show thesis by (intro that [of ?body]) auto
qed

lemma lf_not_name [simp]: "\<not> name_char (CHR 0x0A)" "\<not> name_char (CHR '' '')" "\<not> name_char (CHR '':'')"
  by code_simp+

lemma eat_fold_literal: "map lower_char s = p \<Longrightarrow> eat_fold p (s @ t) = Some t"
  by (induction s arbitrary: p) auto

lemma eat_fold_other: "lower_char c \<noteq> p \<Longrightarrow> eat_fold (p # ps) (c # cs) = None"
  by simp

lemma eat_absent_sentence:
  "eat_absent (''No such object'' @ t) = Some t" "eat_absent (''No such container'' @ t) = Some t"
proof -
  have l: "map lower_char ''No such '' = ''no such ''" "map lower_char ''container'' = ''container''"
    "map lower_char ''object'' = ''object''" "lower_char (CHR ''o'') \<noteq> CHR ''c''" by code_simp+
  have "eat_fold ''no such '' (''No such '' @ u) = Some u" for u by (rule eat_fold_literal [OF l(1)])
  moreover have "eat_fold ''object'' (''object'' @ t) = Some t" "eat_fold ''container'' (''container'' @ t) = Some t"
    by (rule eat_fold_literal [OF l(3)], rule eat_fold_literal [OF l(2)])
  moreover have "eat_fold ''container'' (''object'' @ t) = None" using l(4) by simp
  ultimately show "eat_absent (''No such object'' @ t) = Some t" "eat_absent (''No such container'' @ t) = Some t"
    unfolding eat_absent_def by fastforce+
qed

lemma absent_names_sentence:
  assumes "list_all name_char body"
  shows "absent_names (''No such object: vantio-pe-'' @ body @ [CHR 0x0A]) = [''vantio-pe-'' @ body]"
    "absent_names (''No such container: vantio-pe-'' @ body @ [CHR 0x0A]) = [''vantio-pe-'' @ body]"
proof -
  have f: "alnum_char (CHR ''v'')" "list_all name_char ''vantio-pe-''" "is_space_char (CHR '' '')"
    "\<not> is_space_char (CHR '':'')" "\<not> is_space_char (CHR ''v'')" by code_simp+
  have b: "list_all name_char (''vantio-pe-'' @ body)" using assms f by simp
  note tw = takeWhile_dropWhile_stop [OF b lf_not_name(1)]
  have e: "eat_absent (''No such object: vantio-pe-'' @ body @ [CHR 0x0A]) = Some ('': vantio-pe-'' @ body @ [CHR 0x0A])"
    "eat_absent (''No such container: vantio-pe-'' @ body @ [CHR 0x0A]) = Some ('': vantio-pe-'' @ body @ [CHR 0x0A])"
    using eat_absent_sentence [of "'': vantio-pe-'' @ body @ [CHR 0x0A]"] by simp_all
  have r: "absent_names [CHR 0x0A] = []" by code_simp
  have "absent_named_at (''No such object: vantio-pe-'' @ body @ [CHR 0x0A]) = Some (''vantio-pe-'' @ body, [CHR 0x0A])"
    "absent_named_at (''No such container: vantio-pe-'' @ body @ [CHR 0x0A]) = Some (''vantio-pe-'' @ body, [CHR 0x0A])"
    unfolding absent_named_at_def e using f tw by (simp_all add: eat_one_def Let_def)
  then show "absent_names (''No such object: vantio-pe-'' @ body @ [CHR 0x0A]) = [''vantio-pe-'' @ body]"
    "absent_names (''No such container: vantio-pe-'' @ body @ [CHR 0x0A]) = [''vantio-pe-'' @ body]"
    using r by simp_all
qed

lemma owned_names_tail:
  assumes "list_all name_char body" "body \<noteq> []"
  shows "owned_names (''vantio-pe-'' @ body @ [CHR 0x0A]) = [''vantio-pe-'' @ body]"
proof -
  have "eat_fold ''vantio-pe-'' (''vantio-pe-'' @ body @ [CHR 0x0A]) = Some (body @ [CHR 0x0A])"
    by (rule eat_fold_literal) code_simp
  moreover have "owned_names [CHR 0x0A] = []" by code_simp
  ultimately show ?thesis
    using assms takeWhile_dropWhile_stop [OF assms(1) lf_not_name(1)] by (cases body) (simp_all add: owned_at_def)
qed

text \<open>Text before the first \<open>v\<close> holds no owned name and no absent sentence can start in it.\<close>

lemma owned_names_skip:
  assumes "list_all (\<lambda>c. lower_char c \<noteq> CHR ''v'') pre"
  shows "owned_names (pre @ t) = owned_names t"
  using assms by (induction pre) (auto simp: owned_at_def)

lemma absent_names_skip:
  assumes "list_all (\<lambda>(c, d). lower_char c \<noteq> CHR ''n'' \<or> lower_char d \<noteq> CHR ''o'') (zip pre (tl pre @ [e]))"
  shows "absent_names (pre @ e # t) = absent_names (e # t)"
  using assms
proof (induction pre)
  case (Cons c pre)
  have "absent_named_at (c # d # u) = None" if "lower_char c \<noteq> CHR ''n'' \<or> lower_char d \<noteq> CHR ''o''" for d u
    using that by (auto simp: absent_named_at_def eat_absent_def)
  then show ?case using Cons by (cases pre) auto
qed simp

text \<open>
  The two sentences docker prints for an object that is gone, with the name the transaction owns, are
  recognised for every transaction id that can own a name, so a container that is already gone does
  not block a rollback.
\<close>

theorem absent_sentence_recognised:
  assumes "transaction_container_name tid \<noteq> []"
    and "sentence \<in> {''Error: No such object: '', ''Error response from daemon: No such container: ''}"
  shows "claims_absent_object (sentence @ transaction_container_name tid @ [CHR 0x0A]) (transaction_container_name tid)"
proof -
  obtain body where n: "transaction_container_name tid = ''vantio-pe-'' @ body" "list_all name_char body"
    "length body = 12" "object_name_ok (transaction_container_name tid)"
    using transaction_name_shape [OF assms(1)] by blast
  let ?t = "sentence @ transaction_container_name tid @ [CHR 0x0A]"
  have "list_all (\<lambda>c. lower_char c \<noteq> CHR ''v'') ''Error: No such object: ''"
    "list_all (\<lambda>c. lower_char c \<noteq> CHR ''v'') ''Error response from daemon: No such container: ''" by code_simp+
  then have v: "list_all (\<lambda>c. lower_char c \<noteq> CHR ''v'') sentence" using assms(2) by blast
  have "owned_names (''vantio-pe-'' @ body @ [CHR 0x0A]) = [''vantio-pe-'' @ body]"
    using n(2,3) by (intro owned_names_tail) auto
  then have "owned_names ?t = [transaction_container_name tid]"
    unfolding owned_names_skip [OF v] n(1) by simp
  moreover have skip: "absent_names (''Error: '' @ CHR ''N'' # t) = absent_names (CHR ''N'' # t)"
    "absent_names (''Error response from daemon: '' @ CHR ''N'' # t) = absent_names (CHR ''N'' # t)" for t
    by (rule absent_names_skip, code_simp)+
  moreover have "absent_names ?t = [transaction_container_name tid]"
    using assms(2) absent_names_sentence [OF n(2)] skip n(1) by auto
  moreover have "?t \<noteq> []" by simp
  ultimately show ?thesis using n(4) by (simp add: claims_absent_object_def mentions_only_def)
qed


theorem absent_sentence_recognised_witness:
  "claims_absent_object
     (''Error: No such object: '' @ transaction_container_name ''vantio-tx-0123456789ab'' @ [CHR 0x0A])
     (transaction_container_name ''vantio-tx-0123456789ab'')"
proof (rule absent_sentence_recognised)
  show "transaction_container_name ''vantio-tx-0123456789ab'' \<noteq> []" by code_simp
qed simp

end
