(* ===== verification/Install_License.thy ===== *)
theory Install_License
  imports Install_Docker Install_Files
begin

text \<open>
  \<open>vantio_install/license_token.py\<close>: the offline license token. The signature check of the
  \<open>cryptography\<close> package is \<open>ed_verify\<close>, the text of a float \<open>float_text\<close>, both of the record
  \<open>Crypto\<close>; decoding UTF-8 and parsing JSON is \<open>fe_json\<close>, as for files. The clock is an argument.
\<close>

section \<open>Base64 for URLs\<close>

definition url_char :: "char \<Rightarrow> char" where
  "url_char c = (if c = CHR ''+'' then CHR ''-'' else if c = CHR ''/'' then CHR ''_'' else c)"

definition std_char :: "char \<Rightarrow> char" where
  "std_char c = (if c = CHR ''-'' then CHR ''+'' else if c = CHR ''_'' then CHR ''/'' else c)"

definition b64url_encode :: "bytes \<Rightarrow> string" where
  "b64url_encode data = py_rstrip ''='' (map url_char (b64encode data))"

definition b64url_char_ok :: "char \<Rightarrow> bool" where
  "b64url_char_ok c = (alnum_char c \<or> c = CHR ''-'' \<or> c = CHR ''_'')"

text \<open>\<^const>\<open>None\<close> is the \<open>ValueError\<close>. A length of one beyond a multiple of four is padded to text that
  does not decode, as in the library.\<close>

definition b64url_decode :: "string \<Rightarrow> bytes option" where
  "b64url_decode t =
     (if t = [] \<or> \<not> list_all b64url_char_ok t then None
      else b64decode (map std_char t @ replicate ((4 - length t mod 4) mod 4) (CHR ''='')))"

section \<open>Trusted keys\<close>

record LicenseKey =
  lk_kid :: string
  lk_mode :: string
  lk_public_key :: bytes

definition TOKEN_FIELDS :: "string list" where
  "TOKEN_FIELDS = [''v'', ''kid'', ''sku'', ''cus'', ''sub'', ''qty'', ''interval'', ''iat'', ''exp'', ''mode'']"

definition PUBLIC_FIELDS :: "string list" where
  "PUBLIC_FIELDS = [''sub'', ''qty'', ''interval'', ''exp'', ''kid'']"

text \<open>A non-empty text without white space.\<close>

definition solid_text :: "pyval \<Rightarrow> bool" where
  "solid_text v = (case v of PStr s \<Rightarrow> s \<noteq> [] \<and> \<not> list_ex is_space_char s | _ \<Rightarrow> False)"

definition str_of :: "pyval \<Rightarrow> string" where
  "str_of v = (case v of PStr s \<Rightarrow> s | _ \<Rightarrow> [])"

text \<open>\<open>value in {...}\<close> of two texts: a list or an object is a \<open>TypeError\<close>.\<close>

definition one_of :: "string list \<Rightarrow> pyval \<Rightarrow> string + bool" where
  "one_of texts v =
     (case v of PList _ \<Rightarrow> Inl ''TypeError'' | PDict _ \<Rightarrow> Inl ''TypeError'' | PStr s \<Rightarrow> Inr (s \<in> set texts) | _ \<Rightarrow> Inr False)"

definition parse_key :: "pyval \<Rightarrow> string + LicenseKey option" where
  "parse_key item =
     (case item of
        PDict d \<Rightarrow>
          if dict_get d ''alg'' \<noteq> PStr ''Ed25519'' \<or> \<not> solid_text (dict_get d ''kid'') then Inr None
          else
            bind_res (one_of [''test'', ''live''] (dict_get d ''mode'')) (\<lambda>mode_ok.
              (case dict_get d ''public_key_b64'' of
                 PStr b64 \<Rightarrow>
                   if \<not> mode_ok then Inr None
                   else
                     (case b64decode b64 of
                        None \<Rightarrow> Inr None
                      | Some raw \<Rightarrow>
                          if length raw \<noteq> 32 then Inr None
                          else Inr (Some \<lparr>lk_kid = str_of (dict_get d ''kid''), lk_mode = str_of (dict_get d ''mode''),
                                          lk_public_key = raw\<rparr>))
               | _ \<Rightarrow> Inr None))
      | _ \<Rightarrow> Inr None)"

definition keys_from_mapping :: "pyval \<Rightarrow> string + LicenseKey list" where
  "keys_from_mapping payload =
     (case payload of
        PDict d \<Rightarrow>
          (case dict_get d ''keys'' of
             PList items \<Rightarrow> bind_res (map_res parse_key items) (\<lambda>ks. Inr (List.map_filter id ks))
           | _ \<Rightarrow> Inr [])
      | _ \<Rightarrow> Inr [])"

definition packaged_license_keys :: "json_file \<Rightarrow> string + LicenseKey list" where
  "packaged_license_keys f = (case f of File (Doc v) \<Rightarrow> keys_from_mapping v | _ \<Rightarrow> Inr [])"

section \<open>Tokens\<close>

record TokenResult =
  tr_ok :: bool
  tr_reason :: string
  tr_payload :: "(string \<times> pyval) list option"
  tr_license :: "(string \<times> pyval) list option"
  tr_exp :: "int option"

definition token_refused :: "string \<Rightarrow> TokenResult" where
  "token_refused reason =
     \<lparr>tr_ok = False, tr_reason = reason, tr_payload = None, tr_license = None, tr_exp = None\<rparr>"

definition public_license_fields :: "(string \<times> pyval) list \<Rightarrow> (string \<times> pyval) list" where
  "public_license_fields payload = map (\<lambda>key. (key, dict_get payload key)) PUBLIC_FIELDS"

definition is_int :: "pyval \<Rightarrow> bool" where
  "is_int v = (case v of PInt _ \<Rightarrow> True | _ \<Rightarrow> False)"

definition int_of_val :: "pyval \<Rightarrow> int" where
  "int_of_val v = (case v of PInt n \<Rightarrow> n | _ \<Rightarrow> 0)"

text \<open>\<open>payload["v"] != 1\<close> and \<open>payload["qty"] < 1\<close> are asked of integers only.\<close>

definition payload_reason :: "(string \<times> pyval) list \<Rightarrow> string + string option" where
  "payload_reason payload =
     (if dict_get payload ''v'' \<noteq> PInt 1 then Inr (Some ''MALFORMED'')
      else if \<not> solid_text (dict_get payload ''kid'') then Inr (Some ''MALFORMED'')
      else if dict_get payload ''sku'' \<noteq> PStr ''phantom-engine'' then Inr (Some ''SKU_MISMATCH'')
      else if \<not> solid_text (dict_get payload ''cus'') \<or> \<not> solid_text (dict_get payload ''sub'') then Inr (Some ''MALFORMED'')
      else if \<not> is_int (dict_get payload ''qty'') \<or> int_of_val (dict_get payload ''qty'') < 1 then Inr (Some ''MALFORMED'')
      else
        bind_res (one_of [''month'', ''year''] (dict_get payload ''interval'')) (\<lambda>interval_ok.
          if \<not> interval_ok then Inr (Some ''MALFORMED'')
          else if \<not> is_int (dict_get payload ''iat'') \<or> \<not> is_int (dict_get payload ''exp'') then Inr (Some ''MALFORMED'')
          else
            bind_res (one_of [''test'', ''live''] (dict_get payload ''mode'')) (\<lambda>mode_ok.
              Inr (if mode_ok then None else Some ''MALFORMED''))))"

definition signed_bytes :: "string \<Rightarrow> bytes" where
  "signed_bytes part = text_bytes (''vl1.'' @ part)"

definition verify_token ::
  "Crypto \<Rightarrow> FileEnv \<Rightarrow> LicenseKey list \<Rightarrow> int \<Rightarrow> string \<Rightarrow> string + TokenResult" where
  "verify_token cr fe trust clock token =
     (case py_split (CHR ''.'') (py_isspace_strip token) of
        [head, body, mac] \<Rightarrow>
          if head \<noteq> ''vl1'' \<or> body = [] \<or> mac = [] then Inr (token_refused ''MALFORMED'')
          else
            (case (b64url_decode body, b64url_decode mac) of
               (Some raw, Some signature) \<Rightarrow>
                 (case fe_json fe raw of
                    Doc (PDict payload) \<Rightarrow>
                      if set (map fst payload) \<noteq> set TOKEN_FIELDS then Inr (token_refused ''MALFORMED'')
                      else
                        bind_res (payload_reason payload) (\<lambda>reason.
                          (case reason of
                             Some r \<Rightarrow> Inr (token_refused r)
                           | None \<Rightarrow>
                               (case find (\<lambda>item. PStr (lk_kid item) = dict_get payload ''kid'') trust of
                                  None \<Rightarrow> Inr (token_refused ''UNKNOWN_KID'')
                                | Some pinned \<Rightarrow>
                                    if PStr (lk_mode pinned) \<noteq> dict_get payload ''mode'' then Inr (token_refused ''MODE_MISMATCH'')
                                    else if \<not> ed_verify cr (lk_public_key pinned) signature (signed_bytes body) then
                                      Inr (token_refused ''BAD_SIGNATURE'')
                                    else if int_of_val (dict_get payload ''exp'') \<le> clock then
                                      Inr ((token_refused ''EXPIRED'')\<lparr>tr_exp := Some (int_of_val (dict_get payload ''exp''))\<rparr>)
                                    else
                                      Inr \<lparr>tr_ok = True, tr_reason = ''VERIFIED'', tr_payload = Some payload,
                                           tr_license = Some (public_license_fields payload), tr_exp = None\<rparr>)))
                  | _ \<Rightarrow> Inr (token_refused ''MALFORMED''))
             | _ \<Rightarrow> Inr (token_refused ''MALFORMED''))
      | _ \<Rightarrow> Inr (token_refused ''MALFORMED''))"

definition issue_token ::
  "Crypto \<Rightarrow> (string \<times> pyval) list \<Rightarrow> (bytes \<Rightarrow> bytes) \<Rightarrow> string" where
  "issue_token cr payload sign =
     (let part = b64url_encode (text_bytes (json_dumps '','' '':'' True (float_text cr) (PDict payload)))
      in ''vl1.'' @ part @ ''.'' @ b64url_encode (sign (signed_bytes part)))"

text \<open>The stored file: \<open>encode("ascii")\<close> raises on other text, and a file that is not ASCII reads as
  no license.\<close>

definition store_license :: "string \<Rightarrow> string + bytes" where
  "store_license token =
     (let t = py_isspace_strip token in
      if \<not> is_ascii t then Inl ''UnicodeEncodeError'' else Inr (text_bytes (t @ [CHR 0x0A])))"

definition read_stored_license :: "bytes option \<Rightarrow> string option" where
  "read_stored_license content =
     (case content of
        None \<Rightarrow> None
      | Some b \<Rightarrow>
          if list_ex (\<lambda>w. 128 \<le> unat w) b then None
          else Some (py_isspace_strip (map (\<lambda>w. char_of (unat w)) b)))"

section \<open>Lemmas\<close>

definition valid_payload :: "(string \<times> pyval) list \<Rightarrow> bool" where
  "valid_payload payload =
     (set (map fst payload) = set TOKEN_FIELDS \<and> dict_get payload ''v'' = PInt 1
      \<and> dict_get payload ''sku'' = PStr ''phantom-engine''
      \<and> list_all (\<lambda>key. solid_text (dict_get payload key)) [''kid'', ''cus'', ''sub'']
      \<and> list_all (\<lambda>key. is_int (dict_get payload key)) [''qty'', ''iat'', ''exp'']
      \<and> 1 \<le> int_of_val (dict_get payload ''qty'')
      \<and> dict_get payload ''interval'' \<in> {PStr ''month'', PStr ''year''}
      \<and> dict_get payload ''mode'' \<in> {PStr ''test'', PStr ''live''})"

lemma one_of_True: "one_of texts v = Inr True \<longleftrightarrow> (\<exists>s \<in> set texts. v = PStr s)"
  by (cases v) (auto simp: one_of_def)

lemma payload_reason_None:
  "set (map fst payload) = set TOKEN_FIELDS \<Longrightarrow> payload_reason payload = Inr None \<longleftrightarrow> valid_payload payload"
  unfolding payload_reason_def valid_payload_def
  by (auto simp: bind_res_Inr_iff one_of_True split: if_splits)

definition accepted_result :: "(string \<times> pyval) list \<Rightarrow> TokenResult" where
  "accepted_result payload =
     \<lparr>tr_ok = True, tr_reason = ''VERIFIED'', tr_payload = Some payload,
      tr_license = Some (public_license_fields payload), tr_exp = None\<rparr>"

lemma refused_not_ok [simp]: "tr_ok (token_refused r) = False"
  by (simp add: token_refused_def)

lemma refused_not_accepted [simp]:
  "token_refused x \<noteq> \<lparr>tr_ok = True, tr_reason = y, tr_payload = p, tr_license = l, tr_exp = e\<rparr>"
  by (simp add: token_refused_def)

text \<open>What makes a token good: its three parts, its payload, a pinned key of its mode whose signature
  covers exactly the characters of the payload part, and the time.\<close>

definition good_token ::
  "Crypto \<Rightarrow> FileEnv \<Rightarrow> LicenseKey list \<Rightarrow> int \<Rightarrow> string \<Rightarrow> (string \<times> pyval) list \<Rightarrow> bool" where
  "good_token cr fe trust clock token payload =
     (\<exists>body mac raw signature pinned.
        py_split (CHR ''.'') (py_isspace_strip token) = [''vl1'', body, mac]
        \<and> b64url_decode body = Some raw \<and> b64url_decode mac = Some signature
        \<and> fe_json fe raw = Doc (PDict payload) \<and> valid_payload payload
        \<and> find (\<lambda>item. PStr (lk_kid item) = dict_get payload ''kid'') trust = Some pinned
        \<and> PStr (lk_mode pinned) = dict_get payload ''mode''
        \<and> ed_verify cr (lk_public_key pinned) signature (signed_bytes body)
        \<and> clock < int_of_val (dict_get payload ''exp''))"

lemma b64url_decode_nonempty: "b64url_decode t = Some raw \<Longrightarrow> t \<noteq> []"
  by (auto simp: b64url_decode_def)

lemma good_token_verifies:
  assumes "good_token cr fe trust clock token payload"
  shows "verify_token cr fe trust clock token = Inr (accepted_result payload)"
proof -
  from assms obtain body mac raw signature pinned where g:
    "py_split (CHR ''.'') (py_isspace_strip token) = [''vl1'', body, mac]"
    "b64url_decode body = Some raw" "b64url_decode mac = Some signature"
    "fe_json fe raw = Doc (PDict payload)" "valid_payload payload"
    "find (\<lambda>item. PStr (lk_kid item) = dict_get payload ''kid'') trust = Some pinned"
    "PStr (lk_mode pinned) = dict_get payload ''mode''"
    "ed_verify cr (lk_public_key pinned) signature (signed_bytes body)" "clock < int_of_val (dict_get payload ''exp'')"
    unfolding good_token_def by blast
  have keys: "set (map fst payload) = set TOKEN_FIELDS" using g(5) by (simp add: valid_payload_def)
  then have "payload_reason payload = Inr None" using payload_reason_None g(5) by blast
  then show ?thesis
    using g keys b64url_decode_nonempty [OF g(2)] b64url_decode_nonempty [OF g(3)]
    unfolding verify_token_def by (simp add: accepted_result_def del: set_map list.map)
qed

lemma verified_good_token:
  assumes "verify_token cr fe trust clock token = Inr r" "tr_ok r"
  obtains payload where "good_token cr fe trust clock token payload" "r = accepted_result payload"
proof -
  from assms obtain body mac where s: "py_split (CHR ''.'') (py_isspace_strip token) = [''vl1'', body, mac]"
    by (auto simp: verify_token_def split: list.splits if_splits)
  from assms s obtain raw signature payload where d:
    "b64url_decode body = Some raw" "b64url_decode mac = Some signature" "fe_json fe raw = Doc (PDict payload)"
    "set (map fst payload) = set TOKEN_FIELDS"
    by (auto simp: verify_token_def simp del: set_map list.map
        split: if_splits option.splits json_doc.splits pyval.splits)
  from assms s d have p: "payload_reason payload = Inr None"
    by (auto simp: verify_token_def bind_res_Inr_iff simp del: set_map list.map split: if_splits option.splits)
  with assms s d obtain pinned where k:
    "find (\<lambda>item. PStr (lk_kid item) = dict_get payload ''kid'') trust = Some pinned"
    "PStr (lk_mode pinned) = dict_get payload ''mode''"
    "ed_verify cr (lk_public_key pinned) signature (signed_bytes body)" "clock < int_of_val (dict_get payload ''exp'')"
    "r = accepted_result payload"
    by (auto simp: verify_token_def accepted_result_def simp del: set_map list.map split: if_splits option.splits)
  show thesis
    by (rule that [OF _ k(5)]) (use s d p k payload_reason_None [OF d(4)] in \<open>auto simp: good_token_def\<close>)
qed

subsection \<open>The encoding\<close>

lemma b64_digits:
  assumes "k < 64"
  shows "b64url_char_ok (url_char (b64_char k))" "std_char (url_char (b64_char k)) = b64_char k"
    "url_char (b64_char k) \<noteq> CHR ''=''"
proof -
  have "list_all (\<lambda>k. b64url_char_ok (url_char (b64_char k)) \<and> std_char (url_char (b64_char k)) = b64_char k
      \<and> url_char (b64_char k) \<noteq> CHR ''='') [0..<64]" by code_simp
  then show "b64url_char_ok (url_char (b64_char k))" "std_char (url_char (b64_char k)) = b64_char k"
    "url_char (b64_char k) \<noteq> CHR ''=''"
    using assms by (simp_all add: list_all_iff)
qed

lemma b64_shape:
  "\<exists>core n. b64encode d = map b64_char core @ replicate n (CHR ''='') \<and> n < 3 \<and> (length core + n) mod 4 = 0
     \<and> list_all (\<lambda>k. k < 64) core \<and> (d \<noteq> [] \<longrightarrow> core \<noteq> [])"
proof (induction d rule: b64encode.induct)
  case 1
  show ?case by (intro exI [of _ "[]"] exI [of _ 0]) simp
next
  case (2 a)
  have "unat a div 4 < 64" "unat a mod 4 * 16 < 64" using unat_byte_less [of a] by linarith+
  then show ?case
    by (intro exI [of _ "[unat a div 4, unat a mod 4 * 16]"] exI [of _ 2]) (simp add: numeral_2_eq_2)
next
  case (3 a b)
  have "unat a div 4 < 64" "unat a mod 4 * 16 + unat b div 16 < 64" "unat b mod 16 * 4 < 64"
    using unat_byte_less [of a] unat_byte_less [of b] by linarith+
  then show ?case
    by (intro exI [of _ "[unat a div 4, unat a mod 4 * 16 + unat b div 16, unat b mod 16 * 4]"] exI [of _ 1]) simp
next
  case (4 a b c rest)
  then obtain core n where r: "b64encode rest = map b64_char core @ replicate n (CHR ''='')" "n < 3"
    "(length core + n) mod 4 = 0" "list_all (\<lambda>k. k < 64) core" by auto
  have "unat a < 256" "unat b < 256" "unat c < 256" using unat_byte_less [of a] unat_byte_less [of b] unat_byte_less [of c] by simp_all
  then have "unat a div 4 < 64" "unat a mod 4 * 16 + unat b div 16 < 64" "unat b mod 16 * 4 + unat c div 64 < 64"
    "unat c mod 64 < 64" by linarith+
  with r show ?case
    by (intro exI [of _ "[unat a div 4, unat a mod 4 * 16 + unat b div 16, unat b mod 16 * 4 + unat c div 64, unat c mod 64] @ core"]
        exI [of _ n]) simp
qed

lemma rstrip_pad:
  assumes "xs = [] \<or> last xs \<noteq> c"
  shows "py_rstrip [c] (xs @ replicate n c) = xs"
proof -
  have "dropWhile (\<lambda>x. x \<in> set [c]) (replicate n c @ rev xs) = dropWhile (\<lambda>x. x \<in> set [c]) (rev xs)"
    by (induction n) auto
  also have "\<dots> = rev xs" using assms by (cases xs rule: rev_cases) auto
  finally show ?thesis by (simp add: py_rstrip_def)
qed

lemma b64url_encode_shape:
  assumes "d \<noteq> []"
  obtains core n where "b64encode d = map b64_char core @ replicate n (CHR ''='')" "n < 3"
    "(length core + n) mod 4 = 0" "list_all (\<lambda>k. k < 64) core" "core \<noteq> []"
    "b64url_encode d = map (\<lambda>k. url_char (b64_char k)) core"
proof -
  obtain core n where c: "b64encode d = map b64_char core @ replicate n (CHR ''='')" "n < 3"
    "(length core + n) mod 4 = 0" "list_all (\<lambda>k. k < 64) core" "d \<noteq> [] \<longrightarrow> core \<noteq> []"
    using b64_shape [of d] by auto
  have pad: "url_char (CHR ''='') = CHR ''=''" by code_simp
  have "last core < 64" using c(4,5) assms by (simp add: list_all_iff)
  then have "last (map (\<lambda>k. url_char (b64_char k)) core) \<noteq> CHR ''=''"
    using c(5) assms b64_digits(3) by (simp add: last_map)
  then have "b64url_encode d = map (\<lambda>k. url_char (b64_char k)) core"
    using rstrip_pad [of "map (\<lambda>k. url_char (b64_char k)) core" "CHR ''=''" n] pad
    by (simp add: b64url_encode_def c(1) comp_def)
  with c assms show thesis by (intro that [of core n]) auto
qed

lemma b64url_chars: "d \<noteq> [] \<Longrightarrow> list_all b64url_char_ok (b64url_encode d) \<and> b64url_encode d \<noteq> []"
  by (rule b64url_encode_shape [of d]) (use b64_digits(1) in \<open>auto simp: list_all_iff\<close>)

lemma pad_length:
  assumes "r < 4" "n < 3" "(r + n) mod 4 = (0 :: nat)"
  shows "(4 - r) mod 4 = n"
proof (cases "r = 0")
  case False
  with assms have "r + n = 4" by (simp add: mod_if split: if_splits)
  then show ?thesis using False assms(2) by simp
qed (use assms in simp)

lemma b64url_roundtrip:
  assumes "d \<noteq> []"
  shows "b64url_decode (b64url_encode d) = Some d"
proof (rule b64url_encode_shape [OF assms])
  fix core n
  assume c: "b64encode d = map b64_char core @ replicate n (CHR ''='')" "n < 3"
    "(length core + n) mod 4 = 0" "list_all (\<lambda>k. k < 64) core" "core \<noteq> []"
    "b64url_encode d = map (\<lambda>k. url_char (b64_char k)) core"
  have "(length core mod 4 + n) mod 4 = 0" using c(3) by (simp add: mod_add_left_eq)
  then have "(4 - length core mod 4) mod 4 = n" using pad_length [of "length core mod 4" n] c(2) by simp
  moreover have "map std_char (map (\<lambda>k. url_char (b64_char k)) core) = map b64_char core"
    using c(4) b64_digits(2) by (simp add: list_all_iff)
  moreover have "list_all b64url_char_ok (map (\<lambda>k. url_char (b64_char k)) core)"
    using b64url_chars [OF assms] unfolding c(6) by blast
  moreover have "b64decode (map b64_char core @ replicate n (CHR ''='')) = Some d"
    using b64_roundtrip [of d] unfolding c(1) .
  ultimately show ?thesis
    using c(5) unfolding b64url_decode_def c(6) by (simp only: length_map map_is_Nil_conv simp_thms if_False)
qed

lemma strip_solid:
  assumes "s \<noteq> []" "\<not> is_space_char (hd s)" "\<not> is_space_char (last s)"
  shows "py_isspace_strip s = s"
proof -
  have "dropWhile is_space_char s = s" using assms(1,2) by (cases s) auto
  moreover have "dropWhile is_space_char (rev s) = rev s" using assms(1,3) by (cases s rule: rev_cases) auto
  ultimately show ?thesis by (simp add: py_isspace_strip_def)
qed

lemma b64url_char_solid: "b64url_char_ok c \<Longrightarrow> \<not> is_space_char c" "b64url_char_ok c \<Longrightarrow> c \<noteq> CHR ''.''"
  by (auto simp: b64url_char_ok_def alnum_char_def is_space_char_def Let_def)

lemma token_parts:
  assumes "list_all b64url_char_ok body" "body \<noteq> []" "list_all b64url_char_ok mac" "mac \<noteq> []"
  shows "py_isspace_strip (''vl1.'' @ body @ ''.'' @ mac) = ''vl1.'' @ body @ ''.'' @ mac"
    "py_split (CHR ''.'') (''vl1.'' @ body @ ''.'' @ mac) = [''vl1'', body, mac]"
proof -
  have "\<not> is_space_char (last mac)" using assms(3,4) b64url_char_solid(1) by (simp add: list_all_iff)
  moreover have "\<not> is_space_char (CHR ''v'')" by code_simp
  ultimately show "py_isspace_strip (''vl1.'' @ body @ ''.'' @ mac) = ''vl1.'' @ body @ ''.'' @ mac"
    using assms(4) by (intro strip_solid) auto
  have f: "CHR ''.'' \<notin> set body" "CHR ''.'' \<notin> set mac"
    using assms(1,3) b64url_char_solid(2) by (auto simp: list_all_iff)
  show "py_split (CHR ''.'') (''vl1.'' @ body @ ''.'' @ mac) = [''vl1'', body, mac]"
    using py_split_append_sep [OF f(1), of mac] py_split_sep_free_self [OF f(2)] by simp
qed

lemma strip_line_feed:
  assumes "s \<noteq> []" "\<not> is_space_char (hd s)" "\<not> is_space_char (last s)"
  shows "py_isspace_strip (s @ [CHR 0x0A]) = s"
proof -
  have "dropWhile is_space_char (s @ [CHR 0x0A]) = s @ [CHR 0x0A]" using assms(1,2) by (cases s) auto
  moreover have "is_space_char (CHR 0x0A)" by code_simp
  moreover have "dropWhile is_space_char (rev s) = rev s" using assms(1,3) by (cases s rule: rev_cases) auto
  ultimately show ?thesis by (simp add: py_isspace_strip_def)
qed

lemma ascii_bytes_read:
  assumes "is_ascii s"
  shows "\<not> list_ex (\<lambda>w. 128 \<le> unat w) (text_bytes s)" "map (\<lambda>w. char_of (unat w)) (text_bytes s) = s"
proof -
  have u: "unat (word_of_nat (py_ord c) :: byte) = py_ord c" for c
    by (simp add: unat_of_nat)
  show "\<not> list_ex (\<lambda>w. 128 \<le> unat w) (text_bytes s)"
    using assms by (induction s) (auto simp: text_bytes_def is_ascii_def u)
  show "map (\<lambda>w. char_of (unat w)) (text_bytes s) = s"
    by (induction s) (auto simp: text_bytes_def u)
qed

lemma stored_token:
  assumes "t \<noteq> []" "\<not> is_space_char (hd t)" "\<not> is_space_char (last t)" "is_ascii t"
  shows "store_license t = Inr (text_bytes (t @ [CHR 0x0A]))"
    "read_stored_license (Some (text_bytes (t @ [CHR 0x0A]))) = Some t"
proof -
  have a: "is_ascii (t @ [CHR 0x0A])" using assms(4) by (simp add: is_ascii_def)
  show "store_license t = Inr (text_bytes (t @ [CHR 0x0A]))"
    using assms strip_solid by (simp add: store_license_def)
  show "read_stored_license (Some (text_bytes (t @ [CHR 0x0A]))) = Some t"
    using strip_line_feed [OF assms(1-3)] ascii_bytes_read [OF a] by (simp add: read_stored_license_def)
qed

lemma b64url_char_ascii: "b64url_char_ok c \<Longrightarrow> py_ord c \<le> 127"
  by (auto simp: b64url_char_ok_def alnum_char_def Let_def)

section \<open>Properties\<close>

text \<open>
  C16: a token is accepted exactly when its payload decodes to the ten fields with their types and a mode,
  the first pinned key with its key id has that mode, its signature covers the characters of
  the payload part as they stand, and it has not expired; the result is then the payload and its public fields.
\<close>

theorem token_verified_iff:
  "(\<exists>r. verify_token cr fe trust clock token = Inr r \<and> tr_ok r \<and> tr_payload r = Some payload)
     \<longleftrightarrow> good_token cr fe trust clock token payload"
proof
  assume "\<exists>r. verify_token cr fe trust clock token = Inr r \<and> tr_ok r \<and> tr_payload r = Some payload"
  then obtain r where r: "verify_token cr fe trust clock token = Inr r" "tr_ok r" "tr_payload r = Some payload" by blast
  obtain p where "good_token cr fe trust clock token p" "r = accepted_result p"
    using verified_good_token [OF r(1,2)] by blast
  with r(3) show "good_token cr fe trust clock token payload" by (simp add: accepted_result_def)
next
  assume "good_token cr fe trust clock token payload"
  from good_token_verifies [OF this]
  show "\<exists>r. verify_token cr fe trust clock token = Inr r \<and> tr_ok r \<and> tr_payload r = Some payload"
    by (simp add: accepted_result_def)
qed

text \<open>
  C21: a token issued for a valid payload with a pinned key of its mode is accepted until it expires, and
  what is stored of it reads back as the token. The JSON of the payload parses back, and the key verifies its own
  signatures, which are not empty.
\<close>

theorem issued_token_accepted:
  fixes cr fe sign payload
  defines "document \<equiv> text_bytes (json_dumps '','' '':'' True (float_text cr) (PDict payload))"
    and "token \<equiv> issue_token cr payload sign"
  assumes "valid_payload payload" "fe_json fe document = Doc (PDict payload)"
    and "find (\<lambda>item. PStr (lk_kid item) = dict_get payload ''kid'') trust = Some pinned"
    and "PStr (lk_mode pinned) = dict_get payload ''mode''"
    and "ed_verify cr (lk_public_key pinned) (sign (signed_bytes (b64url_encode document))) (signed_bytes (b64url_encode document))"
    and "sign (signed_bytes (b64url_encode document)) \<noteq> []"
    and "clock < int_of_val (dict_get payload ''exp'')"
  shows "verify_token cr fe trust clock token = Inr (accepted_result payload)
    \<and> (\<exists>content. store_license token = Inr content \<and> read_stored_license (Some content) = Some token)"
proof -
  let ?body = "b64url_encode document"
  let ?mac = "b64url_encode (sign (signed_bytes ?body))"
  have "document \<noteq> []" by (simp add: document_def text_bytes_def)
  note chars = b64url_chars [OF this] b64url_chars [OF assms(8)]
  have t: "token = ''vl1.'' @ ?body @ ''.'' @ ?mac"
    by (simp add: token_def issue_token_def document_def Let_def)
  note parts = token_parts [of ?body ?mac, folded t]
  have split: "py_split (CHR ''.'') (py_isspace_strip token) = [''vl1'', ?body, ?mac]"
    using parts chars by simp
  have "good_token cr fe trust clock token payload"
    unfolding good_token_def
    using split b64url_roundtrip [OF \<open>document \<noteq> []\<close>] b64url_roundtrip [OF assms(8)] assms(3-7,9) by blast
  moreover have "is_ascii token" "\<not> is_space_char (last token)"
    using chars b64url_char_ascii b64url_char_solid(1)
    by (auto simp: t is_ascii_def list_all_iff)
  then have "store_license token = Inr (text_bytes (token @ [CHR 0x0A]))"
    "read_stored_license (Some (text_bytes (token @ [CHR 0x0A]))) = Some token"
    using stored_token [of token] by (simp_all add: t is_space_char_def)
  ultimately show ?thesis
    using good_token_verifies by blast
qed

text \<open>
  A token nobody signed can stop the check with an exception: with a list where the interval or
  the mode belongs, the membership test raises a \<open>TypeError\<close>, before any key or signature is looked at.
\<close>

theorem unsigned_token_raises:
  assumes "raw \<noteq> []" "fe_json fe raw = Doc (PDict payload)" "set (map fst payload) = set TOKEN_FIELDS"
    and "dict_get payload ''v'' = PInt 1" "dict_get payload ''sku'' = PStr ''phantom-engine''"
    and "list_all (\<lambda>key. solid_text (dict_get payload key)) [''kid'', ''cus'', ''sub'']"
    and "dict_get payload ''qty'' = PInt qty" "1 \<le> qty" "dict_get payload ''interval'' = PList vs"
  shows "verify_token cr fe trust clock (''vl1.'' @ b64url_encode raw @ ''.AA'') = Inl ''TypeError''"
proof -
  have "list_all b64url_char_ok ''AA''" by code_simp
  note parts = token_parts [of "b64url_encode raw" "''AA''"]
  have split: "py_split (CHR ''.'') (py_isspace_strip (''vl1.'' @ b64url_encode raw @ ''.AA'')) = [''vl1'', b64url_encode raw, ''AA'']"
    using parts b64url_chars [OF assms(1)] \<open>list_all b64url_char_ok ''AA''\<close> by simp
  have "b64url_decode ''AA'' = Some [0]" by code_simp
  moreover have "payload_reason payload = Inl ''TypeError''"
    using assms(4-9) by (simp add: payload_reason_def is_int_def int_of_val_def one_of_def)
  ultimately show ?thesis
    using split b64url_roundtrip [OF assms(1)] b64url_chars [OF assms(1)] assms(2,3)
    by (simp add: verify_token_def del: set_map list.map)
qed

definition sample_license :: "pyval \<Rightarrow> (string \<times> pyval) list" where
  "sample_license interval =
     [(''v'', PInt 1), (''kid'', PStr ''k1''), (''sku'', PStr ''phantom-engine''), (''cus'', PStr ''c''), (''sub'', PStr ''s''),
      (''qty'', PInt 1), (''interval'', interval), (''iat'', PInt 0), (''exp'', PInt 100), (''mode'', PStr ''test'')]"

definition sample_license_env :: "pyval \<Rightarrow> FileEnv" where
  "sample_license_env interval = \<lparr>fe_sha = (\<lambda>_. []), fe_json = (\<lambda>_. Doc (PDict (sample_license interval)))\<rparr>"

definition sample_signing :: Crypto where
  "sample_signing = \<lparr>ed_verify = (\<lambda>_ signature _. signature = [7]), float_text = (\<lambda>_. [])\<rparr>"

theorem issued_token_accepted_witness:
  "verify_token sample_signing (sample_license_env (PStr ''year'')) [\<lparr>lk_kid = ''k1'', lk_mode = ''test'', lk_public_key = []\<rparr>] 5
     (issue_token sample_signing (sample_license (PStr ''year'')) (\<lambda>_. [7]))
   = Inr (accepted_result (sample_license (PStr ''year'')))"
proof -
  have v: "valid_payload (sample_license (PStr ''year''))" by code_simp
  have "verify_token sample_signing (sample_license_env (PStr ''year'')) [\<lparr>lk_kid = ''k1'', lk_mode = ''test'', lk_public_key = []\<rparr>] 5
     (issue_token sample_signing (sample_license (PStr ''year'')) (\<lambda>_. [7])) = Inr (accepted_result (sample_license (PStr ''year'')))
     \<and> (\<exists>content. store_license (issue_token sample_signing (sample_license (PStr ''year'')) (\<lambda>_. [7])) = Inr content
        \<and> read_stored_license (Some content) = Some (issue_token sample_signing (sample_license (PStr ''year'')) (\<lambda>_. [7])))"
    by (rule issued_token_accepted [where pinned = "\<lparr>lk_kid = ''k1'', lk_mode = ''test'', lk_public_key = []\<rparr>", OF v])
      (simp_all add: sample_license_env_def sample_license_def sample_signing_def int_of_val_def)
  then show ?thesis by blast
qed

theorem unsigned_token_raises_witness:
  "verify_token sample_signing (sample_license_env (PList [])) [] 5 (''vl1.'' @ b64url_encode [0x7B] @ ''.AA'') = Inl ''TypeError''"
proof (rule unsigned_token_raises [where payload = "sample_license (PList [])" and qty = 1 and vs = "[]"])
  show "set (map fst (sample_license (PList []))) = set TOKEN_FIELDS" by code_simp
  show "list_all (\<lambda>key. solid_text (dict_get (sample_license (PList [])) key)) [''kid'', ''cus'', ''sub'']" by code_simp
qed (simp_all add: sample_license_env_def sample_license_def)

end
