(* ===== verification/Install_Oci.thy ===== *)
theory Install_Oci
  imports Install_Files
begin

text \<open>
  \<open>vantio_install/oci_load.py\<close>: the load archive whose layer media types match the bytes. An archive is
  the list of its members in order, the bytes of a regular file or \<^const>\<open>None\<close>; the tar format and links
  inside an archive are left to the library. JSON and SHA-256 are those of \<^typ>\<open>FileEnv\<close>, the text of a float is \<open>ft\<close>.
\<close>

section \<open>Archives\<close>

type_synonym archive = "(string \<times> bytes option) list"

text \<open>An error the module raises itself, or a decoding error of the library.\<close>

datatype oci_exn = Oci_Error string | Decode_Error

definition GZIP_MAGIC :: bytes where "GZIP_MAGIC = [0x1F, 0x8B]"

definition OCI_TAR :: string where "OCI_TAR = ''application/vnd.oci.image.layer.v1.tar''"
definition OCI_GZIP :: string where "OCI_GZIP = ''application/vnd.oci.image.layer.v1.tar+gzip''"
definition DOCKER_TAR :: string where "DOCKER_TAR = ''application/vnd.docker.image.rootfs.diff.tar''"
definition DOCKER_GZIP :: string where "DOCKER_GZIP = ''application/vnd.docker.image.rootfs.diff.tar.gzip''"

definition GZIP_MEDIA :: "(string \<times> string) list" where
  "GZIP_MEDIA = [(OCI_TAR, OCI_GZIP), (DOCKER_TAR, DOCKER_GZIP)]"

definition TAR_MEDIA :: "(string \<times> string) list" where
  "TAR_MEDIA = map (\<lambda>(k, v). (v, k)) GZIP_MEDIA"

definition UNPACK_MARKERS :: "string list" where
  "UNPACK_MARKERS = [''invalid tar header'', ''Error unpacking'', ''apply layer error'', ''failed to extract layer'']"

definition load_output_rejected :: "string \<Rightarrow> string \<Rightarrow> bool" where
  "load_output_rejected out err =
     list_ex (\<lambda>marker. sublist marker (out @ [CHR 0x0A] @ err)) UNPACK_MARKERS"

definition replacement_media :: "string \<Rightarrow> bytes \<Rightarrow> string option" where
  "replacement_media media magic =
     (let gzip = (magic = GZIP_MAGIC) in
      if map_of GZIP_MEDIA media \<noteq> None \<and> gzip then map_of GZIP_MEDIA media
      else if map_of TAR_MEDIA media \<noteq> None \<and> \<not> gzip then map_of TAR_MEDIA media
      else None)"

text \<open>\<open>getmember\<close>: the last member of a name.\<close>

definition member_of :: "archive \<Rightarrow> string \<Rightarrow> bytes option" where
  "member_of ar name = (case map_of (rev ar) name of None \<Rightarrow> None | Some content \<Rightarrow> content)"

definition missing_error :: "string \<Rightarrow> oci_exn" where
  "missing_error name = Oci_Error (''Missing '' @ name @ ''.'')"

definition oci_json :: "FileEnv \<Rightarrow> archive \<Rightarrow> string \<Rightarrow> oci_exn + (string \<times> pyval) list" where
  "oci_json fe ar name =
     (case member_of ar name of
        None \<Rightarrow> Inl (missing_error name)
      | Some b \<Rightarrow>
          (case fe_json fe b of
             Doc (PDict d) \<Rightarrow> Inr d
           | Doc _ \<Rightarrow> Inl (Oci_Error (name @ '' is not a JSON object.''))
           | _ \<Rightarrow> Inl Decode_Error))"

definition oci_prefix :: "archive \<Rightarrow> string \<Rightarrow> nat \<Rightarrow> oci_exn + bytes" where
  "oci_prefix ar name count =
     (case member_of ar name of None \<Rightarrow> Inl (missing_error name) | Some b \<Rightarrow> Inr (take count b))"

definition digest_hex :: "pyval \<Rightarrow> oci_exn + string" where
  "digest_hex v =
     (case v of
        PStr s \<Rightarrow>
          if \<not> prefix ''sha256:'' s then Inl (Oci_Error ''An OCI digest is missing.'')
          else if \<not> hex_text (drop 7 s) 64 then Inl (Oci_Error ''An OCI digest is not a sha256 hex string.'')
          else Inr (drop 7 s)
      | _ \<Rightarrow> Inl (Oci_Error ''An OCI digest is missing.''))"

definition blob_name :: "string \<Rightarrow> string" where
  "blob_name digest = ''blobs/sha256/'' @ digest"

text \<open>\<open>d[key] = v\<close>: a key keeps its place, a new one goes last.\<close>

fun dict_set :: "string \<Rightarrow> pyval \<Rightarrow> (string \<times> pyval) list \<Rightarrow> (string \<times> pyval) list" where
  "dict_set key v [] = [(key, v)]"
| "dict_set key v ((k, w) # rest) = (if k = key then (k, v) # rest else (k, w) # dict_set key v rest)"

text \<open>The media type as text. A value that is neither text nor false has a text that is no media type.\<close>

definition media_of :: "(string \<times> pyval) list \<Rightarrow> string" where
  "media_of layer = (case dict_get layer ''mediaType'' of PStr s \<Rightarrow> s | _ \<Rightarrow> [])"

section \<open>Corrections\<close>

text \<open>One layer: the corrections and the layer after them.\<close>

definition correct_layer :: "archive \<Rightarrow> pyval \<Rightarrow> oci_exn + string list \<times> pyval" where
  "correct_layer ar layer =
     (case layer of
        PDict d \<Rightarrow>
          bind_res (digest_hex (dict_get d ''digest'')) (\<lambda>digest.
            if blob_name digest \<notin> set (map fst ar) then
              Inl (Oci_Error ''An OCI layer blob is missing from the archive.'')
            else
              bind_res (oci_prefix ar (blob_name digest) 2) (\<lambda>magic.
                (case replacement_media (media_of d) magic of
                   None \<Rightarrow> Inr ([], layer)
                 | Some new \<Rightarrow>
                     if new = media_of d then Inr ([], layer)
                     else Inr ([take 12 digest @ '' '' @ media_of d @ '' -> '' @ new],
                               PDict (dict_set ''mediaType'' (PStr new) d)))))
      | _ \<Rightarrow> Inl (Oci_Error ''An OCI layer entry is not an object.''))"

definition correct_layers :: "archive \<Rightarrow> pyval list \<Rightarrow> oci_exn + string list \<times> pyval list" where
  "correct_layers ar layers =
     bind_res (map_res (correct_layer ar) layers) (\<lambda>rows. Inr (concat (map fst rows), map snd rows))"

definition canonical_json :: "(pyfloat \<Rightarrow> string) \<Rightarrow> (string \<times> pyval) list \<Rightarrow> bytes" where
  "canonical_json ft d = text_bytes (json_dumps '','' '':'' False ft (PDict d))"

text \<open>What \<open>_prepare\<close> learns about an archive: the index, its entry, the digest of the manifest, the
  manifest with corrected layers and the corrections.\<close>

record Prepared =
  pr_index :: "(string \<times> pyval) list"
  pr_entry :: "(string \<times> pyval) list"
  pr_old :: string
  pr_manifest :: "(string \<times> pyval) list"
  pr_corrections :: "string list"

definition sole_manifest :: "pyval \<Rightarrow> oci_exn + (string \<times> pyval) list" where
  "sole_manifest manifests =
     (case manifests of
        PList [] \<Rightarrow> Inl (Oci_Error ''The OCI index has no manifest.'')
      | PList [PDict entry] \<Rightarrow> Inr entry
      | PList _ \<Rightarrow> Inl (Oci_Error ''The OCI index does not contain exactly one manifest.'')
      | _ \<Rightarrow> Inl (Oci_Error ''The OCI index has no manifest.''))"

definition layer_list :: "pyval \<Rightarrow> oci_exn + pyval list" where
  "layer_list v =
     (case v of
        PList (l # ls) \<Rightarrow> Inr (l # ls)
      | _ \<Rightarrow> Inl (Oci_Error ''The OCI manifest has no layers.''))"

definition prepare_full :: "FileEnv \<Rightarrow> archive \<Rightarrow> oci_exn + Prepared option" where
  "prepare_full fe ar =
     (let names = set (map fst ar) in
      if ''oci-layout'' \<notin> names \<or> ''index.json'' \<notin> names then Inr None
      else
        bind_res (oci_json fe ar ''index.json'') (\<lambda>index.
        bind_res (sole_manifest (dict_get index ''manifests'')) (\<lambda>entry.
        bind_res (digest_hex (dict_get entry ''digest'')) (\<lambda>digest.
          if blob_name digest \<notin> names then Inl (Oci_Error ''The OCI manifest blob is missing from the archive.'')
          else
            bind_res (oci_json fe ar (blob_name digest)) (\<lambda>manifest.
            bind_res (layer_list (dict_get manifest ''layers'')) (\<lambda>layers.
            bind_res (correct_layers ar layers) (\<lambda>(corrections, fixed).
              Inr (Some \<lparr>pr_index = index, pr_entry = entry, pr_old = digest,
                         pr_manifest = dict_set ''layers'' (PList fixed) manifest,
                         pr_corrections = corrections\<rparr>))))))))"

text \<open>\<open>_prepare\<close>: the corrections and the digest docker will record.\<close>

definition oci_prepare ::
  "FileEnv \<Rightarrow> (pyfloat \<Rightarrow> string) \<Rightarrow> archive \<Rightarrow> oci_exn + (string list \<times> string) option" where
  "oci_prepare fe ft ar =
     bind_res (prepare_full fe ar) (\<lambda>p.
       Inr (map_option (\<lambda>p. (pr_corrections p,
              if pr_corrections p = [] then pr_old p else fe_sha fe (canonical_json ft (pr_manifest p)))) p))"

section \<open>The load plan\<close>

record OciLoadPlan =
  lp_source :: string
  lp_load_path :: string
  lp_image_digest :: string
  lp_rewrite :: bool
  lp_layout :: string
  lp_corrections :: "string list"
  lp_image_tag :: "string option"

definition LOAD_ARCHIVE_NAME :: string where "LOAD_ARCHIVE_NAME = ''pe-containerd-load.oci.tar''"

definition passthrough :: "string \<Rightarrow> string \<Rightarrow> string \<Rightarrow> string \<Rightarrow> OciLoadPlan" where
  "passthrough source stage fallback layout =
     \<lparr>lp_source = source, lp_load_path = stage @ ''/'' @ path_name source, lp_image_digest = fallback,
      lp_rewrite = False, lp_layout = layout, lp_corrections = [], lp_image_tag = None\<rparr>"

text \<open>The file is absent, not a tar archive or unreadable (\<open>Bad_Tar\<close>), or an archive.\<close>

datatype tar_file = No_Tar | Bad_Tar | Tar archive

definition plan_load ::
  "FileEnv \<Rightarrow> (pyfloat \<Rightarrow> string) \<Rightarrow> tar_file \<Rightarrow> string \<Rightarrow> string \<Rightarrow> string \<Rightarrow> string option \<Rightarrow> string + OciLoadPlan" where
  "plan_load fe ft tar source stage fallback tag =
     (case tar of
        No_Tar \<Rightarrow> Inr (passthrough source stage fallback ''absent'')
      | Bad_Tar \<Rightarrow> Inr (passthrough source stage fallback ''unrecognized'')
      | Tar ar \<Rightarrow>
          (case oci_prepare fe ft ar of
             Inl (Oci_Error msg) \<Rightarrow> Inl msg
           | Inl Decode_Error \<Rightarrow> Inr (passthrough source stage fallback ''unrecognized'')
           | Inr None \<Rightarrow> Inr (passthrough source stage fallback ''unrecognized'')
           | Inr (Some (corrections, digest)) \<Rightarrow>
               if corrections = [] then Inr (passthrough source stage fallback ''oci'')
               else Inr \<lparr>lp_source = source, lp_load_path = stage @ ''/'' @ LOAD_ARCHIVE_NAME,
                         lp_image_digest = ''sha256:'' @ digest, lp_rewrite = True, lp_layout = ''oci'',
                         lp_corrections = corrections, lp_image_tag = tag\<rparr>))"

record OciFacts =
  of_layout :: string
  of_rewrite :: bool
  of_blocked :: bool
  of_reason :: "string option"
  of_corrections :: "string list"

definition oci_facts :: "string \<Rightarrow> string list \<Rightarrow> OciFacts" where
  "oci_facts layout corrections =
     \<lparr>of_layout = layout, of_rewrite = (corrections \<noteq> []), of_blocked = False, of_reason = None,
      of_corrections = corrections\<rparr>"

definition describe_archive :: "FileEnv \<Rightarrow> (pyfloat \<Rightarrow> string) \<Rightarrow> tar_file \<Rightarrow> OciFacts" where
  "describe_archive fe ft tar =
     (case tar of
        No_Tar \<Rightarrow> oci_facts ''absent'' []
      | Bad_Tar \<Rightarrow> oci_facts ''unrecognized'' []
      | Tar ar \<Rightarrow>
          (case oci_prepare fe ft ar of
             Inl (Oci_Error msg) \<Rightarrow> (oci_facts ''oci'' [])\<lparr>of_blocked := True, of_reason := Some msg\<rparr>
           | Inl Decode_Error \<Rightarrow> oci_facts ''unrecognized'' []
           | Inr None \<Rightarrow> oci_facts ''unrecognized'' []
           | Inr (Some (corrections, _)) \<Rightarrow> oci_facts ''oci'' corrections))"

section \<open>The corrected archive\<close>

text \<open>\<open>tag.rpartition(":")\<close>: what is before and after the last colon.\<close>

definition colon_parts :: "string \<Rightarrow> (string \<times> string) option" where
  "colon_parts tag =
     (if CHR '':'' \<in> set tag then
        Some (rev (tl (dropWhile (\<lambda>c. c \<noteq> CHR '':'') (rev tag))), rev (takeWhile (\<lambda>c. c \<noteq> CHR '':'') (rev tag)))
      else None)"

definition annotations :: "string \<Rightarrow> (string \<times> pyval) list" where
  "annotations tag =
     (let (repo, ref) = (case colon_parts tag of None \<Rightarrow> ([], tag) | Some (r, n) \<Rightarrow> (r, n));
          image = (if repo \<noteq> [] \<and> CHR ''/'' \<in> set repo then tag else ''docker.io/library/'' @ tag)
      in [(''io.containerd.image.name'', PStr image), (''org.opencontainers.image.ref.name'', PStr ref)])"

definition corrected_entry :: "string \<Rightarrow> nat \<Rightarrow> string option \<Rightarrow> (string \<times> pyval) list \<Rightarrow> (string \<times> pyval) list" where
  "corrected_entry digest size_bytes tag entry =
     (let e = dict_set ''size'' (PInt (int size_bytes)) (dict_set ''digest'' (PStr (''sha256:'' @ digest)) entry)
      in case tag of
           None \<Rightarrow> e
         | Some t \<Rightarrow> if t = [] then e else dict_set ''annotations'' (PDict (annotations t)) e)"

text \<open>The members of the new archive: the index and the manifest replaced, what is no regular file left
  out; a name outside the archive is an error.\<close>

fun corrected_members ::
  "bytes \<Rightarrow> string \<Rightarrow> string \<Rightarrow> bytes \<Rightarrow> archive \<Rightarrow> oci_exn + archive" where
  "corrected_members index_bytes old new manifest_bytes [] = Inr []"
| "corrected_members index_bytes old new manifest_bytes ((name, content) # rest) =
     (if prefix ''/'' name \<or> ''..'' \<in> set (pure_parts name) then
        Inl (Oci_Error ''An archive member is outside the tar.'')
      else
        bind_res (corrected_members index_bytes old new manifest_bytes rest) (\<lambda>later.
          Inr ((if name = ''index.json'' then [(''index.json'', Some index_bytes)]
                else if name = blob_name old then [(blob_name new, Some manifest_bytes)]
                else if content = None then [] else [(name, content)]) @ later)))"

definition corrected_index :: "FileEnv \<Rightarrow> (pyfloat \<Rightarrow> string) \<Rightarrow> string option \<Rightarrow> Prepared \<Rightarrow> (string \<times> pyval) list" where
  "corrected_index fe ft tag p =
     (let manifest_bytes = canonical_json ft (pr_manifest p);
          entry = corrected_entry (fe_sha fe manifest_bytes) (length manifest_bytes) tag (pr_entry p)
      in dict_set ''manifests'' (PList [PDict entry]) (pr_index p))"

definition write_corrected ::
  "FileEnv \<Rightarrow> (pyfloat \<Rightarrow> string) \<Rightarrow> string option \<Rightarrow> archive \<Rightarrow> Prepared \<Rightarrow> oci_exn + archive" where
  "write_corrected fe ft tag ar p =
     (let manifest_bytes = canonical_json ft (pr_manifest p)
      in corrected_members (canonical_json ft (corrected_index fe ft tag p)) (pr_old p)
           (fe_sha fe manifest_bytes) manifest_bytes ar)"

text \<open>\<open>materialize\<close>: the archive written at the load path, \<^const>\<open>None\<close> when no correction is planned.\<close>

definition materialize ::
  "FileEnv \<Rightarrow> (pyfloat \<Rightarrow> string) \<Rightarrow> OciLoadPlan \<Rightarrow> tar_file \<Rightarrow> oci_exn + archive option" where
  "materialize fe ft lp tar =
     (if \<not> lp_rewrite lp then Inr None
      else
        (case tar of
           No_Tar \<Rightarrow> Inl (Oci_Error ''The sealed archive is not on disk.'')
         | Bad_Tar \<Rightarrow> Inl Decode_Error
         | Tar ar \<Rightarrow>
             bind_res (prepare_full fe ar) (\<lambda>prepared.
               (case prepared of
                  None \<Rightarrow> Inl (Oci_Error ''The sealed archive no longer needs a load correction.'')
                | Some p \<Rightarrow>
                    if pr_corrections p = [] then
                      Inl (Oci_Error ''The sealed archive no longer needs a load correction.'')
                    else if lp_image_digest lp \<noteq> ''sha256:'' @ fe_sha fe (canonical_json ft (pr_manifest p)) then
                      Inl (Oci_Error ''The corrected manifest digest changed while writing the load archive.'')
                    else bind_res (write_corrected fe ft (lp_image_tag lp) ar p) (\<lambda>out. Inr (Some out))))))"

section \<open>Lemmas\<close>

lemma dict_set_get [simp]: "dict_get (dict_set key v d) k = (if k = key then v else dict_get d k)"
  by (induction d) auto

lemma replacement_settles: "replacement_media m g = Some n \<Longrightarrow> replacement_media n g = None"
  by (auto simp: replacement_media_def GZIP_MEDIA_def TAR_MEDIA_def OCI_TAR_def OCI_GZIP_def DOCKER_TAR_def
      DOCKER_GZIP_def Let_def split: if_splits)

lemma blob_name_inj [simp]: "blob_name a = blob_name b \<longleftrightarrow> a = b" "blob_name a \<noteq> ''index.json''" "blob_name a \<noteq> ''oci-layout''"
  "''index.json'' \<noteq> blob_name a" "''oci-layout'' \<noteq> blob_name a"
  by (simp_all add: blob_name_def)

lemma digest_hex_Inr: "digest_hex v = Inr d \<longleftrightarrow> v = PStr (''sha256:'' @ d) \<and> hex_text d 64"
  by (cases v) (auto simp: digest_hex_def prefix_def)

lemma map_of_rev_distinct: "distinct (map fst xs) \<Longrightarrow> map_of (rev xs) = map_of xs"
proof (induction xs)
  case (Cons x xs)
  then have "map_of xs (fst x) = None" by (simp add: map_of_eq_None_iff)
  with Cons show ?case by (auto simp: map_add_def fun_eq_iff split: option.splits)
qed simp

lemma member_of_distinct:
  "distinct (map fst ar) \<Longrightarrow> member_of ar name = (case map_of ar name of None \<Rightarrow> None | Some c \<Rightarrow> c)"
  by (simp add: member_of_def map_of_rev_distinct)

text \<open>What the new archive holds, name by name.\<close>

lemma corrected_lookup:
  assumes "corrected_members ib old new mb ar = Inr out" "distinct (map fst ar)" "blob_name new \<notin> set (map fst ar)"
  shows "map_of out name =
     (if name = ''index.json'' then (if name \<in> set (map fst ar) then Some (Some ib) else None)
      else if name = blob_name new then (if blob_name old \<in> set (map fst ar) then Some (Some mb) else None)
      else if name = blob_name old then None
      else (case map_of ar name of Some (Some b) \<Rightarrow> Some (Some b) | _ \<Rightarrow> None))"
  using assms
proof (induction ar arbitrary: out)
  case (Cons m ar)
  obtain n c where m: "m = (n, c)" by (cases m)
  from Cons.prems(1) obtain later where l: "corrected_members ib old new mb ar = Inr later"
    "out = (if n = ''index.json'' then [(''index.json'', Some ib)]
            else if n = blob_name old then [(blob_name new, Some mb)] else if c = None then [] else [(n, c)]) @ later"
    by (auto simp: m bind_res_Inr_iff split: if_splits)
  have fresh: "map_of ar n = None" using Cons.prems(2) by (simp add: m map_of_eq_None_iff)
  have notin: "n \<notin> set (map fst ar)" "n \<noteq> blob_name new" "blob_name new \<notin> set (map fst ar)" "distinct (map fst ar)"
    using Cons.prems(2,3) by (auto simp: m)
  note IH = Cons.IH [OF l(1) notin(4,3)]
  have mem: "x \<in> set (map fst ((n, c) # ar)) \<longleftrightarrow> x = n \<or> x \<in> set (map fst ar)" for x by auto
  show ?case
  proof (cases "name = n")
    case True
    then show ?thesis
      unfolding m l(2) mem using IH notin(1,2) fresh True by (cases c) (auto simp del: set_map)
  next
    case False
    then have eq: "map_of ((if n = ''index.json'' then [(''index.json'', Some ib)]
          else if n = blob_name old then [(blob_name new, Some mb)] else if c = None then [] else [(n, c)]) @ later) name
        = (if n = blob_name old \<and> name = blob_name new then Some (Some mb) else map_of later name)" by auto
    show ?thesis
      unfolding m l(2) mem eq using IH notin(2) False by (auto simp del: set_map)
  qed
qed simp

lemma corrected_keys:
  assumes "corrected_members ib old new mb ar = Inr out" "name \<in> set (map fst out)"
  shows "name \<in> set (map fst ar) \<or> name = blob_name new \<and> blob_name old \<in> set (map fst ar)"
  using assms
proof (induction ar arbitrary: out)
  case (Cons m ar)
  obtain n c where m: "m = (n, c)" by (cases m)
  from Cons.prems(1) obtain later where l: "corrected_members ib old new mb ar = Inr later"
    "out = (if n = ''index.json'' then [(''index.json'', Some ib)]
            else if n = blob_name old then [(blob_name new, Some mb)] else if c = None then [] else [(n, c)]) @ later"
    by (auto simp: m bind_res_Inr_iff split: if_splits)
  from Cons.prems(2) l(2) consider "name \<in> set (map fst later)" | "name = n" | "name = blob_name new" "n = blob_name old"
    by (auto split: if_splits)
  then show ?case using Cons.IH [OF l(1)] by cases (auto simp: m)
qed simp

lemma corrected_distinct:
  assumes "corrected_members ib old new mb ar = Inr out" "distinct (map fst ar)" "blob_name new \<notin> set (map fst ar)"
  shows "distinct (map fst out)"
  using assms
proof (induction ar arbitrary: out)
  case (Cons m ar)
  obtain n c where m: "m = (n, c)" by (cases m)
  from Cons.prems(1) obtain later where l: "corrected_members ib old new mb ar = Inr later"
    "out = (if n = ''index.json'' then [(''index.json'', Some ib)]
            else if n = blob_name old then [(blob_name new, Some mb)] else if c = None then [] else [(n, c)]) @ later"
    by (auto simp: m bind_res_Inr_iff split: if_splits)
  have "distinct (map fst later)" using Cons l(1) by simp
  moreover have "n \<notin> set (map fst later)" "n = blob_name old \<longrightarrow> blob_name new \<notin> set (map fst later)"
    using corrected_keys [OF l(1), of n] corrected_keys [OF l(1), of "blob_name new"] Cons.prems(2,3)
    by (auto simp: m simp del: set_map)
  ultimately show ?case by (auto simp: l(2) simp del: set_map)
qed simp

lemma corrected_member:
  assumes "corrected_members ib old new mb ar = Inr out" "distinct (map fst ar)" "blob_name new \<notin> set (map fst ar)"
    and "name \<notin> {''index.json'', blob_name old, blob_name new}"
  shows "member_of out name = member_of ar name" "member_of ar name \<noteq> None \<Longrightarrow> name \<in> set (map fst out)"
proof -
  have l: "map_of out name = (case map_of ar name of Some (Some b) \<Rightarrow> Some (Some b) | _ \<Rightarrow> None)"
    using corrected_lookup [OF assms(1-3), of name] assms(4) by simp
  show "member_of out name = member_of ar name"
    using l member_of_distinct [OF assms(2)] member_of_distinct [OF corrected_distinct [OF assms(1-3)]]
    by (simp split: option.splits)
  show "name \<in> set (map fst out)" if "member_of ar name \<noteq> None"
    using l that member_of_distinct [OF assms(2), of name]
    by (auto split: option.splits dest!: map_of_SomeD intro: image_eqI [where x = "(name, _)"])
qed

text \<open>A corrected layer is left alone in the new archive.\<close>

lemma corrected_layer_settles:
  assumes out: "corrected_members ib old new mb ar = Inr out" "distinct (map fst ar)" "blob_name new \<notin> set (map fst ar)"
    and layer: "correct_layer ar l = Inr (c, l')" "\<forall>d. l = PDict d \<longrightarrow> dict_get d ''digest'' \<noteq> PStr (''sha256:'' @ old)"
  shows "correct_layer out l' = Inr ([], l')"
proof -
  from layer(1) obtain d digest magic where l: "l = PDict d" "digest_hex (dict_get d ''digest'') = Inr digest"
    "blob_name digest \<in> set (map fst ar)" "oci_prefix ar (blob_name digest) 2 = Inr magic"
    by (auto simp: correct_layer_def bind_res_Inr_iff split: pyval.splits if_splits)
  have ne: "blob_name digest \<notin> {''index.json'', blob_name old, blob_name new}"
    using layer(2) l out(3) by (auto simp: digest_hex_Inr)
  have same: "oci_prefix out (blob_name digest) 2 = Inr magic" "blob_name digest \<in> set (map fst out)"
    using corrected_member [OF out ne] l(4) by (auto simp: oci_prefix_def split: option.splits)
  obtain d' where d': "l' = PDict d'" "dict_get d' ''digest'' = dict_get d ''digest''"
    "\<forall>n. replacement_media (media_of d') magic = Some n \<longrightarrow> n = media_of d'"
  proof (cases "replacement_media (media_of d) magic")
    case None
    then show thesis using layer(1) l by (intro that [of d]) (auto simp: correct_layer_def)
  next
    case (Some n)
    then show thesis
    proof (cases "n = media_of d")
      case True
      then show thesis using layer(1) l Some by (intro that [of d]) (auto simp: correct_layer_def)
    next
      case False
      then have "l' = PDict (dict_set ''mediaType'' (PStr n) d)" using layer(1) l Some by (auto simp: correct_layer_def)
      then show thesis
        using replacement_settles [OF Some] by (intro that [of "dict_set ''mediaType'' (PStr n) d"]) (auto simp: media_of_def)
    qed
  qed
  show ?thesis
    using d' l(2) same by (auto simp: correct_layer_def split: option.splits)
qed

lemma map_res_correct:
  assumes "map_res f xs = Inr rows" "\<And>x c y. x \<in> set xs \<Longrightarrow> f x = Inr (c, y) \<Longrightarrow> g y = Inr ([], y)"
  shows "map_res g (map snd rows) = Inr (map (\<lambda>r. ([], snd r)) rows)"
  using assms
proof (induction xs arbitrary: rows)
  case (Cons x xs)
  then obtain c y later where r: "f x = Inr (c, y)" "map_res f xs = Inr later" "rows = (c, y) # later"
    by (auto simp: bind_res_Inr_iff)
  have "map_res g (map snd later) = Inr (map (\<lambda>r. ([], snd r)) later)"
    by (rule Cons.IH [OF r(2)]) (use Cons.prems(2) in auto)
  with Cons.prems(2) [OF _ r(1)] r(3) show ?case by simp
qed simp

lemma correct_layers_settle:
  assumes "corrected_members ib old new mb ar = Inr out" "distinct (map fst ar)" "blob_name new \<notin> set (map fst ar)"
    and "correct_layers ar layers = Inr (cs, fixed)"
    and "\<forall>d. PDict d \<in> set layers \<longrightarrow> dict_get d ''digest'' \<noteq> PStr (''sha256:'' @ old)"
  shows "correct_layers out fixed = Inr ([], fixed) \<and> length fixed = length layers"
proof -
  from assms(4) obtain rows where r: "map_res (correct_layer ar) layers = Inr rows" "fixed = map snd rows"
    by (auto simp: correct_layers_def bind_res_Inr_iff)
  have "map_res (correct_layer out) (map snd rows) = Inr (map (\<lambda>r. ([], snd r)) rows)"
    by (rule map_res_correct [OF r(1)]) (use corrected_layer_settles [OF assms(1-3)] assms(5) in blast)
  then show ?thesis
    using map_res_Inr_length [OF r(1)] by (simp add: correct_layers_def r(2) comp_def)
qed

lemma prepare_full_parts:
  assumes "prepare_full fe ar = Inr (Some p)"
  obtains manifest layers fixed where
    "''oci-layout'' \<in> set (map fst ar)" "''index.json'' \<in> set (map fst ar)"
    "dict_get (pr_index p) ''manifests'' = PList [PDict (pr_entry p)]"
    "digest_hex (dict_get (pr_entry p) ''digest'') = Inr (pr_old p)" "blob_name (pr_old p) \<in> set (map fst ar)"
    "oci_json fe ar (blob_name (pr_old p)) = Inr manifest" "dict_get manifest ''layers'' = PList layers" "layers \<noteq> []"
    "correct_layers ar layers = Inr (pr_corrections p, fixed)"
    "pr_manifest p = dict_set ''layers'' (PList fixed) manifest"
proof -
  from assms obtain index entry digest manifest layers cs fixed where n:
    "''oci-layout'' \<in> set (map fst ar)" "''index.json'' \<in> set (map fst ar)" "oci_json fe ar ''index.json'' = Inr index"
    "sole_manifest (dict_get index ''manifests'') = Inr entry" "digest_hex (dict_get entry ''digest'') = Inr digest"
    "blob_name digest \<in> set (map fst ar)" "oci_json fe ar (blob_name digest) = Inr manifest"
    "layer_list (dict_get manifest ''layers'') = Inr layers" "correct_layers ar layers = Inr (cs, fixed)"
    "p = \<lparr>pr_index = index, pr_entry = entry, pr_old = digest,
      pr_manifest = dict_set ''layers'' (PList fixed) manifest, pr_corrections = cs\<rparr>"
    unfolding prepare_full_def Let_def by (auto simp: bind_res_Inr_iff simp del: set_map split: if_splits)
  have "dict_get index ''manifests'' = PList [PDict entry]"
    using n(4) by (auto simp: sole_manifest_def split: pyval.splits list.splits)
  moreover have "dict_get manifest ''layers'' = PList layers \<and> layers \<noteq> []"
    using n(8) by (auto simp: layer_list_def split: pyval.splits list.splits)
  ultimately show thesis using n by (intro that [of manifest layers fixed]) simp_all
qed

lemma oci_json_at:
  "member_of ar name = Some (canonical_json ft d) \<Longrightarrow> fe_json fe (canonical_json ft d) = Doc (PDict d)
     \<Longrightarrow> oci_json fe ar name = Inr d"
  by (simp add: oci_json_def)

section \<open>Properties\<close>

text \<open>
  C20: the archive written for a correction needs none itself: read again, its layers have media types
  that match their bytes, docker records the digest the plan names, and every other member of the
  sealed archive is there unchanged. JSON text parses back, digests are 64 hexadecimal digits, names are distinct,
  and neither the new manifest nor a layer has a name that is taken.
\<close>

theorem corrected_archive_clean:
  fixes fe ft ar p tag
  defines "digest \<equiv> fe_sha fe (canonical_json ft (pr_manifest p))"
  assumes "prepare_full fe ar = Inr (Some p)" "write_corrected fe ft tag ar p = Inr out"
    and parse: "fe_json fe (canonical_json ft (pr_manifest p)) = Doc (PDict (pr_manifest p))"
      "fe_json fe (canonical_json ft (corrected_index fe ft tag p)) = Doc (PDict (corrected_index fe ft tag p))"
    and hex: "hex_text digest 64"
    and regular: "member_of ar ''oci-layout'' \<noteq> None"
    and names: "distinct (map fst ar)" "blob_name digest \<notin> set (map fst ar)"
    and layers: "\<And>manifest vs d. oci_json fe ar (blob_name (pr_old p)) = Inr manifest \<Longrightarrow>
        dict_get manifest ''layers'' = PList vs \<Longrightarrow> PDict d \<in> set vs \<Longrightarrow> dict_get d ''digest'' \<noteq> PStr (''sha256:'' @ pr_old p)"
  shows "oci_prepare fe ft out = Inr (Some ([], digest))
    \<and> (\<forall>name. name \<notin> {''index.json'', blob_name (pr_old p), blob_name digest} \<longrightarrow> member_of out name = member_of ar name)"
proof (rule prepare_full_parts [OF assms(2)])
  fix manifest vs fixed
  assume p: "''oci-layout'' \<in> set (map fst ar)" "''index.json'' \<in> set (map fst ar)"
    "dict_get (pr_index p) ''manifests'' = PList [PDict (pr_entry p)]"
    "digest_hex (dict_get (pr_entry p) ''digest'') = Inr (pr_old p)" "blob_name (pr_old p) \<in> set (map fst ar)"
    "oci_json fe ar (blob_name (pr_old p)) = Inr manifest" "dict_get manifest ''layers'' = PList vs" "vs \<noteq> []"
    "correct_layers ar vs = Inr (pr_corrections p, fixed)" "pr_manifest p = dict_set ''layers'' (PList fixed) manifest"
  let ?mb = "canonical_json ft (pr_manifest p)"
  define entry where "entry = corrected_entry digest (length ?mb) tag (pr_entry p)"
  define index where "index = corrected_index fe ft tag p"
  have index: "index = dict_set ''manifests'' (PList [PDict entry]) (pr_index p)"
    by (simp add: index_def corrected_index_def entry_def digest_def Let_def)
  have w: "corrected_members (canonical_json ft index) (pr_old p) digest ?mb ar = Inr out"
    using assms(3) by (simp add: write_corrected_def Let_def digest_def index_def)
  note look = corrected_lookup [OF w names]
  note mem = member_of_distinct [OF corrected_distinct [OF w names]]
  have i: "member_of out ''index.json'' = Some (canonical_json ft index)"
    using look [of "''index.json''"] p(2) mem by simp
  have m: "member_of out (blob_name digest) = Some ?mb"
    using look [of "blob_name digest"] p(5) mem by simp
  have in_out: "''index.json'' \<in> set (map fst out)" "blob_name digest \<in> set (map fst out)"
    using i m mem by (force split: option.splits dest!: map_of_SomeD)+
  have layout: "''oci-layout'' \<in> set (map fst out)"
    using corrected_member(2) [OF w names, of "''oci-layout''"] regular by simp
  have e: "dict_get entry ''digest'' = PStr (''sha256:'' @ digest)"
    by (auto simp: entry_def corrected_entry_def Let_def split: option.splits)
  have d: "digest_hex (dict_get entry ''digest'') = Inr digest"
    unfolding e digest_hex_Inr using hex by simp
  have f: "correct_layers out fixed = Inr ([], fixed)" "fixed \<noteq> []"
    using correct_layers_settle [OF w names p(9)] layers [OF p(6,7)] p(8) by auto
  have "prepare_full fe out = Inr (Some \<lparr>pr_index = index, pr_entry = entry, pr_old = digest,
      pr_manifest = dict_set ''layers'' (PList fixed) (pr_manifest p), pr_corrections = []\<rparr>)"
    using in_out layout oci_json_at [OF i parse(2) [folded index_def]] oci_json_at [OF m parse(1)] d f
    unfolding prepare_full_def Let_def
    by (cases fixed) (simp_all add: index p(10) sole_manifest_def layer_list_def)
  then have "oci_prepare fe ft out = Inr (Some ([], digest))" by (simp add: oci_prepare_def)
  then show ?thesis using corrected_member(1) [OF w names] by blast
qed


text \<open>A sealed archive whose gzip layer has the media type of a plain tar.\<close>

definition sample_digest :: "char \<Rightarrow> string" where "sample_digest c = replicate 64 c"

definition sample_archive :: archive where
  "sample_archive =
     [(''oci-layout'', Some [0]), (''index.json'', Some [1]), (blob_name (sample_digest (CHR ''b'')), Some [2]),
      (blob_name (sample_digest (CHR ''c'')), Some [0x1F, 0x8B, 8])]"

definition sample_entry :: "(string \<times> pyval) list" where
  "sample_entry = [(''digest'', PStr (''sha256:'' @ sample_digest (CHR ''b'')))]"

definition sample_layer :: "string \<Rightarrow> pyval" where
  "sample_layer media =
     PDict [(''mediaType'', PStr media), (''digest'', PStr (''sha256:'' @ sample_digest (CHR ''c'')))]"

definition sample_prepared :: Prepared where
  "sample_prepared =
     \<lparr>pr_index = [(''manifests'', PList [PDict sample_entry])], pr_entry = sample_entry,
      pr_old = sample_digest (CHR ''b''), pr_manifest = [(''layers'', PList [sample_layer OCI_GZIP])],
      pr_corrections = [take 12 (sample_digest (CHR ''c'')) @ '' '' @ OCI_TAR @ '' -> '' @ OCI_GZIP]\<rparr>"

definition sample_new_index :: "(string \<times> pyval) list" where
  "sample_new_index =
     corrected_index \<lparr>fe_sha = (\<lambda>_. sample_digest (CHR ''a'')), fe_json = (\<lambda>_. Not_Json)\<rparr> (\<lambda>_. []) (Some pe_local_tag)
       sample_prepared"

definition sample_oci_env :: FileEnv where
  "sample_oci_env =
     \<lparr>fe_sha = (\<lambda>_. sample_digest (CHR ''a'')),
      fe_json =
        (\<lambda>b. if b = [1] then Doc (PDict (pr_index sample_prepared))
             else if b = [2] then Doc (PDict [(''layers'', PList [sample_layer OCI_TAR])])
             else if b = canonical_json (\<lambda>_. []) (pr_manifest sample_prepared) then Doc (PDict (pr_manifest sample_prepared))
             else if b = canonical_json (\<lambda>_. []) sample_new_index then Doc (PDict sample_new_index)
             else Not_Json)\<rparr>"

theorem corrected_archive_clean_witness:
  "\<exists>out. write_corrected sample_oci_env (\<lambda>_. []) (Some pe_local_tag) sample_archive sample_prepared = Inr out
     \<and> oci_prepare sample_oci_env (\<lambda>_. []) out = Inr (Some ([], sample_digest (CHR ''a'')))"
proof -
  obtain out where w: "write_corrected sample_oci_env (\<lambda>_. []) (Some pe_local_tag) sample_archive sample_prepared = Inr out"
  proof -
    have "\<not> isl (write_corrected sample_oci_env (\<lambda>_. []) (Some pe_local_tag) sample_archive sample_prepared)" by code_simp
    then show thesis using that by (metis sum.collapse(2))
  qed
  have p: "prepare_full sample_oci_env sample_archive = Inr (Some sample_prepared)" by code_simp
  have m: "oci_json sample_oci_env sample_archive (blob_name (pr_old sample_prepared)) = Inr [(''layers'', PList [sample_layer OCI_TAR])]"
    by code_simp
  have sha: "fe_sha sample_oci_env b = sample_digest (CHR ''a'')" for b by (simp add: sample_oci_env_def)
  have l: "dict_get d ''digest'' \<noteq> PStr (''sha256:'' @ pr_old sample_prepared)"
    if "oci_json sample_oci_env sample_archive (blob_name (pr_old sample_prepared)) = Inr manifest"
      "dict_get manifest ''layers'' = PList vs" "PDict d \<in> set vs" for manifest vs d
    using that m by (auto simp: sample_layer_def sample_digest_def sample_prepared_def replicate_eq_replicate)
  have "oci_prepare sample_oci_env (\<lambda>_. []) out =
      Inr (Some ([], fe_sha sample_oci_env (canonical_json (\<lambda>_. []) (pr_manifest sample_prepared))))
    \<and> (\<forall>name. name \<notin> {''index.json'', blob_name (pr_old sample_prepared),
           blob_name (fe_sha sample_oci_env (canonical_json (\<lambda>_. []) (pr_manifest sample_prepared)))}
         \<longrightarrow> member_of out name = member_of sample_archive name)"
    by (rule corrected_archive_clean [OF p w]) (code_simp, code_simp, code_simp, code_simp, code_simp, code_simp, rule l)
  with w sha show ?thesis by auto
qed

end
