(* ===== verification/Install_Preflight.thy ===== *)
theory Install_Preflight
  imports Install_License Install_Oci
begin

text \<open>
  \<open>vantio_install/kernel_lockdown.py\<close> and \<open>preflight.py\<close>: the checks before a plan and before a live
  command. A host is the dictionary of its snapshot. The text \<open>str\<close> gives a float, a list or an object is
  the parameter \<open>pt_str\<close>, the text JSON gives a float is \<open>pt_json_float\<close>. A version with a superscript digit, where
  \<open>int\<close> raises, is the \<open>ValueError\<close> of the code.
\<close>

section \<open>Kernel lockdown\<close>

definition LOCKDOWN_MODES :: "string list" where
  "LOCKDOWN_MODES = [''none'', ''integrity'', ''confidentiality'']"

definition bracketed :: "string \<Rightarrow> bool" where
  "bracketed token = (prefix ''['' token \<and> suffix '']'' token)"

definition unbracket :: "string \<Rightarrow> string" where
  "unbracket token = butlast (tl token)"

text \<open>\<^const>\<open>None\<close> is the \<open>ValueError\<close> lockdown_unreadable.\<close>

definition parse_lockdown :: "string \<Rightarrow> string option" where
  "parse_lockdown txt =
     (let tokens = py_words [] (py_isspace_strip txt) in
      if length tokens \<noteq> 3 then None
      else
        (case filter (\<lambda>t. bracketed t \<and> 2 < length t) tokens of
           [one] \<Rightarrow>
             (let mode = unbracket one;
                  names = map (\<lambda>t. if bracketed t then unbracket t else t) tokens
              in if mode \<notin> set LOCKDOWN_MODES \<or> set names \<noteq> set LOCKDOWN_MODES then None else Some mode)
         | _ \<Rightarrow> None))"

text \<open>What is at the path of the EFI variable and of the lockdown file.\<close>

datatype efi_file = Absent | Not_A_File | Read_Error | Content bytes

definition read_secure_boot :: "efi_file \<Rightarrow> string" where
  "read_secure_boot n =
     (case n of
        Absent \<Rightarrow> ''absent''
      | Not_A_File \<Rightarrow> ''unreadable''
      | Read_Error \<Rightarrow> ''unreadable''
      | Content blob \<Rightarrow>
          if length blob \<noteq> 5 then ''unreadable''
          else if byte_at blob 4 = 1 then ''on''
          else if byte_at blob 4 = 0 then ''off''
          else ''unreadable'')"

text \<open>The file is decoded with replacement of what is not UTF-8; \<^const>\<open>None\<close> is a file that is absent or unreadable.\<close>

definition read_lockdown :: "string option \<Rightarrow> string \<times> string" where
  "read_lockdown content =
     (case content of
        None \<Rightarrow> (''ABSENT'', ''UNREADABLE'')
      | Some t \<Rightarrow>
          (let raw = py_isspace_strip t in
           (take 120 raw, case parse_lockdown raw of None \<Rightarrow> ''UNREADABLE'' | Some mode \<Rightarrow> mode)))"

definition read_lockdown_facts :: "string option \<Rightarrow> efi_file \<Rightarrow> (string \<times> pyval) list" where
  "read_lockdown_facts lockdown efi =
     [(''lockdown_raw'', PStr (fst (read_lockdown lockdown))), (''lockdown_mode'', PStr (snd (read_lockdown lockdown))),
      (''secure_boot'', PStr (read_secure_boot efi)), (''measured_boot'', PStr ''not_checked''),
      (''tpm_attestation'', PStr ''roadmap'')]"

definition text_or :: "string \<Rightarrow> pyval \<Rightarrow> string" where
  "text_or other v = (case v of PStr s \<Rightarrow> s | _ \<Rightarrow> other)"

definition lockdown_grade :: "pyval \<Rightarrow> pyval \<Rightarrow> string \<times> string" where
  "lockdown_grade lockdown_mode secure_boot =
     (let mode = text_or ''UNREADABLE'' lockdown_mode; boot = text_or ''unreadable'' secure_boot in
      if mode = ''confidentiality'' then (''BLOCKED'', ''lockdown_confidentiality'')
      else if mode \<notin> {''none'', ''integrity''} then (''BLOCKED'', ''lockdown_unreadable'')
      else if boot \<notin> {''on'', ''off'', ''absent''} then (''BLOCKED'', ''secure_boot_unreadable'')
      else if boot = ''on'' \<and> mode = ''none'' then (''BLOCKED'', ''secure_boot_lockdown_mismatch'')
      else (''PASS'', ''continue''))"

section \<open>Rows\<close>

record Check =
  ck_id :: string
  ck_title :: string
  ck_result :: string
  ck_observed :: "(string \<times> pyval) list"
  ck_expected :: "(string \<times> pyval) list"
  ck_remediation :: string

definition check_row ::
  "string \<Rightarrow> string \<Rightarrow> string \<Rightarrow> (string \<times> pyval) list \<Rightarrow> (string \<times> pyval) list \<Rightarrow> string \<Rightarrow> Check" where
  "check_row i title result observed expected remediation =
     \<lparr>ck_id = i, ck_title = title, ck_result = result, ck_observed = observed, ck_expected = expected,
      ck_remediation = remediation\<rparr>"

definition pass_if :: "bool \<Rightarrow> string" where
  "pass_if b = (if b then ''PASS'' else ''BLOCKED'')"

type_synonym host = "(string \<times> pyval) list"

record PyText =
  pt_str :: "pyval \<Rightarrow> string"
  pt_json_float :: "pyfloat \<Rightarrow> string"

text \<open>\<open>str(v)\<close>.\<close>

definition py_str :: "PyText \<Rightarrow> pyval \<Rightarrow> string" where
  "py_str pt v =
     (case v of
        PStr s \<Rightarrow> s | PNone \<Rightarrow> ''None'' | PBool b \<Rightarrow> (if b then ''True'' else ''False'') | PInt n \<Rightarrow> int_text n
      | _ \<Rightarrow> pt_str pt v)"

text \<open>\<open>d.get(key, default)\<close>.\<close>

definition get_or :: "(string \<times> pyval) list \<Rightarrow> string \<Rightarrow> pyval \<Rightarrow> pyval" where
  "get_or d key other = (case map_of d key of None \<Rightarrow> other | Some v \<Rightarrow> v)"

definition bool_or_unknown :: "pyval \<Rightarrow> pyval" where
  "bool_or_unknown v = (case v of PBool b \<Rightarrow> PBool b | _ \<Rightarrow> PStr ''UNKNOWN'')"

definition is_bool :: "pyval \<Rightarrow> bool" where
  "is_bool v = (case v of PBool _ \<Rightarrow> True | _ \<Rightarrow> False)"

definition UNKNOWN_val :: pyval where "UNKNOWN_val = PStr ''UNKNOWN''"

definition REFUSAL :: "(string \<times> string) list" where
  "REFUSAL =
     [(''lockdown_confidentiality'',
       ''Kernel lockdown is confidentiality. The installer refuses this host. '' @
       ''Measured boot and TPM attestation were not checked.''),
      (''secure_boot_lockdown_mismatch'',
       ''Secure Boot is on and kernel lockdown is none. The installer refuses this pair. '' @
       ''The two facts disagree.''),
      (''lockdown_unreadable'',
       ''Read /sys/kernel/security/lockdown. It must list none, integrity, and '' @
       ''confidentiality with exactly one mode in brackets.''),
      (''secure_boot_unreadable'',
       ''The Secure Boot EFI variable is present but not one byte of 0 or 1 '' @
       ''after the four attribute bytes. The installer does not guess.'')]"

definition CONTINUATION :: string where
  "CONTINUATION = ''Measured boot and TPM attestation are Roadmap. This check did not read them.''"

definition lockdown_check :: "host \<Rightarrow> Check" where
  "lockdown_check h =
     (let (result, reason) = lockdown_grade (dict_get h ''lockdown_mode'') (dict_get h ''secure_boot'') in
      check_row ''PF-KERNEL-LOCKDOWN'' ''Secure Boot and kernel lockdown'' result
        ([(''secure_boot'', PStr (text_or ''unreadable'' (dict_get h ''secure_boot''))),
          (''lockdown_mode'', PStr (text_or ''UNREADABLE'' (dict_get h ''lockdown_mode''))),
          (''lockdown_raw'', PStr (case dict_get h ''lockdown_raw'' of PStr raw \<Rightarrow> take 120 raw | _ \<Rightarrow> ''ABSENT'')),
          (''measured_boot'', PStr ''not_checked''), (''tpm_attestation'', PStr ''roadmap''), (''reason'', PStr reason)]
         @ (if result \<noteq> ''PASS''
            then [(''refusal'', PStr (case map_of REFUSAL reason of None \<Rightarrow> [] | Some t \<Rightarrow> t))] else []))
        [(''lockdown_mode'', PList [PStr ''none'', PStr ''integrity'']),
         (''secure_boot'', PList [PStr ''on'', PStr ''off'', PStr ''absent'']),
         (''refused'', PList [PStr ''confidentiality'', PStr ''secure_boot_on_with_lockdown_none'']),
         (''measured_boot'', PStr ''not_checked''), (''tpm_attestation'', PStr ''roadmap'')]
        (case map_of REFUSAL reason of None \<Rightarrow> CONTINUATION | Some t \<Rightarrow> t))"

definition tracefs_check :: "host \<Rightarrow> bool \<Rightarrow> Check" where
  "tracefs_check h allow_unrecorded =
     (let title = ''tracefs mounted at /sys/kernel/tracing and non-empty'';
          remediation = ''Mount tracefs at /sys/kernel/tracing. An empty directory at that path is not tracefs.''
      in if ''tracefs_mounted'' \<notin> set (map fst h) then
           (if allow_unrecorded then
              check_row ''PF-TRACEFS'' ''tracefs fact unrecorded on this recovery snapshot'' ''PASS''
                [(''tracefs_mounted'', PStr ''UNRECORDED'')] [(''tracefs_mounted'', PStr ''UNRECORDED'')]
                ''Recovery does not use tracefs. Apply re-probes the live host when the snapshot has no fact.''
            else
              check_row ''PF-TRACEFS'' title ''BLOCKED'' [(''tracefs_mounted'', UNKNOWN_val)]
                [(''tracefs_mounted'', PBool True)] remediation)
         else
           check_row ''PF-TRACEFS'' title (pass_if (dict_get h ''tracefs_mounted'' = PBool True))
             [(''tracefs_mounted'', bool_or_unknown (dict_get h ''tracefs_mounted''))]
             [(''tracefs_mounted'', PBool True)] remediation)"

definition apparmor_observation :: "host \<Rightarrow> string \<times> (string \<times> pyval) list" where
  "apparmor_observation h =
     (let enabled = get_or h ''apparmor_enabled'' UNKNOWN_val; parser = get_or h ''apparmor_parser'' UNKNOWN_val;
          observed = [(''apparmor_enabled'', bool_or_unknown enabled), (''apparmor_parser'', bool_or_unknown parser)]
      in if enabled = PBool True \<and> parser = PBool True then (''PASS'', observed)
         else if \<not> is_bool enabled \<or> \<not> is_bool parser then (''UNKNOWN'', observed)
         else (''BLOCKED'', observed))"

section \<open>Versions\<close>

text \<open>One part of a version: \<open>isdigit\<close> also holds of three superscript digits, on which \<open>int\<close> raises.\<close>

definition version_part :: "string \<Rightarrow> string + nat option" where
  "version_part part =
     (if \<not> py_isdigit part then Inr None
      else if list_all (is_base_digit 10) part then Inr (Some (num_val 10 part)) else Inl ''ValueError'')"

fun version_parts :: "string list \<Rightarrow> string + nat list option" where
  "version_parts [] = Inr (Some [])"
| "version_parts (part # rest) =
     bind_res (version_part part) (\<lambda>n.
       (case n of
          None \<Rightarrow> Inr None
        | Some k \<Rightarrow> bind_res (version_parts rest) (\<lambda>later. Inr (map_option (\<lambda>ks. k # ks) later))))"

definition parse_node :: "pyval \<Rightarrow> string + (nat \<times> nat \<times> nat) option" where
  "parse_node v =
     (case v of
        PStr s \<Rightarrow>
          if s = [] \<or> s \<in> {''ABSENT'', ''UNKNOWN''} then Inr None
          else
            bind_res (version_parts (take 3 (py_split (CHR ''.'') (if prefix ''v'' s then tl s else s)))) (\<lambda>nums.
              Inr (map_option (\<lambda>ns. let ms = ns @ replicate (3 - length ns) 0 in (ms ! 0, ms ! 1, ms ! 2)) nums))
      | _ \<Rightarrow> Inr None)"

text \<open>\<open>node >= (18, 0, 0)\<close>.\<close>

definition node_recent :: "(nat \<times> nat \<times> nat) option \<Rightarrow> bool" where
  "node_recent node = (case node of None \<Rightarrow> False | Some (a, b, c) \<Rightarrow> 18 \<le> a)"

definition NPM_PREREQUISITE :: string where
  "NPM_PREREQUISITE = ''Install the Ubuntu npm package. The nodejs package does not include the npm binary.''"

record NpmRequirement =
  nr_result :: string
  nr_action :: string
  nr_prerequisite :: "string option"
  nr_argv :: "string list option"

definition is_ubuntu_2404 :: "PyText \<Rightarrow> pyval \<Rightarrow> pyval \<Rightarrow> bool" where
  "is_ubuntu_2404 pt os_id version = (py_str pt os_id = ''ubuntu'' \<and> prefix ''24.04'' (py_str pt version))"

text \<open>\<open>host.get("effective_uid") == 0\<close>: also of \<open>False\<close> and of a zero float.\<close>

definition equals_zero :: "pyval \<Rightarrow> bool" where
  "equals_zero v = (v \<in> {PInt 0, PBool False, PFloat (Fin 0)})"

definition npm_requirement :: "PyText \<Rightarrow> host \<Rightarrow> string + NpmRequirement" where
  "npm_requirement pt h =
     bind_res (parse_node (dict_get h ''node_version'')) (\<lambda>node.
       (let present = (case dict_get h ''npm_version'' of
                         PStr s \<Rightarrow> s \<noteq> [] \<and> s \<notin> {''ABSENT'', ''UNKNOWN''} | _ \<Rightarrow> False);
            ubuntu = is_ubuntu_2404 pt (get_or h ''os_id'' (PStr [])) (get_or h ''os_version_id'' (PStr []));
            root_user = equals_zero (dict_get h ''effective_uid'')
        in Inr (if present then
                  \<lparr>nr_result = ''PASS'', nr_action = ''present'', nr_prerequisite = None, nr_argv = Some npm_version_argv\<rparr>
                else if ubuntu \<and> node_recent node \<and> root_user then
                  \<lparr>nr_result = ''PASS'', nr_action = ''remediate'', nr_prerequisite = Some NPM_PREREQUISITE,
                   nr_argv = Some apt_install_npm_argv\<rparr>
                else
                  \<lparr>nr_result = ''BLOCKED'', nr_action = ''blocked'', nr_prerequisite = Some NPM_PREREQUISITE,
                   nr_argv = None\<rparr>)))"

section \<open>The verdict\<close>

definition aggregate :: "Check list \<Rightarrow> string" where
  "aggregate checks =
     (if list_ex (\<lambda>c. ck_result c = ''UNSUPPORTED'') checks then ''UNSUPPORTED''
      else if list_ex (\<lambda>c. ck_result c \<in> {''BLOCKED'', ''UNKNOWN''}) checks then ''BLOCKED''
      else if list_ex (\<lambda>c. ck_result c = ''LIMITATION'') checks then ''READY_WITH_LIMITATIONS''
      else ''READY'')"

record Limitation =
  li_id :: string
  li_description :: string
  li_claim_impact :: pyval

definition limitations_from :: "Check list \<Rightarrow> Limitation list" where
  "limitations_from checks =
     map (\<lambda>c. \<lparr>li_id = ck_id c, li_description = ck_title c,
                li_claim_impact = get_or (ck_observed c) ''claim_impact'' (PStr ''Recorded limitation.'')\<rparr>)
       (filter (\<lambda>c. ck_result c = ''LIMITATION'') checks)"

section \<open>Checks on the host\<close>

definition arch_check :: "PyText \<Rightarrow> host \<Rightarrow> Check" where
  "arch_check pt h =
     (let arch = py_str pt (get_or h ''uname_m'' UNKNOWN_val) in
      check_row ''PF-ARCH'' ''CPU architecture x86_64/amd64''
        (if arch \<in> {''x86_64'', ''amd64''} then ''PASS'' else ''UNSUPPORTED'')
        [(''uname_m'', PStr arch), (''expected_arch'', PList [PStr ''x86_64'', PStr ''amd64''])]
        [(''arch'', PList [PStr ''x86_64'', PStr ''amd64''])] ''Use an x86_64 or amd64 Linux host.'')"

definition os_check :: "PyText \<Rightarrow> host \<Rightarrow> Check" where
  "os_check pt h =
     (let os_id = py_str pt (get_or h ''os_id'' UNKNOWN_val);
          os_ver = py_str pt (get_or h ''os_version_id'' UNKNOWN_val)
      in check_row ''PF-OS'' ''OS is Ubuntu 24.04 LTS family''
           (if os_id = ''ubuntu'' \<and> prefix ''24.04'' os_ver then ''PASS''
            else if ''UNKNOWN'' \<in> {os_id, os_ver} then ''BLOCKED'' else ''UNSUPPORTED'')
           [(''os_id'', PStr os_id), (''os_version_id'', PStr os_ver),
            (''os_pretty_name'', get_or h ''os_pretty_name'' UNKNOWN_val)]
           [(''os_id'', PStr ''ubuntu''), (''os_version_id'', PStr ''24.04'')] ''Install on Ubuntu 24.04 LTS.'')"

definition btf_check :: "host \<Rightarrow> Check" where
  "btf_check h =
     (let btf = dict_get h ''btf_vmlinux_exists'' in
      check_row ''PF-BTF'' ''Kernel BTF present at /sys/kernel/btf/vmlinux''
        (if btf = PBool True then ''PASS'' else if btf = PBool False then ''UNSUPPORTED'' else ''BLOCKED'')
        [(''btf_vmlinux_exists'', bool_or_unknown btf)] [(''btf_vmlinux_exists'', PBool True)]
        ''Boot a kernel that publishes BTF at /sys/kernel/btf/vmlinux.'')"

definition cgroup_check :: "PyText \<Rightarrow> host \<Rightarrow> Check" where
  "cgroup_check pt h =
     (let cgroup = py_str pt (get_or h ''cgroup_version'' UNKNOWN_val) in
      check_row ''PF-CGROUP2'' ''cgroup v2 in use''
        (if cgroup = ''cgroup2'' then ''PASS'' else if cgroup = ''cgroup1'' then ''UNSUPPORTED'' else ''BLOCKED'')
        [(''cgroup_version'', PStr cgroup)] [(''cgroup_version'', PStr ''cgroup2'')]
        ''Mount cgroup v2. cgroup v1-only hosts are unsupported.'')"

definition bpffs_check :: "host \<Rightarrow> Check" where
  "bpffs_check h =
     (let mounted = dict_get h ''bpffs_mounted''; writable = dict_get h ''bpffs_writable'' in
      check_row ''PF-BPFFS'' ''/sys/fs/bpf mounted and writable by intended principal''
        (pass_if (mounted = PBool True \<and> writable = PBool True))
        [(''bpffs_mounted'', bool_or_unknown mounted), (''bpffs_writable'', bool_or_unknown writable)]
        [(''bpffs_mounted'', PBool True), (''bpffs_writable'', PBool True)]
        ''Mount bpffs at /sys/fs/bpf and grant the install principal write access.'')"

definition lsm_check :: "host \<Rightarrow> Check" where
  "lsm_check h =
     (let lsm = dict_get h ''active_lsm'' in
      check_row ''PF-LSM'' ''Live kernel LSM list includes bpf''
        (pass_if (bpf_lsm_active (case lsm of PStr t \<Rightarrow> Some t | _ \<Rightarrow> None)))
        [(''active_lsm'', (case lsm of PStr t \<Rightarrow> if t = [] then UNKNOWN_val else lsm | _ \<Rightarrow> UNKNOWN_val))]
        [(''path'', PStr ''/sys/kernel/security/lsm''), (''token'', PStr ''bpf'')]
        (''Reboot so /sys/kernel/security/lsm lists bpf, then rerun preflight. '' @
         ''A host without that token is not healthy and is not protected.''))"

definition docker_check :: "host \<Rightarrow> Check" where
  "docker_check h =
     (let docker_bin = (dict_get h ''docker_binary'' = PBool True);
          docker_ver = (if truthy (dict_get h ''docker_version'') then dict_get h ''docker_version'' else UNKNOWN_val)
      in check_row ''PF-DOCKER'' ''Container runtime docker available'' (pass_if docker_bin)
           [(''docker_binary'', PBool docker_bin), (''docker_version_or_UNKNOWN'', docker_ver)]
           [(''docker_binary'', PBool True)] ''Install Docker and confirm the docker CLI is on PATH.'')"

definition apparmor_check :: "host \<Rightarrow> Check" where
  "apparmor_check h =
     check_row ''PF-APPARMOR'' ''AppArmor enabled and apparmor_parser available'' (fst (apparmor_observation h))
       (snd (apparmor_observation h)) [(''apparmor_enabled'', PBool True), (''apparmor_parser'', PBool True)]
       (''Enable AppArmor and install apparmor_parser. '' @
        ''The observe-only Phantom Engine container loads a named profile.'')"

definition docker_perm_check :: "PyText \<Rightarrow> host \<Rightarrow> Check" where
  "docker_perm_check pt h =
     (let can = (dict_get h ''principal_can_talk_to_docker'' = PBool True);
          mode = py_str pt (get_or h ''privilege_mode'' UNKNOWN_val);
          sudo_ok = (dict_get h ''sudo_available'' = PBool True \<and> mode = ''sudo'');
          perm_ok = (can \<and> mode \<in> {''docker_group'', ''sudo''} \<or> sudo_ok \<or> can \<and> mode = ''UNKNOWN'')
      in check_row ''PF-DOCKER-PERM'' ''docker.sock permissions / group / sudo path'' (pass_if perm_ok)
           [(''docker_sock_path'', dict_get h ''docker_sock_path''), (''principal_can_talk_to_docker'', PBool can),
            (''privilege_mode'', PStr mode), (''remediation'', PStr ''docker group or sudo'')]
           [(''privilege_mode'', PStr ''docker_group|sudo'')]
           ''Add the operator to the docker group or rerun with sudo. Group membership is not assumed.'')"

definition MEM_BOUNDED_BELOW_KIB :: int where "MEM_BOUNDED_BELOW_KIB = 3 * 1024 * 1024"

text \<open>An integer, or a truth value, which Python counts as one.\<close>

definition int_value :: "pyval \<Rightarrow> int option" where
  "int_value v = (case v of PInt n \<Rightarrow> Some n | PBool b \<Rightarrow> Some (if b then 1 else 0) | _ \<Rightarrow> None)"

text \<open>\<open>round(mem / 2**20, 3)\<close>: thousandths, a half goes to the even one.\<close>

definition gib_thousandths :: "int \<Rightarrow> int" where
  "gib_thousandths mem =
     (let q = mem * 1000 div 1048576; r = mem * 1000 mod 1048576 in
      if 1048576 < 2 * r \<or> 2 * r = 1048576 \<and> odd q then q + 1 else q)"

definition mem_check :: "host \<Rightarrow> Check" where
  "mem_check h =
     (let row = (\<lambda>result gib resource impact.
        check_row ''PF-MEM'' ''Memory class for claim tier'' result
          [(''mem_total_gib'', gib), (''resource_class'', PStr resource), (''claim_impact'', PStr impact)]
          [(''resource_class'', PStr ''recorded'')] ''Treat hosts under 3 GiB as bounded-test class.'')
      in case int_value (dict_get h ''mem_total_kib'') of
           None \<Rightarrow> row ''LIMITATION'' UNKNOWN_val ''UNKNOWN''
             ''Memory was not observed. Full resource sufficiency stays outside this result.''
         | Some mem \<Rightarrow>
             (let gib = PFloat (Fin (real_of_int (gib_thousandths mem) / 1000)) in
              if mem < MEM_BOUNDED_BELOW_KIB then
                row ''LIMITATION'' gib ''RESOURCE_SUFFICIENT_FOR_BOUNDED_TEST''
                  ''Memory is in the bounded class. Full resource sufficiency stays outside this result.''
              else row ''PASS'' gib ''ABOVE_BOUNDED_CLASS'' []))"

definition iface_check :: "PyText \<Rightarrow> host \<Rightarrow> (string \<times> pyval) list \<Rightarrow> Check" where
  "iface_check pt h config =
     (let iface = py_str pt (get_or config ''iface'' (PStr []));
          ifaces = (case dict_get h ''ifaces'' of PDict d \<Rightarrow> d | _ \<Rightarrow> []);
          st = get_or ifaces iface (PStr ''ABSENT'')
      in check_row ''PF-IFACE'' ''Target network iface exists'' (pass_if (st = PStr ''up''))
           [(''iface'', PStr iface), (''iface_state'', st), (''discovered_or_configured'', PStr ''configured'')]
           [(''iface_state'', PStr ''up'')]
           ''Set iface to a host interface that is up. Do not hardcode a lab interface for every host.'')"

section \<open>Checks on the bundle\<close>

definition opt_text :: "string option \<Rightarrow> pyval" where
  "opt_text v = (case v of None \<Rightarrow> PNone | Some s \<Rightarrow> PStr s)"

definition artifact_check :: "string \<Rightarrow> string \<Rightarrow> FileEnv \<Rightarrow> files \<Rightarrow> string \<Rightarrow> string \<Rightarrow> Check" where
  "artifact_check i title fe fs path expected =
     (let observed = hash_named fe fs path in
      check_row i title (pass_if (observed = Some expected))
        [(''path'', PStr (path_name path)), (''expected_sha256'', PStr expected), (''observed_sha256'', opt_text observed),
         (''match'', PBool (observed = Some expected))]
        [(''match'', PBool True)] ''Restore the frozen artifact bytes. A hash mismatch stops the install.'')"

definition sdist_checks :: "FileEnv \<Rightarrow> Pins \<Rightarrow> files \<Rightarrow> Check list" where
  "sdist_checks fe pin fs =
     (let path = ap_agent_sdk_py_sdist (artifact_paths pin); observed = hash_named fe fs path in
      if fs path \<noteq> None \<and> observed \<noteq> Some (agent_sdk_py_sdist_sha256 pin) then
        [check_row ''PF-ARTIFACT-SDK-PY-SDIST'' ''agent-sdk py sdist sha256 match'' ''BLOCKED''
           [(''path'', PStr (path_name path)), (''expected_sha256'', PStr (agent_sdk_py_sdist_sha256 pin)),
            (''observed_sha256'', opt_text observed), (''match'', PBool False)]
           [(''match'', PBool True)] ''Remove the sdist or restore the frozen bytes.'']
      else [])"

text \<open>The artifact manifest: an object, anything else or nothing; bytes that are not UTF-8 raise.\<close>

definition pe_manifest_doc :: "FileEnv \<Rightarrow> Pins \<Rightarrow> files \<Rightarrow> string + (string \<times> pyval) list option" where
  "pe_manifest_doc fe pin fs =
     (case json_at fe fs (ap_pe_manifest (artifact_paths pin)) of
        File Not_Utf8 \<Rightarrow> Inl ''UnicodeDecodeError''
      | File (Doc (PDict d)) \<Rightarrow> Inr (Some d)
      | _ \<Rightarrow> Inr None)"

definition pe_check :: "FileEnv \<Rightarrow> Pins \<Rightarrow> files \<Rightarrow> (string \<times> pyval) list option \<Rightarrow> Check" where
  "pe_check fe pin fs doc =
     (let path = ap_pe_archive (artifact_paths pin);
          observed = hash_named fe fs path;
          field = (\<lambda>key. case doc of None \<Rightarrow> PNone | Some d \<Rightarrow> dict_get d key);
          commit_match = (doc \<noteq> None \<and> field ''source_commit'' = PStr (pe_source_commit pin));
          digest_match = (doc \<noteq> None \<and> field ''manifest_digest'' = PStr (pe_manifest_digest pin));
          ok = (doc \<noteq> None \<and> observed = Some (pe_archive_sha256 pin) \<and> commit_match \<and> digest_match
                \<and> field ''archive_sha256'' = PStr (pe_archive_sha256 pin)
                \<and> field ''config_digest'' = PStr (pe_config_digest pin)
                \<and> field ''loader_sha256'' = PStr (pe_loader_sha256 pin)
                \<and> field ''layer_digests'' = PList (map PStr (pe_layer_digests pin)))
      in check_row ''PF-ARTIFACT-PE'' ''PE archive + manifest digest match sealed tip'' (pass_if ok)
           [(''archive_path'', PStr (path_name path)), (''archive_sha256_expected'', PStr (pe_archive_sha256 pin)),
            (''archive_sha256_observed'', opt_text observed), (''manifest_digest_expected'', PStr (pe_manifest_digest pin)),
            (''match'', PBool ok), (''source_commit'', PStr (pe_source_commit pin)), (''commit_match'', PBool commit_match),
            (''digest_match'', PBool digest_match)]
           [(''match'', PBool True), (''source_commit'', PStr (pe_source_commit pin))]
           ''Use the sealed archive for the frozen tip. Tip drift needs a new seal.'')"

definition facts_fields :: "OciFacts \<Rightarrow> (string \<times> pyval) list" where
  "facts_fields f =
     [(''layout'', PStr (of_layout f)), (''rewrite'', PBool (of_rewrite f)), (''blocked'', PBool (of_blocked f))]
     @ (case of_reason f of None \<Rightarrow> [] | Some r \<Rightarrow> [(''reason'', PStr r)])
     @ [(''corrections'', PList (map PStr (of_corrections f))), (''storage_driver_change'', PBool False)]"

definition oci_check :: "OciFacts \<Rightarrow> Check" where
  "oci_check facts =
     (let title = ''sealed OCI tar can be loaded on the installed Docker'' in
      if of_blocked facts then
        check_row ''PF-OCI-LOAD'' title ''BLOCKED'' (facts_fields facts)
          [(''rewrite'', PBool False), (''storage_driver_change'', PBool False)]
          (''Restore the sealed archive. '' @ ''The installer does not change Docker'' @ [CHR 0x27] @ ''s storage driver.'')
      else
        check_row ''PF-OCI-LOAD'' title ''PASS'' (facts_fields facts) [(''storage_driver_change'', PBool False)]
          (if of_rewrite facts then
             ''Apply writes a temporary load archive with the layer media type set to match the bytes. '' @
             ''The sealed file stays in place. Docker'' @ [CHR 0x27] @ ''s storage driver stays as installed.''
           else
             ''No layer media-type correction is required. Docker'' @ [CHR 0x27] @ ''s storage driver stays as installed.''))"

definition ghcr_source :: "PyText \<Rightarrow> (string \<times> pyval) list \<Rightarrow> string" where
  "ghcr_source pt config = py_str pt (get_or config ''artifact_source'' (PStr ''sealed_archive''))"

definition ghcr_selected :: "PyText \<Rightarrow> (string \<times> pyval) list \<Rightarrow> (string \<times> pyval) list \<Rightarrow> bool" where
  "ghcr_selected pt config manifest =
     (let source = ghcr_source pt config;
          manifest_source = py_str pt (get_or manifest ''artifact_source'' (PStr []));
          dumped = json_dumps '', '' '': '' False (pt_json_float pt) (get_or manifest ''artifacts'' (PDict []))
      in source = ''ghcr'' \<or> sublist ''ghcr.io'' source \<or> suffix '':0.1.0'' source
         \<or> (manifest_source = ''ghcr'' \<or> sublist ''ghcr.io'' dumped)
             \<and> (sublist '':0.1.0'' dumped \<or> manifest_source = ''ghcr''))"

definition ghcr_check :: "PyText \<Rightarrow> (string \<times> pyval) list \<Rightarrow> (string \<times> pyval) list \<Rightarrow> Check" where
  "ghcr_check pt config manifest =
     (let ghcr = ghcr_selected pt config manifest in
      check_row ''PF-GHCR-DEFAULT'' ''GHCR 0.1.0 is not selected as artifact source'' (if ghcr then ''BLOCKED'' else ''PASS'')
        [(''artifact_source'', PStr (ghcr_source pt config)), (''ghcr_0_1_0_used'', PBool ghcr)]
        [(''ghcr_0_1_0_used'', PBool False)] ''Stage the sealed archive. GHCR 0.1.0 is not a default source.'')"

definition disclosure_check :: "files \<Rightarrow> Pins \<Rightarrow> (string \<times> pyval) list option \<Rightarrow> Check" where
  "disclosure_check fs pin doc =
     (let hits = scan_disclosure fs (ap_pe_archive (artifact_paths pin));
          status = (case doc of None \<Rightarrow> PNone | Some d \<Rightarrow> dict_get d ''disclosure_status'');
          flag = (case doc of None \<Rightarrow> PNone | Some d \<Rightarrow> dict_get d ''forbidden_path_scan'')
      in check_row ''PF-DISCLOSURE'' ''Sealed PE disclosure gate PASS recorded''
           (pass_if (hits = [] \<and> status = PStr ''PASS'' \<and> flag = PStr ''PASS''))
           [(''disclosure_status'', if truthy status then status else PStr ''ABSENT''),
            (''forbidden_path_scan'', if hits \<noteq> [] then PList (map PStr hits) else flag)]
           [(''disclosure_status'', PStr ''PASS''), (''forbidden_path_scan'', PStr ''PASS'')]
           (''Reseal the archive after the disclosure scan passes. '' @ ''There is no waiver for company-host paths.''))"

section \<open>Checks on the configuration\<close>

definition forbidden_cidr :: "string \<Rightarrow> bool" where
  "forbidden_cidr txt =
     (let t = py_isspace_strip txt in t \<in> {''0.0.0.0/0'', ''::/0'', ''0.0.0.0'', ''*''} \<or> suffix ''/0'' t)"

definition transfer_check :: "PyText \<Rightarrow> (string \<times> pyval) list \<Rightarrow> Check" where
  "transfer_check pt config =
     (let needed = truthy (dict_get config ''transfer_required'');
          cidrs = (case dict_get config ''transfer_source_cidrs'' of PList vs \<Rightarrow> vs | _ \<Rightarrow> []);
          bad = list_ex (\<lambda>item. forbidden_cidr (py_str pt item)) cidrs
      in check_row ''PF-TRANSFER-ALLOWLIST'' ''Transfer source CIDRs allowlisted when remote transfer required''
           (pass_if (if needed then cidrs \<noteq> [] \<and> \<not> bad else \<not> bad))
           [(''transfer_required'', PBool needed), (''source_cidrs'', PList cidrs),
            (''zero_zero_forbidden_confirmed'', PBool (\<not> bad))]
           [(''zero_zero_forbidden_confirmed'', PBool True)]
           ''Provide operator allowlisted transfer CIDRs. 0.0.0.0/0 is refused.'')"

definition enforcement_check :: "PyText \<Rightarrow> (string \<times> pyval) list \<Rightarrow> Check" where
  "enforcement_check pt config =
     (let mode = py_str pt (get_or config ''install_mode'' (PStr []));
          enforcement = py_str pt (get_or config ''enforcement'' (PStr []));
          observe_ok = (mode = ''observe-only'' \<and> enforcement = ''NOT_ENABLED'');
          enrolled_ok = (mode = ''enforce-enrolled'' \<and> enforcement = ''ENROLLED'')
      in check_row ''PF-ENFORCEMENT-DEFAULT'' ''enforcement is observe-only, or a consented enrolled mode''
           (pass_if (observe_ok \<or> enrolled_ok))
           [(''install_mode'', PStr mode), (''enforcement'', PStr enforcement)]
           [(''install_mode'', PStr (if enrolled_ok then ''enforce-enrolled'' else ''observe-only'')),
            (''enforcement'', PStr (if enrolled_ok then ''ENROLLED'' else ''NOT_ENABLED''))]
           ''Keep install_mode observe-only and enforcement NOT_ENABLED, or use the consented enrolled mode.'')"

definition attach_check :: "(string \<times> pyval) list \<Rightarrow> bool \<Rightarrow> bool \<Rightarrow> bool \<Rightarrow> bool \<Rightarrow> Check" where
  "attach_check config resuming plan_present config_present bundle_digest_match =
     check_row ''PF-TX-ATTACH'' ''Plan/apply artifacts and brief/config attached when resuming''
       (pass_if (\<not> resuming \<or> plan_present \<and> config_present \<and> bundle_digest_match))
       [(''transaction_id'', dict_get config ''transaction_id''), (''plan_present'', PBool plan_present),
        (''config_present'', PBool config_present), (''bundle_digest_match'', PBool bundle_digest_match),
        (''resuming'', PBool resuming)]
       [(''bundle_digest_match'', PBool True)]
       ''Reattach the plan, config, and the same bundle digests before resume.''"

definition node_check :: "host \<Rightarrow> string + Check" where
  "node_check h =
     bind_res (parse_node (dict_get h ''node_version'')) (\<lambda>node.
       Inr (check_row ''PF-NODE'' ''Node.js >=18 available or installable for Optics'' (pass_if (node_recent node))
              [(''node_version_or_absent'', if truthy (dict_get h ''node_version'') then dict_get h ''node_version'' else PStr ''ABSENT''),
               (''install_plan'', PStr ''use host Node >=18'')]
              [(''node'', PStr ''>=18'')] ''Install Node.js 18 or newer before apply.''))"

definition npm_check :: "host \<Rightarrow> NpmRequirement \<Rightarrow> Check" where
  "npm_check h npm =
     check_row ''PF-NPM'' ''npm is on PATH, or root on Ubuntu 24.04 will install the Ubuntu npm package'' (nr_result npm)
       ([(''npm_version_or_absent'', if truthy (dict_get h ''npm_version'') then dict_get h ''npm_version'' else PStr ''ABSENT''),
         (''action'', PStr (nr_action npm)), (''package'', PStr ''npm'')]
        @ (case nr_prerequisite npm of None \<Rightarrow> [] | Some p \<Rightarrow> [(''prerequisite'', PStr p)])
        @ (case nr_argv npm of None \<Rightarrow> [] | Some argv \<Rightarrow> [(''argv'', PList (map PStr argv))]))
       [(''npm'', PStr ''present'')] (case nr_prerequisite npm of None \<Rightarrow> ''npm is already on PATH.'' | Some p \<Rightarrow> p)"

definition enterprise_check :: "PyText \<Rightarrow> (string \<times> pyval) list \<Rightarrow> Check" where
  "enterprise_check pt config =
     (let txt = py_str pt (get_or config ''enterprise_inclusion'' (PStr ''OPTIONAL_SOURCE_ONLY_NOT_PACKAGED_AUTHORITY''));
          claims = (sublist ''PACKAGED_AUTHORITY'' txt \<and> \<not> sublist ''NOT_PACKAGED'' txt)
      in check_row ''PF-ENTERPRISE-CLAIM'' ''Enterprise packaging authority not claimed''
           (if claims then ''LIMITATION'' else ''PASS'')
           [(''enterprise_inclusion'', PStr txt),
            (''claim_text'', PStr (if claims then ''packaged authority requested'' else ''not claimed'')),
            (''claim_impact'', PStr ''Packaged enterprise authority stays outside this install.'')]
           [(''enterprise_inclusion'', PStr ''OPTIONAL_SOURCE_ONLY_NOT_PACKAGED_AUTHORITY'')]
           ''Leave enterprise authority out of this bundle.'')"

definition motion_check :: "PyText \<Rightarrow> (string \<times> pyval) list \<Rightarrow> Check" where
  "motion_check pt config =
     (let motion = py_str pt (get_or config ''install_motion'' UNKNOWN_val) in
      check_row ''PF-OPERATOR-SSH-ASSUMPTION'' ''Installer path is customer-local (not operator-NAT SSH proof)''
        (if motion \<noteq> ''customer-local'' then ''LIMITATION'' else ''PASS'')
        [(''install_motion'', PStr motion), (''operator_box_ssh_used'', PBool (motion = ''operator-remote-assist'')),
         (''claim_impact'', PStr ''Remote operator assist is recorded and is not a customer-path proof.'')]
        [(''install_motion'', PStr ''customer-local'')] ''Run the installer on the host that will keep the node.'')"

text \<open>The message of an exception; that of the decoder is represented by its name.\<close>

definition exn_text :: "py_exn \<Rightarrow> string" where
  "exn_text e = (case e of Refused err \<Rightarrow> err_message err | Py_Error name \<Rightarrow> name)"

definition manifest_checks :: "py_exn + (string \<times> pyval) list \<Rightarrow> Check list" where
  "manifest_checks loaded =
     (let manifest = (case loaded of Inl _ \<Rightarrow> [] | Inr d \<Rightarrow> d);
          error = (case loaded of Inl e \<Rightarrow> PStr (exn_text e) | Inr _ \<Rightarrow> PNone)
      in if isl loaded \<or> missing_manifest_fields manifest \<noteq> [] then
           [check_row ''PF-MANIFEST'' ''Deployment manifest required sections'' ''BLOCKED''
              [(''missing'', PList (map PStr (if manifest \<noteq> [] then missing_manifest_fields manifest else [''MANIFEST.json'']))),
               (''error'', error)]
              [(''missing'', PList [])] ''Add the required manifest sections and validate the JSON.'']
         else [])"

definition sum_row_fields :: "SumRow \<Rightarrow> pyval" where
  "sum_row_fields row =
     PDict [(''path'', PStr (sr_path row)), (''expected_sha256'', PStr (sr_expected row)),
            (''observed_sha256'', opt_text (sr_observed row)), (''match'', PBool (sr_match row))]"

definition sums_checks :: "py_exn + SumRow list \<Rightarrow> Check list" where
  "sums_checks verified =
     (let mismatch = (case verified of Inl _ \<Rightarrow> True | Inr rows \<Rightarrow> list_ex (\<lambda>row. \<not> sr_match row) rows);
          rows = (case verified of Inl e \<Rightarrow> [PDict [(''error'', PStr (exn_text e))]] | Inr rows \<Rightarrow> map sum_row_fields rows)
      in if mismatch then
           [check_row ''PF-SHA256SUMS'' ''SHA256SUMS match bundle bytes'' ''BLOCKED'' [(''rows'', PList rows)]
              [(''match'', PBool True)] ''Regenerate SHA256SUMS from the staged bytes.'']
         else [])"

section \<open>The preflight\<close>

text \<open>The libraries and the bundle a preflight reads.\<close>

record PreEnv =
  en_files :: FileEnv
  en_text :: PyText
  en_tar :: "bytes option \<Rightarrow> tar_file"
  en_pins :: Pins

record Bundle =
  bu_files :: files
  bu_target :: "string \<Rightarrow> bool \<times> bytes option"
  bu_sums :: text_file

record Attach =
  at_resuming :: bool
  at_plan_present :: bool
  at_config_present :: bool
  at_bundle_digest_match :: bool
  at_allow_unrecorded_tracefs :: bool

record PreflightReport =
  pf_overall :: string
  pf_checks :: "Check list"
  pf_npm :: NpmRequirement
  pf_limitations :: "Limitation list"
  pf_failed_or_limiting :: "Check list"
  pf_refuse_apply :: bool

definition host_checks :: "PyText \<Rightarrow> bool \<Rightarrow> host \<Rightarrow> (string \<times> pyval) list \<Rightarrow> Check list" where
  "host_checks pt allow h config =
     [arch_check pt h, os_check pt h, btf_check h, cgroup_check pt h, bpffs_check h, lsm_check h, lockdown_check h,
      tracefs_check h allow, docker_check h, apparmor_check h, docker_perm_check pt h, mem_check h, iface_check pt h config]"

definition artifact_checks :: "FileEnv \<Rightarrow> Pins \<Rightarrow> files \<Rightarrow> Check list" where
  "artifact_checks fe pin fs =
     [artifact_check ''PF-ARTIFACT-OPTICS'' ''Optics CLI artifact sha256 match'' fe fs
        (ap_optics_cli (artifact_paths pin)) (optics_cli_sha256 pin),
      artifact_check ''PF-ARTIFACT-SDK-NPM'' ''agent-sdk npm artifact sha256 match'' fe fs
        (ap_agent_sdk_npm (artifact_paths pin)) (agent_sdk_npm_sha256 pin),
      artifact_check ''PF-ARTIFACT-SDK-PY'' ''agent-sdk py wheel sha256 match'' fe fs
        (ap_agent_sdk_py_wheel (artifact_paths pin)) (agent_sdk_py_wheel_sha256 pin)]
     @ sdist_checks fe pin fs"

definition run_preflight ::
  "PreEnv \<Rightarrow> Bundle \<Rightarrow> (string \<times> pyval) list \<Rightarrow> host \<Rightarrow> Attach \<Rightarrow> string + PreflightReport" where
  "run_preflight env bu config h a =
     (let pt = en_text env; fe = en_files env; pin = en_pins env; fs = bu_files bu;
          loaded = load_manifest fe fs;
          manifest = (case loaded of Inl _ \<Rightarrow> [] | Inr d \<Rightarrow> d)
      in bind_res (pe_manifest_doc fe pin fs) (\<lambda>doc.
         bind_res (node_check h) (\<lambda>node.
         bind_res (npm_requirement pt h) (\<lambda>npm.
           (let checks =
                  host_checks pt (at_allow_unrecorded_tracefs a) h config @ artifact_checks fe pin fs
                  @ [pe_check fe pin fs doc,
                     oci_check (describe_archive fe (pt_json_float pt) (en_tar env (fs (ap_pe_archive (artifact_paths pin))))),
                     ghcr_check pt config manifest, disclosure_check fs pin doc, transfer_check pt config,
                     enforcement_check pt config,
                     attach_check config (at_resuming a) (at_plan_present a) (at_config_present a) (at_bundle_digest_match a),
                     node, npm_check h npm, enterprise_check pt config, motion_check pt config]
                  @ manifest_checks loaded @ sums_checks (verify_sha256sums fe (bu_target bu) (bu_sums bu));
                overall = aggregate checks
            in Inr \<lparr>pf_overall = overall, pf_checks = checks, pf_npm = npm, pf_limitations = limitations_from checks,
                    pf_failed_or_limiting = filter (\<lambda>c. ck_result c \<noteq> ''PASS'') checks,
                    pf_refuse_apply = (overall \<in> {''BLOCKED'', ''UNSUPPORTED''})\<rparr>)))))"

end
