(* ===== verification/Install_Ready.thy ===== *)
theory Install_Ready
  imports Install_Preflight
begin

text \<open>When \<open>run_preflight\<close> says READY, and when the lockdown check passes: the host, the configuration and the bundle
  spelled out, and the verdict proved to be exactly that.\<close>

section \<open>When a host is ready\<close>

definition ready_host :: "PyText \<Rightarrow> bool \<Rightarrow> host \<Rightarrow> (string \<times> pyval) list \<Rightarrow> bool" where
  "ready_host pt allow h config =
     (py_str pt (get_or h ''uname_m'' UNKNOWN_val) \<in> {''x86_64'', ''amd64''}
      \<and> py_str pt (get_or h ''os_id'' UNKNOWN_val) = ''ubuntu''
      \<and> prefix ''24.04'' (py_str pt (get_or h ''os_version_id'' UNKNOWN_val))
      \<and> dict_get h ''btf_vmlinux_exists'' = PBool True
      \<and> py_str pt (get_or h ''cgroup_version'' UNKNOWN_val) = ''cgroup2''
      \<and> dict_get h ''bpffs_mounted'' = PBool True \<and> dict_get h ''bpffs_writable'' = PBool True
      \<and> (\<exists>t. dict_get h ''active_lsm'' = PStr t \<and> bpf_lsm_active (Some t))
      \<and> (dict_get h ''lockdown_mode'', dict_get h ''secure_boot'')
           \<in> {(PStr m, PStr b) | m b. m = ''integrity'' \<and> b \<in> {''on'', ''off'', ''absent''} \<or> m = ''none'' \<and> b \<in> {''off'', ''absent''}}
      \<and> (if ''tracefs_mounted'' \<in> set (map fst h) then dict_get h ''tracefs_mounted'' = PBool True else allow)
      \<and> dict_get h ''docker_binary'' = PBool True
      \<and> dict_get h ''apparmor_enabled'' = PBool True \<and> dict_get h ''apparmor_parser'' = PBool True
      \<and> (dict_get h ''principal_can_talk_to_docker'' = PBool True
           \<and> py_str pt (get_or h ''privilege_mode'' UNKNOWN_val) \<in> {''docker_group'', ''sudo'', ''UNKNOWN''}
         \<or> dict_get h ''sudo_available'' = PBool True \<and> py_str pt (get_or h ''privilege_mode'' UNKNOWN_val) = ''sudo'')
      \<and> (\<exists>kib. int_value (dict_get h ''mem_total_kib'') = Some kib \<and> 3145728 \<le> kib)
      \<and> get_or (case dict_get h ''ifaces'' of PDict d \<Rightarrow> d | _ \<Rightarrow> []) (py_str pt (get_or config ''iface'' (PStr []))) (PStr ''ABSENT'')
          = PStr ''up'')"

definition ready_artifacts :: "FileEnv \<Rightarrow> Pins \<Rightarrow> files \<Rightarrow> bool" where
  "ready_artifacts fe pin fs =
     (hash_named fe fs (ap_optics_cli (artifact_paths pin)) = Some (optics_cli_sha256 pin)
      \<and> hash_named fe fs (ap_agent_sdk_npm (artifact_paths pin)) = Some (agent_sdk_npm_sha256 pin)
      \<and> hash_named fe fs (ap_agent_sdk_py_wheel (artifact_paths pin)) = Some (agent_sdk_py_wheel_sha256 pin)
      \<and> hash_named fe fs (ap_agent_sdk_py_sdist (artifact_paths pin)) \<in> {None, Some (agent_sdk_py_sdist_sha256 pin)}
      \<and> hash_named fe fs (ap_pe_archive (artifact_paths pin)) = Some (pe_archive_sha256 pin))"

definition ready_manifest :: "Pins \<Rightarrow> (string \<times> pyval) list \<Rightarrow> bool" where
  "ready_manifest pin d =
     (dict_get d ''source_commit'' = PStr (pe_source_commit pin)
      \<and> dict_get d ''manifest_digest'' = PStr (pe_manifest_digest pin)
      \<and> dict_get d ''archive_sha256'' = PStr (pe_archive_sha256 pin)
      \<and> dict_get d ''config_digest'' = PStr (pe_config_digest pin)
      \<and> dict_get d ''loader_sha256'' = PStr (pe_loader_sha256 pin)
      \<and> dict_get d ''layer_digests'' = PList (map PStr (pe_layer_digests pin))
      \<and> dict_get d ''disclosure_status'' = PStr ''PASS'' \<and> dict_get d ''forbidden_path_scan'' = PStr ''PASS'')"

definition ready_config :: "PyText \<Rightarrow> Attach \<Rightarrow> (string \<times> pyval) list \<Rightarrow> bool" where
  "ready_config pt a config =
     ((let cidrs = (case dict_get config ''transfer_source_cidrs'' of PList vs \<Rightarrow> vs | _ \<Rightarrow> []) in
       \<not> list_ex (\<lambda>v. forbidden_cidr (py_str pt v)) cidrs \<and> (truthy (dict_get config ''transfer_required'') \<longrightarrow> cidrs \<noteq> []))
      \<and> (py_str pt (get_or config ''install_mode'' (PStr [])), py_str pt (get_or config ''enforcement'' (PStr [])))
          \<in> {(''observe-only'', ''NOT_ENABLED''), (''enforce-enrolled'', ''ENROLLED'')}
      \<and> (at_resuming a \<longrightarrow> at_plan_present a \<and> at_config_present a \<and> at_bundle_digest_match a)
      \<and> (let t = py_str pt (get_or config ''enterprise_inclusion'' (PStr ''OPTIONAL_SOURCE_ONLY_NOT_PACKAGED_AUTHORITY''))
         in sublist ''PACKAGED_AUTHORITY'' t \<longrightarrow> sublist ''NOT_PACKAGED'' t)
      \<and> py_str pt (get_or config ''install_motion'' UNKNOWN_val) = ''customer-local'')"

definition limiting :: "Check \<Rightarrow> bool" where
  "limiting c = (ck_result c \<in> {''UNSUPPORTED'', ''BLOCKED'', ''UNKNOWN'', ''LIMITATION''})"

lemma list_ex_Cons: "list_ex P (x # xs) \<longleftrightarrow> P x \<or> list_ex P xs" "list_ex P [] \<longleftrightarrow> False"
  by simp_all

lemma aggregate_ready: "aggregate checks = ''READY'' \<longleftrightarrow> \<not> list_ex limiting checks"
  by (auto simp: aggregate_def limiting_def list_ex_iff)

lemma limiting_row [simp]: "limiting (check_row i t r ob ex re) = (r \<in> {''UNSUPPORTED'', ''BLOCKED'', ''UNKNOWN'', ''LIMITATION''})"
  by (simp add: limiting_def check_row_def)

lemma pass_if_value [simp]:
  "pass_if b = ''PASS'' \<longleftrightarrow> b" "pass_if b = ''BLOCKED'' \<longleftrightarrow> \<not> b" "pass_if b \<noteq> ''UNSUPPORTED''" "pass_if b \<noteq> ''UNKNOWN''"
  "pass_if b \<noteq> ''LIMITATION''"
  by (simp_all add: pass_if_def)

lemma lockdown_grade_pass:
  "fst (lockdown_grade m b) = ''PASS'' \<longleftrightarrow>
     (\<exists>mode boot. m = PStr mode \<and> b = PStr boot
        \<and> (mode = ''integrity'' \<and> boot \<in> {''on'', ''off'', ''absent''} \<or> mode = ''none'' \<and> boot \<in> {''off'', ''absent''}))"
  by (auto simp: lockdown_grade_def text_or_def Let_def split: pyval.splits)

lemma lockdown_grade_results: "fst (lockdown_grade m b) = ''PASS'' \<or> fst (lockdown_grade m b) = ''BLOCKED''"
  by (simp add: lockdown_grade_def Let_def)

lemma limiting_lockdown: "limiting (lockdown_check h) \<longleftrightarrow>
   (dict_get h ''lockdown_mode'', dict_get h ''secure_boot'')
           \<notin> {(PStr m, PStr b) | m b. m = ''integrity'' \<and> b \<in> {''on'', ''off'', ''absent''} \<or> m = ''none'' \<and> b \<in> {''off'', ''absent''}}"
proof -
  have "limiting (lockdown_check h) \<longleftrightarrow> fst (lockdown_grade (dict_get h ''lockdown_mode'') (dict_get h ''secure_boot'')) \<noteq> ''PASS''"
    using lockdown_grade_results [of "dict_get h ''lockdown_mode''" "dict_get h ''secure_boot''"]
    by (auto simp: lockdown_check_def limiting_def check_row_def split: prod.splits)
  then show ?thesis unfolding lockdown_grade_pass by blast
qed

lemma limiting_host1:
  "limiting (arch_check pt h) \<longleftrightarrow> py_str pt (get_or h ''uname_m'' UNKNOWN_val) \<notin> {''x86_64'', ''amd64''}"
  "limiting (os_check pt h) \<longleftrightarrow> \<not> (py_str pt (get_or h ''os_id'' UNKNOWN_val) = ''ubuntu''
      \<and> prefix ''24.04'' (py_str pt (get_or h ''os_version_id'' UNKNOWN_val)))"
  "limiting (btf_check h) \<longleftrightarrow> dict_get h ''btf_vmlinux_exists'' \<noteq> PBool True"
  "limiting (cgroup_check pt h) \<longleftrightarrow> py_str pt (get_or h ''cgroup_version'' UNKNOWN_val) \<noteq> ''cgroup2''"
  "limiting (bpffs_check h) \<longleftrightarrow> \<not> (dict_get h ''bpffs_mounted'' = PBool True \<and> dict_get h ''bpffs_writable'' = PBool True)"
  by (auto simp: arch_check_def os_check_def btf_check_def cgroup_check_def bpffs_check_def Let_def)

lemma limiting_lsm: "limiting (lsm_check h) \<longleftrightarrow> \<not> (\<exists>t. dict_get h ''active_lsm'' = PStr t \<and> bpf_lsm_active (Some t))"
  by (cases "dict_get h ''active_lsm''") (simp_all add: lsm_check_def bpf_lsm_active_def Let_def)

lemma limiting_tracefs: "limiting (tracefs_check h allow) \<longleftrightarrow>
  \<not> (if ''tracefs_mounted'' \<in> set (map fst h) then dict_get h ''tracefs_mounted'' = PBool True else allow)"
  by (simp add: tracefs_check_def Let_def)

lemma limiting_apparmor: "limiting (apparmor_check h) \<longleftrightarrow>
  \<not> (dict_get h ''apparmor_enabled'' = PBool True \<and> dict_get h ''apparmor_parser'' = PBool True)"
proof -
  have "get_or h k UNKNOWN_val = PBool True \<longleftrightarrow> dict_get h k = PBool True" for k
    by (simp add: get_or_def dict_get_def UNKNOWN_val_def split: option.splits)
  then show ?thesis by (simp add: apparmor_check_def apparmor_observation_def Let_def)
qed

lemma limiting_docker: "limiting (docker_check h) \<longleftrightarrow> dict_get h ''docker_binary'' \<noteq> PBool True"
  by (simp add: docker_check_def Let_def)

lemma limiting_docker_perm: "limiting (docker_perm_check pt h) \<longleftrightarrow>
   \<not> (dict_get h ''principal_can_talk_to_docker'' = PBool True
        \<and> py_str pt (get_or h ''privilege_mode'' UNKNOWN_val) \<in> {''docker_group'', ''sudo'', ''UNKNOWN''}
      \<or> dict_get h ''sudo_available'' = PBool True \<and> py_str pt (get_or h ''privilege_mode'' UNKNOWN_val) = ''sudo'')"
  by (auto simp: docker_perm_check_def Let_def)

lemma limiting_mem: "limiting (mem_check h) \<longleftrightarrow>
   \<not> (\<exists>kib. int_value (dict_get h ''mem_total_kib'') = Some kib \<and> 3145728 \<le> kib)"
  by (simp add: mem_check_def MEM_BOUNDED_BELOW_KIB_def Let_def split: option.splits)

lemma limiting_iface: "limiting (iface_check pt h config) \<longleftrightarrow>
   get_or (case dict_get h ''ifaces'' of PDict d \<Rightarrow> d | _ \<Rightarrow> []) (py_str pt (get_or config ''iface'' (PStr []))) (PStr ''ABSENT'')
   \<noteq> PStr ''up''"
  by (simp add: iface_check_def Let_def)

lemmas limiting_host =
  limiting_host1 limiting_lsm limiting_lockdown limiting_tracefs limiting_apparmor limiting_docker limiting_docker_perm
  limiting_mem limiting_iface

lemma ready_host_checks: "list_ex limiting (host_checks pt allow h config) \<longleftrightarrow> \<not> ready_host pt allow h config"
  unfolding host_checks_def list_ex_Cons limiting_host ready_host_def by (simp only: simp_thms de_Morgan_conj) blast

lemma ready_artifact_checks:
  "list_ex limiting (artifact_checks fe pin fs) \<longleftrightarrow>
     \<not> (hash_named fe fs (ap_optics_cli (artifact_paths pin)) = Some (optics_cli_sha256 pin)
        \<and> hash_named fe fs (ap_agent_sdk_npm (artifact_paths pin)) = Some (agent_sdk_npm_sha256 pin)
        \<and> hash_named fe fs (ap_agent_sdk_py_wheel (artifact_paths pin)) = Some (agent_sdk_py_wheel_sha256 pin)
        \<and> hash_named fe fs (ap_agent_sdk_py_sdist (artifact_paths pin)) \<in> {None, Some (agent_sdk_py_sdist_sha256 pin)})"
  by (auto simp: artifact_checks_def artifact_check_def sdist_checks_def hash_named_def Let_def)

lemma limiting_pe: "limiting (pe_check fe pin fs doc) \<longleftrightarrow>
  \<not> (hash_named fe fs (ap_pe_archive (artifact_paths pin)) = Some (pe_archive_sha256 pin) \<and>
     (\<exists>d. doc = Some d \<and> dict_get d ''source_commit'' = PStr (pe_source_commit pin)
      \<and> dict_get d ''manifest_digest'' = PStr (pe_manifest_digest pin)
      \<and> dict_get d ''archive_sha256'' = PStr (pe_archive_sha256 pin)
      \<and> dict_get d ''config_digest'' = PStr (pe_config_digest pin)
      \<and> dict_get d ''loader_sha256'' = PStr (pe_loader_sha256 pin)
      \<and> dict_get d ''layer_digests'' = PList (map PStr (pe_layer_digests pin))))"
  by (cases doc) (auto simp: pe_check_def Let_def)

lemma limiting_disclosure: "limiting (disclosure_check fs pin doc) \<longleftrightarrow>
  \<not> (scan_disclosure fs (ap_pe_archive (artifact_paths pin)) = [] \<and>
     (\<exists>d. doc = Some d \<and> dict_get d ''disclosure_status'' = PStr ''PASS'' \<and> dict_get d ''forbidden_path_scan'' = PStr ''PASS''))"
  by (cases doc) (auto simp: disclosure_check_def Let_def)

lemma limiting_oci: "limiting (oci_check facts) \<longleftrightarrow> of_blocked facts"
  by (simp add: oci_check_def Let_def)

lemma limiting_transfer: "limiting (transfer_check pt config) \<longleftrightarrow>
   \<not> (let cidrs = (case dict_get config ''transfer_source_cidrs'' of PList vs \<Rightarrow> vs | _ \<Rightarrow> []) in
       \<not> list_ex (\<lambda>v. forbidden_cidr (py_str pt v)) cidrs \<and> (truthy (dict_get config ''transfer_required'') \<longrightarrow> cidrs \<noteq> []))"
  by (cases "truthy (dict_get config ''transfer_required'')") (simp_all add: transfer_check_def Let_def disj_commute)

lemma limiting_enforcement: "limiting (enforcement_check pt config) \<longleftrightarrow>
   (py_str pt (get_or config ''install_mode'' (PStr [])), py_str pt (get_or config ''enforcement'' (PStr [])))
          \<notin> {(''observe-only'', ''NOT_ENABLED''), (''enforce-enrolled'', ''ENROLLED'')}"
  by (simp add: enforcement_check_def Let_def)

lemma limiting_attach: "limiting (attach_check config res pl cf dg) \<longleftrightarrow> \<not> (res \<longrightarrow> pl \<and> cf \<and> dg)"
  by (simp add: attach_check_def)

lemma limiting_enterprise: "limiting (enterprise_check pt config) \<longleftrightarrow>
   \<not> (let t = py_str pt (get_or config ''enterprise_inclusion'' (PStr ''OPTIONAL_SOURCE_ONLY_NOT_PACKAGED_AUTHORITY''))
      in sublist ''PACKAGED_AUTHORITY'' t \<longrightarrow> sublist ''NOT_PACKAGED'' t)"
  by (simp add: enterprise_check_def Let_def)

lemma limiting_motion: "limiting (motion_check pt config) \<longleftrightarrow>
   py_str pt (get_or config ''install_motion'' UNKNOWN_val) \<noteq> ''customer-local''"
  by (simp add: motion_check_def Let_def)

lemma ready_config_checks:
  "\<not> limiting (transfer_check pt config) \<and> \<not> limiting (enforcement_check pt config)
   \<and> \<not> limiting (attach_check config (at_resuming a) (at_plan_present a) (at_config_present a) (at_bundle_digest_match a))
   \<and> \<not> limiting (enterprise_check pt config) \<and> \<not> limiting (motion_check pt config) \<longleftrightarrow> ready_config pt a config"
  unfolding limiting_transfer limiting_enforcement limiting_attach limiting_enterprise limiting_motion ready_config_def
  by (simp only: simp_thms not_not)

lemma limiting_ghcr: "limiting (ghcr_check pt config m) \<longleftrightarrow> ghcr_selected pt config m"
  by (simp add: ghcr_check_def Let_def)

lemma limiting_manifest: "list_ex limiting (manifest_checks loaded) \<longleftrightarrow>
  \<not> (\<exists>d. loaded = Inr d \<and> missing_manifest_fields d = [])"
  by (cases loaded) (auto simp: manifest_checks_def Let_def)

lemma limiting_sums: "list_ex limiting (sums_checks verified) \<longleftrightarrow> \<not> (\<exists>rows. verified = Inr rows \<and> list_all sr_match rows)"
  by (cases verified) (auto simp: sums_checks_def Let_def list_ex_iff list_all_iff)

lemma npm_results:
  "npm_requirement pt h = Inr npm \<Longrightarrow> limiting (npm_check h npm) \<longleftrightarrow> nr_result npm \<noteq> ''PASS''"
  by (auto simp: npm_requirement_def bind_res_Inr_iff npm_check_def Let_def split: if_splits)

lemma node_results:
  "node_check h = Inr c \<Longrightarrow> limiting c \<longleftrightarrow> \<not> (\<exists>v. parse_node (dict_get h ''node_version'') = Inr v \<and> node_recent v)"
  by (auto simp: node_check_def bind_res_Inr_iff)

definition npm_reachable :: "PyText \<Rightarrow> host \<Rightarrow> bool" where
  "npm_reachable pt h =
     ((\<exists>s. dict_get h ''npm_version'' = PStr s \<and> s \<notin> {[], ''ABSENT'', ''UNKNOWN''})
      \<or> is_ubuntu_2404 pt (get_or h ''os_id'' (PStr [])) (get_or h ''os_version_id'' (PStr []))
         \<and> equals_zero (dict_get h ''effective_uid''))"

definition ready_node :: "PyText \<Rightarrow> host \<Rightarrow> bool" where
  "ready_node pt h =
     ((\<exists>a b c. parse_node (dict_get h ''node_version'') = Inr (Some (a, b, c)) \<and> 18 \<le> a) \<and> npm_reachable pt h)"

lemma node_npm_ready:
  "(\<exists>c npm. node_check h = Inr c \<and> npm_requirement pt h = Inr npm \<and> \<not> limiting c \<and> \<not> limiting (npm_check h npm))
     \<longleftrightarrow> ready_node pt h"
proof (cases "parse_node (dict_get h ''node_version'')")
  case (Inl e)
  then show ?thesis by (simp add: node_check_def ready_node_def)
next
  case (Inr node)
  obtain c npm where c: "node_check h = Inr c" "npm_requirement pt h = Inr npm"
    using Inr by (simp add: node_check_def npm_requirement_def Let_def)
  have "nr_result npm = ''PASS'' \<longleftrightarrow>
      (\<exists>s. dict_get h ''npm_version'' = PStr s \<and> s \<notin> {[], ''ABSENT'', ''UNKNOWN''})
      \<or> is_ubuntu_2404 pt (get_or h ''os_id'' (PStr [])) (get_or h ''os_version_id'' (PStr []))
         \<and> node_recent node \<and> equals_zero (dict_get h ''effective_uid'')"
    using c(2) Inr by (cases "dict_get h ''npm_version''") (auto simp: npm_requirement_def Let_def split: if_splits)
  moreover have "node_recent node \<longleftrightarrow> (\<exists>a b d. node = Some (a, b, d) \<and> 18 \<le> a)"
    by (auto simp: node_recent_def split: option.splits)
  ultimately show ?thesis
    using c Inr npm_results [OF c(2)] node_results [OF c(1)] by (auto simp: ready_node_def npm_reachable_def)
qed

definition sound_bundle :: "PreEnv \<Rightarrow> Bundle \<Rightarrow> (string \<times> pyval) list \<Rightarrow> bool" where
  "sound_bundle env bu config =
     (let fe = en_files env; pin = en_pins env; fs = bu_files bu; archive = ap_pe_archive (artifact_paths pin) in
      ready_artifacts fe pin fs \<and> scan_disclosure fs archive = []
      \<and> \<not> of_blocked (describe_archive fe (pt_json_float (en_text env)) (en_tar env (fs archive)))
      \<and> (\<exists>d. pe_manifest_doc fe pin fs = Inr (Some d) \<and> ready_manifest pin d)
      \<and> (\<exists>m. load_manifest fe fs = Inr m \<and> missing_manifest_fields m = [] \<and> \<not> ghcr_selected (en_text env) config m)
      \<and> (\<exists>rows. verify_sha256sums fe (bu_target bu) (bu_sums bu) = Inr rows \<and> list_all sr_match rows))"

lemma run_ready:
  "(\<exists>rep. run_preflight env bu config h a = Inr rep \<and> pf_overall rep = r) \<longleftrightarrow>
     (\<exists>doc node npm. pe_manifest_doc (en_files env) (en_pins env) (bu_files bu) = Inr doc \<and> node_check h = Inr node
        \<and> npm_requirement (en_text env) h = Inr npm
        \<and> aggregate
            (let pt = en_text env; fe = en_files env; pin = en_pins env; fs = bu_files bu; loaded = load_manifest fe fs;
                 manifest = (case loaded of Inl _ \<Rightarrow> [] | Inr d \<Rightarrow> d)
             in host_checks pt (at_allow_unrecorded_tracefs a) h config @ artifact_checks fe pin fs
                  @ [pe_check fe pin fs doc,
                     oci_check (describe_archive fe (pt_json_float pt) (en_tar env (fs (ap_pe_archive (artifact_paths pin))))),
                     ghcr_check pt config manifest, disclosure_check fs pin doc, transfer_check pt config,
                     enforcement_check pt config,
                     attach_check config (at_resuming a) (at_plan_present a) (at_config_present a) (at_bundle_digest_match a),
                     node, npm_check h npm, enterprise_check pt config, motion_check pt config]
                  @ manifest_checks loaded @ sums_checks (verify_sha256sums fe (bu_target bu) (bu_sums bu))) = r)"
proof (cases "pe_manifest_doc (en_files env) (en_pins env) (bu_files bu)")
  case (Inr doc)
  then show ?thesis
    by (cases "node_check h"; cases "npm_requirement (en_text env) h") (simp_all add: run_preflight_def Let_def)
qed (simp add: run_preflight_def Let_def)

text \<open>
  C6: READY is reached exactly on a supported host (CPU, Ubuntu 24.04, BTF, cgroup v2, bpffs, the BPF LSM, an accepted
  pair of Secure Boot and lockdown, tracefs, Docker and its permission, AppArmor, 3 GiB of memory, the interface up,
  Node 18 and a way to npm), with an observing or consented configuration, and with a bundle whose bytes are the
  pinned ones, whose manifests are complete and agree, and whose list of sums matches.
\<close>

theorem preflight_ready_iff:
  "(\<exists>rep. run_preflight env bu config h a = Inr rep \<and> pf_overall rep = ''READY'') \<longleftrightarrow>
     ready_host (en_text env) (at_allow_unrecorded_tracefs a) h config \<and> ready_node (en_text env) h
     \<and> ready_config (en_text env) a config \<and> sound_bundle env bu config"
proof -
  let ?pt = "en_text env" and ?fe = "en_files env" and ?pin = "en_pins env" and ?fs = "bu_files bu"
  let ?loaded = "load_manifest ?fe ?fs"
  let ?m = "case ?loaded of Inl _ \<Rightarrow> [] | Inr d \<Rightarrow> d"
  let ?facts = "describe_archive ?fe (pt_json_float ?pt) (en_tar env (?fs (ap_pe_archive (artifact_paths ?pin))))"
  have run: "(\<exists>rep. run_preflight env bu config h a = Inr rep \<and> pf_overall rep = ''READY'') \<longleftrightarrow>
      (\<exists>doc. pe_manifest_doc ?fe ?pin ?fs = Inr doc
        \<and> \<not> limiting (pe_check ?fe ?pin ?fs doc) \<and> \<not> limiting (disclosure_check ?fs ?pin doc))
      \<and> (\<exists>c npm. node_check h = Inr c \<and> npm_requirement ?pt h = Inr npm \<and> \<not> limiting c \<and> \<not> limiting (npm_check h npm))
      \<and> \<not> list_ex limiting (host_checks ?pt (at_allow_unrecorded_tracefs a) h config)
      \<and> \<not> list_ex limiting (artifact_checks ?fe ?pin ?fs) \<and> \<not> limiting (oci_check ?facts)
      \<and> \<not> limiting (ghcr_check ?pt config ?m)
      \<and> (\<not> limiting (transfer_check ?pt config) \<and> \<not> limiting (enforcement_check ?pt config)
         \<and> \<not> limiting (attach_check config (at_resuming a) (at_plan_present a) (at_config_present a) (at_bundle_digest_match a))
         \<and> \<not> limiting (enterprise_check ?pt config) \<and> \<not> limiting (motion_check ?pt config))
      \<and> \<not> list_ex limiting (manifest_checks ?loaded)
      \<and> \<not> list_ex limiting (sums_checks (verify_sha256sums ?fe (bu_target bu) (bu_sums bu)))"
    unfolding run_ready aggregate_ready Let_def list_ex_append list_ex_Cons by (simp only: simp_thms de_Morgan_disj) blast
  show ?thesis
    unfolding run node_npm_ready ready_config_checks ready_host_checks ready_artifact_checks limiting_manifest limiting_sums
      limiting_oci limiting_pe limiting_disclosure limiting_ghcr
    by (cases ?loaded) (auto simp: sound_bundle_def ready_artifacts_def ready_manifest_def Let_def)
qed

section \<open>The lockdown file\<close>

definition mode_list :: "string \<Rightarrow> string list" where
  "mode_list mode = map (\<lambda>m. if m = mode then ''['' @ m @ '']'' else m) LOCKDOWN_MODES"

lemma three_words:
  assumes "length ws = 3" "set ws = {x, y, z}" "distinct [x, y, z]"
  shows "ws \<in> {[x, y, z], [x, z, y], [y, x, z], [y, z, x], [z, x, y], [z, y, x]}"
proof -
  obtain a b c where ws: "ws = [a, b, c]" using assms(1) by (auto simp: numeral_3_eq_3 length_Suc_conv)
  then have "x \<in> {a, b, c}" "y \<in> {a, b, c}" "z \<in> {a, b, c}" using assms(2) by auto
  with assms(3) ws show ?thesis by auto
qed

lemma bracketed_iff: "bracketed t \<and> 2 < length t \<longleftrightarrow> (\<exists>m. m \<noteq> [] \<and> t = ''['' @ m @ '']'')"
proof
  assume b: "bracketed t \<and> 2 < length t"
  then obtain u where u: "t = CHR ''['' # u" by (auto simp: bracketed_def prefix_def)
  with b obtain m where m: "u = m @ [CHR '']'']" by (auto simp: bracketed_def suffix_def Cons_eq_append_conv)
  with u b show "\<exists>m. m \<noteq> [] \<and> t = ''['' @ m @ '']''" by auto
qed (auto simp: bracketed_def suffix_def)

lemma unbracket_mode [simp]: "unbracket (CHR ''['' # m @ '']'') = m"
  by (simp add: unbracket_def butlast_append)

lemma short_token: "length w \<le> 2 \<Longrightarrow> unbracket w = []"
  by (cases w; cases "tl w") (auto simp: unbracket_def)

lemma mode_values: "m \<in> set LOCKDOWN_MODES \<longleftrightarrow> m \<in> {''none'', ''integrity'', ''confidentiality''}"
  by (simp add: LOCKDOWN_MODES_def)

lemma bare_mode: "m \<in> set LOCKDOWN_MODES \<Longrightarrow> \<not> bracketed m \<and> m \<noteq> []"
  unfolding mode_values by (auto simp: bracketed_def)

lemma parse_lockdown_words:
  assumes "mode \<in> set LOCKDOWN_MODES" "length (py_words [] (py_isspace_strip t)) = 3"
    and "set (py_words [] (py_isspace_strip t)) = set (mode_list mode)"
  shows "parse_lockdown t = Some mode"
proof -
  have "distinct (mode_list mode)" "\<exists>x y z. mode_list mode = [x, y, z]"
    using assms(1) unfolding mode_values by (auto simp: mode_list_def LOCKDOWN_MODES_def)
  then obtain x y z where xyz: "mode_list mode = [x, y, z]" "distinct [x, y, z]" by auto
  have "py_words [] (py_isspace_strip t) \<in> {[x, y, z], [x, z, y], [y, x, z], [y, z, x], [z, x, y], [z, y, x]}"
    by (rule three_words) (use assms xyz in auto)
  then show ?thesis
    using assms(1) xyz unfolding mode_values
    by (auto simp: parse_lockdown_def mode_list_def LOCKDOWN_MODES_def bracketed_def unbracket_def suffix_def Let_def)
qed

lemma parse_lockdown_iff:
  "parse_lockdown t = Some mode \<longleftrightarrow>
     mode \<in> set LOCKDOWN_MODES \<and> length (py_words [] (py_isspace_strip t)) = 3
     \<and> set (py_words [] (py_isspace_strip t)) = set (mode_list mode)"
proof
  let ?ws = "py_words [] (py_isspace_strip t)"
  let ?name = "\<lambda>t. if bracketed t then unbracket t else t"
  assume p: "parse_lockdown t = Some mode"
  then obtain one where one: "length ?ws = 3" "filter (\<lambda>t. bracketed t \<and> 2 < length t) ?ws = [one]"
      "mode = unbracket one" "mode \<in> set LOCKDOWN_MODES" "set (map ?name ?ws) = set LOCKDOWN_MODES"
    by (auto simp: parse_lockdown_def Let_def split: if_splits list.splits)
  have in_one: "one \<in> set ?ws \<and> bracketed one \<and> 2 < length one"
    using one(2) Cons_eq_filterD [of one "[]"] by (metis append_Cons in_set_conv_decomp)
  then have one_text: "one = ''['' @ mode @ '']''" using bracketed_iff [of one] one(3) by auto
  have other: "w \<in> set LOCKDOWN_MODES" if w: "w \<in> set ?ws" "w \<noteq> one" for w
  proof -
    have "\<not> (bracketed w \<and> 2 < length w)"
    proof
      assume "bracketed w \<and> 2 < length w"
      then have "w \<in> set (filter (\<lambda>t. bracketed t \<and> 2 < length t) ?ws)" using w(1) by simp
      then show False using one(2) w(2) by simp
    qed
    moreover have "?name w \<in> set LOCKDOWN_MODES" using w(1) one(5) by auto
    ultimately show ?thesis
      using bare_mode [of "?name w"] short_token [of w] by (auto split: if_splits)
  qed
  have sub: "set ?ws \<subseteq> insert one (set LOCKDOWN_MODES)" using other by blast
  have card: "card (set (map ?name ?ws)) = 3" unfolding one(5) by (simp add: LOCKDOWN_MODES_def)
  have dist: "distinct (map ?name ?ws)" using card one(1) by (metis card_distinct length_map)
  have name_one: "?name one = mode" using in_one one(3) by simp
  have name_mode: "?name mode = mode" using bare_mode [OF one(4)] by simp
  have "one \<noteq> mode" using in_one bare_mode [OF one(4)] by blast
  then have "mode \<notin> set ?ws"
    using dist in_one name_one name_mode by (auto simp: distinct_map inj_on_def)
  with sub have "set ?ws \<subseteq> set (mode_list mode)" using one(4) unfolding mode_list_def one_text by auto
  moreover have "card (set ?ws) = 3" using dist one(1) by (simp add: distinct_map distinct_card)
  moreover have "card (set (mode_list mode)) \<le> 3" using card_length [of "mode_list mode"] by (simp add: mode_list_def LOCKDOWN_MODES_def)
  ultimately have "set ?ws = set (mode_list mode)" by (metis List.finite_set card_seteq)
  with one show "mode \<in> set LOCKDOWN_MODES \<and> length ?ws = 3 \<and> set ?ws = set (mode_list mode)" by blast
next
  assume "mode \<in> set LOCKDOWN_MODES \<and> length (py_words [] (py_isspace_strip t)) = 3
     \<and> set (py_words [] (py_isspace_strip t)) = set (mode_list mode)"
  then show "parse_lockdown t = Some mode" using parse_lockdown_words by blast
qed

text \<open>
  C22: from the two kernel files, the lockdown check passes exactly when the lockdown file holds the three modes in some
  order with integrity or none in brackets, the EFI variable is absent or five bytes that end in 0 or 1, and Secure
  Boot is not on while the mode is none. A host in confidentiality mode never passes.
\<close>

theorem lockdown_pass_iff:
  "ck_result (lockdown_check (read_lockdown_facts lockdown efi)) = ''PASS'' \<longleftrightarrow>
     (\<exists>t mode. lockdown = Some t \<and> mode \<in> {''none'', ''integrity''}
        \<and> length (py_words [] (py_isspace_strip (py_isspace_strip t))) = 3
        \<and> set (py_words [] (py_isspace_strip (py_isspace_strip t))) =
            {''['' @ mode @ '']'', ''confidentiality'', if mode = ''none'' then ''integrity'' else ''none''}
        \<and> (efi = Absent \<or> (\<exists>b. efi = Content b \<and> length b = 5
              \<and> (byte_at b 4 = 0 \<or> byte_at b 4 = 1 \<and> mode = ''integrity''))))"
proof -
  let ?h = "read_lockdown_facts lockdown efi"
  have get: "dict_get ?h ''lockdown_mode'' = PStr (snd (read_lockdown lockdown))"
    "dict_get ?h ''secure_boot'' = PStr (read_secure_boot efi)"
    by (simp_all add: read_lockdown_facts_def dict_get_def)
  have pass: "ck_result (lockdown_check ?h) = ''PASS'' \<longleftrightarrow>
      (snd (read_lockdown lockdown) = ''integrity'' \<and> read_secure_boot efi \<in> {''on'', ''off'', ''absent''}
       \<or> snd (read_lockdown lockdown) = ''none'' \<and> read_secure_boot efi \<in> {''off'', ''absent''})"
    using lockdown_grade_pass [of "dict_get ?h ''lockdown_mode''" "dict_get ?h ''secure_boot''"]
    unfolding get by (cases "lockdown_grade (dict_get ?h ''lockdown_mode'') (dict_get ?h ''secure_boot'')")
      (simp add: lockdown_check_def check_row_def get)
  have boot: "read_secure_boot efi = ''on'' \<longleftrightarrow> (\<exists>b. efi = Content b \<and> length b = 5 \<and> byte_at b 4 = 1)"
    "read_secure_boot efi = ''off'' \<longleftrightarrow> (\<exists>b. efi = Content b \<and> length b = 5 \<and> byte_at b 4 = 0)"
    "read_secure_boot efi = ''absent'' \<longleftrightarrow> efi = Absent"
    by (auto simp: read_secure_boot_def split: efi_file.splits)
  define holds where "holds t mode \<longleftrightarrow> length (py_words [] (py_isspace_strip (py_isspace_strip t))) = 3
        \<and> set (py_words [] (py_isspace_strip (py_isspace_strip t))) =
            {''['' @ mode @ '']'', ''confidentiality'', if mode = ''none'' then ''integrity'' else ''none''}" for t mode
  have lists: "set (mode_list ''none'') = {''['' @ ''none'' @ '']'', ''confidentiality'', if ''none'' = ''none'' then ''integrity'' else ''none''}"
    "set (mode_list ''integrity'') = {''['' @ ''integrity'' @ '']'', ''confidentiality'', if ''integrity'' = ''none'' then ''integrity'' else ''none''}"
    by (auto simp: mode_list_def LOCKDOWN_MODES_def)
  have parsed: "parse_lockdown (py_isspace_strip t) = Some ''none'' \<longleftrightarrow> holds t ''none''"
    "parse_lockdown (py_isspace_strip t) = Some ''integrity'' \<longleftrightarrow> holds t ''integrity''" for t
    unfolding parse_lockdown_iff holds_def lists mode_values by simp_all
  have mode: "snd (read_lockdown lockdown) = m \<longleftrightarrow>
      (\<exists>t. lockdown = Some t \<and> parse_lockdown (py_isspace_strip t) = Some m)" if "m \<in> {''none'', ''integrity''}" for m
    using that by (cases lockdown) (auto simp: read_lockdown_def Let_def split: option.splits)
  have modes: "snd (read_lockdown lockdown) = ''none'' \<longleftrightarrow> (\<exists>t. lockdown = Some t \<and> holds t ''none'')"
    "snd (read_lockdown lockdown) = ''integrity'' \<longleftrightarrow> (\<exists>t. lockdown = Some t \<and> holds t ''integrity'')"
    using mode parsed by simp_all
  define boots where "boots mode \<longleftrightarrow> efi = Absent \<or> (\<exists>b. efi = Content b \<and> length b = 5
              \<and> (byte_at b 4 = 0 \<or> byte_at b 4 = 1 \<and> mode = ''integrity''))" for mode :: string
  have b: "read_secure_boot efi \<in> {''on'', ''off'', ''absent''} \<longleftrightarrow> boots ''integrity''"
    "read_secure_boot efi \<in> {''off'', ''absent''} \<longleftrightarrow> boots ''none''"
    unfolding insert_iff empty_iff boot boots_def by (cases efi; simp; blast)+
  have "ck_result (lockdown_check ?h) = ''PASS'' \<longleftrightarrow>
      (\<exists>t mode. lockdown = Some t \<and> mode \<in> {''none'', ''integrity''} \<and> holds t mode \<and> boots mode)"
    unfolding pass b modes by blast
  then show ?thesis unfolding holds_def boots_def by (simp only: conj_assoc)
qed

end
