(* ===== verification/Install_Grant.thy ===== *)
theory Install_Grant
  imports Install_Preflight Install_Engine
begin

text \<open>
  \<open>authorize_live\<close> of \<open>live_executor.py\<close> and the checks it calls: what is required before the first live command.
  The file system is a map from absolute path texts to the bytes of regular files, with the directories beside it.
  Transaction ids are texts, as the installer writes them; on a number Python would also find 1 and True equal.
\<close>

section \<open>Paths\<close>

text \<open>\<open>str(Path(text))\<close>.\<close>

definition pure_text :: "string \<Rightarrow> string" where
  "pure_text p =
     (let anchor = (if \<not> prefix ''/'' p then [] else if prefix ''//'' p \<and> \<not> prefix ''///'' p then ''//'' else ''/'');
          body = py_join ''/'' (pure_parts p)
      in if anchor @ body = [] then ''.'' else anchor @ body)"

definition join_path :: "string \<Rightarrow> string \<Rightarrow> string" where
  "join_path base name = base @ ''/'' @ name"

text \<open>\<open>confine\<close>: the resolved path is a root or below one.\<close>

definition confine :: "(string \<Rightarrow> string) \<Rightarrow> string \<Rightarrow> string list \<Rightarrow> InstallError + string" where
  "confine resolve p roots =
     (let resolved = resolve p in
      if list_ex (\<lambda>r. resolved = resolve r \<or> prefix (if resolve r = ''/'' then ''/'' else resolve r @ ''/'') resolved) roots
      then Inr resolved
      else Inl (live_fail ''A live path escapes the transaction roots.'' ''FAILED_SAFE''))"

section \<open>The request\<close>

definition APPROVED_LIVE_LIMITATIONS :: "string list" where "APPROVED_LIVE_LIMITATIONS = [''PF-MEM'']"

definition START_STATES :: "string \<Rightarrow> string list" where
  "START_STATES command =
     (if command = ''apply'' then [''PLANNED'', ''INTERRUPTED'', ''APPLYING'']
      else if command = ''rollback'' then
        [''HEALTHY'', ''DEGRADED'', ''FAILED_SAFE'', ''INTERRUPTED'', ''APPLYING'', ''ROLLING_BACK''] @ RESIDUAL_STATES
      else [''HEALTHY'', ''DEGRADED'', ''FAILED_SAFE'', ''INTERRUPTED'', ''UNINSTALLING''] @ RESIDUAL_STATES)"

definition RUNTIME_STATE :: "string \<Rightarrow> string" where
  "RUNTIME_STATE command =
     (if command = ''apply'' then ''APPLYING'' else if command = ''rollback'' then ''ROLLING_BACK'' else ''UNINSTALLING'')"

definition CLOSED :: "string list" where
  "CLOSED =
     [''ROLLED_BACK'', ''UNINSTALLED'', ''VERIFIED_REMOVED'', ''RESIDUAL_PRESENT'', ''RESIDUAL_FOUND'', ''UNSUPPORTED'',
      ''PREFLIGHT_BLOCKED'']"

record LiveRequest =
  rq_command :: string
  rq_tx :: "(string \<times> pyval) list"
  rq_tx_dir :: string
  rq_config :: "(string \<times> pyval) list"
  rq_host :: host
  rq_plan_path :: "string option"
  rq_plan_sha256 :: "string option"
  rq_accept :: bool
  rq_gate :: "string option"
  rq_euid :: int

text \<open>The host as \<open>authorize_live\<close> reads it, with the bundle and the answer of the tracefs probe.\<close>

record LiveWorld =
  lw_files :: files
  lw_is_dir :: "string \<Rightarrow> bool"
  lw_resolve :: "string \<Rightarrow> string"
  lw_tracefs :: bool
  lw_bundle :: Bundle
  lw_bundle_dir :: string

definition demand :: "bool \<Rightarrow> string \<Rightarrow> py_exn + unit" where
  "demand ok msg = (if ok then Inr () else Inl (Refused (live_fail msg ''FAILED_SAFE'')))"

definition refuse :: "InstallError + 'a \<Rightarrow> py_exn + 'a" where
  "refuse r = (case r of Inl e \<Rightarrow> Inl (Refused e) | Inr a \<Rightarrow> Inr a)"

text \<open>\<open>str(v or "")\<close>.\<close>

definition text_of :: "PyText \<Rightarrow> pyval \<Rightarrow> string" where
  "text_of pt v = (if truthy v then py_str pt v else [])"

text \<open>\<open>read_json\<close> of an object on which \<open>get\<close> is then called.\<close>

definition read_object :: "FileEnv \<Rightarrow> files \<Rightarrow> string \<Rightarrow> py_exn + (string \<times> pyval) list" where
  "read_object fe fs p =
     (case json_at fe fs p of
        No_File \<Rightarrow> Inl (Py_Error ''FileNotFoundError'')
      | File Not_Utf8 \<Rightarrow> Inl (Py_Error ''UnicodeDecodeError'')
      | File Not_Json \<Rightarrow> Inl (Py_Error ''JSONDecodeError'')
      | File (Doc (PDict d)) \<Rightarrow> Inr d
      | File (Doc _) \<Rightarrow> Inl (Py_Error ''AttributeError''))"

text \<open>\<open>(d.get(key) or {})\<close> on which \<open>get\<close> is then called.\<close>

definition sub_object :: "(string \<times> pyval) list \<Rightarrow> string \<Rightarrow> py_exn + (string \<times> pyval) list" where
  "sub_object d key =
     (case dict_get d key of
        PDict e \<Rightarrow> Inr e
      | v \<Rightarrow> if truthy v then Inl (Py_Error ''AttributeError'') else Inr [])"

section \<open>The checks\<close>

definition env_open :: "string option \<Rightarrow> bool" where
  "env_open gate = (gate = Some ''1'')"

definition privilege_ok :: "int \<Rightarrow> bool" where
  "privilege_ok euid = (euid = 0)"

definition ascii_letter :: "char \<Rightarrow> bool" where
  "ascii_letter c = (let n = py_ord c in 65 \<le> n \<and> n \<le> 90 \<or> 97 \<le> n \<and> n \<le> 122)"

definition iface_name :: "string \<Rightarrow> bool" where
  "iface_name s =
     (s \<noteq> [] \<and> ascii_letter (hd s) \<and> length s \<le> 15
      \<and> list_all (\<lambda>c. ascii_letter c \<or> is_base_digit 10 c \<or> c \<in> set ''_.:-'') (tl s))"

definition iface_is_up :: "host \<Rightarrow> string \<Rightarrow> bool" where
  "iface_is_up h iface =
     (iface_name iface \<and> (case dict_get h ''ifaces'' of PDict d \<Rightarrow> dict_get d iface = PStr ''up'' | _ \<Rightarrow> False))"

definition config_observes :: "PyText \<Rightarrow> (string \<times> pyval) list \<Rightarrow> bool" where
  "config_observes pt config =
     (dict_get config ''install_mode'' = PStr ''observe-only''
      \<and> dict_get config ''enforcement'' = PStr ''NOT_ENABLED''
      \<and> dict_get config ''path_deny'' = PStr ''disabled''
      \<and> py_str pt (get_or config ''otlp'' (PStr ''DISABLED'')) = ''DISABLED''
      \<and> get_or config ''traffic_control'' (PStr ''audit-only'') = PStr ''audit-only'')"

definition live_gate :: "PyText \<Rightarrow> LiveRequest \<Rightarrow> py_exn + unit" where
  "live_gate pt r =
     bind_res (demand (rq_command r \<in> set LIVE_MUTATING_COMMANDS)
        ''The live mutation flag is only accepted on apply, rollback, and uninstall.'') (\<lambda>_.
     bind_res (demand (env_open (rq_gate r) = rq_accept r \<and> env_open (rq_gate r) \<and> rq_accept r)
        ''Live mutations need VANTIO_INSTALL_ALLOW_LIVE=1 and --i-accept-live-mutations together.'') (\<lambda>_.
     bind_res (demand (privilege_ok (rq_euid r))
        ''Live mutations need effective root. sudo on PATH is not privilege.'') (\<lambda>_.
       demand (config_observes pt (rq_config r)) ''Live mutations run observe-only. Enforcement stays off.'')))"

definition live_iface :: "PyText \<Rightarrow> LiveRequest \<Rightarrow> string" where
  "live_iface pt r = text_of pt (dict_get (rq_config r) ''iface'')"

definition live_facts :: "PyText \<Rightarrow> LiveRequest \<Rightarrow> py_exn + unit" where
  "live_facts pt r =
     (let h = rq_host r; kernel = text_of pt (dict_get h ''kernel'') in
      bind_res (demand (py_str pt (get_or h ''uname_m'' UNKNOWN_val) \<in> {''x86_64'', ''amd64''})
        ''Live mutations require x86_64.'') (\<lambda>_.
      bind_res (demand (dict_get h ''btf_vmlinux_exists'' = PBool True) ''Live mutations require kernel BTF.'') (\<lambda>_.
      bind_res (demand (kernel \<noteq> [] \<and> kernel \<noteq> ''UNKNOWN'') ''Live mutations require an observed kernel.'') (\<lambda>_.
      bind_res (demand (dict_get h ''cgroup_version'' = PStr ''cgroup2'' \<and> dict_get h ''bpffs_mounted'' = PBool True)
        ''Live mutations require cgroup v2 and bpffs.'') (\<lambda>_.
        demand (iface_is_up h (live_iface pt r))
          ''The planned interface is not an up interface on this host.'')))))"

definition not_open :: "string \<Rightarrow> string \<Rightarrow> string" where
  "not_open st command = ''The transaction is '' @ st @ '' and is not an open plan for live '' @ command @ ''.''"

definition live_start :: "PyText \<Rightarrow> LiveRequest \<Rightarrow> py_exn + unit" where
  "live_start pt r =
     (let command = rq_command r; st = text_of pt (dict_get (rq_tx r) ''state'') in
      bind_res (demand (\<not> (st \<in> set CLOSED \<and> st \<notin> set (START_STATES command))) (not_open st command)) (\<lambda>_.
      bind_res (demand (\<not> (command = ''apply'' \<and> st \<in> {''HEALTHY'', ''DEGRADED''})) (not_open st command)) (\<lambda>_.
      bind_res (demand (\<not> (command = ''apply'' \<and> st = ''INTERRUPTED'' \<and> dict_get (rq_tx r) ''phase'' = PStr ''rollback''))
        ''This interrupted transaction resumes with rollback.'') (\<lambda>_.
      bind_res (demand (st \<in> set (START_STATES command))
        (''Live '' @ command @ '' cannot start from '' @ st @ ''.'')) (\<lambda>_.
        demand (dict_get (rq_tx r) ''transaction_id'' \<noteq> PNone) ''The transaction id is missing.'')))))"

definition plan_rollback_order :: "string list" where
  "plan_rollback_order = filter (\<lambda>s. s \<in> set HOST_MUTATION_STEPS) (rev APPLY_STEPS)"

definition full_list :: "pyval \<Rightarrow> bool" where
  "full_list v = (case v of PList vs \<Rightarrow> vs \<noteq> [] | _ \<Rightarrow> False)"

text \<open>The plan of the transaction, after its digest has been compared three ways.\<close>

definition live_plan :: "FileEnv \<Rightarrow> files \<Rightarrow> LiveRequest \<Rightarrow> py_exn + (string \<times> pyval) list" where
  "live_plan fe fs r =
     (let plan_file = join_path (rq_tx_dir r) ''PLAN.json'' in
      case (rq_plan_path r, rq_plan_sha256 r, hash_named fe fs plan_file) of
        (Some supplied, Some sha, Some current) \<Rightarrow>
          bind_res (demand (py_isspace_strip sha \<noteq> []) ''Live apply needs --plan and --plan-sha256 for this transaction.'') (\<lambda>_.
          bind_res (demand (fs supplied \<noteq> None) ''The --plan file was not found.'') (\<lambda>_.
          bind_res (demand (hash_named fe fs supplied = Some sha \<and> current = sha)
            ''The plan hash does not match this transaction.'') (\<lambda>_.
          bind_res (read_object fe fs plan_file) (\<lambda>doc.
          bind_res (demand (dict_get doc ''transaction_id'' = dict_get (rq_tx r) ''transaction_id'')
            ''The plan is bound to a different transaction.'') (\<lambda>_.
          bind_res (demand (dict_get doc ''rollback_steps'' = PList (map PStr plan_rollback_order))
            ''The plan is missing the rollback steps.'') (\<lambda>_.
          bind_res (demand (full_list (dict_get doc ''residual_checks'')) ''The plan is missing residual checks.'') (\<lambda>_.
          bind_res (demand (full_list (dict_get doc ''live_operations''))
            ''The plan is missing the live operation list.'') (\<lambda>_.
          bind_res (demand (dict_get doc ''live_operations'' = PList (map PStr live_operation_ids))
            (''This installer refuses a plan whose live operation list does not match. '' @
             ''Roll that plan back with the installer that wrote it.'')) (\<lambda>_. Inr doc)))))))))
      | _ \<Rightarrow> Inl (Refused (live_fail ''Live apply needs --plan and --plan-sha256 for this transaction.'' ''FAILED_SAFE'')))"

text \<open>\<open>resolve_tracefs_host\<close>: the host to check and whether an unrecorded fact is allowed.\<close>

definition resolve_tracefs_host :: "host \<Rightarrow> string \<Rightarrow> bool \<Rightarrow> py_exn + host \<times> bool" where
  "resolve_tracefs_host h command probe =
     (if ''tracefs_mounted'' \<in> set (map fst h) then
        bind_res (demand (dict_get h ''tracefs_mounted'' = PBool True)
          ''Live mutations require a non-empty tracefs at /sys/kernel/tracing.'') (\<lambda>_. Inr (h, False))
      else if command \<in> {''rollback'', ''uninstall''} then Inr (h, True)
      else
        bind_res (demand probe
          (''The saved host snapshot has no tracefs fact. '' @
           ''The live probe did not find a non-empty tracefs at /sys/kernel/tracing.'')) (\<lambda>_.
          Inr (dict_set ''tracefs_mounted'' (PBool True) h, False)))"

definition safe_root :: "LiveWorld \<Rightarrow> string \<Rightarrow> string \<Rightarrow> py_exn + string" where
  "safe_root w label v = refuse (assert_safe_root (lw_resolve w) label v)"

fun safe_roots :: "PyText \<Rightarrow> LiveWorld \<Rightarrow> pyval list \<Rightarrow> py_exn + unit" where
  "safe_roots pt w [] = Inr ()"
| "safe_roots pt w (v # vs) = bind_res (safe_root w ''workload_roots'' (py_str pt v)) (\<lambda>_. safe_roots pt w vs)"

text \<open>The evidence directory, the prefix and the stage.\<close>

definition live_roots :: "PyText \<Rightarrow> LiveWorld \<Rightarrow> LiveRequest \<Rightarrow> py_exn + string \<times> string \<times> string" where
  "live_roots pt w r =
     (let evidence = pure_text (text_of pt (dict_get (rq_tx r) ''evidence_dir'')) in
      bind_res (demand (lw_is_dir w evidence \<and> lw_files w (join_path evidence ''TRANSACTION.json'') \<noteq> None)
        ''Evidence for this transaction is not initialized.'') (\<lambda>_.
      bind_res (safe_root w ''prefix'' (text_of pt (dict_get (rq_config r) ''prefix''))) (\<lambda>pre.
      bind_res (safe_root w ''stage_dir'' (text_of pt (dict_get (rq_config r) ''stage_dir''))) (\<lambda>stage.
      bind_res (safe_root w ''evidence_dir'' evidence) (\<lambda>_.
        (case dict_get (rq_config r) ''workload_roots'' of
           PList vs \<Rightarrow>
             bind_res (demand (vs \<noteq> []) ''workload_roots must be a non-empty list.'') (\<lambda>_.
             bind_res (safe_roots pt w vs) (\<lambda>_. Inr (evidence, pre, stage)))
         | _ \<Rightarrow> bind_res (demand False ''workload_roots must be a non-empty list.'') (\<lambda>_. Inr ([], [], []))))))))"

text \<open>The report of the preflight must be ready, or limited in memory only.\<close>

definition unknown_rows :: "Check list \<Rightarrow> string list" where
  "unknown_rows checks = map ck_id (filter (\<lambda>c. ck_result c = ''UNKNOWN'') checks)"

definition judge_report :: "PreflightReport \<Rightarrow> py_exn + unit" where
  "judge_report rep =
     (let ids = map li_id (pf_limitations rep) in
      case unknown_rows (pf_checks rep) of
        i # _ \<Rightarrow> demand False (''Mandatory preflight '' @ i @ '' is UNKNOWN.'')
      | [] \<Rightarrow>
          if pf_overall rep = ''READY_WITH_LIMITATIONS'' then
            bind_res (demand (ids \<noteq> [] \<and> set ids \<subseteq> set APPROVED_LIVE_LIMITATIONS)
              (''A live install refuses a limitation other than bounded memory: '' @ py_join '', '' (sort (remdups ids)))) (\<lambda>_.
              demand (\<not> list_ex (\<lambda>c. ck_id c = ''PF-MEM'' \<and> dict_get (ck_observed c) ''resource_class'' = PStr ''UNKNOWN'')
                 (pf_checks rep))
                ''Memory was not observed. Mandatory preflight stays UNKNOWN.'')
          else demand (pf_overall rep = ''READY'')
                 (''Mandatory preflight is not ready: '' @
                  py_join '', '' (map ck_id (filter (\<lambda>c. ck_result c \<notin> {''PASS'', ''LIMITATION''}) (pf_checks rep)))))"

definition live_attach :: "bool \<Rightarrow> Attach" where
  "live_attach allow =
     \<lparr>at_resuming = True, at_plan_present = True, at_config_present = True, at_bundle_digest_match = True,
      at_allow_unrecorded_tracefs = allow\<rparr>"

definition live_preflight :: "PreEnv \<Rightarrow> LiveWorld \<Rightarrow> LiveRequest \<Rightarrow> host \<Rightarrow> bool \<Rightarrow> py_exn + PreflightReport" where
  "live_preflight env w r h allow =
     (case run_preflight env (lw_bundle w)
             (dict_set ''transaction_id'' (dict_get (rq_tx r) ''transaction_id'') (rq_config r)) h (live_attach allow) of
        Inl e \<Rightarrow> Inl (Py_Error e)
      | Inr rep \<Rightarrow> bind_res (judge_report rep) (\<lambda>_. Inr rep))"

text \<open>The bytes on disk, the manifests and the plan against the sealed identity.\<close>

definition live_identity ::
  "PreEnv \<Rightarrow> PublicPin \<Rightarrow> files \<Rightarrow> (string \<times> pyval) list \<Rightarrow> py_exn + unit" where
  "live_identity env canon fs doc =
     (let pin = en_pins env; fe = en_files env; paths = artifact_paths pin;
          same = (\<lambda>p sha. hash_named fe fs p = Some sha)
      in
      bind_res (demand (pe_source_commit pin = pp_source_commit canon)
        ''The Phantom Engine tip pin does not match the sealed identity.'') (\<lambda>_.
      bind_res (demand (pe_manifest_digest pin = pp_manifest_digest canon)
        ''The Phantom Engine manifest pin does not match the sealed identity.'') (\<lambda>_.
      bind_res (demand (same (ap_pe_archive paths) (pe_archive_sha256 pin))
        ''The sealed archive hash does not match the pin table.'') (\<lambda>_.
      bind_res (demand (same (ap_optics_cli paths) (optics_cli_sha256 pin))
        ''The optics_cli artifact hash does not match the pin table.'') (\<lambda>_.
      bind_res (demand (same (ap_agent_sdk_npm paths) (agent_sdk_npm_sha256 pin))
        ''The agent_sdk_npm artifact hash does not match the pin table.'') (\<lambda>_.
      bind_res (demand (same (ap_agent_sdk_py_wheel paths) (agent_sdk_py_wheel_sha256 pin))
        ''The agent_sdk_py_wheel artifact hash does not match the pin table.'') (\<lambda>_.
      bind_res (read_object fe fs (ap_pe_manifest paths)) (\<lambda>manifest.
      bind_res (demand (dict_get manifest ''source_commit'' = PStr (pp_source_commit canon))
        ''The Phantom Engine manifest commit does not match the sealed tip.'') (\<lambda>_.
      bind_res (demand (dict_get manifest ''manifest_digest'' = PStr (pp_manifest_digest canon))
        ''The Phantom Engine manifest digest does not match the sealed digest.'') (\<lambda>_.
      bind_res (load_manifest fe fs) (\<lambda>deployment.
      bind_res (sub_object deployment ''products'') (\<lambda>products.
      bind_res (demand (dict_get products ''phantom_engine'' = PStr (pp_source_commit canon))
        ''The bundle manifest Phantom Engine tip does not match the sealed tip.'') (\<lambda>_.
      bind_res (sub_object doc ''artifact_digests'') (\<lambda>digests.
      bind_res (demand (dict_get digests ''pe_source_commit'' = PStr (pp_source_commit canon))
        ''The plan Phantom Engine tip does not match the sealed tip.'') (\<lambda>_.
      bind_res (demand (dict_get digests ''pe_manifest_digest'' = PStr (pp_manifest_digest canon))
        ''The plan manifest digest does not match the sealed digest.'') (\<lambda>_.
        demand (dict_get digests ''pe_archive_sha256'' = PStr (pe_archive_sha256 pin))
          ''The plan archive hash does not match the bytes on disk.''))))))))))))))))"

section \<open>The grant\<close>

definition make_grant ::
  "PreEnv \<Rightarrow> LiveWorld \<Rightarrow> LiveRequest \<Rightarrow> string \<Rightarrow> string \<times> string \<times> string \<Rightarrow> string \<Rightarrow> LiveGrant" where
  "make_grant env w r sha roots action =
     (let pt = en_text env; paths = artifact_paths (en_pins env); tid = py_str pt (dict_get (rq_tx r) ''transaction_id'');
          (evidence, pre, stage) = roots; inside = join_path (lw_bundle_dir w)
      in \<lparr>g_command = rq_command r, g_transaction_id = tid, g_plan_sha256 = sha,
          g_bundle_digest = py_str pt (dict_get (rq_tx r) ''bundle_digest''),
          g_iface = live_iface pt r, g_prefix = pre, g_stage = stage, g_evidence = evidence,
          g_bundle = lw_bundle_dir w, g_tx_dir = rq_tx_dir r, g_tag = pe_local_tag,
          g_archive = inside (ap_pe_archive paths), g_optics_tarball = inside (ap_optics_cli paths),
          g_sdk_npm = inside (ap_agent_sdk_npm paths), g_sdk_wheel = inside (ap_agent_sdk_py_wheel paths),
          g_container_name = ''vantio-pe-'' @ drop (length tid - 12) tid,
          g_observe_config = join_path (rq_tx_dir r) ''observe-config.json'', g_npm_action = action\<rparr>)"

definition authorize_live ::
  "PreEnv \<Rightarrow> PublicPin \<Rightarrow> LiveWorld \<Rightarrow> LiveRequest \<Rightarrow> py_exn + LiveGrant" where
  "authorize_live env canon w r =
     (let pt = en_text env; fe = en_files env in
      bind_res (live_gate pt r) (\<lambda>_.
      bind_res (live_facts pt r) (\<lambda>_.
      bind_res (live_start pt r) (\<lambda>_.
      bind_res (live_plan fe (lw_files w) r) (\<lambda>doc.
      bind_res (resolve_tracefs_host (rq_host r) (rq_command r) (lw_tracefs w)) (\<lambda>checked.
      bind_res (live_roots pt w r) (\<lambda>roots.
      bind_res (live_preflight env w r (fst checked) (snd checked)) (\<lambda>rep.
      bind_res (live_identity env canon (bu_files (lw_bundle w)) doc) (\<lambda>_.
        (case npm_requirement pt (rq_host r) of
           Inl e \<Rightarrow> Inl (Py_Error e)
         | Inr npm \<Rightarrow>
             (case hash_named fe (lw_files w) (join_path (rq_tx_dir r) ''PLAN.json'') of
                None \<Rightarrow> Inl (Py_Error ''FileNotFoundError'')
              | Some sha \<Rightarrow> Inr (make_grant env w r sha roots (nr_action npm)))))))))))))"

end
