(* ===== verification/Install_Live.thy ===== *)
theory Install_Live
  imports Install_Grant
begin

text \<open>
  The live executor of \<open>live_executor.py\<close>: \<open>dispatch\<close> runs one operation of the catalog, \<open>execute_step\<close> the operations
  of a step. The host is the map of its regular files and the rest \<open>'h\<close>: kernel, Docker, directories. Processes, the
  AppArmor list and the removals that other modules carry out are functions of the host. The lines of
  \<open>LIVE-OPS.jsonl\<close>, the partial-mutation file and \<open>HOST-CHECK.json\<close> are kept apart from the files, because only the
  executor writes them; the trace holds the lines in order with every command and file operation between them.
\<close>

section \<open>State\<close>

record ExecResult =
  ex_returncode :: int
  ex_timed_out :: bool
  ex_stdout :: string
  ex_stderr :: string
  ex_disposition :: "string option"

definition exec_result :: "int \<Rightarrow> bool \<Rightarrow> string \<Rightarrow> string \<Rightarrow> ExecResult" where
  "exec_result code late out err =
     \<lparr>ex_returncode = code, ex_timed_out = late, ex_stdout = out, ex_stderr = err, ex_disposition = None\<rparr>"

record OpLine =
  ol_op :: string
  ol_phase :: string
  ol_transaction_id :: string
  ol_docker_object :: "string option"
  ol_docker_exit_code :: "int option"

datatype event = Line OpLine | Ran "string list" | Filed string

type_synonym 'h machine = "files \<times> 'h"

record 'h LiveState =
  ls_machine :: "'h machine"
  ls_partial :: json_file
  ls_host_check :: "(ObserveSample option \<times> string list) option"
  ls_trace :: "event list"

text \<open>What \<open>subprocess.run\<close> does, with the captured output as text.\<close>

datatype started = Finished int string string | Timed_Out string string | Not_Started string

record 'h LiveLib =
  ll_files :: FileEnv
  ll_text :: PyText
  ll_json :: JsonEnv
  ll_pins :: Pins
  ll_resolve :: "string \<Rightarrow> string"
  ll_tar :: "bytes option \<Rightarrow> tar_file"
  ll_tar_bytes :: "archive \<Rightarrow> bytes"
  ll_write_json :: "pyval \<Rightarrow> bytes"
  ll_decode :: "bytes \<Rightarrow> string option"
  ll_encode :: "string \<Rightarrow> bytes"
  ll_profile_text :: string
  ll_euid :: int
  ll_start :: "string list \<Rightarrow> nat \<Rightarrow> 'h machine \<Rightarrow> started \<times> 'h machine"
  ll_runner :: "(string list \<Rightarrow> nat \<Rightarrow> 'h machine \<Rightarrow> ExecResult option \<times> 'h machine) option"
  ll_read :: "string list \<Rightarrow> 'h machine \<Rightarrow> string + string option"
  ll_probe :: "'h machine \<Rightarrow> string list \<Rightarrow> nat \<Rightarrow> DockerCommandResult"
  ll_profile_loaded :: "'h machine \<Rightarrow> bool option"
  ll_boot_hold :: "bool \<Rightarrow> 'h machine \<Rightarrow> (py_exn + unit) \<times> 'h machine"
  ll_remove :: "string \<Rightarrow> LiveGrant \<Rightarrow> 'h machine \<Rightarrow> (py_exn + unit) \<times> 'h machine"

record 'h Observer =
  ob_verify :: "string \<Rightarrow> LiveGrant \<Rightarrow> 'h machine \<Rightarrow> py_exn + string"
  ob_sample :: "string \<Rightarrow> LiveGrant \<Rightarrow> 'h machine \<Rightarrow> ObserveSample option"
  ob_delta :: "string \<Rightarrow> LiveGrant \<Rightarrow> 'h machine \<Rightarrow> py_exn + pyval"

type_synonym ('h, 'a) act = "'h LiveState \<Rightarrow> (py_exn + 'a) \<times> 'h LiveState"

definition give :: "'a \<Rightarrow> ('h, 'a) act" where "give a s = (Inr a, s)"

definition fail_with :: "py_exn \<Rightarrow> ('h, 'a) act" where "fail_with e s = (Inl e, s)"

definition and_then :: "('h, 'a) act \<Rightarrow> ('a \<Rightarrow> ('h, 'b) act) \<Rightarrow> ('h, 'b) act" where
  "and_then m f s = (case m s of (Inl e, t) \<Rightarrow> (Inl e, t) | (Inr a, t) \<Rightarrow> f a t)"

definition settle :: "py_exn + 'a \<Rightarrow> ('h, 'a) act" where "settle r s = (r, s)"

definition stop_with :: "string \<Rightarrow> string \<Rightarrow> ('h, 'a) act" where
  "stop_with msg cls = fail_with (Refused (live_fail msg cls))"

definition ensure :: "bool \<Rightarrow> string \<Rightarrow> ('h, unit) act" where
  "ensure ok msg = (if ok then give () else stop_with msg ''FAILED_SAFE'')"

definition note_event :: "event \<Rightarrow> ('h, unit) act" where
  "note_event e s = (Inr (), s\<lparr>ls_trace := ls_trace s @ [e]\<rparr>)"

definition look :: "('h machine \<Rightarrow> 'a) \<Rightarrow> ('h, 'a) act" where
  "look f s = (Inr (f (ls_machine s)), s)"

definition change :: "('h machine \<Rightarrow> 'a \<times> 'h machine) \<Rightarrow> ('h, 'a) act" where
  "change f s = (let (a, m) = f (ls_machine s) in (Inr a, s\<lparr>ls_machine := m\<rparr>))"

definition op_line :: "LiveGrant \<Rightarrow> string \<Rightarrow> string \<Rightarrow> OpLine" where
  "op_line g op phase_name =
     \<lparr>ol_op = op, ol_phase = phase_name, ol_transaction_id = g_transaction_id g, ol_docker_object = None,
      ol_docker_exit_code = None\<rparr>"

definition append_op :: "OpLine \<Rightarrow> ('h, unit) act" where
  "append_op l = note_event (Line l)"

section \<open>Checks that are repeated before every operation\<close>

definition rehash_plan :: "'h LiveLib \<Rightarrow> LiveGrant \<Rightarrow> ('h, unit) act" where
  "rehash_plan lib g =
     and_then (look (\<lambda>m. hash_named (ll_files lib) (fst m) (join_path (g_tx_dir g) ''PLAN.json''))) (\<lambda>h.
       (case h of
          None \<Rightarrow> fail_with (Py_Error ''FileNotFoundError'')
        | Some sha \<Rightarrow> ensure (sha = g_plan_sha256 g) ''The plan bytes changed after authorization.''))"

definition rehash_archive :: "'h LiveLib \<Rightarrow> LiveGrant \<Rightarrow> ('h, unit) act" where
  "rehash_archive lib g =
     and_then (look (\<lambda>m. hash_named (ll_files lib) (fst m) (g_archive g))) (\<lambda>h.
     and_then (ensure (h \<noteq> None) ''The sealed Phantom Engine archive is not on disk.'') (\<lambda>_.
       ensure (h = Some (pe_archive_sha256 (ll_pins lib))) ''The sealed archive hash changed after authorization.''))"

definition input_of :: "Pins \<Rightarrow> LiveGrant \<Rightarrow> string \<Rightarrow> (string \<times> string) option" where
  "input_of pin g op =
     map_of [(''install_optics_cli'', (g_optics_tarball g, optics_cli_sha256 pin)),
             (''install_agent_sdk_npm'', (g_sdk_npm g, agent_sdk_npm_sha256 pin)),
             (''install_agent_sdk_py'', (g_sdk_wheel g, agent_sdk_py_wheel_sha256 pin))] op"

definition rehash_inputs :: "'h LiveLib \<Rightarrow> LiveGrant \<Rightarrow> string \<Rightarrow> ('h, unit) act" where
  "rehash_inputs lib g op =
     (case input_of (ll_pins lib) g op of
        None \<Rightarrow> give ()
      | Some (p, sha) \<Rightarrow>
          and_then (look (\<lambda>m. hash_named (ll_files lib) (fst m) p)) (\<lambda>h.
            ensure (h = Some sha) (''The '' @ op @ '' artifact hash changed after authorization.'')))"

definition runtime_tx :: "'h LiveLib \<Rightarrow> LiveGrant \<Rightarrow> ('h, unit) act" where
  "runtime_tx lib g =
     and_then (look (\<lambda>m. read_object (ll_files lib) (fst m) (join_path (g_tx_dir g) ''TRANSACTION.json''))) (\<lambda>r.
     and_then (settle r) (\<lambda>tx.
     and_then (ensure (dict_get tx ''transaction_id'' = PStr (g_transaction_id g))
       ''The transaction id changed after authorization.'') (\<lambda>_.
     and_then (ensure (dict_get tx ''bundle_digest'' = PStr (g_bundle_digest g))
       ''The bundle digest changed after authorization.'') (\<lambda>_.
       if unhashable (dict_get tx ''state'') then fail_with (Py_Error ''TypeError'')
       else ensure (dict_get tx ''state'' = PStr (RUNTIME_STATE (g_command g)))
              (''Refusing a live '' @ g_command g @ '' while the transaction is ''
               @ py_str (ll_text lib) (dict_get tx ''state'') @ ''.'')))))"

section \<open>The load plan\<close>

definition archive_name :: "LiveGrant \<Rightarrow> string" where "archive_name g = path_name (g_archive g)"

definition load_source :: "LiveGrant \<Rightarrow> files \<Rightarrow> string" where
  "load_source g fs =
     (let staged = join_path (g_stage g) (archive_name g) in if fs staged \<noteq> None then staged else g_archive g)"

definition oci_plan_for :: "'h LiveLib \<Rightarrow> LiveGrant \<Rightarrow> files \<Rightarrow> InstallError + OciLoadPlan" where
  "oci_plan_for lib g fs =
     (case plan_load (ll_files lib) (pt_json_float (ll_text lib)) (ll_tar lib (fs (load_source g fs))) (load_source g fs)
             (g_stage g) (pe_manifest_digest (ll_pins lib)) (Some pe_local_tag) of
        Inl msg \<Rightarrow> Inl (live_fail msg ''FAILED_SAFE'')
      | Inr lp \<Rightarrow> Inr lp)"

definition catalog_for :: "'h LiveLib \<Rightarrow> LiveGrant \<Rightarrow> string \<Rightarrow> files \<Rightarrow> py_exn + string list option" where
  "catalog_for lib g op fs =
     refuse (catalog_argv
       (\<lambda>g. map_sum id (\<lambda>lp. (lp_load_path lp, lp_image_digest lp)) (oci_plan_for lib g fs)) op g)"

text \<open>\<open>_materialize_load\<close>; the error of an archive that does not decode leaves the program.\<close>

definition materialize_load :: "'h LiveLib \<Rightarrow> LiveGrant \<Rightarrow> ('h, unit) act" where
  "materialize_load lib g =
     and_then (look (\<lambda>m. refuse (oci_plan_for lib g (fst m)))) (\<lambda>r.
     and_then (settle r) (\<lambda>lp.
     and_then (look (\<lambda>m. materialize (ll_files lib) (pt_json_float (ll_text lib)) lp (ll_tar lib (fst m (lp_source lp)))))
       (\<lambda>out.
         (case out of
            Inl (Oci_Error msg) \<Rightarrow> stop_with msg ''FAILED_SAFE''
          | Inl Decode_Error \<Rightarrow> fail_with (Py_Error ''DecodeError'')
          | Inr None \<Rightarrow> give ()
          | Inr (Some ar) \<Rightarrow>
              and_then (note_event (Filed ''docker_load'')) (\<lambda>_.
                change (\<lambda>(fs, h). ((), (fs(lp_load_path lp := Some (ll_tar_bytes lib ar)), h))))))))"

section \<open>Running a command\<close>

definition from_started :: "string list \<Rightarrow> started \<Rightarrow> ('h, ExecResult) act" where
  "from_started argv st =
     (case st of
        Finished code out err \<Rightarrow> give (exec_result code False out err)
      | Timed_Out out err \<Rightarrow> give (exec_result 124 True out err)
      | Not_Started cls \<Rightarrow>
          and_then (ensure (path_name (hd argv) \<noteq> ''apt-get'')
            (''The Ubuntu npm package could not be installed because apt-get is not on PATH. '' @
             ''Install the Ubuntu npm package. The nodejs package does not include the npm binary.'')) (\<lambda>_.
            stop_with (''The live command could not start: '' @ cls @ ''.'') ''FAILED_SAFE''))"

definition run_allowlisted :: "'h LiveLib \<Rightarrow> string list \<Rightarrow> nat \<Rightarrow> ('h, ExecResult) act" where
  "run_allowlisted lib argv timeout =
     and_then (settle (refuse (reject_argv argv))) (\<lambda>checked.
     and_then (note_event (Ran checked)) (\<lambda>_.
       (case ll_runner lib of
          None \<Rightarrow> and_then (change (ll_start lib checked timeout)) (from_started checked)
        | Some runner \<Rightarrow>
            and_then (change (runner checked timeout)) (\<lambda>r.
              (case r of
                 None \<Rightarrow> stop_with ''The live runner returned an unexpected result.'' ''FAILED_SAFE''
               | Some result \<Rightarrow> give result)))))"

text \<open>\<open>_detach_iface_filters\<close>.\<close>

definition detach_iface_filters :: "'h LiveLib \<Rightarrow> string \<Rightarrow> nat \<Rightarrow> ('h, unit) act" where
  "detach_iface_filters lib iface timeout =
     (if \<not> iface_name iface then give ()
      else
        and_then (run_allowlisted lib [''tc'', ''filter'', ''del'', ''dev'', iface, ''egress''] timeout) (\<lambda>_.
        and_then (run_allowlisted lib [''tc'', ''filter'', ''del'', ''dev'', iface, ''ingress''] timeout) (\<lambda>_.
          give ())))"

definition ENFORCE_CONTAINER_PATH :: string where
  "ENFORCE_CONTAINER_PATH = ''/var/lib/vantio/boot-hold/enforce-container-name''"

definition word_or_dash :: "char \<Rightarrow> bool" where
  "word_or_dash c = (ascii_letter c \<or> is_base_digit 10 c \<or> c \<in> set ''_.-'')"

definition enforce_container_name_ok :: "string \<Rightarrow> bool" where
  "enforce_container_name_ok s =
     (s = ''vantio-pe''
      \<or> prefix ''vantio-pe-'' s
        \<and> (let t = drop 10 s in t \<noteq> [] \<and> length t \<le> 41 \<and> (ascii_letter (hd t) \<or> is_base_digit 10 (hd t))
                              \<and> list_all word_or_dash (tl t)))"

text \<open>\<open>_recorded_enforce_container\<close>: the empty text when there is no usable name.\<close>

definition recorded_enforce_container :: "'h LiveLib \<Rightarrow> files \<Rightarrow> py_exn + string" where
  "recorded_enforce_container lib fs =
     (case fs ENFORCE_CONTAINER_PATH of
        None \<Rightarrow> Inr []
      | Some b \<Rightarrow>
          (case ll_decode lib b of
             None \<Rightarrow> Inl (Py_Error ''UnicodeDecodeError'')
           | Some t \<Rightarrow> Inr (let name = py_isspace_strip t in if enforce_container_name_ok name then name else [])))"

definition stop_recorded_enforce_container :: "'h LiveLib \<Rightarrow> LiveGrant \<Rightarrow> nat \<Rightarrow> ('h, unit) act" where
  "stop_recorded_enforce_container lib g timeout =
     (if ll_runner lib \<noteq> None then give ()
      else
        and_then (look (\<lambda>m. recorded_enforce_container lib (fst m))) (\<lambda>r.
        and_then (settle r) (\<lambda>name.
          if name = [] \<or> name = g_container_name g then give ()
          else
            and_then (run_allowlisted lib [''docker'', ''stop'', name] timeout) (\<lambda>_.
            and_then (run_allowlisted lib [''docker'', ''rm'', name] timeout) (\<lambda>_.
            and_then (look (\<lambda>m. inspect_container (ll_json lib) (ll_probe lib m) name)) (\<lambda>inspection.
              ensure (di_state inspection = ''absent'')
                ''The enforce container is still on the host, so the image is not removed.''))))))"

text \<open>\<open>_clsact_confirmed_absent\<close>.\<close>

definition clsact_confirmed_absent :: "'h LiveLib \<Rightarrow> string \<Rightarrow> 'h machine \<Rightarrow> py_exn + bool" where
  "clsact_confirmed_absent lib iface m =
     (if \<not> iface_name iface then Inr False
      else bind_res (refuse (reject_argv [''tc'', ''qdisc'', ''show'', ''dev'', iface])) (\<lambda>argv.
        (case ll_read lib argv m of
           Inl e \<Rightarrow> Inl (Py_Error e)
         | Inr None \<Rightarrow> Inr False
         | Inr (Some out) \<Rightarrow> Inr (\<not> sublist ''clsact'' out))))"

text \<open>\<open>_recover_absent_target\<close>.\<close>

definition recover_absent_target ::
  "'h LiveLib \<Rightarrow> LiveGrant \<Rightarrow> string \<Rightarrow> ExecResult \<Rightarrow> 'h machine \<Rightarrow> py_exn + ExecResult" where
  "recover_absent_target lib g op result m =
     (if ex_timed_out result then Inr result
      else if op = ''tc_clsact_del'' \<and> ex_returncode result \<noteq> 0 then
        bind_res (clsact_confirmed_absent lib (g_iface g) m) (\<lambda>absent.
          Inr (if absent then result\<lparr>ex_disposition := Some IDEMPOTENT_ABSENT\<rparr> else result))
      else if op \<in> {''docker_stop'', ''docker_rm''} then
        Inr (result\<lparr>ex_disposition := Some (classify_docker_object_operation op (g_transaction_id g) (g_container_name g)
               \<lparr>dc_returncode = ex_returncode result, dc_timed_out = ex_timed_out result, dc_stdout = ex_stdout result,
                dc_stderr = ex_stderr result\<rparr>
               (inspect_container (ll_json lib) (ll_probe lib m) (g_container_name g)))\<rparr>)
      else if ex_returncode result = 0 then Inr result
      else if op = ''unload_pe_apparmor'' \<and> ll_profile_loaded lib m = Some False then
        Inr (exec_result 0 False (ex_stdout result) (ex_stderr result))
      else Inr result)"

section \<open>Operations on files\<close>

definition put_file :: "string \<Rightarrow> string \<Rightarrow> bytes option \<Rightarrow> ('h, unit) act" where
  "put_file op p content =
     and_then (note_event (Filed op)) (\<lambda>_. change (\<lambda>(fs, h). ((), (fs(p := content), h))))"

definition confined :: "'h LiveLib \<Rightarrow> string \<Rightarrow> string \<Rightarrow> ('h, string) act" where
  "confined lib p base = settle (refuse (confine (ll_resolve lib) p [base]))"

definition read_text :: "'h LiveLib \<Rightarrow> string \<Rightarrow> files \<Rightarrow> py_exn + string" where
  "read_text lib p fs =
     (case fs p of
        None \<Rightarrow> Inl (Py_Error ''FileNotFoundError'')
      | Some b \<Rightarrow> (case ll_decode lib b of None \<Rightarrow> Inl (Py_Error ''UnicodeDecodeError'') | Some t \<Rightarrow> Inr t))"

definition profile_bytes_match :: "'h LiveLib \<Rightarrow> LiveGrant \<Rightarrow> ('h, bool) act" where
  "profile_bytes_match lib g =
     and_then (confined lib (pe_apparmor_profile_path (g_stage g)) (g_stage g)) (\<lambda>p.
     and_then (look (\<lambda>m. if fst m p = None then Inr False
                         else bind_res (read_text lib p (fst m)) (\<lambda>t. Inr (t = ll_profile_text lib)))) settle)"

definition observe_payload :: "LiveGrant \<Rightarrow> pyval" where
  "observe_payload g =
     PDict [(''install_mode'', PStr ''observe-only''), (''enforcement'', PStr ''NOT_ENABLED''),
            (''otlp'', PStr ''DISABLED''), (''path_deny'', PStr ''disabled''),
            (''traffic_control'', PStr ''audit-only''), (''iface'', PStr (g_iface g)),
            (''env'', PDict [(''VANTIO_TELEMETRY_DISABLED'', PStr ''1''), (''DO_NOT_TRACK'', PStr ''1'')]),
            (''cmd'', PList [PStr ''--iface'', PStr (g_iface g)])]"

definition o7_payload :: "LiveGrant \<Rightarrow> pyval" where
  "o7_payload g =
     PDict [(''record_plane'', PStr ''observe''), (''enforcement'', PStr ''NOT_ENABLED''),
            (''host_enforcement'', PBool False), (''transaction_id'', PStr (g_transaction_id g))]"

definition unlink_file :: "string \<Rightarrow> string \<Rightarrow> ('h, unit) act" where
  "unlink_file op p =
     and_then (look (\<lambda>m. fst m p \<noteq> None)) (\<lambda>there. if there then put_file op p None else give ())"

definition do_filesystem :: "'h LiveLib \<Rightarrow> LiveGrant \<Rightarrow> string \<Rightarrow> ('h, unit) act" where
  "do_filesystem lib g op =
     (if op = ''stage_pe_archive'' then
        and_then (rehash_archive lib g) (\<lambda>_.
        and_then (confined lib (join_path (g_stage g) (archive_name g)) (g_stage g)) (\<lambda>target.
        and_then (look (\<lambda>m. fst m (g_archive g))) (\<lambda>content.
          if ll_resolve lib (g_archive g) = target then fail_with (Py_Error ''SameFileError'')
          else
            and_then (put_file op target content) (\<lambda>_.
            and_then (look (\<lambda>m. hash_named (ll_files lib) (fst m) target)) (\<lambda>h.
              if h \<noteq> Some (pe_archive_sha256 (ll_pins lib)) then
                stop_with ''The staged archive does not match the pin after copy.'' ''ROLLBACK_REQUIRED''
              else give ())))))
      else if op = ''install_boot_hold'' \<or> op = ''remove_boot_hold'' then
        (if ll_euid lib = 0 then
           and_then (note_event (Filed op)) (\<lambda>_.
           and_then (change (ll_boot_hold lib (op = ''install_boot_hold''))) settle)
         else give ())
      else if op = ''write_observe_config'' then
        and_then (confined lib (g_observe_config g) (g_tx_dir g)) (\<lambda>p.
          if ''--enforce'' \<in> {''--iface'', g_iface g} \<or> ''VANTIO_PHANTOM_DENY'' \<in> {''VANTIO_TELEMETRY_DISABLED'', ''DO_NOT_TRACK''} then
            stop_with ''Refusing to write an enforcing config.'' ''FAILED_SAFE''
          else put_file op p (Some (ll_write_json lib (observe_payload g))))
      else if op = ''o7_init'' then
        and_then (confined lib (join_path (g_evidence g) ''O7-RECORD.json'') (g_evidence g)) (\<lambda>p.
          put_file op p (Some (ll_write_json lib (o7_payload g))))
      else if op = ''remove_observe_config'' then
        and_then (confined lib (g_observe_config g) (g_tx_dir g)) (unlink_file op)
      else if op = ''remove_o7_record'' then
        and_then (confined lib (join_path (g_evidence g) ''O7-RECORD.json'') (g_evidence g)) (unlink_file op)
      else if op = ''write_pe_apparmor'' then
        and_then (confined lib (pe_apparmor_profile_path (g_stage g)) (g_stage g)) (\<lambda>p.
        and_then (put_file op p (Some (ll_encode lib (ll_profile_text lib)))) (\<lambda>_.
        and_then (look (\<lambda>m. read_text lib p (fst m))) (\<lambda>r.
        and_then (settle r) (\<lambda>t.
          ensure (t = ll_profile_text lib) ''The observe AppArmor profile bytes changed while writing.''))))
      else if op = ''remove_pe_apparmor'' then
        and_then (confined lib (pe_apparmor_profile_path (g_stage g)) (g_stage g)) (unlink_file op)
      else if op \<in> {''remove_stage'', ''remove_optics'', ''remove_sdks'', ''unpin_bpf_maps''} then
        and_then (note_event (Filed op)) (\<lambda>_. and_then (change (ll_remove lib op g)) settle)
      else stop_with (''Filesystem operation '' @ op @ '' is not on the live allowlist.'') ''FAILED_SAFE'')"

section \<open>Partial mutations\<close>

definition partial_mutation_steps :: "json_file \<Rightarrow> string list" where
  "partial_mutation_steps jf =
     (case jf of
        File (Doc (PDict d)) \<Rightarrow>
          (case dict_get d ''steps'' of
             PList vs \<Rightarrow> filter (\<lambda>s. s \<in> set HOST_MUTATION_STEPS) (concat (map (\<lambda>v. case v of PStr s \<Rightarrow> [s] | _ \<Rightarrow> []) vs))
           | _ \<Rightarrow> [])
      | _ \<Rightarrow> [])"

definition steps_file :: "string list \<Rightarrow> json_file" where
  "steps_file steps = File (Doc (PDict [(''steps'', PList (map PStr steps))]))"

text \<open>A file that is not UTF-8 raises \<open>UnicodeDecodeError\<close>, which the reader does not catch.\<close>

definition note_partial_mutation :: "string \<Rightarrow> ('h, unit) act" where
  "note_partial_mutation step s =
     (if step \<notin> set HOST_MUTATION_STEPS then (Inr (), s)
      else if ls_partial s = File Not_Utf8 then (Inl (Py_Error ''UnicodeDecodeError''), s)
      else
        (let steps = partial_mutation_steps (ls_partial s) in
         (Inr (), s\<lparr>ls_partial := steps_file (if step \<in> set steps then steps else steps @ [step])\<rparr>)))"

definition clear_partial_mutation :: "string \<Rightarrow> ('h, unit) act" where
  "clear_partial_mutation step s =
     (if ls_partial s = No_File then (Inr (), s)
      else if ls_partial s = File Not_Utf8 then (Inl (Py_Error ''UnicodeDecodeError''), s)
      else
        (let steps = filter (\<lambda>t. t \<noteq> step) (partial_mutation_steps (ls_partial s)) in
         (Inr (), s\<lparr>ls_partial := (if steps = [] then No_File else steps_file steps)\<rparr>)))"

definition partial_on_exit :: "string \<Rightarrow> string option" where
  "partial_on_exit op =
     map_of [(''install_optics_cli'', ''install_optics_cli''), (''install_agent_sdk_npm'', ''install_agent_sdks''),
             (''install_agent_sdk_py'', ''install_agent_sdks''), (''load_pe_apparmor'', ''start_pe_observe'')] op"

section \<open>One operation\<close>

text \<open>What is refused before anything is written or run.\<close>

definition check_supplied :: "string \<Rightarrow> string list option \<Rightarrow> string list option \<Rightarrow> ('h, unit) act" where
  "check_supplied op expected argv =
     (case expected of
        None \<Rightarrow> ensure (argv \<in> {None, Some []}) ''A filesystem operation does not accept extra argv.''
      | Some wanted \<Rightarrow>
          (let supplied = (case argv of None \<Rightarrow> wanted | Some a \<Rightarrow> a) in
           and_then (settle (refuse (reject_argv supplied))) (\<lambda>_.
           and_then (settle (refuse (reject_forbidden_live_argv supplied))) (\<lambda>_.
           and_then (ensure (\<not> list_ex (\<lambda>i. suffix '':latest'' i \<or> i = ''latest'') supplied) ''Refusing a mutable image tag.'') (\<lambda>_.
             ensure (supplied = wanted) (''Refusing argv that is not the allowlisted command for '' @ op @ ''.''))))))"

definition profile_before :: "'h LiveLib \<Rightarrow> LiveGrant \<Rightarrow> string \<Rightarrow> ('h, unit) act" where
  "profile_before lib g op =
     (if op = ''load_pe_apparmor'' then
        and_then (profile_bytes_match lib g) (\<lambda>ok. ensure ok ''The observe AppArmor profile bytes changed before load.'')
      else if op = ''unload_pe_apparmor'' then
        and_then (profile_bytes_match lib g) (\<lambda>ok.
          if ok then give ()
          else
            and_then (confined lib (pe_apparmor_profile_path (g_stage g)) (g_stage g)) (\<lambda>p.
              put_file op p (Some (ll_encode lib (ll_profile_text lib)))))
      else give ())"

definition before_pending :: "'h LiveLib \<Rightarrow> LiveGrant \<Rightarrow> string \<Rightarrow> string list option \<Rightarrow> ('h, string list option) act" where
  "before_pending lib g op argv =
     and_then (rehash_plan lib g) (\<lambda>_.
     and_then (runtime_tx lib g) (\<lambda>_.
     and_then (look (\<lambda>m. catalog_for lib g op (fst m))) (\<lambda>r.
     and_then (settle r) (\<lambda>expected.
     and_then (check_supplied op expected argv) (\<lambda>_.
     and_then (profile_before lib g op) (\<lambda>_.
     and_then (if op \<in> {''docker_load'', ''docker_tag'', ''stage_pe_archive'', ''start_pe_observe''}
               then rehash_archive lib g else give ()) (\<lambda>_.
     and_then (rehash_inputs lib g op) (\<lambda>_.
     and_then (ensure (\<not> (op = ''ensure_npm'' \<and> g_npm_action g = ''remediate'' \<and> ll_runner lib = None \<and> ll_euid lib \<noteq> 0))
       ''Install the Ubuntu npm package. The nodejs package does not include the npm binary.'') (\<lambda>_.
       give expected)))))))))"

definition prepare_command :: "'h LiveLib \<Rightarrow> LiveGrant \<Rightarrow> string \<Rightarrow> nat \<Rightarrow> ('h, unit) act" where
  "prepare_command lib g op timeout =
     (if op = ''docker_load'' then materialize_load lib g
      else if op = ''tc_clsact_del'' then detach_iface_filters lib (g_iface g) timeout
      else if op = ''docker_stop'' then stop_recorded_enforce_container lib g timeout
      else give ())"

definition interrupted :: "string \<Rightarrow> py_exn" where
  "interrupted op =
     Refused \<lparr>err_message = op @ '' timed out. The transaction is interrupted.'', err_exit_code = 5,
              err_state = ''INTERRUPTED'', err_failure_class = Some ''INTERRUPTED''\<rparr>"

text \<open>The command with its classification, or the file operation.\<close>

definition perform :: "'h LiveLib \<Rightarrow> LiveGrant \<Rightarrow> string \<Rightarrow> string list option \<Rightarrow> nat \<Rightarrow> ('h, ExecResult) act" where
  "perform lib g op expected timeout =
     (case expected of
        None \<Rightarrow> and_then (do_filesystem lib g op) (\<lambda>_. give (exec_result 0 False [] []))
      | Some argv \<Rightarrow>
          and_then (prepare_command lib g op timeout) (\<lambda>_.
          and_then (run_allowlisted lib argv timeout) (\<lambda>raw.
          and_then (look (\<lambda>m. if ll_runner lib = None then recover_absent_target lib g op raw m else Inr raw)) (\<lambda>r.
          and_then (settle r) (\<lambda>result.
            if ex_timed_out result then
              and_then (append_op (op_line g op ''INTERRUPTED'')) (\<lambda>_. fail_with (interrupted op))
            else if op = ''docker_load'' \<and> load_output_rejected (ex_stdout result) (ex_stderr result) then
              (let failure = (if ex_returncode result = 0 then ''ROLLBACK_REQUIRED'' else ''FAILED_SAFE'') in
               and_then (append_op (op_line g op failure)) (\<lambda>_.
                 stop_with (''docker load printed an unpack error, so the layer is not on the host. '' @
                   ''The installer does not change Docker'' @ [CHR 0x27] @ ''s storage driver.'') failure))
            else give result)))))"

text \<open>\<open>_record_docker_failure\<close>: it always raises.\<close>

definition record_docker_failure :: "LiveGrant \<Rightarrow> string \<Rightarrow> string \<Rightarrow> int \<Rightarrow> ('h, 'a) act" where
  "record_docker_failure g op phase_name code =
     and_then (append_op ((op_line g op phase_name)\<lparr>ol_docker_exit_code := Some code\<rparr>)) (\<lambda>_.
       stop_with (op @ (if phase_name = RESIDUAL_FOUND then '' left residual product state.'' else '' failed the host check.''))
         ''FAILED_SAFE'')"

text \<open>The gaps written to \<open>HOST-CHECK.json\<close> and the text of \<open>host_check_failure_text\<close>.\<close>

definition sample_gaps :: "ObserveSample option \<Rightarrow> string list" where
  "sample_gaps sample =
     (case sample of
        None \<Rightarrow> [''container-state-unknown'']
      | Some s \<Rightarrow> if os_pins_error s then [''bpffs-unreadable''] else readiness_gaps s)"

definition host_check_failure_text :: "string \<Rightarrow> ObserveSample option \<Rightarrow> string" where
  "host_check_failure_text op sample =
     op @ '' returned exit 0 and the host check did not verify it (''
     @ (if sample_gaps sample \<noteq> [] then py_join ''; '' (sample_gaps sample) else ''no ready sample'')
     @ ''). Rollback is required.''"

definition write_host_check :: "ObserveSample option \<Rightarrow> ('h, unit) act" where
  "write_host_check sample s = (Inr (), s\<lparr>ls_host_check := Some (sample, sample_gaps sample)\<rparr>)"

definition not_verified :: "'h Observer option \<Rightarrow> LiveGrant \<Rightarrow> string \<Rightarrow> ExecResult \<Rightarrow> ('h, 'a) act" where
  "not_verified ob g op result =
     (let failure = (if ex_returncode result = 0 then ''ROLLBACK_REQUIRED'' else ''FAILED_SAFE'') in
      and_then (append_op (op_line g op failure)) (\<lambda>_.
        if failure = ''FAILED_SAFE'' then stop_with (op @ '' failed the host check.'') ''FAILED_SAFE''
        else if op \<in> {''start_pe_observe'', ''restart_pe_observe''} then
          and_then (look (\<lambda>m. case ob of None \<Rightarrow> None | Some observer \<Rightarrow> ob_sample observer op g m)) (\<lambda>sample.
          and_then (write_host_check sample) (\<lambda>_.
            stop_with (host_check_failure_text op sample) ''ROLLBACK_REQUIRED''))
        else stop_with (op @ '' returned exit 0 and the host check did not verify it. Rollback is required.'')
               ''ROLLBACK_REQUIRED''))"

definition conclude :: "'h Observer option \<Rightarrow> LiveGrant \<Rightarrow> string \<Rightarrow> ExecResult \<Rightarrow> ('h, (string \<times> pyval) list) act" where
  "conclude ob g op result =
     (if ex_disposition result \<in> {Some FAILED_SAFE, Some RESIDUAL_FOUND} then
        record_docker_failure g op (the (ex_disposition result)) (ex_returncode result)
      else
        and_then (look (\<lambda>m. case ob of None \<Rightarrow> Inr ''NOT_VERIFIED'' | Some observer \<Rightarrow> ob_verify observer op g m)) (\<lambda>r.
        and_then (settle r) (\<lambda>status.
          if ex_disposition result \<in> {Some IDEMPOTENT_ABSENT, Some REMOVED} \<and> status = ''NOT_VERIFIED'' then
            record_docker_failure g op RESIDUAL_FOUND (ex_returncode result)
          else if ex_disposition result \<in> {Some IDEMPOTENT_ABSENT, Some REMOVED} \<and> status \<noteq> ''VERIFIED'' then
            record_docker_failure g op FAILED_SAFE (ex_returncode result)
          else if status \<noteq> ''VERIFIED'' \<or> ex_returncode result \<noteq> 0 \<and> ex_disposition result \<noteq> Some IDEMPOTENT_ABSENT then
            not_verified ob g op result
          else
            and_then (look (\<lambda>m. case ob of None \<Rightarrow> Inr (PDict []) | Some observer \<Rightarrow> ob_delta observer op g m)) (\<lambda>d.
            and_then (settle d) (\<lambda>delta.
              (case delta of
                 PDict entries \<Rightarrow>
                   and_then (append_op
                     (case ex_disposition result of
                        None \<Rightarrow> op_line g op ''VERIFIED''
                      | Some [] \<Rightarrow> op_line g op ''VERIFIED''
                      | Some disposition \<Rightarrow>
                          (op_line g op ''VERIFIED'')\<lparr>ol_docker_object := Some disposition,
                             ol_docker_exit_code := Some (ex_returncode result)\<rparr>)) (\<lambda>_. give entries)
               | _ \<Rightarrow> stop_with ''The host check returned an unexpected observation.'' ''ROLLBACK_REQUIRED''))))))"

definition dispatch ::
  "'h LiveLib \<Rightarrow> 'h Observer option \<Rightarrow> LiveGrant \<Rightarrow> string \<Rightarrow> string list option \<Rightarrow> nat
     \<Rightarrow> ('h, (string \<times> pyval) list) act" where
  "dispatch lib ob g op argv timeout =
     and_then (before_pending lib g op argv) (\<lambda>expected.
     and_then (append_op (op_line g op ''PENDING'')) (\<lambda>_.
     and_then (perform lib g op expected timeout) (\<lambda>result.
     and_then (case partial_on_exit op of
                 None \<Rightarrow> give ()
               | Some step \<Rightarrow> if ex_returncode result = 0 \<and> \<not> ex_timed_out result then note_partial_mutation step else give ())
       (\<lambda>_. conclude ob g op result))))"

section \<open>One step\<close>

fun execute_ops ::
  "'h LiveLib \<Rightarrow> 'h Observer option \<Rightarrow> LiveGrant \<Rightarrow> string list
     \<Rightarrow> ('h, (string \<times> pyval) list list \<times> string list list) act" where
  "execute_ops lib ob g [] = give ([], [])"
| "execute_ops lib ob g (op # ops) =
     and_then (look (\<lambda>m. catalog_for lib g op (fst m))) (\<lambda>r.
     and_then (settle r) (\<lambda>argv.
     and_then (dispatch lib ob g op argv (if op = ''ensure_npm'' then 180 else 60)) (\<lambda>delta.
     and_then (execute_ops lib ob g ops) (\<lambda>rest.
       give (delta # fst rest, (case argv of None \<Rightarrow> [] | Some a \<Rightarrow> if a = [] then [] else [a]) @ snd rest)))))"

definition execute_step ::
  "'h LiveLib \<Rightarrow> 'h Observer option \<Rightarrow> LiveGrant \<Rightarrow> string \<Rightarrow> string
     \<Rightarrow> ('h, (string \<times> pyval) list list \<times> string list list) act" where
  "execute_step lib ob g step kind =
     execute_ops lib ob g (operations_of (if kind = ''apply'' then STEP_OPERATIONS else ROLLBACK_OPERATIONS) step)"

end
