(* ===== verification/Install_Live_Props.thy ===== *)
theory Install_Live_Props
  imports Install_Live
begin

text \<open>
  What the live executor guarantees: when a grant is given, what a successful operation has checked, and the shape of
  the log. \<open>emits\<close> states of an action what it appends to the trace, with its outcome; the rules below compose it.
\<close>

section \<open>When a grant is given\<close>

lemma demand_ok [simp]: "demand ok msg = Inr u \<longleftrightarrow> ok"
  by (simp add: demand_def)

lemma live_gate_ok:
  "live_gate pt r = Inr u \<longleftrightarrow>
     rq_command r \<in> set LIVE_MUTATING_COMMANDS \<and> rq_gate r = Some ''1'' \<and> rq_accept r \<and> rq_euid r = 0
     \<and> config_observes pt (rq_config r)"
  by (auto simp: live_gate_def bind_res_Inr_iff env_open_def privilege_ok_def)

lemma live_facts_ok:
  "live_facts pt r = Inr u \<longleftrightarrow>
     py_str pt (get_or (rq_host r) ''uname_m'' UNKNOWN_val) \<in> {''x86_64'', ''amd64''}
     \<and> dict_get (rq_host r) ''btf_vmlinux_exists'' = PBool True
     \<and> text_of pt (dict_get (rq_host r) ''kernel'') \<notin> {[], ''UNKNOWN''}
     \<and> dict_get (rq_host r) ''cgroup_version'' = PStr ''cgroup2'' \<and> dict_get (rq_host r) ''bpffs_mounted'' = PBool True
     \<and> iface_is_up (rq_host r) (live_iface pt r)"
  by (simp add: live_facts_def bind_res_Inr_iff Let_def)

lemma live_start_ok:
  "live_start pt r = Inr u \<longleftrightarrow>
     text_of pt (dict_get (rq_tx r) ''state'') \<in> set (START_STATES (rq_command r))
     \<and> \<not> (rq_command r = ''apply'' \<and> text_of pt (dict_get (rq_tx r) ''state'') = ''INTERRUPTED''
          \<and> dict_get (rq_tx r) ''phase'' = PStr ''rollback'')
     \<and> dict_get (rq_tx r) ''transaction_id'' \<noteq> PNone"
  by (auto simp: live_start_def bind_res_Inr_iff Let_def START_STATES_def)

lemma live_plan_ok:
  "live_plan fe fs r = Inr doc \<longleftrightarrow>
     (\<exists>p sha. rq_plan_path r = Some p \<and> rq_plan_sha256 r = Some sha \<and> py_isspace_strip sha \<noteq> []
        \<and> hash_named fe fs p = Some sha \<and> hash_named fe fs (join_path (rq_tx_dir r) ''PLAN.json'') = Some sha)
     \<and> read_object fe fs (join_path (rq_tx_dir r) ''PLAN.json'') = Inr doc
     \<and> dict_get doc ''transaction_id'' = dict_get (rq_tx r) ''transaction_id''
     \<and> dict_get doc ''rollback_steps'' = PList (map PStr plan_rollback_order)
     \<and> full_list (dict_get doc ''residual_checks'')
     \<and> dict_get doc ''live_operations'' = PList (map PStr live_operation_ids)"
proof -
  have full: "full_list (PList (map PStr live_operation_ids))" by code_simp
  show ?thesis
  proof (cases "rq_plan_path r"; cases "rq_plan_sha256 r"; cases "hash_named fe fs (join_path (rq_tx_dir r) ''PLAN.json'')")
    fix p sha h
    assume "rq_plan_path r = Some p" "rq_plan_sha256 r = Some sha"
      "hash_named fe fs (join_path (rq_tx_dir r) ''PLAN.json'') = Some h"
    moreover have "hash_named fe fs p = Some sha \<Longrightarrow> fs p \<noteq> None" by (auto simp: hash_named_def)
    ultimately show ?thesis using full by (auto simp: live_plan_def bind_res_Inr_iff Let_def)
  qed (simp_all add: live_plan_def Let_def)
qed

definition tracefs_recorded :: "host \<Rightarrow> bool" where
  "tracefs_recorded h = (''tracefs_mounted'' \<in> set (map fst h))"

text \<open>The host that is checked: only apply, and only without a recorded fact, adds what the probe found.\<close>

definition checked_host :: "host \<Rightarrow> string \<Rightarrow> host \<times> bool" where
  "checked_host h command =
     (if tracefs_recorded h then (h, False)
      else if command \<in> {''rollback'', ''uninstall''} then (h, True)
      else (dict_set ''tracefs_mounted'' (PBool True) h, False))"

lemma resolve_tracefs_ok:
  "resolve_tracefs_host h command probe = Inr c \<longleftrightarrow>
     c = checked_host h command
     \<and> (if tracefs_recorded h then dict_get h ''tracefs_mounted'' = PBool True
        else command \<in> {''rollback'', ''uninstall''} \<or> probe)"
  by (auto simp: resolve_tracefs_host_def checked_host_def tracefs_recorded_def bind_res_Inr_iff)

lemma aggregate_cases:
  "aggregate cs = ''READY'' \<or> aggregate cs = ''READY_WITH_LIMITATIONS'' \<Longrightarrow> unknown_rows cs = []"
  by (auto simp: aggregate_def unknown_rows_def list_ex_iff filter_empty_conv split: if_splits)

lemma aggregate_limited: "aggregate cs = ''READY_WITH_LIMITATIONS'' \<Longrightarrow> limitations_from cs \<noteq> []"
  by (auto simp: aggregate_def limitations_from_def list_ex_iff filter_empty_conv split: if_splits)

lemma preflight_parts:
  "run_preflight env bu config h a = Inr rep \<Longrightarrow>
     pf_overall rep = aggregate (pf_checks rep) \<and> pf_limitations rep = limitations_from (pf_checks rep)"
  by (auto simp: run_preflight_def bind_res_Inr_iff Let_def)

definition memory_observed :: "PreflightReport \<Rightarrow> bool" where
  "memory_observed rep =
     (\<not> list_ex (\<lambda>c. ck_id c = ''PF-MEM'' \<and> dict_get (ck_observed c) ''resource_class'' = PStr ''UNKNOWN'') (pf_checks rep))"

definition accepted_report :: "PreflightReport \<Rightarrow> bool" where
  "accepted_report rep =
     (pf_overall rep = ''READY''
      \<or> pf_overall rep = ''READY_WITH_LIMITATIONS'' \<and> list_all (\<lambda>l. li_id l = ''PF-MEM'') (pf_limitations rep)
         \<and> memory_observed rep)"

lemma judge_report_ok:
  assumes "run_preflight env bu config h a = Inr rep"
  shows "judge_report rep = Inr u \<longleftrightarrow> accepted_report rep"
proof -
  note parts = preflight_parts [OF assms]
  consider (ready) "pf_overall rep = ''READY''" | (limited) "pf_overall rep = ''READY_WITH_LIMITATIONS''"
    | (other) "pf_overall rep \<noteq> ''READY''" "pf_overall rep \<noteq> ''READY_WITH_LIMITATIONS''" by blast
  then show ?thesis
  proof cases
    case ready
    then have "unknown_rows (pf_checks rep) = []" using parts aggregate_cases by metis
    with ready show ?thesis by (simp add: judge_report_def accepted_report_def Let_def)
  next
    case limited
    then have "unknown_rows (pf_checks rep) = []" "pf_limitations rep \<noteq> []"
      using parts aggregate_cases aggregate_limited by metis+
    with limited show ?thesis
      by (auto simp: judge_report_def accepted_report_def memory_observed_def APPROVED_LIVE_LIMITATIONS_def Let_def
          bind_res_Inr_iff list_all_iff)
  next
    case other
    then show ?thesis by (simp add: judge_report_def accepted_report_def Let_def split: list.splits)
  qed
qed

definition sealed_identity :: "PreEnv \<Rightarrow> PublicPin \<Rightarrow> files \<Rightarrow> (string \<times> pyval) list \<Rightarrow> bool" where
  "sealed_identity env canon fs doc =
     (let pin = en_pins env; fe = en_files env; paths = artifact_paths pin in
      pe_source_commit pin = pp_source_commit canon \<and> pe_manifest_digest pin = pp_manifest_digest canon
      \<and> hash_named fe fs (ap_pe_archive paths) = Some (pe_archive_sha256 pin)
      \<and> hash_named fe fs (ap_optics_cli paths) = Some (optics_cli_sha256 pin)
      \<and> hash_named fe fs (ap_agent_sdk_npm paths) = Some (agent_sdk_npm_sha256 pin)
      \<and> hash_named fe fs (ap_agent_sdk_py_wheel paths) = Some (agent_sdk_py_wheel_sha256 pin)
      \<and> (\<exists>m. read_object fe fs (ap_pe_manifest paths) = Inr m
           \<and> dict_get m ''source_commit'' = PStr (pp_source_commit canon)
           \<and> dict_get m ''manifest_digest'' = PStr (pp_manifest_digest canon))
      \<and> (\<exists>m products. load_manifest fe fs = Inr m \<and> sub_object m ''products'' = Inr products
           \<and> dict_get products ''phantom_engine'' = PStr (pp_source_commit canon))
      \<and> (\<exists>digests. sub_object doc ''artifact_digests'' = Inr digests
           \<and> dict_get digests ''pe_source_commit'' = PStr (pp_source_commit canon)
           \<and> dict_get digests ''pe_manifest_digest'' = PStr (pp_manifest_digest canon)
           \<and> dict_get digests ''pe_archive_sha256'' = PStr (pe_archive_sha256 pin)))"

lemma live_identity_ok: "live_identity env canon fs doc = Inr u \<longleftrightarrow> sealed_identity env canon fs doc"
  unfolding live_identity_def sealed_identity_def Let_def bind_res_Inr_iff demand_ok
  by (simp only: simp_thms ex_simps conj_assoc) blast

lemma npm_when_preflight:
  assumes "run_preflight env bu config (fst (checked_host h command)) a = Inr rep"
  shows "\<exists>npm. npm_requirement (en_text env) h = Inr npm"
proof -
  have "dict_get (fst (checked_host h command)) ''node_version'' = dict_get h ''node_version''"
    by (simp add: checked_host_def)
  then have "\<exists>node. parse_node (dict_get h ''node_version'') = Inr node"
    using assms by (auto simp: run_preflight_def npm_requirement_def bind_res_Inr_iff Let_def)
  then show ?thesis by (auto simp: npm_requirement_def Let_def)
qed

lemma grant_given:
  assumes "live_plan fe (lw_files w) r = Inr doc" "live_preflight env w r (fst (checked_host (rq_host r) (rq_command r))) b = Inr rep"
    and "fe = en_files env"
  shows "\<exists>g. (case npm_requirement (en_text env) (rq_host r) of
           Inl e \<Rightarrow> Inl (Py_Error e)
         | Inr npm \<Rightarrow>
             (case hash_named fe (lw_files w) (join_path (rq_tx_dir r) ''PLAN.json'') of
                None \<Rightarrow> Inl (Py_Error ''FileNotFoundError'')
              | Some sha \<Rightarrow> Inr (make_grant env w r sha roots (nr_action npm)))) = Inr g"
proof -
  obtain sha where "hash_named fe (lw_files w) (join_path (rq_tx_dir r) ''PLAN.json'') = Some sha"
    using assms(1) unfolding live_plan_ok by blast
  moreover obtain npm where "npm_requirement (en_text env) (rq_host r) = Inr npm"
    using assms(2) npm_when_preflight by (fastforce simp: live_preflight_def split: sum.splits)
  ultimately show ?thesis by simp
qed

lemma live_preflight_ok:
  "(\<exists>rep. live_preflight env w r h b = Inr rep) \<longleftrightarrow>
     (\<exists>rep. run_preflight env (lw_bundle w) (dict_set ''transaction_id'' (dict_get (rq_tx r) ''transaction_id'') (rq_config r)) h
              (live_attach b) = Inr rep \<and> accepted_report rep)"
  by (auto simp: live_preflight_def bind_res_Inr_iff judge_report_ok split: sum.splits)

text \<open>
  C3: a live grant is given exactly when the environment gate and the flag are both set, the caller is effective root,
  the configuration is observe-only, the host facts hold, the state is one the command may start from, the plan on
  disk, the plan supplied and the digest agree and list this installer's operations and rollback steps, tracefs is
  there or not needed, the roots are safe, the preflight is READY or limited by memory alone, and the bytes of the
  bundle carry the sealed identity.
\<close>

theorem live_grant_iff:
  "(\<exists>g. authorize_live env canon w r = Inr g) \<longleftrightarrow>
     rq_command r \<in> set LIVE_MUTATING_COMMANDS \<and> rq_gate r = Some ''1'' \<and> rq_accept r \<and> rq_euid r = 0
     \<and> config_observes (en_text env) (rq_config r)
     \<and> (\<exists>u. live_facts (en_text env) r = Inr u)
     \<and> text_of (en_text env) (dict_get (rq_tx r) ''state'') \<in> set (START_STATES (rq_command r))
     \<and> \<not> (rq_command r = ''apply'' \<and> text_of (en_text env) (dict_get (rq_tx r) ''state'') = ''INTERRUPTED''
          \<and> dict_get (rq_tx r) ''phase'' = PStr ''rollback'')
     \<and> dict_get (rq_tx r) ''transaction_id'' \<noteq> PNone
     \<and> (\<exists>p sha. rq_plan_path r = Some p \<and> rq_plan_sha256 r = Some sha \<and> py_isspace_strip sha \<noteq> []
          \<and> hash_named (en_files env) (lw_files w) p = Some sha
          \<and> hash_named (en_files env) (lw_files w) (join_path (rq_tx_dir r) ''PLAN.json'') = Some sha)
     \<and> (\<exists>doc. read_object (en_files env) (lw_files w) (join_path (rq_tx_dir r) ''PLAN.json'') = Inr doc
          \<and> dict_get doc ''transaction_id'' = dict_get (rq_tx r) ''transaction_id''
          \<and> dict_get doc ''rollback_steps'' = PList (map PStr plan_rollback_order)
          \<and> full_list (dict_get doc ''residual_checks'')
          \<and> dict_get doc ''live_operations'' = PList (map PStr live_operation_ids)
          \<and> sealed_identity env canon (bu_files (lw_bundle w)) doc)
     \<and> (if tracefs_recorded (rq_host r) then dict_get (rq_host r) ''tracefs_mounted'' = PBool True
        else rq_command r \<in> {''rollback'', ''uninstall''} \<or> lw_tracefs w)
     \<and> (\<exists>roots. live_roots (en_text env) w r = Inr roots)
     \<and> (\<exists>rep. run_preflight env (lw_bundle w)
                 (dict_set ''transaction_id'' (dict_get (rq_tx r) ''transaction_id'') (rq_config r))
                 (fst (checked_host (rq_host r) (rq_command r)))
                 (live_attach (snd (checked_host (rq_host r) (rq_command r)))) = Inr rep \<and> accepted_report rep)"
proof -
  let ?pt = "en_text env" and ?fe = "en_files env" and ?c = "checked_host (rq_host r) (rq_command r)"
  have "(\<exists>g. authorize_live env canon w r = Inr g) \<longleftrightarrow>
      (\<exists>u. live_gate ?pt r = Inr u) \<and> (\<exists>u. live_facts ?pt r = Inr u) \<and> (\<exists>u. live_start ?pt r = Inr u)
      \<and> (\<exists>doc. live_plan ?fe (lw_files w) r = Inr doc \<and> (\<exists>u. live_identity env canon (bu_files (lw_bundle w)) doc = Inr u))
      \<and> resolve_tracefs_host (rq_host r) (rq_command r) (lw_tracefs w) = Inr ?c
      \<and> (\<exists>roots. live_roots ?pt w r = Inr roots)
      \<and> (\<exists>rep. live_preflight env w r (fst ?c) (snd ?c) = Inr rep)" (is "?L \<longleftrightarrow> ?R")
  proof
    assume ?L
    then obtain u1 u2 u3 doc c roots rep u4 where parts: "live_gate ?pt r = Inr u1" "live_facts ?pt r = Inr u2"
        "live_start ?pt r = Inr u3" "live_plan ?fe (lw_files w) r = Inr doc"
        "resolve_tracefs_host (rq_host r) (rq_command r) (lw_tracefs w) = Inr c" "live_roots ?pt w r = Inr roots"
        "live_preflight env w r (fst c) (snd c) = Inr rep" "live_identity env canon (bu_files (lw_bundle w)) doc = Inr u4"
      unfolding authorize_live_def Let_def bind_res_Inr_iff by blast
    moreover have "c = ?c" using parts(5) unfolding resolve_tracefs_ok by blast
    ultimately show ?R by blast
  next
    assume R: ?R
    then obtain doc roots rep where parts: "live_plan ?fe (lw_files w) r = Inr doc" "live_roots ?pt w r = Inr roots"
        "live_preflight env w r (fst ?c) (snd ?c) = Inr rep" by blast
    obtain g where "(case npm_requirement ?pt (rq_host r) of
           Inl e \<Rightarrow> Inl (Py_Error e)
         | Inr npm \<Rightarrow>
             (case hash_named ?fe (lw_files w) (join_path (rq_tx_dir r) ''PLAN.json'') of
                None \<Rightarrow> Inl (Py_Error ''FileNotFoundError'')
              | Some sha \<Rightarrow> Inr (make_grant env w r sha roots (nr_action npm)))) = Inr g"
      using grant_given [OF parts(1,3) refl] by blast
    with R parts show ?L
      unfolding authorize_live_def Let_def by auto
  qed
  then show ?thesis
    unfolding live_gate_ok live_start_ok live_plan_ok live_identity_ok resolve_tracefs_ok live_preflight_ok
    by (simp only: simp_thms ex_simps conj_assoc)
qed

section \<open>What an action appends to the trace\<close>

definition emits :: "('h, 'a) act \<Rightarrow> (py_exn + 'a \<Rightarrow> event list \<Rightarrow> bool) \<Rightarrow> bool" where
  "emits m X = (\<forall>s. \<exists>evs. ls_trace (snd (m s)) = ls_trace s @ evs \<and> X (fst (m s)) evs)"

lemma emitsI: "(\<And>s. \<exists>evs. ls_trace (snd (m s)) = ls_trace s @ evs \<and> X (fst (m s)) evs) \<Longrightarrow> emits m X"
  by (simp add: emits_def)

lemma emits_weaken: "emits m X \<Longrightarrow> (\<And>r evs. X r evs \<Longrightarrow> Y r evs) \<Longrightarrow> emits m Y"
  unfolding emits_def by blast

lemma emits_then:
  assumes m: "emits m X" and f: "\<And>a. emits (f a) (Y a)"
    and e: "\<And>e evs. X (Inl e) evs \<Longrightarrow> Z (Inl e) evs"
    and c: "\<And>a r evs later. X (Inr a) evs \<Longrightarrow> Y a r later \<Longrightarrow> Z r (evs @ later)"
  shows "emits (and_then m f) Z"
proof (rule emitsI)
  fix s
  obtain r t where r: "m s = (r, t)" by (cases "m s")
  obtain evs where evs: "ls_trace t = ls_trace s @ evs" "X r evs"
    using m [unfolded emits_def, rule_format, of s] r by auto
  show "\<exists>evs. ls_trace (snd (and_then m f s)) = ls_trace s @ evs \<and> Z (fst (and_then m f s)) evs"
  proof (cases r)
    case (Inl err)
    then show ?thesis using r evs e by (auto simp: and_then_def)
  next
    case (Inr a)
    obtain later where later: "ls_trace (snd (f a t)) = ls_trace t @ later" "Y a (fst (f a t)) later"
      using f [of a, unfolded emits_def, rule_format, of t] by blast
    then have "Z (fst (f a t)) (evs @ later)" using c [of a evs "fst (f a t)" later] evs Inr by blast
    then show ?thesis using r Inr later evs by (auto simp: and_then_def)
  qed
qed

text \<open>Actions whose every event satisfies \<open>P\<close>, whatever the outcome; they compose by themselves.\<close>

definition only :: "(event \<Rightarrow> bool) \<Rightarrow> ('h, 'a) act \<Rightarrow> bool" where
  "only P m = emits m (\<lambda>_ evs. list_all P evs)"

lemma only_then: "only P m \<Longrightarrow> (\<And>a. only P (f a)) \<Longrightarrow> only P (and_then m f)"
  unfolding only_def by (erule emits_then [where Y = "\<lambda>a r evs. list_all P evs"]) auto

lemma only_silent [simp]:
  "only P (give a)" "only P (fail_with e)" "only P (settle r)" "only P (look f')" "only P (stop_with msg cls)"
  "only P (ensure ok msg)" "only P (change f'')" "only P (note_partial_mutation step)" "only P (clear_partial_mutation step)"
  "only P (write_host_check sample)"
  by (simp_all add: only_def emits_def give_def fail_with_def settle_def look_def stop_with_def ensure_def change_def
      note_partial_mutation_def clear_partial_mutation_def write_host_check_def Let_def split_beta)

lemma only_event: "P e \<Longrightarrow> only P (note_event e)"
  by (simp add: only_def emits_def note_event_def)

lemma only_split:
  "only P m \<Longrightarrow> only P n \<Longrightarrow> only P (if b then m else n)"
  "only P m \<Longrightarrow> (\<And>x. only P (f x)) \<Longrightarrow> only P (case opt of None \<Rightarrow> m | Some x \<Rightarrow> f x)"
  "(\<And>x. only P (g x)) \<Longrightarrow> (\<And>y. only P (h y)) \<Longrightarrow> only P (case res of Inl x \<Rightarrow> g x | Inr y \<Rightarrow> h y)"
  "(\<And>x y. only P (k x y)) \<Longrightarrow> only P (case pair of (x, y) \<Rightarrow> k x y)"
  "(\<And>x. only P (u x)) \<Longrightarrow> only P v \<Longrightarrow> only P (case ex of Oci_Error x \<Rightarrow> u x | Decode_Error \<Rightarrow> v)"
  "(\<And>a b c. only P (r a b c)) \<Longrightarrow> (\<And>a b. only P (s a b)) \<Longrightarrow> (\<And>a. only P (t a))
     \<Longrightarrow> only P (case st of Finished a b c \<Rightarrow> r a b c | Timed_Out a b \<Rightarrow> s a b | Not_Started a \<Rightarrow> t a)"
  by (simp_all split: option.split sum.split prod.split oci_exn.split started.split)

lemmas only_rules = only_then only_split only_silent only_event

text \<open>Commands pass \<open>reject_argv\<close>, and no line is written.\<close>

fun quiet_event :: "string \<Rightarrow> event \<Rightarrow> bool" where
  "quiet_event op (Line l) = False"
| "quiet_event op (Ran argv) = (reject_argv argv = Inr argv)"
| "quiet_event op (Filed name) = (name = op)"

lemma reject_argv_same: "reject_argv argv = Inr checked \<Longrightarrow> checked = argv"
  by (simp add: reject_argv_def Let_def split: if_splits)

lemma only_run: "only (quiet_event op) (run_allowlisted lib argv timeout)"
proof (cases "reject_argv argv")
  case (Inl e)
  then show ?thesis by (simp add: run_allowlisted_def only_def emits_def and_then_def settle_def refuse_def)
next
  case (Inr checked)
  then have ok: "reject_argv checked = Inr checked" using reject_argv_same by metis
  have st: "only (quiet_event op) (from_started checked st)" for st
    unfolding from_started_def by (intro only_rules)
  have "only (quiet_event op) (and_then (note_event (Ran checked)) (\<lambda>_.
       (case ll_runner lib of
          None \<Rightarrow> and_then (change (ll_start lib checked timeout)) (from_started checked)
        | Some runner \<Rightarrow>
            and_then (change (runner checked timeout)) (\<lambda>r.
              (case r of
                 None \<Rightarrow> stop_with ''The live runner returned an unexpected result.'' ''FAILED_SAFE''
               | Some result \<Rightarrow> give result)))))"
    by (intro only_rules st) (simp add: ok)
  then show ?thesis using Inr by (simp add: run_allowlisted_def and_then_def settle_def refuse_def only_def emits_def)
qed

lemma only_put: "only (quiet_event op) (put_file op p content)"
  unfolding put_file_def by (intro only_rules) simp

lemma only_unlink: "only (quiet_event op) (unlink_file op p)"
  unfolding unlink_file_def by (intro only_rules only_put)

lemma only_archive: "only P (rehash_archive lib g)" "only P (confined lib p base)"
  unfolding rehash_archive_def confined_def by (intro only_rules)+

lemma only_filesystem: "only (quiet_event op) (do_filesystem lib g op)"
  unfolding do_filesystem_def
  by (intro only_rules only_archive only_put only_unlink) simp_all

lemma only_materialize: "only (quiet_event ''docker_load'') (materialize_load lib g)"
  unfolding materialize_load_def by (intro only_rules) simp

lemma only_detach: "only (quiet_event op) (detach_iface_filters lib iface timeout)"
  unfolding detach_iface_filters_def by (intro only_rules only_run)

lemma only_stop: "only (quiet_event op) (stop_recorded_enforce_container lib g timeout)"
  unfolding stop_recorded_enforce_container_def by (intro only_rules only_run)

lemma only_prepare: "only (quiet_event op) (prepare_command lib g op timeout)"
  by (simp add: prepare_command_def only_materialize only_detach only_stop)

definition silent_file :: "string \<Rightarrow> event \<Rightarrow> bool" where "silent_file op e = (e = Filed op)"

lemma only_checks:
  "only P (rehash_plan lib g)" "only P (runtime_tx lib g)" "only P (rehash_inputs lib g op)"
  "only P (check_supplied op expected argv)"
  unfolding rehash_plan_def runtime_tx_def rehash_inputs_def check_supplied_def Let_def by (intro only_rules)+

lemma only_profile: "only (silent_file op) (profile_before lib g op)"
  unfolding profile_before_def profile_bytes_match_def put_file_def
  by (intro only_rules only_archive) (simp add: silent_file_def)

lemma only_before_pending: "only (silent_file op) (before_pending lib g op argv)"
  unfolding before_pending_def by (intro only_rules only_checks only_profile only_archive)


section \<open>The log\<close>

fun is_line :: "event \<Rightarrow> bool" where
  "is_line (Line l) = True"
| "is_line _ = False"

fun accepted_event :: "event \<Rightarrow> bool" where
  "accepted_event (Ran argv) = (reject_argv argv = Inr argv)"
| "accepted_event _ = True"

definition log_lines :: "event list \<Rightarrow> (string \<times> string) list" where
  "log_lines evs = concat (map (\<lambda>e. case e of Line l \<Rightarrow> [(ol_op l, ol_phase l)] | _ \<Rightarrow> []) evs)"

text \<open>The lines of the operations of a step, in order: PENDING then VERIFIED for each, and after a failure at most
  PENDING and a phase that is not VERIFIED for the operation that failed.\<close>

fun step_lines :: "string list \<Rightarrow> bool \<Rightarrow> (string \<times> string) list \<Rightarrow> bool" where
  "step_lines [] failed ls = (\<not> failed \<and> ls = [])"
| "step_lines (op # ops) failed ls =
     (if take 2 ls = [(op, ''PENDING''), (op, ''VERIFIED'')] then step_lines ops failed (drop 2 ls)
      else failed \<and> length ls \<le> 2 \<and> list_all (\<lambda>l. fst l = op) ls \<and> (ls = [] \<or> snd (hd ls) = ''PENDING''))"

text \<open>One operation: nothing but the AppArmor profile is written and nothing is run before the PENDING line, every
  command is an accepted one, and a success ends with the VERIFIED line.\<close>

definition well_logged :: "string \<Rightarrow> bool \<Rightarrow> event list \<Rightarrow> bool" where
  "well_logged op ok evs =
     (list_all (silent_file op) (takeWhile (\<lambda>e. \<not> is_line e) evs) \<and> list_all accepted_event evs
      \<and> step_lines [op] (\<not> ok) (log_lines evs) \<and> (if ok then is_line (last evs) else True))"

lemma log_lines_append [simp]: "log_lines (xs @ ys) = log_lines xs @ log_lines ys"
  by (simp add: log_lines_def)

lemma log_lines_Cons [simp]:
  "log_lines (Line l # evs) = (ol_op l, ol_phase l) # log_lines evs"
  "log_lines (Ran a # evs) = log_lines evs" "log_lines (Filed f # evs) = log_lines evs" "log_lines [] = []"
  by (simp_all add: log_lines_def)

lemma quiet_log: "list_all (quiet_event op) evs \<Longrightarrow> log_lines evs = [] \<and> list_all accepted_event evs"
proof (induction evs)
  case (Cons e evs)
  then show ?case by (cases e) auto
qed simp

lemma silent_log: "list_all (silent_file op) evs \<Longrightarrow>
  log_lines evs = [] \<and> list_all accepted_event evs \<and> list_all (\<lambda>e. \<not> is_line e) evs"
  by (induction evs) (auto simp: silent_file_def)

definition closing :: "string \<Rightarrow> event list \<Rightarrow> bool" where
  "closing op evs \<longleftrightarrow> evs = [] \<or> (\<exists>l. evs = [Line l] \<and> ol_op l = op \<and> ol_phase l \<noteq> ''VERIFIED'')"

definition run_shape :: "string \<Rightarrow> py_exn + ExecResult \<Rightarrow> event list \<Rightarrow> bool" where
  "run_shape op r evs \<longleftrightarrow> (\<exists>mid tail. evs = mid @ tail \<and> list_all (quiet_event op) mid \<and> closing op tail \<and> (isl r \<or> tail = []))"

definition end_shape :: "string \<Rightarrow> py_exn + 'a \<Rightarrow> event list \<Rightarrow> bool" where
  "end_shape op r evs \<longleftrightarrow>
     (if isl r then closing op evs else \<exists>l. evs = [Line l] \<and> ol_op l = op \<and> ol_phase l = ''VERIFIED'')"

lemma run_quiet: "list_all (quiet_event op) evs \<Longrightarrow> run_shape op r evs"
  by (auto simp: run_shape_def closing_def)

lemma emits_split:
  "(b \<Longrightarrow> emits m X) \<Longrightarrow> (\<not> b \<Longrightarrow> emits n X) \<Longrightarrow> emits (if b then m else n) X"
  "emits m X \<Longrightarrow> (\<And>x. emits (f x) X) \<Longrightarrow> emits (case opt of None \<Rightarrow> m | Some x \<Rightarrow> f x) X"
  by (simp_all split: option.split)

lemma run_more: "list_all (quiet_event op) evs \<Longrightarrow> run_shape op r later \<Longrightarrow> run_shape op r (evs @ later)"
  unfolding run_shape_def by (elim exE) (rule_tac x = "evs @ mid" in exI, rule_tac x = tail in exI, simp)

lemma emits_only: "only P m \<Longrightarrow> emits m (\<lambda>r evs. list_all P evs)"
  by (simp add: only_def)

lemma shape_after:
  assumes "only (quiet_event op) m" "\<And>a. emits (f a) (run_shape op)"
  shows "emits (and_then m f) (run_shape op)"
  by (rule emits_then [OF emits_only [OF assms(1)] assms(2)]) (auto intro: run_quiet run_more)

lemma emits_quiet: "only (quiet_event op) m \<Longrightarrow> emits m (run_shape op)"
  using emits_weaken [OF emits_only run_quiet] .

lemma emits_refused:
  assumes "\<And>t. isl (fst (m t)) \<and> ls_trace (snd (m t)) = ls_trace t"
    and "ol_op l = op" "ol_phase l \<noteq> ''VERIFIED''"
  shows "emits (and_then (append_op l) (\<lambda>_. m)) (\<lambda>r evs. isl r \<and> closing op evs)"
  using assms by (simp add: emits_def and_then_def append_op_def note_event_def closing_def)

lemma refused_run: "isl r \<and> closing op evs \<Longrightarrow> run_shape op r evs"
  unfolding run_shape_def by (intro exI [of _ "[]"] exI [of _ evs]) auto

lemma refused_end: "isl r \<and> closing op evs \<Longrightarrow> end_shape op r evs"
  by (simp add: end_shape_def)

lemma fail_facts [simp]:
  "fst (fail_with e t) = Inl e" "ls_trace (snd (fail_with e t)) = ls_trace t"
  "fst (stop_with msg cls t) = Inl (Refused (live_fail msg cls))" "ls_trace (snd (stop_with msg cls t)) = ls_trace t"
  by (simp_all add: fail_with_def stop_with_def)

lemma op_line_fields [simp]: "ol_op (op_line g op p) = op" "ol_phase (op_line g op p) = p"
  by (simp_all add: op_line_def)

lemma perform_shape: "emits (perform lib g op expected timeout) (run_shape op)"
proof (cases expected)
  case None
  then show ?thesis
    unfolding perform_def by simp (intro emits_quiet only_rules only_filesystem)
next
  case (Some argv)
  have late: "emits (and_then (append_op (op_line g op ''INTERRUPTED'')) (\<lambda>_. fail_with (interrupted op))) (run_shape op)"
    by (rule emits_weaken [OF emits_refused refused_run]) auto
  have load: "emits (and_then (append_op (op_line g op (if b then ''ROLLBACK_REQUIRED'' else ''FAILED_SAFE''))) (\<lambda>_. stop_with msg cls))
      (run_shape op)" for b msg cls
    by (rule emits_weaken [OF emits_refused refused_run]) auto
  show ?thesis
    unfolding perform_def Some option.case Let_def
    by (intro shape_after only_prepare only_run emits_split late load emits_quiet only_silent)
qed

lemma record_shape:
  assumes "phase_name \<noteq> ''VERIFIED''"
  shows "emits (record_docker_failure g op phase_name code) (end_shape op)"
  unfolding record_docker_failure_def
  by (rule emits_weaken [OF emits_refused refused_end]) (use assms in auto)

lemma end_after:
  assumes "only (\<lambda>_. False) m" "\<And>a. emits (f a) (end_shape op)"
  shows "emits (and_then m f) (end_shape op)"
  by (rule emits_then [OF emits_only [OF assms(1)] assms(2)])
    (auto simp: end_shape_def closing_def list_all_iff)

lemma not_verified_shape: "emits (not_verified ob g op result) (end_shape op)"
proof -
  let ?m = "if ex_returncode result \<noteq> 0 then stop_with (op @ '' failed the host check.'') ''FAILED_SAFE''
        else if op \<in> {''start_pe_observe'', ''restart_pe_observe''} then
          and_then (look (\<lambda>m. case ob of None \<Rightarrow> None | Some observer \<Rightarrow> ob_sample observer op g m)) (\<lambda>sample.
          and_then (write_host_check sample) (\<lambda>_.
            stop_with (host_check_failure_text op sample) ''ROLLBACK_REQUIRED''))
        else stop_with (op @ '' returned exit 0 and the host check did not verify it. Rollback is required.'')
               ''ROLLBACK_REQUIRED''"
  have "isl (fst (?m t)) \<and> ls_trace (snd (?m t)) = ls_trace t" for t
    by (simp add: and_then_def look_def write_host_check_def)
  then have "emits (and_then (append_op (op_line g op (if ex_returncode result = 0 then ''ROLLBACK_REQUIRED'' else ''FAILED_SAFE'')))
      (\<lambda>_. ?m)) (\<lambda>r evs. isl r \<and> closing op evs)"
    by (rule emits_refused) simp_all
  then have "emits (not_verified ob g op result) (\<lambda>r evs. isl r \<and> closing op evs)"
    by (cases "ex_returncode result = 0") (simp_all add: not_verified_def Let_def)
  then show ?thesis by (rule emits_weaken [OF _ refused_end])
qed

lemma verified_line:
  "ol_op l = op \<Longrightarrow> ol_phase l = ''VERIFIED'' \<Longrightarrow> emits (and_then (append_op l) (\<lambda>_. give x)) (end_shape op)"
  by (simp add: emits_def and_then_def append_op_def note_event_def give_def end_shape_def)

lemma conclude_shape: "emits (conclude ob g op result) (end_shape op)"
proof -
  have stopped: "emits (stop_with msg cls) (end_shape op)" for msg cls
    by (simp add: emits_def end_shape_def closing_def)
  have "the (ex_disposition result) \<noteq> ''VERIFIED''" if "ex_disposition result \<in> {Some FAILED_SAFE, Some RESIDUAL_FOUND}"
    using that by (auto simp: FAILED_SAFE_def RESIDUAL_FOUND_def)
  moreover have phases: "RESIDUAL_FOUND \<noteq> ''VERIFIED''" "FAILED_SAFE \<noteq> ''VERIFIED''"
    by (simp_all add: FAILED_SAFE_def RESIDUAL_FOUND_def)
  moreover have line: "emits (and_then (append_op
                     (case d of
                        None \<Rightarrow> op_line g op ''VERIFIED''
                      | Some [] \<Rightarrow> op_line g op ''VERIFIED''
                      | Some disposition \<Rightarrow> (op_line g op ''VERIFIED'')\<lparr>ol_docker_object := Some disposition,
                             ol_docker_exit_code := code\<rparr>)) (\<lambda>_. give entries)) (end_shape op)" for d code entries
    by (rule verified_line) (simp_all split: option.split list.split)
  moreover have delta: "emits (case v of PDict entries \<Rightarrow> and_then (append_op
                     (case d of
                        None \<Rightarrow> op_line g op ''VERIFIED''
                      | Some [] \<Rightarrow> op_line g op ''VERIFIED''
                      | Some disposition \<Rightarrow> (op_line g op ''VERIFIED'')\<lparr>ol_docker_object := Some disposition,
                             ol_docker_exit_code := code\<rparr>)) (\<lambda>_. give entries)
               | _ \<Rightarrow> stop_with msg cls) (end_shape op)" for v d code msg cls
    by (cases v) (simp_all only: pyval.case stopped line)
  ultimately show ?thesis
    unfolding conclude_def
    by (intro emits_split end_after record_shape not_verified_shape delta only_silent)
qed

declare step_lines.simps(2) [simp del]

definition dispatch_shape :: "string \<Rightarrow> py_exn + 'a \<Rightarrow> event list \<Rightarrow> bool" where
  "dispatch_shape op r evs \<longleftrightarrow> well_logged op (\<not> isl r) evs"

lemma early_end: "list_all (silent_file op) evs \<Longrightarrow> isl r \<Longrightarrow> dispatch_shape op r evs"
proof -
  assume e: "list_all (silent_file op) evs" "isl r"
  have tw: "takeWhile (\<lambda>e. \<not> is_line e) evs = evs" using silent_log [OF e(1)] by (simp add: list_all_iff)
  show ?thesis unfolding dispatch_shape_def well_logged_def tw using e silent_log [OF e(1)] by (simp add: step_lines.simps(2))
qed

lemma take_two: "take 2 ls = [x, y] \<longleftrightarrow> (\<exists>rest. ls = x # y # rest)"
  by (cases ls; cases "tl ls") auto

lemma pending_start:
  assumes "list_all (silent_file op) pre" "run_shape op r' mid \<and> isl r' \<and> isl r \<and> rest = [] \<or> (\<exists>x. r' = Inr x) \<and> run_shape op r' mid \<and> end_shape op r rest"
  shows "dispatch_shape op r (pre @ Line (op_line g op ''PENDING'') # mid @ rest)"
proof -
  have pre: "log_lines pre = []" "list_all accepted_event pre" "list_all (\<lambda>e. \<not> is_line e) pre"
    using silent_log [OF assms(1)] by blast+
  have take: "takeWhile (\<lambda>e. \<not> is_line e) (pre @ Line (op_line g op ''PENDING'') # xs) = pre" for xs
    using pre(3) by (induction pre) auto
  from assms(2) obtain m tail where m: "mid = m @ tail" "list_all (quiet_event op) m" "closing op tail" "isl r' \<or> tail = []"
    unfolding run_shape_def by blast
  note mq = quiet_log [OF m(2)]
  show ?thesis
  proof (cases "isl r")
    case True
    have "closing op (tail @ rest)"
      using assms(2) m(3,4) True by (auto simp: end_shape_def)
    then consider "tail @ rest = []" | l where "tail @ rest = [Line l]" "ol_op l = op" "ol_phase l \<noteq> ''VERIFIED''"
      unfolding closing_def by blast
    then have "step_lines [op] True ((op, ''PENDING'') # log_lines (tail @ rest)) \<and> list_all accepted_event (tail @ rest)"
      by cases (simp_all only:, simp_all add: step_lines.simps(2))
    moreover have "mid @ rest = m @ (tail @ rest)" using m(1) by simp
    ultimately show ?thesis
      using True mq pre(1,2) assms(1) take [of "m @ (tail @ rest)"]
      by (simp only: dispatch_shape_def well_logged_def log_lines_append log_lines_Cons list_all_append list.pred_inject)
        (simp add: op_line_def)
  next
    case False
    then obtain l where "rest = [Line l]" "ol_op l = op" "ol_phase l = ''VERIFIED''" "tail = []"
      using assms(2) m(4) by (auto simp: end_shape_def)
    then show ?thesis
      using False m(1) mq pre assms(1) take by (simp add: dispatch_shape_def well_logged_def step_lines.simps(2))
  qed
qed

lemma dispatch_emits: "emits (dispatch lib ob g op argv timeout) (dispatch_shape op)"
proof -
  let ?note = "\<lambda>result. case partial_on_exit op of
                 None \<Rightarrow> give ()
               | Some step \<Rightarrow> if ex_returncode result = 0 \<and> \<not> ex_timed_out result then note_partial_mutation step else give ()"
  have noted: "emits (?note result) (\<lambda>r evs. evs = [])" for result
    by (rule emits_weaken [OF emits_only [where P = "\<lambda>_. False"]]) (auto simp: list_all_iff intro: only_rules split: option.split)
  have finish: "emits (and_then (?note result) (\<lambda>_. conclude ob g op result)) (end_shape op)" for result
    by (rule emits_then [OF noted conclude_shape]) (simp_all add: end_shape_def closing_def)
  have run: "emits (and_then (perform lib g op expected timeout) (\<lambda>result. and_then (?note result) (\<lambda>_. conclude ob g op result)))
      (\<lambda>r evs. \<exists>r' mid rest. evs = mid @ rest \<and> (run_shape op r' mid \<and> isl r' \<and> isl r \<and> rest = []
                 \<or> (\<exists>x. r' = Inr x) \<and> run_shape op r' mid \<and> end_shape op r rest))" for expected
  proof (rule emits_then [OF perform_shape finish])
    fix e evs assume "run_shape op (Inl e) evs"
    then show "\<exists>r' mid rest. evs = mid @ rest \<and> (run_shape op r' mid \<and> isl r' \<and> isl (Inl e) \<and> rest = []
                 \<or> (\<exists>x. r' = Inr x) \<and> run_shape op r' mid \<and> end_shape op (Inl e) rest)"
      by (intro exI [of _ "Inl e"] exI [of _ evs] exI [of _ "[]"]) simp
  next
    fix a r evs later assume "run_shape op (Inr a) evs" "end_shape op r later"
    then show "\<exists>r' mid rest. evs @ later = mid @ rest \<and> (run_shape op r' mid \<and> isl r' \<and> isl r \<and> rest = []
                 \<or> (\<exists>x. r' = Inr x) \<and> run_shape op r' mid \<and> end_shape op r rest)"
      by (intro exI [of _ "Inr a"] exI [of _ evs] exI [of _ later]) simp
  qed
  have line: "emits (append_op (op_line g op ''PENDING'')) (\<lambda>r evs. \<not> isl r \<and> evs = [Line (op_line g op ''PENDING'')])"
    by (simp add: emits_def append_op_def note_event_def)
  show ?thesis
    unfolding dispatch_def
  proof (rule emits_then [OF emits_only [OF only_before_pending] emits_then [OF line run]])
    fix e evs assume "list_all (silent_file op) evs"
    then show "dispatch_shape op (Inl e) evs" by (simp add: early_end)
  next
    fix e evs assume "\<not> isl (Inl e :: py_exn + unit) \<and> evs = [Line (op_line g op ''PENDING'')]"
    then show "\<exists>mid rest r'. evs = Line (op_line g op ''PENDING'') # mid @ rest
       \<and> (run_shape op r' mid \<and> isl r' \<and> isl (Inl e) \<and> rest = []
                 \<or> (\<exists>x. r' = Inr x) \<and> run_shape op r' mid \<and> end_shape op (Inl e) rest)" by simp
  next
    fix a r evs later
    assume "\<not> isl (Inr a :: py_exn + unit) \<and> evs = [Line (op_line g op ''PENDING'')]"
      "\<exists>r' mid rest. later = mid @ rest \<and> (run_shape op r' mid \<and> isl r' \<and> isl r \<and> rest = []
                 \<or> (\<exists>x. r' = Inr x) \<and> run_shape op r' mid \<and> end_shape op r rest)"
    then show "\<exists>mid rest r'. evs @ later = Line (op_line g op ''PENDING'') # mid @ rest
       \<and> (run_shape op r' mid \<and> isl r' \<and> isl r \<and> rest = []
                 \<or> (\<exists>x. r' = Inr x) \<and> run_shape op r' mid \<and> end_shape op r rest)" by auto
  next
    fix a r evs later
    assume "list_all (silent_file op) evs"
      "\<exists>mid rest r'. later = Line (op_line g op ''PENDING'') # mid @ rest
       \<and> (run_shape op r' mid \<and> isl r' \<and> isl r \<and> rest = []
                 \<or> (\<exists>x. r' = Inr x) \<and> run_shape op r' mid \<and> end_shape op r rest)"
    then show "dispatch_shape op r (evs @ later)" using pending_start by blast
  qed
qed

text \<open>
  Whatever one operation meets, the trace grows by a well-formed record: only the AppArmor profile may be written
  before the PENDING line, no command runs before it, every command is one that the allowlist accepts, a success ends
  with the VERIFIED line, and a failure leaves PENDING open or closes it with a phase that is not VERIFIED.
\<close>

theorem dispatch_logged:
  "\<exists>evs. ls_trace (snd (dispatch lib ob g op argv timeout s)) = ls_trace s @ evs
     \<and> well_logged op (\<not> isl (fst (dispatch lib ob g op argv timeout s))) evs"
  using dispatch_emits [of lib ob g op argv timeout, unfolded emits_def dispatch_shape_def] by blast

lemma logged_lines: "well_logged op ok evs \<Longrightarrow> step_lines [op] (\<not> ok) (log_lines evs) \<and> list_all accepted_event evs"
  unfolding well_logged_def by blast

lemma step_first:
  assumes "step_lines [op] failed ls"
  shows "failed \<Longrightarrow> step_lines (op # ops) True ls"
    and "\<not> failed \<Longrightarrow> step_lines (op # ops) f (ls @ more_lines) = step_lines ops f more_lines"
  using assms by (auto simp: step_lines.simps(2) take_two split: if_splits)

lemma execute_ops_emits:
  "emits (execute_ops lib ob g ops) (\<lambda>r evs. step_lines ops (isl r) (log_lines evs) \<and> list_all accepted_event evs)"
proof (induction ops)
  case Nil
  show ?case by (simp add: emits_def give_def)
next
  case (Cons op ops)
  let ?X = "\<lambda>ops r evs. step_lines ops (isl r) (log_lines evs) \<and> list_all accepted_event evs"
  have rest: "emits (and_then (execute_ops lib ob g ops) (\<lambda>rest. give (delta # fst rest, front @ snd rest))) (?X ops)"
    for delta front
    by (rule emits_then [OF Cons.IH, where Y = "\<lambda>_ r evs. evs = [] \<and> \<not> isl r"])
      (auto simp: emits_def give_def)
  have one: "emits (and_then (dispatch lib ob g op argv timeout)
       (\<lambda>delta. and_then (execute_ops lib ob g ops) (\<lambda>rest. give (delta # fst rest, front @ snd rest)))) (?X (op # ops))"
    for argv timeout front
  proof (rule emits_then [OF dispatch_emits rest])
    fix e evs assume "dispatch_shape op (Inl e :: py_exn + (string \<times> pyval) list) evs"
    then show "?X (op # ops) (Inl e) evs"
      using logged_lines [of op False evs] step_first(1) [of op True "log_lines evs" ops] by (simp add: dispatch_shape_def)
  next
    fix a r evs later
    assume "dispatch_shape op (Inr a :: py_exn + (string \<times> pyval) list) evs" "?X ops r later"
    then show "?X (op # ops) r (evs @ later)"
      using logged_lines [of op True evs] step_first(2) [of op False "log_lines evs" ops] by (simp add: dispatch_shape_def)
  qed
  show ?case
    unfolding execute_ops.simps
    by (rule emits_then [where X = "\<lambda>r evs. evs = [] \<and> \<not> isl r", OF _ emits_then [where X = "\<lambda>r evs. evs = []", OF _ one]])
      (auto simp: emits_def look_def settle_def step_lines.simps(2))
qed

text \<open>
  C4: the log of a step tells its outcome: a step that returned has PENDING and VERIFIED for each of its operations in
  their order and nothing else; one that raised has these for the operations before the failing one, at most PENDING
  and one phase that is not VERIFIED for that one, and nothing after. Every command of it is an accepted one.
\<close>

theorem execute_step_logged:
  "\<exists>evs. ls_trace (snd (execute_step lib ob g step kind s)) = ls_trace s @ evs
     \<and> step_lines (operations_of (if kind = ''apply'' then STEP_OPERATIONS else ROLLBACK_OPERATIONS) step)
         (isl (fst (execute_step lib ob g step kind s))) (log_lines evs)
     \<and> list_all accepted_event evs"
  using execute_ops_emits [of lib ob g "operations_of (if kind = ''apply'' then STEP_OPERATIONS else ROLLBACK_OPERATIONS) step",
      unfolded emits_def] unfolding execute_step_def by blast

section \<open>What success has checked\<close>

lemma and_then_Inr: "and_then m f s = (Inr b, t) \<longleftrightarrow> (\<exists>a u. m s = (Inr a, u) \<and> f a u = (Inr b, t))"
  by (auto simp: and_then_def split: prod.splits sum.splits)

lemma act_Inr [simp]:
  "give a s = (Inr b, t) \<longleftrightarrow> b = a \<and> t = s" "fail_with e s = (Inr b, t) \<longleftrightarrow> False"
  "stop_with msg cls s = (Inr b, t) \<longleftrightarrow> False" "settle r s = (Inr b, t) \<longleftrightarrow> r = Inr b \<and> t = s"
  "look f s = (Inr c, t) \<longleftrightarrow> c = f (ls_machine s) \<and> t = s" "ensure ok msg s = (Inr u, t) \<longleftrightarrow> ok \<and> t = s"
  "append_op l s = (Inr u, t) \<longleftrightarrow> t = s\<lparr>ls_trace := ls_trace s @ [Line l]\<rparr>"
  by (auto simp: give_def fail_with_def stop_with_def settle_def look_def ensure_def append_op_def note_event_def)

lemma record_never [simp]: "record_docker_failure g op p code s = (Inr b, t) \<longleftrightarrow> False"
  by (simp add: record_docker_failure_def and_then_Inr)

lemma not_verified_never [simp]: "not_verified ob g op result s = (Inr b, t) \<longleftrightarrow> False"
  by (simp add: not_verified_def Let_def and_then_Inr)

lemma dict_case_Inr [simp]:
  "(case v of PDict d \<Rightarrow> f d | _ \<Rightarrow> stop_with msg cls) s = (Inr b, t) \<longleftrightarrow> (\<exists>d. v = PDict d \<and> f d s = (Inr b, t))"
  by (cases v) simp_all

lemma conclude_success:
  assumes "conclude ob g op result s = (Inr delta, t)"
  shows "ls_machine t = ls_machine s"
    and "\<exists>observer. ob = Some observer \<and> ob_verify observer op g (ls_machine s) = Inr ''VERIFIED''
           \<and> ob_delta observer op g (ls_machine s) = Inr (PDict delta)"
    and "ex_returncode result = 0 \<or> ex_disposition result = Some IDEMPOTENT_ABSENT"
  using assms by (auto simp: conclude_def and_then_Inr split: if_splits option.splits)

lemma rehash_plan_Inr: "rehash_plan lib g s = (Inr u, t) \<longleftrightarrow>
    t = s \<and> hash_named (ll_files lib) (fst (ls_machine s)) (join_path (g_tx_dir g) ''PLAN.json'') = Some (g_plan_sha256 g)"
  by (cases "hash_named (ll_files lib) (fst (ls_machine s)) (join_path (g_tx_dir g) ''PLAN.json'')")
    (auto simp: rehash_plan_def and_then_Inr)

lemma runtime_tx_Inr:
  assumes "runtime_tx lib g s = (Inr u, t)"
  shows "t = s" and "\<exists>tx. read_object (ll_files lib) (fst (ls_machine s)) (join_path (g_tx_dir g) ''TRANSACTION.json'') = Inr tx
         \<and> dict_get tx ''transaction_id'' = PStr (g_transaction_id g)
         \<and> dict_get tx ''bundle_digest'' = PStr (g_bundle_digest g)
         \<and> dict_get tx ''state'' = PStr (RUNTIME_STATE (g_command g))"
  using assms by (auto simp: runtime_tx_def and_then_Inr split: if_splits)

lemma check_supplied_Inr:
  assumes "check_supplied op expected argv s = (Inr u, t)"
  shows "argv \<in> {None, Some (case expected of None \<Rightarrow> [] | Some wanted \<Rightarrow> wanted)}"
  using assms by (cases expected; cases argv) (auto simp: check_supplied_def and_then_Inr Let_def)

lemma before_pending_Inr:
  assumes "before_pending lib g op argv s = (Inr expected, t)"
  shows "rehash_plan lib g s = (Inr (), s)" "\<exists>u. runtime_tx lib g s = (Inr u, s)"
    "catalog_for lib g op (fst (ls_machine s)) = Inr expected"
    "argv \<in> {None, Some (case expected of None \<Rightarrow> [] | Some wanted \<Rightarrow> wanted)}"
proof -
  obtain u1 s1 u2 s2 r s3 e s4 u3 s5 s9 where *: "rehash_plan lib g s = (Inr u1, s1)" "runtime_tx lib g s1 = (Inr u2, s2)"
      "look (\<lambda>m. catalog_for lib g op (fst m)) s2 = (Inr r, s3)" "settle r s3 = (Inr e, s4)"
      "check_supplied op e argv s4 = (Inr u3, s5)" "give e s9 = (Inr expected, t)"
    using assms unfolding before_pending_def and_then_Inr by blast
  have same: "s1 = s" "s2 = s" using *(1,2) rehash_plan_Inr runtime_tx_Inr(1) by blast+
  show "rehash_plan lib g s = (Inr (), s)" using *(1) same by simp
  show "\<exists>u. runtime_tx lib g s = (Inr u, s)" using *(2) same by blast
  show "catalog_for lib g op (fst (ls_machine s)) = Inr expected" using *(3,4,6) same by simp
  show "argv \<in> {None, Some (case expected of None \<Rightarrow> [] | Some wanted \<Rightarrow> wanted)}"
    using check_supplied_Inr [OF *(5)] *(6) by simp
qed

text \<open>
  C15: an operation that succeeds ran under the plan bytes and the transaction of the grant, with the argv of the catalog
  and no other, and the observer verified the host as it is at the end; exit 0 alone never makes it succeed.
\<close>

theorem dispatch_success:
  assumes "dispatch lib ob g op argv timeout s = (Inr delta, t)"
  shows "hash_named (ll_files lib) (fst (ls_machine s)) (join_path (g_tx_dir g) ''PLAN.json'') = Some (g_plan_sha256 g)
    \<and> (\<exists>tx. read_object (ll_files lib) (fst (ls_machine s)) (join_path (g_tx_dir g) ''TRANSACTION.json'') = Inr tx
         \<and> dict_get tx ''transaction_id'' = PStr (g_transaction_id g)
         \<and> dict_get tx ''bundle_digest'' = PStr (g_bundle_digest g)
         \<and> dict_get tx ''state'' = PStr (RUNTIME_STATE (g_command g)))
    \<and> (\<exists>expected. catalog_for lib g op (fst (ls_machine s)) = Inr expected
         \<and> argv \<in> {None, Some (case expected of None \<Rightarrow> [] | Some wanted \<Rightarrow> wanted)})
    \<and> (\<exists>observer. ob = Some observer \<and> ob_verify observer op g (ls_machine t) = Inr ''VERIFIED''
         \<and> ob_delta observer op g (ls_machine t) = Inr (PDict delta))"
proof -
  obtain expected s1 s2 result s3 where parts: "before_pending lib g op argv s = (Inr expected, s1)"
      "conclude ob g op result s3 = (Inr delta, t)"
    using assms unfolding dispatch_def and_then_Inr by blast
  note before = before_pending_Inr [OF parts(1)]
  have "hash_named (ll_files lib) (fst (ls_machine s)) (join_path (g_tx_dir g) ''PLAN.json'') = Some (g_plan_sha256 g)"
    using before(1) unfolding rehash_plan_Inr by simp
  moreover have "\<exists>tx. read_object (ll_files lib) (fst (ls_machine s)) (join_path (g_tx_dir g) ''TRANSACTION.json'') = Inr tx
         \<and> dict_get tx ''transaction_id'' = PStr (g_transaction_id g)
         \<and> dict_get tx ''bundle_digest'' = PStr (g_bundle_digest g)
         \<and> dict_get tx ''state'' = PStr (RUNTIME_STATE (g_command g))"
    using before(2) runtime_tx_Inr(2) by blast
  moreover have "argv \<in> {None, Some (case expected of None \<Rightarrow> [] | Some wanted \<Rightarrow> wanted)}"
    by (rule before(4))
  moreover have "\<exists>observer. ob = Some observer \<and> ob_verify observer op g (ls_machine t) = Inr ''VERIFIED''
         \<and> ob_delta observer op g (ls_machine t) = Inr (PDict delta)"
    using conclude_success [OF parts(2)] by auto
  ultimately show ?thesis using before(3) by blast
qed

definition sample_lib :: "unit LiveLib" where
  "sample_lib =
     \<lparr>ll_files = \<lparr>fe_sha = (\<lambda>_. ''aa''),
                 fe_json = (\<lambda>_. Doc (PDict [(''transaction_id'', PStr ''vantio-tx-1''), (''bundle_digest'', PStr ''bb''),
                                          (''state'', PStr ''APPLYING'')]))\<rparr>,
      ll_text = \<lparr>pt_str = (\<lambda>_. []), pt_json_float = (\<lambda>_. [])\<rparr>,
      ll_json = \<lparr>js_loads = (\<lambda>_. None), js_float = (\<lambda>_. [])\<rparr>,
      ll_pins = FROZEN_PINS \<lparr>pp_archive_sha256 = ''aa'', pp_source_commit = [], pp_manifest_digest = [],
                             pp_archive_basename = ''pe.oci.tar''\<rparr>,
      ll_resolve = (\<lambda>p. p), ll_tar = (\<lambda>_. No_Tar), ll_tar_bytes = (\<lambda>_. []), ll_write_json = (\<lambda>_. []),
      ll_decode = (\<lambda>_. None), ll_encode = (\<lambda>_. []), ll_profile_text = [], ll_euid = 0,
      ll_start = (\<lambda>_ _ m. (Not_Started ''FileNotFoundError'', m)),
      ll_runner = Some (\<lambda>_ _ m. (Some (exec_result 0 False [] []), m)),
      ll_read = (\<lambda>_ _. Inr None),
      ll_probe = (\<lambda>_ _ _. \<lparr>dc_returncode = 1, dc_timed_out = False, dc_stdout = [], dc_stderr = []\<rparr>),
      ll_profile_loaded = (\<lambda>_. None), ll_boot_hold = (\<lambda>_ m. (Inr (), m)), ll_remove = (\<lambda>_ _ m. (Inr (), m))\<rparr>"

definition sample_observer :: "unit Observer" where
  "sample_observer =
     \<lparr>ob_verify = (\<lambda>_ _ _. Inr ''VERIFIED''), ob_sample = (\<lambda>_ _ _. None), ob_delta = (\<lambda>_ _ _. Inr (PDict []))\<rparr>"

definition sample_state :: "unit LiveState" where
  "sample_state =
     \<lparr>ls_machine = (\<lambda>p. if p \<in> {''/var/lib/vantio/tx/PLAN.json'', ''/var/lib/vantio/tx/TRANSACTION.json''} then Some [] else None, ()),
      ls_partial = No_File, ls_host_check = None, ls_trace = []\<rparr>"

lemma sample_dispatch:
  "\<exists>delta t. dispatch sample_lib (Some sample_observer) sample_grant ''mkdir_prefix'' None 60 sample_state = (Inr delta, t)"
proof -
  have "(case dispatch sample_lib (Some sample_observer) sample_grant ''mkdir_prefix'' None 60 sample_state of
      (Inl _, _) \<Rightarrow> False | (Inr _, _) \<Rightarrow> True)" by code_simp
  then show ?thesis by (auto split: prod.splits sum.splits)
qed

theorem dispatch_success_witness:
  "hash_named (ll_files sample_lib) (fst (ls_machine sample_state)) (join_path (g_tx_dir sample_grant) ''PLAN.json'') = Some ''aa''"
proof -
  obtain delta t where
    "dispatch sample_lib (Some sample_observer) sample_grant ''mkdir_prefix'' None 60 sample_state = (Inr delta, t)"
    using sample_dispatch by blast
  from dispatch_success [OF this] show ?thesis by (simp add: sample_grant_def)
qed

end
