(* ===== verification/Boot_Ready.thy ===== *)
theory Boot_Ready
  imports Install_Grub Install_Commands "HOL-Library.Multiset"
begin

text \<open>
  \<open>vantio_install/boot_hold/readiness.py\<close> and \<open>lifecycle.py\<close>: the enforce-ready verdict, the live deny
  check behind it and the lifecycle state. The facts are the record \<open>assemble_host_facts\<close> fills; an
  absent entry is the empty text, \<^const>\<open>False\<close> or \<^const>\<open>None\<close>. A command runner answers a command
  line with an exit code that may depend on the commands before it; it is a function of the list of
  those commands, so any host can be one. The entry \<open>probe_detail\<close> of a verdict, a text for the operator,
  is left out; \<open>events\<close> is always given, as it is on a live host.
\<close>

section \<open>Data\<close>

definition SLICE :: string where "SLICE = ''vantio-enrolled.slice''"
definition HOLD_CHAIN :: string where "HOLD_CHAIN = ''VANTIO_BOOT_HOLD''"

type_synonym argv = "string list"
type_synonym runner = "argv list \<Rightarrow> argv \<Rightarrow> int"

record Attachment =
  at_attached :: bool
  at_program :: string
  at_cgroup :: string

record SelfCheck =
  sk_attempted :: bool
  sk_enrolled_denied :: bool
  sk_unenrolled_allowed :: bool
  sk_mechanism :: string
  sk_hold_bypassed :: bool
  sk_block_events :: int
  sk_control_block_events :: int
  sk_exception_removed :: bool
  sk_enrolled_in_slice :: bool
  sk_unenrolled_outside_slice :: bool

record ReadyFacts =
  rf_bpf_pins :: "string list"
  rf_loader_cmdline :: string
  rf_loader_health :: string
  rf_bpf_programs :: string
  rf_attachment :: "Attachment option"
  rf_policy_loaded :: bool
  rf_self_check :: "SelfCheck option"
  rf_enforce_mode :: string
  rf_pins_current :: bool
  rf_expected_policy_id :: string
  rf_loaded_policy_id :: string
  rf_active_lsm :: "string option"

record ReadyVerdict =
  rv_enforce_ready :: bool
  rv_missing_pins :: "string list"
  rv_loader_up :: bool
  rv_program_loaded :: bool
  rv_program_attached :: bool
  rv_policy_loaded :: bool
  rv_policy_version_ok :: bool
  rv_pins_current :: bool
  rv_enforce_mode :: string
  rv_loader_health_ok :: bool
  rv_live_deny :: bool
  rv_deny_mechanism :: string
  rv_reason :: string
  rv_status :: string

section \<open>The verdict\<close>

definition attachment_ok :: "Attachment option \<Rightarrow> bool" where
  "attachment_ok a =
     (case a of
        None \<Rightarrow> False
      | Some x \<Rightarrow> at_attached x \<and> at_program x = ENFORCE_PROGRAM \<and> suffix SLICE (py_rstrip ''/'' (at_cgroup x)))"

definition live_deny_ok :: "SelfCheck option \<Rightarrow> bool" where
  "live_deny_ok c =
     (case c of
        None \<Rightarrow> False
      | Some k \<Rightarrow>
          sk_attempted k \<and> sk_enrolled_denied k \<and> sk_unenrolled_allowed k \<and> sk_mechanism k = ''phantom-engine''
          \<and> sk_hold_bypassed k \<and> sk_block_events k \<ge> 1 \<and> sk_control_block_events k = 0 \<and> sk_exception_removed k
          \<and> sk_enrolled_in_slice k \<and> sk_unenrolled_outside_slice k)"

definition evaluate_ready :: "ReadyFacts \<Rightarrow> ReadyVerdict" where
  "evaluate_ready facts =
     (let missing = filter (\<lambda>name. name \<notin> set (rf_bpf_pins facts)) BPF_PINS;
          cmdline = rf_loader_cmdline facts;
          loader_up = (sublist ''vantio-loader'' cmdline \<and> ''--enforce'' \<in> set (py_words [] cmdline));
          program_loaded = sublist ENFORCE_PROGRAM (rf_bpf_programs facts);
          attached = attachment_ok (rf_attachment facts);
          policy_loaded = (rf_policy_loaded facts \<and> missing = []);
          health_ok = (rf_loader_health facts = ''OK'');
          mode = rf_enforce_mode facts;
          expected = rf_expected_policy_id facts;
          loaded = rf_loaded_policy_id facts;
          version_ok = (expected \<noteq> [] \<and> expected = loaded);
          live_deny = live_deny_ok (rf_self_check facts);
          lsm_blocks = (\<not> bpf_lsm_active (rf_active_lsm facts));
          ready = (\<not> lsm_blocks \<and> loader_up \<and> program_loaded \<and> attached \<and> policy_loaded \<and> health_ok \<and> live_deny
                   \<and> rf_pins_current facts \<and> version_ok \<and> mode \<in> {''scoped'', ''node-wide''});
          rsn = (if lsm_blocks then ''bpf_lsm_inactive''
                 else if ready then ''enforce-ready''
                 else if mode = ''audit'' then ''audit-not-enforce''
                 else if loader_up \<and> (expected = [] \<or> loaded = [] \<or> expected \<noteq> loaded) then ''policy-version-mismatch''
                 else if loader_up \<and> \<not> rf_pins_current facts then ''pins-stale''
                 else if loader_up \<and> program_loaded \<and> \<not> attached then ''loader-running-not-attached''
                 else if loader_up \<and> \<not> live_deny then ''deny-self-check-failed''
                 else ''not-enforce-ready'')
      in \<lparr>rv_enforce_ready = ready, rv_missing_pins = missing, rv_loader_up = loader_up,
          rv_program_loaded = program_loaded, rv_program_attached = attached, rv_policy_loaded = policy_loaded,
          rv_policy_version_ok = version_ok, rv_pins_current = rf_pins_current facts, rv_enforce_mode = mode,
          rv_loader_health_ok = health_ok, rv_live_deny = live_deny,
          rv_deny_mechanism = (case rf_self_check facts of None \<Rightarrow> [] | Some k \<Rightarrow> sk_mechanism k),
          rv_reason = rsn,
          rv_status = (if lsm_blocks then ''INSTALL_ENFORCEMENT_READINESS_BLOCKED'' else [])\<rparr>)"

definition lsm_cmdline_with_bpf :: "string \<Rightarrow> bool \<Rightarrow> string option" where
  "lsm_cmdline_with_bpf current consent =
     (if \<not> consent then None
      else
        (let tokens = filter (\<lambda>p. p \<noteq> []) (map (py_strip spaces) (py_split (CHR '','') current))
         in Some (py_join '','' (if ''bpf'' \<in> set tokens then tokens else tokens @ [''bpf'']))))"

section \<open>The deny check\<close>

record ProbeOutcome =
  po_attached :: bool
  po_enrolled_rc :: "int option"
  po_unenrolled_rc :: "int option"
  po_hold_bypassed :: bool
  po_block_events :: int
  po_control_block_events :: int
  po_exception_removed :: bool
  po_enrolled_cgroup :: string
  po_unenrolled_cgroup :: string
  po_mechanism :: string

definition probe_not_run :: "bool \<Rightarrow> ProbeOutcome" where
  "probe_not_run attached =
     \<lparr>po_attached = attached, po_enrolled_rc = None, po_unenrolled_rc = None, po_hold_bypassed = False,
      po_block_events = 0, po_control_block_events = 0, po_exception_removed = False, po_enrolled_cgroup = [],
      po_unenrolled_cgroup = [], po_mechanism = []\<rparr>"

definition interpret_self_check :: "ProbeOutcome \<Rightarrow> SelfCheck" where
  "interpret_self_check p =
     (let in_slice = sublist SLICE (po_enrolled_cgroup p);
          outside = (po_unenrolled_cgroup p \<noteq> [] \<and> \<not> sublist SLICE (po_unenrolled_cgroup p));
          denied = (po_enrolled_rc p \<noteq> None \<and> po_enrolled_rc p \<noteq> Some 0);
          allowed = (po_unenrolled_rc p = Some 0);
          named =
            (if po_mechanism p \<noteq> [] then po_mechanism p
             else if \<not> po_attached p \<or> po_enrolled_rc p = None \<or> po_unenrolled_rc p = None \<or> \<not> po_hold_bypassed p
             then ''not-run''
             else if po_enrolled_cgroup p = [] \<or> po_unenrolled_cgroup p = [] then ''probe-cgroup-unknown''
             else if \<not> in_slice then ''probe-outside-enrolled''
             else if \<not> outside then ''control-inside-enrolled''
             else if \<not> allowed then ''control-unreachable''
             else if \<not> denied then ''enrolled-allowed''
             else if po_block_events p < 1 then ''unattributed-timeout''
             else if po_control_block_events p > 0 then ''control-blocked''
             else if \<not> po_exception_removed p then ''exception-left-installed''
             else ''phantom-engine'');
          ran = (po_attached p \<and> po_hold_bypassed p)
      in \<lparr>sk_attempted = (ran \<and> po_enrolled_rc p \<noteq> None \<and> po_unenrolled_rc p \<noteq> None),
          sk_enrolled_denied = (if ran then denied else False), sk_unenrolled_allowed = (if ran then allowed else False),
          sk_mechanism = named, sk_hold_bypassed = po_hold_bypassed p, sk_block_events = po_block_events p,
          sk_control_block_events = po_control_block_events p, sk_exception_removed = po_exception_removed p,
          sk_enrolled_in_slice = in_slice, sk_unenrolled_outside_slice = outside\<rparr>)"

definition block_line :: "string \<Rightarrow> bool" where
  "block_line line =
     (let q = [CHR 0x22];
          event = q @ ''EventType'' @ q; block = q @ ''CGROUP_BLOCK'' @ q;
          act = q @ ''ActionTaken'' @ q; blocked = q @ ''BLOCKED'' @ q
      in sublist ''CG/SKB'' line \<and> sublist ''BLOCKED'' line
         \<or> (sublist (event @ '': '' @ block) line \<or> sublist (event @ '':'' @ block) line)
           \<and> (sublist (act @ '': '' @ blocked) line \<or> sublist (act @ '':'' @ blocked) line))"

definition new_block_count :: "string \<Rightarrow> string \<Rightarrow> nat" where
  "new_block_count earlier later =
     size (filter_mset block_line (mset (split_lines [] later) - mset (split_lines [] earlier)))"

definition exception_argv :: "string \<Rightarrow> string \<Rightarrow> nat \<Rightarrow> bool \<Rightarrow> argv" where
  "exception_argv binary host port delete =
     [binary] @ (if delete then [''-D'', HOLD_CHAIN] else [''-I'', HOLD_CHAIN, ''1''])
     @ [''-p'', ''tcp'', ''-d'', host, ''--dport'', num_str 10 port, ''-j'', ''RETURN'']"

text \<open>\<open>connect_argv\<close> with the text of the connecting script as a parameter.\<close>

definition connect_argv :: "string \<Rightarrow> bool \<Rightarrow> argv" where
  "connect_argv script enrolled =
     [''systemd-run'', ''--quiet'', ''--wait'', ''--pipe'', ''--collect'', ''--slice'',
      if enrolled then SLICE else ''system.slice'', ''python3'', ''-c'', script]"

text \<open>
  \<open>perform_deny_self_check\<close>. The runner and \<open>events()\<close> may raise: the answer \<^const>\<open>None\<close>. \<open>dp_events i\<close> is
  the \<open>i\<close>-th call of \<open>events()\<close>, \<open>dp_cgroup\<close> what the probes left behind (the live reader never raises). The
  second component of a result is the list of the commands handed to the runner, a raising one included.
\<close>

type_synonym raising_runner = "argv list \<Rightarrow> argv \<Rightarrow> int option"
type_synonym 'a guarded = "'a option \<times> argv list"

record DenyProbe =
  dp_host :: string
  dp_port :: nat
  dp_script :: "bool \<Rightarrow> string"
  dp_events :: "nat \<Rightarrow> string option"
  dp_cgroup :: "bool \<Rightarrow> string"
  dp_sleeper :: bool

definition issue :: "raising_runner \<Rightarrow> argv \<Rightarrow> argv list \<Rightarrow> int guarded" where
  "issue run c t = (run t c, t @ [c])"

definition unless_raised :: "'a guarded \<Rightarrow> ('a \<Rightarrow> argv list \<Rightarrow> 'b guarded) \<Rightarrow> 'b guarded" where
  "unless_raised r f = (case fst r of None \<Rightarrow> (None, snd r) | Some a \<Rightarrow> f a (snd r))"

text \<open>The body of the \<open>try\<close>: both probes, with the readings of the log between them.\<close>

definition deny_probes ::
  "raising_runner \<Rightarrow> DenyProbe \<Rightarrow> string \<Rightarrow> argv list \<Rightarrow> (int \<times> string \<times> int \<times> string) guarded" where
  "deny_probes run p before t =
     unless_raised (issue run (connect_argv (dp_script p True) True) t) (\<lambda>enrolled_rc t1.
     unless_raised (dp_events p 1, t1) (\<lambda>first t2.
       (let slow = (dp_sleeper p \<and> new_block_count before first < 1) in
        unless_raised (if slow then dp_events p 2 else Some first, t2) (\<lambda>mid t3.
        unless_raised (issue run (connect_argv (dp_script p False) False) t3) (\<lambda>unenrolled_rc t4.
        unless_raised (dp_events p (if slow then 3 else 2), t4) (\<lambda>later t5.
          (Some (enrolled_rc, mid, unenrolled_rc, later), t5)))))))"

text \<open>The first reading comes after the insertion and before the \<open>try\<close>; the \<open>finally\<close> runs the deletion.\<close>

definition perform_deny_self_check :: "raising_runner \<Rightarrow> DenyProbe \<Rightarrow> bool \<Rightarrow> argv list \<Rightarrow> SelfCheck guarded" where
  "perform_deny_self_check run p attached trace =
     (if \<not> attached \<or> dp_host p = [] \<or> dp_port p = 0 then (Some (interpret_self_check (probe_not_run False)), trace)
      else
        (let binary = (if CHR '':'' \<in> set (dp_host p) then ''ip6tables'' else ''iptables'') in
         unless_raised (issue run (exception_argv binary (dp_host p) (dp_port p) False) trace) (\<lambda>rc t1.
           if rc \<noteq> 0 then (Some (interpret_self_check (probe_not_run True)), t1)
           else
             unless_raised (dp_events p 0, t1) (\<lambda>before t2.
               (let (outcome, t3) = deny_probes run p before t2;
                    (deleted, t4) = issue run (exception_argv binary (dp_host p) (dp_port p) True) t3
                in case (deleted, outcome) of
                     (Some gone, Some (enrolled_rc, mid, unenrolled_rc, later)) \<Rightarrow>
                       (Some (interpret_self_check
                          \<lparr>po_attached = True, po_enrolled_rc = Some enrolled_rc, po_unenrolled_rc = Some unenrolled_rc,
                           po_hold_bypassed = True, po_block_events = int (new_block_count before mid),
                           po_control_block_events = int (new_block_count mid later), po_exception_removed = (gone = 0),
                           po_enrolled_cgroup = dp_cgroup p True, po_unenrolled_cgroup = dp_cgroup p False,
                           po_mechanism = []\<rparr>), t4)
                   | _ \<Rightarrow> (None, t4))))))"

section \<open>Facts from the host\<close>

definition attachment_from_show :: "string \<Rightarrow> Attachment" where
  "attachment_from_show txt =
     (let attached = sublist ENFORCE_PROGRAM txt
      in \<lparr>at_attached = attached, at_program = (if attached then ENFORCE_PROGRAM else []),
          at_cgroup = (if attached then ''/sys/fs/cgroup/'' @ SLICE else [])\<rparr>)"

definition attachment_from_log :: "string \<Rightarrow> Attachment" where
  "attachment_from_log txt =
     (if list_ex (\<lambda>line. sublist SLICE line \<and> sublist ''cgroup_skb'' line \<and> sublist ''attached'' line) (split_lines [] txt)
      then \<lparr>at_attached = True, at_program = ENFORCE_PROGRAM, at_cgroup = ''/sys/fs/cgroup/'' @ SLICE\<rparr>
      else \<lparr>at_attached = False, at_program = [], at_cgroup = []\<rparr>)"

definition policy_from_maps :: "string \<Rightarrow> bool \<Rightarrow> bool" where
  "policy_from_maps txt pins_complete = (pins_complete \<and> sublist ''vantio_enforce'' txt)"

definition policy_flags :: "string list" where
  "policy_flags =
     [''--enforce'', ''--cgroup-skb-enforce'', ''--node-wide-enforcement'', ''--startup-enroll-cgroup'', ''--iface'',
      ''--block-port'', ''--enforce-path'']"

fun policy_tokens :: "string list \<Rightarrow> string list" where
  "policy_tokens [] = []"
| "policy_tokens [t] = (if t \<in> set policy_flags then [t] else [])"
| "policy_tokens (t # u # rest) =
     (if t \<in> set policy_flags then
        (if \<not> prefix ''--'' u then t # u # policy_tokens rest else t # policy_tokens (u # rest))
      else policy_tokens (u # rest))"

definition policy_id_from_cmdline :: "string \<Rightarrow> string" where
  "policy_id_from_cmdline cmdline = py_join '' '' (policy_tokens (py_words [] cmdline))"

definition banner_field :: "string \<Rightarrow> string \<Rightarrow> bool" where
  "banner_field value line =
     (let q = [CHR 0x22] in
      sublist (q @ ''ActionTaken'' @ q @ '':'' @ q @ value @ q) line
      \<or> sublist (q @ ''ActionTaken'' @ q @ '': '' @ q @ value @ q) line)"

definition mode_after_line :: "string \<Rightarrow> string \<Rightarrow> string" where
  "mode_after_line mode line =
     (if sublist ''NODE-WIDE DLP'' line \<or> banner_field ''NODE_WIDE'' line then ''node-wide''
      else if sublist ''SCOPED (drop enrolled)'' line \<or> banner_field ''SCOPED'' line then ''scoped''
      else if sublist ''AUDIT (log only)'' line \<or> banner_field ''AUDIT'' line then ''audit''
      else mode)"

definition enforce_mode_from_log :: "string \<Rightarrow> string" where
  "enforce_mode_from_log txt = foldl mode_after_line [] (split_lines [] txt)"

text \<open>\<open>_proc_health\<close>: the state letter after the last closing parenthesis of a \<open>stat\<close> line.\<close>

definition proc_health :: "string \<Rightarrow> string" where
  "proc_health txt =
     (if CHR '')'' \<notin> set txt then []
      else
        (let tail = rev (takeWhile (\<lambda>c. c \<noteq> CHR '')'') (rev txt)) in
         if length tail \<le> 1 then []
         else
           (case py_words [] (drop 1 tail) of
              [] \<Rightarrow> []
            | s # _ \<Rightarrow> if s \<in> {''R'', ''S'', ''D''} then ''OK'' else s)))"

text \<open>What \<open>assemble_host_facts\<close> reads: the pins, the loader process, the security modules, the output
  of \<open>bpftool\<close>, the log, and the result of the live check when it runs.\<close>

record HostProbe =
  hp_pins :: "string list"
  hp_cmdline :: string
  hp_health :: string
  hp_active_lsm :: string
  hp_prog_show :: string
  hp_cgroup_show :: string
  hp_map_show :: string
  hp_loader_log :: string
  hp_pins_current :: bool
  hp_expected_policy_id :: string
  hp_live_check :: "SelfCheck option"

definition assemble_host_facts :: "HostProbe \<Rightarrow> ReadyFacts" where
  "assemble_host_facts h =
     (let loader_live = sublist ''vantio-loader'' (hp_cmdline h);
          live_log = (if loader_live then hp_loader_log h else []);
          shown = attachment_from_show (hp_cgroup_show h);
          attachment = (if at_attached shown then shown else attachment_from_log live_log);
          pins_complete = list_all (\<lambda>name. name \<in> set (hp_pins h)) BPF_PINS;
          mode = enforce_mode_from_log live_log;
          programs = (if at_attached attachment \<and> \<not> sublist ENFORCE_PROGRAM (hp_prog_show h)
                      then py_strip spaces (hp_prog_show h @ [CHR 0x0A] @ ENFORCE_PROGRAM) else hp_prog_show h)
      in \<lparr>rf_bpf_pins = hp_pins h, rf_loader_cmdline = hp_cmdline h, rf_loader_health = hp_health h,
          rf_bpf_programs = programs, rf_attachment = Some attachment,
          rf_policy_loaded =
            (policy_from_maps (hp_map_show h) pins_complete
             \<or> loader_live \<and> pins_complete \<and> mode \<in> {''scoped'', ''node-wide''} \<and> sublist ''Path enforce maps loaded:'' live_log),
          rf_self_check =
            Some (case (if at_attached attachment then hp_live_check h else None) of
                    None \<Rightarrow> interpret_self_check (probe_not_run False)
                  | Some check \<Rightarrow> check),
          rf_enforce_mode = mode, rf_pins_current = hp_pins_current h,
          rf_expected_policy_id = hp_expected_policy_id h,
          rf_loaded_policy_id = policy_id_from_cmdline (hp_cmdline h), rf_active_lsm = Some (hp_active_lsm h)\<rparr>)"

section \<open>The lifecycle state\<close>

definition enforcement_lifecycle ::
  "bool \<Rightarrow> bool \<Rightarrow> bool \<Rightarrow> bool \<Rightarrow> bool \<Rightarrow> ReadyVerdict option \<Rightarrow> string" where
  "enforcement_lifecycle opted_out break_glass failed_safe hold_active obs_ready ready =
     (let has = (\<lambda>f. case ready of None \<Rightarrow> False | Some v \<Rightarrow> f v) in
      if failed_safe then ''FAILED_SAFE''
      else if opted_out then ''OPTED_OUT''
      else if break_glass then ''BREAK_GLASS''
      else if has rv_enforce_ready then ''ENFORCEMENT_READY''
      else if has (\<lambda>v. rv_reason v = ''audit-not-enforce'') \<and> obs_ready then ''OBSERVE_READY''
      else if has rv_program_attached \<and> has rv_loader_up then ''ENFORCEMENT_ATTACHED_NOT_PROVED''
      else if has rv_loader_up \<and> \<not> has rv_program_loaded then ''ENFORCEMENT_LOADING''
      else if obs_ready then ''OBSERVE_READY''
      else if hold_active then ''HELD''
      else ''DEGRADED'')"

section \<open>Lemmas\<close>

definition deny_proved :: "ProbeOutcome \<Rightarrow> bool" where
  "deny_proved p =
     (po_attached p \<and> po_hold_bypassed p \<and> po_exception_removed p
      \<and> sublist SLICE (po_enrolled_cgroup p) \<and> po_unenrolled_cgroup p \<noteq> [] \<and> \<not> sublist SLICE (po_unenrolled_cgroup p)
      \<and> (\<exists>rc. po_enrolled_rc p = Some rc \<and> rc \<noteq> 0) \<and> po_unenrolled_rc p = Some 0
      \<and> po_block_events p \<ge> 1 \<and> po_control_block_events p = 0)"

lemma slice_nonempty: "\<not> sublist SLICE []"
  by (simp add: SLICE_def)

lemma live_deny_interpret:
  assumes "po_mechanism p = []" "po_control_block_events p \<ge> 0"
  shows "live_deny_ok (Some (interpret_self_check p)) \<longleftrightarrow> deny_proved p"
  using assms slice_nonempty
  by (cases "po_enrolled_rc p"; cases "po_unenrolled_rc p")
    (auto simp: live_deny_ok_def interpret_self_check_def deny_proved_def Let_def)

lemma not_run_denied: "\<not> live_deny_ok (Some (interpret_self_check (probe_not_run b)))"
  by (simp add: live_deny_ok_def interpret_self_check_def probe_not_run_def Let_def)

end
