(* ===== verification/Boot_Net.thy ===== *)
theory Boot_Net
  imports Boot_Ready Boot_Policy
begin

text \<open>
  \<open>vantio_install/boot_hold/net.py\<close>: the packet hold. \<open>iptables\<close> and \<open>ip6tables\<close> are behind the runner, a
  function from the commands run so far and the next command to its exit code; an operation returns its
  result and the extended list of commands.
\<close>

section \<open>Definitions\<close>

type_synonym 'a traced = "(BootHoldError + 'a) \<times> argv list"

definition then_t :: "'a traced \<Rightarrow> ('a \<Rightarrow> argv list \<Rightarrow> 'b traced) \<Rightarrow> 'b traced" where
  "then_t r f = (case fst r of Inl e \<Rightarrow> (Inl e, snd r) | Inr a \<Rightarrow> f a (snd r))"

definition FORBIDDEN_TOKENS :: "string list" where
  "FORBIDDEN_TOKENS =
     [''route'', ''blackhole'', ''0.0.0.0/0'', ''::/0'', ''-P'', ''iptables-restore'', ''ip6tables-restore'']"

definition families :: "BootPolicy \<Rightarrow> (string \<times> string) list" where
  "families p = [(''iptables'', bp_subnet_v4 p), (''ip6tables'', bp_subnet_v6 p)]"

definition argv_problems :: "argv \<Rightarrow> string list" where
  "argv_problems argv =
     (let blob = py_join '' '' argv in
      map (\<lambda>token. ''command contains '' @ [CHR 0x27] @ token @ [CHR 0x27] @ '': '' @ blob)
        (filter (\<lambda>token. sublist token blob) FORBIDDEN_TOKENS)
      @ (if (''FORWARD'' \<in> set argv \<or> ''OUTPUT'' \<in> set argv)
            \<and> \<not> (''cgroup'' \<in> set argv \<or> ''-s'' \<in> set argv)
            \<and> ''-D'' \<notin> set argv \<and> ''-F'' \<notin> set argv \<and> ''-X'' \<notin> set argv \<and> ''-N'' \<notin> set argv
         then [''filter jump is not scoped to a cgroup or enrolled subnet: '' @ blob] else []))"

definition commands_are_scoped :: "argv list \<Rightarrow> string list" where
  "commands_are_scoped calls = concat (map argv_problems calls)"

definition required :: "runner \<Rightarrow> argv \<Rightarrow> argv list \<Rightarrow> unit traced" where
  "required run argv t =
     (if run t argv \<noteq> 0 then (Inl (hold_error (''Host command failed: '' @ py_join '' '' argv)), t @ [argv])
      else (Inr (), t @ [argv]))"

text \<open>The command \<open>[binary, flag, chain] + spec\<close>, and the two jump rules of a family as chain and specification.\<close>

definition rule_argv :: "string \<Rightarrow> string \<Rightarrow> string \<times> string list \<Rightarrow> argv" where
  "rule_argv binary flag rule = [binary, flag, fst rule] @ snd rule"

definition insert_argv :: "string \<Rightarrow> string \<times> string list \<Rightarrow> argv" where
  "insert_argv binary rule = [binary, ''-I'', fst rule, ''1''] @ snd rule"

definition output_rule :: "BootPolicy \<Rightarrow> string \<times> string list" where
  "output_rule p = (''OUTPUT'', [''-m'', ''cgroup'', ''--path'', bp_cgroup_slice p, ''-j'', HOLD_CHAIN])"

definition forward_rule :: "string \<Rightarrow> string \<times> string list" where
  "forward_rule subnet = (''FORWARD'', [''-s'', subnet, ''-j'', HOLD_CHAIN])"

definition ensure_rule :: "runner \<Rightarrow> string \<Rightarrow> string \<times> string list \<Rightarrow> argv list \<Rightarrow> unit traced" where
  "ensure_rule run binary rule t =
     (let check = rule_argv binary ''-C'' rule in
      if run t check \<noteq> 0 then required run (insert_argv binary rule) (t @ [check]) else (Inr (), t @ [check]))"

definition hold_family :: "runner \<Rightarrow> BootPolicy \<Rightarrow> string \<times> string \<Rightarrow> argv list \<Rightarrow> unit traced" where
  "hold_family run p fam t =
     (let binary = fst fam in
      then_t (required run [binary, ''-F'', HOLD_CHAIN] (t @ [[binary, ''-N'', HOLD_CHAIN]])) (\<lambda>_ t1.
      then_t (required run [binary, ''-A'', HOLD_CHAIN, ''-j'', ''DROP''] t1) (\<lambda>_ t2.
      then_t (ensure_rule run binary (output_rule p) t2) (\<lambda>_ t3.
      ensure_rule run binary (forward_rule (snd fam)) t3))))"

fun hold_families :: "runner \<Rightarrow> BootPolicy \<Rightarrow> (string \<times> string) list \<Rightarrow> argv list \<Rightarrow> unit traced" where
  "hold_families run p [] t = (Inr (), t)"
| "hold_families run p (fam # fams) t = then_t (hold_family run p fam t) (\<lambda>_ t1. hold_families run p fams t1)"

definition scope_check :: "string \<Rightarrow> argv list \<Rightarrow> argv list \<Rightarrow> unit traced" where
  "scope_check refusal t t1 =
     (case commands_are_scoped (drop (length t) t1) of
        [] \<Rightarrow> (Inr (), t1)
      | problem # _ \<Rightarrow> (Inl (hold_error (refusal @ problem)), t1))"

definition install_hold :: "runner \<Rightarrow> BootPolicy \<Rightarrow> argv list \<Rightarrow> unit traced" where
  "install_hold run p t =
     then_t (hold_families run p (families p) t) (\<lambda>_ t1. scope_check ''Refusing a host-wide hold. '' t t1)"

fun delete_rule :: "runner \<Rightarrow> argv \<Rightarrow> nat \<Rightarrow> argv list \<Rightarrow> argv list" where
  "delete_rule run argv 0 t = t"
| "delete_rule run argv (Suc n) t =
     (if run t argv \<noteq> 0 then t @ [argv] else delete_rule run argv n (t @ [argv]))"

definition lift_family :: "runner \<Rightarrow> BootPolicy \<Rightarrow> string \<times> string \<Rightarrow> argv list \<Rightarrow> argv list" where
  "lift_family run p fam t =
     delete_rule run (rule_argv (fst fam) ''-D'' (forward_rule (snd fam))) 8
       (delete_rule run (rule_argv (fst fam) ''-D'' (output_rule p)) 8 t)
     @ [[fst fam, ''-F'', HOLD_CHAIN], [fst fam, ''-X'', HOLD_CHAIN]]"

definition remove_hold :: "runner \<Rightarrow> BootPolicy \<Rightarrow> argv list \<Rightarrow> unit traced" where
  "remove_hold run p t =
     scope_check ''Refusing a host-wide hold change. '' t (fold (lift_family run p) (families p) t)"

section \<open>The commands\<close>

lemma then_t_simps [simp]:
  "then_t (Inl e, t) f = (Inl e, t)"
  "then_t (Inr a, t) f = f a t"
  by (simp_all add: then_t_def)

text \<open>The command lines of the hold: one family, the chain, and the two scoped jumps.\<close>

definition hold_argvs :: "BootPolicy \<Rightarrow> argv list" where
  "hold_argvs p =
     concat (map (\<lambda>(binary, subnet).
       [[binary, ''-N'', HOLD_CHAIN], [binary, ''-F'', HOLD_CHAIN], [binary, ''-X'', HOLD_CHAIN],
        [binary, ''-A'', HOLD_CHAIN, ''-j'', ''DROP'']]
       @ concat (map (\<lambda>rule. [insert_argv binary rule, rule_argv binary ''-C'' rule, rule_argv binary ''-D'' rule])
           [output_rule p, forward_rule subnet])) (families p))"

definition extends :: "argv set \<Rightarrow> nat \<Rightarrow> argv list \<Rightarrow> argv list \<Rightarrow> bool" where
  "extends cmds n t t' = (\<exists>new. t' = t @ new \<and> set new \<subseteq> cmds \<and> length new \<le> n)"

lemma extends_refl: "extends cmds n t t"
  by (simp add: extends_def)

lemma extends_snoc: "c \<in> cmds \<Longrightarrow> 1 \<le> n \<Longrightarrow> extends cmds n t (t @ [c])"
  by (simp add: extends_def)

lemma extends_trans: "extends cmds m t t' \<Longrightarrow> extends cmds n t' t'' \<Longrightarrow> extends cmds (m + n) t t''"
  unfolding extends_def by fastforce

lemma extends_mono: "extends cmds m t t' \<Longrightarrow> m \<le> n \<Longrightarrow> extends cmds n t t'"
  unfolding extends_def by fastforce

lemma extends_then_t:
  assumes "extends cmds m t (snd r)" and "\<And>a t'. r = (Inr a, t') \<Longrightarrow> extends cmds n t' (snd (f a t'))"
  shows "extends cmds (m + n) t (snd (then_t r f))"
proof (cases r)
  case (Pair x t')
  then show ?thesis
    using assms by (cases x) (auto intro: extends_trans extends_mono)
qed

lemma extends_required: "argv \<in> cmds \<Longrightarrow> extends cmds 1 t (snd (required run argv t))"
  by (simp add: required_def extends_snoc)

lemma extends_ensure:
  assumes "rule_argv b ''-C'' rule \<in> cmds" "insert_argv b rule \<in> cmds"
  shows "extends cmds 2 t (snd (ensure_rule run b rule t))"
  using assms extends_trans [OF extends_snoc extends_required, of "rule_argv b ''-C'' rule" cmds 1 "insert_argv b rule"]
  by (auto simp: ensure_rule_def Let_def numeral_2_eq_2 intro: extends_snoc)

lemma hold_argvs_scoped_list: "list_all (\<lambda>c. argv_problems c = []) (hold_argvs hold_default_policy)"
  by code_simp

lemma hold_argvs_scoped: "scoped_policy p \<Longrightarrow> hold_argvs p = hold_argvs hold_default_policy"
  by (simp add: hold_argvs_def families_def output_rule_def scoped_policy_def hold_default_policy_def)

lemma no_problems:
  assumes "scoped_policy p" "set cmds \<subseteq> set (hold_argvs p)"
  shows "commands_are_scoped cmds = []"
  using assms hold_argvs_scoped_list unfolding commands_are_scoped_def hold_argvs_scoped [OF assms(1)]
  by (auto simp: list_all_iff)

lemma family_argvs:
  assumes "(b, subnet) \<in> set (families p)"
  shows "rule_argv b ''-C'' (output_rule p) \<in> set (hold_argvs p)" "rule_argv b ''-D'' (output_rule p) \<in> set (hold_argvs p)"
    "insert_argv b (output_rule p) \<in> set (hold_argvs p)"
    "rule_argv b ''-C'' (forward_rule subnet) \<in> set (hold_argvs p)"
    "rule_argv b ''-D'' (forward_rule subnet) \<in> set (hold_argvs p)"
    "insert_argv b (forward_rule subnet) \<in> set (hold_argvs p)" "[b, ''-N'', HOLD_CHAIN] \<in> set (hold_argvs p)"
    "[b, ''-F'', HOLD_CHAIN] \<in> set (hold_argvs p)" "[b, ''-X'', HOLD_CHAIN] \<in> set (hold_argvs p)"
    "[b, ''-A'', HOLD_CHAIN, ''-j'', ''DROP''] \<in> set (hold_argvs p)"
  using assms unfolding hold_argvs_def by fastforce+

lemma extends_hold_family:
  assumes "fam \<in> set (families p)"
  shows "extends (set (hold_argvs p)) 7 t (snd (hold_family run p fam t))"
proof -
  obtain b subnet where fam: "fam = (b, subnet)" by (cases fam)
  note argvs = family_argvs [OF assms [unfolded fam]]
  have "extends (set (hold_argvs p)) (1 + (1 + (2 + 2))) (t @ [[b, ''-N'', HOLD_CHAIN]]) (snd (hold_family run p fam t))"
    unfolding hold_family_def Let_def fam fst_conv snd_conv
    by (intro extends_then_t extends_ensure extends_required argvs)
  then have "extends (set (hold_argvs p)) (1 + (1 + (1 + (2 + 2)))) t (snd (hold_family run p fam t))"
    by (rule extends_trans [OF extends_snoc [OF argvs(7)], rotated]) simp
  then show ?thesis by simp
qed

lemma extends_hold_families:
  "set fams \<subseteq> set (families p) \<Longrightarrow>
   extends (set (hold_argvs p)) (7 * length fams) t (snd (hold_families run p fams t))"
proof (induction fams arbitrary: t)
  case (Cons fam fams)
  then have "extends (set (hold_argvs p)) (7 + 7 * length fams) t (snd (hold_families run p (fam # fams) t))"
    unfolding hold_families.simps by (intro extends_then_t) (auto intro: extends_hold_family)
  then show ?case by simp
qed (simp add: extends_refl)

lemma extends_delete: "argv \<in> cmds \<Longrightarrow> extends cmds n t (delete_rule run argv n t)"
proof (induction n arbitrary: t)
  case (Suc n)
  then show ?case
    using extends_trans [OF extends_snoc [of argv cmds 1 t] Suc.IH [of "t @ [argv]"]] by (auto intro: extends_snoc)
qed (simp add: extends_refl)

lemma extends_lift_family:
  assumes "fam \<in> set (families p)"
  shows "extends (set (hold_argvs p)) 18 t (lift_family run p fam t)"
proof -
  obtain b subnet where fam: "fam = (b, subnet)" by (cases fam)
  note argvs = family_argvs [OF assms [unfolded fam]]
  have "extends (set (hold_argvs p)) 2 u (u @ [[b, ''-F'', HOLD_CHAIN], [b, ''-X'', HOLD_CHAIN]])" for u
    using argvs by (auto simp: extends_def)
  then have "extends (set (hold_argvs p)) (8 + (8 + 2)) t (lift_family run p fam t)"
    unfolding lift_family_def fam fst_conv snd_conv
    by (intro extends_trans [OF extends_delete extends_trans [OF extends_delete]]) (rule argvs | assumption)+
  then show ?thesis by simp
qed

lemma scope_check_ok:
  assumes "scoped_policy p" "extends (set (hold_argvs p)) n t t'"
  shows "scope_check refusal t t' = (Inr (), t')"
  using assms by (auto simp: scope_check_def extends_def no_problems)

lemma extends_lift_families:
  "set fams \<subseteq> set (families p) \<Longrightarrow>
   extends (set (hold_argvs p)) (18 * length fams) t (fold (lift_family run p) fams t)"
proof (induction fams arbitrary: t)
  case (Cons fam fams)
  then show ?case
    using extends_trans [OF extends_lift_family [of fam p t run] Cons.IH [of "lift_family run p fam t"]] by simp
qed (simp add: extends_refl)

lemma install_hold_run:
  assumes "scoped_policy p"
  shows "install_hold run p t = hold_families run p (families p) t"
    and "extends (set (hold_argvs p)) 14 t (snd (install_hold run p t))"
proof -
  have e: "extends (set (hold_argvs p)) 14 t (snd (hold_families run p (families p) t))"
    using extends_hold_families [of "families p" p t run] by (simp add: families_def)
  show "install_hold run p t = hold_families run p (families p) t"
  proof (cases "hold_families run p (families p) t")
    case (Pair r t')
    with e scope_check_ok [OF assms] show ?thesis by (cases r) (auto simp: install_hold_def)
  qed
  with e show "extends (set (hold_argvs p)) 14 t (snd (install_hold run p t))" by simp
qed

lemma remove_hold_run:
  assumes "scoped_policy p"
  shows "remove_hold run p t = (Inr (), fold (lift_family run p) (families p) t)"
    and "extends (set (hold_argvs p)) 36 t (snd (remove_hold run p t))"
proof -
  have e: "extends (set (hold_argvs p)) 36 t (fold (lift_family run p) (families p) t)"
    using extends_lift_families [of "families p" p t run] by (simp add: families_def)
  then show "remove_hold run p t = (Inr (), fold (lift_family run p) (families p) t)"
    using scope_check_ok [OF assms] by (simp add: remove_hold_def)
  with e show "extends (set (hold_argvs p)) 36 t (snd (remove_hold run p t))" by simp
qed

section \<open>The effect on a packet filter\<close>

text \<open>
  What the hold relies on of \<open>iptables\<close> and \<open>ip6tables\<close>. \<open>tab t b ch\<close> are the rules of chain \<open>ch\<close> in the filter table
  of \<open>b\<close> after the commands \<open>t\<close>, each as the specification it was given, or \<^const>\<open>None\<close> without the chain; nothing
  else changes the tables in between. A command that fails changes nothing. One that succeeds creates, flushes or
  deletes the chain, appends, checks, inserts at the front or deletes the first such rule, as the manual page says;
  a flush succeeds exactly on a chain that is there, a check and a delete exactly on a rule that is there, and an
  empty chain that no rule jumps to can be deleted.
\<close>

type_synonym chains = "string \<Rightarrow> string list list option"
type_synonym tables = "string \<Rightarrow> chains"

definition set_chain :: "string \<Rightarrow> string \<Rightarrow> string list list option \<Rightarrow> tables \<Rightarrow> tables" where
  "set_chain b ch rs T = T(b := (T b)(ch := rs))"

definition rules_in :: "tables \<Rightarrow> string \<Rightarrow> string \<Rightarrow> string list list" where
  "rules_in T b ch = (case T b ch of None \<Rightarrow> [] | Some rs \<Rightarrow> rs)"

definition copies :: "tables \<Rightarrow> string \<Rightarrow> string \<times> string list \<Rightarrow> nat" where
  "copies T b rule = count_list (rules_in T b (fst rule)) (snd rule)"

text \<open>Some rule of the table jumps to the hold chain.\<close>

definition jumped :: "chains \<Rightarrow> bool" where
  "jumped C = (\<exists>ch rs r. C ch = Some rs \<and> r \<in> set rs \<and> sublist [''-j'', HOLD_CHAIN] r)"

definition takes :: "runner \<Rightarrow> (argv list \<Rightarrow> tables) \<Rightarrow> argv list \<Rightarrow> argv \<Rightarrow> tables \<Rightarrow> bool" where
  "takes run tab t c T = (tab (t @ [c]) = (if run t c = 0 then T else tab t))"

definition chain_laws :: "runner \<Rightarrow> (argv list \<Rightarrow> tables) \<Rightarrow> argv list \<Rightarrow> string \<Rightarrow> bool" where
  "chain_laws run tab t b =
     (let T = tab t; H = HOLD_CHAIN in
      takes run tab t [b, ''-N'', H] (set_chain b H (Some []) T) \<and> (run t [b, ''-N'', H] = 0 \<longrightarrow> T b H = None)
      \<and> takes run tab t [b, ''-F'', H] (set_chain b H (Some []) T) \<and> (run t [b, ''-F'', H] = 0 \<longleftrightarrow> T b H \<noteq> None)
      \<and> takes run tab t [b, ''-A'', H, ''-j'', ''DROP''] (set_chain b H (Some (rules_in T b H @ [[''-j'', ''DROP'']])) T)
      \<and> (run t [b, ''-A'', H, ''-j'', ''DROP''] = 0 \<longrightarrow> T b H \<noteq> None)
      \<and> takes run tab t [b, ''-X'', H] (set_chain b H None T) \<and> (run t [b, ''-X'', H] = 0 \<longrightarrow> T b H = Some [])
      \<and> (T b H = Some [] \<and> \<not> jumped (T b) \<longrightarrow> run t [b, ''-X'', H] = 0))"

definition rule_laws :: "runner \<Rightarrow> (argv list \<Rightarrow> tables) \<Rightarrow> argv list \<Rightarrow> string \<Rightarrow> string \<times> string list \<Rightarrow> bool" where
  "rule_laws run tab t b rule =
     (let T = tab t; rs = rules_in T b (fst rule) in
      tab (t @ [rule_argv b ''-C'' rule]) = T \<and> (run t (rule_argv b ''-C'' rule) = 0 \<longleftrightarrow> snd rule \<in> set rs)
      \<and> takes run tab t (rule_argv b ''-D'' rule) (set_chain b (fst rule) (Some (remove1 (snd rule) rs)) T)
      \<and> (run t (rule_argv b ''-D'' rule) = 0 \<longleftrightarrow> snd rule \<in> set rs)
      \<and> takes run tab t (insert_argv b rule) (set_chain b (fst rule) (Some (snd rule # rs)) T)
      \<and> (run t (insert_argv b rule) = 0 \<longrightarrow> T b (fst rule) \<noteq> None))"

definition filter_laws :: "runner \<Rightarrow> (argv list \<Rightarrow> tables) \<Rightarrow> BootPolicy \<Rightarrow> bool" where
  "filter_laws run tab p =
     (\<forall>t. \<forall>(b, s) \<in> set (families p).
        chain_laws run tab t b \<and> rule_laws run tab t b (output_rule p) \<and> rule_laws run tab t b (forward_rule s))"

definition jump_rules :: "BootPolicy \<Rightarrow> (string \<times> (string \<times> string list)) list" where
  "jump_rules p = concat (map (\<lambda>(b, subnet). [(b, output_rule p), (b, forward_rule subnet)]) (families p))"

lemma filter_lawsD:
  assumes "filter_laws run tab p" "(b, s) \<in> set (families p)"
  shows "chain_laws run tab t b" "rule_laws run tab t b (output_rule p)" "rule_laws run tab t b (forward_rule s)"
  using assms unfolding filter_laws_def by blast+

lemma rule_names [simp]:
  "fst (output_rule p) = ''OUTPUT''" "fst (forward_rule s) = ''FORWARD''" "HOLD_CHAIN \<noteq> ''OUTPUT''" "HOLD_CHAIN \<noteq> ''FORWARD''"
  "''OUTPUT'' \<noteq> HOLD_CHAIN" "''FORWARD'' \<noteq> HOLD_CHAIN"
  by (simp_all add: output_rule_def forward_rule_def HOLD_CHAIN_def)

lemma set_chain_simps [simp]:
  "b' \<noteq> b \<Longrightarrow> set_chain b ch rs T b' = T b'" "set_chain b ch rs T b = (T b)(ch := rs)"
  "set_chain b ch x (set_chain b ch y T) = set_chain b ch x T"
  by (auto simp: set_chain_def)

lemma in_rules: "x \<in> set (rules_in T b ch) \<longleftrightarrow> (\<exists>rs. T b ch = Some rs \<and> x \<in> set rs)"
  by (cases "T b ch") (simp_all add: rules_in_def)

lemma set_chain_same: "T b ch = rs \<Longrightarrow> set_chain b ch rs T = T"
  by (auto simp: set_chain_def)

subsection \<open>Deleting\<close>

abbreviation drop_copies :: "nat \<Rightarrow> 'a \<Rightarrow> 'a list \<Rightarrow> 'a list" where
  "drop_copies n x \<equiv> remove1 x ^^ n"

lemma drop_copies_none: "x \<notin> set xs \<Longrightarrow> drop_copies n x xs = xs"
  by (induction n) (simp_all add: remove1_idem)

lemma drop_copies_Suc: "drop_copies (Suc n) x xs = drop_copies n x (remove1 x xs)"
  by (simp add: funpow_swap1)

lemma count_remove1: "count_list (remove1 x xs) x = count_list xs x - 1"
  by (induction xs) (auto simp: count_list_0_iff)

lemma count_drop_copies: "count_list (drop_copies n x xs) x = count_list xs x - n"
  by (induction n) (simp_all add: count_remove1)

lemma delete_rule_tables:
  assumes "\<And>t. rule_laws run tab t b rule"
  shows "tab (delete_rule run (rule_argv b ''-D'' rule) n t)
    = set_chain b (fst rule) (map_option (drop_copies n (snd rule)) (tab t b (fst rule))) (tab t)"
proof (induction n arbitrary: t)
  case 0
  show ?case by (simp add: set_chain_same option.map_ident)
next
  case (Suc n)
  let ?d = "rule_argv b ''-D'' rule"
  have law: "tab (t @ [?d]) = (if run t ?d = 0 then set_chain b (fst rule) (Some (remove1 (snd rule) (rules_in (tab t) b (fst rule)))) (tab t) else tab t)"
    "run t ?d = 0 \<longleftrightarrow> snd rule \<in> set (rules_in (tab t) b (fst rule))"
    using assms [of t] by (auto simp: rule_laws_def takes_def Let_def)
  show ?case
  proof (cases "run t ?d = 0")
    case True
    with law(2) obtain rs where rs: "tab t b (fst rule) = Some rs" unfolding in_rules by blast
    with True law(1) Suc [of "t @ [?d]"] show ?thesis by (simp add: rules_in_def drop_copies_Suc del: funpow.simps)
  next
    case False
    then have "map_option (drop_copies (Suc n) (snd rule)) (tab t b (fst rule)) = tab t b (fst rule)"
      using law(2) by (cases "tab t b (fst rule)") (auto simp: rules_in_def drop_copies_none simp del: funpow.simps)
    with False law(1) show ?thesis by (simp add: set_chain_same del: funpow.simps)
  qed
qed

lemma flush_delete_tables:
  assumes "\<And>t. chain_laws run tab t b"
  shows "b' \<noteq> b \<or> ch \<noteq> HOLD_CHAIN \<Longrightarrow> tab (t @ [[b, ''-F'', HOLD_CHAIN], [b, ''-X'', HOLD_CHAIN]]) b' ch = tab t b' ch"
    and "tab t b HOLD_CHAIN \<noteq> None \<Longrightarrow> \<not> jumped ((tab t b)(HOLD_CHAIN := Some []))
      \<Longrightarrow> tab (t @ [[b, ''-F'', HOLD_CHAIN], [b, ''-X'', HOLD_CHAIN]]) = set_chain b HOLD_CHAIN None (tab t)"
proof -
  note law = assms [unfolded chain_laws_def takes_def Let_def]
  have app: "t @ [x, y] = (t @ [x]) @ [y]" for x y :: argv by simp
  show "tab (t @ [[b, ''-F'', HOLD_CHAIN], [b, ''-X'', HOLD_CHAIN]]) b' ch = tab t b' ch" if "b' \<noteq> b \<or> ch \<noteq> HOLD_CHAIN"
    using law [of t] law [of "t @ [[b, ''-F'', HOLD_CHAIN]]"] that unfolding app by (cases "b' = b") auto
  show "tab (t @ [[b, ''-F'', HOLD_CHAIN], [b, ''-X'', HOLD_CHAIN]]) = set_chain b HOLD_CHAIN None (tab t)"
    if "tab t b HOLD_CHAIN \<noteq> None" "\<not> jumped ((tab t b)(HOLD_CHAIN := Some []))"
    using law [of t] law [of "t @ [[b, ''-F'', HOLD_CHAIN]]"] that unfolding app by simp
qed

lemma lift_family_tables:
  assumes "filter_laws run tab p" "(b, s) \<in> set (families p)"
  defines "u \<equiv> \<lambda>t. delete_rule run (rule_argv b ''-D'' (forward_rule s)) 8 (delete_rule run (rule_argv b ''-D'' (output_rule p)) 8 t)"
  shows "tab (u t) = set_chain b ''FORWARD'' (map_option (drop_copies 8 (snd (forward_rule s))) (tab t b ''FORWARD''))
      (set_chain b ''OUTPUT'' (map_option (drop_copies 8 (snd (output_rule p))) (tab t b ''OUTPUT'')) (tab t))"
    and "lift_family run p (b, s) t = u t @ [[b, ''-F'', HOLD_CHAIN], [b, ''-X'', HOLD_CHAIN]]"
  using delete_rule_tables [OF filter_lawsD(2) [OF assms(1,2)]] delete_rule_tables [OF filter_lawsD(3) [OF assms(1,2)]]
  by (simp_all add: u_def lift_family_def del: funpow.simps)

lemma lift_family_chains:
  assumes "filter_laws run tab p" "(b, s) \<in> set (families p)"
  shows "b' \<noteq> b \<Longrightarrow> tab (lift_family run p (b, s) t) b' = tab t b'"
    and "tab (lift_family run p (b, s) t) b ''OUTPUT'' = map_option (drop_copies 8 (snd (output_rule p))) (tab t b ''OUTPUT'')"
    and "tab (lift_family run p (b, s) t) b ''FORWARD'' = map_option (drop_copies 8 (snd (forward_rule s))) (tab t b ''FORWARD'')"
  using flush_delete_tables(1) [OF filter_lawsD(1) [OF assms]]
  by (auto simp: lift_family_tables [OF assms] simp del: funpow.simps)

text \<open>What a family of the hold looks like.\<close>

definition in_front :: "'a \<Rightarrow> 'a list \<Rightarrow> 'a list" where
  "in_front x xs = (if x \<in> set xs then xs else x # xs)"

definition held_chains :: "BootPolicy \<Rightarrow> string \<Rightarrow> chains \<Rightarrow> chains" where
  "held_chains p s C =
     C(HOLD_CHAIN \<mapsto> [[''-j'', ''DROP'']],
       ''OUTPUT'' \<mapsto> in_front (snd (output_rule p)) (the (C ''OUTPUT'')),
       ''FORWARD'' \<mapsto> in_front (snd (forward_rule s)) (the (C ''FORWARD'')))"

definition built_in :: "chains \<Rightarrow> bool" where
  "built_in C = (C ''OUTPUT'' \<noteq> None \<and> C ''FORWARD'' \<noteq> None)"

lemma jump_spec: "sublist [''-j'', HOLD_CHAIN] (snd (output_rule p))" "sublist [''-j'', HOLD_CHAIN] (snd (forward_rule s))"
  by (simp_all add: output_rule_def forward_rule_def sublist_Cons_right)

lemma drop_in_front: "x \<notin> set xs \<Longrightarrow> drop_copies 8 x (in_front x xs) = xs"
  by (simp add: in_front_def eval_nat_numeral drop_copies_Suc drop_copies_none remove1_idem del: funpow.simps)

lemma lift_family_restores:
  assumes "filter_laws run tab p" "(b, s) \<in> set (families p)"
    and "tab t b = held_chains p s C" "built_in C" "C HOLD_CHAIN = None" "\<not> jumped C"
  shows "tab (lift_family run p (b, s) t) = (tab t)(b := C)"
proof -
  let ?u = "delete_rule run (rule_argv b ''-D'' (forward_rule s)) 8 (delete_rule run (rule_argv b ''-D'' (output_rule p)) 8 t)"
  obtain os fs where C: "C ''OUTPUT'' = Some os" "C ''FORWARD'' = Some fs" using assms(4) by (auto simp: built_in_def)
  have new: "snd (output_rule p) \<notin> set os" "snd (forward_rule s) \<notin> set fs"
    using assms(6) C jump_spec unfolding jumped_def by blast+
  have u: "tab ?u b = C(HOLD_CHAIN \<mapsto> [[''-j'', ''DROP'']])" "\<And>b'. b' \<noteq> b \<Longrightarrow> tab ?u b' = tab t b'"
    using lift_family_tables(1) [OF assms(1,2), of t] C assms(3) new
    by (auto simp: held_chains_def drop_in_front fun_upd_twist simp del: funpow.simps)
  have "\<not> jumped ((tab ?u b)(HOLD_CHAIN := Some []))"
    using assms(6) by (auto simp: u(1) jumped_def split: if_splits)
  then have "tab (?u @ [[b, ''-F'', HOLD_CHAIN], [b, ''-X'', HOLD_CHAIN]]) = set_chain b HOLD_CHAIN None (tab ?u)"
    by (intro flush_delete_tables(2) [OF filter_lawsD(1) [OF assms(1,2)]]) (simp_all add: u(1))
  then show ?thesis
    unfolding lift_family_tables(2) [OF assms(1,2)] set_chain_def using u assms(5) by (auto simp: fun_eq_iff)
qed

subsection \<open>Installing\<close>

lemma then_t_Inr: "then_t r f = (Inr b, t') \<longleftrightarrow> (\<exists>a t1. r = (Inr a, t1) \<and> f a t1 = (Inr b, t'))"
  by (cases r; cases "fst r") auto

lemma required_Inr: "required run argv t = (Inr (), t') \<longleftrightarrow> run t argv = 0 \<and> t' = t @ [argv]"
  by (auto simp: required_def)

lemma ensure_rule_tables:
  assumes "\<And>t. rule_laws run tab t b rule" "ensure_rule run b rule t = (Inr (), t')"
  shows "tab t b (fst rule) \<noteq> None
    \<and> tab t' = set_chain b (fst rule) (Some (in_front (snd rule) (the (tab t b (fst rule))))) (tab t)"
proof -
  let ?c = "rule_argv b ''-C'' rule"
  have c: "tab (t @ [?c]) = tab t" "run t ?c = 0 \<longleftrightarrow> snd rule \<in> set (rules_in (tab t) b (fst rule))"
    using assms(1) [of t] by (auto simp: rule_laws_def Let_def)
  show ?thesis
  proof (cases "run t ?c = 0")
    case True
    with c(2) obtain rs where "tab t b (fst rule) = Some rs" "snd rule \<in> set rs" unfolding in_rules by blast
    with True assms(2) c(1) show ?thesis by (auto simp: ensure_rule_def in_front_def set_chain_same)
  next
    case False
    then have i: "run (t @ [?c]) (insert_argv b rule) = 0" "t' = (t @ [?c]) @ [insert_argv b rule]"
      using assms(2) by (auto simp: ensure_rule_def required_def Let_def split: if_splits)
    with assms(1) [of "t @ [?c]"] c(1) False c(2) show ?thesis
      by (auto simp: rule_laws_def takes_def Let_def rules_in_def in_front_def split: option.splits)
  qed
qed

lemma hold_family_tables:
  assumes "filter_laws run tab p" "(b, s) \<in> set (families p)" "hold_family run p (b, s) t = (Inr (), t')"
  shows "built_in (tab t b) \<and> tab t' = (tab t)(b := held_chains p s (tab t b))"
proof -
  note laws = filter_lawsD [OF assms(1,2)]
  note chain = laws(1) [unfolded chain_laws_def takes_def Let_def]
  let ?n = "t @ [[b, ''-N'', HOLD_CHAIN]]" and ?f = "[b, ''-F'', HOLD_CHAIN]" and ?a = "[b, ''-A'', HOLD_CHAIN, ''-j'', ''DROP'']"
  obtain t3 where ok: "run ?n ?f = 0" "run (?n @ [?f]) ?a = 0"
    and t3: "ensure_rule run b (output_rule p) ((?n @ [?f]) @ [?a]) = (Inr (), t3)" "ensure_rule run b (forward_rule s) t3 = (Inr (), t')"
    using assms(3) by (auto simp: hold_family_def Let_def then_t_Inr required_Inr)
  have "tab (?n @ [?f]) = set_chain b HOLD_CHAIN (Some []) (tab t)"
    using chain [of t] chain [of ?n] ok(1) by simp
  then have "tab ((?n @ [?f]) @ [?a]) = set_chain b HOLD_CHAIN (Some [[''-j'', ''DROP'']]) (tab t)"
    using chain [of "?n @ [?f]"] ok(2) by (simp add: rules_in_def)
  with ensure_rule_tables [OF laws(2) t3(1)] ensure_rule_tables [OF laws(3) t3(2)] show ?thesis
    by (auto simp: built_in_def held_chains_def set_chain_def)
qed

lemma family_pair: "families p = [(''iptables'', bp_subnet_v4 p), (''ip6tables'', bp_subnet_v6 p)]"
  by (simp add: families_def)

lemma install_hold_tables:
  assumes "filter_laws run tab p" "scoped_policy p" "install_hold run p t = (Inr (), t')"
  shows "tab t' = (tab t)(''iptables'' := held_chains p (bp_subnet_v4 p) (tab t ''iptables''),
                        ''ip6tables'' := held_chains p (bp_subnet_v6 p) (tab t ''ip6tables''))
    \<and> built_in (tab t ''iptables'') \<and> built_in (tab t ''ip6tables'')"
proof -
  obtain t1 where f: "hold_family run p (''iptables'', bp_subnet_v4 p) t = (Inr (), t1)"
      "hold_family run p (''ip6tables'', bp_subnet_v6 p) t1 = (Inr (), t')"
    using assms(3) unfolding install_hold_run(1) [OF assms(2)] family_pair by (auto simp: then_t_Inr)
  have m: "(''iptables'', bp_subnet_v4 p) \<in> set (families p)" "(''ip6tables'', bp_subnet_v6 p) \<in> set (families p)"
    by (simp_all add: family_pair)
  show ?thesis
    using hold_family_tables [OF assms(1) m(1) f(1)] hold_family_tables [OF assms(1) m(2) f(2)] by auto
qed

lemma remove_hold_trace:
  assumes "scoped_policy p"
  shows "snd (remove_hold run p t) =
    lift_family run p (''ip6tables'', bp_subnet_v6 p) (lift_family run p (''iptables'', bp_subnet_v4 p) t)"
  by (simp add: remove_hold_run(1) [OF assms] family_pair)

lemma remove_hold_copies:
  assumes "filter_laws run tab p" "scoped_policy p" "(b, rule) \<in> set (jump_rules p)"
  shows "copies (tab (snd (remove_hold run p t))) b rule = copies (tab t) b rule - 8"
proof -
  have m: "(''iptables'', bp_subnet_v4 p) \<in> set (families p)" "(''ip6tables'', bp_subnet_v6 p) \<in> set (families p)"
    by (simp_all add: family_pair)
  note c = lift_family_chains [OF assms(1) m(1)] lift_family_chains [OF assms(1) m(2)]
  have drop: "count_list (case map_option (drop_copies 8 x) r of None \<Rightarrow> [] | Some rs \<Rightarrow> rs) x
      = count_list (case r of None \<Rightarrow> [] | Some rs \<Rightarrow> rs) x - 8" for r and x :: "string list"
    by (cases r) (simp_all add: count_drop_copies del: funpow.simps)
  from assms(3) show ?thesis
    by (auto simp: jump_rules_def family_pair copies_def rules_in_def remove_hold_trace [OF assms(2)] c drop
        simp del: funpow.simps case_map_option)
qed

lemma remove_hold_restores:
  assumes "filter_laws run tab p" "scoped_policy p" "install_hold run p t = (Inr (), t')"
    and "\<forall>(b, s) \<in> set (families p). tab t b HOLD_CHAIN = None \<and> \<not> jumped (tab t b)"
  shows "tab (snd (remove_hold run p t')) = tab t"
proof -
  have m: "(''iptables'', bp_subnet_v4 p) \<in> set (families p)" "(''ip6tables'', bp_subnet_v6 p) \<in> set (families p)"
    by (simp_all add: family_pair)
  from assms(4) have bare: "tab t ''iptables'' HOLD_CHAIN = None" "\<not> jumped (tab t ''iptables'')"
    "tab t ''ip6tables'' HOLD_CHAIN = None" "\<not> jumped (tab t ''ip6tables'')" using m by blast+
  note inst = install_hold_tables [OF assms(1-3)]
  let ?u = "lift_family run p (''iptables'', bp_subnet_v4 p) t'"
  have 1: "tab ?u = (tab t')(''iptables'' := tab t ''iptables'')"
    by (rule lift_family_restores [OF assms(1) m(1)]) (use inst bare in auto)
  have "tab (lift_family run p (''ip6tables'', bp_subnet_v6 p) ?u) = (tab ?u)(''ip6tables'' := tab t ''ip6tables'')"
    by (rule lift_family_restores [OF assms(1) m(2)]) (use 1 inst bare in auto)
  then show ?thesis unfolding remove_hold_trace [OF assms(2)] 1 using inst by auto
qed

lemma install_hold_ok:
  assumes "scoped_policy p" and run: "\<forall>u c. c \<in> set (hold_argvs p) \<and> c ! 1 \<in> {''-F'', ''-A'', ''-I''} \<longrightarrow> run u c = 0"
  shows "fst (install_hold run p t) = Inr ()"
proof -
  have req: "fst (required run c u) = Inr ()" if "c \<in> set (hold_argvs p)" "c ! 1 \<in> {''-F'', ''-A'', ''-I''}" for c u
    using run that by (simp add: required_def)
  have ens: "fst (ensure_rule run b rule u) = Inr ()" if "insert_argv b rule \<in> set (hold_argvs p)" for b rule u
    using req [OF that] by (simp add: ensure_rule_def Let_def insert_argv_def)
  have "fst (hold_family run p fam u) = Inr ()" if "fam \<in> set (families p)" for fam u
    using family_argvs [of "fst fam" "snd fam" p] that
    by (simp add: hold_family_def Let_def then_t_def req ens)
  then have "fst (hold_families run p (families p) t) = Inr ()"
    by (simp add: families_def then_t_def)
  then show ?thesis by (simp add: install_hold_run(1) [OF assms(1)])
qed

section \<open>Properties\<close>

text \<open>
  C31: whatever the host answers, installing the hold runs at most 14 commands and removing it at most 36, each
  one a command of the fixed list for the enrolled slice and the two enrolled subnets; the list is scoped, so
  removing the hold never raises, and installing it raises only when the host fails to flush the chain, to
  append to it or to insert a jump.
\<close>

theorem packet_hold_scoped:
  assumes "scoped_policy p"
  shows "(\<exists>new. snd (install_hold run p t) = t @ new \<and> set new \<subseteq> set (hold_argvs p) \<and> length new \<le> 14)
    \<and> (\<exists>new. remove_hold run p t = (Inr (), t @ new) \<and> set new \<subseteq> set (hold_argvs p) \<and> length new \<le> 36)
    \<and> commands_are_scoped (hold_argvs p) = []
    \<and> ((\<forall>u c. c \<in> set (hold_argvs p) \<and> c ! 1 \<in> {''-F'', ''-A'', ''-I''} \<longrightarrow> run u c = 0) \<longrightarrow> fst (install_hold run p t) = Inr ())"
proof (intro conjI impI)
  show "\<exists>new. snd (install_hold run p t) = t @ new \<and> set new \<subseteq> set (hold_argvs p) \<and> length new \<le> 14"
    using install_hold_run(2) [OF assms, of t run] by (simp add: extends_def)
  show "\<exists>new. remove_hold run p t = (Inr (), t @ new) \<and> set new \<subseteq> set (hold_argvs p) \<and> length new \<le> 36"
    using remove_hold_run(1) [OF assms, of run t] remove_hold_run(2) [OF assms, of t run] by (auto simp: extends_def)
  show "commands_are_scoped (hold_argvs p) = []"
    using no_problems [OF assms] by blast
  assume "\<forall>u c. c \<in> set (hold_argvs p) \<and> c ! 1 \<in> {''-F'', ''-A'', ''-I''} \<longrightarrow> run u c = 0"
  with assms show "fst (install_hold run p t) = Inr ()" by (rule install_hold_ok)
qed

theorem packet_hold_scoped_witness:
  "(\<exists>new. snd (install_hold (\<lambda>u c. 0) hold_default_policy []) = [] @ new \<and> set new \<subseteq> set (hold_argvs hold_default_policy) \<and> length new \<le> 14)
    \<and> (\<exists>new. remove_hold (\<lambda>u c. 0) hold_default_policy [] = (Inr (), [] @ new)
             \<and> set new \<subseteq> set (hold_argvs hold_default_policy) \<and> length new \<le> 36)
    \<and> commands_are_scoped (hold_argvs hold_default_policy) = []
    \<and> fst (install_hold (\<lambda>u c. 0) hold_default_policy []) = Inr ()"
proof -
  have "scoped_policy hold_default_policy" by (simp add: scoped_policy_def hold_default_policy_def)
  from packet_hold_scoped [OF this, of "\<lambda>u c. 0" "[]"] show ?thesis by simp
qed

text \<open>
  C27: on packet filter tables that change as \<open>iptables\<close> documents, a hold that is installed without an error is in
  place in both families: the hold chain holds the one rule that drops, each scoped jump to it is in its chain, at the
  front where it was not there before, and every other chain and every other rule is as it was. Where there was no hold
  chain and no jump to one, removing the hold gives back the tables exactly. Otherwise it takes away up to eight copies
  of each jump.
\<close>

theorem packet_hold_effect:
  assumes "filter_laws run tab p" "scoped_policy p" "install_hold run p t = (Inr (), t')"
  shows "(\<forall>(b, s) \<in> set (families p).
           tab t' b = (tab t b)
             (''VANTIO_BOOT_HOLD'' \<mapsto> [[''-j'', ''DROP'']],
              ''OUTPUT'' \<mapsto> in_front [''-m'', ''cgroup'', ''--path'', bp_cgroup_slice p, ''-j'', ''VANTIO_BOOT_HOLD'']
                          (the (tab t b ''OUTPUT'')),
              ''FORWARD'' \<mapsto> in_front [''-s'', s, ''-j'', ''VANTIO_BOOT_HOLD''] (the (tab t b ''FORWARD''))))
    \<and> (\<forall>b. b \<notin> fst ` set (families p) \<longrightarrow> tab t' b = tab t b)
    \<and> ((\<forall>(b, s) \<in> set (families p). tab t b HOLD_CHAIN = None \<and> \<not> jumped (tab t b))
         \<longrightarrow> tab (snd (remove_hold run p t')) = tab t)
    \<and> (\<forall>(b, rule) \<in> set (jump_rules p). copies (tab (snd (remove_hold run p t'))) b rule = copies (tab t') b rule - 8)"
proof (intro conjI impI)
  note inst = install_hold_tables [OF assms]
  then show "\<forall>(b, s) \<in> set (families p).
           tab t' b = (tab t b)
             (''VANTIO_BOOT_HOLD'' \<mapsto> [[''-j'', ''DROP'']],
              ''OUTPUT'' \<mapsto> in_front [''-m'', ''cgroup'', ''--path'', bp_cgroup_slice p, ''-j'', ''VANTIO_BOOT_HOLD'']
                          (the (tab t b ''OUTPUT'')),
              ''FORWARD'' \<mapsto> in_front [''-s'', s, ''-j'', ''VANTIO_BOOT_HOLD''] (the (tab t b ''FORWARD'')))"
    by (auto simp: family_pair held_chains_def output_rule_def forward_rule_def HOLD_CHAIN_def)
  show "\<forall>b. b \<notin> fst ` set (families p) \<longrightarrow> tab t' b = tab t b"
    using inst by (auto simp: family_pair)
  show "tab (snd (remove_hold run p t')) = tab t"
    if "\<forall>(b, s) \<in> set (families p). tab t b HOLD_CHAIN = None \<and> \<not> jumped (tab t b)"
    using remove_hold_restores [OF assms that] .
  show "\<forall>(b, rule) \<in> set (jump_rules p). copies (tab (snd (remove_hold run p t'))) b rule = copies (tab t') b rule - 8"
    using remove_hold_copies [OF assms(1,2)] by blast
qed

text \<open>A packet filter with these laws: empty built-in chains, and every command answers by its effect.\<close>

definition sample_effect :: "tables \<Rightarrow> argv \<Rightarrow> tables option" where
  "sample_effect T c =
     (case c of
        b # flag # ch # spec \<Rightarrow>
          (case T b ch of
             None \<Rightarrow> if flag = ''-N'' \<and> b \<in> {''iptables'', ''ip6tables''} then Some (set_chain b ch (Some []) T) else None
           | Some rs \<Rightarrow>
               if flag = ''-F'' then Some (set_chain b ch (Some []) T)
               else if flag = ''-A'' then Some (set_chain b ch (Some (rs @ [spec])) T)
               else if flag = ''-C'' then (if spec \<in> set rs then Some T else None)
               else if flag = ''-D'' then (if spec \<in> set rs then Some (set_chain b ch (Some (remove1 spec rs)) T) else None)
               else if flag = ''-I'' then Some (set_chain b ch (Some (tl spec # rs)) T)
               else if flag = ''-X'' then
                 (if rs = [] \<and> \<not> list_ex (sublist [''-j'', ch]) (rules_in T b ''OUTPUT'' @ rules_in T b ''FORWARD'')
                  then Some (set_chain b ch None T) else None)
               else None)
      | _ \<Rightarrow> None)"

definition bare_tables :: tables where
  "bare_tables b ch =
     (if b \<in> {''iptables'', ''ip6tables''} \<and> ch \<in> {''INPUT'', ''OUTPUT'', ''FORWARD''} then Some [] else None)"

definition sample_tables :: "argv list \<Rightarrow> tables" where
  "sample_tables t = foldl (\<lambda>T c. case sample_effect T c of None \<Rightarrow> T | Some T' \<Rightarrow> T') bare_tables t"

definition sample_filter :: runner where
  "sample_filter t c =
     (if c \<noteq> [] \<and> hd c \<in> {''iptables'', ''ip6tables''} \<and> sample_effect (sample_tables t) c = None then 1 else 0)"

lemma sample_takes:
  assumes "c \<noteq> []" "hd c \<in> {''iptables'', ''ip6tables''}"
  shows "sample_filter t c = 0 \<longleftrightarrow> sample_effect (sample_tables t) c \<noteq> None"
    and "sample_tables (t @ [c]) = (case sample_effect (sample_tables t) c of None \<Rightarrow> sample_tables t | Some T \<Rightarrow> T)"
proof -
  show "sample_filter t c = 0 \<longleftrightarrow> sample_effect (sample_tables t) c \<noteq> None"
    using assms by (simp add: sample_filter_def)
  show "sample_tables (t @ [c]) = (case sample_effect (sample_tables t) c of None \<Rightarrow> sample_tables t | Some T \<Rightarrow> T)"
    unfolding sample_tables_def by simp
qed

lemma sample_chain_laws:
  assumes "b \<in> {''iptables'', ''ip6tables''}"
  shows "chain_laws sample_filter sample_tables t b"
proof -
  have "\<not> list_ex (sublist [''-j'', HOLD_CHAIN]) (rules_in T b ''OUTPUT'' @ rules_in T b ''FORWARD'')" if "\<not> jumped (T b)" for T
    using that by (force simp: jumped_def list_ex_iff in_rules)
  then show ?thesis
    using assms by (auto simp: chain_laws_def takes_def Let_def sample_takes sample_effect_def rules_in_def split: option.splits)
qed

lemma sample_rule_laws:
  assumes "b \<in> {''iptables'', ''ip6tables''}"
  shows "rule_laws sample_filter sample_tables t b rule"
  using assms
  by (cases rule) (auto simp: rule_laws_def takes_def Let_def sample_takes sample_effect_def rules_in_def rule_argv_def insert_argv_def
      split: option.splits)

lemma sample_filter_laws: "filter_laws sample_filter sample_tables p"
  using sample_chain_laws sample_rule_laws by (auto simp: filter_laws_def family_pair)

theorem packet_hold_effect_witness:
  "rules_in (sample_tables (snd (install_hold sample_filter hold_default_policy []))) ''iptables'' HOLD_CHAIN = [[''-j'', ''DROP'']]
   \<and> sample_tables (snd (remove_hold sample_filter hold_default_policy (snd (install_hold sample_filter hold_default_policy []))))
       = sample_tables []"
proof -
  let ?t = "snd (install_hold sample_filter hold_default_policy [])"
  have scoped: "scoped_policy hold_default_policy" by (simp add: scoped_policy_def hold_default_policy_def)
  have "case install_hold sample_filter hold_default_policy [] of (Inl _, _) \<Rightarrow> False | (Inr _, _) \<Rightarrow> True" by code_simp
  then have ok: "install_hold sample_filter hold_default_policy [] = (Inr (), ?t)" by (auto split: prod.splits sum.splits)
  have bare: "\<forall>(b, s) \<in> set (families hold_default_policy). sample_tables [] b HOLD_CHAIN = None \<and> \<not> jumped (sample_tables [] b)"
    by (auto simp: family_pair sample_tables_def bare_tables_def jumped_def HOLD_CHAIN_def)
  have m: "(''iptables'', bp_subnet_v4 hold_default_policy) \<in> set (families hold_default_policy)" by (simp add: family_pair)
  from packet_hold_effect [OF sample_filter_laws scoped ok] bare m show ?thesis
    by (auto simp: rules_in_def HOLD_CHAIN_def)
qed

end
