(* ===== verification/Boot_Units.thy ===== *)
theory Boot_Units
  imports Boot_Policy Install_Grub
begin

text \<open>
  \<open>vantio_install/boot_hold/units.py\<close>, \<open>files.py\<close> and \<open>graph.py\<close>: the systemd units, the AppArmor profiles and
  drop-ins the boot hold writes, and the check of the dependencies between the units. A text is given by its
  lines.
\<close>

section \<open>Units\<close>

definition unit_text :: "string list \<Rightarrow> string" where
  "unit_text ls = concat (map (\<lambda>l. l @ [CHR 0x0A]) ls)"

definition py_command :: "string \<Rightarrow> string \<Rightarrow> string" where
  "py_command python args = python @ '' -m vantio_install.boot_hold '' @ args"

definition boot_hold_service :: "string \<Rightarrow> string list" where
  "boot_hold_service python =
     [''[Unit]'',
      ''Description=Hold enrolled workloads before Docker and before workload services'',
      ''DefaultDependencies=no'',
      ''After=local-fs.target'',
      ''Before=docker.service containerd.service vantio-pe-loader.service'',
      ''# SSH, systemd-networkd, resolved, and SSM are not ordered behind this unit.'',
      [],
      ''[Service]'',
      ''Type=oneshot'',
      ''RemainAfterExit=yes'',
      ''TimeoutStartSec=30'',
      ''Environment=VANTIO_BOOT_HOLD_LIVE=1'',
      ''ExecStart='' @ py_command python ''apply-boot'',
      [],
      ''[Install]'',
      ''WantedBy=sysinit.target'']"

definition pe_loader_service :: "string \<Rightarrow> string list" where
  "pe_loader_service python =
     [''[Unit]'',
      ''Description=Start Phantom Engine as early as the enrolled hold allows'',
      ''DefaultDependencies=no'',
      ''After=local-fs.target apparmor.service vantio-boot-hold.service docker.service'',
      ''Wants=docker.service'',
      ''Before=vantio-pe-enforce-ready.service'',
      ''StartLimitIntervalSec=60'',
      ''StartLimitBurst=5'',
      [],
      ''[Service]'',
      ''Type=simple'',
      ''Restart=on-failure'',
      ''RestartSec=2'',
      ''Environment=VANTIO_BOOT_HOLD_LIVE=1'',
      ''ExecStart='' @ py_command python ''start-loader'',
      ''ExecStop=/bin/kill -TERM $MAINPID'',
      [],
      ''[Install]'',
      ''WantedBy=multi-user.target'']"

definition enforce_ready_service :: "string \<Rightarrow> string list" where
  "enforce_ready_service python =
     [''[Unit]'',
      ''Description=Release the enrolled hold only after Phantom Engine is enforce-ready'',
      ''DefaultDependencies=no'',
      ''After=vantio-pe-loader.service vantio-boot-hold.service'',
      ''Requires=vantio-pe-loader.service'',
      [],
      ''[Service]'',
      ''Type=oneshot'',
      ''RemainAfterExit=yes'',
      ''TimeoutStartSec=180'',
      ''Environment=VANTIO_BOOT_HOLD_LIVE=1'',
      ''ExecStart='' @ py_command python ''release --require-enforce-ready --wait-seconds 120'',
      [],
      ''[Install]'',
      ''WantedBy=multi-user.target'']"

definition enrolled_slice :: "string list" where
  "enrolled_slice =
     [''[Unit]'', ''Description=Enrolled workloads'', ''DefaultDependencies=no'', ''Before=slices.target'', [], ''[Slice]'']"

definition docker_ordering_dropin :: "string list" where
  "docker_ordering_dropin = [''[Unit]'', ''After=vantio-boot-hold.service'']"

definition gate_units :: "BootPolicy \<Rightarrow> bool \<Rightarrow> string list" where
  "gate_units p start_gate =
     (let (hold, ordr) = (if start_gate then mechanisms_active p else (False, False)) in
      [''docker.service'', ''vantio-enrolled-network.service'']
      @ (if hold then [''vantio-boot-hold.service''] else [])
      @ (if ordr then [''vantio-pe-enforce-ready.service''] else []))"

definition enrolled_docker_service :: "BootPolicy \<Rightarrow> bool \<Rightarrow> string list" where
  "enrolled_docker_service p start_gate =
     [''[Unit]'',
      ''Description=Start enrolled container %i after the boot gate'',
      ''After='' @ py_join '' '' (gate_units p start_gate),
      ''Requires='' @ py_join '' '' (gate_units p start_gate),
      [],
      ''[Service]'',
      ''Type=oneshot'',
      ''RemainAfterExit=yes'',
      ''ExecStart=/usr/bin/docker start %i'',
      ''ExecStop=/usr/bin/docker stop %i'',
      [],
      ''[Install]'',
      ''WantedBy=multi-user.target'']"

definition enrolled_network_service :: "string \<Rightarrow> string list" where
  "enrolled_network_service python =
     [''[Unit]'',
      ''Description=Create the enrolled Docker network vantio-enrolled (10.250.250.0/24)'',
      ''After=docker.service vantio-boot-hold.service'',
      ''Requires=docker.service'',
      [],
      ''[Service]'',
      ''Type=oneshot'',
      ''RemainAfterExit=yes'',
      ''Environment=VANTIO_BOOT_HOLD_LIVE=1'',
      ''ExecStart='' @ py_command python ''ensure-network'',
      [],
      ''[Install]'',
      ''WantedBy=multi-user.target'']"

definition compose_service :: "string \<Rightarrow> string \<Rightarrow> BootPolicy \<Rightarrow> bool \<Rightarrow> string list" where
  "compose_service name project_dir p start_gate =
     [''[Unit]'',
      ''Description=Start enrolled compose project '' @ name @ '' after the boot gate'',
      ''After='' @ py_join '' '' (gate_units p start_gate),
      ''Requires='' @ py_join '' '' (gate_units p start_gate),
      [],
      ''[Service]'',
      ''Type=oneshot'',
      ''RemainAfterExit=yes'',
      ''WorkingDirectory='' @ project_dir,
      ''ExecStart=/usr/bin/docker compose start'',
      ''ExecStop=/usr/bin/docker compose stop'',
      [],
      ''[Install]'',
      ''WantedBy=multi-user.target'']"

definition in_system :: "string \<Rightarrow> string" where
  "in_system name = ''etc/systemd/system/'' @ name"

definition static_units :: "string \<Rightarrow> BootPolicy \<Rightarrow> (string \<times> string) list" where
  "static_units python p =
     map (\<lambda>(name, ls). (in_system name, unit_text ls))
       [(''vantio-boot-hold.service'', boot_hold_service python),
        (''vantio-pe-loader.service'', pe_loader_service python),
        (''vantio-pe-enforce-ready.service'', enforce_ready_service python),
        (''vantio-enrolled.slice'', enrolled_slice),
        (''vantio-enrolled-docker@.service'', enrolled_docker_service p True),
        (''vantio-enrolled-network.service'', enrolled_network_service python),
        (''docker.service.d/vantio-boot-hold.conf'', docker_ordering_dropin),
        (''containerd.service.d/vantio-boot-hold.conf'', docker_ordering_dropin)]"

definition wants_links :: "(string \<times> string) list" where
  "wants_links =
     [(in_system ''sysinit.target.wants/vantio-boot-hold.service'', ''../vantio-boot-hold.service''),
      (in_system ''multi-user.target.wants/vantio-pe-loader.service'', ''../vantio-pe-loader.service''),
      (in_system ''multi-user.target.wants/vantio-pe-enforce-ready.service'', ''../vantio-pe-enforce-ready.service''),
      (in_system ''multi-user.target.wants/vantio-enrolled-network.service'', ''../vantio-enrolled-network.service'')]"

section \<open>Profiles and drop-ins\<close>

definition APPARMOR_PROFILE :: string where "APPARMOR_PROFILE = ''vantio-boot-hold''"

definition profile_head :: "string list" where
  "profile_head =
     [''profile '' @ APPARMOR_PROFILE @ '' flags=(attach_disconnected) {'', ''  file,'', ''  network,'', ''  capability,'',
      ''  signal,'', ''  unix,'']"

definition deny_profile :: "string list \<Rightarrow> string" where
  "deny_profile paths =
     unit_text (profile_head
       @ concat (map (\<lambda>path. [''  deny '' @ path @ '' rwmlkx,'', ''  deny '' @ path @ ''/** rwmlkx,'']) paths) @ [''}''])"

definition allow_profile :: string where
  "allow_profile = unit_text (profile_head @ [''}''])"

definition hold_dropin_text :: "bool \<Rightarrow> bool \<Rightarrow> string list \<Rightarrow> bool \<Rightarrow> bool \<Rightarrow> bool \<Rightarrow> string" where
  "hold_dropin_text hold ordr paths apparmor hide_paths start_gate =
     (let gates = (if start_gate \<and> hold then [''vantio-boot-hold.service''] else [])
                  @ (if start_gate \<and> ordr then [''vantio-pe-enforce-ready.service''] else [])
      in unit_text
           ([''[Unit]'', ''Description=Vantio enrolled workload gate'']
            @ (if gates \<noteq> [] then [''After='' @ py_join '' '' gates, ''Requires='' @ py_join '' '' gates] else [])
            @ [[], ''[Service]'', ''Slice=vantio-enrolled.slice'']
            @ (if hide_paths then
                 map (\<lambda>path. ''InaccessiblePaths='' @ path) paths
                 @ (if apparmor then [''AppArmorProfile='' @ APPARMOR_PROFILE] else [])
               else [])))"

section \<open>The dependency check\<close>

definition GRAPH_RECOVERY :: "string list" where
  "GRAPH_RECOVERY =
     [''ssh.service'', ''sshd.service'', ''ssh.socket'', ''systemd-networkd.service'', ''systemd-resolved.service'',
      ''systemd-networkd-wait-online.service'', ''dhcpcd.service'', ''amazon-ssm-agent.service'',
      ''snap.amazon-ssm-agent.amazon-ssm-agent.service'']"

definition HOST_WIDE :: "string list" where
  "HOST_WIDE =
     [''ip route'', ''route del'', ''blackhole'', ''-P OUTPUT DROP'', ''-P FORWARD DROP'', ''0.0.0.0/0'', ''::/0'']"

type_synonym sections = "(string \<times> (string \<times> string list) list) list"

text \<open>\<open>dict.setdefault(k, empty)\<close> followed by a change of the entry.\<close>

fun entry_update :: "('k \<times> 'v) list \<Rightarrow> 'k \<Rightarrow> 'v \<Rightarrow> ('v \<Rightarrow> 'v) \<Rightarrow> ('k \<times> 'v) list" where
  "entry_update [] k d f = [(k, f d)]"
| "entry_update ((k', v) # m) k d f = (if k' = k then (k', f v) # m else (k', v) # entry_update m k d f)"

definition parse_line :: "sections \<times> string option \<Rightarrow> string \<Rightarrow> sections \<times> string option" where
  "parse_line st raw =
     (let line = py_strip spaces (takeWhile (\<lambda>c. c \<noteq> CHR ''#'') raw) in
      if line = [] then st
      else if hd line = CHR ''['' \<and> last line = CHR '']'' then
        (let name = butlast (tl line) in (entry_update (fst st) name [] id, Some name))
      else
        (case snd st of
           None \<Rightarrow> st
         | Some s \<Rightarrow>
             if CHR ''='' \<notin> set line then st
             else
               (let k = py_strip spaces (takeWhile (\<lambda>c. c \<noteq> CHR ''='') line);
                    value = tl (dropWhile (\<lambda>c. c \<noteq> CHR ''='') line)
                in (entry_update (fst st) s [] (\<lambda>sec. entry_update sec k [] (\<lambda>b. b @ py_words [] value)), Some s))))"

definition parse_unit :: "string \<Rightarrow> sections" where
  "parse_unit txt = fst (foldl parse_line ([], None) (split_lines [] txt))"

definition deps :: "sections \<Rightarrow> string \<Rightarrow> string list" where
  "deps parsed k = concat (map (\<lambda>(_, sec). case map_of sec k of None \<Rightarrow> [] | Some b \<Rightarrow> b) parsed)"

definition unit_get :: "(string \<times> string) list \<Rightarrow> string \<Rightarrow> string" where
  "unit_get units name = (case map_of units (in_system name) of None \<Rightarrow> [] | Some t \<Rightarrow> t)"

definition host_wide_errors :: "(string \<times> string) list \<Rightarrow> string list" where
  "host_wide_errors units =
     concat (map (\<lambda>(name, txt). map (\<lambda>needle. name @ '' contains '' @ needle)
       (filter (\<lambda>needle. sublist needle txt) HOST_WIDE)) units)"

definition err_if :: "bool \<Rightarrow> string \<Rightarrow> string list" where
  "err_if b message = (if b then [message] else [])"

definition graph_errors :: "(string \<times> string) list \<Rightarrow> bool \<Rightarrow> bool \<Rightarrow> string list" where
  "graph_errors units ordr hold =
     (let hold_parsed = parse_unit (unit_get units ''vantio-boot-hold.service'');
          before = deps hold_parsed ''Before'';
          loader = parse_unit (unit_get units ''vantio-pe-loader.service'');
          ready_text = unit_get units ''vantio-pe-enforce-ready.service'';
          ready = parse_unit ready_text;
          docker = parse_unit (unit_get units ''vantio-enrolled-docker@.service'');
          dropin = parse_unit (unit_get units ''docker.service.d/vantio-boot-hold.conf'')
      in host_wide_errors units
         @ err_if (hold \<and> ''docker.service'' \<notin> set before) ''boot hold is not Before=docker.service''
         @ err_if (hold \<and> ''containerd.service'' \<notin> set before) ''boot hold is not Before=containerd.service''
         @ concat (map (\<lambda>k. map (\<lambda>dep. ''boot hold '' @ k @ '' includes '' @ dep)
             (filter (\<lambda>dep. dep \<in> set GRAPH_RECOVERY) (deps hold_parsed k))) [''Before'', ''Requires'', ''Wants'', ''After''])
         @ err_if (''vantio-boot-hold.service'' \<notin> set (deps loader ''After''))
             ''Phantom Engine loader is not After=vantio-boot-hold.service''
         @ err_if (''vantio-pe-enforce-ready.service'' \<notin> set (deps loader ''Before''))
             ''Phantom Engine loader is not Before=vantio-pe-enforce-ready.service''
         @ err_if (''vantio-pe-loader.service'' \<notin> set (deps ready ''After'')) ''enforce-ready is not After= the loader''
         @ err_if (''vantio-pe-loader.service'' \<notin> set (deps ready ''Requires'')) ''enforce-ready does not Requires= the loader''
         @ err_if (\<not> sublist ''--require-enforce-ready'' ready_text)
             ''enforce-ready unit does not require the enforce-ready probe''
         @ err_if (ordr \<and> ''vantio-pe-enforce-ready.service'' \<notin> set (deps docker ''Requires''))
             ''enrolled docker unit does not Requires= enforce-ready''
         @ err_if (\<not> ordr \<and> ''vantio-pe-enforce-ready.service'' \<in> set (deps docker ''Requires''))
             ''ordering-off docker unit still Requires= enforce-ready''
         @ err_if (hold \<and> ''vantio-boot-hold.service'' \<notin> set (deps docker ''Requires''))
             ''enrolled docker unit does not Requires= the boot hold''
         @ err_if (''vantio-boot-hold.service'' \<notin> set (deps dropin ''After'')) ''docker drop-in is not After= the boot hold''
         @ err_if (deps dropin ''Requires'' \<noteq> []) ''docker.service must not Requires= the boot hold''
         @ err_if (\<not> sublist ''[Slice]'' (unit_get units ''vantio-enrolled.slice'')) ''enrolled slice unit is missing'')"

section \<open>Lemmas on lines\<close>

definition one_line :: "string \<Rightarrow> bool" where
  "one_line l = list_all (\<lambda>c. \<not> line_break c) l"

lemma split_lines_step:
  "one_line l \<Longrightarrow> split_lines acc (l @ CHR 0x0A # rest) = (rev acc @ l) # split_lines [] rest"
proof (induction l arbitrary: acc)
  case (Cons c l)
  then have "\<not> line_break c" by (simp add: one_line_def)
  moreover from this have "py_ord c \<noteq> 13" by (auto simp: line_break_def Let_def)
  ultimately show ?case using Cons by (simp add: one_line_def)
qed (simp add: line_break_def)

lemma split_lines_unit_text: "list_all one_line ls \<Longrightarrow> split_lines [] (unit_text ls) = ls"
  by (induction ls) (simp_all add: unit_text_def split_lines_step)

datatype line_kind = Blank | Section string | Entry string "string list" | Noise

definition kind_of_line :: "string \<Rightarrow> line_kind" where
  "kind_of_line raw =
     (let line = py_strip spaces (takeWhile (\<lambda>c. c \<noteq> CHR ''#'') raw) in
      if line = [] then Blank
      else if hd line = CHR ''['' \<and> last line = CHR '']'' then Section (butlast (tl line))
      else if CHR ''='' \<notin> set line then Noise
      else Entry (py_strip spaces (takeWhile (\<lambda>c. c \<noteq> CHR ''='') line))
             (py_words [] (tl (dropWhile (\<lambda>c. c \<noteq> CHR ''='') line))))"

definition apply_kind :: "sections \<times> string option \<Rightarrow> line_kind \<Rightarrow> sections \<times> string option" where
  "apply_kind st k =
     (case k of
        Blank \<Rightarrow> st
      | Noise \<Rightarrow> st
      | Section name \<Rightarrow> (entry_update (fst st) name [] id, Some name)
      | Entry key ws \<Rightarrow>
          (case snd st of
             None \<Rightarrow> st
           | Some s \<Rightarrow> (entry_update (fst st) s [] (\<lambda>sec. entry_update sec key [] (\<lambda>b. b @ ws)), Some s)))"

lemma parse_line_kind: "parse_line st raw = apply_kind st (kind_of_line raw)"
  by (cases "snd st") (simp_all add: parse_line_def kind_of_line_def apply_kind_def Let_def)

lemma parse_unit_kinds:
  "list_all one_line ls \<Longrightarrow> parse_unit (unit_text ls) = fst (foldl apply_kind ([], None) (map kind_of_line ls))"
  by (simp add: parse_unit_def split_lines_unit_text foldl_map parse_line_kind [abs_def])

definition exec_words :: "string \<Rightarrow> string list" where
  "exec_words x = py_words [] (py_rstrip spaces (takeWhile (\<lambda>c. c \<noteq> CHR ''#'') x))"

lemma rstrip_append: "a \<noteq> [] \<Longrightarrow> last a \<notin> set cs \<Longrightarrow> py_rstrip cs (a @ y) = a @ py_rstrip cs y"
proof -
  assume a: "a \<noteq> []" "last a \<notin> set cs"
  then have "dropWhile (\<lambda>c. c \<in> set cs) (rev a) = rev a" by (cases a rule: rev_cases) auto
  then show ?thesis
    by (cases "\<forall>c \<in> set y. c \<in> set cs")
      (auto simp: py_rstrip_def dropWhile_append dropWhile_append1 dropWhile_append2)
qed

lemma exec_kind: "kind_of_line (''ExecStart='' @ x) = Entry ''ExecStart'' (exec_words x)"
proof -
  have sp: "CHR ''E'' \<notin> set spaces" "CHR ''='' \<notin> set spaces" "CHR ''t'' \<notin> set spaces"
    by (code_simp, code_simp, code_simp)
  let ?y = "takeWhile (\<lambda>c. c \<noteq> CHR ''#'') x"
  have "takeWhile (\<lambda>c. c \<noteq> CHR ''#'') (''ExecStart='' @ x) = ''ExecStart='' @ ?y" by simp
  moreover have "py_strip spaces (''ExecStart='' @ ?y) = ''ExecStart='' @ py_rstrip spaces ?y"
    using rstrip_append [of "''ExecStart=''" spaces ?y] sp by (simp add: py_strip_def py_rstrip_def)
  moreover have "py_strip spaces ''ExecStart'' = ''ExecStart''" using sp by (simp add: py_strip_def)
  ultimately show ?thesis by (simp add: kind_of_line_def exec_words_def)
qed

section \<open>Lemmas on texts without host-wide words\<close>

lemma sublist_sep:
  assumes "c \<notin> set n"
  shows "sublist n (xs @ c # ys) \<longleftrightarrow> sublist n xs \<or> sublist n ys"
proof
  assume "sublist n (xs @ c # ys)"
  then consider "sublist n xs" | "sublist n (c # ys)" | us vs where "n = us @ vs" "suffix us xs" "prefix vs (c # ys)"
    by (auto simp: sublist_append)
  then show "sublist n xs \<or> sublist n ys"
  proof cases
    case 2
    then show ?thesis using assms by (cases n) (auto simp: sublist_Cons_right)
  next
    case 3
    then show ?thesis using assms by (cases vs) (auto intro: suffix_imp_sublist)
  qed simp
qed (auto simp: sublist_append sublist_Cons_right)

lemma sublist_unit_text:
  assumes "CHR 0x0A \<notin> set n" "n \<noteq> []"
  shows "sublist n (unit_text ls) \<longleftrightarrow> (\<exists>l \<in> set ls. sublist n l)"
  using assms by (induction ls) (simp_all add: unit_text_def sublist_sep)

text \<open>An interpreter path that fits on a line and names nothing host-wide.\<close>

definition python_ok :: "string \<Rightarrow> bool" where
  "python_ok python = (one_line python \<and> list_all (\<lambda>n. \<not> sublist n python) HOST_WIDE)"

definition quiet :: "string \<Rightarrow> bool" where
  "quiet l = list_all (\<lambda>n. \<not> sublist n l) HOST_WIDE"

lemma host_wide_shape:
  "list_all (\<lambda>n. n \<noteq> [] \<and> CHR 0x0A \<notin> set n \<and> CHR ''='' \<notin> set n \<and> last n \<noteq> CHR '' '' \<and> \<not> sublist '' -'' n) HOST_WIDE"
  by code_simp

lemma command_quiet:
  assumes "python_ok python" "quiet ('' -m vantio_install.boot_hold '' @ args)"
  shows "quiet (''ExecStart='' @ py_command python args)"
proof -
  have "\<not> sublist n (''ExecStart='' @ py_command python args)" if n: "n \<in> set HOST_WIDE" for n
  proof
    from n host_wide_shape have shape: "n \<noteq> []" "CHR ''='' \<notin> set n" "last n \<noteq> CHR '' ''" "\<not> sublist '' -'' n"
      by (auto simp: list_all_iff)
    have exec: "quiet ''ExecStart''" by code_simp
    assume "sublist n (''ExecStart='' @ py_command python args)"
    then have "sublist n ''ExecStart'' \<or> sublist n (py_command python args)"
      using sublist_sep [OF shape(2), of "''ExecStart''"] by simp
    then have "sublist n (py_command python args)" using exec n by (auto simp: quiet_def list_all_iff)
    then obtain us vs where split: "n = us @ vs" "prefix vs ('' -m vantio_install.boot_hold '' @ args)" "\<not> sublist n python"
      "\<not> sublist n ('' -m vantio_install.boot_hold '' @ args)" "suffix us python"
      using assms n by (auto simp: py_command_def sublist_append [of n python] python_ok_def quiet_def list_all_iff)
    show False
    proof (cases vs)
      case Nil
      with split show False by auto
    next
      case (Cons c vs')
      with split(2) have c: "c = CHR '' ''" "prefix vs' (''-m vantio_install.boot_hold '' @ args)" by auto
      show False
      proof (cases vs')
        case Nil
        with Cons c split(1) shape(3) show False by simp
      next
        case (Cons d vs'')
        with c have "d = CHR ''-''" by auto
        with Cons c \<open>vs = c # vs'\<close> split(1) have "n = us @ '' -'' @ vs''" by simp
        with shape(4) show False by (metis sublist_appendI)
      qed
    qed
  qed
  then show ?thesis by (simp add: quiet_def list_all_iff)
qed

lemma host_wide_errors_none:
  assumes "list_all (\<lambda>(name, ls). list_all quiet ls) units"
  shows "host_wide_errors (map (\<lambda>(name, ls). (f name, unit_text ls)) units) = []"
proof -
  have "\<not> sublist n (unit_text ls)" if "(name, ls) \<in> set units" "n \<in> set HOST_WIDE" for name ls n
    using that assms host_wide_shape sublist_unit_text [of n ls] by (fastforce simp: list_all_iff quiet_def)
  then show ?thesis by (force simp: host_wide_errors_def)
qed

lemma quiet_commands:
  "quiet ('' -m vantio_install.boot_hold '' @ ''apply-boot'')" "quiet ('' -m vantio_install.boot_hold '' @ ''start-loader'')"
  "quiet ('' -m vantio_install.boot_hold '' @ ''ensure-network'')"
  "quiet ('' -m vantio_install.boot_hold '' @ ''release --require-enforce-ready --wait-seconds 120'')"
  by (code_simp, code_simp, code_simp, code_simp)

section \<open>The units of the package\<close>

lemma service_lines:
  "set (boot_hold_service py) \<subseteq> set (boot_hold_service []) \<union> {''ExecStart='' @ py_command py ''apply-boot''}"
  "set (pe_loader_service py) \<subseteq> set (pe_loader_service []) \<union> {''ExecStart='' @ py_command py ''start-loader''}"
  "set (enforce_ready_service py)
     \<subseteq> set (enforce_ready_service []) \<union> {''ExecStart='' @ py_command py ''release --require-enforce-ready --wait-seconds 120''}"
  "set (enrolled_network_service py) \<subseteq> set (enrolled_network_service []) \<union> {''ExecStart='' @ py_command py ''ensure-network''}"
  by (simp_all add: boot_hold_service_def pe_loader_service_def enforce_ready_service_def enrolled_network_service_def)

lemma quiet_services:
  "list_all quiet (boot_hold_service [])" "list_all quiet (pe_loader_service [])" "list_all quiet (enforce_ready_service [])"
  "list_all quiet (enrolled_network_service [])" "list_all quiet enrolled_slice" "list_all quiet docker_ordering_dropin"
  by (code_simp, code_simp, code_simp, code_simp, code_simp, code_simp)

lemma lines_with_exec:
  assumes "set ls \<subseteq> set base \<union> {x}" "list_all P base" "P x"
  shows "list_all P ls"
  using assms by (auto simp: list_all_iff)

definition parsed_with :: "string list \<Rightarrow> nat \<Rightarrow> string list \<Rightarrow> sections" where
  "parsed_with ls i ws = fst (foldl apply_kind ([], None) ((map kind_of_line ls)[i := Entry ''ExecStart'' ws]))"

lemma deps_services:
  "deps (parsed_with (boot_hold_service []) 12 ws) ''Before'' = [''docker.service'', ''containerd.service'', ''vantio-pe-loader.service'']"
  "deps (parsed_with (boot_hold_service []) 12 ws) ''After'' = [''local-fs.target'']"
  "deps (parsed_with (boot_hold_service []) 12 ws) ''Requires'' = []"
  "deps (parsed_with (boot_hold_service []) 12 ws) ''Wants'' = []"
  "deps (parsed_with (pe_loader_service []) 14 ws) ''After''
     = [''local-fs.target'', ''apparmor.service'', ''vantio-boot-hold.service'', ''docker.service'']"
  "deps (parsed_with (pe_loader_service []) 14 ws) ''Before'' = [''vantio-pe-enforce-ready.service'']"
  "deps (parsed_with (enforce_ready_service []) 11 ws) ''After'' = [''vantio-pe-loader.service'', ''vantio-boot-hold.service'']"
  "deps (parsed_with (enforce_ready_service []) 11 ws) ''Requires'' = [''vantio-pe-loader.service'']"
  by (code_simp, code_simp, code_simp, code_simp, code_simp, code_simp, code_simp, code_simp)

lemma one_line_services:
  "list_all one_line (boot_hold_service [])" "list_all one_line (pe_loader_service [])" "list_all one_line (enforce_ready_service [])"
  "list_all one_line docker_ordering_dropin"
  by (code_simp, code_simp, code_simp, code_simp)

lemma one_line_append [simp]: "one_line (a @ b) \<longleftrightarrow> one_line a \<and> one_line b"
  by (simp add: one_line_def)

lemma one_line_commands:
  "one_line python \<Longrightarrow> one_line (''ExecStart='' @ py_command python ''apply-boot'')"
  "one_line python \<Longrightarrow> one_line (''ExecStart='' @ py_command python ''start-loader'')"
  "one_line python \<Longrightarrow> one_line (''ExecStart='' @ py_command python ''release --require-enforce-ready --wait-seconds 120'')"
proof -
  have "one_line (''ExecStart='' @ py_command [] ''apply-boot'')" "one_line (''ExecStart='' @ py_command [] ''start-loader'')"
    "one_line (''ExecStart='' @ py_command [] ''release --require-enforce-ready --wait-seconds 120'')"
    by (code_simp, code_simp, code_simp)
  then show
    "one_line python \<Longrightarrow> one_line (''ExecStart='' @ py_command python ''apply-boot'')"
    "one_line python \<Longrightarrow> one_line (''ExecStart='' @ py_command python ''start-loader'')"
    "one_line python \<Longrightarrow> one_line (''ExecStart='' @ py_command python ''release --require-enforce-ready --wait-seconds 120'')"
    unfolding py_command_def one_line_append by auto
qed

lemma kinds_services:
  "map kind_of_line (boot_hold_service py)
     = (map kind_of_line (boot_hold_service []))[12 := Entry ''ExecStart'' (exec_words (py_command py ''apply-boot''))]"
  "map kind_of_line (pe_loader_service py)
     = (map kind_of_line (pe_loader_service []))[14 := Entry ''ExecStart'' (exec_words (py_command py ''start-loader''))]"
  "map kind_of_line (enforce_ready_service py)
     = (map kind_of_line (enforce_ready_service []))[11 := Entry ''ExecStart''
          (exec_words (py_command py ''release --require-enforce-ready --wait-seconds 120''))]"
  using exec_kind [simplified]
  by (simp_all add: boot_hold_service_def pe_loader_service_def enforce_ready_service_def)

lemma parse_services:
  assumes "one_line python"
  shows "\<exists>ws. parse_unit (unit_text (boot_hold_service python)) = parsed_with (boot_hold_service []) 12 ws"
    and "\<exists>ws. parse_unit (unit_text (pe_loader_service python)) = parsed_with (pe_loader_service []) 14 ws"
    and "\<exists>ws. parse_unit (unit_text (enforce_ready_service python)) = parsed_with (enforce_ready_service []) 11 ws"
proof -
  note commands = one_line_commands [OF assms]
  show "\<exists>ws. parse_unit (unit_text (boot_hold_service python)) = parsed_with (boot_hold_service []) 12 ws"
    unfolding parse_unit_kinds [OF lines_with_exec [where P = one_line, OF service_lines(1) one_line_services(1) commands(1)]]
      kinds_services(1) [of python] parsed_with_def by (rule exI) (rule refl)
  show "\<exists>ws. parse_unit (unit_text (pe_loader_service python)) = parsed_with (pe_loader_service []) 14 ws"
    unfolding parse_unit_kinds [OF lines_with_exec [where P = one_line, OF service_lines(2) one_line_services(2) commands(2)]]
      kinds_services(2) [of python] parsed_with_def by (rule exI) (rule refl)
  show "\<exists>ws. parse_unit (unit_text (enforce_ready_service python)) = parsed_with (enforce_ready_service []) 11 ws"
    unfolding parse_unit_kinds [OF lines_with_exec [where P = one_line, OF service_lines(3) one_line_services(3) commands(3)]]
      kinds_services(3) [of python] parsed_with_def by (rule exI) (rule refl)
qed

lemma dropin_deps:
  "deps (parse_unit (unit_text docker_ordering_dropin)) ''After'' = [''vantio-boot-hold.service'']"
  "deps (parse_unit (unit_text docker_ordering_dropin)) ''Requires'' = []"
  by (code_simp, code_simp)

definition gated_docker :: "bool \<Rightarrow> bool \<Rightarrow> string list" where
  "gated_docker hold ordr = enrolled_docker_service (hold_default_policy\<lparr>bp_hold := hold, bp_ordering := ordr\<rparr>) True"

lemma docker_service_gates: "enrolled_docker_service p True = gated_docker (fst (mechanisms_active p)) (snd (mechanisms_active p))"
  by (simp add: gated_docker_def enrolled_docker_service_def gate_units_def mechanisms_active_def hold_default_policy_def)

definition gate_names :: "bool \<Rightarrow> bool \<Rightarrow> string list" where
  "gate_names hold ordr =
     [''docker.service'', ''vantio-enrolled-network.service'']
     @ (if hold then [''vantio-boot-hold.service''] else []) @ (if ordr then [''vantio-pe-enforce-ready.service''] else [])"

lemma docker_cases:
  "list_all (\<lambda>(hold, ordr). deps (parse_unit (unit_text (gated_docker hold ordr))) ''Requires'' = gate_names hold ordr
       \<and> list_all quiet (gated_docker hold ordr))
     [(True, True), (True, False), (False, True), (False, False)]"
  by code_simp

lemma docker_gates:
  "deps (parse_unit (unit_text (gated_docker hold ordr))) ''Requires'' = gate_names hold ordr"
  "list_all quiet (gated_docker hold ordr)"
  using docker_cases by (cases hold; cases ordr; simp)+

section \<open>Properties\<close>

text \<open>
  For every policy and every interpreter path on one line without a host-wide word, the units the package
  writes pass the dependency check: the hold comes before Docker and containerd and never orders a recovery
  unit, the loader comes after the hold and before the release, and the enrolled containers require the hold
  and the release exactly when the policy has the mechanism on.
\<close>

theorem static_units_pass_graph_check:
  assumes "python_ok python"
  shows "graph_errors (static_units python p) (snd (mechanisms_active p)) (fst (mechanisms_active p)) = []"
proof -
  obtain hold ordr where m: "mechanisms_active p = (hold, ordr)" by (cases "mechanisms_active p")
  have one: "one_line python" using assms by (simp add: python_ok_def)
  let ?units = "static_units python p"
  have texts: "unit_get ?units ''vantio-boot-hold.service'' = unit_text (boot_hold_service python)"
    "unit_get ?units ''vantio-pe-loader.service'' = unit_text (pe_loader_service python)"
    "unit_get ?units ''vantio-pe-enforce-ready.service'' = unit_text (enforce_ready_service python)"
    "unit_get ?units ''vantio-enrolled.slice'' = unit_text enrolled_slice"
    "unit_get ?units ''vantio-enrolled-docker@.service'' = unit_text (gated_docker hold ordr)"
    "unit_get ?units ''docker.service.d/vantio-boot-hold.conf'' = unit_text docker_ordering_dropin"
    by (simp_all add: unit_get_def static_units_def in_system_def docker_service_gates m)
  have quiet: "list_all (\<lambda>(name, ls). list_all quiet ls)
      [(a, boot_hold_service python), (b, pe_loader_service python), (c, enforce_ready_service python),
       (d, enrolled_slice), (e, gated_docker hold ordr), (f, enrolled_network_service python),
       (g, docker_ordering_dropin), (h, docker_ordering_dropin)]" for a b c d e f g h :: string
    using lines_with_exec [where P = quiet, OF service_lines(1) quiet_services(1) command_quiet [OF assms quiet_commands(1)]]
      lines_with_exec [where P = quiet, OF service_lines(2) quiet_services(2) command_quiet [OF assms quiet_commands(2)]]
      lines_with_exec [where P = quiet, OF service_lines(3) quiet_services(3) command_quiet [OF assms quiet_commands(4)]]
      lines_with_exec [where P = quiet, OF service_lines(4) quiet_services(4) command_quiet [OF assms quiet_commands(3)]]
      quiet_services(5,6) docker_gates(2) by simp
  have wide: "host_wide_errors ?units = []"
    unfolding static_units_def docker_service_gates m fst_conv snd_conv by (rule host_wide_errors_none [OF quiet])
  have flag: "sublist ''--require-enforce-ready'' (unit_text (enforce_ready_service python))"
    by (rule sublist_unit_text [THEN iffD2]) (auto simp: enforce_ready_service_def py_command_def sublist_append sublist_Cons_right)
  have slice: "sublist ''[Slice]'' (unit_text enrolled_slice)" by code_simp
  obtain w1 w2 w3 where parsed:
    "parse_unit (unit_text (boot_hold_service python)) = parsed_with (boot_hold_service []) 12 w1"
    "parse_unit (unit_text (pe_loader_service python)) = parsed_with (pe_loader_service []) 14 w2"
    "parse_unit (unit_text (enforce_ready_service python)) = parsed_with (enforce_ready_service []) 11 w3"
    using parse_services [OF one] by blast
  show ?thesis
    unfolding m fst_conv snd_conv graph_errors_def Let_def texts parsed wide
    using flag slice by (simp add: deps_services dropin_deps docker_gates(1) gate_names_def err_if_def GRAPH_RECOVERY_def)
qed

theorem static_units_pass_graph_check_witness:
  "python_ok ''/usr/bin/python3''
   \<and> graph_errors (static_units ''/usr/bin/python3'' (hold_default_policy\<lparr>bp_ordering := False\<rparr>)) False True = []"
proof -
  have "python_ok ''/usr/bin/python3''" by code_simp
  with static_units_pass_graph_check [of "''/usr/bin/python3''" "hold_default_policy\<lparr>bp_ordering := False\<rparr>"]
  show ?thesis by (simp add: mechanisms_active_def hold_default_policy_def)
qed

end
