(* ===== verification/Boot_Service.thy ===== *)
theory Boot_Service
  imports Boot_Net Boot_Registry Boot_Units
begin

text \<open>
  \<open>vantio_install/boot_hold/service.py\<close>, with \<open>identity.py\<close> and \<open>audit.py\<close>: the operations of the boot hold over
  the files they keep and the commands they run. An operation takes the environment of one process (root of
  the layout, caller, clock, interpreter, runner) and the state, and returns a result and the state; what was
  written before an error stays written. Writing a file succeeds. Modes and owners are those of the
  configuration file only. A registry row of an enrolled unit has the name of the unit.
\<close>

section \<open>Data\<close>

record Caller =
  ca_euid :: int
  ca_pid :: int
  ca_comm :: string
  ca_cgroup_text :: string
  ca_pid1_comm :: string

definition caller_refusal :: "Caller \<Rightarrow> string option" where
  "caller_refusal c =
     (if ca_euid c \<noteq> 0 then Some ''This action needs a root operator on the host.''
      else if ca_pid1_comm c \<notin> {''systemd'', ''init''} then
        Some ''This action was refused because the caller is outside the host init namespace.''
      else if sublist SLICE (ca_cgroup_text c) then
        Some ''This action was refused because the caller is an enrolled workload.''
      else None)"

definition require_operator :: "Caller \<Rightarrow> BootHoldError + unit" where
  "require_operator c = (case caller_refusal c of Some reason \<Rightarrow> Inl (hold_error reason) | None \<Rightarrow> Inr ())"

datatype audit_detail =
    DNone
  | DMessage string
  | DUnits nat
  | DProfile string
  | DReady ReadyVerdict
  | DLifted "ReadyVerdict option" "string list"
  | DWorkload string "string list"
  | DReason string
  | DMatrix bool bool
  | DStarted string string
  | DText string

record AuditEvent =
  ae_action :: string
  ae_result :: string
  ae_at :: string
  ae_euid :: int
  ae_pid :: int
  ae_comm :: string
  ae_pid1_comm :: string
  ae_cgroup :: string
  ae_detail :: audit_detail

record Envelope =
  en_command :: string
  en_state :: string
  en_message :: string
  en_health :: string
  en_ready :: "ReadyVerdict option"
  en_released :: "string list"

record HoldState =
  hs_network :: bool
  hs_file_profile :: string
  hs_released :: bool
  hs_reason :: string

datatype node = NFile string | NLink string

record BootState =
  bs_config :: "ConfigFile option"
  bs_registry :: registry_file
  bs_hold :: "HoldState option"
  bs_profile :: "string option"
  bs_files :: "string \<Rightarrow> node option"
  bs_slice :: bool
  bs_health :: "Envelope option"
  bs_audit :: "AuditEvent list"
  bs_policy_id :: "string option"
  bs_container :: "string option"
  bs_loader :: "(int \<times> pyval option) option"
  bs_trace :: "argv list"

record BootEnv =
  be_root :: string
  be_caller :: Caller
  be_now :: string
  be_python :: string
  be_run :: runner
  be_crypto :: Crypto
  be_trust :: TrustSources

type_synonym 'a outcome = "(BootHoldError + 'a) \<times> BootState"

definition then_s :: "'a outcome \<Rightarrow> ('a \<Rightarrow> BootState \<Rightarrow> 'b outcome) \<Rightarrow> 'b outcome" where
  "then_s r f = (case fst r of Inl e \<Rightarrow> (Inl e, snd r) | Inr a \<Rightarrow> f a (snd r))"

definition lift_res :: "BootHoldError + 'a \<Rightarrow> BootState \<Rightarrow> 'a outcome" where
  "lift_res r s = (r, s)"

definition live_root :: "BootEnv \<Rightarrow> bool" where
  "live_root e = (be_root e = ''/'')"

definition rooted :: "BootEnv \<Rightarrow> string \<Rightarrow> string" where
  "rooted e rel = (if live_root e then ''/'' @ rel else be_root e @ ''/'' @ rel)"

definition run_cmd :: "BootEnv \<Rightarrow> argv \<Rightarrow> BootState \<Rightarrow> int \<times> BootState" where
  "run_cmd e argv s = (be_run e (bs_trace s) argv, s\<lparr>bs_trace := bs_trace s @ [argv]\<rparr>)"

definition run_hold :: "(runner \<Rightarrow> BootPolicy \<Rightarrow> argv list \<Rightarrow> unit traced) \<Rightarrow> BootEnv \<Rightarrow> BootPolicy \<Rightarrow> BootState \<Rightarrow> unit outcome" where
  "run_hold f e p s = (case f (be_run e) p (bs_trace s) of (r, t) \<Rightarrow> (r, s\<lparr>bs_trace := t\<rparr>))"

definition policy_of :: "BootEnv \<Rightarrow> BootState \<Rightarrow> BootPolicy \<times> string list" where
  "policy_of e s = load_hold_policy (be_crypto e) (be_trust e) (live_root e) (bs_config s)"

definition put_policy :: "BootEnv \<Rightarrow> BootPolicy \<Rightarrow> BootState \<Rightarrow> BootState" where
  "put_policy e p s = s\<lparr>bs_config := save_policy (live_root e) (ca_euid (be_caller e)) p (bs_config s)\<rparr>"

section \<open>Audit and authorization\<close>

definition append_audit :: "BootEnv \<Rightarrow> string \<Rightarrow> string \<Rightarrow> audit_detail \<Rightarrow> BootState \<Rightarrow> BootState" where
  "append_audit e act res detail s =
     (let c = be_caller e;
          cg = concat (map (\<lambda>ch. if ch = CHR 0x0A then '' | '' else [ch]) (py_strip spaces (ca_cgroup_text c)))
      in s\<lparr>bs_audit := bs_audit s @
            [\<lparr>ae_action = act, ae_result = res, ae_at = be_now e, ae_euid = ca_euid c, ae_pid = ca_pid c,
              ae_comm = ca_comm c, ae_pid1_comm = ca_pid1_comm c, ae_cgroup = cg, ae_detail = detail\<rparr>]\<rparr>)"

definition audit_refusal :: "BootEnv \<Rightarrow> string \<Rightarrow> BootHoldError \<Rightarrow> BootState \<Rightarrow> BootState" where
  "audit_refusal e act err s = append_audit e act ''REFUSED'' (DMessage (he_message err)) s"

definition authorize :: "BootEnv \<Rightarrow> string \<Rightarrow> BootState \<Rightarrow> unit outcome" where
  "authorize e act s =
     (case require_operator (be_caller e) of Inl err \<Rightarrow> (Inl err, audit_refusal e act err s) | Inr _ \<Rightarrow> (Inr (), s))"

section \<open>Files\<close>

definition envelope :: "string \<Rightarrow> string \<Rightarrow> string \<Rightarrow> string \<Rightarrow> Envelope" where
  "envelope command st message health =
     \<lparr>en_command = command, en_state = st, en_message = message, en_health = health, en_ready = None, en_released = []\<rparr>"

definition protected_paths :: "Workload list \<Rightarrow> string list" where
  "protected_paths rows =
     foldl (\<lambda>found path. if path \<in> set found then found else found @ [path]) []
       (concat (map wl_paths (filter wl_enrolled rows)))"

definition PROFILE_REL :: string where "PROFILE_REL = ''etc/apparmor.d/vantio-boot-hold''"

definition write_profile :: "BootEnv \<Rightarrow> string \<Rightarrow> BootState \<Rightarrow> string \<times> BootState" where
  "write_profile e txt s =
     (let s0 = s\<lparr>bs_profile := Some txt\<rparr>;
          (rc1, s1) = run_cmd e [''/usr/sbin/apparmor_parser'', ''-V''] s0;
          (binary, s2) =
            (if rc1 = 0 then (Some ''/usr/sbin/apparmor_parser'', s1)
             else
               (let (rc2, s2) = run_cmd e [''apparmor_parser'', ''-V''] s1
                in (if rc2 = 0 then Some ''apparmor_parser'' else None, s2)))
      in case binary of
           None \<Rightarrow> (''UNAVAILABLE'', s2)
         | Some b \<Rightarrow>
             (let (rc3, s3) = run_cmd e [b, ''-r'', ''-K'', ''-T'', rooted e PROFILE_REL] s2
              in (if rc3 = 0 then ''LOADED'' else ''FAILED'', s3)))"

definition unit_dropin_path :: "string \<Rightarrow> string" where
  "unit_dropin_path unit = in_system (unit @ ''.d/vantio-boot-hold.conf'')"

definition row_dropin :: "BootPolicy \<Rightarrow> bool \<Rightarrow> bool \<Rightarrow> bool \<Rightarrow> Workload \<Rightarrow> (string \<Rightarrow> node option) \<Rightarrow> (string \<Rightarrow> node option)" where
  "row_dropin p file_hold apparmor start_gate row files =
     (if \<not> wl_enrolled row \<or> wl_kind row \<noteq> ''systemd'' then files
      else
        (case wl_unit row of
           None \<Rightarrow> files
         | Some unit \<Rightarrow>
             (let (hold, ordr) = mechanisms_active p; path = unit_dropin_path unit in
              if \<not> hold \<and> \<not> ordr then files(path := None)
              else files(path \<mapsto> NFile (hold_dropin_text hold ordr (wl_paths row) (apparmor \<and> file_hold \<and> hold)
                                           (file_hold \<and> hold) start_gate)))))"

definition write_workload_dropins :: "Workload list \<Rightarrow> BootPolicy \<Rightarrow> bool \<Rightarrow> bool \<Rightarrow> bool \<Rightarrow> BootState \<Rightarrow> BootState" where
  "write_workload_dropins rows p file_hold apparmor start_gate s =
     s\<lparr>bs_files := fold (row_dropin p file_hold apparmor start_gate) rows (bs_files s)\<rparr>"

definition COMMAND_REL :: string where "COMMAND_REL = ''usr/local/bin/vantio-boot-hold''"

definition tree_files :: "string \<Rightarrow> BootPolicy \<Rightarrow> (string \<times> node) list" where
  "tree_files python p =
     map (\<lambda>(rel, txt). (rel, NFile txt)) (static_units python p) @ map (\<lambda>(rel, target). (rel, NLink target)) wants_links
     @ [(COMMAND_REL,
         NFile (unit_text [''#!/bin/sh'', ''exec '' @ python @ '' -m vantio_install.boot_hold '' @ [CHR 0x22] @ ''$@'' @ [CHR 0x22]]))]"

definition install_tree :: "BootEnv \<Rightarrow> BootPolicy \<Rightarrow> BootState \<Rightarrow> BootState" where
  "install_tree e p s =
     s\<lparr>bs_files := foldl (\<lambda>files (rel, nd). files(rel \<mapsto> nd)) (bs_files s) (tree_files (be_python e) p), bs_slice := True\<rparr>"

definition daemon_reload :: "BootEnv \<Rightarrow> BootState \<Rightarrow> BootState" where
  "daemon_reload e s = snd (run_cmd e [''systemctl'', ''daemon-reload''] s)"

definition try_restart_active :: "BootEnv \<Rightarrow> string \<Rightarrow> BootState \<Rightarrow> BootState" where
  "try_restart_active e unit s =
     (let (rc, s1) = run_cmd e [''systemctl'', ''is-active'', unit] s
      in if rc = 0 then snd (run_cmd e [''systemctl'', ''try-restart'', unit] s1) else s1)"

definition reset_failed :: "BootEnv \<Rightarrow> string \<Rightarrow> BootState \<Rightarrow> BootState" where
  "reset_failed e unit s = snd (run_cmd e [''systemctl'', ''reset-failed'', unit] s)"

definition put_hold :: "bool \<Rightarrow> string \<Rightarrow> bool \<Rightarrow> string \<Rightarrow> BootState \<Rightarrow> BootState" where
  "put_hold network profile released reason s =
     s\<lparr>bs_hold := Some \<lparr>hs_network = network, hs_file_profile = profile, hs_released = released, hs_reason = reason\<rparr>\<rparr>"

section \<open>Status\<close>

definition HELD_MESSAGE :: string where
  "HELD_MESSAGE =
     ''Enrolled workloads are held. Phantom Engine is not enforce-ready, so the hold stays on. '' @
     ''SSH and the console stay up. A root operator on the host can release with '' @
     ''`vantio-boot-hold release --break-glass --i-am-root-operator`. '' @
     ''An enrolled workload cannot release this hold.''"

record WorkloadView =
  wv_id :: string
  wv_kind :: string
  wv_enrolled :: string
  wv_protection :: string

definition workload_view :: "Workload list \<Rightarrow> bool \<Rightarrow> WorkloadView list" where
  "workload_view rows held =
     map (\<lambda>row. \<lparr>wv_id = wl_id row, wv_kind = wl_kind row, wv_enrolled = (if wl_enrolled row then ''yes'' else ''no''),
                 wv_protection = (if wl_enrolled row \<and> held then ''HELD'' else ''UNPROTECTED'')\<rparr>) rows"

record StatusBody =
  sb_state :: string
  sb_health :: string
  sb_message :: string
  sb_enabled :: bool
  sb_hold :: bool
  sb_ordering :: bool
  sb_released :: bool
  sb_registry :: string
  sb_workloads :: "WorkloadView list"
  sb_notes :: "string list"
  sb_file_profile :: string
  sb_lifecycle :: string

text \<open>The entries of the hold state, with the defaults of an absent or unreadable file.\<close>

definition st_released :: "BootState \<Rightarrow> bool" where
  "st_released s = (case bs_hold s of None \<Rightarrow> False | Some h \<Rightarrow> hs_released h)"

definition st_network :: "BootState \<Rightarrow> bool" where
  "st_network s = (case bs_hold s of None \<Rightarrow> False | Some h \<Rightarrow> hs_network h)"

definition st_reason :: "BootState \<Rightarrow> string" where
  "st_reason s = (case bs_hold s of None \<Rightarrow> [] | Some h \<Rightarrow> hs_reason h)"

definition st_profile :: "string \<Rightarrow> BootState \<Rightarrow> string" where
  "st_profile dflt s = (case bs_hold s of None \<Rightarrow> dflt | Some h \<Rightarrow> hs_file_profile h)"

text \<open>The chain of conditions of \<open>status_body\<close>: overall state, health and message.\<close>

definition status_overall :: "BootEnv \<Rightarrow> BootState \<Rightarrow> string \<times> string \<times> string" where
  "status_overall e s =
     (let p = fst (policy_of e s);
          hold_on = fst (mechanisms_active p);
          units_installed = (bs_files s (in_system ''vantio-boot-hold.service'') \<noteq> None)
      in if (case load_registry (bs_registry s) of Inl _ \<Rightarrow> True | Inr _ \<Rightarrow> False) then
           (''UNKNOWN'', ''UNKNOWN'', ''Enrollment status is UNKNOWN. Unknown is not a pass.'')
         else if \<not> bp_enabled p then
           (''OPTED_OUT'', ''OPTED_OUT'',
            ''Boot hold is off because a root admin opted out. Enrolled workloads are not held. The audit log records that opt-out.'')
         else if st_network s \<and> \<not> st_released s then (''HELD'', ''DEGRADED'', HELD_MESSAGE)
         else if st_reason s = ''BREAK_GLASS'' then
           (''RELEASED'', ''DEGRADED'',
            ''A root operator released the hold with break-glass while Phantom Engine was not enforce-ready. '' @
            ''The reboot row stays NOT_PROVED.'')
         else if st_released s \<and> st_reason s = ''enforce-ready'' then
           (''RELEASED'', ''HANDOFF'',
            ''The hold released after the enforce-ready probe passed. '' @
            ''This status does not mark the reboot exposure row proved.'')
         else if hold_on \<and> \<not> units_installed then
           (''CONFIGURED'', ''DEGRADED'',
            ''Boot hold defaults on. The units are not installed yet, so the packet filter is not holding enrolled workloads. '' @
            ''Install them with `vantio-boot-hold install`.'')
         else if hold_on \<and> \<not> st_network s then
           (''CONFIGURED'', ''DEGRADED'',
            ''Boot hold is configured on. `vantio-boot-hold.service` applies the enrolled packet hold at boot, before Docker. '' @
            ''Until that service runs, status stays CONFIGURED.'')
         else
           (''HOLD_OFF'', ''DEGRADED'',
            ''The network hold is off because a root admin set hold to off. Ordering may still gate starts. The audit log records that change.''))"

definition status_body :: "BootEnv \<Rightarrow> string \<Rightarrow> BootState \<Rightarrow> StatusBody" where
  "status_body e looked_up s =
     (let (p, notes) = policy_of e s;
          (rows, rstate, notes2) =
            (case load_registry (bs_registry s) of
               Inl err \<Rightarrow> ([], ''UNKNOWN'', notes @ [he_message err])
             | Inr rows \<Rightarrow> (rows, ''READ'', notes));
          (overall, health, message) = status_overall e s;
          held = (overall = ''HELD'');
          missing = (looked_up \<noteq> []
                     \<and> (case find_workload rows looked_up of None \<Rightarrow> True | Some row \<Rightarrow> \<not> wl_enrolled row));
          extra = (if missing then
                     [\<lparr>wv_id = looked_up, wv_kind = ''lookup'', wv_enrolled = ''no'', wv_protection = ''UNPROTECTED''\<rparr>]
                   else [])
      in \<lparr>sb_state = overall, sb_health = health, sb_message = message, sb_enabled = bp_enabled p,
          sb_hold = fst (mechanisms_active p), sb_ordering = snd (mechanisms_active p), sb_released = st_released s,
          sb_registry = rstate, sb_workloads = workload_view rows held @ extra, sb_notes = notes2,
          sb_file_profile = st_profile ''UNKNOWN'' s,
          sb_lifecycle =
            enforcement_lifecycle (overall = ''OPTED_OUT'') (st_reason s = ''BREAK_GLASS'') (overall = ''FAILED_SAFE'') held False
              (case bs_health s of None \<Rightarrow> None | Some h \<Rightarrow> en_ready h)\<rparr>)"

section \<open>Install and boot\<close>

definition install :: "BootEnv \<Rightarrow> BootState \<Rightarrow> Envelope outcome" where
  "install e s =
     then_s (authorize e ''install'' s) (\<lambda>_ s.
       let p = fst (policy_of e s);
           s1 = (if bs_config s = None then put_policy e p s else s);
           s2 = install_tree e p s1
       in then_s (lift_res (load_registry (bs_registry s2)) s2) (\<lambda>rows s2.
            let s3 = s2\<lparr>bs_registry := save_registry rows\<rparr>
            in (Inr (envelope ''install'' ''INSTALLED'' ''Boot hold units are installed. The hold defaults on.'' []),
                append_audit e ''install'' ''OK'' (DUnits (length (tree_files (be_python e) p))) s3)))"

definition hold_off :: "BootEnv \<Rightarrow> BootPolicy \<Rightarrow> string list \<Rightarrow> Workload list \<Rightarrow> BootState \<Rightarrow> Envelope outcome" where
  "hold_off e p notes rows s =
     then_s (run_hold remove_hold e p s) (\<lambda>_ s1.
       let s2 = (if protected_paths rows \<noteq> [] then snd (write_profile e allow_profile s1) else s1);
           s3 = put_hold False ''off'' True ''hold-off'' s2;
           s4 = write_workload_dropins rows p False False True s3;
           s5 = daemon_reload e s4;
           message = (case notes of [] \<Rightarrow> ''The boot hold is off by root admin configuration.'' | note # _ \<Rightarrow> note);
           body = envelope ''apply-boot'' ''HOLD_OFF'' message (if \<not> bp_enabled p then ''OPTED_OUT'' else ''DEGRADED'')
       in (Inr body, append_audit e ''apply-boot'' ''HOLD_OFF'' DNone (s5\<lparr>bs_health := Some body\<rparr>)))"

definition hold_on :: "BootEnv \<Rightarrow> BootPolicy \<Rightarrow> Workload list \<Rightarrow> BootState \<Rightarrow> Envelope outcome" where
  "hold_on e p rows s =
     (let paths = protected_paths rows;
          (profile_state, s1) = (if paths \<noteq> [] then write_profile e (deny_profile paths) s else (''NO_PATHS'', s));
          s2 = write_workload_dropins rows p True (profile_state = ''LOADED'') True s1
      in case run_hold install_hold e p s2 of
           (Inl err, s3) \<Rightarrow>
             (let s4 = put_hold False profile_state False ''hold-failed'' s3;
                  body = envelope ''apply-boot'' ''HELD'' (HELD_MESSAGE @ '' '' @ he_message err) ''DEGRADED''
              in (Inl err, append_audit e ''apply-boot'' ''FAILED'' (DMessage (he_message err)) (s4\<lparr>bs_health := Some body\<rparr>)))
         | (Inr _, s3) \<Rightarrow>
             (let s4 = daemon_reload e (s3\<lparr>bs_slice := True\<rparr>);
                  s5 = put_hold True (if profile_state = ''LOADED'' then ''deny'' else profile_state) False ''boot-hold'' s4;
                  body = envelope ''apply-boot'' ''HELD'' HELD_MESSAGE ''DEGRADED''
              in (Inr body, append_audit e ''apply-boot'' ''HELD'' (DProfile profile_state) (s5\<lparr>bs_health := Some body\<rparr>))))"

definition apply_boot :: "BootEnv \<Rightarrow> BootState \<Rightarrow> Envelope outcome" where
  "apply_boot e s =
     then_s (authorize e ''apply-boot'' s) (\<lambda>_ s.
       let (p, notes) = policy_of e s in
       then_s (lift_res (load_registry (bs_registry s)) s) (\<lambda>rows s.
         let s1 = install_tree e p s in
         if \<not> fst (mechanisms_active p) then hold_off e p notes rows s1 else hold_on e p rows s1))"

definition enable_from_apply :: "BootEnv \<Rightarrow> BootState \<Rightarrow> Envelope outcome" where
  "enable_from_apply e s =
     apply_boot e (if bs_config s = None then put_policy e hold_default_policy s else s)"

section \<open>Release\<close>

text \<open>\<open>_wait_ready\<close>: \<open>facts i\<close> is what the \<open>i\<close>-th probe returns, \<open>rounds\<close> the number of rounds the clock
  allows before the deadline.\<close>

fun wait_loop :: "(nat \<Rightarrow> ReadyFacts) \<Rightarrow> nat \<Rightarrow> nat \<Rightarrow> ReadyVerdict \<Rightarrow> ReadyVerdict" where
  "wait_loop facts 0 i v = v"
| "wait_loop facts (Suc n) i v =
     (if rv_enforce_ready v then v else wait_loop facts n (Suc i) (evaluate_ready (facts i)))"

definition wait_ready :: "(nat \<Rightarrow> ReadyFacts) \<Rightarrow> nat \<Rightarrow> int \<Rightarrow> ReadyVerdict" where
  "wait_ready facts rounds wait_seconds =
     (let v = evaluate_ready (facts 0) in
      if wait_seconds \<le> 0 \<or> rv_enforce_ready v then v else wait_loop facts rounds 1 v)"

definition lift_row :: "BootEnv \<Rightarrow> BootPolicy \<Rightarrow> bool \<Rightarrow> Workload \<Rightarrow> string list \<times> BootState \<Rightarrow> string list \<times> BootState" where
  "lift_row e p clear_gate row acc =
     (let (released, s) = acc in
      if \<not> wl_enrolled row then (released, s)
      else if wl_kind row = ''systemd'' then
        (case wl_unit row of
           None \<Rightarrow> (released, s)
         | Some unit \<Rightarrow>
             if clear_gate then (released @ [''start-gate:'' @ unit], reset_failed e unit s)
             else (released, try_restart_active e unit s))
      else if wl_kind row = ''compose'' \<and> clear_gate then
        (let dir = (case wl_project_dir row of None \<Rightarrow> [] | Some d \<Rightarrow> d);
             unit = ''vantio-enrolled-compose-'' @ path_name dir @ ''.service''
         in if path_name dir = [] then (released, s)
            else
              (released @ [''start-gate:'' @ unit],
               reset_failed e unit
                 (s\<lparr>bs_files := (bs_files s)(in_system unit \<mapsto> NFile (unit_text (compose_service (path_name dir) dir p False)))\<rparr>)))
      else (released, s))"

definition lift_docker_row :: "BootEnv \<Rightarrow> Workload \<Rightarrow> string list \<times> BootState \<Rightarrow> string list \<times> BootState" where
  "lift_docker_row e row acc =
     (let (released, s) = acc in
      if wl_enrolled row \<and> wl_kind row = ''docker'' then
        (let unit = ''vantio-enrolled-docker@'' @ (case wl_container row of None \<Rightarrow> ''None'' | Some c \<Rightarrow> c) @ ''.service''
         in (released @ [''start-gate:'' @ unit], reset_failed e unit s))
      else (released, s))"

definition lift_hold :: "BootEnv \<Rightarrow> Workload list \<Rightarrow> BootPolicy \<Rightarrow> bool \<Rightarrow> BootState \<Rightarrow> string list outcome" where
  "lift_hold e rows p clear_gate s =
     (let s1 = (if protected_paths rows \<noteq> [] then snd (write_profile e allow_profile s) else s) in
      then_s (run_hold remove_hold e p s1) (\<lambda>_ s2.
        let s3 = write_workload_dropins rows p False False (\<not> clear_gate) s2;
            (released, s4) = fold (lift_row e p clear_gate) rows ([''packet-hold-ipv4'', ''packet-hold-ipv6'', ''file-hold''], s3);
            docker_unit = in_system ''vantio-enrolled-docker@.service'';
            (released2, s5) =
              (if clear_gate then
                 fold (lift_docker_row e) rows
                   (released @ [''start-gate:vantio-enrolled-docker@.service''],
                    s4\<lparr>bs_files := (bs_files s4)(docker_unit \<mapsto> NFile (unit_text (enrolled_docker_service p False)))\<rparr>)
               else (released, install_tree e p s4))
        in (Inr released2, daemon_reload e s5)))"

definition released_message :: "bool \<Rightarrow> string list \<Rightarrow> string" where
  "released_message glass released =
     (if glass then
        ''A root operator released the boot hold in one action. '' @
        ''Released: '' @ py_join '', '' released @ ''. '' @
        ''Start gates no longer require enforce-ready. '' @
        ''The audit log records that list. The reboot row stays NOT_PROVED.''
      else
        ''The hold released after the enforce-ready check, including the live deny check. '' @
        ''The reboot row stays NOT_PROVED.'')"

definition held_text :: "ReadyVerdict \<Rightarrow> string" where
  "held_text v =
     HELD_MESSAGE
     @ (if rv_reason v = ''loader-running-not-attached'' then
          '' The loader is running and enforcement is not attached, so the hold stays.''
        else if rv_reason v = ''deny-self-check-failed'' then '' The live deny check did not pass, so the hold stays.''
        else [])"

definition release_run :: "BootEnv \<Rightarrow> bool \<Rightarrow> ReadyVerdict \<Rightarrow> BootPolicy \<Rightarrow> Workload list \<Rightarrow> BootState \<Rightarrow> Envelope outcome" where
  "release_run e glass v p rows s =
     (if \<not> glass \<and> \<not> rv_enforce_ready v then
        (let s1 = put_hold True (st_profile ''deny'' s) False (if rv_reason v = [] then ''not-enforce-ready'' else rv_reason v) s;
             body = (envelope ''release'' ''HELD'' (held_text v) ''DEGRADED'')\<lparr>en_ready := Some v\<rparr>
         in (Inl (held_error (held_text v)),
             append_audit e ''release'' ''REFUSED'' (DReady v) (s1\<lparr>bs_health := Some body\<rparr>)))
      else
        then_s (lift_hold e rows p glass s) (\<lambda>released s1.
          let reason = (if glass then ''BREAK_GLASS'' else ''enforce-ready'');
              s2 = put_hold False ''allow'' True reason s1;
              body = (envelope ''release'' ''RELEASED'' (released_message glass released) (if glass then ''DEGRADED'' else ''HANDOFF''))
                       \<lparr>en_ready := Some v, en_released := released\<rparr>
          in (Inr body, append_audit e ''release'' reason (DLifted (Some v) released) (s2\<lparr>bs_health := Some body\<rparr>))))"

definition release ::
  "BootEnv \<Rightarrow> bool \<Rightarrow> bool \<Rightarrow> bool \<Rightarrow> (nat \<Rightarrow> ReadyFacts) \<Rightarrow> nat \<Rightarrow> int \<Rightarrow> BootState \<Rightarrow> Envelope outcome" where
  "release e require_ready break_glass operator_flag facts rounds wait_seconds s =
     then_s (authorize e ''release'' s) (\<lambda>_ s.
       if require_ready \<and> break_glass then
         (Inl (usage_error ''Pass either --require-enforce-ready or --break-glass.''), s)
       else if \<not> require_ready \<and> \<not> break_glass then
         (let err = usage_error
                (''Release needs --require-enforce-ready after the probe passes, or --break-glass --i-am-root-operator. '' @
                 ''The hold does not release on its own.'')
          in (Inl err, audit_refusal e ''release'' err s))
       else if break_glass \<and> \<not> operator_flag then
         (let err = usage_error ''Break-glass release needs --i-am-root-operator on a host root shell.''
          in (Inl err, audit_refusal e ''release'' err s))
       else
         (let p = fst (policy_of e s) in
          then_s (lift_res (load_registry (bs_registry s)) s) (\<lambda>rows s.
            release_run e break_glass (wait_ready facts rounds (if require_ready then wait_seconds else 0)) p rows s)))"

section \<open>Removal\<close>

definition remove_from_apply :: "BootEnv \<Rightarrow> BootState \<Rightarrow> unit outcome" where
  "remove_from_apply e s =
     then_s (authorize e ''remove'' s) (\<lambda>_ s.
       let p = fst (policy_of e s) in
       then_s (run_hold remove_hold e p s) (\<lambda>_ s1.
         let rels = map fst (static_units ''/usr/bin/python3'' p) @ map fst wants_links;
             s2 = s1\<lparr>bs_files := foldl (\<lambda>files rel. files(rel := None)) (bs_files s1) rels\<rparr>;
             s3 = put_hold False ''off'' True ''removed'' s2
         in (Inr (), append_audit e ''remove'' ''OK'' (DLifted None [''packet-hold-ipv4'', ''packet-hold-ipv6'', ''units'']) s3)))"

section \<open>Enrollment\<close>

definition enroll_systemd :: "BootEnv \<Rightarrow> string \<Rightarrow> string list \<Rightarrow> BootState \<Rightarrow> Envelope outcome" where
  "enroll_systemd e unit0 paths s =
     then_s (authorize e ''enroll'' s) (\<lambda>_ s.
       then_s (lift_res (validate_unit_name unit0) s) (\<lambda>unit s.
       then_s (lift_res (map_res validate_protected_path paths) s) (\<lambda>clean s.
         let p = fst (policy_of e s) in
         then_s (lift_res (load_registry (bs_registry s)) s) (\<lambda>rows0 s.
           let row = \<lparr>wl_id = unit, wl_kind = ''systemd'', wl_enrolled = True, wl_unit = Some unit, wl_container = None,
                      wl_project_dir = None, wl_paths = clean\<rparr>;
               rows = upsert rows0 row;
               s1 = s\<lparr>bs_registry := save_registry rows\<rparr>;
               s2 = write_workload_dropins rows p True (bs_profile s1 \<noteq> None) True s1;
               s3 = install_tree e p s2
           in (Inr (envelope ''enroll'' ''ENROLLED'' (unit @ '' is enrolled. It joins '' @ SLICE @ '' and waits for the boot gate.'') []),
               append_audit e ''enroll'' ''OK'' (DWorkload unit clean) s3)))))"

definition want_link :: "string \<Rightarrow> BootState \<Rightarrow> BootState" where
  "want_link unit s =
     s\<lparr>bs_files := (bs_files s)(in_system (''multi-user.target.wants/'' @ unit) \<mapsto> NLink (''../'' @ unit))\<rparr>"

definition docker_restart ::
  "BootEnv \<Rightarrow> string \<Rightarrow> string \<Rightarrow> bool \<Rightarrow> BootState \<Rightarrow> string outcome" where
  "docker_restart e name restart_policy set_restart_no s =
     (if set_restart_no \<and> restart_policy \<notin> set [[], ''no'', ''none''] then
        (let (rc, s1) = run_cmd e [''docker'', ''update'', ''--restart=no'', name] s in
         if rc \<noteq> 0 then
           (Inl (hold_error (''docker update --restart=no '' @ name @ '' failed. The container stays unenrolled.'')), s1)
         else (Inr ''no'', s1))
      else (Inr restart_policy, s))"

definition enroll_docker ::
  "BootEnv \<Rightarrow> string \<Rightarrow> string \<Rightarrow> string \<Rightarrow> string list \<Rightarrow> bool \<Rightarrow> BootState \<Rightarrow> Envelope outcome" where
  "enroll_docker e name0 restart_policy cgroup_parent paths set_restart_no s =
     then_s (authorize e ''enroll'' s) (\<lambda>_ s.
       then_s (lift_res (validate_docker_name name0) s) (\<lambda>name s.
       then_s (lift_res (map_res validate_protected_path paths) s) (\<lambda>clean s.
       then_s (docker_restart e name restart_policy set_restart_no s) (\<lambda>restart s.
       then_s (lift_res (restart_is_gated restart) s) (\<lambda>_ s.
         if py_rstrip ''/'' cgroup_parent \<notin> set [''/'' @ SLICE, SLICE] then
           (Inl (usage_error
              (''Create the container with --cgroup-parent=/vantio-enrolled.slice --restart=no '' @
               ''--security-opt apparmor=vantio-boot-hold --network vantio-enrolled.'')), s)
         else
           (let p = fst (policy_of e s) in
            then_s (lift_res (load_registry (bs_registry s)) s) (\<lambda>rows s.
              let row = \<lparr>wl_id = name, wl_kind = ''docker'', wl_enrolled = True, wl_unit = None, wl_container = Some name,
                         wl_project_dir = None, wl_paths = clean\<rparr>;
                  unit = ''vantio-enrolled-docker@'' @ name @ ''.service'';
                  s1 = want_link unit (install_tree e p (s\<lparr>bs_registry := save_registry (upsert rows row)\<rparr>))
              in (Inr (envelope ''enroll'' ''ENROLLED''
                    (''Container '' @ name @ '' is enrolled. Docker restart stays no. '' @ unit @ '' starts it after the boot gate.'') []),
                  append_audit e ''enroll'' ''OK'' (DWorkload name []) s1))))))))"

definition enroll_compose :: "BootEnv \<Rightarrow> string \<Rightarrow> string \<Rightarrow> BootState \<Rightarrow> Envelope outcome" where
  "enroll_compose e project_dir compose_text s =
     then_s (authorize e ''enroll'' s) (\<lambda>_ s.
       if \<not> prefix ''/'' project_dir
          \<or> list_ex (\<lambda>c. c \<in> set project_dir) ('' '' @ [CHR 0x0A, CHR 0x09] @ '';|&$`'') then
         (Inl (usage_error ''The compose project directory must be an absolute path without spaces.''), s)
       else
         then_s (lift_res (compose_text_gated compose_text) s) (\<lambda>_ s.
           let p = fst (policy_of e s); dir = normpath_abs project_dir; name = path_name project_dir in
           then_s (lift_res (load_registry (bs_registry s)) s) (\<lambda>rows s.
             let row = \<lparr>wl_id = ''compose-'' @ name, wl_kind = ''compose'', wl_enrolled = True, wl_unit = None, wl_container = None,
                        wl_project_dir = Some dir, wl_paths = []\<rparr>;
                 unit = ''vantio-enrolled-compose-'' @ name @ ''.service'';
                 s1 = install_tree e p (s\<lparr>bs_registry := save_registry (upsert rows row)\<rparr>);
                 s2 = s1\<lparr>bs_files := (bs_files s1)(in_system unit \<mapsto> NFile (unit_text (compose_service name dir p True)))\<rparr>
             in (Inr (envelope ''enroll'' ''ENROLLED''
                   (''Compose project '' @ dir @ '' is enrolled. `docker compose start` runs from '' @ unit @ '' after the boot gate.'') []),
                 append_audit e ''enroll'' ''OK'' (DWorkload dir []) (want_link unit s2)))))"

definition observe_unenrolled :: "BootEnv \<Rightarrow> string \<Rightarrow> string \<Rightarrow> BootState \<Rightarrow> Envelope outcome" where
  "observe_unenrolled e name kind s =
     then_s (authorize e ''observe-unenrolled'' s) (\<lambda>_ s.
       if kind \<notin> set [''systemd'', ''docker'', ''compose'', ''process''] then
         (Inl (usage_error ''Kind must be systemd, docker, compose, or process.''), s)
       else
         then_s (lift_res (load_registry (bs_registry s)) s) (\<lambda>rows s.
           let row = \<lparr>wl_id = name, wl_kind = kind, wl_enrolled = False, wl_unit = None, wl_container = None,
                      wl_project_dir = None, wl_paths = []\<rparr>
           in (Inr (envelope ''observe-unenrolled'' ''UNPROTECTED''
                 (name @ '' is recorded as unenrolled. It is unprotected and the hold does not apply to it.'') []),
               append_audit e ''observe-unenrolled'' ''OK'' (DWorkload name [])
                 (s\<lparr>bs_registry := save_registry (upsert rows row)\<rparr>))))"

section \<open>Configuration\<close>

definition opt_out :: "BootEnv \<Rightarrow> string \<Rightarrow> BootState \<Rightarrow> Envelope outcome" where
  "opt_out e reason s =
     then_s (authorize e ''opt-out'' s) (\<lambda>_ s.
       if py_strip spaces reason = [] then (Inl (usage_error ''Opt-out needs a reason.''), s)
       else
         (let p = (fst (policy_of e s))\<lparr>bp_enabled := False\<rparr>; s1 = put_policy e p s in
          then_s (lift_res (load_registry (bs_registry s1)) s1) (\<lambda>rows s1.
          then_s (run_hold remove_hold e p s1) (\<lambda>_ s2.
            let s3 = (if protected_paths rows \<noteq> [] then snd (write_profile e allow_profile s2) else s2);
                s4 = write_workload_dropins rows p False False True s3;
                s5 = daemon_reload e (install_tree e p s4);
                s6 = put_hold False ''off'' True ''OPT_OUT'' s5;
                body = envelope ''opt-out'' ''OPTED_OUT''
                  ''Boot hold is off. A root admin opted out, and the audit log records the reason. Enrolled workloads are not held.''
                  ''OPTED_OUT''
            in (Inr body, (append_audit e ''opt-out'' ''OK'' (DReason reason) s6)\<lparr>bs_health := Some body\<rparr>)))))"

definition opt_in :: "BootEnv \<Rightarrow> BootState \<Rightarrow> Envelope outcome" where
  "opt_in e s =
     then_s (authorize e ''opt-in'' s) (\<lambda>_ s.
       apply_boot e (append_audit e ''opt-in'' ''OK'' DNone (put_policy e hold_default_policy s)))"

definition configure :: "BootEnv \<Rightarrow> bool \<Rightarrow> bool \<Rightarrow> BootState \<Rightarrow> Envelope outcome" where
  "configure e hold ordr s =
     then_s (authorize e ''configure'' s) (\<lambda>_ s.
       then_s (lift_res (require_explicit_matrix hold ordr) s) (\<lambda>_ s.
         apply_boot e (append_audit e ''configure'' ''OK'' (DMatrix hold ordr)
           (put_policy e (hold_default_policy\<lparr>bp_hold := hold, bp_ordering := ordr\<rparr>) s))))"

section \<open>Enforcement start\<close>

definition iface_ok :: "string \<Rightarrow> bool" where
  "iface_ok s = (1 \<le> length s \<and> length s \<le> 15 \<and> list_all (\<lambda>c. alnum_char c \<or> c \<in> set ''_.:-'') s)"

definition object_char :: "char \<Rightarrow> bool" where
  "object_char c = (alnum_char c \<and> \<not> (65 \<le> py_ord c \<and> py_ord c \<le> 90))"

definition object_ok :: "string \<Rightarrow> bool" where
  "object_ok s =
     (case s of
        [] \<Rightarrow> False
      | c # rest \<Rightarrow> object_char c \<and> length rest \<le> 40 \<and> list_all (\<lambda>d. object_char d \<or> d \<in> set ''_.-'') rest)"

definition stop_observe_container :: "BootEnv \<Rightarrow> string \<Rightarrow> string \<Rightarrow> BootState \<Rightarrow> unit outcome" where
  "stop_observe_container e name observe_name s =
     (if observe_name = [] \<or> observe_name = name then (Inr (), s)
      else
        (let failed = held_error ''The observe container did not stop. Enforcement was not started. The hold stays on.'';
             (rc1, s1) = run_cmd e [''docker'', ''stop'', observe_name] s
         in if rc1 \<noteq> 0 then (Inl failed, s1)
            else
              (let (rc2, s2) = run_cmd e [''docker'', ''rm'', observe_name] s1
               in (if rc2 \<noteq> 0 then Inl failed else Inr (), s2))))"

text \<open>\<open>prepare_enforce\<close>; \<open>cmdline\<close> is the command line of the loader that \<open>probe_loader\<close> found.\<close>

definition prepare_enforce :: "BootEnv \<Rightarrow> string \<Rightarrow> string \<Rightarrow> string \<Rightarrow> string \<Rightarrow> BootState \<Rightarrow> Envelope outcome" where
  "prepare_enforce e cmdline iface name observe_name s =
     then_s (authorize e ''prepare-enforce'' s) (\<lambda>_ s.
       if \<not> iface_ok iface then (Inl (hold_error ''The interface name is not usable.''), s)
       else if \<not> object_ok name then (Inl (hold_error ''The container name is not usable.''), s)
       else if observe_name \<noteq> [] \<and> \<not> object_ok observe_name then
         (Inl (hold_error ''The observe container name is not usable.''), s)
       else if sublist ''vantio-loader'' cmdline \<and> ''--enforce'' \<notin> set (py_words [] cmdline) \<and> observe_name = [] then
         (Inl (held_error ''An observe loader is running. Pass --observe-name before starting enforcement. The hold stays on.''), s)
       else
         (case enforce_container_argv pe_local_tag iface name None of
            None \<Rightarrow> (Inl (hold_error ''The enforce container argv is not the supported form.''), s)
          | Some argv \<Rightarrow>
              if ''--privileged'' \<in> set argv \<or> ''--cgroup-parent'' \<in> set argv then
                (Inl (hold_error ''The enforce container argv is not the supported form.''), s)
              else
                (let policy_id = policy_id_from_cmdline (py_join '' '' argv);
                     s1 = s\<lparr>bs_slice := True, bs_policy_id := Some (policy_id @ [CHR 0x0A]),
                            bs_container := Some (name @ [CHR 0x0A]),
                            bs_loader := Some (0x1A4, Some (PList (map PStr [''/usr/bin/docker'', ''start'', ''-a'', name])))\<rparr>
                 in then_s (stop_observe_container e name observe_name s1) (\<lambda>_ s2.
                      let (rc, s3) = run_cmd e argv s2 in
                      if rc \<noteq> 0 then (Inl (held_error ''The enforce container did not start. The hold stays on.''), s3)
                      else
                        (Inr (envelope ''prepare-enforce'' ''HELD''
                           (''The enforce container is started and the enrolled slice exists. '' @
                            ''The hold stays on until the live deny check passes.'') []),
                         append_audit e ''prepare-enforce'' ''STARTED'' (DStarted name policy_id) s3)))))"

definition NETWORK_NAME :: string where "NETWORK_NAME = ''vantio-enrolled''"

definition ensure_network :: "BootEnv \<Rightarrow> BootState \<Rightarrow> Envelope outcome" where
  "ensure_network e s =
     then_s (authorize e ''ensure-network'' s) (\<lambda>_ s.
       let subnet = bp_subnet_v4 (fst (policy_of e s));
           (rc, s1) = run_cmd e [''docker'', ''network'', ''inspect'', NETWORK_NAME] s;
           (rc2, s2) = (if rc \<noteq> 0 then run_cmd e [''docker'', ''network'', ''create'', ''--subnet'', subnet, NETWORK_NAME] s1 else (0, s1))
       in if rc2 \<noteq> 0 then (Inl (hold_error (''Creating Docker network '' @ NETWORK_NAME @ '' failed.'')), s2)
          else
            (Inr (envelope ''ensure-network'' ''NETWORK_READY''
               (''Docker network '' @ NETWORK_NAME @ '' uses '' @ subnet
                @ ''. Creating the network does not start enrolled containers.'') []),
             append_audit e ''ensure-network'' ''OK'' (DText subnet) s2))"

definition str_value :: "pyval \<Rightarrow> string option" where
  "str_value v = (case v of PStr t \<Rightarrow> if t = [] then None else Some t | _ \<Rightarrow> None)"

definition loader_argv :: "(int \<times> pyval option) option \<Rightarrow> BootHoldError + string list" where
  "loader_argv file =
     (case file of
        None \<Rightarrow>
          Inl (held_error
            (''Phantom Engine loader command is not configured, so the loader unit fails and enrolled workloads stay held. '' @
             ''A root admin writes a JSON list of strings to /etc/vantio/pe-loader.argv.json.''))
      | Some (mode, content) \<Rightarrow>
          if mode AND 0x12 \<noteq> 0 then
            Inl (held_error
              ''The loader argv file is writable by group or other. The loader stays stopped and the hold stays on.'')
          else
            (case content of
               None \<Rightarrow> Inl (held_error ''pe-loader.argv.json is not valid JSON. The loader stays stopped.'')
             | Some (PList vs) \<Rightarrow>
                 if vs = [] \<or> list_ex (\<lambda>v. str_value v = None) vs then
                   Inl (held_error ''pe-loader.argv.json must be a JSON list of strings.'')
                 else if \<not> prefix ''/'' (hd (List.map_filter str_value vs)) then
                   Inl (held_error ''The loader command must start with an absolute path.'')
                 else Inr (List.map_filter str_value vs)
             | Some _ \<Rightarrow> Inl (held_error ''pe-loader.argv.json must be a JSON list of strings.'')))"

definition start_loader :: "BootEnv \<Rightarrow> BootState \<Rightarrow> string list outcome" where
  "start_loader e s =
     then_s (authorize e ''start-loader'' s) (\<lambda>_ s.
       then_s (lift_res (loader_argv (bs_loader s)) s) (\<lambda>argv s.
         (Inr argv, append_audit e ''start-loader'' ''EXEC'' (DText (hd argv)) s)))"

section \<open>The live runner\<close>

text \<open>The checks \<open>live_boot_hold_runner\<close> makes before it runs a command.\<close>

definition live_runner_guard :: "argv \<Rightarrow> BootHoldError + unit" where
  "live_runner_guard argv =
     (if argv = [] \<or> hd argv \<notin> set [''iptables'', ''ip6tables'', ''apparmor_parser'', ''/usr/sbin/apparmor_parser'',
                                     ''systemctl'', ''systemd-run'', ''bpftool''] then
        Inl (hold_error ''Refusing a boot-hold command outside the enrolled hold.'')
      else if hd argv = ''systemctl''
              \<and> (length argv < 2 \<or> argv ! 1 \<notin> set [''daemon-reload'', ''is-active'', ''try-restart'', ''reset-failed'']) then
        Inl (hold_error ''Refusing a systemctl command that is not part of the boot hold.'')
      else if ''-P'' \<in> set argv \<or> sublist ''0.0.0.0/0'' (py_join '' '' argv) \<or> sublist ''::/0'' (py_join '' '' argv) then
        Inl (hold_error ''Refusing a host-wide hold command.'')
      else Inr ())"

end
