(* ===== verification/Boot_Deny.thy ===== *)
theory Boot_Deny
  imports Boot_Ready
begin

text \<open>
  What the live deny check of \<open>boot_hold/readiness.py\<close> proves: its verdict in terms of the exit codes and the
  block records it saw, and the commands it leaves behind.
\<close>

section \<open>The check\<close>

text \<open>The commands of a deny check that runs, and the conditions under which it proves the denial.\<close>

definition deny_commands :: "DenyProbe \<Rightarrow> argv list" where
  "deny_commands p =
     (let binary = (if CHR '':'' \<in> set (dp_host p) then ''ip6tables'' else ''iptables'') in
      [exception_argv binary (dp_host p) (dp_port p) False, connect_argv (dp_script p True) True,
       connect_argv (dp_script p False) False, exception_argv binary (dp_host p) (dp_port p) True])"

text \<open>The readings of the log after the first: before the control, after a second try when the first saw no new block
  record and there is a sleeper, and at the end.\<close>

definition log_read :: "DenyProbe \<Rightarrow> string \<Rightarrow> string \<Rightarrow> string \<Rightarrow> bool" where
  "log_read p before mid later =
     (\<exists>first. dp_events p 1 = Some first
        \<and> (let more = (if dp_sleeper p \<and> new_block_count before first < 1 then 1 else 0) in
           dp_events p (1 + more) = Some mid \<and> dp_events p (2 + more) = Some later))"

definition deny_evidence :: "raising_runner \<Rightarrow> DenyProbe \<Rightarrow> argv list \<Rightarrow> bool" where
  "deny_evidence run p t =
     (let cmds = deny_commands p; rc = (\<lambda>i. run (t @ take i cmds) (cmds ! i)) in
      rc 0 = Some 0 \<and> (\<exists>n. rc 1 = Some n \<and> n \<noteq> 0) \<and> rc 2 = Some 0 \<and> rc 3 = Some 0
      \<and> (\<exists>before mid later. dp_events p 0 = Some before \<and> log_read p before mid later
           \<and> 1 \<le> new_block_count before mid \<and> new_block_count mid later = 0)
      \<and> sublist SLICE (dp_cgroup p True) \<and> dp_cgroup p False \<noteq> [] \<and> \<not> sublist SLICE (dp_cgroup p False))"

definition probe_named :: "DenyProbe \<Rightarrow> bool \<Rightarrow> bool" where
  "probe_named p attached = (attached \<and> dp_host p \<noteq> [] \<and> dp_port p \<noteq> 0)"

lemma unless_raised_simps [simp]:
  "unless_raised (None, t) f = (None, t)" "unless_raised (Some a, t) f = f a t"
  by (simp_all add: unless_raised_def)

lemma unless_raised_Some:
  "fst (unless_raised r f) = Some b \<longleftrightarrow> (\<exists>a t. r = (Some a, t) \<and> fst (f a t) = Some b)"
  by (cases r; cases "fst r") (auto simp: unless_raised_def)

text \<open>The probes that were reached, and the result when nothing raised.\<close>

lemma deny_probes_trace:
  "\<exists>probes. snd (deny_probes run p before t) = t @ probes
     \<and> probes \<in> {[deny_commands p ! 1], [deny_commands p ! 1, deny_commands p ! 2]}"
  by (auto simp: deny_probes_def deny_commands_def issue_def unless_raised_def Let_def split: option.split)

lemma deny_probes_Some:
  "fst (deny_probes run p before t) = Some (rc1, mid, rc2, later) \<longleftrightarrow>
     run t (deny_commands p ! 1) = Some rc1 \<and> run (t @ [deny_commands p ! 1]) (deny_commands p ! 2) = Some rc2
     \<and> log_read p before mid later"
  by (auto simp: log_read_def deny_probes_def deny_commands_def issue_def unless_raised_def Let_def numeral_2_eq_2 numeral_3_eq_3
      split: option.splits)

lemma deny_probes_done:
  "fst (deny_probes run p before t) = Some r \<Longrightarrow>
     snd (deny_probes run p before t) = t @ [deny_commands p ! 1, deny_commands p ! 2]"
  by (auto simp: deny_probes_def deny_commands_def issue_def unless_raised_def Let_def split: option.splits)

text \<open>The check after the insertion succeeded and the first reading of the log returned.\<close>

lemma deny_check_inserted:
  assumes "probe_named p attached" "run t (deny_commands p ! 0) = Some 0" "dp_events p 0 = Some before"
  defines "t1 \<equiv> t @ [deny_commands p ! 0]"
  shows "snd (perform_deny_self_check run p attached t) = snd (deny_probes run p before t1) @ [deny_commands p ! 3]"
    and "fst (perform_deny_self_check run p attached t) = Some check \<longleftrightarrow>
      (\<exists>gone rc1 mid rc2 later. fst (deny_probes run p before t1) = Some (rc1, mid, rc2, later)
         \<and> run (snd (deny_probes run p before t1)) (deny_commands p ! 3) = Some gone
         \<and> check = interpret_self_check
             \<lparr>po_attached = True, po_enrolled_rc = Some rc1, po_unenrolled_rc = Some rc2, po_hold_bypassed = True,
              po_block_events = int (new_block_count before mid), po_control_block_events = int (new_block_count mid later),
              po_exception_removed = (gone = 0), po_enrolled_cgroup = dp_cgroup p True,
              po_unenrolled_cgroup = dp_cgroup p False, po_mechanism = []\<rparr>)"
  using assms(1-3) unfolding t1_def
  by (auto simp: perform_deny_self_check_def deny_commands_def probe_named_def issue_def Let_def
      split: prod.splits option.splits)

lemma deny_check_not_inserted:
  assumes "\<not> (probe_named p attached \<and> run t (deny_commands p ! 0) = Some 0 \<and> dp_events p 0 \<noteq> None)"
  shows "fst (perform_deny_self_check run p attached t) = Some check \<Longrightarrow> \<exists>b. check = interpret_self_check (probe_not_run b)"
    and "snd (perform_deny_self_check run p attached t)
           = (if probe_named p attached then t @ [deny_commands p ! 0] else t)"
  using assms
  by (auto simp: perform_deny_self_check_def deny_commands_def probe_named_def issue_def Let_def unless_raised_def
      split: option.splits if_splits)

lemma deny_check_passes:
  assumes "probe_named p attached" "run t (deny_commands p ! 0) = Some 0" "dp_events p 0 = Some before"
  shows "(\<exists>check. fst (perform_deny_self_check run p attached t) = Some check \<and> live_deny_ok (Some check)) \<longleftrightarrow> deny_evidence run p t"
proof -
  let ?t1 = "t @ [deny_commands p ! 0]" and ?cmds = "deny_commands p"
  have cmds: "take 0 ?cmds = []" "take 1 ?cmds = [?cmds ! 0]" "take 2 ?cmds = [?cmds ! 0, ?cmds ! 1]"
    "take 3 ?cmds = [?cmds ! 0, ?cmds ! 1, ?cmds ! 2]"
    by (simp_all add: deny_commands_def Let_def)
  have fin: "snd (deny_probes run p before ?t1) = t @ take 3 ?cmds" if "fst (deny_probes run p before ?t1) = Some r" for r
    using deny_probes_done [OF that] by (simp add: cmds)
  have "(\<exists>check. fst (perform_deny_self_check run p attached t) = Some check \<and> live_deny_ok (Some check)) \<longleftrightarrow>
      (\<exists>rc1 mid rc2 later. fst (deny_probes run p before ?t1) = Some (rc1, mid, rc2, later)
        \<and> run (t @ take 3 ?cmds) (?cmds ! 3) = Some 0 \<and> rc1 \<noteq> 0 \<and> rc2 = 0
        \<and> 1 \<le> new_block_count before mid \<and> new_block_count mid later = 0
        \<and> sublist SLICE (dp_cgroup p True) \<and> dp_cgroup p False \<noteq> [] \<and> \<not> sublist SLICE (dp_cgroup p False))" (is "?L \<longleftrightarrow> ?R")
  proof
    assume ?L
    then show ?R unfolding deny_check_inserted(2) [where run = run and t = t, OF assms]
      by (elim exE conjE) (simp add: live_deny_interpret deny_proved_def fin)
  next
    assume ?R
    then obtain rc1 mid rc2 later where r: "fst (deny_probes run p before ?t1) = Some (rc1, mid, rc2, later)"
      "run (t @ take 3 ?cmds) (?cmds ! 3) = Some 0" "rc1 \<noteq> 0" "rc2 = 0" "1 \<le> new_block_count before mid"
      "new_block_count mid later = 0" "sublist SLICE (dp_cgroup p True)" "dp_cgroup p False \<noteq> []"
      "\<not> sublist SLICE (dp_cgroup p False)" by blast
    let ?check = "interpret_self_check
       \<lparr>po_attached = True, po_enrolled_rc = Some rc1, po_unenrolled_rc = Some rc2, po_hold_bypassed = True,
        po_block_events = int (new_block_count before mid), po_control_block_events = int (new_block_count mid later),
        po_exception_removed = ((0 :: int) = 0), po_enrolled_cgroup = dp_cgroup p True,
        po_unenrolled_cgroup = dp_cgroup p False, po_mechanism = []\<rparr>"
    have "fst (perform_deny_self_check run p attached t) = Some ?check"
      unfolding deny_check_inserted(2) [where run = run and t = t, OF assms] fin [OF r(1)] using r(1,2) by blast
    moreover have "live_deny_ok (Some ?check)" using r(3-9) by (simp add: live_deny_interpret deny_proved_def)
    ultimately show ?L by blast
  qed
  then show ?thesis
    unfolding deny_probes_Some deny_evidence_def Let_def cmds using assms(2,3) by simp blast
qed

section \<open>Properties\<close>

text \<open>
  C26: the live deny check passes exactly when the program is attached, a probe is named, no command and no reading of
  the log raised, the exception was put into the hold chain and taken out again, the enrolled probe ran in the slice and
  was denied with a new block record, and the control ran outside, got through and left no block record. Once the
  exception is in and the first reading of the log returned, the command that removes it is run, last, also when a
  probe or a later reading raises. When that first reading raises, the exception stays: no command follows the insertion.
\<close>

theorem live_deny_iff:
  "((\<exists>check. fst (perform_deny_self_check run p attached t) = Some check \<and> live_deny_ok (Some check))
      \<longleftrightarrow> probe_named p attached \<and> deny_evidence run p t)
   \<and> (if probe_named p attached \<and> run t (deny_commands p ! 0) = Some 0 \<and> dp_events p 0 \<noteq> None
      then \<exists>probes. snd (perform_deny_self_check run p attached t) = t @ [deny_commands p ! 0] @ probes @ [deny_commands p ! 3]
             \<and> probes \<in> {[deny_commands p ! 1], [deny_commands p ! 1, deny_commands p ! 2]}
      else snd (perform_deny_self_check run p attached t) = (if probe_named p attached then t @ [deny_commands p ! 0] else t))"
proof (cases "probe_named p attached \<and> run t (deny_commands p ! 0) = Some 0 \<and> dp_events p 0 \<noteq> None")
  case True
  then obtain before where before: "dp_events p 0 = Some before" by blast
  obtain probes where "snd (deny_probes run p before (t @ [deny_commands p ! 0])) = (t @ [deny_commands p ! 0]) @ probes"
    "probes \<in> {[deny_commands p ! 1], [deny_commands p ! 1, deny_commands p ! 2]}"
    using deny_probes_trace by blast
  with True deny_check_inserted(1) [where run = run and t = t, OF _ _ before] deny_check_passes [where run = run and t = t, OF _ _ before] show ?thesis by auto
next
  case False
  then have "\<not> (probe_named p attached \<and> deny_evidence run p t)" by (auto simp: deny_evidence_def Let_def)
  with False show ?thesis
    using deny_check_not_inserted [where run = run and t = t, OF False] not_run_denied by (auto split del: if_split)
qed

end
