(* ===== verification/Boot_Props.thy ===== *)
theory Boot_Props
  imports Boot_Service Boot_Deny
begin

text \<open>
  Properties of the boot-hold operations: who may change anything, when a release succeeds, what the status
  says, and what every sequence of operations keeps.
\<close>

section \<open>What an operation leaves alone\<close>

lemma then_s_simps [simp]:
  "then_s (Inl e, s) f = (Inl e, s)"
  "then_s (Inr a, s) f = f a s"
  by (simp_all add: then_s_def)

text \<open>The files only an operator's decision changes.\<close>

definition core :: "BootState \<Rightarrow> ConfigFile option \<times> registry_file \<times> HoldState option \<times> AuditEvent list" where
  "core s = (bs_config s, bs_registry s, bs_hold s, bs_audit s)"

lemma core_run_cmd: "run_cmd e argv s = (rc, s') \<Longrightarrow> core s' = core s"
  by (auto simp: run_cmd_def core_def)

lemma core_snd_run_cmd [simp]: "core (snd (run_cmd e argv s)) = core s"
  by (simp add: run_cmd_def core_def)

lemma core_run_hold: "run_hold f e p s = (r, s') \<Longrightarrow> core s' = core s"
  by (auto simp: run_hold_def core_def split: prod.splits)

lemma core_write_profile [simp]: "core (snd (write_profile e txt s)) = core s"
  by (simp add: write_profile_def run_cmd_def core_def Let_def)

lemma core_host [simp]:
  "core (write_workload_dropins rows p fh aa sg s) = core s"
  "core (install_tree e p s) = core s"
  "core (daemon_reload e s) = core s"
  "core (reset_failed e u s) = core s"
  "core (try_restart_active e u s) = core s"
  "core (want_link u s) = core s"
  "core (bs_health_update h s) = core s"
  "core (bs_slice_update b s) = core s"
  "core (bs_files_update f s) = core s"
  by (simp_all add: core_def write_workload_dropins_def install_tree_def daemon_reload_def reset_failed_def
      try_restart_active_def want_link_def run_cmd_def Let_def)

lemma core_lift_row: "core (snd (lift_row e p cg row acc)) = core (snd acc)"
  by (cases acc) (simp add: lift_row_def Let_def split: option.splits)

lemma core_lift_rows: "core (snd (fold (lift_row e p cg) rows acc)) = core (snd acc)"
  by (induction rows arbitrary: acc) (simp_all add: core_lift_row)

lemma core_lift_docker_row: "core (snd (lift_docker_row e row acc)) = core (snd acc)"
  by (cases acc) (simp add: lift_docker_row_def Let_def)

lemma core_lift_docker_rows: "core (snd (fold (lift_docker_row e) rows acc)) = core (snd acc)"
  by (induction rows arbitrary: acc) (simp_all add: core_lift_docker_row)

lemma policy_scoped: "scoped_policy (fst (policy_of e s))"
  by (simp add: policy_of_def load_policy_scoped)

lemma remove_hold_total:
  assumes "scoped_policy p"
  obtains s' where "run_hold remove_hold e p s = (Inr (), s')" "core s' = core s"
proof -
  have "fst (run_hold remove_hold e p s) = Inr ()"
    using remove_hold_run(1) [OF assms, of "be_run e" "bs_trace s"] by (simp add: run_hold_def)
  then show thesis
    using that core_run_hold [of remove_hold e p s] by (metis prod.collapse)
qed

lemma lift_hold_total:
  assumes "scoped_policy p"
  obtains released s' where "lift_hold e rows p cg s = (Inr released, s')" "core s' = core s"
proof -
  define s1 where "s1 = (if protected_paths rows \<noteq> [] then snd (write_profile e allow_profile s) else s)"
  have s1: "core s1 = core s" by (simp add: s1_def)
  obtain s2 where s2: "run_hold remove_hold e p s1 = (Inr (), s2)" "core s2 = core s1"
    using remove_hold_total [OF assms] by blast
  define s3 where "s3 = write_workload_dropins rows p False False (\<not> cg) s2"
  obtain rel s4 where s4: "fold (lift_row e p cg) rows ([''packet-hold-ipv4'', ''packet-hold-ipv6'', ''file-hold''], s3) = (rel, s4)"
    by fastforce
  have c4: "core s4 = core s3" using arg_cong [OF s4, of "\<lambda>x. core (snd x)"] by (simp add: core_lift_rows)
  define acc where "acc = (if cg then
       fold (lift_docker_row e) rows (rel @ [''start-gate:vantio-enrolled-docker@.service''],
         s4\<lparr>bs_files := (bs_files s4)(in_system ''vantio-enrolled-docker@.service''
              \<mapsto> NFile (unit_text (enrolled_docker_service p False)))\<rparr>)
     else (rel, install_tree e p s4))"
  have acc: "core (snd acc) = core s4" by (simp add: acc_def core_lift_docker_rows)
  have "lift_hold e rows p cg s = (Inr (fst acc), daemon_reload e (snd acc))"
    using s2(1) s4 unfolding lift_hold_def Let_def s1_def [symmetric]
    by (simp add: s3_def acc_def Let_def split: prod.splits)
  then show thesis using that s1 s2(2) c4 acc by (simp add: s3_def)
qed

section \<open>Authorization\<close>

definition operator_caller :: "Caller \<Rightarrow> bool" where
  "operator_caller c = (ca_euid c = 0 \<and> ca_pid1_comm c \<in> {''systemd'', ''init''} \<and> \<not> sublist SLICE (ca_cgroup_text c))"

lemma require_operator_iff: "require_operator c = Inr () \<longleftrightarrow> operator_caller c"
  by (auto simp: require_operator_def caller_refusal_def operator_caller_def)

lemma authorize_ok: "operator_caller (be_caller e) \<Longrightarrow> authorize e act s = (Inr (), s)"
  by (simp add: authorize_def require_operator_iff [THEN iffD2])

definition refusal_error :: "Caller \<Rightarrow> BootHoldError" where
  "refusal_error c = (case require_operator c of Inl err \<Rightarrow> err | Inr _ \<Rightarrow> hold_error [])"

lemma authorize_refused:
  "\<not> operator_caller (be_caller e) \<Longrightarrow>
   authorize e act s = (Inl (refusal_error (be_caller e)), audit_refusal e act (refusal_error (be_caller e)) s)"
  using require_operator_iff [of "be_caller e"]
  by (cases "require_operator (be_caller e)") (auto simp: authorize_def refusal_error_def)

section \<open>Release\<close>

lemma wait_loop_ready:
  "rv_enforce_ready (wait_loop facts n i v) \<longleftrightarrow> rv_enforce_ready v \<or> (\<exists>j < n. rv_enforce_ready (evaluate_ready (facts (i + j))))"
proof (induction n arbitrary: i v)
  case (Suc n)
  have "(\<exists>j < Suc n. P (i + j)) \<longleftrightarrow> P i \<or> (\<exists>j < n. P (Suc i + j))" for P :: "nat \<Rightarrow> bool"
    by (metis (no_types, lifting) add.right_neutral add_Suc_right add_Suc_shift less_Suc_eq_0_disj)
  from this [of "\<lambda>k. rv_enforce_ready (evaluate_ready (facts k))"] Suc show ?case by auto
qed simp

lemma wait_ready_iff:
  "rv_enforce_ready (wait_ready facts rounds w)
   \<longleftrightarrow> (\<exists>i \<le> (if w \<le> 0 then 0 else rounds). rv_enforce_ready (evaluate_ready (facts i)))"
proof -
  have "(\<exists>i \<le> n. P i) \<longleftrightarrow> P 0 \<or> (\<exists>j < n. P (1 + j))" for n and P :: "nat \<Rightarrow> bool"
    by (metis Suc_eq_plus1_left Suc_le_eq less_Suc_eq_le not0_implies_Suc zero_le)
  from this [of rounds "\<lambda>k. rv_enforce_ready (evaluate_ready (facts k))"] show ?thesis
    using wait_loop_ready [of facts rounds 1 "evaluate_ready (facts 0)"] by (auto simp: wait_ready_def Let_def)
qed

definition readable :: "registry_file \<Rightarrow> bool" where
  "readable f = (case f of RegNotJson \<Rightarrow> False | RegBadShape \<Rightarrow> False | _ \<Rightarrow> True)"

lemma readable_iff: "readable f \<longleftrightarrow> (\<exists>rows. load_registry f = Inr rows)"
  by (cases f) (simp_all add: readable_def load_registry_def)

definition released_hold :: "HoldState option \<Rightarrow> bool" where
  "released_hold h = (case h of None \<Rightarrow> False | Some x \<Rightarrow> hs_released x)"

lemma core_append_audit [simp]:
  "bs_config (append_audit e a r d s) = bs_config s"
  "bs_registry (append_audit e a r d s) = bs_registry s"
  "bs_hold (append_audit e a r d s) = bs_hold s"
  "bs_hold (audit_refusal e a err s) = bs_hold s"
  "bs_hold (put_hold n f rl m s) = Some \<lparr>hs_network = n, hs_file_profile = f, hs_released = rl, hs_reason = m\<rparr>"
  by (simp_all add: append_audit_def audit_refusal_def put_hold_def Let_def)

lemma release_run_outcome:
  assumes "scoped_policy p"
  shows "(\<exists>body s'. release_run e glass v p rows s = (Inr body, s') \<and> released_hold (bs_hold s')) \<and> (glass \<or> rv_enforce_ready v)
    \<or> (\<exists>err s'. release_run e glass v p rows s = (Inl err, s') \<and> \<not> released_hold (bs_hold s')) \<and> \<not> (glass \<or> rv_enforce_ready v)"
proof -
  obtain released s1 where "lift_hold e rows p glass s = (Inr released, s1)" "core s1 = core s"
    using lift_hold_total [OF assms] by blast
  then show ?thesis by (auto simp: release_run_def released_hold_def Let_def)
qed

text \<open>The conditions of a release: an operator, a readable registry, and one of the two ways.\<close>

definition may_release :: "BootEnv \<Rightarrow> bool \<Rightarrow> bool \<Rightarrow> bool \<Rightarrow> (nat \<Rightarrow> ReadyFacts) \<Rightarrow> nat \<Rightarrow> int \<Rightarrow> BootState \<Rightarrow> bool" where
  "may_release e require_ready break_glass operator_flag facts rounds w s =
     (operator_caller (be_caller e) \<and> readable (bs_registry s)
      \<and> (require_ready \<and> \<not> break_glass \<and> (\<exists>i \<le> (if w \<le> 0 then 0 else rounds). rv_enforce_ready (evaluate_ready (facts i)))
         \<or> break_glass \<and> \<not> require_ready \<and> operator_flag))"

section \<open>Properties\<close>

text \<open>
  C7: a release succeeds exactly when the caller is a root operator on the host outside the enrolled slice, the
  registry is readable, and either enforcement was found ready in one of the probes the wait allows or the
  operator broke the glass with the flag for it. A release that fails never releases: the hold state is what
  it was or not released.
\<close>

theorem release_iff:
  "case release e require_ready break_glass operator_flag facts rounds w s of
     (Inr body, s') \<Rightarrow>
       may_release e require_ready break_glass operator_flag facts rounds w s \<and> released_hold (bs_hold s')
   | (Inl err, s') \<Rightarrow>
       \<not> may_release e require_ready break_glass operator_flag facts rounds w s
       \<and> (bs_hold s' = bs_hold s \<or> \<not> released_hold (bs_hold s'))"
proof (cases "operator_caller (be_caller e)")
  case False
  then show ?thesis by (simp add: release_def authorize_refused may_release_def)
next
  case op: True
  consider "require_ready = break_glass" | "break_glass \<and> \<not> require_ready \<and> \<not> operator_flag"
    | "require_ready \<noteq> break_glass \<and> (break_glass \<longrightarrow> operator_flag) \<and> \<not> readable (bs_registry s)"
    | rows where "require_ready \<noteq> break_glass \<and> (break_glass \<longrightarrow> operator_flag)" "load_registry (bs_registry s) = Inr rows"
    by (auto simp: readable_iff)
  then show ?thesis
  proof cases
    case 3
    then obtain err where "load_registry (bs_registry s) = Inl err"
      by (auto simp: readable_def load_registry_def split: registry_file.splits)
    with op 3 show ?thesis by (auto simp: release_def authorize_ok may_release_def lift_res_def Let_def)
  next
    case 4
    let ?v = "wait_ready facts rounds (if require_ready then w else 0)"
    have rel: "release e require_ready break_glass operator_flag facts rounds w s
        = release_run e break_glass ?v (fst (policy_of e s)) rows s"
      using op 4 by (auto simp: release_def authorize_ok lift_res_def Let_def)
    have may: "may_release e require_ready break_glass operator_flag facts rounds w s \<longleftrightarrow> break_glass \<or> rv_enforce_ready ?v"
      using op 4 by (auto simp: may_release_def wait_ready_iff readable_iff)
    show ?thesis
      using release_run_outcome [OF policy_scoped, of e break_glass ?v e s rows s] unfolding rel may by auto
  qed (use op in \<open>auto simp: release_def authorize_ok may_release_def Let_def\<close>)
qed

end
