(* ===== verification/Boot_Session.thy ===== *)
theory Boot_Session
  imports Boot_Props
begin

text \<open>
  Sequences of boot-hold operations, by any callers in any environments: what they all keep of the hold state,
  the registry and the audit log.
\<close>

section \<open>Operations as steps\<close>

datatype boot_op =
    BInstall | BApplyBoot | BEnable | BRemove
  | BRelease bool bool bool "nat \<Rightarrow> ReadyFacts" nat int
  | BEnrollSystemd string "string list"
  | BEnrollDocker string string string "string list" bool
  | BEnrollCompose string string
  | BObserve string string
  | BOptOut string | BOptIn | BConfigure bool bool
  | BPrepare string string string string | BNetwork | BStartLoader

fun boot_exec :: "BootEnv \<Rightarrow> boot_op \<Rightarrow> BootState \<Rightarrow> BootState" where
  "boot_exec e BInstall s = snd (install e s)"
| "boot_exec e BApplyBoot s = snd (apply_boot e s)"
| "boot_exec e BEnable s = snd (enable_from_apply e s)"
| "boot_exec e BRemove s = snd (remove_from_apply e s)"
| "boot_exec e (BRelease rr bg fl facts rounds w) s = snd (release e rr bg fl facts rounds w s)"
| "boot_exec e (BEnrollSystemd unit paths) s = snd (enroll_systemd e unit paths s)"
| "boot_exec e (BEnrollDocker name restart parent paths no) s = snd (enroll_docker e name restart parent paths no s)"
| "boot_exec e (BEnrollCompose dir txt) s = snd (enroll_compose e dir txt s)"
| "boot_exec e (BObserve name kind) s = snd (observe_unenrolled e name kind s)"
| "boot_exec e (BOptOut reason) s = snd (opt_out e reason s)"
| "boot_exec e BOptIn s = snd (opt_in e s)"
| "boot_exec e (BConfigure hold ordr) s = snd (configure e hold ordr s)"
| "boot_exec e (BPrepare cmdline iface name obs) s = snd (prepare_enforce e cmdline iface name obs s)"
| "boot_exec e BNetwork s = snd (ensure_network e s)"
| "boot_exec e BStartLoader s = snd (start_loader e s)"

inductive boot_reach :: "BootState \<Rightarrow> BootState \<Rightarrow> bool" where
  reach_refl: "boot_reach s s"
| reach_step: "boot_reach s t \<Longrightarrow> boot_reach s (boot_exec e op t)"

section \<open>The invariant\<close>

definition released_by :: "string \<Rightarrow> AuditEvent \<Rightarrow> bool" where
  "released_by reason ev =
     ((reason, ae_action ev, ae_result ev) \<in>
        {(''hold-off'', ''apply-boot'', ''HOLD_OFF''), (''enforce-ready'', ''release'', ''enforce-ready''),
         (''BREAK_GLASS'', ''release'', ''BREAK_GLASS''), (''removed'', ''remove'', ''OK''), (''OPT_OUT'', ''opt-out'', ''OK'')})"

definition hold_accounted :: "HoldState option \<Rightarrow> AuditEvent list \<Rightarrow> bool" where
  "hold_accounted h evs =
     (case h of
        None \<Rightarrow> True
      | Some x \<Rightarrow> (hs_network x \<longrightarrow> \<not> hs_released x)
                  \<and> (hs_released x \<longrightarrow> (\<exists>ev \<in> set evs. ae_euid ev = 0 \<and> released_by (hs_reason x) ev)))"

definition file_ok :: "registry_file \<Rightarrow> bool" where
  "file_ok f = (case f of RegRows rows \<Rightarrow> registry_ok rows | _ \<Rightarrow> True)"

definition keeps :: "BootState \<Rightarrow> BootState \<Rightarrow> bool" where
  "keeps s s' =
     (prefix (bs_audit s) (bs_audit s')
      \<and> (hold_accounted (bs_hold s) (bs_audit s) \<longrightarrow> hold_accounted (bs_hold s') (bs_audit s'))
      \<and> (file_ok (bs_registry s) \<longrightarrow> file_ok (bs_registry s')))"

lemma keeps_refl [simp]: "keeps s s"
  by (simp add: keeps_def)

lemma keeps_trans: "keeps s t \<Longrightarrow> keeps t u \<Longrightarrow> keeps s u"
  unfolding keeps_def by (blast intro: prefix_order.trans)

lemma core_eqD:
  assumes "core s' = core s"
  shows "bs_config s' = bs_config s" "bs_registry s' = bs_registry s" "bs_hold s' = bs_hold s" "bs_audit s' = bs_audit s"
  using assms by (simp_all add: core_def)

lemma keeps_core: "core s' = core s \<Longrightarrow> keeps s s'"
  by (simp add: keeps_def core_def)

lemma keeps_then_s:
  assumes "keeps s (snd r)" and "\<And>a s'. r = (Inr a, s') \<Longrightarrow> keeps s' (snd (f a s'))"
  shows "keeps s (snd (then_s r f))"
proof (cases r)
  case (Pair x s')
  with assms show ?thesis by (cases x) (auto intro: keeps_trans)
qed

lemma keeps_lift_res: "(\<And>a. r = Inr a \<Longrightarrow> keeps s (snd (f a s))) \<Longrightarrow> keeps s (snd (then_s (lift_res r s) f))"
  by (rule keeps_then_s) (auto simp: lift_res_def)

lemma keeps_if: "(b \<Longrightarrow> keeps s (snd x)) \<Longrightarrow> (\<not> b \<Longrightarrow> keeps s (snd y)) \<Longrightarrow> keeps s (snd (if b then x else y))"
  by simp

lemma keeps_pair: "keeps s t \<Longrightarrow> keeps s (snd (r, t))"
  by simp

lemma accounted_more: "hold_accounted h evs \<Longrightarrow> prefix evs evs' \<Longrightarrow> hold_accounted h evs'"
  unfolding hold_accounted_def using set_mono_prefix by (fastforce split: option.splits)

lemma bs_audit_append:
  "bs_audit (append_audit e a r d s) = bs_audit s @
     [\<lparr>ae_action = a, ae_result = r, ae_at = be_now e, ae_euid = ca_euid (be_caller e), ae_pid = ca_pid (be_caller e),
       ae_comm = ca_comm (be_caller e), ae_pid1_comm = ca_pid1_comm (be_caller e),
       ae_cgroup = concat (map (\<lambda>ch. if ch = CHR 0x0A then '' | '' else [ch]) (py_strip spaces (ca_cgroup_text (be_caller e)))),
       ae_detail = d\<rparr>]"
  by (simp add: append_audit_def Let_def)

lemma keeps_append_audit: "keeps s (append_audit e a r d s)"
  by (auto simp: keeps_def bs_audit_append intro: accounted_more)

lemma keeps_authorized:
  assumes "operator_caller (be_caller e) \<Longrightarrow> keeps s (snd (f () s))"
  shows "keeps s (snd (then_s (authorize e act s) f))"
proof (cases "operator_caller (be_caller e)")
  case True
  with assms show ?thesis by (simp add: authorize_ok)
next
  case False
  then show ?thesis by (simp add: authorize_refused audit_refusal_def keeps_append_audit)
qed

text \<open>The two ways an operation writes the hold state: not released, or released and logged by an operator.\<close>

lemma keeps_held:
  assumes "bs_hold s' = Some h" "\<not> hs_released h" "prefix (bs_audit s) (bs_audit s')" "bs_registry s' = bs_registry s"
  shows "keeps s s'"
  using assms by (auto simp: keeps_def hold_accounted_def)

lemma keeps_released:
  assumes "bs_hold s' = Some h" "\<not> hs_network h" "bs_audit s' = bs_audit s @ [ev]" "ae_euid ev = 0" "released_by (hs_reason h) ev"
    and "bs_registry s' = bs_registry s"
  shows "keeps s s'"
  using assms by (auto simp: keeps_def hold_accounted_def)

lemma keeps_upsert:
  assumes "load_registry (bs_registry s) = Inr rows" "row_ok row" "bs_registry s' = save_registry (upsert rows row)"
    and "bs_hold s' = bs_hold s" "prefix (bs_audit s) (bs_audit s')"
  shows "keeps s s'"
proof -
  have "file_ok (bs_registry s) \<Longrightarrow> registry_ok rows"
    using assms(1) by (auto simp: file_ok_def load_registry_def registry_ok_def split: registry_file.splits)
  then show ?thesis
    using assms upsert_ok by (auto simp: keeps_def file_ok_def save_registry_def intro: accounted_more)
qed

section \<open>Every operation keeps the invariant\<close>

lemma operator_euid: "operator_caller c \<Longrightarrow> ca_euid c = 0"
  by (simp add: operator_caller_def)

lemmas event_simps = bs_audit_append operator_euid released_by_def

lemma keeps_put_policy: "keeps s (put_policy e p s)"
  by (simp add: keeps_def put_policy_def)

lemma keeps_hold_off:
  assumes "operator_caller (be_caller e)" "scoped_policy p"
  shows "keeps s (snd (hold_off e p notes rows s))"
proof -
  obtain s1 where s1: "run_hold remove_hold e p s = (Inr (), s1)" "core s1 = core s"
    using remove_hold_total [OF assms(2)] by blast
  define s2 where "s2 = (if protected_paths rows \<noteq> [] then snd (write_profile e allow_profile s1) else s1)"
  have s2: "core s2 = core s" using s1(2) by (simp add: s2_def)
  define s3 where "s3 = daemon_reload e (write_workload_dropins rows p False False True (put_hold False ''off'' True ''hold-off'' s2))"
  have s3: "core s3 = core (put_hold False ''off'' True ''hold-off'' s2)" by (simp add: s3_def)
  obtain h where "snd (hold_off e p notes rows s) = append_audit e ''apply-boot'' ''HOLD_OFF'' DNone (s3\<lparr>bs_health := Some h\<rparr>)"
    using s1(1) unfolding hold_off_def s2_def s3_def Let_def by auto
  then show ?thesis
    using assms(1) core_eqD [OF s3] core_eqD [OF s2]
    by (intro keeps_released) (auto simp: event_simps put_hold_def)
qed

lemma keeps_hold_on:
  shows "keeps s (snd (hold_on e p rows s))"
proof -
  obtain st s1 where s1: "(if protected_paths rows \<noteq> [] then write_profile e (deny_profile (protected_paths rows)) s else (''NO_PATHS'', s)) = (st, s1)"
    by fastforce
  have c1: "core s1 = core s" using arg_cong [OF s1, of "\<lambda>x. core (snd x)"] by (simp split: if_splits)
  define s2 where "s2 = write_workload_dropins rows p True (st = ''LOADED'') True s1"
  obtain r s3 where s3: "run_hold install_hold e p s2 = (r, s3)" by fastforce
  have c3: "core s3 = core s" using core_run_hold [OF s3] c1 by (simp add: s2_def)
  show ?thesis
  proof (cases r)
    case (Inl err)
    then have "snd (hold_on e p rows s) = append_audit e ''apply-boot'' ''FAILED'' (DMessage (he_message err))
        ((put_hold False st False ''hold-failed'' s3)
           \<lparr>bs_health := Some (envelope ''apply-boot'' ''HELD'' (HELD_MESSAGE @ '' '' @ he_message err) ''DEGRADED'')\<rparr>)"
      using s1 s3 by (simp add: hold_on_def Let_def s2_def [symmetric])
    then show ?thesis
      using core_eqD [OF c3] by (intro keeps_held) (auto simp: bs_audit_append put_hold_def)
  next
    case (Inr u)
    define s4 where "s4 = daemon_reload e (s3\<lparr>bs_slice := True\<rparr>)"
    have c4: "core s4 = core s" using c3 by (simp add: s4_def)
    have "snd (hold_on e p rows s) = append_audit e ''apply-boot'' ''HELD'' (DProfile st)
        ((put_hold True (if st = ''LOADED'' then ''deny'' else st) False ''boot-hold'' s4)
           \<lparr>bs_health := Some (envelope ''apply-boot'' ''HELD'' HELD_MESSAGE ''DEGRADED'')\<rparr>)"
      using s1 s3 Inr by (simp add: hold_on_def Let_def s2_def [symmetric] s4_def)
    then show ?thesis
      using core_eqD [OF c4] by (intro keeps_held) (auto simp: bs_audit_append put_hold_def)
  qed
qed

lemma keeps_apply_boot: "keeps s (snd (apply_boot e s))"
  unfolding apply_boot_def
proof (rule keeps_authorized)
  assume op: "operator_caller (be_caller e)"
  obtain p nts where p: "policy_of e s = (p, nts)" by fastforce
  then have scoped: "scoped_policy p" using policy_scoped [of e s] by simp
  have tree: "keeps s (install_tree e p s)" by (simp add: keeps_core)
  show "keeps s (snd (let (p, notes) = policy_of e s in
       then_s (lift_res (load_registry (bs_registry s)) s) (\<lambda>rows s.
         let s1 = install_tree e p s in
         if \<not> fst (mechanisms_active p) then hold_off e p notes rows s1 else hold_on e p rows s1)))"
    unfolding p Let_def prod.case
    by (rule keeps_lift_res) (auto intro!: keeps_trans [OF tree] keeps_hold_off keeps_hold_on op scoped)
qed

lemma keeps_enable: "keeps s (snd (enable_from_apply e s))"
  by (auto simp: enable_from_apply_def intro: keeps_trans [OF keeps_put_policy keeps_apply_boot] keeps_apply_boot)

lemma keeps_install: "keeps s (snd (install e s))"
proof -
  have "keeps t (append_audit e a r d (t\<lparr>bs_registry := save_registry rows\<rparr>))"
    if "load_registry (bs_registry t) = Inr rows" for a r d t rows
    using that by (auto simp: keeps_def bs_audit_append file_ok_def save_registry_def load_registry_def registry_ok_def
        intro: accounted_more split: registry_file.splits)
  note written = this
  have "keeps s (install_tree e p (if bs_config s = None then put_policy e p s else s))" for p
    by (rule keeps_trans [of _ "if bs_config s = None then put_policy e p s else s"])
      (auto intro: keeps_put_policy keeps_core)
  note tree = keeps_trans [OF this]
  show ?thesis
    unfolding install_def Let_def
    by (intro keeps_authorized tree [of "fst (policy_of e s)"] keeps_lift_res) (simp add: written)
qed

lemma keeps_release_run:
  assumes "operator_caller (be_caller e)" "scoped_policy p"
  shows "keeps s (snd (release_run e glass v p rows s))"
proof (cases "\<not> glass \<and> \<not> rv_enforce_ready v")
  case True
  then show ?thesis
    by (auto simp: release_run_def Let_def bs_audit_append put_hold_def intro!: keeps_held)
next
  case False
  obtain released s1 where s1: "lift_hold e rows p glass s = (Inr released, s1)" "core s1 = core s"
    using lift_hold_total [OF assms(2)] by blast
  from False s1(1) assms(1) core_eqD [OF s1(2)] show ?thesis
    by (auto simp: release_run_def Let_def event_simps put_hold_def intro!: keeps_released)
qed

lemma keeps_release: "keeps s (snd (release e rr bg fl facts rounds w s))"
  unfolding release_def
  by (intro keeps_authorized)
    (auto simp: audit_refusal_def Let_def intro!: keeps_append_audit keeps_lift_res keeps_release_run policy_scoped)

lemma keeps_remove: "keeps s (snd (remove_from_apply e s))"
  unfolding remove_from_apply_def
proof (rule keeps_authorized)
  assume op: "operator_caller (be_caller e)"
  obtain s1 where s1: "run_hold remove_hold e (fst (policy_of e s)) s = (Inr (), s1)" "core s1 = core s"
    using remove_hold_total [OF policy_scoped] by blast
  show "keeps s (snd (let p = fst (policy_of e s) in
       then_s (run_hold remove_hold e p s) (\<lambda>_ s1.
         let rels = map fst (static_units ''/usr/bin/python3'' p) @ map fst wants_links;
             s2 = s1\<lparr>bs_files := foldl (\<lambda>files rel. files(rel := None)) (bs_files s1) rels\<rparr>;
             s3 = put_hold False ''off'' True ''removed'' s2
         in (Inr (), append_audit e ''remove'' ''OK'' (DLifted None [''packet-hold-ipv4'', ''packet-hold-ipv6'', ''units'']) s3))))"
    using s1(1) core_eqD [OF s1(2)] op
    by (simp add: Let_def, intro keeps_released) (auto simp: event_simps put_hold_def)
qed

lemma bs_registry_keep [simp]:
  "bs_registry (install_tree e p s) = bs_registry s" "bs_hold (install_tree e p s) = bs_hold s" "bs_audit (install_tree e p s) = bs_audit s"
  "bs_registry (write_workload_dropins rows p a b c s) = bs_registry s"
  "bs_hold (write_workload_dropins rows p a b c s) = bs_hold s" "bs_audit (write_workload_dropins rows p a b c s) = bs_audit s"
  "bs_registry (want_link u s) = bs_registry s" "bs_hold (want_link u s) = bs_hold s" "bs_audit (want_link u s) = bs_audit s"
  by (simp_all add: install_tree_def write_workload_dropins_def want_link_def)

lemma keeps_enroll_systemd: "keeps s (snd (enroll_systemd e unit paths s))"
  unfolding enroll_systemd_def Let_def
  by (intro keeps_authorized keeps_lift_res, rule keeps_upsert)
    (auto simp: row_ok_def bs_audit_append validate_unit_name_def split: if_splits)

lemma keeps_docker_restart: "keeps s (snd (docker_restart e name restart no s))"
  by (auto simp: docker_restart_def run_cmd_def Let_def intro: keeps_core simp: core_def)

lemma keeps_enroll_docker: "keeps s (snd (enroll_docker e name restart parent paths no s))"
proof -
  let ?row = "\<lambda>name clean. \<lparr>wl_id = name, wl_kind = ''docker'', wl_enrolled = True, wl_unit = None, wl_container = Some name,
                         wl_project_dir = None, wl_paths = clean\<rparr>"
  have row: "row_ok (?row name clean)" for name clean by (simp add: row_ok_def)
  have enrolled: "keeps t (append_audit e a r d (want_link u (install_tree e p (t\<lparr>bs_registry := save_registry (upsert rows (?row name clean))\<rparr>))))"
    if "load_registry (bs_registry t) = Inr rows" for t a r d u p rows name clean
    by (rule keeps_upsert [OF that row]) (simp_all add: bs_audit_append)
  show ?thesis
    unfolding enroll_docker_def Let_def
    by (intro keeps_authorized keeps_if keeps_lift_res keeps_then_s [OF keeps_docker_restart] keeps_pair enrolled keeps_refl)
qed

lemma keeps_enroll_compose: "keeps s (snd (enroll_compose e dir txt s))"
proof -
  let ?row = "\<lambda>name dir. \<lparr>wl_id = ''compose-'' @ name, wl_kind = ''compose'', wl_enrolled = True, wl_unit = None,
       wl_container = None, wl_project_dir = Some dir, wl_paths = []\<rparr>"
  have row: "row_ok (?row name d)" for name d by (simp add: row_ok_def)
  have enrolled: "keeps t (append_audit e a r d (want_link u
      ((install_tree e p (t\<lparr>bs_registry := save_registry (upsert rows (?row name dr))\<rparr>))\<lparr>bs_files := f\<rparr>)))"
    if "load_registry (bs_registry t) = Inr rows" for t a r d u p rows name dr f
    by (rule keeps_upsert [OF that row]) (simp_all add: bs_audit_append)
  show ?thesis
    unfolding enroll_compose_def Let_def
    by (intro keeps_authorized keeps_if keeps_lift_res keeps_pair enrolled keeps_refl)
qed

lemma keeps_observe: "keeps s (snd (observe_unenrolled e name kind s))"
proof -
  let ?row = "\<lparr>wl_id = name, wl_kind = kind, wl_enrolled = False, wl_unit = None, wl_container = None,
                      wl_project_dir = None, wl_paths = []\<rparr>"
  have row: "row_ok ?row" by (simp add: row_ok_def)
  have noted: "keeps t (append_audit e a r d (t\<lparr>bs_registry := save_registry (upsert rows ?row)\<rparr>))"
    if "load_registry (bs_registry t) = Inr rows" for t a r d rows
    by (rule keeps_upsert [OF that row]) (simp_all add: bs_audit_append)
  show ?thesis
    unfolding observe_unenrolled_def Let_def
    by (intro keeps_authorized keeps_if keeps_lift_res keeps_pair noted keeps_refl)
qed

lemma scoped_disabled: "scoped_policy (p\<lparr>bp_enabled := b\<rparr>) \<longleftrightarrow> scoped_policy p"
  by (simp add: scoped_policy_def)

lemma opt_out_result:
  assumes "operator_caller (be_caller e)" "py_strip spaces reason \<noteq> []" "load_registry (bs_registry s) = Inr rows"
  obtains body s' where "opt_out e reason s = (Inr body, s')" "en_state body = ''OPTED_OUT''"
    "bs_config s' = bs_config (put_policy e ((fst (policy_of e s))\<lparr>bp_enabled := False\<rparr>) s)"
    "bs_registry s' = bs_registry s"
    "bs_hold s' = Some \<lparr>hs_network = False, hs_file_profile = ''off'', hs_released = True, hs_reason = ''OPT_OUT''\<rparr>"
    "bs_audit s' = bs_audit (append_audit e ''opt-out'' ''OK'' (DReason reason) s)"
proof -
  define p where "p = (fst (policy_of e s))\<lparr>bp_enabled := False\<rparr>"
  have scoped: "scoped_policy p" by (simp add: p_def scoped_disabled policy_scoped)
  obtain s2 where s2: "run_hold remove_hold e p (put_policy e p s) = (Inr (), s2)" "core s2 = core (put_policy e p s)"
    using remove_hold_total [OF scoped] by blast
  define s5 where "s5 = daemon_reload e (install_tree e p (write_workload_dropins rows p False False True
      (if protected_paths rows \<noteq> [] then snd (write_profile e allow_profile s2) else s2)))"
  have s5: "core s5 = core (put_policy e p s)" using s2(2) by (simp add: s5_def)
  define body where "body = envelope ''opt-out'' ''OPTED_OUT''
      ''Boot hold is off. A root admin opted out, and the audit log records the reason. Enrolled workloads are not held.'' ''OPTED_OUT''"
  have "bs_registry (put_policy e p s) = bs_registry s" by (simp add: put_policy_def)
  then have eq: "opt_out e reason s = (Inr body, (append_audit e ''opt-out'' ''OK'' (DReason reason)
      (put_hold False ''off'' True ''OPT_OUT'' s5))\<lparr>bs_health := Some body\<rparr>)"
    using assms(2,3) s2(1) unfolding opt_out_def authorize_ok [OF assms(1)] then_s_simps Let_def
    unfolding p_def [symmetric] by (simp add: lift_res_def s5_def body_def)
  show thesis
    by (rule that [OF eq])
      (use core_eqD [OF s5] in \<open>auto simp: body_def envelope_def p_def put_hold_def bs_audit_append put_policy_def\<close>)
qed

lemma keeps_opt_out: "keeps s (snd (opt_out e reason s))"
proof (cases "operator_caller (be_caller e) \<and> py_strip spaces reason \<noteq> [] \<and> (\<exists>rows. load_registry (bs_registry s) = Inr rows)")
  case True
  then obtain body s' where s': "opt_out e reason s = (Inr body, s')" "bs_registry s' = bs_registry s"
    "bs_hold s' = Some \<lparr>hs_network = False, hs_file_profile = ''off'', hs_released = True, hs_reason = ''OPT_OUT''\<rparr>"
    "bs_audit s' = bs_audit (append_audit e ''opt-out'' ''OK'' (DReason reason) s)"
    using opt_out_result by (metis (no_types, lifting))
  have "ca_euid (be_caller e) = 0" using True operator_euid by blast
  with s' have "keeps s s'" by (intro keeps_released) (auto simp: bs_audit_append released_by_def)
  then show ?thesis using s'(1) by simp
next
  case False
  show ?thesis
    unfolding opt_out_def Let_def
    by (intro keeps_authorized)
      (use False in \<open>auto simp: put_policy_def intro!: keeps_trans [OF keeps_put_policy [unfolded put_policy_def] keeps_lift_res]\<close>)
qed

lemma keeps_opt_in: "keeps s (snd (opt_in e s))"
  unfolding opt_in_def
  by (intro keeps_authorized keeps_trans [OF keeps_trans [OF keeps_put_policy keeps_append_audit] keeps_apply_boot])

lemma keeps_configure: "keeps s (snd (configure e hold ordr s))"
  unfolding configure_def
  by (intro keeps_authorized keeps_lift_res keeps_trans [OF keeps_trans [OF keeps_put_policy keeps_append_audit] keeps_apply_boot])

lemma keeps_stop_observe: "keeps s (snd (stop_observe_container e name obs s))"
  by (rule keeps_core) (simp add: stop_observe_container_def run_cmd_def core_def Let_def)

lemma keeps_prepare: "keeps s (snd (prepare_enforce e cmdline iface name obs s))"
proof -
  have started: "keeps t (append_audit e a r d (t\<lparr>bs_trace := x\<rparr>))" for t a r d x
    by (rule keeps_trans [OF keeps_core keeps_append_audit]) (simp add: core_def)
  have failed: "keeps t (t\<lparr>bs_trace := x\<rparr>)" for t x by (rule keeps_core) (simp add: core_def)
  have prepared: "keeps t (t\<lparr>bs_slice := a, bs_policy_id := b, bs_container := c, bs_loader := d\<rparr>)" for t a b c d
    by (rule keeps_core) (simp add: core_def)
  show ?thesis
    unfolding prepare_enforce_def Let_def
    by (intro keeps_authorized)
      (auto simp: run_cmd_def split: option.splits
        intro!: keeps_trans [OF prepared keeps_then_s [OF keeps_stop_observe]] started failed)
qed

lemma keeps_network: "keeps s (snd (ensure_network e s))"
proof -
  have "keeps t (append_audit e a r d (t\<lparr>bs_trace := x\<rparr>))" for t a r d x
    by (rule keeps_trans [OF keeps_core keeps_append_audit]) (simp add: core_def)
  moreover have "keeps t (t\<lparr>bs_trace := x\<rparr>)" for t x by (rule keeps_core) (simp add: core_def)
  ultimately show ?thesis
    unfolding ensure_network_def Let_def by (intro keeps_authorized) (auto simp: run_cmd_def)
qed

lemma keeps_start_loader: "keeps s (snd (start_loader e s))"
  unfolding start_loader_def by (intro keeps_authorized keeps_lift_res) (simp add: keeps_append_audit)

lemmas keeps_ops = keeps_install keeps_apply_boot keeps_enable keeps_remove keeps_release keeps_enroll_systemd
  keeps_enroll_docker keeps_enroll_compose keeps_observe keeps_opt_out keeps_opt_in keeps_configure keeps_prepare
  keeps_network keeps_start_loader

lemma keeps_exec: "keeps s (boot_exec e op s)"
  by (cases op) (simp_all add: keeps_ops)

lemma keeps_reach: "boot_reach s t \<Longrightarrow> keeps s t"
  by (induction rule: boot_reach.induct) (auto intro: keeps_trans keeps_exec)

end
