(* ===== verification/Boot_Claims.thy ===== *)
theory Boot_Claims
  imports Boot_Session
begin

text \<open>
  The properties of the boot hold over whole operations and sessions, each at a concrete session where it has
  hypotheses.
\<close>

section \<open>A concrete host\<close>

definition sample_caller :: Caller where
  "sample_caller =
     \<lparr>ca_euid = 0, ca_pid = 4242, ca_comm = ''vantio-boot-hold'', ca_cgroup_text = ''0::/system.slice/ssh.service'',
      ca_pid1_comm = ''systemd''\<rparr>"

definition sample_env :: "string \<Rightarrow> Caller \<Rightarrow> BootEnv" where
  "sample_env rt c =
     \<lparr>be_root = rt, be_caller = c, be_now = ''2026-01-01T00:00:00Z'', be_python = ''/usr/bin/python3'',
      be_run = sample_filter, be_crypto = sample_crypto, be_trust = sample_trust\<rparr>"

definition fresh_boot :: BootState where
  "fresh_boot =
     \<lparr>bs_config = None, bs_registry = RegRows [sample_row True], bs_hold = None, bs_profile = None, bs_files = (\<lambda>_. None),
      bs_slice = False, bs_health = None, bs_audit = [], bs_policy_id = None, bs_container = None, bs_loader = None,
      bs_trace = []\<rparr>"

definition bare_facts :: ReadyFacts where
  "bare_facts =
     \<lparr>rf_bpf_pins = [], rf_loader_cmdline = [], rf_loader_health = [], rf_bpf_programs = [], rf_attachment = None,
      rf_policy_loaded = False, rf_self_check = None, rf_enforce_mode = [], rf_pins_current = False,
      rf_expected_policy_id = [], rf_loaded_policy_id = [], rf_active_lsm = None\<rparr>"

lemma sample_operator: "operator_caller (be_caller (sample_env rt sample_caller))"
  by (simp add: operator_caller_def sample_env_def sample_caller_def SLICE_def sublist_Cons_right)

lemma bare_not_ready: "\<not> rv_enforce_ready (evaluate_ready bare_facts)"
  by (simp add: evaluate_ready_def bare_facts_def attachment_ok_def Let_def)

lemma sample_may_release: "may_release (sample_env ''/'' sample_caller) False True True (\<lambda>_. bare_facts) 0 0 fresh_boot"
  by (simp add: may_release_def sample_operator) (simp add: fresh_boot_def readable_def)

theorem release_iff_witness:
  "\<exists>body s'. release (sample_env ''/'' sample_caller) False True True (\<lambda>_. bare_facts) 0 0 fresh_boot = (Inr body, s')
     \<and> released_hold (bs_hold s')"
proof (cases "release (sample_env ''/'' sample_caller) False True True (\<lambda>_. bare_facts) 0 0 fresh_boot")
  case (Pair r s')
  with release_iff [of "sample_env ''/'' sample_caller" False True True "\<lambda>_. bare_facts" 0 0 fresh_boot] sample_may_release
  show ?thesis by (cases r) simp_all
qed

section \<open>Properties of sessions\<close>

text \<open>
  C9: over any sequence of operations by any callers, the audit log only grows, the network hold and the
  released mark are never both set, a released state has an audit event of a root process that names the
  release it came from, and the registry keeps distinct ids.
\<close>

theorem boot_session_accounted:
  assumes "boot_reach s t" "hold_accounted (bs_hold s) (bs_audit s)" "file_ok (bs_registry s)"
  shows "prefix (bs_audit s) (bs_audit t) \<and> \<not> (st_network t \<and> st_released t) \<and> file_ok (bs_registry t)
    \<and> (st_released t \<longrightarrow> (\<exists>ev \<in> set (bs_audit t). ae_euid ev = 0 \<and> released_by (st_reason t) ev))"
  using keeps_reach [OF assms(1)] assms(2,3)
  by (auto simp: keeps_def hold_accounted_def st_network_def st_released_def st_reason_def split: option.splits)

definition sample_glass :: BootState where
  "sample_glass = boot_exec (sample_env ''/'' sample_caller) (BRelease False True True (\<lambda>_. bare_facts) 0 0) fresh_boot"

lemma sample_glass_hold:
  "bs_hold sample_glass = Some \<lparr>hs_network = False, hs_file_profile = ''allow'', hs_released = True, hs_reason = ''BREAK_GLASS''\<rparr>"
  "bs_registry sample_glass = RegRows [sample_row True]" "bs_config sample_glass = None"
proof -
  let ?e = "sample_env ''/'' sample_caller"
  let ?v = "wait_ready (\<lambda>_. bare_facts) 0 0"
  obtain released s1 where s1: "lift_hold ?e [sample_row True] (fst (policy_of ?e fresh_boot)) True fresh_boot = (Inr released, s1)"
    "core s1 = core fresh_boot"
    using lift_hold_total [OF policy_scoped] by blast
  have "sample_glass = snd (release_run ?e True ?v (fst (policy_of ?e fresh_boot)) [sample_row True] fresh_boot)"
    by (simp add: sample_glass_def release_def authorize_ok [OF sample_operator] lift_res_def Let_def)
      (simp add: fresh_boot_def load_registry_def)
  then obtain h where glass: "sample_glass = append_audit ?e ''release'' ''BREAK_GLASS'' (DLifted (Some ?v) released)
      ((put_hold False ''allow'' True ''BREAK_GLASS'' s1)\<lparr>bs_health := h\<rparr>)"
    using s1(1) by (auto simp: release_run_def Let_def)
  show "bs_hold sample_glass = Some \<lparr>hs_network = False, hs_file_profile = ''allow'', hs_released = True, hs_reason = ''BREAK_GLASS''\<rparr>"
    "bs_registry sample_glass = RegRows [sample_row True]" "bs_config sample_glass = None"
    unfolding glass using core_eqD [OF s1(2)] by (simp_all add: put_hold_def) (simp_all add: fresh_boot_def)
qed

theorem boot_session_accounted_witness:
  "st_released sample_glass \<and> st_reason sample_glass = ''BREAK_GLASS'' \<and> \<not> (st_network sample_glass \<and> st_released sample_glass)
   \<and> (\<exists>ev \<in> set (bs_audit sample_glass). ae_euid ev = 0 \<and> released_by ''BREAK_GLASS'' ev)"
proof -
  have reach: "boot_reach fresh_boot sample_glass"
    unfolding sample_glass_def by (intro reach_step reach_refl)
  have "hold_accounted (bs_hold fresh_boot) (bs_audit fresh_boot)" "file_ok (bs_registry fresh_boot)"
    by (simp_all add: fresh_boot_def hold_accounted_def file_ok_def registry_ok_def row_ok_def sample_row_def)
  from boot_session_accounted [OF reach this] show ?thesis
    by (simp add: st_released_def st_reason_def sample_glass_hold)
qed

fun op_action :: "boot_op \<Rightarrow> string" where
  "op_action BInstall = ''install''"
| "op_action BApplyBoot = ''apply-boot''"
| "op_action BEnable = ''apply-boot''"
| "op_action BRemove = ''remove''"
| "op_action (BRelease _ _ _ _ _ _) = ''release''"
| "op_action (BEnrollSystemd _ _) = ''enroll''"
| "op_action (BEnrollDocker _ _ _ _ _) = ''enroll''"
| "op_action (BEnrollCompose _ _) = ''enroll''"
| "op_action (BObserve _ _) = ''observe-unenrolled''"
| "op_action (BOptOut _) = ''opt-out''"
| "op_action BOptIn = ''opt-in''"
| "op_action (BConfigure _ _) = ''configure''"
| "op_action (BPrepare _ _ _ _) = ''prepare-enforce''"
| "op_action BNetwork = ''ensure-network''"
| "op_action BStartLoader = ''start-loader''"

text \<open>
  C24: the whole effect of any operation by a caller that is not root, not under the host's init, or inside the
  enrolled slice. One REFUSED event with the operation and the reason is added to the audit log and no command is run.
  Nothing else changes, with one exception: the entry point of the installer, where there is no configuration, has
  written the default one, with the hold on, before it asks who calls.
\<close>

theorem refused_caller_effect:
  assumes "\<not> operator_caller (be_caller e)"
  shows "boot_exec e op s =
    append_audit e (op_action op) ''REFUSED'' (DMessage (he_message (refusal_error (be_caller e))))
      (if op = BEnable \<and> bs_config s = None then put_policy e hold_default_policy s else s)"
  by (cases op)
    (simp_all add: authorize_refused [OF assms] audit_refusal_def install_def apply_boot_def enable_from_apply_def
      remove_from_apply_def release_def enroll_systemd_def enroll_docker_def enroll_compose_def observe_unenrolled_def
      opt_out_def opt_in_def configure_def prepare_enforce_def ensure_network_def start_loader_def)

definition enrolled_caller :: Caller where
  "enrolled_caller = sample_caller\<lparr>ca_cgroup_text := ''0::/vantio.slice/vantio-enrolled.slice/app.service''\<rparr>"

lemma enrolled_refused: "\<not> operator_caller (be_caller (sample_env rt enrolled_caller))"
  by (simp add: operator_caller_def sample_env_def enrolled_caller_def sample_caller_def SLICE_def sublist_Cons_right)

theorem refused_caller_effect_witness:
  "bs_hold (boot_exec (sample_env ''/'' enrolled_caller) (BRelease False True True (\<lambda>_. bare_facts) 0 0) fresh_boot) = None
   \<and> bs_trace (boot_exec (sample_env ''/'' enrolled_caller) (BRelease False True True (\<lambda>_. bare_facts) 0 0) fresh_boot) = []"
  unfolding refused_caller_effect [OF enrolled_refused]
  by (simp add: append_audit_def fresh_boot_def Let_def)

section \<open>Properties of the status\<close>

lemma overall_held_iff:
  "fst (status_overall e s) = ''HELD'' \<longleftrightarrow>
     readable (bs_registry s) \<and> bp_enabled (fst (policy_of e s)) \<and> st_network s \<and> \<not> st_released s"
  by (cases "bs_registry s") (simp_all add: status_overall_def load_registry_def readable_def Let_def)

lemma status_state: "sb_state (status_body e l s) = fst (status_overall e s)"
  by (simp add: status_body_def Let_def split: prod.splits)

lemma status_workloads:
  assumes "load_registry (bs_registry s) = Inr rows"
  shows "\<exists>extra. sb_workloads (status_body e l s) = workload_view rows (fst (status_overall e s) = ''HELD'') @ extra
           \<and> list_all (\<lambda>v. wv_protection v = ''UNPROTECTED'') extra"
  using assms by (auto simp: status_body_def Let_def split: prod.splits)

text \<open>
  The status is HELD exactly when the registry is readable, the policy has the hold enabled, and the hold
  state records the packet hold and no release; a workload is shown as HELD exactly when it is enrolled and
  the status is HELD.
\<close>

theorem status_held_iff:
  assumes "load_registry (bs_registry s) = Inr rows"
  shows "(sb_state (status_body e l s) = ''HELD'' \<longleftrightarrow> bp_enabled (fst (policy_of e s)) \<and> st_network s \<and> \<not> st_released s)
    \<and> (\<forall>v. v \<in> set (sb_workloads (status_body e l s)) \<and> wv_protection v = ''HELD'' \<longleftrightarrow>
           sb_state (status_body e l s) = ''HELD''
           \<and> (\<exists>row. row \<in> set rows \<and> wl_enrolled row
                 \<and> v = \<lparr>wv_id = wl_id row, wv_kind = wl_kind row, wv_enrolled = ''yes'', wv_protection = ''HELD''\<rparr>))"
proof -
  have "readable (bs_registry s)" using assms by (auto simp: readable_iff)
  moreover obtain extra where "sb_workloads (status_body e l s) = workload_view rows (fst (status_overall e s) = ''HELD'') @ extra"
    "list_all (\<lambda>v. wv_protection v = ''UNPROTECTED'') extra"
    using status_workloads [OF assms] by blast
  ultimately show ?thesis
    by (auto simp: status_state overall_held_iff workload_view_def list_all_iff image_iff split: if_splits)
qed

definition sample_held :: BootState where
  "sample_held =
     fresh_boot\<lparr>bs_hold := Some \<lparr>hs_network = True, hs_file_profile = ''deny'', hs_released = False, hs_reason = ''boot-hold''\<rparr>\<rparr>"

theorem status_held_iff_witness:
  "sb_state (status_body (sample_env ''/'' sample_caller) [] sample_held) = ''HELD''
   \<and> (\<exists>v. v \<in> set (sb_workloads (status_body (sample_env ''/'' sample_caller) [] sample_held)) \<and> wv_protection v = ''HELD'')"
proof -
  have reg: "load_registry (bs_registry sample_held) = Inr [sample_row True]"
    by (simp add: sample_held_def fresh_boot_def load_registry_def)
  have "bp_enabled (fst (policy_of (sample_env ''/'' sample_caller) sample_held))" "st_network sample_held" "\<not> st_released sample_held"
    by (simp_all add: policy_of_def sample_held_def fresh_boot_def load_hold_policy_def hold_default_policy_def st_network_def st_released_def)
  moreover have "wl_enrolled (sample_row True)" by (simp add: sample_row_def)
  ultimately show ?thesis
    using status_held_iff [OF reg, of "sample_env ''/'' sample_caller" "[]"] by (metis list.set_intros(1))
qed

text \<open>
  C39: a release that requires enforcement and does not find it records the packet hold as on without running a
  command. After a break-glass release took the rules away, the status then says HELD while they are gone.
\<close>

theorem failed_release_reports_held:
  assumes "operator_caller (be_caller e)" "load_registry (bs_registry s) = Inr rows" "bp_enabled (fst (policy_of e s))"
    and "\<And>i. \<not> rv_enforce_ready (evaluate_ready (facts i))"
  shows "bs_trace (snd (release e True False operator_flag facts rounds w s)) = bs_trace s
    \<and> sb_state (status_body e l (snd (release e True False operator_flag facts rounds w s))) = ''HELD''"
proof -
  let ?v = "wait_ready facts rounds w"
  define s' where "s' = snd (release e True False operator_flag facts rounds w s)"
  have "\<not> rv_enforce_ready ?v" using assms(4) by (simp add: wait_ready_iff)
  then have s': "s' = snd (release_run e False ?v (fst (policy_of e s)) rows s)"
    "bs_trace s' = bs_trace s" "bs_config s' = bs_config s" "bs_registry s' = bs_registry s" "st_network s'" "\<not> st_released s'"
    using assms(1,2)
    by (auto simp: s'_def release_def authorize_ok lift_res_def release_run_def Let_def put_hold_def append_audit_def
        st_network_def st_released_def)
  have "policy_of e s' = policy_of e s" using s'(3) by (simp add: policy_of_def)
  then show ?thesis
    using s'(2,4-6) assms(2,3) unfolding s'_def [symmetric] by (simp add: status_state overall_held_iff readable_iff)
qed

theorem failed_release_reports_held_witness:
  "st_released sample_glass \<and> \<not> st_network sample_glass
   \<and> bs_trace (snd (release (sample_env ''/'' sample_caller) True False False (\<lambda>_. bare_facts) 0 0 sample_glass)) = bs_trace sample_glass
   \<and> sb_state (status_body (sample_env ''/'' sample_caller) []
        (snd (release (sample_env ''/'' sample_caller) True False False (\<lambda>_. bare_facts) 0 0 sample_glass))) = ''HELD''"
proof -
  have reg: "load_registry (bs_registry sample_glass) = Inr [sample_row True]"
    by (simp add: sample_glass_hold load_registry_def)
  have on: "bp_enabled (fst (policy_of (sample_env ''/'' sample_caller) sample_glass))"
    by (simp add: policy_of_def sample_glass_hold load_hold_policy_def hold_default_policy_def)
  show ?thesis
    using failed_release_reports_held [OF sample_operator reg on bare_not_ready]
    by (simp add: st_released_def st_network_def sample_glass_hold)
qed

text \<open>
  An opt-out by a root operator answers OPTED_OUT. Under a fixture root the status then says OPTED_OUT; on a
  live host it never does, because the plain file the opt-out writes is refused and the default policy, with
  the hold on, is loaded in its place.
\<close>

theorem opt_out_kept_iff_fixture:
  assumes "operator_caller (be_caller e)" "py_strip spaces reason \<noteq> []" "load_registry (bs_registry s) = Inr rows"
  shows "\<exists>body s'. opt_out e reason s = (Inr body, s') \<and> en_state body = ''OPTED_OUT''
    \<and> (sb_state (status_body e l s') = ''OPTED_OUT'' \<longleftrightarrow> \<not> live_root e)
    \<and> (live_root e \<longrightarrow> policy_of e s' = (hold_default_policy, [unsigned_note]))"
proof -
  let ?p = "(fst (policy_of e s))\<lparr>bp_enabled := False\<rparr>"
  obtain body s' where s': "opt_out e reason s = (Inr body, s')" "en_state body = ''OPTED_OUT''"
    "bs_config s' = bs_config (put_policy e ?p s)" "bs_registry s' = bs_registry s"
    using opt_out_result [OF assms] by metis
  have live: "live_root e \<Longrightarrow> policy_of e s' = (hold_default_policy, [unsigned_note])"
    using load_saved_live s'(3) by (simp add: policy_of_def put_policy_def)
  have "probe_ok (bp_deny_probe (policy_from_dict d))" "probe_ok (bp_deny_probe hold_default_policy)" for d
    by (simp_all add: policy_from_dict_def probe_of_value_ok) (simp add: hold_default_policy_def probe_ok_def)
  then have "probe_ok (bp_deny_probe (fst (policy_of e s)))"
    unfolding policy_of_def by (cases rule: load_policy_cases [of "be_crypto e" "be_trust e" "live_root e" "bs_config s"]) simp_all
  then have "probe_ok (bp_deny_probe ?p)" by simp
  then have fixture: "\<not> live_root e \<Longrightarrow> fst (policy_of e s') = ?p"
    using load_saved_plain [of ?p] s'(3) by (simp add: policy_of_def put_policy_def scoped_disabled load_policy_scoped)
  have "sb_state (status_body e l s') = ''OPTED_OUT'' \<longleftrightarrow> \<not> bp_enabled (fst (policy_of e s'))"
    using assms(3) s'(4) by (auto simp: status_state status_overall_def Let_def)
  then show ?thesis
    using s'(1,2) live fixture by (cases "live_root e") (simp_all add: hold_default_policy_def)
qed

theorem opt_out_kept_iff_fixture_witness:
  "(\<exists>body s'. opt_out (sample_env ''/'' sample_caller) ''maintenance'' fresh_boot = (Inr body, s') \<and> en_state body = ''OPTED_OUT''
       \<and> sb_state (status_body (sample_env ''/'' sample_caller) [] s') \<noteq> ''OPTED_OUT'')
   \<and> (\<exists>body s'. opt_out (sample_env ''/fixture'' sample_caller) ''maintenance'' fresh_boot = (Inr body, s')
       \<and> sb_state (status_body (sample_env ''/fixture'' sample_caller) [] s') = ''OPTED_OUT'')"
proof -
  have reason: "py_strip spaces ''maintenance'' \<noteq> []" by code_simp
  have reg: "load_registry (bs_registry fresh_boot) = Inr [sample_row True]" by (simp add: fresh_boot_def load_registry_def)
  have "live_root (sample_env ''/'' sample_caller)" "\<not> live_root (sample_env ''/fixture'' sample_caller)"
    by (simp_all add: live_root_def sample_env_def)
  then show ?thesis
    using opt_out_kept_iff_fixture [OF sample_operator reason reg] by metis
qed

section \<open>Properties of the installer's entry points\<close>

text \<open>The commands the entry points of the installer run on a live host.\<close>

definition entry_argvs :: "argv list" where
  "entry_argvs =
     [[''/usr/sbin/apparmor_parser'', ''-V''], [''apparmor_parser'', ''-V''],
      [''/usr/sbin/apparmor_parser'', ''-r'', ''-K'', ''-T'', ''/etc/apparmor.d/vantio-boot-hold''],
      [''apparmor_parser'', ''-r'', ''-K'', ''-T'', ''/etc/apparmor.d/vantio-boot-hold''],
      [''systemctl'', ''daemon-reload'']] @ hold_argvs hold_default_policy"

lemma entry_argvs_guarded: "list_all (\<lambda>c. live_runner_guard c = Inr ()) entry_argvs"
  by code_simp

definition issued :: "BootState \<Rightarrow> BootState \<Rightarrow> bool" where
  "issued s s' = (\<exists>new. bs_trace s' = bs_trace s @ new \<and> set new \<subseteq> set entry_argvs)"

lemma issued_refl [simp]: "issued s s" by (simp add: issued_def)

lemma issued_trans: "issued s t \<Longrightarrow> issued t u \<Longrightarrow> issued s u"
  unfolding issued_def by fastforce

lemma issued_same: "bs_trace s' = bs_trace s \<Longrightarrow> issued s s'" by (simp add: issued_def)

lemma issued_cmd: "argv \<in> set entry_argvs \<Longrightarrow> issued s (snd (run_cmd e argv s))"
  by (simp add: issued_def run_cmd_def)

lemma issued_extends:
  assumes "extends (set (hold_argvs p)) n (bs_trace s) t" "scoped_policy p"
  shows "issued s (s\<lparr>bs_trace := t\<rparr>)"
  using assms(1) unfolding hold_argvs_scoped [OF assms(2)] by (auto simp: issued_def extends_def entry_argvs_def)

lemma issued_install_hold: "scoped_policy p \<Longrightarrow> run_hold install_hold e p s = (r, s') \<Longrightarrow> issued s s'"
  using issued_extends [OF install_hold_run(2)] by (auto simp: run_hold_def split: prod.splits) (metis snd_conv)

lemma issued_remove_hold: "scoped_policy p \<Longrightarrow> run_hold remove_hold e p s = (r, s') \<Longrightarrow> issued s s'"
  using issued_extends [OF remove_hold_run(2)] by (auto simp: run_hold_def split: prod.splits) (metis snd_conv)

lemma issued_write_profile: "live_root e \<Longrightarrow> issued s (snd (write_profile e txt s))"
proof -
  assume live: "live_root e"
  then show ?thesis
    by (auto simp: write_profile_def run_cmd_def rooted_def PROFILE_REL_def issued_def entry_argvs_def Let_def)
qed

lemma issued_daemon_reload: "issued s (daemon_reload e s)"
  by (simp add: daemon_reload_def issued_cmd entry_argvs_def)

lemma bs_trace_keep [simp]:
  "bs_trace (install_tree e p s) = bs_trace s" "bs_trace (write_workload_dropins rows p a b c s) = bs_trace s"
  "bs_trace (append_audit e act r d s) = bs_trace s" "bs_trace (put_hold n f rl m s) = bs_trace s"
  "bs_trace (put_policy e p s) = bs_trace s"
  by (simp_all add: install_tree_def write_workload_dropins_def append_audit_def put_hold_def put_policy_def Let_def)

lemma issued_end: "issued s t \<Longrightarrow> bs_trace u = bs_trace t \<Longrightarrow> issued s u"
  by (simp add: issued_def)

lemma issued_hold_off:
  assumes "live_root e" "scoped_policy p"
  shows "issued s (snd (hold_off e p nts rows s))"
proof -
  obtain s1 where s1: "run_hold remove_hold e p s = (Inr (), s1)" using remove_hold_total [OF assms(2)] by blast
  define s2 where "s2 = (if protected_paths rows \<noteq> [] then snd (write_profile e allow_profile s1) else s1)"
  have "issued s s2"
    using issued_remove_hold [OF assms(2) s1] issued_write_profile [OF assms(1)] by (auto simp: s2_def intro: issued_trans)
  then have "issued s (daemon_reload e (write_workload_dropins rows p False False True (put_hold False ''off'' True ''hold-off'' s2)))"
    by (intro issued_trans [OF _ issued_daemon_reload]) (erule issued_end, simp)
  then show ?thesis
    by (rule issued_end) (simp add: hold_off_def s1 s2_def Let_def)
qed

lemma issued_hold_on:
  assumes "live_root e" "scoped_policy p"
  shows "issued s (snd (hold_on e p rows s))"
proof -
  obtain st s1 where s1: "(if protected_paths rows \<noteq> [] then write_profile e (deny_profile (protected_paths rows)) s else (''NO_PATHS'', s)) = (st, s1)"
    by fastforce
  have r1: "issued s s1" using issued_write_profile [OF assms(1), of s] s1 by (metis issued_refl snd_conv)
  define s2 where "s2 = write_workload_dropins rows p True (st = ''LOADED'') True s1"
  obtain r s3 where s3: "run_hold install_hold e p s2 = (r, s3)" by fastforce
  have "issued s s3"
    using issued_trans [OF issued_end [OF r1] issued_install_hold [OF assms(2) s3]] by (simp add: s2_def)
  moreover from this have "issued s (daemon_reload e (s3\<lparr>bs_slice := True\<rparr>))"
    by (intro issued_trans [OF _ issued_daemon_reload]) (erule issued_end, simp)
  moreover have "bs_trace (snd (hold_on e p rows s))
      = (case r of Inl _ \<Rightarrow> bs_trace s3 | Inr _ \<Rightarrow> bs_trace (daemon_reload e (s3\<lparr>bs_slice := True\<rparr>)))"
    using s1 s3 by (cases r) (simp_all add: hold_on_def Let_def s2_def [symmetric])
  ultimately show ?thesis by (cases r) (simp_all add: issued_def)
qed

lemma issued_apply_boot:
  assumes "live_root e"
  shows "issued s (snd (apply_boot e s))"
proof (cases "operator_caller (be_caller e)")
  case True
  obtain p nts where p: "policy_of e s = (p, nts)" by fastforce
  then have scoped: "scoped_policy p" using policy_scoped [of e s] by simp
  show ?thesis
  proof (cases "load_registry (bs_registry s)")
    case (Inl err)
    then show ?thesis by (simp add: apply_boot_def authorize_ok [OF True] p lift_res_def)
  next
    case (Inr rows)
    have "issued s (snd (if \<not> fst (mechanisms_active p) then hold_off e p nts rows (install_tree e p s) else hold_on e p rows (install_tree e p s)))"
      using issued_hold_off [OF assms scoped, of "install_tree e p s"] issued_hold_on [OF assms scoped, of "install_tree e p s"]
      by (simp add: issued_def)
    then show ?thesis using Inr by (simp add: apply_boot_def authorize_ok [OF True] p lift_res_def Let_def)
  qed
next
  case False
  then show ?thesis by (intro issued_same) (simp add: apply_boot_def authorize_refused audit_refusal_def)
qed

lemma issued_remove:
  assumes "live_root e"
  shows "issued s (snd (remove_from_apply e s))"
proof (cases "operator_caller (be_caller e)")
  case True
  obtain s1 where s1: "run_hold remove_hold e (fst (policy_of e s)) s = (Inr (), s1)"
    using remove_hold_total [OF policy_scoped] by blast
  show ?thesis
    using issued_remove_hold [OF policy_scoped s1]
    by (rule issued_end) (simp add: remove_from_apply_def authorize_ok [OF True] s1 Let_def)
next
  case False
  then show ?thesis by (intro issued_same) (simp add: remove_from_apply_def authorize_refused audit_refusal_def)
qed

text \<open>
  On a live host the guard of the live runner never refuses a command of the two entry points the installer
  uses: every command that enabling the hold or removing it runs is one of a fixed list, and the guard accepts
  the whole list.
\<close>

theorem entry_commands_guarded:
  assumes "live_root e" "op = BEnable \<or> op = BRemove"
  shows "\<exists>new. bs_trace (boot_exec e op s) = bs_trace s @ new \<and> set new \<subseteq> set entry_argvs
    \<and> list_all (\<lambda>c. live_runner_guard c = Inr ()) new"
proof -
  have "issued s (put_policy e hold_default_policy s)" by (simp add: issued_same)
  then have "issued s (snd (enable_from_apply e s))"
    using issued_trans issued_apply_boot [OF assms(1)] by (auto simp: enable_from_apply_def)
  then have "issued s (boot_exec e op s)"
    using assms(2) issued_remove [OF assms(1)] by auto
  then show ?thesis using entry_argvs_guarded by (auto simp: issued_def list_all_iff)
qed

theorem entry_commands_guarded_witness:
  "\<exists>new. bs_trace (boot_exec (sample_env ''/'' sample_caller) BEnable fresh_boot) = [] @ new \<and> set new \<subseteq> set entry_argvs
    \<and> list_all (\<lambda>c. live_runner_guard c = Inr ()) new"
proof -
  have "live_root (sample_env ''/'' sample_caller)" by (simp add: live_root_def sample_env_def)
  from entry_commands_guarded [OF this, of BEnable fresh_boot] show ?thesis by (simp add: fresh_boot_def)
qed

text \<open>
  Removing the hold deletes the units but not the drop-ins of the enrolled workloads: a drop-in that
  requires the boot-hold service stays, while the service it requires is gone.
\<close>

theorem removal_leaves_gate_dropins:
  assumes "operator_caller (be_caller e)" "unit \<notin> {''docker.service'', ''containerd.service''}"
  shows "bs_files (boot_exec e BRemove s) (unit_dropin_path unit) = bs_files s (unit_dropin_path unit)
    \<and> bs_files (boot_exec e BRemove s) (in_system ''vantio-boot-hold.service'') = None"
proof -
  let ?p = "fst (policy_of e s)"
  let ?rels = "map fst (static_units ''/usr/bin/python3'' ?p) @ map fst wants_links"
  obtain s1 where s1: "run_hold remove_hold e ?p s = (Inr (), s1)"
    using remove_hold_total [OF policy_scoped] by blast
  then have files1: "bs_files s1 = bs_files s" by (auto simp: run_hold_def split: prod.splits)
  have cleared: "foldl (\<lambda>files rel. files(rel := None)) files rels k = (if k \<in> set rels then None else files k)"
    for files :: "string \<Rightarrow> node option" and rels k
    by (induction rels arbitrary: files) auto
  have "bs_files (boot_exec e BRemove s) = foldl (\<lambda>files rel. files(rel := None)) (bs_files s) ?rels"
    using s1 files1 by (simp add: remove_from_apply_def authorize_ok [OF assms(1)] Let_def append_audit_def put_hold_def)
  moreover have "unit_dropin_path unit \<notin> set ?rels"
    using assms(2) by (auto simp: unit_dropin_path_def in_system_def static_units_def wants_links_def append_eq_Cons_conv)
  moreover have "in_system ''vantio-boot-hold.service'' \<in> set ?rels" by (simp add: static_units_def)
  ultimately show ?thesis by (auto simp: cleared)
qed

definition gated_boot :: BootState where
  "gated_boot =
     fresh_boot\<lparr>bs_files := [unit_dropin_path ''app.service'' \<mapsto> NFile (hold_dropin_text True True [] False False True)]\<rparr>"

theorem removal_leaves_gate_dropins_witness:
  "bs_files (boot_exec (sample_env ''/'' sample_caller) BRemove gated_boot) (unit_dropin_path ''app.service'')
      = Some (NFile (hold_dropin_text True True [] False False True))
   \<and> bs_files (boot_exec (sample_env ''/'' sample_caller) BRemove gated_boot) (in_system ''vantio-boot-hold.service'') = None"
  using removal_leaves_gate_dropins [OF sample_operator, of "''app.service''" "''/''" gated_boot] by (simp add: gated_boot_def)

end
