(* ===== verification/Spec2Isabelle.thy ===== *)
theory Spec2Isabelle
  imports T5_Allow T5_Kernel_Props T5_Loader Install_Session Install_Verifier Install_Ready Install_Live_Props Boot_Claims
begin

text \<open>
  Verification of the decision and installation code of vantio open core. Three Python programs are
  modelled: the egress decision library \<open>packages/t5-egress-drills/t5_egress\<close>, its kernel port
  \<open>packages/t5-egress-kernel/t5_kernel\<close>, and the transactional installer
  \<open>packages/vantio-install/vantio_install\<close>.

  \<^bold>\<open>Parts and theories.\<close>

  \<^item> \<open>Py_Base\<close> holds what the sources use of Python: \<open>pyval\<close> for values read from JSON, \<open>split\<close>,
    \<open>join\<close>, \<open>strip\<close>, digit strings, bytes as 8 bit words, big-endian reads, results as sums. It has
    the lemmas all the components share.
  \<^item> \<open>T5_Decision\<close> (\<open>decision.py\<close>), \<open>T5_Address\<close> (\<open>address.py\<close>), \<open>T5_Names\<close> (\<open>names.py\<close>),
    \<open>T5_Policy\<close> (\<open>policy.py\<close>), \<open>T5_Entropy\<close> (\<open>entropy.py\<close>, \<open>skb_signal.py\<close>), \<open>T5_Dns_Wire\<close>
    (\<open>dns_wire.py\<close> and the DNS builders of \<open>fixtures.py\<close>) and \<open>T5_Volume\<close> (\<open>volume.py\<close>, with the
    abstract sliding window in \<open>Gate_Spec\<close>) are the parts the decisions call; \<open>T5_Decide\<close> has the
    decision entry points of \<open>dns_decide.py\<close>, \<open>loop_decide.py\<close>, \<open>http_decide.py\<close> and
    \<open>icmp_decide.py\<close>; \<open>T5_Allow\<close> says exactly when each of them allows.
  \<^item> \<open>T5_Kernel\<close> (\<open>decide.py\<close>, \<open>reasons.py\<close>) is the kernel classifier with its fixed window,
    \<open>T5_Kernel_Names\<close> and \<open>T5_Kernel_Props\<close> relate it to user space, \<open>T5_Loader\<close> (\<open>loader.py\<close>) has
    the configuration packing and the attach refusal.
  \<^item> \<open>Install_State\<close> (\<open>state_machine.py\<close>, the transaction record of \<open>engine.py\<close>), \<open>Install_Health\<close>
    (\<open>health.py\<close>, \<open>observe_health.py\<close>), \<open>Install_Engine\<close> (the commands of \<open>engine.py\<close>) and
    \<open>Install_Engine_Props\<close>, \<open>Install_Recovery\<close> (invariants over whole sessions, the rollback order,
    interrupted transactions).
  \<^item> \<open>Install_Commands\<close> (\<open>commands.py\<close>, the guards and the catalog of \<open>live_executor.py\<close>),
    \<open>Install_Prefix\<close> (\<open>optics_cli.py\<close>, \<open>agent_sdk.py\<close>), \<open>Install_Grub\<close> (\<open>host_prep.py\<close>),
    \<open>Install_Mutator\<close> (\<open>FixtureMutator\<close> of \<open>mutator.py\<close>, \<open>bpf_pins.py\<close>, \<open>enroll.py\<close>,
    \<open>residual.py\<close>) are the host side; \<open>Install_Progress\<close> and \<open>Install_Removal\<close> join it to the
    engine, and \<open>Install_Session\<close> has the concrete sessions the properties are applied to.
  \<^item> \<open>Install_Docker\<close> (\<open>docker_object.py\<close>), \<open>Install_Files\<close> (\<open>paths.py\<close>, \<open>manifest.py\<close>, the pins of
    \<open>constants.py\<close>), \<open>Install_License\<close> (\<open>license_token.py\<close>), \<open>Install_Oci\<close> (\<open>oci_load.py\<close>) and
    \<open>Install_Preflight\<close> (\<open>preflight.py\<close>, \<open>kernel_lockdown.py\<close>) are the checks before the first live
    command; \<open>Install_Ready\<close> says when they pass, and \<open>Install_Verifier\<close> (\<open>verifier.py\<close>) is the
    independent check of the evidence afterwards.
  \<^item> \<open>Install_Grant\<close> (\<open>authorize_live\<close>) and \<open>Install_Live\<close> (\<open>dispatch\<close>, \<open>execute_step\<close>) are the live side
    of \<open>live_executor.py\<close>; \<open>Install_Live_Props\<close> has what they guarantee.
  \<^item> \<open>Boot_Ready\<close> and \<open>Boot_Deny\<close> (\<open>boot_hold/readiness.py\<close>, \<open>lifecycle.py\<close>), \<open>Boot_Policy\<close>
    (\<open>signed_policy.py\<close>, \<open>boot_hold/policy.py\<close>), \<open>Boot_Net\<close> (\<open>net.py\<close>), \<open>Boot_Registry\<close>
    (\<open>registry.py\<close>) and \<open>Boot_Units\<close> (\<open>units.py\<close>, \<open>files.py\<close>, \<open>graph.py\<close>) are the parts of the
    boot hold; \<open>Boot_Service\<close> (\<open>service.py\<close>, \<open>identity.py\<close>, \<open>audit.py\<close>) has its operations,
    \<open>Boot_Props\<close>, \<open>Boot_Session\<close> and \<open>Boot_Claims\<close> what they guarantee one by one and in any sequence.

  \<^bold>\<open>Interfaces.\<close> The volume gate is the locale of \<open>Gate_Spec\<close>, interpreted on \<open>gate_hit_stamp\<close>. What
  the engine needs of a mutator when it rolls back is the locale \<open>rollback_contract\<close>, extended by
  \<open>removal_contract\<close> for an uninstall; both are interpreted on the fixture mutator, the first whatever it
  simulates, and the lemmas are proved once inside them. The enrollment registry is the locale
  \<open>keyed_store\<close>, interpreted on \<open>upsert\<close> and \<open>find_workload\<close>. What the packet hold relies on of \<open>iptables\<close> is
  the predicate \<open>filter_laws\<close>, which says for each command of the hold how the rule tables change and when
  it succeeds, as its manual page does; \<open>sample_filter_laws\<close> shows a filter that satisfies it.

  \<^bold>\<open>State.\<close> The decisions are functions of their inputs; the volume gate and the kernel window are
  passed and returned. A command of the installer is a function from a run, the list of the worlds
  it went through, newest first, to a longer run: each write of a file and each call of the mutator
  is an entry, so a killed process leaves one of them behind. The inductive predicate \<open>session\<close> is
  any sequence of commands, complete or killed, with any change outside the transaction record in
  between. The state of the boot hold is the record \<open>BootState\<close> of its files, with the list of the
  commands run; the runner is any function of that list to an exit code, so every host is covered. In the
  live deny check it may also raise, and so may the reading of the log. The inductive
  predicate \<open>boot_reach\<close> is any sequence of operations by any callers. The state of the live executor
  is the map of the regular files beside the rest of the host, which is a type variable, and the
  trace of log lines, commands and file operations, oldest first; an action returns its outcome with
  the state it left, also when it raises.

  \<^bold>\<open>What the lemmas show.\<close> For each decision, the exact condition of an allow and that nothing else is
  transmitted in enforce mode; that the volume gate refines a sliding window over the whole history;
  that the name walk and the builders are inverse; that the kernel walk and match agree with user
  space on names without pointers and where they differ. For the installer, that the saved
  transaction is consistent whatever happened, that success is backed by the evidence in the saved
  snapshot, that apply reaches a verdict when the host steps succeed, that rollback and uninstall
  undo what they must in the right order and that the verification then finds nothing, and that no
  command line of the catalog runs a program it should not. Behaviour that is surprising is stated
  as such: a lock that is never taken over, and an apply that cannot be resumed after
  \<open>mark_applied\<close>. For the boot hold, exactly when a release succeeds, that a refused caller changes
  nothing, that every released state is accounted for in the audit log, that a live host follows
  only a signed configuration, that the packet rules are scoped, put in place and taken away, that
  the units pass the dependency check for every policy, and what the live deny check proves; and,
  as surprising behaviour, a status HELD without packet rules, an opt-out a live host does not
  keep, two gaps in the checks on enrolled names and paths, the default configuration a refused caller
  leaves behind, and a deny check whose exception stays in the hold when the first reading of the log
  raises. For the live side, exactly when
  preflight is READY, the lockdown check passes, a license token is accepted and a live grant is
  given; that the log of a step has a PENDING and a final line for every operation, in order, however
  the step ends; what an operation that succeeds has checked before its command; when a stop or a
  removal of the container counts as done; that a corrected image archive needs no correction; that
  exactly when the independent verifier passes, and that it recomputes the same health; and, as surprising
  behaviour, that it passes a stated residual UNKNOWN whatever is left and never the residual report a
  live host with leftovers writes. The claims on rollback and uninstall are about the fixture mutator.

  \<^bold>\<open>Bounds and fuel.\<close> Loops are structural recursions, or end by the limits the code has: 128 steps
  of the name budget in user space, 16 in the kernel, the number of extension headers, the number of
  polls of the readiness wait, the eight deletions of a packet rule. The waits of the boot hold run
  over the number of rounds the clock allows. The entropy is a real number where the code has a
  double. Texts are Latin-1; Python's limit on the length of integer literals is not modelled.

  \<^bold>\<open>Not modelled.\<close> SHA-256, the signature scheme, the JSON parser on bytes, the tar format, the
  resolution of links, the text of a float, the processes that are started (\<open>docker\<close>, \<open>iptables\<close>,
  \<open>systemctl\<close>), the clock and the process table are parameters of the definitions that use them, and
  so are the verdicts of the host observer that the live executor asks for. A runner that raises is
  modelled in the live deny check only; elsewhere it answers with an exit code. The commands of the probe
  of enforcement facts are not in the trace of a release. \<open>LiveMutator\<close>, which
  strings live steps together and collects what they saw, \<open>cli.py\<close>, \<open>self_serve.py\<close>, the bundle
  download, the checks of artifact signatures, enforcement enrolment and the trust override that only
  tests use are left out, as are the command line and the probe link of the boot hold and its reload
  of the observe profile, the packages for Node, the agent SDK, the evidence contract and the cloud
  scripts.
\<close>

end
